(* ===== verification/DS_Prelude.thy ===== *)
theory DS_Prelude
  imports Main "HOL-Library.Sublist" "HOL-Library.Char_ord" "HOL-Library.List_Lexorder"
begin

section \<open>Prelude: outcomes, error codes, C strings, ordered maps\<close>

text \<open>
  What the component theories share: the outcome of a C++ call (a value, an exception or
  undefined behaviour), the error codes of the Thunder core and of the device-settings HAL,
  the C and C++ string functions the plugin uses, and \<open>std::map\<close> as a key-sorted list.

  The enumerators of \<open>dsError_t\<close> and of \<open>WPEFramework::Core\<close> come from headers outside
  the repository; they are modelled by name, with a constructor for every code the plugin
  tests and one for all the others. Nothing depends on their numeric values.
\<close>

named_theorems cstring_simps "facts that evaluate the C string functions"

subsection \<open>Outcomes and error codes\<close>

datatype 'a outcome = Ret 'a | Throw string | UB

fun returns :: "'a outcome \<Rightarrow> bool" where
  "returns (Ret _) = True"
| "returns (Throw _) = False"
| "returns UB = False"

fun obind :: "'a outcome \<Rightarrow> ('a \<Rightarrow> 'b outcome) \<Rightarrow> 'b outcome" where
  "obind (Ret x) f = f x"
| "obind (Throw e) f = Throw e"
| "obind UB f = UB"

lemma obind_Ret_iff: "obind x f = Ret y \<longleftrightarrow> (\<exists>z. x = Ret z \<and> f z = Ret y)"
  by (cases x) auto

datatype dsError =
    DsERR_NONE
  | DsERR_GENERAL
  | DsERR_INVALID_PARAM
  | DsERR_INVALID_STATE
  | DsERR_OPERATION_NOT_SUPPORTED
  | DsERR_other int

datatype coreErr =
    ERROR_NONE
  | ERROR_GENERAL
  | ERROR_UNAVAILABLE
  | ERROR_BAD_REQUEST
  | ERROR_ILLEGAL_STATE
  | ERROR_other int

subsection \<open>Characters and C strings\<close>

text \<open>A C string is the list of its characters before the terminating NUL.\<close>

definition nl :: char where "nl = CHR 0x0A"

definition tab :: char where "tab = CHR 0x09"

definition c_str :: "string \<Rightarrow> string" where
  "c_str s = takeWhile (\<lambda>c. c \<noteq> CHR 0x00) s"

definition isspace :: "char \<Rightarrow> bool" where
  "isspace c \<longleftrightarrow> c \<in> set [CHR 0x09, CHR 0x0A, CHR 0x0B, CHR 0x0C, CHR 0x0D, CHR 0x20]"

definition tolower_c :: "char \<Rightarrow> char" where
  "tolower_c c = (let n = (of_char c :: nat)
     in if 65 \<le> n \<and> n \<le> 90 then char_of (n + 32) else c)"

text \<open>\<open>strncasecmp (a, b, n) == 0\<close> on two C strings.\<close>

definition strncasecmp0 :: "string \<Rightarrow> string \<Rightarrow> nat \<Rightarrow> bool" where
  "strncasecmp0 a b n \<longleftrightarrow> map tolower_c (take n a) = map tolower_c (take n b)"

text \<open>\<open>strstr (s, p) != NULL\<close> and \<open>s.find (p) != npos\<close>.\<close>

fun contains :: "string \<Rightarrow> string \<Rightarrow> bool" where
  "contains [] p = (p = [])"
| "contains (c # s) p = (prefix p (c # s) \<or> contains s p)"

lemma contains_iff_sublist: "contains s p \<longleftrightarrow> sublist p s"
  by (induction s) (auto simp: sublist_Cons_right)

lemma contains_append [intro]: "contains (xs @ p @ ys) p"
  by (auto simp: contains_iff_sublist sublist_def)

text \<open>\<open>snprintf (buf, n, "%s", s)\<close>: at most \<open>n - 1\<close> characters are kept.\<close>

definition snprintf_s :: "nat \<Rightarrow> string \<Rightarrow> string" where
  "snprintf_s n s = take (n - 1) s"

lemma snprintf_s_id [simp]: "length s < n \<Longrightarrow> snprintf_s n s = s"
  by (simp add: snprintf_s_def)

lemma length_snprintf_s: "length (snprintf_s n s) \<le> n - 1"
  by (simp add: snprintf_s_def)

subsection \<open>Numbers as strings: \<open>std::to_string\<close> and \<open>atoi\<close>\<close>

definition digit_char :: "nat \<Rightarrow> char" where
  "digit_char d = char_of (48 + d)"

definition is_digit :: "char \<Rightarrow> bool" where
  "is_digit c \<longleftrightarrow> 48 \<le> (of_char c :: nat) \<and> (of_char c :: nat) \<le> 57"

definition digit_val :: "char \<Rightarrow> nat" where
  "digit_val c = of_char c - 48"

fun show_nat :: "nat \<Rightarrow> string" where
  "show_nat n = (if n < 10 then [digit_char n] else show_nat (n div 10) @ [digit_char (n mod 10)])"

declare show_nat.simps [simp del]

definition to_string :: "int \<Rightarrow> string" where
  "to_string i = (if i < 0 then CHR 0x2D # show_nat (nat (- i)) else show_nat (nat i))"

fun read_digits :: "nat \<Rightarrow> string \<Rightarrow> nat" where
  "read_digits acc [] = acc"
| "read_digits acc (c # s) = (if is_digit c then read_digits (10 * acc + digit_val c) s else acc)"

text \<open>
  \<open>atoi\<close>: leading white space, an optional sign, then digits; no digits give 0. (A value
  outside the range of \<open>int\<close> is undefined in C; the model returns the exact number.)
\<close>

definition atoi :: "string \<Rightarrow> int" where
  "atoi s = (case dropWhile isspace s of
       [] \<Rightarrow> 0
     | c # r \<Rightarrow> if c = CHR 0x2D then - int (read_digits 0 r)
                else if c = CHR 0x2B then int (read_digits 0 r)
                else int (read_digits 0 (c # r)))"

text \<open>
  \<open>std::stoi\<close>: \<open>None\<close> for the two exceptions (no digit to convert, value out of the range of
  \<open>int\<close>).
\<close>

definition stoi :: "string \<Rightarrow> int option" where
  "stoi s = (case dropWhile isspace s of
       [] \<Rightarrow> None
     | c # r \<Rightarrow> (let digits = (if c = CHR 0x2D \<or> c = CHR 0x2B then r else c # r); v = atoi s
         in if digits = [] \<or> \<not> is_digit (hd digits) \<or> v < - (2 ^ 31) \<or> 2 ^ 31 \<le> v then None else Some v))"

lemma of_digit_char [simp]: "d < 10 \<Longrightarrow> (of_char (digit_char d) :: nat) = 48 + d"
  by (simp add: digit_char_def)

lemma is_digit_char [simp]: "d < 10 \<Longrightarrow> is_digit (digit_char d)"
  by (simp add: is_digit_def)

lemma digit_val_char [simp]: "d < 10 \<Longrightarrow> digit_val (digit_char d) = d"
  by (simp add: digit_val_def)

lemma read_digits_append:
  "\<forall>c \<in> set xs. is_digit c \<Longrightarrow> read_digits acc (xs @ ys) = read_digits (read_digits acc xs) ys"
  by (induction xs arbitrary: acc) auto

lemma show_nat_digits: "\<forall>c \<in> set (show_nat n). is_digit c"
proof (induction n rule: show_nat.induct)
  case (1 n)
  then show ?case by (subst show_nat.simps) auto
qed

lemma show_nat_nonempty [simp]: "show_nat n \<noteq> []"
  by (subst show_nat.simps) simp

lemma read_digits_show_nat: "read_digits 0 (show_nat n) = n"
proof (induction n rule: show_nat.induct)
  case (1 n)
  show ?case
  proof (cases "n < 10")
    case True
    then show ?thesis by (subst show_nat.simps) simp
  next
    case False
    have "show_nat n = show_nat (n div 10) @ [digit_char (n mod 10)]"
      using False by (subst show_nat.simps) simp
    moreover have "read_digits 0 (show_nat (n div 10)) = n div 10"
      using 1 False by simp
    ultimately show ?thesis
      by (simp add: read_digits_append show_nat_digits)
  qed
qed

lemma digit_not_special:
  assumes "is_digit c"
  shows "\<not> isspace c" and "c \<noteq> CHR 0x2D" and "c \<noteq> CHR 0x2B" and "c \<noteq> CHR 0x00"
  using assms by (auto simp: is_digit_def isspace_def)

lemma show_nat_chars:
  assumes "c \<in> set (show_nat n)"
  shows "\<not> isspace c \<and> c \<noteq> CHR 0x00"
proof -
  have "is_digit c" using assms show_nat_digits [of n] by simp
  then show ?thesis by (simp add: digit_not_special)
qed

lemma atoi_show_nat: "atoi (show_nat n) = int n"
proof (cases "show_nat n")
  case Nil
  then show ?thesis by simp
next
  case (Cons c r)
  then have "is_digit c" using show_nat_digits [of n] by simp
  with Cons show ?thesis
    using read_digits_show_nat [of n] by (simp add: atoi_def digit_not_special)
qed

lemma atoi_to_string: "atoi (to_string i) = i"
proof (cases "i < 0")
  case True
  have "\<not> isspace (CHR 0x2D)" by (simp add: isspace_def)
  with True show ?thesis
    by (simp add: to_string_def atoi_def read_digits_show_nat)
next
  case False
  then show ?thesis by (simp add: to_string_def atoi_show_nat)
qed

lemma stoi_to_string:
  assumes "- (2 ^ 31) \<le> i" and "i < 2 ^ 31"
  shows "stoi (to_string i) = Some i"
proof (cases "i < 0")
  case True
  obtain c r where "show_nat (nat (- i)) = c # r" by (cases "show_nat (nat (- i))") simp_all
  moreover have "\<not> isspace (CHR 0x2D)" by (simp add: isspace_def)
  moreover have "is_digit c" using calculation(1) show_nat_digits [of "nat (- i)"] by simp
  ultimately show ?thesis
    using True assms atoi_to_string [of i] by (simp add: stoi_def to_string_def)
next
  case False
  obtain c r where c: "show_nat (nat i) = c # r" by (cases "show_nat (nat i)") simp_all
  then have "is_digit c" using show_nat_digits [of "nat i"] by simp
  then show ?thesis
    using c False assms atoi_to_string [of i] by (simp add: stoi_def to_string_def digit_not_special)
qed

lemma length_show_nat: "n < 10 ^ k \<Longrightarrow> 0 < k \<Longrightarrow> length (show_nat n) \<le> k"
proof (induction k arbitrary: n)
  case 0
  then show ?case by simp
next
  case (Suc k)
  show ?case
  proof (cases "n < 10")
    case True
    then show ?thesis by (subst show_nat.simps) simp
  next
    case False
    then have "0 < k" using Suc.prems by (cases k) auto
    moreover have "n div 10 < 10 ^ k" using Suc.prems(1) by (simp add: less_mult_imp_div_less)
    ultimately have "length (show_nat (n div 10)) \<le> k" by (rule Suc.IH [rotated])
    with False show ?thesis by (subst show_nat.simps) simp
  qed
qed

lemma to_string_nonempty [simp]: "to_string i \<noteq> []"
  by (simp add: to_string_def)

subsection \<open>Reading text: \<open>fscanf\<close>, \<open>fgets\<close>, \<open>std::getline\<close>\<close>

text \<open>One \<open>%<n>s\<close> conversion: the word and the input after it, \<open>None\<close> at end of input.\<close>

definition fscanf_word :: "nat \<Rightarrow> string \<Rightarrow> (string \<times> string) option" where
  "fscanf_word n s =
     (let r = dropWhile isspace s;
          w = take n (takeWhile (\<lambda>c. \<not> isspace c) r)
      in if r = [] then None else Some (w, drop (length w) r))"

lemma length_dropWhile_le_nat: "length (dropWhile P xs) \<le> length xs"
  by (induction xs) auto

lemma fscanf_word_rest:
  assumes "fscanf_word n s = Some (w, r)"
  shows "length r \<le> length s" and "0 < n \<Longrightarrow> length r < length s"
proof -
  let ?d = "dropWhile isspace s"
  from assms have ne: "?d \<noteq> []" and w: "w = take n (takeWhile (\<lambda>c. \<not> isspace c) ?d)"
    and r: "r = drop (length w) ?d"
    by (auto simp: fscanf_word_def Let_def split: if_splits)
  have le: "length ?d \<le> length s" by (rule length_dropWhile_le_nat)
  with r show "length r \<le> length s" by simp
  assume "0 < n"
  moreover have "\<not> isspace (hd ?d)" using ne by (rule hd_dropWhile)
  ultimately have "w \<noteq> []" using ne w by (cases ?d) auto
  then have "length r < length ?d" using r ne by simp
  with le show "length r < length s" by simp
qed

text \<open>The lines \<open>std::getline\<close> reads one after another.\<close>

function getlines :: "string \<Rightarrow> string list" where
  "getlines s = (if s = [] then []
     else takeWhile (\<lambda>c. c \<noteq> nl) s # getlines (drop 1 (dropWhile (\<lambda>c. c \<noteq> nl) s)))"
  by pat_completeness auto
termination
proof (relation "measure length")
  show "wf (measure (length :: string \<Rightarrow> nat))" by simp
  fix s :: string
  assume "s \<noteq> []"
  then have "0 < length s" by simp
  moreover have "length (dropWhile (\<lambda>c. c \<noteq> nl) s) \<le> length s"
    by (rule length_dropWhile_le_nat)
  ultimately have "length (drop 1 (dropWhile (\<lambda>c. c \<noteq> nl) s)) < length s"
    by (simp only: length_drop)
  then show "(drop 1 (dropWhile (\<lambda>c. c \<noteq> nl) s), s) \<in> measure length" by simp
qed

declare getlines.simps [simp del]

text \<open>The chunks \<open>fgets (line, n + 1, file)\<close> returns one after another.\<close>

function fgets_lines :: "nat \<Rightarrow> string \<Rightarrow> string list" where
  "fgets_lines n s = (if s = [] \<or> n = 0 then []
     else take n (take (Suc (length (takeWhile (\<lambda>c. c \<noteq> nl) s))) s)
            # fgets_lines n (drop n (take (Suc (length (takeWhile (\<lambda>c. c \<noteq> nl) s))) s)
                             @ drop (Suc (length (takeWhile (\<lambda>c. c \<noteq> nl) s))) s))"
  by pat_completeness auto
termination
  by (relation "measure (\<lambda>(n, s). length s)") (auto simp: min_def)

declare fgets_lines.simps [simp del]

lemma getlines_Nil [simp]: "getlines [] = []"
  by (subst getlines.simps) simp

lemma getlines_line:
  assumes "nl \<notin> set l"
  shows "getlines (l @ nl # rest) = l # getlines rest"
proof -
  have "takeWhile (\<lambda>c. c \<noteq> nl) (l @ nl # rest) = l"
    and "dropWhile (\<lambda>c. c \<noteq> nl) (l @ nl # rest) = nl # rest"
    using assms by (induction l) auto
  then show ?thesis by (subst getlines.simps) simp
qed

lemma getlines_unlines:
  "\<forall>l \<in> set ls. nl \<notin> set l \<Longrightarrow> getlines (concat (map (\<lambda>l. l @ [nl]) ls)) = ls"
  by (induction ls) (auto simp: getlines_line)

lemma getlines_no_nl: "l \<in> set (getlines s) \<Longrightarrow> nl \<notin> set l"
proof (induction s rule: getlines.induct)
  case (1 s)
  then show ?case
    by (subst (asm) (2) getlines.simps) (auto split: if_splits dest: set_takeWhileD)
qed

subsection \<open>\<open>std::map\<close> as a list sorted by key\<close>

fun smap_insert :: "'k::linorder \<Rightarrow> 'v \<Rightarrow> ('k \<times> 'v) list \<Rightarrow> ('k \<times> 'v) list" where
  "smap_insert k v [] = [(k, v)]"
| "smap_insert k v (p # ps) =
     (if k = fst p then p # ps
      else if k < fst p then (k, v) # p # ps
      else p # smap_insert k v ps)"

definition smap_erase :: "'k \<Rightarrow> ('k \<times> 'v) list \<Rightarrow> ('k \<times> 'v) list" where
  "smap_erase k ps = filter (\<lambda>p. fst p \<noteq> k) ps"

definition smap_ok :: "('k::linorder \<times> 'v) list \<Rightarrow> bool" where
  "smap_ok ps \<longleftrightarrow> sorted_wrt (<) (map fst ps)"

lemma smap_ok_Nil [simp]: "smap_ok []"
  by (simp add: smap_ok_def)

lemma smap_ok_Cons: "smap_ok (p # ps) \<longleftrightarrow> (\<forall>q \<in> set ps. fst p < fst q) \<and> smap_ok ps"
  by (auto simp: smap_ok_def)

lemma smap_insert_keys: "fst ` set (smap_insert k v ps) = insert k (fst ` set ps)"
  by (induction ps) auto

lemma set_smap_insert: "set (smap_insert k v ps) \<subseteq> insert (k, v) (set ps)"
  by (induction ps) auto

lemma smap_ok_insert: "smap_ok ps \<Longrightarrow> smap_ok (smap_insert k v ps)"
proof (induction ps)
  case Nil
  then show ?case by (simp add: smap_ok_Cons)
next
  case (Cons p ps)
  have "\<forall>q \<in> set (smap_insert k v ps). fst q \<in> insert k (fst ` set ps)"
    using smap_insert_keys [of k v ps] by blast
  with Cons show ?case by (force simp: smap_ok_Cons)
qed

lemma smap_ok_erase: "smap_ok ps \<Longrightarrow> smap_ok (smap_erase k ps)"
  by (induction ps) (auto simp: smap_ok_Cons smap_erase_def)

lemma smap_erase_keys: "fst ` set (smap_erase k ps) = fst ` set ps - {k}"
  by (auto simp: smap_erase_def)

lemma map_of_smap_insert:
  "smap_ok ps \<Longrightarrow> map_of (smap_insert k v ps) x
     = (if x = k \<and> map_of ps k = None then Some v else map_of ps x)"
proof (induction ps)
  case Nil
  then show ?case by simp
next
  case (Cons p ps)
  have above: "k < fst p \<Longrightarrow> map_of ps k = None"
    using Cons.prems by (fastforce simp: smap_ok_Cons map_of_eq_None_iff)
  have IH: "map_of (smap_insert k v ps) x = (if x = k \<and> map_of ps k = None then Some v else map_of ps x)"
    using Cons by (simp add: smap_ok_Cons)
  obtain a b where p: "p = (a, b)" by (cases p)
  show ?case
    using above IH by (cases "k < a") (auto simp: p)
qed

lemma map_of_smap_erase: "map_of (smap_erase k ps) x = (if x = k then None else map_of ps x)"
  by (induction ps) (auto simp: smap_erase_def)

text \<open>Inserting the entries of a sorted map in order rebuilds the map.\<close>

lemma smap_insert_last:
  "\<forall>q \<in> set ps. fst q < k \<Longrightarrow> smap_insert k v ps = ps @ [(k, v)]"
  by (induction ps) auto

lemma smap_ok_append:
  "smap_ok (xs @ ys) \<longleftrightarrow> smap_ok xs \<and> smap_ok ys \<and> (\<forall>x \<in> set xs. \<forall>y \<in> set ys. fst x < fst y)"
  by (auto simp: smap_ok_def sorted_wrt_append)

lemma fold_smap_insert_sorted:
  "smap_ok (acc @ ps) \<Longrightarrow> fold (\<lambda>(k, v). smap_insert k v) ps acc = acc @ ps"
proof (induction ps arbitrary: acc)
  case Nil
  then show ?case by simp
next
  case (Cons p ps)
  have "smap_insert (fst p) (snd p) acc = acc @ [p]"
    using Cons.prems by (subst smap_insert_last) (auto simp: smap_ok_append)
  moreover have "smap_ok ((acc @ [p]) @ ps)" using Cons.prems by simp
  ultimately show ?case
    using Cons.IH [of "acc @ [p]"] by (simp add: case_prod_unfold)
qed

end
