(* ===== verification/DS_Interfaces.thy ===== *)
theory DS_Interfaces
  imports DS_Prelude
begin

section \<open>Contracts between the components\<close>

text \<open>
  The interfaces one component offers another, as locales: the operations the client calls
  and the laws it relies on. The facts a client needs are proved here once; the theory of
  the component that provides the operations interprets the locale on its model.
\<close>

subsection \<open>A key-value store\<close>

text \<open>
  \<open>okk\<close> and \<open>okv\<close> are the keys and values the provider can represent (for the property
  file: non-empty words; for the HDMI status file: texts without a line break).
\<close>

locale kv_store =
  fixes get :: "'s \<Rightarrow> string \<Rightarrow> string option"
    and put :: "string \<Rightarrow> string \<Rightarrow> 's \<Rightarrow> 's"
    and inv :: "'s \<Rightarrow> bool"
    and okk :: "string \<Rightarrow> bool"
    and okv :: "string \<Rightarrow> bool"
  assumes get_put: "\<lbrakk>inv s; okk k; okv v; okk k'\<rbrakk>
      \<Longrightarrow> get (put k v s) k' = (if k' = k then Some v else get s k')"
    and inv_put: "\<lbrakk>inv s; okk k; okv v\<rbrakk> \<Longrightarrow> inv (put k v s)"
begin

lemma get_put_same: "\<lbrakk>inv s; okk k; okv v\<rbrakk> \<Longrightarrow> get (put k v s) k = Some v"
  by (simp add: get_put)

lemma get_put_other: "\<lbrakk>inv s; okk k; okv v; okk k'; k' \<noteq> k\<rbrakk> \<Longrightarrow> get (put k v s) k' = get s k'"
  by (simp add: get_put)

text \<open>A sequence of updates: the last value written to a key wins, other keys keep theirs.\<close>

lemma puts:
  assumes "inv s" and "\<forall>(k, v) \<in> set kvs. okk k \<and> okv v"
  shows "inv (fold (\<lambda>(k, v). put k v) kvs s)"
    and "okk k \<Longrightarrow> get (fold (\<lambda>(k, v). put k v) kvs s) k
           = (case map_of (rev kvs) k of Some v \<Rightarrow> Some v | None \<Rightarrow> get s k)"
  using assms
proof (induction kvs arbitrary: s)
  case Nil
  { case 1 then show ?case by simp }
  { case 2 then show ?case by simp }
next
  case (Cons p kvs)
  { case 1 with Cons.IH(1) [of "put (fst p) (snd p) s"] show ?case
      by (auto simp: case_prod_unfold inv_put) }
  { case 2
    then have "inv (put (fst p) (snd p) s)" and "okk (fst p)" and "okv (snd p)"
      by (auto simp: inv_put)
    with 2 Cons.IH(2) [of "put (fst p) (snd p) s"] show ?case
      by (auto simp: case_prod_unfold get_put map_add_def split: option.splits) }
qed

end

text \<open>
  A store that also survives a restart of the process (\<open>reload\<close>): reading after a restart
  gives what was there before it.
\<close>

locale durable_kv_store = kv_store +
  fixes reload :: "'s \<Rightarrow> 's"
  assumes get_reload: "\<lbrakk>inv s; okk k\<rbrakk> \<Longrightarrow> get (reload s) k = get s k"
    and inv_reload: "inv s \<Longrightarrow> inv (reload s)"
begin

lemma get_put_reload: "\<lbrakk>inv s; okk k; okv v\<rbrakk> \<Longrightarrow> get (reload (put k v s)) k = Some v"
  by (simp add: get_reload inv_put get_put_same)

text \<open>A session is a list of updates (\<open>Some (k, v)\<close>) and restarts (\<open>None\<close>).\<close>

lemma session:
  assumes "inv s" and "\<forall>e \<in> set es. \<forall>k v. e = Some (k, v) \<longrightarrow> okk k \<and> okv v" and "okk k"
  shows "get (fold (\<lambda>e s. case e of None \<Rightarrow> reload s | Some (k, v) \<Rightarrow> put k v s) es s) k
           = (case map_of (rev (List.map_filter id es)) k of Some v \<Rightarrow> Some v | None \<Rightarrow> get s k)"
  using assms(1,2)
proof (induction es arbitrary: s)
  case Nil
  then show ?case by (simp add: List.map_filter_simps)
next
  case (Cons e es)
  show ?case
  proof (cases e)
    case None
    with Cons assms(3) show ?thesis
      by (simp add: List.map_filter_simps get_reload inv_reload cong: option.case_cong)
  next
    case (Some p)
    then obtain a b where e: "e = Some (a, b)" by (cases p) auto
    with Cons.prems have "inv (put a b s)" and "okk a" and "okv b" by (auto simp: inv_put)
    with Cons e assms(3) show ?thesis
      by (auto simp: List.map_filter_simps get_put map_add_def split: option.splits)
  qed
qed

end

subsection \<open>Subscriptions\<close>

text \<open>
  Who gets an event: \<open>sub\<close> adds an object unless it is there, \<open>unsub\<close> removes it. The
  contract fixes the order of the members too, which is the order of the calls.
\<close>

definition wants :: "nat \<Rightarrow> (nat \<times> bool) list \<Rightarrow> bool \<Rightarrow> bool" where
  "wants p rs b = fold (\<lambda>r b. if fst r = p then snd r else b) rs b"

definition sub_run :: "(string \<Rightarrow> nat \<Rightarrow> 's \<Rightarrow> 's) \<Rightarrow> (nat \<Rightarrow> 's \<Rightarrow> 's)
    \<Rightarrow> (string option \<times> nat) list \<Rightarrow> 's \<Rightarrow> 's" where
  "sub_run sub unsub rs s =
     fold (\<lambda>r s. case fst r of Some n \<Rightarrow> sub n (snd r) s | None \<Rightarrow> unsub (snd r) s) rs s"

locale subscription =
  fixes sub :: "string \<Rightarrow> nat \<Rightarrow> 's \<Rightarrow> 's"
    and unsub :: "nat \<Rightarrow> 's \<Rightarrow> 's"
    and members :: "'s \<Rightarrow> nat list"
    and inv :: "'s \<Rightarrow> bool"
  assumes members_sub: "inv s \<Longrightarrow> members (sub n p s)
      = (if p \<in> set (members s) then members s else members s @ [p])"
    and members_unsub: "inv s \<Longrightarrow> members (unsub p s) = remove1 p (members s)"
    and inv_sub: "inv s \<Longrightarrow> inv (sub n p s)"
    and inv_unsub: "inv s \<Longrightarrow> inv (unsub p s)"
    and members_distinct: "inv s \<Longrightarrow> distinct (members s)"
begin

lemma run_members:
  "inv s \<Longrightarrow> inv (sub_run sub unsub rs s) \<and> (p \<in> set (members (sub_run sub unsub rs s)) \<longleftrightarrow>
     wants p (map (\<lambda>r. (snd r, fst r \<noteq> None)) rs) (p \<in> set (members s)))"
proof (induction rs arbitrary: s)
  case Nil
  then show ?case by (simp add: sub_run_def wants_def)
next
  case (Cons r rs)
  show ?case
  proof (cases "fst r")
    case None
    with Cons.IH [of "unsub (snd r) s"] Cons.prems members_distinct [OF Cons.prems] show ?thesis
      by (auto simp: sub_run_def wants_def members_unsub inv_unsub)
  next
    case (Some n)
    with Cons.IH [of "sub n (snd r) s"] Cons.prems show ?thesis
      by (auto simp: sub_run_def wants_def members_sub inv_sub)
  qed
qed

end

subsection \<open>Step relations\<close>

text \<open>An invariant of a step relation holds in every state a run reaches.\<close>

locale step_invariant =
  fixes step :: "'s \<Rightarrow> 's \<Rightarrow> bool" and holds :: "'s \<Rightarrow> bool"
  assumes preserved: "\<lbrakk>holds s; step s s'\<rbrakk> \<Longrightarrow> holds s'"
begin

lemma reached: "step\<^sup>*\<^sup>* s s' \<Longrightarrow> holds s \<Longrightarrow> holds s'"
  by (induction rule: rtranclp_induct) (auto intro: preserved)

text \<open>
  Under the invariant, if a step that lowers a measure is possible as long as the goal is
  not reached, a run to the goal exists.
\<close>

lemma run_to_goal:
  fixes m :: "'s \<Rightarrow> nat"
  assumes "holds s" and "\<And>x. \<lbrakk>holds x; \<not> goal x\<rbrakk> \<Longrightarrow> \<exists>y. step x y \<and> m y < m x"
  shows "\<exists>s'. step\<^sup>*\<^sup>* s s' \<and> holds s' \<and> goal s'"
  using assms(1)
proof (induction "m s" arbitrary: s rule: less_induct)
  case less
  show ?case
  proof (cases "goal s")
    case True
    with less.prems show ?thesis by blast
  next
    case False
    with assms(2) less.prems obtain y where y: "step s y" "m y < m s" by blast
    moreover from y less.prems have "holds y" by (blast intro: preserved)
    ultimately obtain s' where "step\<^sup>*\<^sup>* y s'" "holds s'" "goal s'" using less.hyps by blast
    with y show ?thesis by (blast intro: converse_rtranclp_into_rtranclp)
  qed
qed

end

subsection \<open>Histories with undefined steps\<close>

text \<open>
  A history is a list of steps, the \<open>i\<close>-th with its number. If, under an invariant, a step is
  undefined exactly when it is bad and otherwise keeps the invariant, then a history is undefined
  exactly when it reaches a bad step.
\<close>

locale guarded_run =
  fixes step :: "nat \<Rightarrow> 'op \<Rightarrow> 's \<Rightarrow> 's outcome"
    and run :: "nat \<Rightarrow> 'op list \<Rightarrow> 's \<Rightarrow> 's outcome"
    and bad :: "'op \<Rightarrow> 's \<Rightarrow> bool"
    and inv :: "'s \<Rightarrow> bool"
  assumes run_Nil: "run i [] s = Ret s"
    and run_Cons: "run i (c # cs) s = obind (step i c s) (run (Suc i) cs)"
    and step_bad: "\<lbrakk>inv s; bad c s\<rbrakk> \<Longrightarrow> step i c s = UB"
    and step_good: "\<lbrakk>inv s; \<not> bad c s\<rbrakk> \<Longrightarrow> \<exists>t. step i c s = Ret t \<and> inv t"
begin

text \<open>A history from \<open>s\<close> that reaches a bad step.\<close>

lemma run_exact:
  "inv s \<Longrightarrow> (run i cs s = UB \<longleftrightarrow> (\<exists>as c bs t. cs = as @ c # bs \<and> run i as s = Ret t \<and> bad c t))
     \<and> (run i cs s = UB \<or> (\<exists>t. run i cs s = Ret t \<and> inv t))"
proof (induction cs arbitrary: i s)
  case Nil
  then show ?case by (simp add: run_Nil)
next
  case (Cons c cs)
  show ?case
  proof (cases "bad c s")
    case True
    then have "run i (c # cs) s = UB" using step_bad [OF Cons.prems] by (simp add: run_Cons)
    with True show ?thesis
      by (intro conjI iffI disjI1 exI [of _ "[]"] exI [of _ c] exI [of _ cs] exI [of _ s]) (simp_all add: run_Nil)
  next
    case False
    then obtain t where t: "step i c s = Ret t" "inv t" using step_good [OF Cons.prems] by blast
    have "(\<exists>as c' bs u. c # cs = as @ c' # bs \<and> run i as s = Ret u \<and> bad c' u)
        \<longleftrightarrow> (\<exists>as c' bs u. cs = as @ c' # bs \<and> run (Suc i) as t = Ret u \<and> bad c' u)" (is "?l \<longleftrightarrow> ?r")
    proof
      assume ?l
      then obtain as c' bs u where u: "c # cs = as @ c' # bs" "run i as s = Ret u" "bad c' u" by blast
      with False obtain as' where "as = c # as'" by (cases as) (auto simp: run_Nil)
      with u t show ?r by (auto simp: run_Cons)
    next
      assume ?r
      then obtain as c' bs u where u: "cs = as @ c' # bs" "run (Suc i) as t = Ret u" "bad c' u" by blast
      then show ?l using t
        by (intro exI [of _ "c # as"] exI [of _ c'] exI [of _ bs] exI [of _ u]) (simp add: run_Cons)
    qed
    moreover have "run i (c # cs) s = run (Suc i) cs t" using t by (simp add: run_Cons)
    ultimately show ?thesis using Cons.IH [OF t(2), of "Suc i"] by metis
  qed
qed

lemma run_inv: "\<lbrakk>inv s; run i cs s = Ret t\<rbrakk> \<Longrightarrow> inv t"
  using run_exact [of s i cs] by auto

end

end
