(* ===== verification/Host_Persistence.thy ===== *)
theory Host_Persistence
  imports DS_Interfaces
begin

section \<open>The persistent property store (\<open>device::HostPersistence\<close>)\<close>

text \<open>
  Models \<open>device::HostPersistence\<close> of \<open>plugin/DeviceSettingsTypes.h\<close>: two \<open>std::map\<close>s
  filled lazily from the user file and the default file, and a write-through update that
  first saves a copy to \<open><file>tmpDB\<close>. The disk is part of the state (file name to
  content); whether a file can be opened for writing and how much of a write arrives is the
  environment's choice (\<open>host_io\<close>). The store is shown to be a \<open>kv_store\<close> in memory
  and a \<open>durable_kv_store\<close> across restarts, for the keys and values the file format can hold.
\<close>

subsection \<open>State and environment\<close>

record host_io =
  io_open_w :: "string \<Rightarrow> bool"
  io_fwrite :: "string \<Rightarrow> string \<Rightarrow> nat"

definition io_full :: host_io where
  "io_full = \<lparr>io_open_w = (\<lambda>_. True), io_fwrite = (\<lambda>_ d. length d)\<rparr>"

record host_store =
  hp_properties :: "(string \<times> string) list"
  hp_defaults :: "(string \<times> string) list"
  hp_filePath :: string
  hp_defaultFilePath :: string
  hp_isInitialized :: bool
  hp_disk :: "string \<rightharpoonup> string"

definition hp_new :: "string \<Rightarrow> (string \<rightharpoonup> string) \<Rightarrow> host_store" where
  "hp_new storeFileName d =
     \<lparr>hp_properties = [], hp_defaults = [], hp_filePath = storeFileName,
      hp_defaultFilePath = ''/etc/hostDataDefault'', hp_isInitialized = False, hp_disk = d\<rparr>"

text \<open>The default constructor; \<open>hdd\<close> is the build option \<open>HAS_HDD_PERSISTENT\<close>.\<close>

definition hp_default :: "bool \<Rightarrow> (string \<rightharpoonup> string) \<Rightarrow> host_store" where
  "hp_default hdd d = hp_new
     (if hdd then ''/tmp/mnt/diska3/persistent/ds/hostData'' else ''/opt/persistent/ds/hostData'') d"

subsection \<open>Reading and writing the files\<close>

text \<open>\<open>while (fscanf (filePtr, "%1023s\\t%1023s", key, keyValue) == 2)\<close>.\<close>

function read_pairs :: "string \<Rightarrow> (string \<times> string) list" where
  "read_pairs s = (case fscanf_word 1023 s of
       None \<Rightarrow> []
     | Some (k, r) \<Rightarrow> (case fscanf_word 1023 r of
           None \<Rightarrow> []
         | Some (v, r') \<Rightarrow> (c_str k, c_str v) # read_pairs r'))"
  by pat_completeness auto
termination
proof (relation "measure length")
  fix s p k r q v r'
  assume "fscanf_word 1023 s = Some p" "(k, r) = p" "fscanf_word 1023 r = Some q" "(v, r') = q"
  then have "length r < length s" and "length r' \<le> length r"
    using fscanf_word_rest(2) [of 1023 s k r] fscanf_word_rest(1) [of 1023 r v r'] by auto
  then show "(r', s) \<in> measure length" by simp
qed simp

declare read_pairs.simps [simp del]

definition loadFromFile ::
  "string \<Rightarrow> (string \<rightharpoonup> string) \<Rightarrow> (string \<times> string) list \<Rightarrow> (string \<times> string) list" where
  "loadFromFile fileName d m = (case d fileName of
       None \<Rightarrow> m
     | Some content \<Rightarrow> fold (\<lambda>(k, v). smap_insert k v) (read_pairs content) m)"

definition entry_line :: "string \<times> string \<Rightarrow> string" where
  "entry_line p = fst p @ [tab] @ snd p @ [nl]"

fun fwrite_entries :: "(string \<Rightarrow> nat) \<Rightarrow> (string \<times> string) list \<Rightarrow> string" where
  "fwrite_entries w [] = []"
| "fwrite_entries w (p # ps) =
     (let dataToWrite = entry_line p; written = w dataToWrite
      in if written \<noteq> length dataToWrite then take written dataToWrite
         else dataToWrite @ fwrite_entries w ps)"

definition writeToFile :: "host_io \<Rightarrow> string \<Rightarrow> host_store \<Rightarrow> host_store" where
  "writeToFile io fileName s =
     (let d = (hp_disk s)(fileName := None)
      in if hp_properties s \<noteq> [] \<and> io_open_w io fileName
         then s\<lparr>hp_disk := d(fileName \<mapsto> fwrite_entries (io_fwrite io fileName) (hp_properties s))\<rparr>
         else s\<lparr>hp_disk := d\<rparr>)"

text \<open>
  \<open>load\<close>: both files are read in turn. \<open>loadFromFile\<close> raises nothing, so the branch that
  would read the backup \<open>filePath + "tmpDB"\<close> after an exception is never taken.
\<close>

definition hp_load :: "host_store \<Rightarrow> host_store" where
  "hp_load s = s\<lparr>hp_properties := loadFromFile (hp_filePath s) (hp_disk s) (hp_properties s),
                 hp_defaults := loadFromFile (hp_defaultFilePath s) (hp_disk s) (hp_defaults s)\<rparr>"

definition ensureInitialized :: "host_store \<Rightarrow> host_store" where
  "ensureInitialized s = (if hp_isInitialized s then s else (hp_load s)\<lparr>hp_isInitialized := True\<rparr>)"

subsection \<open>The public operations\<close>

definition getProperty :: "string \<Rightarrow> host_store \<Rightarrow> string outcome \<times> host_store" where
  "getProperty key s =
     (let s1 = ensureInitialized s
      in if key = [] then (Throw ''The KEY is empty'', s1)
         else case map_of (hp_properties s1) key of
             None \<Rightarrow> (Throw ''The Item IS NOT FOUND'', s1)
           | Some v \<Rightarrow> (Ret v, s1))"

definition getProperty_default :: "string \<Rightarrow> string \<Rightarrow> host_store \<Rightarrow> string outcome \<times> host_store" where
  "getProperty_default key defValue s =
     (let s1 = ensureInitialized s
      in if key = [] then (Throw ''The KEY is empty'', s1)
         else case map_of (hp_properties s1) key of
             None \<Rightarrow> (Ret defValue, s1)
           | Some v \<Rightarrow> (Ret v, s1))"

definition getDefaultProperty :: "string \<Rightarrow> host_store \<Rightarrow> string outcome \<times> host_store" where
  "getDefaultProperty key s =
     (let s1 = ensureInitialized s
      in if key = [] then (Throw ''The KEY is empty'', s1)
         else case map_of (hp_defaults s1) key of
             None \<Rightarrow> (Throw ''The Item IS NOT FOUND'', s1)
           | Some v \<Rightarrow> (Ret v, s1))"

definition hp_store :: "host_io \<Rightarrow> string \<Rightarrow> string \<Rightarrow> host_store \<Rightarrow> host_store" where
  "hp_store io key value s =
     writeToFile io (hp_filePath s) (s\<lparr>hp_properties := smap_insert key value (hp_properties s)\<rparr>)"

definition persistHostProperty ::
  "host_io \<Rightarrow> string \<Rightarrow> string \<Rightarrow> host_store \<Rightarrow> unit outcome \<times> host_store" where
  "persistHostProperty io key value s =
     (let s1 = ensureInitialized s
      in if key = [] \<or> value = [] then (Throw ''Given KEY or VALUE is empty'', s1)
         else case getProperty key s1 of
             (Ret eRet, s2) \<Rightarrow>
               if eRet = value then (Ret (), s2)
               else (let s3 = writeToFile io (hp_filePath s2 @ ''tmpDB'') s2;
                         s4 = s3\<lparr>hp_properties := smap_erase key (hp_properties s3)\<rparr>
                     in (Ret (), hp_store io key value s4))
           | (_, s2) \<Rightarrow> (Ret (), hp_store io key value s2))"

text \<open>What a client sees: the value of a key, and the state after a successful update.\<close>

definition hp_get :: "host_store \<Rightarrow> string \<Rightarrow> string option" where
  "hp_get s key = map_of (hp_properties (ensureInitialized s)) key"

definition hp_put :: "host_io \<Rightarrow> string \<Rightarrow> string \<Rightarrow> host_store \<Rightarrow> host_store" where
  "hp_put io key value s = snd (persistHostProperty io key value s)"

text \<open>The plugin process ends and starts again: the maps are gone, the disk stays.\<close>

definition hp_restart :: "host_store \<Rightarrow> host_store" where
  "hp_restart s = s\<lparr>hp_properties := [], hp_defaults := [], hp_isInitialized := False\<rparr>"

subsection \<open>The store in memory\<close>

definition hp_ok :: "host_store \<Rightarrow> bool" where
  "hp_ok s \<longleftrightarrow> smap_ok (hp_properties s) \<and> smap_ok (hp_defaults s)"

lemma smap_ok_fold: "smap_ok m \<Longrightarrow> smap_ok (fold (\<lambda>(k, v). smap_insert k v) ps m)"
  by (induction ps arbitrary: m) (auto simp: smap_ok_insert)

lemma smap_ok_loadFromFile: "smap_ok m \<Longrightarrow> smap_ok (loadFromFile f d m)"
  by (simp add: loadFromFile_def smap_ok_fold split: option.split)

lemma hp_ok_init: "hp_ok s \<Longrightarrow> hp_ok (ensureInitialized s)"
  by (simp add: hp_ok_def ensureInitialized_def hp_load_def smap_ok_loadFromFile)

lemma init_idem [simp]: "ensureInitialized (ensureInitialized s) = ensureInitialized s"
  by (simp add: ensureInitialized_def)

lemma init_simps [simp]:
  "hp_isInitialized (ensureInitialized s)"
  "hp_filePath (ensureInitialized s) = hp_filePath s"
  "hp_defaultFilePath (ensureInitialized s) = hp_defaultFilePath s"
  "hp_disk (ensureInitialized s) = hp_disk s"
  by (simp_all add: ensureInitialized_def hp_load_def)

lemma writeToFile_simps [simp]:
  "hp_properties (writeToFile io f s) = hp_properties s"
  "hp_defaults (writeToFile io f s) = hp_defaults s"
  "hp_filePath (writeToFile io f s) = hp_filePath s"
  "hp_defaultFilePath (writeToFile io f s) = hp_defaultFilePath s"
  "hp_isInitialized (writeToFile io f s) = hp_isInitialized s"
  by (simp_all add: writeToFile_def Let_def)

lemma init_writeToFile [simp]:
  "hp_isInitialized s \<Longrightarrow> ensureInitialized (writeToFile io f s) = writeToFile io f s"
  by (simp add: ensureInitialized_def)

lemma getProperty_eq:
  "getProperty k s = ((if k = [] then Throw ''The KEY is empty'' else
     case hp_get s k of None \<Rightarrow> Throw ''The Item IS NOT FOUND'' | Some v \<Rightarrow> Ret v), ensureInitialized s)"
  by (simp add: getProperty_def hp_get_def Let_def split: option.split)

text \<open>What an update does, in one equation.\<close>

lemma persist_eq:
  assumes "k \<noteq> []" and "v \<noteq> []"
  shows "persistHostProperty io k v s = (Ret (),
     (let s1 = ensureInitialized s in
      case hp_get s k of
        Some w \<Rightarrow> if w = v then s1
          else (let s3 = writeToFile io (hp_filePath s @ ''tmpDB'') s1
                in hp_store io k v (s3\<lparr>hp_properties := smap_erase k (hp_properties s3)\<rparr>))
      | None \<Rightarrow> hp_store io k v s1))"
  using assms
  by (simp add: persistHostProperty_def getProperty_def hp_get_def Let_def split: option.split)

lemma hp_store_simps:
  "hp_properties (hp_store io k v s) = smap_insert k v (hp_properties s)"
  "hp_defaults (hp_store io k v s) = hp_defaults s"
  "hp_filePath (hp_store io k v s) = hp_filePath s"
  "hp_isInitialized (hp_store io k v s) = hp_isInitialized s"
  by (simp_all add: hp_store_def)

lemma hp_get_initialized: "hp_isInitialized s \<Longrightarrow> hp_get s k = map_of (hp_properties s) k"
  by (simp add: hp_get_def ensureInitialized_def)

lemma put_properties:
  assumes "k \<noteq> []" and "v \<noteq> []"
  shows "hp_properties (hp_put io k v s) =
     (if hp_get s k = Some v then hp_properties (ensureInitialized s)
      else smap_insert k v (smap_erase k (hp_properties (ensureInitialized s))))"
proof (cases "hp_get s k")
  case None
  then have "smap_erase k (hp_properties (ensureInitialized s)) = hp_properties (ensureInitialized s)"
    by (auto simp: hp_get_def smap_erase_def filter_id_conv map_of_eq_None_iff)
  with None assms show ?thesis
    by (simp add: hp_put_def persist_eq hp_store_simps)
next
  case (Some w)
  with assms show ?thesis
    by (simp add: hp_put_def persist_eq hp_store_simps Let_def)
qed

lemma put_initialized [simp]:
  "k \<noteq> [] \<Longrightarrow> v \<noteq> [] \<Longrightarrow> hp_isInitialized (hp_put io k v s)"
  by (simp add: hp_put_def persist_eq hp_store_simps Let_def split: option.split)

lemma put_defaults:
  "k \<noteq> [] \<Longrightarrow> v \<noteq> [] \<Longrightarrow> hp_defaults (hp_put io k v s) = hp_defaults (ensureInitialized s)"
  by (simp add: hp_put_def persist_eq hp_store_simps Let_def split: option.split)

lemma put_filePath [simp]:
  "k \<noteq> [] \<Longrightarrow> v \<noteq> [] \<Longrightarrow> hp_filePath (hp_put io k v s) = hp_filePath s"
  by (simp add: hp_put_def persist_eq hp_store_simps Let_def split: option.split)

lemma hp_ok_put: "hp_ok s \<Longrightarrow> k \<noteq> [] \<Longrightarrow> v \<noteq> [] \<Longrightarrow> hp_ok (hp_put io k v s)"
  using hp_ok_init [of s]
  by (simp add: hp_ok_def put_properties put_defaults smap_ok_insert smap_ok_erase)

lemma hp_get_put:
  assumes "hp_ok s" and "k \<noteq> []" and "v \<noteq> []"
  shows "hp_get (hp_put io k v s) k' = (if k' = k then Some v else hp_get s k')"
proof -
  have ok: "smap_ok (smap_erase k (hp_properties (ensureInitialized s)))"
    using hp_ok_init [OF assms(1)] by (simp add: hp_ok_def smap_ok_erase)
  have "hp_get (hp_put io k v s) k' = map_of (hp_properties (hp_put io k v s)) k'"
    using assms(2,3) by (simp add: hp_get_initialized)
  also have "\<dots> = (if k' = k then Some v else hp_get s k')"
    using ok assms(2,3)
    by (auto simp: put_properties map_of_smap_insert map_of_smap_erase) (auto simp: hp_get_def)
  finally show ?thesis .
qed

interpretation hp: kv_store hp_get "hp_put io" hp_ok "\<lambda>k. k \<noteq> []" "\<lambda>v. v \<noteq> []" for io
  by unfold_locales (auto simp: hp_get_put hp_ok_put)

subsection \<open>The store on disk\<close>

definition word_ok :: "string \<Rightarrow> bool" where
  "word_ok w \<longleftrightarrow> w \<noteq> [] \<and> length w \<le> 1023 \<and> (\<forall>c \<in> set w. \<not> isspace c \<and> c \<noteq> CHR 0x00)"

definition entries_ok :: "(string \<times> string) list \<Rightarrow> bool" where
  "entries_ok ps \<longleftrightarrow> (\<forall>p \<in> set ps. word_ok (fst p) \<and> word_ok (snd p))"

lemma isspace_sep [simp]: "isspace tab" "isspace nl"
  by (simp_all add: isspace_def tab_def nl_def)

lemma fscanf_word_skip: "isspace c \<Longrightarrow> fscanf_word n (c # s) = fscanf_word n s"
  by (simp add: fscanf_word_def)

lemma fscanf_word_word:
  assumes "word_ok w" and "isspace c"
  shows "fscanf_word 1023 (w @ c # r) = Some (w, c # r)"
proof -
  obtain a w' where w: "w = a # w'" using assms(1) by (cases w) (auto simp: word_ok_def)
  have "dropWhile isspace (w @ c # r) = w @ c # r"
    using assms(1) by (simp add: w word_ok_def)
  moreover have "takeWhile (\<lambda>c. \<not> isspace c) (w @ c # r) = w"
    using assms by (subst takeWhile_append2) (auto simp: word_ok_def)
  ultimately show ?thesis
    using assms(1) by (simp add: fscanf_word_def Let_def word_ok_def w)
qed

lemma c_str_word: "word_ok w \<Longrightarrow> c_str w = w"
  by (auto simp: c_str_def word_ok_def takeWhile_eq_all_conv)

lemma read_pairs_skip: "isspace c \<Longrightarrow> read_pairs (c # s) = read_pairs s"
  by (subst (1 2) read_pairs.simps) (simp add: fscanf_word_skip)

lemma read_pairs_line:
  assumes "word_ok k" and "word_ok v"
  shows "read_pairs (entry_line (k, v) @ rest) = (k, v) # read_pairs rest"
proof -
  have "fscanf_word 1023 (entry_line (k, v) @ rest) = Some (k, tab # v @ nl # rest)"
    using fscanf_word_word [OF assms(1), of tab "v @ nl # rest"] by (simp add: entry_line_def)
  moreover have "fscanf_word 1023 (tab # v @ nl # rest) = Some (v, nl # rest)"
    using fscanf_word_word [OF assms(2), of nl rest] by (simp add: fscanf_word_skip)
  ultimately show ?thesis
    using assms by (subst read_pairs.simps) (simp add: c_str_word read_pairs_skip)
qed

lemma read_pairs_entries:
  "entries_ok ps \<Longrightarrow> read_pairs (concat (map entry_line ps)) = ps"
proof (induction ps)
  case Nil
  then show ?case by (subst read_pairs.simps) (simp add: fscanf_word_def)
next
  case (Cons p ps)
  then show ?case
    using read_pairs_line [of "fst p" "snd p"] by (simp add: entries_ok_def)
qed

lemma fwrite_entries_full: "fwrite_entries length ps = concat (map entry_line ps)"
  by (induction ps) (auto simp: Let_def)

lemma writeToFile_full_disk:
  "hp_disk (writeToFile io_full f s) = (if hp_properties s = [] then (hp_disk s)(f := None)
     else (hp_disk s)(f \<mapsto> concat (map entry_line (hp_properties s))))"
proof -
  have "io_fwrite io_full f = length" by (simp add: io_full_def fun_eq_iff)
  then show ?thesis by (simp add: writeToFile_def Let_def io_full_def fwrite_entries_full)
qed

text \<open>Writing the whole file and loading it again gives the properties back.\<close>

lemma load_write:
  assumes "smap_ok (hp_properties s)" and "entries_ok (hp_properties s)"
  shows "loadFromFile f (hp_disk (writeToFile io_full f s)) [] = hp_properties s"
  using assms fold_smap_insert_sorted [of "[]" "hp_properties s"]
  by (simp add: loadFromFile_def writeToFile_full_disk read_pairs_entries)

definition hp_durable :: "host_store \<Rightarrow> bool" where
  "hp_durable s \<longleftrightarrow> (\<not> hp_isInitialized s \<longrightarrow> hp_properties s = [] \<and> hp_defaults s = [])
     \<and> hp_ok s \<and> entries_ok (hp_properties (ensureInitialized s))
     \<and> loadFromFile (hp_filePath s) (hp_disk s) [] = hp_properties (ensureInitialized s)"

lemma entries_ok_insert:
  "entries_ok ps \<Longrightarrow> word_ok k \<Longrightarrow> word_ok v \<Longrightarrow> entries_ok (smap_insert k v ps)"
  using set_smap_insert [of k v ps] by (auto simp: entries_ok_def dest!: subsetD)

lemma entries_ok_put:
  "entries_ok ps \<Longrightarrow> word_ok k \<Longrightarrow> word_ok v \<Longrightarrow> entries_ok (smap_insert k v (smap_erase k ps))"
  by (rule entries_ok_insert) (auto simp: entries_ok_def smap_erase_def)

lemma put_disk_reload:
  assumes "hp_durable s" and "word_ok k" and "word_ok v"
  shows "loadFromFile (hp_filePath s) (hp_disk (hp_put io_full k v s)) []
       = hp_properties (hp_put io_full k v s)"
proof (cases "hp_get s k = Some v")
  case True
  have ne: "k \<noteq> []" "v \<noteq> []" using assms by (auto simp: word_ok_def)
  with True have "hp_put io_full k v s = ensureInitialized s"
    by (simp add: hp_put_def persist_eq)
  with assms(1) show ?thesis by (simp add: hp_durable_def)
next
  case False
  have ne: "k \<noteq> []" "v \<noteq> []" using assms by (auto simp: word_ok_def)
  obtain s' where s': "hp_put io_full k v s = writeToFile io_full (hp_filePath s) s'"
    using ne False
    by (cases "hp_get s k") (auto simp: hp_put_def persist_eq hp_store_def Let_def)
  let ?p = "hp_properties (hp_put io_full k v s)"
  have "?p = smap_insert k v (smap_erase k (hp_properties (ensureInitialized s)))"
    using False ne by (simp add: put_properties)
  moreover have "smap_ok (hp_properties (ensureInitialized s))"
    using assms(1) hp_ok_init [of s] by (simp add: hp_durable_def hp_ok_def)
  ultimately have "smap_ok ?p" and "entries_ok ?p"
    using assms by (auto simp: hp_durable_def smap_ok_insert smap_ok_erase entries_ok_put)
  then show ?thesis using load_write [of s'] by (simp add: s')
qed

lemma hp_durable_put:
  assumes "hp_durable s" and "word_ok k" and "word_ok v"
  shows "hp_durable (hp_put io_full k v s)"
proof -
  have ne: "k \<noteq> []" "v \<noteq> []" using assms by (auto simp: word_ok_def)
  have "ensureInitialized (hp_put io_full k v s) = hp_put io_full k v s"
    using ne put_initialized [of k v io_full s] by (simp add: ensureInitialized_def)
  moreover have "entries_ok (hp_properties (hp_put io_full k v s))"
    using assms ne by (simp add: put_properties hp_durable_def entries_ok_put)
  moreover have "hp_ok (hp_put io_full k v s)"
    using assms ne by (simp add: hp_durable_def hp_ok_put)
  ultimately show ?thesis
    using put_disk_reload [OF assms] ne by (simp add: hp_durable_def)
qed

lemma hp_restart_init:
  "hp_properties (ensureInitialized (hp_restart s)) = loadFromFile (hp_filePath s) (hp_disk s) []"
  by (simp add: hp_restart_def ensureInitialized_def hp_load_def)

lemma hp_durable_restart: "hp_durable s \<Longrightarrow> hp_durable (hp_restart s)"
  by (simp add: hp_durable_def hp_restart_init) (simp add: hp_restart_def hp_ok_def)

lemma hp_get_restart: "hp_durable s \<Longrightarrow> hp_get (hp_restart s) k = hp_get s k"
  by (simp add: hp_get_def hp_restart_init hp_durable_def)

interpretation hpd: durable_kv_store hp_get "hp_put io_full" hp_durable word_ok word_ok hp_restart
proof unfold_locales
  fix s k v k'
  assume "hp_durable s" "word_ok k" "word_ok v"
  then have "hp_ok s" "k \<noteq> []" "v \<noteq> []" by (auto simp: hp_durable_def word_ok_def)
  then show "hp_get (hp_put io_full k v s) k' = (if k' = k then Some v else hp_get s k')"
    by (rule hp_get_put)
qed (auto simp: hp_durable_put hp_durable_restart hp_get_restart)

subsection \<open>Files any session can start from\<close>

lemma fscanf_word_props:
  assumes "fscanf_word n s = Some (w, r)" and "0 < n"
  shows "w \<noteq> []" and "length w \<le> n" and "\<forall>c \<in> set w. \<not> isspace c"
    and "set w \<subseteq> set s" and "set r \<subseteq> set s"
proof -
  let ?d = "dropWhile isspace s"
  from assms(1) have ne: "?d \<noteq> []" and w: "w = take n (takeWhile (\<lambda>c. \<not> isspace c) ?d)"
    and r: "r = drop (length w) ?d"
    by (auto simp: fscanf_word_def Let_def split: if_splits)
  have d: "set ?d \<subseteq> set s" by (auto dest: set_dropWhileD)
  from ne have "\<not> isspace (hd ?d)" by (rule hd_dropWhile)
  with ne w assms(2) show "w \<noteq> []" by (cases ?d) auto
  from w show "length w \<le> n" by simp
  from w show "\<forall>c \<in> set w. \<not> isspace c" by (auto dest!: in_set_takeD set_takeWhileD)
  from w d show "set w \<subseteq> set s" by (auto dest!: in_set_takeD set_takeWhileD)
  from r d show "set r \<subseteq> set s" by (auto dest!: in_set_dropD)
qed

lemma word_ok_fscanf:
  assumes "fscanf_word 1023 s = Some (w, r)" and "CHR 0x00 \<notin> set s"
  shows "word_ok (c_str w)"
proof -
  note f = fscanf_word_props [OF assms(1)]
  from f(4) assms(2) have "CHR 0x00 \<notin> set w" by auto
  then have "\<forall>c \<in> set w. c \<noteq> CHR 0x00" by metis
  then have "c_str w = w" by (simp add: c_str_def takeWhile_eq_all_conv)
  with f(1-3) \<open>\<forall>c \<in> set w. c \<noteq> CHR 0x00\<close> show ?thesis by (simp add: word_ok_def)
qed

lemma entries_ok_read_pairs: "CHR 0x00 \<notin> set s \<Longrightarrow> entries_ok (read_pairs s)"
proof (induction s rule: read_pairs.induct)
  case (1 s)
  show ?case
  proof (cases "fscanf_word 1023 s")
    case None
    then show ?thesis by (subst read_pairs.simps) (simp add: entries_ok_def)
  next
    case (Some p)
    obtain k r where p: "p = (k, r)" by (cases p)
    show ?thesis
    proof (cases "fscanf_word 1023 r")
      case None
      with Some p show ?thesis by (subst read_pairs.simps) (simp add: entries_ok_def)
    next
      case q: (Some q)
      obtain v r' where qq: "q = (v, r')" by (cases q)
      have "set r \<subseteq> set s" using Some p fscanf_word_props(5) by auto
      moreover have "set r' \<subseteq> set r" using q qq fscanf_word_props(5) by auto
      ultimately have nul: "CHR 0x00 \<notin> set r" "CHR 0x00 \<notin> set r'" using 1(2) by auto
      have "word_ok (c_str k)" and "word_ok (c_str v)"
        using word_ok_fscanf Some p q qq nul 1(2) by auto
      moreover have "entries_ok (read_pairs r')"
        using 1(1) [OF Some p [symmetric] q qq [symmetric] nul(2)] .
      ultimately show ?thesis
        using Some p q qq by (subst read_pairs.simps) (simp add: entries_ok_def)
    qed
  qed
qed

lemma entries_ok_fold:
  "entries_ok ps \<Longrightarrow> entries_ok m \<Longrightarrow> entries_ok (fold (\<lambda>(k, v). smap_insert k v) ps m)"
proof (induction ps arbitrary: m)
  case Nil
  then show ?case by simp
next
  case (Cons p ps)
  obtain k v where p: "p = (k, v)" by (cases p)
  have "entries_ok ps" and "word_ok k" and "word_ok v"
    using Cons.prems(1) by (simp_all add: p entries_ok_def)
  with Cons show ?case by (simp add: p entries_ok_insert)
qed

text \<open>A freshly constructed store is durable on every disk whose property file has no NUL byte.\<close>

definition no_nul_file :: "string \<Rightarrow> (string \<rightharpoonup> string) \<Rightarrow> bool" where
  "no_nul_file f d = (case d f of None \<Rightarrow> True | Some c \<Rightarrow> CHR 0x00 \<notin> set c)"

lemma hp_durable_new: "no_nul_file f d \<Longrightarrow> hp_durable (hp_new f d)"
proof -
  assume "no_nul_file f d"
  moreover have "entries_ok []" by (simp add: entries_ok_def)
  ultimately have "entries_ok (loadFromFile f d [])"
    by (auto simp: loadFromFile_def no_nul_file_def entries_ok_read_pairs entries_ok_fold
        split: option.splits)
  then show ?thesis
    by (simp add: hp_durable_def hp_new_def hp_ok_def ensureInitialized_def hp_load_def)
qed

subsection \<open>Properties\<close>

text \<open>
  Reading after an update: whatever the disk does, updating a non-empty key with a
  non-empty value makes that value the one read for the key, and leaves every other key's
  value as it was.
\<close>

theorem hp_read_after_update:
  assumes "hp_ok s" and "k \<noteq> []" and "v \<noteq> []" and "k' \<noteq> []"
  shows "fst (getProperty k' (snd (persistHostProperty io k v s)))
       = (if k' = k then Ret v else fst (getProperty k' s))"
  using hp.get_put [OF assms] assms
  by (simp add: getProperty_eq hp_put_def)

theorem hp_read_after_update_witness:
  "fst (getProperty ''a'' (snd (persistHostProperty io_full ''a'' ''2''
      (hp_new ''f'' [''f'' \<mapsto> ''a'' @ tab # ''1'' @ [nl]])))) = Ret ''2''"
proof -
  have "hp_ok (hp_new ''f'' [''f'' \<mapsto> ''a'' @ tab # ''1'' @ [nl]])"
    by (simp add: hp_ok_def hp_new_def)
  from hp_read_after_update [OF this, of "''a''" "''2''" "''a''" io_full] show ?thesis by simp
qed

text \<open>
  C1. Settings survive, as long as the file format can hold them and the disk takes every
  write. Start the store on a disk whose property file has no NUL byte and run any sequence of
  updates (\<open>Some (k, v)\<close>, key and value words of 1 to 1023 characters without blanks and NUL
  bytes) and plugin restarts (\<open>None\<close>), every rewrite of the file succeeding. Reading such a
  key then gives the value last written to it, or, if it was never written, what the first start
  read from the file.
\<close>

definition hp_session :: "(string \<times> string) option list \<Rightarrow> host_store \<Rightarrow> host_store" where
  "hp_session es s = fold (\<lambda>e s. case e of None \<Rightarrow> hp_restart s
       | Some (k, v) \<Rightarrow> snd (persistHostProperty io_full k v s)) es s"

theorem hp_settings_survive:
  assumes "no_nul_file f d" and "word_ok k"
    and "\<forall>e \<in> set es. \<forall>k v. e = Some (k, v) \<longrightarrow> word_ok k \<and> word_ok v"
  shows "hp_get (hp_session es (hp_new f d)) k
       = (case map_of (rev (List.map_filter id es)) k of
            Some v \<Rightarrow> Some v | None \<Rightarrow> hp_get (hp_new f d) k)"
  unfolding hp_session_def hp_put_def [symmetric]
  by (rule hpd.session [OF hp_durable_new [OF assms(1)] assms(3,2)])

theorem hp_settings_survive_witness:
  "hp_get (hp_session [Some (''a'', ''1''), None, Some (''a'', ''2''), None]
      (hp_new ''f'' (\<lambda>_. None))) ''a'' = Some ''2''"
proof -
  have "word_ok ''a''" "word_ok ''1''" "word_ok ''2''" by (simp_all add: word_ok_def isspace_def)
  moreover have "no_nul_file ''f'' (\<lambda>_. None)" by (simp add: no_nul_file_def)
  ultimately show ?thesis
    using hp_settings_survive [of "''f''" "\<lambda>_. None" "''a''"
        "[Some (''a'', ''1''), None, Some (''a'', ''2''), None]"]
    by (simp add: List.map_filter_simps)
qed

text \<open>
  What an update does to the disk (every write arriving): nothing when the value is
  unchanged; a new key rewrites the property file only; a changed value first puts a full copy
  of the old properties into the backup file \<open><file>tmpDB\<close>, which loads back to exactly those
  properties. No other file is touched.
\<close>

theorem hp_update_disk:
  assumes "hp_durable s" and "word_ok k" and "word_ok v"
  defines "s' \<equiv> snd (persistHostProperty io_full k v s)"
  shows "(case hp_get s k of
       None \<Rightarrow> (\<forall>f. f \<noteq> hp_filePath s \<longrightarrow> hp_disk s' f = hp_disk s f)
     | Some w \<Rightarrow> if w = v then hp_disk s' = hp_disk s
         else loadFromFile (hp_filePath s @ ''tmpDB'') (hp_disk s') [] = hp_properties (ensureInitialized s)
           \<and> (\<forall>f. f \<notin> {hp_filePath s, hp_filePath s @ ''tmpDB''} \<longrightarrow> hp_disk s' f = hp_disk s f))"
proof -
  have ne: "k \<noteq> []" "v \<noteq> []" using assms(2,3) by (auto simp: word_ok_def)
  let ?s1 = "ensureInitialized s" and ?b = "hp_filePath s @ ''tmpDB''"
  have "hp_ok ?s1" and "entries_ok (hp_properties ?s1)"
    using assms(1) by (auto simp: hp_durable_def hp_ok_init)
  then have b: "loadFromFile ?b (hp_disk (writeToFile io_full ?b ?s1)) [] = hp_properties ?s1"
    by (intro load_write) (auto simp: hp_ok_def)
  show ?thesis
  proof (cases "hp_get s k")
    case None
    then show ?thesis
      by (simp add: s'_def persist_eq [OF ne] hp_store_def writeToFile_full_disk Let_def)
  next
    case (Some w)
    then show ?thesis
      using b by (simp add: s'_def persist_eq [OF ne] hp_store_def writeToFile_full_disk Let_def
          loadFromFile_def)
  qed
qed

theorem hp_update_disk_witness:
  "loadFromFile ''ftmpDB'' (hp_disk (snd (persistHostProperty io_full ''a'' ''2''
      (hp_new ''f'' [''f'' \<mapsto> ''a'' @ tab # ''1'' @ [nl]])))) [] = [(''a'', ''1'')]"
proof -
  let ?s = "hp_new ''f'' [''f'' \<mapsto> ''a'' @ tab # ''1'' @ [nl]]"
  have w: "word_ok ''a''" "word_ok ''1''" "word_ok ''2''" by (simp_all add: word_ok_def isspace_def)
  have d: "hp_durable ?s" by (rule hp_durable_new) (simp add: no_nul_file_def tab_def nl_def)
  have e: "entries_ok [(''a'', ''1'')]" using w by (simp add: entries_ok_def)
  have p: "hp_properties (ensureInitialized ?s) = [(''a'', ''1'')]"
    using read_pairs_entries [OF e]
    by (simp add: ensureInitialized_def hp_load_def hp_new_def loadFromFile_def entry_line_def)
  then have "hp_get ?s ''a'' = Some ''1''" by (simp add: hp_get_def)
  with hp_update_disk [OF d w(1) w(3)] p show ?thesis by (simp add: hp_new_def)
qed

text \<open>
  The backup is never read: loading gives the same properties whatever the backup file
  holds. So an update whose rewrite of the property file fails (the file cannot be opened)
  reports success, and after the next restart every user setting is gone, although the backup
  written a moment earlier still holds all of them.
\<close>

theorem hp_failed_rewrite_loses_settings:
  assumes "hp_durable s" and "word_ok k" and "word_ok v" and "hp_get s k = Some w" and "w \<noteq> v"
  defines "io \<equiv> io_full\<lparr>io_open_w := (\<lambda>f. f \<noteq> hp_filePath s)\<rparr>"
  defines "s' \<equiv> snd (persistHostProperty io k v s)"
  shows "fst (persistHostProperty io k v s) = Ret ()
       \<and> loadFromFile (hp_filePath s @ ''tmpDB'') (hp_disk s') [] = hp_properties (ensureInitialized s)
       \<and> (\<forall>k'. hp_get (hp_restart s') k' = None)"
proof -
  have ne: "k \<noteq> []" "v \<noteq> []" using assms(2,3) by (auto simp: word_ok_def)
  let ?s1 = "ensureInitialized s" and ?b = "hp_filePath s @ ''tmpDB''"
  have "hp_ok ?s1" and "entries_ok (hp_properties ?s1)"
    using assms(1) by (auto simp: hp_durable_def hp_ok_init)
  then have b: "loadFromFile ?b (hp_disk (writeToFile io_full ?b ?s1)) [] = hp_properties ?s1"
    by (intro load_write) (auto simp: hp_ok_def)
  have io: "writeToFile io ?b ?s1 = writeToFile io_full ?b ?s1"
    by (simp add: writeToFile_def io_def io_full_def Let_def)
  have s': "s' = hp_store io k v ((writeToFile io ?b ?s1)
      \<lparr>hp_properties := smap_erase k (hp_properties (writeToFile io ?b ?s1))\<rparr>)"
    using assms(4,5) by (simp add: s'_def persist_eq [OF ne] Let_def)
  have disk: "hp_disk s' = (hp_disk (writeToFile io ?b ?s1))(hp_filePath s := None)"
    by (simp add: s' hp_store_def writeToFile_def io_def Let_def)
  have "loadFromFile ?b (hp_disk s') [] = hp_properties ?s1"
    using b by (simp add: disk io loadFromFile_def)
  moreover have "hp_filePath s' = hp_filePath s" by (simp add: s' hp_store_simps)
  ultimately show ?thesis
    by (simp add: persist_eq [OF ne] hp_get_def hp_restart_init disk loadFromFile_def)
qed

theorem hp_failed_rewrite_loses_settings_witness:
  "hp_get (hp_restart (snd (persistHostProperty (io_full\<lparr>io_open_w := (\<lambda>f. f \<noteq> ''f'')\<rparr>) ''a'' ''2''
      (hp_session [Some (''a'', ''1'')] (hp_new ''f'' (\<lambda>_. None)))))) ''a'' = None"
proof -
  let ?s = "hp_session [Some (''a'', ''1'')] (hp_new ''f'' (\<lambda>_. None))"
  have w: "word_ok ''a''" "word_ok ''1''" "word_ok ''2''" by (simp_all add: word_ok_def isspace_def)
  have n: "hp_durable (hp_new ''f'' (\<lambda>_. None))" by (rule hp_durable_new) (simp add: no_nul_file_def)
  have s: "?s = hp_put io_full ''a'' ''1'' (hp_new ''f'' (\<lambda>_. None))"
    by (simp add: hp_session_def hp_put_def)
  have "hp_durable ?s" and "hp_get ?s ''a'' = Some ''1''"
    using hpd.inv_put [OF n w(1,2)] hpd.get_put_same [OF n w(1,2)] by (simp_all add: s)
  moreover have "hp_filePath ?s = ''f''" by (simp add: s) (simp add: hp_new_def)
  ultimately show ?thesis
    using hp_failed_rewrite_loses_settings [of ?s "''a''" "''2''" "''1''"] w by simp
qed

end
