(* ===== verification/Notification_Registry.thy ===== *)
theory Notification_Registry
  imports DS_Interfaces
begin

section \<open>Registering clients and dispatching events\<close>

text \<open>
  Models the \<open>Register\<close>, \<open>Unregister\<close> and \<open>dispatchFPDEvent\<close> templates of
  \<open>DeviceSettingsFPDImplementation.cpp\<close> (the other component implementations carry the same
  code). A client is a COM object with a reference count; the registry is a list of
  (client name, object) pairs. A call through an object nobody holds any more is undefined
  behaviour, so the theory shows that dispatching never makes one, even when a client
  registers or unregisters objects from inside its own callback.
\<close>

type_synonym ptr = nat

record 'e registry =
  rg_list :: "(string \<times> ptr) list"
  rg_refs :: "ptr \<Rightarrow> nat"
  rg_calls :: "(ptr \<times> 'e) list"

datatype reg_op = OpRegister string ptr | OpUnregister ptr

definition AddRef :: "ptr \<Rightarrow> 'e registry \<Rightarrow> 'e registry" where
  "AddRef p s = s\<lparr>rg_refs := (rg_refs s)(p := rg_refs s p + 1)\<rparr>"

definition Release :: "ptr \<Rightarrow> 'e registry \<Rightarrow> 'e registry outcome" where
  "Release p s = (if rg_refs s p = 0 then UB
     else Ret (s\<lparr>rg_refs := (rg_refs s)(p := rg_refs s p - 1)\<rparr>))"

definition registered :: "ptr \<Rightarrow> (string \<times> ptr) list \<Rightarrow> bool" where
  "registered p l \<longleftrightarrow> p \<in> snd ` set l"

fun erase_first :: "ptr \<Rightarrow> (string \<times> ptr) list \<Rightarrow> (string \<times> ptr) list" where
  "erase_first p [] = []"
| "erase_first p (e # l) = (if snd e = p then l else e # erase_first p l)"

definition Register :: "string \<Rightarrow> ptr \<Rightarrow> 'e registry \<Rightarrow> coreErr \<times> 'e registry" where
  "Register clientName p s =
     (if registered p (rg_list s) then (ERROR_GENERAL, s)
      else (ERROR_NONE, AddRef p (s\<lparr>rg_list := rg_list s @ [(clientName, p)]\<rparr>)))"

definition Unregister :: "ptr \<Rightarrow> 'e registry \<Rightarrow> (coreErr \<times> 'e registry) outcome" where
  "Unregister p s =
     (if registered p (rg_list s)
      then (case Release p s of
              Ret s' \<Rightarrow> Ret (ERROR_NONE, s'\<lparr>rg_list := erase_first p (rg_list s')\<rparr>)
            | Throw e \<Rightarrow> Throw e
            | UB \<Rightarrow> UB)
      else Ret (ERROR_GENERAL, s))"

fun do_op :: "reg_op \<Rightarrow> 'e registry \<Rightarrow> 'e registry outcome" where
  "do_op (OpRegister n p) s = Ret (snd (Register n p s))"
| "do_op (OpUnregister p) s = (case Unregister p s of
       Ret r \<Rightarrow> Ret (snd r) | Throw e \<Rightarrow> Throw e | UB \<Rightarrow> UB)"

fun do_ops :: "reg_op list \<Rightarrow> 'e registry \<Rightarrow> 'e registry outcome" where
  "do_ops [] s = Ret s"
| "do_ops (a # as) s = (case do_op a s of Ret s' \<Rightarrow> do_ops as s' | Throw e \<Rightarrow> Throw e | UB \<Rightarrow> UB)"

text \<open>
  \<open>dispatchFPDEvent\<close>: under the lock, take a reference on every registered object and copy
  the list; then, without the lock, call each and release it. \<open>client p e\<close> are the registry
  operations object \<open>p\<close> makes from its callback for the event \<open>e\<close>.
\<close>

fun notify_all :: "(ptr \<Rightarrow> 'e \<Rightarrow> reg_op list) \<Rightarrow> 'e \<Rightarrow> (string \<times> ptr) list
    \<Rightarrow> 'e registry \<Rightarrow> 'e registry outcome" where
  "notify_all client e [] s = Ret s"
| "notify_all client e (n # ns) s =
     (if rg_refs s (snd n) = 0 then UB
      else case do_ops (client (snd n) e) (s\<lparr>rg_calls := rg_calls s @ [(snd n, e)]\<rparr>) of
          Ret s1 \<Rightarrow> (case Release (snd n) s1 of
              Ret s2 \<Rightarrow> notify_all client e ns s2 | Throw x \<Rightarrow> Throw x | UB \<Rightarrow> UB)
        | Throw x \<Rightarrow> Throw x
        | UB \<Rightarrow> UB)"

definition dispatchEvent ::
  "(ptr \<Rightarrow> 'e \<Rightarrow> reg_op list) \<Rightarrow> 'e \<Rightarrow> 'e registry \<Rightarrow> 'e registry outcome" where
  "dispatchEvent client e s =
     notify_all client e (rg_list s) (fold (\<lambda>n. AddRef (snd n)) (rg_list s) s)"

subsection \<open>The reference-count invariant\<close>

text \<open>
  \<open>base p\<close> references on \<open>p\<close> are held outside the registry; \<open>pend\<close> are the objects a running
  dispatch still holds. An object is registered at most once.
\<close>

definition reg_inv :: "(ptr \<Rightarrow> nat) \<Rightarrow> ptr list \<Rightarrow> 'e registry \<Rightarrow> bool" where
  "reg_inv base pend s \<longleftrightarrow> distinct (map snd (rg_list s)) \<and>
     (\<forall>p. rg_refs s p = base p + (if registered p (rg_list s) then 1 else 0) + count_list pend p)"

definition reg_empty :: "(ptr \<Rightarrow> nat) \<Rightarrow> 'e registry" where
  "reg_empty base = \<lparr>rg_list = [], rg_refs = base, rg_calls = []\<rparr>"

lemma reg_inv_empty: "reg_inv base [] (reg_empty base)"
  by (simp add: reg_inv_def reg_empty_def registered_def)

lemma registered_append [simp]:
  "registered p (l @ [(n, q)]) \<longleftrightarrow> registered p l \<or> p = q"
  by (auto simp: registered_def)

lemma erase_first_snd: "map snd (erase_first p l) = remove1 p (map snd l)"
  by (induction l) auto

lemma registered_map: "registered p l \<longleftrightarrow> p \<in> set (map snd l)"
  by (simp add: registered_def)

lemma registered_erase:
  "distinct (map snd l) \<Longrightarrow> registered q (erase_first p l) \<longleftrightarrow> registered q l \<and> q \<noteq> p"
  by (auto simp: registered_map erase_first_snd)

lemma erase_first_absent: "\<not> registered p l \<Longrightarrow> erase_first p l = l"
  by (induction l) (auto simp: registered_def)

lemma reg_inv_Register: "reg_inv base pend s \<Longrightarrow> reg_inv base pend (snd (Register n p s))"
  by (auto simp: reg_inv_def Register_def AddRef_def registered_map)

lemma Unregister_inv:
  assumes "reg_inv base pend s"
  shows "\<exists>c s'. Unregister p s = Ret (c, s') \<and> reg_inv base pend s' \<and> rg_calls s' = rg_calls s
           \<and> (c = ERROR_NONE \<longleftrightarrow> registered p (rg_list s))
           \<and> rg_list s' = erase_first p (rg_list s)"
proof (cases "registered p (rg_list s)")
  case True
  with assms have "rg_refs s p \<noteq> 0" by (simp add: reg_inv_def)
  with True assms show ?thesis
    by (auto simp: Unregister_def Release_def reg_inv_def registered_erase erase_first_snd)
next
  case False
  with assms show ?thesis by (auto simp: Unregister_def erase_first_absent)
qed

lemma do_op_inv:
  assumes "reg_inv base pend s"
  shows "\<exists>s'. do_op a s = Ret s' \<and> reg_inv base pend s' \<and> rg_calls s' = rg_calls s"
proof (cases a)
  case (OpRegister n p)
  with assms show ?thesis
    by (auto simp: reg_inv_Register) (simp add: Register_def AddRef_def)
next
  case (OpUnregister p)
  with Unregister_inv [OF assms, of p] show ?thesis by auto
qed

lemma do_ops_inv:
  "reg_inv base pend s \<Longrightarrow> \<exists>s'. do_ops as s = Ret s' \<and> reg_inv base pend s' \<and> rg_calls s' = rg_calls s"
proof (induction as arbitrary: s)
  case Nil
  then show ?case by simp
next
  case (Cons a as)
  from do_op_inv [OF Cons.prems, of a] obtain s1 where
    "do_op a s = Ret s1" "reg_inv base pend s1" "rg_calls s1 = rg_calls s" by blast
  with Cons.IH [of s1] show ?case by auto
qed

lemma Release_pend:
  "reg_inv base (p # pend) s \<Longrightarrow> \<exists>s'. Release p s = Ret s' \<and> reg_inv base pend s' \<and> rg_calls s' = rg_calls s
     \<and> rg_list s' = rg_list s"
  by (auto simp: reg_inv_def Release_def)

lemma reg_inv_log: "reg_inv base pend (s\<lparr>rg_calls := c\<rparr>) = reg_inv base pend s"
  by (simp add: reg_inv_def)

lemma notify_all_inv:
  "reg_inv base (map snd ns @ pend) s \<Longrightarrow>
     \<exists>s'. notify_all client e ns s = Ret s' \<and> reg_inv base pend s'
        \<and> rg_calls s' = rg_calls s @ map (\<lambda>n. (snd n, e)) ns"
proof (induction ns arbitrary: s)
  case Nil
  then show ?case by simp
next
  case (Cons n ns)
  let ?s = "s\<lparr>rg_calls := rg_calls s @ [(snd n, e)]\<rparr>"
  have alive: "rg_refs s (snd n) \<noteq> 0" using Cons.prems by (simp add: reg_inv_def)
  have "reg_inv base (snd n # map snd ns @ pend) ?s" using Cons.prems by (simp add: reg_inv_log)
  from do_ops_inv [OF this, of "client (snd n) e"] obtain s1 where
    s1: "do_ops (client (snd n) e) ?s = Ret s1" "reg_inv base (snd n # map snd ns @ pend) s1"
      "rg_calls s1 = rg_calls s @ [(snd n, e)]" by auto
  from Release_pend [OF s1(2)] obtain s2 where
    s2: "Release (snd n) s1 = Ret s2" "reg_inv base (map snd ns @ pend) s2" "rg_calls s2 = rg_calls s1"
    by blast
  from Cons.IH [OF s2(2)] show ?case using alive s1 s2 by auto
qed

lemma fold_AddRef_inv:
  "reg_inv base pend s \<Longrightarrow> reg_inv base (rev (map snd ns) @ pend) (fold (\<lambda>n. AddRef (snd n)) ns s)
     \<and> rg_list (fold (\<lambda>n. AddRef (snd n)) ns s) = rg_list s
     \<and> rg_calls (fold (\<lambda>n. AddRef (snd n)) ns s) = rg_calls s"
proof (induction ns arbitrary: s pend)
  case Nil
  then show ?case by simp
next
  case (Cons n ns)
  have "reg_inv base (snd n # pend) (AddRef (snd n) s)"
    using Cons.prems by (auto simp: reg_inv_def AddRef_def)
  from Cons.IH [OF this] show ?case by (simp add: AddRef_def)
qed

lemma count_list_rev: "count_list (rev xs) p = count_list xs p"
  by (induction xs) auto

lemma count_list_append: "count_list (xs @ ys) p = count_list xs p + count_list ys p"
  by (induction xs) auto

lemma dispatchEvent_inv:
  assumes "reg_inv base pend s"
  shows "\<exists>s'. dispatchEvent client e s = Ret s' \<and> reg_inv base pend s'
           \<and> rg_calls s' = rg_calls s @ map (\<lambda>n. (snd n, e)) (rg_list s)"
proof -
  let ?s = "fold (\<lambda>n. AddRef (snd n)) (rg_list s) s"
  note f = fold_AddRef_inv [OF assms, of "rg_list s"]
  then have "reg_inv base (rev (map snd (rg_list s)) @ pend) ?s" by simp
  then have "reg_inv base (map snd (rg_list s) @ pend) ?s"
    unfolding reg_inv_def count_list_append count_list_rev .
  from notify_all_inv [OF this, of client e] f show ?thesis by (auto simp: dispatchEvent_def)
qed

subsection \<open>The subscription contract\<close>

definition unreg :: "ptr \<Rightarrow> 'e registry \<Rightarrow> 'e registry" where
  "unreg p s = (case Unregister p s of Ret r \<Rightarrow> snd r | _ \<Rightarrow> s)"

definition reg_members :: "'e registry \<Rightarrow> ptr list" where
  "reg_members s = map snd (rg_list s)"

lemma reg_members_Register:
  "reg_members (snd (Register n p s))
     = (if p \<in> set (reg_members s) then reg_members s else reg_members s @ [p])"
  by (auto simp: reg_members_def Register_def AddRef_def registered_def)

lemma reg_members_unreg:
  assumes "reg_inv base pend s"
  shows "reg_members (unreg p s) = remove1 p (reg_members s)" and "reg_inv base pend (unreg p s)"
  using Unregister_inv [OF assms, of p] by (auto simp: unreg_def reg_members_def erase_first_snd)

lemma reg_members_distinct: "reg_inv base pend s \<Longrightarrow> distinct (reg_members s)"
  by (simp add: reg_inv_def reg_members_def)

interpretation reg: subscription "\<lambda>n p s. snd (Register n p s)" unreg reg_members
    "reg_inv base pend" for base pend
  by unfold_locales
    (simp_all add: reg_members_Register reg_members_unreg reg_inv_Register reg_members_distinct)

definition op_request :: "reg_op \<Rightarrow> string option \<times> ptr" where
  "op_request a = (case a of OpRegister n q \<Rightarrow> (Some n, q) | OpUnregister q \<Rightarrow> (None, q))"

definition op_wish :: "reg_op \<Rightarrow> ptr \<times> bool" where
  "op_wish a = (case a of OpRegister n q \<Rightarrow> (q, True) | OpUnregister q \<Rightarrow> (q, False))"

lemma do_ops_run:
  "reg_inv base pend s \<Longrightarrow>
     do_ops as s = Ret (sub_run (\<lambda>n p s. snd (Register n p s)) unreg (map op_request as) s)"
proof (induction as arbitrary: s)
  case Nil
  then show ?case by (simp add: sub_run_def)
next
  case (Cons a as)
  from do_op_inv [OF Cons.prems, of a] obtain s1 where
    s1: "do_op a s = Ret s1" "reg_inv base pend s1" by blast
  then have "s1 = (case a of OpRegister n q \<Rightarrow> snd (Register n q s) | OpUnregister q \<Rightarrow> unreg q s)"
    by (cases a) (auto simp: unreg_def split: outcome.splits)
  with s1 Cons.IH [OF s1(2)] show ?case
    by (simp add: sub_run_def op_request_def split: reg_op.splits)
qed

text \<open>A history of registrations and events, as the plugin sees it.\<close>

datatype 'e reg_event = Client reg_op | Event 'e

fun reg_step :: "(ptr \<Rightarrow> 'e \<Rightarrow> reg_op list) \<Rightarrow> 'e reg_event \<Rightarrow> 'e registry \<Rightarrow> 'e registry outcome" where
  "reg_step client (Client a) s = do_op a s"
| "reg_step client (Event e) s = dispatchEvent client e s"

fun reg_run :: "(ptr \<Rightarrow> 'e \<Rightarrow> reg_op list) \<Rightarrow> 'e reg_event list \<Rightarrow> 'e registry \<Rightarrow> 'e registry outcome" where
  "reg_run client [] s = Ret s"
| "reg_run client (a # as) s = (case reg_step client a s of
     Ret s' \<Rightarrow> reg_run client as s' | Throw e \<Rightarrow> Throw e | UB \<Rightarrow> UB)"

lemma reg_run_inv: "reg_inv base [] s \<Longrightarrow> \<exists>s'. reg_run client as s = Ret s' \<and> reg_inv base [] s'"
proof (induction as arbitrary: s)
  case Nil
  then show ?case by simp
next
  case (Cons a as)
  have "\<exists>s1. reg_step client a s = Ret s1 \<and> reg_inv base [] s1"
    using do_op_inv [OF Cons.prems] dispatchEvent_inv [OF Cons.prems] by (cases a) fastforce+
  with Cons.IH show ?case by auto
qed

lemma reg_run_append:
  "reg_run client (as @ bs) s = (case reg_run client as s of
     Ret s' \<Rightarrow> reg_run client bs s' | Throw e \<Rightarrow> Throw e | UB \<Rightarrow> UB)"
  by (induction as arbitrary: s) (auto split: outcome.splits)

subsection \<open>Properties\<close>

text \<open>
  C7. Dispatching is safe and complete: after any history of registrations, removals and
  events, with clients that register and remove objects from inside their callbacks, no call
  or release goes through a dead object; the next event reaches exactly the objects registered
  at that moment, each once, in the order they registered; and when every object has been
  removed, each is left with just the references held outside the registry.
\<close>

theorem dispatch_safe:
  "\<exists>s. reg_run client as (reg_empty base) = Ret s \<and> distinct (reg_members s)
     \<and> (\<forall>p. rg_refs s p = base p + (if p \<in> set (reg_members s) then 1 else 0))
     \<and> (\<exists>s'. dispatchEvent client e s = Ret s'
           \<and> rg_calls s' = rg_calls s @ map (\<lambda>p. (p, e)) (reg_members s))"
proof -
  from reg_run_inv [OF reg_inv_empty] obtain s where
    s: "reg_run client as (reg_empty base) = Ret s" "reg_inv base [] s" by blast
  from dispatchEvent_inv [OF s(2), of client e] have
    "\<exists>s'. dispatchEvent client e s = Ret s' \<and> rg_calls s' = rg_calls s @ map (\<lambda>p. (p, e)) (reg_members s)"
    by (auto simp: reg_members_def)
  moreover have "distinct (reg_members s)"
    and "\<forall>p. rg_refs s p = base p + (if p \<in> set (reg_members s) then 1 else 0)"
    using s(2) by (auto simp: reg_inv_def reg_members_def registered_map)
  ultimately show ?thesis using s(1) by blast
qed

text \<open>
  Registration is idempotent and the last request wins: after any sequence of
  registrations and removals an object is registered exactly when the last request about it
  was a registration, however often it was registered before.
\<close>

theorem registration_last_wins:
  "\<exists>s. do_ops as (reg_empty base :: 'e registry) = Ret s
     \<and> (\<forall>p. p \<in> set (reg_members s) \<longleftrightarrow> wants p (map op_wish as) False)"
proof -
  have e: "reg_inv base [] (reg_empty base :: 'e registry)" by (rule reg_inv_empty)
  have w: "map op_wish as = map (\<lambda>r. (snd r, fst r \<noteq> None)) (map op_request as)"
    by (induction as) (auto simp: op_wish_def op_request_def split: reg_op.split)
  have "reg_members (reg_empty base :: 'e registry) = []" by (simp add: reg_members_def reg_empty_def)
  then have "p \<in> set (reg_members (sub_run (\<lambda>n p s. snd (Register n p s)) unreg
      (map op_request as) (reg_empty base :: 'e registry))) \<longleftrightarrow> wants p (map op_wish as) False" for p
    using reg.run_members [OF e, of "map op_request as" p] by (simp only: w) simp
  with do_ops_run [OF e, of as] show ?thesis by blast
qed

end
