(* ===== verification/Plugin_Shell.thy ===== *)
theory Plugin_Shell
  imports Notification_Registry
begin

section \<open>The plugin object (\<open>DeviceSettings.cpp\<close>)\<close>

text \<open>
  \<open>DeviceSettings\<close> is what the Thunder host loads: \<open>Initialize\<close> asks the host for the
  implementation object, configures it, queries its eight interfaces and subscribes its sink to the
  events of five of them; \<open>Deinitialize\<close> gives everything back. Objects are numbered. The counts of
  references are explicit, and to use an object nobody holds is undefined, as is a failed \<open>ASSERT\<close>.
  The sink is client 0 of the registries. The host, the implementation's answers and the
  connection numbers are parameters. \<open>USE_LEGACY_INTERFACE\<close> only changes the order of the queries.
\<close>

subsection \<open>Types\<close>

datatype iface = IfFPD | IfHDMIIn | IfAudio | IfVideoPort | IfVideoDevice | IfHost | IfCompositeIn | IfDisplay

datatype shell_call =
    ScRoot
  | ScConfigure nat
  | ScQuery nat iface
  | ScRegister nat iface
  | ScUnregister nat iface
  | ScDestroyed nat
  | ScDeactivate nat

record shell_env =
  sv_legacy :: bool
  sv_root :: "shell_call list \<Rightarrow> bool"
  sv_connection :: "shell_call list \<Rightarrow> nat"
  sv_configure :: "shell_call list \<Rightarrow> coreErr"
  sv_query :: "shell_call list \<Rightarrow> iface \<Rightarrow> bool"

text \<open>
  \<open>p_iface\<close> are the interface pointers that are not null. \<open>sh_services\<close> are the references on a
  service, \<open>sh_links\<close> and \<open>sh_connections\<close> the services the sink is registered with, \<open>sh_refs\<close> the
  references on an implementation object, of which other plugins hold \<open>sh_ext\<close>.
\<close>

record shell_state =
  mService :: "nat option"
  mConnectionId :: nat
  p_root :: "nat option"
  p_iface :: "iface \<Rightarrow> bool"
  sh_services :: "nat \<Rightarrow> nat"
  sh_connections :: "nat set"
  sh_links :: "nat set"
  sh_refs :: "nat \<Rightarrow> nat"
  sh_regs :: "nat \<Rightarrow> iface \<Rightarrow> unit registry"
  sh_ext :: "nat \<Rightarrow> nat"
  sh_next :: nat
  sh_trace :: "shell_call list"

definition shell_new :: shell_state where
  "shell_new = \<lparr>mService = None, mConnectionId = 0, p_root = None, p_iface = (\<lambda>_. False), sh_services = (\<lambda>_. 0),
     sh_connections = {}, sh_links = {}, sh_refs = (\<lambda>_. 0), sh_regs = (\<lambda>_ _. reg_empty (\<lambda>_. 0)), sh_ext = (\<lambda>_. 0),
     sh_next = 0, sh_trace = []\<rparr>"

definition sh_log :: "shell_call \<Rightarrow> shell_state \<Rightarrow> shell_state" where
  "sh_log c s = s\<lparr>sh_trace := sh_trace s @ [c]\<rparr>"

subsection \<open>References\<close>

text \<open>The object is deleted with its last reference.\<close>

definition sh_Release :: "nat \<Rightarrow> shell_state \<Rightarrow> shell_state outcome" where
  "sh_Release r s =
     (if sh_refs s r = 0 then UB
      else let s1 = s\<lparr>sh_refs := (sh_refs s)(r := sh_refs s r - 1)\<rparr>
           in Ret (if sh_refs s1 r = 0 then sh_log (ScDestroyed r) s1 else s1))"

text \<open>An answered query leaves the client with a reference.\<close>

definition QueryInterface :: "shell_env \<Rightarrow> nat \<Rightarrow> iface \<Rightarrow> shell_state \<Rightarrow> shell_state outcome" where
  "QueryInterface e r i s =
     (if sh_refs s r = 0 then UB
      else let s1 = sh_log (ScQuery r i) s
           in Ret (if sv_query e (sh_trace s) i
                   then s1\<lparr>p_iface := (p_iface s)(i := True), sh_refs := (sh_refs s)(r := sh_refs s r + 1)\<rparr>
                   else s1\<lparr>p_iface := (p_iface s)(i := False)\<rparr>))"

text \<open>Subscribing the sink, and the reverse; only through a pointer that is not null.\<close>

definition register_sink :: "nat \<Rightarrow> iface \<Rightarrow> shell_state \<Rightarrow> shell_state outcome" where
  "register_sink r i s =
     (if \<not> p_iface s i then Ret s
      else if sh_refs s r = 0 then UB
      else let s1 = sh_log (ScRegister r i) s
           in Ret (s1\<lparr>sh_regs := (sh_regs s)(r := (sh_regs s r)(i := snd (Register ''DeviceSettings'' 0 (sh_regs s r i))))\<rparr>))"

definition unregister_sink :: "nat \<Rightarrow> iface \<Rightarrow> shell_state \<Rightarrow> shell_state outcome" where
  "unregister_sink r i s =
     (if \<not> p_iface s i then Ret s
      else if sh_refs s r = 0 then UB
      else obind (Unregister 0 (sh_regs s r i)) (\<lambda>(c, g).
        let s1 = sh_log (ScUnregister r i) s in Ret (s1\<lparr>sh_regs := (sh_regs s)(r := (sh_regs s r)(i := g))\<rparr>)))"

definition release_iface :: "nat \<Rightarrow> iface \<Rightarrow> shell_state \<Rightarrow> shell_state outcome" where
  "release_iface r i s =
     (if \<not> p_iface s i then Ret s else obind (sh_Release r s) (\<lambda>s1. Ret (s1\<lparr>p_iface := (p_iface s1)(i := False)\<rparr>)))"

fun each :: "(iface \<Rightarrow> shell_state \<Rightarrow> shell_state outcome) \<Rightarrow> iface list \<Rightarrow> shell_state \<Rightarrow> shell_state outcome" where
  "each f [] s = Ret s"
| "each f (i # is) s = obind (f i s) (each f is)"

definition query_order :: "shell_env \<Rightarrow> iface list" where
  "query_order e = (if sv_legacy e
     then [IfFPD, IfHDMIIn, IfAudio, IfVideoPort, IfVideoDevice, IfHost, IfCompositeIn, IfDisplay]
     else [IfFPD, IfHDMIIn, IfCompositeIn, IfAudio, IfVideoPort, IfVideoDevice, IfHost, IfDisplay])"

definition notifying :: "iface list" where
  "notifying = [IfHDMIIn, IfVideoPort, IfVideoDevice, IfCompositeIn, IfDisplay]"

definition release_order :: "iface list" where
  "release_order = [IfFPD, IfHDMIIn, IfCompositeIn, IfAudio, IfVideoPort, IfVideoDevice, IfHost, IfDisplay]"

subsection \<open>\<open>Initialize\<close> and \<open>Deinitialize\<close>\<close>

definition root_each :: "(nat \<Rightarrow> iface \<Rightarrow> shell_state \<Rightarrow> shell_state outcome) \<Rightarrow> iface list \<Rightarrow> shell_state
    \<Rightarrow> shell_state outcome" where
  "root_each f is s = (case p_root s of None \<Rightarrow> Ret s | Some r \<Rightarrow> each (f r) is s)"

definition Deinitialize :: "nat \<Rightarrow> shell_state \<Rightarrow> shell_state outcome" where
  "Deinitialize service s = (case mService s of
       None \<Rightarrow> Ret s
     | Some v \<Rightarrow>
         if v \<noteq> service then UB
         else let s1 = s\<lparr>sh_connections := sh_connections s - {v}, sh_links := sh_links s - {v}\<rparr>
         in obind (root_each unregister_sink notifying s1) (\<lambda>s2.
            obind (root_each release_iface release_order s2) (\<lambda>s3.
            obind (case p_root s3 of None \<Rightarrow> Ret s3
                   | Some r \<Rightarrow> obind (sh_Release r s3) (\<lambda>s4. Ret (s4\<lparr>p_root := None\<rparr>))) (\<lambda>s5.
            if sh_services s5 v = 0 then UB
            else Ret (s5\<lparr>sh_services := (sh_services s5)(v := sh_services s5 v - 1), mService := None,
                        mConnectionId := 0\<rparr>)))))"

text \<open>A new implementation object; a connection number is written in either case.\<close>

definition service_Root :: "shell_env \<Rightarrow> shell_state \<Rightarrow> shell_state" where
  "service_Root e s =
     (let s1 = (sh_log ScRoot s)\<lparr>mConnectionId := sv_connection e (sh_trace s)\<rparr>
      in if sv_root e (sh_trace s)
         then s1\<lparr>p_root := Some (sh_next s), sh_refs := (sh_refs s)(sh_next s := 1), sh_next := sh_next s + 1\<rparr>
         else s1\<lparr>p_root := None\<rparr>)"

definition Initialize :: "shell_env \<Rightarrow> nat \<Rightarrow> shell_state \<Rightarrow> (string \<times> shell_state) outcome" where
  "Initialize e service s =
     (if mService s \<noteq> None \<or> mConnectionId s \<noteq> 0 \<or> p_root s \<noteq> None
         \<or> (\<exists>i \<in> {IfFPD, IfHDMIIn, IfVideoPort, IfVideoDevice, IfHost, IfCompositeIn}. p_iface s i) then UB
      else let s1 = s\<lparr>mService := Some service, sh_services := (sh_services s)(service := sh_services s service + 1),
                  sh_connections := insert service (sh_connections s), sh_links := insert service (sh_links s)\<rparr>;
               s2 = service_Root e s1
      in case p_root s2 of
           None \<Rightarrow> obind (Deinitialize service s2) (\<lambda>t. Ret (''DeviceSettings plugin could not be initialised'', t))
         | Some r \<Rightarrow>
             let s3 = sh_log (ScConfigure r) s2
             in if sv_configure e (sh_trace s2) \<noteq> ERROR_NONE
                then obind (Deinitialize service s3) (\<lambda>t. Ret (''DeviceSettings configuration failed'', t))
                else obind (each (QueryInterface e r) (query_order e) s3) (\<lambda>s4.
                     obind (each (register_sink r) notifying s4) (\<lambda>s5. Ret ([], s5))))"

text \<open>The host says a connection has ended: the plugin asks to be deactivated if it is its own.\<close>

definition Deactivated :: "nat \<Rightarrow> shell_state \<Rightarrow> shell_state outcome" where
  "Deactivated connection s =
     (if mConnectionId s \<noteq> connection then Ret s
      else case mService s of None \<Rightarrow> UB | Some v \<Rightarrow> Ret (sh_log (ScDeactivate v) s))"

subsection \<open>Histories\<close>

text \<open>
  Other plugins get an interface through the plugin object (\<open>INTERFACE_AGGREGATE\<close>), as long as it
  has the pointer, and give their reference back whenever they like.
\<close>

datatype shell_op = OpInitialize nat | OpDeinitialize nat | OpDeactivated nat | OpAcquire iface | OpGiveBack nat

definition Acquire :: "iface \<Rightarrow> shell_state \<Rightarrow> shell_state outcome" where
  "Acquire i s = (case p_root s of
       None \<Rightarrow> Ret s
     | Some r \<Rightarrow> if \<not> p_iface s i then Ret s
         else if sh_refs s r = 0 then UB
         else Ret (s\<lparr>sh_refs := (sh_refs s)(r := sh_refs s r + 1), sh_ext := (sh_ext s)(r := sh_ext s r + 1)\<rparr>))"

definition GiveBack :: "nat \<Rightarrow> shell_state \<Rightarrow> shell_state outcome" where
  "GiveBack r s = (if sh_ext s r = 0 then Ret s
     else obind (sh_Release r s) (\<lambda>s1. Ret (s1\<lparr>sh_ext := (sh_ext s1)(r := sh_ext s1 r - 1)\<rparr>)))"

fun shell_do :: "shell_env \<Rightarrow> shell_op \<Rightarrow> shell_state \<Rightarrow> shell_state outcome" where
  "shell_do e (OpInitialize v) s = obind (Initialize e v s) (\<lambda>(message, t). Ret t)"
| "shell_do e (OpDeinitialize v) s = Deinitialize v s"
| "shell_do e (OpDeactivated c) s = Deactivated c s"
| "shell_do e (OpAcquire i) s = Acquire i s"
| "shell_do e (OpGiveBack r) s = GiveBack r s"

fun shell_run :: "shell_env \<Rightarrow> shell_op list \<Rightarrow> shell_state \<Rightarrow> shell_state outcome" where
  "shell_run e [] s = Ret s"
| "shell_run e (c # cs) s = obind (shell_do e c s) (shell_run e cs)"

subsection \<open>The invariant\<close>

lemma iface_UNIV: "(UNIV :: iface set) = {IfFPD, IfHDMIIn, IfAudio, IfVideoPort, IfVideoDevice, IfHost, IfCompositeIn, IfDisplay}"
proof -
  have "i \<in> {IfFPD, IfHDMIIn, IfAudio, IfVideoPort, IfVideoDevice, IfHost, IfCompositeIn, IfDisplay}" for i
    by (cases i) simp_all
  then show ?thesis by blast
qed

lemma finite_iface [simp]: "finite (A :: iface set)"
  by (rule finite_subset [OF subset_UNIV]) (simp add: iface_UNIV)

text \<open>
  \<open>sh_ok R s\<close>: every reference on an implementation object is a pointer of the plugin or a client's;
  the sink is subscribed exactly to the interfaces \<open>R\<close> of the current object, once. \<open>sh_linked s\<close>: the
  service is held once and knows the sink while the plugin points to it.
\<close>

definition sh_own :: "nat \<Rightarrow> shell_state \<Rightarrow> nat" where
  "sh_own r s = (if p_root s = Some r then 1 + card (Collect (p_iface s)) else 0)"

definition sh_ok :: "iface set \<Rightarrow> shell_state \<Rightarrow> bool" where
  "sh_ok R s \<longleftrightarrow> (\<forall>r. sh_refs s r = sh_own r s + sh_ext s r)
     \<and> (p_root s = None \<longrightarrow> p_iface s = (\<lambda>_. False))
     \<and> (\<forall>r. p_root s = Some r \<longrightarrow> r < sh_next s)
     \<and> (\<forall>r i. reg_inv (\<lambda>_. 0) [] (sh_regs s r i))
     \<and> (\<forall>r i. reg_members (sh_regs s r i) = (if p_root s = Some r \<and> i \<in> R then [0] else []))
     \<and> (\<forall>r \<ge> sh_next s. sh_refs s r = 0)"

definition sh_linked :: "shell_state \<Rightarrow> bool" where
  "sh_linked s \<longleftrightarrow> (\<forall>v. sh_services s v = (if mService s = Some v then 1 else 0))
     \<and> sh_connections s = set_option (mService s) \<and> sh_links s = set_option (mService s)"


definition sh_same :: "shell_state \<Rightarrow> shell_state \<Rightarrow> bool" where
  "sh_same s t \<longleftrightarrow> mService t = mService s \<and> mConnectionId t = mConnectionId s \<and> p_root t = p_root s
     \<and> sh_ext t = sh_ext s \<and> sh_next t = sh_next s \<and> sh_services t = sh_services s
     \<and> sh_connections t = sh_connections s \<and> sh_links t = sh_links s"

lemma sh_same_refl [simp]: "sh_same s s"
  by (simp add: sh_same_def)

lemma sh_same_trans: "sh_same s t \<Longrightarrow> sh_same t u \<Longrightarrow> sh_same s u"
  by (simp add: sh_same_def)

lemma sh_ok_cong:
  assumes "sh_refs t = sh_refs s" "p_root t = p_root s" "p_iface t = p_iface s" "sh_ext t = sh_ext s"
    "sh_next t = sh_next s" "sh_regs t = sh_regs s"
  shows "sh_ok R t = sh_ok R s"
  unfolding sh_ok_def sh_own_def assms ..

lemma sh_ok_log [simp]: "sh_ok R (sh_log c s) = sh_ok R s"
  by (simp add: sh_ok_def sh_own_def sh_log_def)

lemma sh_log_fields [simp]:
  "sh_same s (sh_log c s)" "p_iface (sh_log c s) = p_iface s" "sh_refs (sh_log c s) = sh_refs s"
  "sh_regs (sh_log c s) = sh_regs s" "p_root (sh_log c s) = p_root s" "sh_ext (sh_log c s) = sh_ext s"
  "mService (sh_log c s) = mService s" "mConnectionId (sh_log c s) = mConnectionId s" "sh_next (sh_log c s) = sh_next s" "sh_services (sh_log c s) = sh_services s" "sh_connections (sh_log c s) = sh_connections s"
  "sh_links (sh_log c s) = sh_links s"
  by (simp_all add: sh_log_def sh_same_def)

lemma sh_held: "sh_ok R s \<Longrightarrow> p_root s = Some r \<Longrightarrow> sh_refs s r \<noteq> 0"
  by (simp add: sh_ok_def sh_own_def)

text \<open>One lemma for each thing the plugin does to an interface.\<close>

lemma unregister_sink_ok:
  assumes s: "sh_ok R s" and r: "p_root s = Some r" and R: "R \<subseteq> Collect (p_iface s)"
  shows "\<exists>t. unregister_sink r i s = Ret t \<and> sh_ok (R - {i}) t \<and> sh_same s t \<and> p_iface t = p_iface s"
proof (cases "p_iface s i")
  case True
  have inv: "reg_inv (\<lambda>_. 0) [] (sh_regs s r i)" using s by (simp add: sh_ok_def)
  from Unregister_inv [OF this, of 0] obtain c g where
    g: "Unregister 0 (sh_regs s r i) = Ret (c, g)" "reg_inv (\<lambda>_. 0) [] g"
      "rg_list g = erase_first 0 (rg_list (sh_regs s r i))" by blast
  then have m: "reg_members g = remove1 0 (reg_members (sh_regs s r i))"
    by (simp add: reg_members_def erase_first_snd)
  have old: "reg_members (sh_regs s r i) = (if i \<in> R then [0] else [])" using s r by (simp add: sh_ok_def)
  let ?t = "(sh_log (ScUnregister r i) s)\<lparr>sh_regs := (sh_regs s)(r := (sh_regs s r)(i := g))\<rparr>"
  have "sh_ok (R - {i}) ?t"
    using s r g(2) m old by (auto simp: sh_ok_def sh_own_def sh_log_def)
  then show ?thesis using True g(1) sh_held [OF s r] by (simp add: unregister_sink_def Let_def sh_same_def)
next
  case False
  then have "R - {i} = R" using R by auto
  with s show ?thesis using False by (simp add: unregister_sink_def)
qed

lemma register_sink_ok:
  assumes s: "sh_ok R s" and r: "p_root s = Some r"
  shows "\<exists>t. register_sink r i s = Ret t \<and> sh_ok (if p_iface s i then insert i R else R) t \<and> sh_same s t
           \<and> p_iface t = p_iface s"
proof (cases "p_iface s i")
  case True
  let ?g = "snd (Register ''DeviceSettings'' 0 (sh_regs s r i))"
  have inv: "reg_inv (\<lambda>_. 0) [] ?g" using s by (simp add: sh_ok_def reg_inv_Register)
  have "reg_members (sh_regs s r i) = (if i \<in> R then [0] else [])" using s r by (simp add: sh_ok_def)
  then have m: "reg_members ?g = [0]" by (simp add: reg_members_Register)
  let ?t = "(sh_log (ScRegister r i) s)\<lparr>sh_regs := (sh_regs s)(r := (sh_regs s r)(i := ?g))\<rparr>"
  have "sh_ok (insert i R) ?t"
    using s r inv m by (auto simp: sh_ok_def sh_own_def sh_log_def)
  then show ?thesis using True sh_held [OF s r] by (simp add: register_sink_def Let_def sh_same_def)
qed (simp add: register_sink_def s)

lemma query_ok:
  assumes s: "sh_ok R s" and r: "p_root s = Some r" and i: "\<not> p_iface s i"
  shows "\<exists>t b. QueryInterface e r i s = Ret t \<and> sh_ok R t \<and> sh_same s t \<and> p_iface t = (p_iface s)(i := b)"
proof -
  have "Collect ((p_iface s)(i := True)) = insert i (Collect (p_iface s))"
    and no: "(p_iface s)(i := False) = p_iface s" using i by (auto simp: fun_eq_iff)
  then have c: "card (Collect ((p_iface s)(i := True))) = Suc (card (Collect (p_iface s)))"
    using i by simp
  show ?thesis
  proof (cases "sv_query e (sh_trace s) i")
    case True
    let ?t = "(sh_log (ScQuery r i) s)\<lparr>p_iface := (p_iface s)(i := True), sh_refs := (sh_refs s)(r := sh_refs s r + 1)\<rparr>"
    have "sh_ok R ?t"
      using s r c by (auto simp: sh_ok_def sh_own_def sh_log_def)
    with True show ?thesis using sh_held [OF s r]
      by (intro exI [of _ ?t] exI [of _ True]) (simp add: QueryInterface_def Let_def sh_same_def)
  next
    case False
    have u: "sh_log (ScQuery r i) s\<lparr>p_iface := p_iface s\<rparr> = sh_log (ScQuery r i) s" by (simp add: sh_log_def)
    show ?thesis using s r sh_held [OF s r] False no u
      by (intro exI [of _ "sh_log (ScQuery r i) s"] exI [of _ False]) (simp add: QueryInterface_def Let_def no u)
  qed
qed

lemma release_iface_ok:
  assumes s: "sh_ok {} s" and r: "p_root s = Some r"
  shows "\<exists>t. release_iface r i s = Ret t \<and> sh_ok {} t \<and> sh_same s t \<and> p_iface t = (p_iface s)(i := False)"
proof (cases "p_iface s i")
  case True
  have "Collect ((p_iface s)(i := False)) = Collect (p_iface s) - {i}" by (auto split: if_splits)
  then have c: "card (Collect (p_iface s)) = Suc (card (Collect ((p_iface s)(i := False))))"
    using card.remove [of "Collect (p_iface s)" i] True by (simp del: card_Diff_insert)
  have more: "sh_refs s r - 1 \<noteq> 0" "sh_refs s r \<noteq> 0" using s r c by (simp_all add: sh_ok_def sh_own_def)
  let ?t = "s\<lparr>sh_refs := (sh_refs s)(r := sh_refs s r - 1), p_iface := (p_iface s)(i := False)\<rparr>"
  have "sh_ok {} ?t"
    using s r c by (auto simp: sh_ok_def sh_own_def)
  moreover have "release_iface r i s = Ret ?t"
    using True more by (simp add: release_iface_def sh_Release_def Let_def)
  ultimately show ?thesis by (simp add: sh_same_def)
next
  case False
  then have "(p_iface s)(i := False) = p_iface s" by (auto simp: fun_eq_iff)
  with s False show ?thesis by (simp add: release_iface_def)
qed

text \<open>The loops.\<close>

lemma unregister_all_ok:
  "sh_ok R s \<Longrightarrow> p_root s = Some r \<Longrightarrow> R \<subseteq> Collect (p_iface s) \<Longrightarrow>
     \<exists>t. each (unregister_sink r) is s = Ret t \<and> sh_ok (R - set is) t \<and> sh_same s t \<and> p_iface t = p_iface s"
proof (induction "is" arbitrary: R s)
  case (Cons i "is")
  from unregister_sink_ok [OF Cons.prems, of i] obtain u where
    u: "unregister_sink r i s = Ret u" "sh_ok (R - {i}) u" "sh_same s u" "p_iface u = p_iface s" by blast
  then have "p_root u = Some r" "R - {i} \<subseteq> Collect (p_iface u)" using Cons.prems by (auto simp: sh_same_def)
  from Cons.IH [OF u(2) this] u show ?case by (auto simp: Diff_insert2 [symmetric] dest: sh_same_trans)
qed simp

lemma register_all_ok:
  "sh_ok R s \<Longrightarrow> p_root s = Some r \<Longrightarrow>
     \<exists>t. each (register_sink r) is s = Ret t \<and> sh_ok (R \<union> (set is \<inter> Collect (p_iface s))) t \<and> sh_same s t
       \<and> p_iface t = p_iface s"
proof (induction "is" arbitrary: R s)
  case (Cons i "is")
  let ?R = "if p_iface s i then insert i R else R"
  from register_sink_ok [OF Cons.prems, of i] obtain u where
    u: "register_sink r i s = Ret u" "sh_ok ?R u" "sh_same s u" "p_iface u = p_iface s" by blast
  then have "p_root u = Some r" using Cons.prems by (simp add: sh_same_def)
  from Cons.IH [OF u(2) this] obtain t where
    t: "each (register_sink r) is u = Ret t" "sh_ok (?R \<union> (set is \<inter> Collect (p_iface u))) t" "sh_same u t"
      "p_iface t = p_iface u" by blast
  have "?R \<union> (set is \<inter> Collect (p_iface u)) = R \<union> (set (i # is) \<inter> Collect (p_iface s))" using u(4) by auto
  with t u show ?case by (auto intro: sh_same_trans)
qed simp

lemma query_all_ok:
  "sh_ok R s \<Longrightarrow> p_root s = Some r \<Longrightarrow> distinct is \<Longrightarrow> \<forall>i \<in> set is. \<not> p_iface s i \<Longrightarrow>
     \<exists>t. each (QueryInterface e r) is s = Ret t \<and> sh_ok R t \<and> sh_same s t"
proof (induction "is" arbitrary: s)
  case (Cons i "is")
  from Cons.prems(4) have "\<not> p_iface s i" by simp
  from query_ok [OF Cons.prems(1,2) this, of e] obtain u b where
    u: "QueryInterface e r i s = Ret u" "sh_ok R u" "sh_same s u" "p_iface u = (p_iface s)(i := b)" by blast
  then have "p_root u = Some r" "distinct is" "\<forall>i \<in> set is. \<not> p_iface u i"
    using Cons.prems by (auto simp: sh_same_def)
  from Cons.IH [OF u(2) this] u show ?case by (auto dest: sh_same_trans)
qed simp

lemma release_all_ok:
  "sh_ok {} s \<Longrightarrow> p_root s = Some r \<Longrightarrow>
     \<exists>t. each (release_iface r) is s = Ret t \<and> sh_ok {} t \<and> sh_same s t \<and> (\<forall>i. p_iface t i \<longleftrightarrow> p_iface s i \<and> i \<notin> set is)"
proof (induction "is" arbitrary: s)
  case (Cons i "is")
  from release_iface_ok [OF Cons.prems, of i] obtain u where
    u: "release_iface r i s = Ret u" "sh_ok {} u" "sh_same s u" "p_iface u = (p_iface s)(i := False)" by blast
  then have "p_root u = Some r" using Cons.prems by (simp add: sh_same_def)
  from Cons.IH [OF u(2) this] u show ?case by (auto dest: sh_same_trans)
qed simp


text \<open>Between two operations of the host.\<close>

definition shell_inv :: "shell_state \<Rightarrow> bool" where
  "shell_inv s \<longleftrightarrow> sh_ok (set notifying \<inter> Collect (p_iface s)) s \<and> sh_linked s
     \<and> (mService s = None \<longrightarrow> p_root s = None \<and> mConnectionId s = 0)"

lemma shell_inv_new: "shell_inv shell_new"
proof -
  have "reg_inv (\<lambda>_. 0) [] (reg_empty (\<lambda>_. 0) :: unit registry)" by (rule reg_inv_empty)
  moreover have "reg_members (reg_empty (\<lambda>_. 0) :: unit registry) = []" by (simp add: reg_members_def reg_empty_def)
  ultimately show ?thesis
    by (simp add: shell_inv_def sh_ok_def sh_own_def sh_linked_def shell_new_def)
qed

lemma release_order_all: "set release_order = UNIV"
  by (auto simp: release_order_def iface_UNIV)

text \<open>The last reference of the plugin itself.\<close>

lemma release_root_ok:
  assumes s: "sh_ok {} s" and r: "p_root s = Some r" and none: "p_iface s = (\<lambda>_. False)"
  shows "\<exists>t. sh_Release r s = Ret t \<and> sh_ok {} (t\<lparr>p_root := None\<rparr>) \<and> sh_same s t \<and> p_iface t = p_iface s"
proof -
  let ?t = "s\<lparr>sh_refs := (sh_refs s)(r := sh_refs s r - 1)\<rparr>"
  have refs: "sh_refs s r = 1 + sh_ext s r" using s r none by (simp add: sh_ok_def sh_own_def)
  have "sh_ok {} (?t\<lparr>p_root := None\<rparr>)"
    using s r none refs by (auto simp: sh_ok_def sh_own_def)
  moreover have "sh_ok {} (u\<lparr>p_root := None\<rparr>) \<Longrightarrow> sh_ok {} ((sh_log c u)\<lparr>p_root := None\<rparr>)" for c u
    by (subst sh_ok_cong [of _ "u\<lparr>p_root := None\<rparr>"]) (simp_all add: sh_log_def)
  ultimately show ?thesis
    using refs by (auto simp: sh_Release_def Let_def sh_same_def)
qed

text \<open>Everything is given back, from the invariant or any earlier point of \<open>Initialize\<close>.\<close>

lemma Deinitialize_ok:
  assumes s: "sh_ok R s" "sh_linked s" and R: "R \<subseteq> set notifying \<inter> Collect (p_iface s)" and v: "mService s = Some v"
  shows "\<exists>t. Deinitialize v s = Ret t \<and> shell_inv t \<and> mService t = None \<and> sh_ext t = sh_ext s \<and> sh_next t = sh_next s"
proof -
  let ?s = "s\<lparr>sh_connections := sh_connections s - {v}, sh_links := sh_links s - {v}\<rparr>"
  have links: "sh_connections s = {v}" "sh_links s = {v}" "sh_services s = (\<lambda>u. if u = v then 1 else 0)"
    using s(2) v by (auto simp: sh_linked_def)
  have s1: "sh_ok R ?s" using s(1) by (subst sh_ok_cong [of _ s]) simp_all
  show ?thesis
  proof (cases "p_root s")
    case None
    then have "p_iface s = (\<lambda>_. False)" and "R = {}" using s R by (auto simp: sh_ok_def)
    with s1 None v links show ?thesis
      by (auto simp: Deinitialize_def root_each_def Let_def shell_inv_def sh_linked_def sh_ok_def sh_own_def)
  next
    case (Some r)
    have r: "p_root ?s = Some r" "R \<subseteq> Collect (p_iface ?s)" using Some R by auto
    from unregister_all_ok [OF s1 r, of notifying] obtain a where
      a: "each (unregister_sink r) notifying ?s = Ret a" "sh_ok (R - set notifying) a" "sh_same ?s a" by blast
    have "R - set notifying = {}" using R by blast
    with a(2) have a2: "sh_ok {} a" by simp
    have a3: "p_root a = Some r" using a(3) r by (simp add: sh_same_def)
    from release_all_ok [OF a2 a3, of release_order] obtain b where
      b: "each (release_iface r) release_order a = Ret b" "sh_ok {} b" "sh_same a b" "p_iface b = (\<lambda>_. False)"
      by (auto simp: release_order_all fun_eq_iff)
    have b3: "p_root b = Some r" using b(3) a3 by (simp add: sh_same_def)
    from release_root_ok [OF b(2) b3 b(4)] obtain c where
      c: "sh_Release r b = Ret c" "sh_ok {} (c\<lparr>p_root := None\<rparr>)" "sh_same b c" "p_iface c = p_iface b" by blast
    have same: "sh_same ?s c" using a(3) b(3) c(3) by (blast intro: sh_same_trans)
    let ?t = "c\<lparr>p_root := None, sh_services := (sh_services c)(v := sh_services c v - 1), mService := None, mConnectionId := 0\<rparr>"
    have "Deinitialize v s = Ret ?t"
      using v Some a b c a3 b3 same links by (simp add: Deinitialize_def root_each_def Let_def sh_same_def)
    moreover have "sh_ok {} ?t" using c(2) by (subst sh_ok_cong [of _ "c\<lparr>p_root := None\<rparr>"]) simp_all
    moreover have "sh_linked ?t" using same links by (auto simp: sh_linked_def sh_same_def)
    ultimately show ?thesis using same c(4) b(4) by (simp add: shell_inv_def sh_same_def)
  qed
qed


lemma query_order_distinct: "distinct (query_order e)"
  by (simp add: query_order_def)

text \<open>A start either fails, and then leaves nothing behind, or ends in the invariant.\<close>

definition shell_started :: "shell_env \<Rightarrow> shell_state \<Rightarrow> bool" where
  "shell_started e s \<longleftrightarrow> sv_root e (sh_trace s)
     \<and> sv_configure e (sh_trace s @ [ScRoot]) = ERROR_NONE"

lemma Initialize_ok:
  assumes s: "shell_inv s" and none: "mService s = None"
  shows "\<exists>m t. Initialize e v s = Ret (m, t) \<and> shell_inv t \<and> sh_ext t = sh_ext s
           \<and> (m = [] \<longleftrightarrow> shell_started e s) \<and> mService t = (if m = [] then Some v else None)
           \<and> (m = [] \<longrightarrow> p_root t = Some (sh_next s))"
proof -
  have root: "p_root s = None" "mConnectionId s = 0" using s none by (simp_all add: shell_inv_def)
  then have if0: "p_iface s = (\<lambda>_. False)" and ok: "sh_ok {} s" and lk: "sh_linked s"
    using s by (auto simp: shell_inv_def sh_ok_def)
  let ?s1 = "s\<lparr>mService := Some v, sh_services := (sh_services s)(v := sh_services s v + 1),
      sh_connections := insert v (sh_connections s), sh_links := insert v (sh_links s)\<rparr>"
  let ?s2 = "service_Root e ?s1"
  have ok1: "sh_ok {} ?s1" using ok by (subst sh_ok_cong [of _ s]) simp_all
  have ok2: "sh_ok {} ?s2"
  proof (cases "sv_root e (sh_trace s)")
    case True
    have "sh_refs s (sh_next s) = 0" and x: "sh_ext s (sh_next s) = 0" and y: "\<forall>r. sh_refs s r = sh_ext s r"
      and z: "\<forall>r \<ge> sh_next s. sh_refs s r = 0"
      using ok root by (auto simp: sh_ok_def sh_own_def)
    then show ?thesis
      using ok root if0 True by (auto simp: sh_ok_def sh_own_def service_Root_def Let_def sh_log_def)
  next
    case False
    then show ?thesis
      using ok1 root by (subst sh_ok_cong [of _ ?s1]) (simp_all add: service_Root_def Let_def sh_log_def)
  qed
  have lk2: "sh_linked ?s2" using lk none by (auto simp: sh_linked_def service_Root_def Let_def sh_log_def)
  have f2: "mService ?s2 = Some v" "p_iface ?s2 = (\<lambda>_. False)" "sh_ext ?s2 = sh_ext s"
      "p_root ?s2 = (if sv_root e (sh_trace s) then Some (sh_next s) else None)"
      "sh_trace ?s2 = sh_trace s @ [ScRoot]"
    using if0 by (simp_all add: service_Root_def Let_def sh_log_def)
  have guard: "Initialize e v s = (case p_root ?s2 of
           None \<Rightarrow> obind (Deinitialize v ?s2) (\<lambda>t. Ret (''DeviceSettings plugin could not be initialised'', t))
         | Some r \<Rightarrow>
             let s3 = sh_log (ScConfigure r) ?s2
             in if sv_configure e (sh_trace ?s2) \<noteq> ERROR_NONE
                then obind (Deinitialize v s3) (\<lambda>t. Ret (''DeviceSettings configuration failed'', t))
                else obind (each (QueryInterface e r) (query_order e) s3) (\<lambda>s4.
                     obind (each (register_sink r) notifying s4) (\<lambda>s5. Ret ([], s5))))"
    using none root if0 unfolding Initialize_def Let_def by (simp only: refl) simp
  show ?thesis
  proof (cases "sv_root e (sh_trace s)")
    case False
    from Deinitialize_ok [OF ok2 lk2 _ f2(1)] show ?thesis
      using False f2 guard by (auto simp: shell_started_def)
  next
    case True
    let ?r = "sh_next s" and ?s3 = "sh_log (ScConfigure (sh_next s)) ?s2"
    have s3: "sh_ok {} ?s3" "sh_linked ?s3" "mService ?s3 = Some v" "p_root ?s3 = Some ?r" "\<forall>i. \<not> p_iface ?s3 i"
        "sh_ext ?s3 = sh_ext s"
      using ok2 lk2 f2 True by (simp_all add: sh_linked_def)
    show ?thesis
    proof (cases "sv_configure e (sh_trace ?s2) = ERROR_NONE")
      case False
      from Deinitialize_ok [OF s3(1,2) _ s3(3)] show ?thesis
        using False True f2 s3 guard by (auto simp: shell_started_def Let_def)
    next
      case ok: True
      from query_all_ok [OF s3(1,4) query_order_distinct, of e e] s3(5) obtain a where
        a: "each (QueryInterface e ?r) (query_order e) ?s3 = Ret a" "sh_ok {} a" "sh_same ?s3 a" by blast
      then have "p_root a = Some ?r" using s3(4) by (simp add: sh_same_def)
      from register_all_ok [OF a(2) this, of notifying] obtain b where
        b: "each (register_sink ?r) notifying a = Ret b" "sh_ok (set notifying \<inter> Collect (p_iface b)) b" "sh_same a b"
        by auto
      have same: "sh_same ?s3 b" using a(3) b(3) by (rule sh_same_trans)
      have "sh_linked b" using s3(2) same by (simp add: sh_linked_def sh_same_def)
      then have "shell_inv b" using b(2) same s3 by (simp add: shell_inv_def sh_same_def)
      moreover have "Initialize e v s = Ret ([], b)"
        using guard True ok f2 a b by (simp add: Let_def)
      moreover have "shell_started e s" using True ok f2 by (simp add: shell_started_def)
      ultimately show ?thesis using same s3 by (simp add: sh_same_def)
    qed
  qed
qed

text \<open>The rules of the host that the assertions of the plugin state.\<close>

fun protocol_error :: "shell_op \<Rightarrow> shell_state \<Rightarrow> bool" where
  "protocol_error (OpInitialize v) s = (mService s \<noteq> None)"
| "protocol_error (OpDeinitialize v) s = (mService s \<noteq> None \<and> mService s \<noteq> Some v)"
| "protocol_error (OpDeactivated c) s = (mService s = None \<and> c = 0)"
| "protocol_error _ s = False"

lemma Acquire_ok: "shell_inv s \<Longrightarrow> \<exists>t. Acquire i s = Ret t \<and> shell_inv t"
proof (cases "\<exists>r. p_root s = Some r \<and> p_iface s i")
  case True
  assume s: "shell_inv s"
  from True obtain r where r: "p_root s = Some r" "p_iface s i" by blast
  let ?t = "s\<lparr>sh_refs := (sh_refs s)(r := sh_refs s r + 1), sh_ext := (sh_ext s)(r := sh_ext s r + 1)\<rparr>"
  have o: "sh_ok (set notifying \<inter> Collect (p_iface s)) s" using s by (simp add: shell_inv_def)
  then have "sh_ok (set notifying \<inter> Collect (p_iface s)) ?t"
    using r by (auto simp: sh_ok_def sh_own_def)
  with s r sh_held [OF o r(1)] show ?thesis by (simp add: Acquire_def shell_inv_def sh_linked_def)
next
  case False
  assume s: "shell_inv s"
  with False show ?thesis by (auto simp: Acquire_def split: option.split)
qed

lemma GiveBack_ok: "shell_inv s \<Longrightarrow> \<exists>t. GiveBack r s = Ret t \<and> shell_inv t"
proof (cases "sh_ext s r = 0")
  case False
  assume s: "shell_inv s"
  then have o: "sh_ok (set notifying \<inter> Collect (p_iface s)) s" by (simp add: shell_inv_def)
  let ?t = "s\<lparr>sh_refs := (sh_refs s)(r := sh_refs s r - 1), sh_ext := (sh_ext s)(r := sh_ext s r - 1)\<rparr>"
  have ok: "sh_ok (set notifying \<inter> Collect (p_iface s)) ?t"
    using o False by (auto simp: sh_ok_def sh_own_def)
  have held: "sh_refs s r \<noteq> 0" using o False by (simp add: sh_ok_def)
  let ?u = "if sh_refs s r - 1 = 0 then sh_log (ScDestroyed r) ?t else ?t"
  have "GiveBack r s = Ret ?u"
    using False held by (simp add: GiveBack_def sh_Release_def Let_def sh_log_def)
  moreover have "shell_inv ?t" using ok s by (simp add: shell_inv_def sh_linked_def)
  then have "shell_inv ?u" by (auto simp: shell_inv_def sh_linked_def)
  ultimately show ?thesis by blast
qed (simp add: GiveBack_def)

lemma shell_do_ok:
  assumes "shell_inv s"
  shows "if protocol_error c s then shell_do e c s = UB else \<exists>t. shell_do e c s = Ret t \<and> shell_inv t"
proof (cases c)
  case (OpInitialize v)
  show ?thesis
  proof (cases "mService s = None")
    case True
    from Initialize_ok [OF assms True, of e v] show ?thesis using OpInitialize True by auto
  qed (simp add: OpInitialize Initialize_def)
next
  case (OpDeinitialize v)
  show ?thesis
  proof (cases "mService s")
    case (Some w)
    then show ?thesis
      using OpDeinitialize Deinitialize_ok [of "set notifying \<inter> Collect (p_iface s)" s w] assms
      by (cases "w = v") (auto simp: shell_inv_def Deinitialize_def)
  qed (simp add: OpDeinitialize Deinitialize_def assms)
next
  case (OpDeactivated n)
  have "shell_inv (sh_log (ScDeactivate v) s)" for v
    using assms by (simp add: shell_inv_def sh_linked_def)
  with assms show ?thesis
    by (auto simp: OpDeactivated Deactivated_def shell_inv_def split: option.split)
qed (use Acquire_ok [OF assms] GiveBack_ok [OF assms] in simp_all)

interpretation shell: guarded_run "\<lambda>_. shell_do e" "\<lambda>_. shell_run e" protocol_error shell_inv for e
proof unfold_locales
  fix s c assume "shell_inv s"
  from shell_do_ok [OF this, of c e]
  show "protocol_error c s \<Longrightarrow> shell_do e c s = UB"
    and "\<not> protocol_error c s \<Longrightarrow> \<exists>t. shell_do e c s = Ret t \<and> shell_inv t" by simp_all
qed simp_all

subsection \<open>Properties\<close>

text \<open>
  Which histories break an assertion or use an object that is gone, exactly: those in which the
  host starts the plugin twice without stopping it, stops it for another service, or reports the
  end of connection 0 while the plugin is stopped. Every other history of starts, stops, and other
  plugins that take and return interfaces is safe, whatever the implementation answers: the other
  assertions of \<open>Initialize\<close> (about the connection and the interface pointers) never fail.
\<close>

theorem shell_assertions:
  "(shell_run e cs shell_new = UB \<longleftrightarrow>
      (\<exists>as c bs t. cs = as @ c # bs \<and> shell_run e as shell_new = Ret t \<and> protocol_error c t))
   \<and> (shell_run e cs shell_new = UB \<or> (\<exists>t. shell_run e cs shell_new = Ret t))"
  using shell.run_exact [OF shell_inv_new, where cs = cs and e = e] by blast

text \<open>
  C13. Every reference is given back. After any history, the references on an implementation object
  are the pointers the plugin has to it (root and interfaces) and those other plugins hold; the sink is
  subscribed, once, to just those of the five notifying interfaces the plugin has; the service is
  referenced once and knows the sink while the plugin runs. While it does not, after a stop or a
  failed start, the plugin holds nothing.
\<close>

theorem shell_references:
  assumes "shell_run e cs shell_new = Ret s"
  shows "(\<forall>r. sh_refs s r = (if p_root s = Some r then 1 + card {i. p_iface s i} else 0) + sh_ext s r)
     \<and> (\<forall>r i. reg_members (sh_regs s r i)
           = (if p_root s = Some r \<and> p_iface s i \<and> i \<notin> {IfFPD, IfAudio, IfHost} then [0] else []))
     \<and> (\<forall>r i. rg_refs (sh_regs s r i) 0 = length (reg_members (sh_regs s r i)))
     \<and> (\<forall>v. sh_services s v = (if mService s = Some v then 1 else 0))
     \<and> sh_connections s = set_option (mService s) \<and> sh_links s = set_option (mService s)
     \<and> (mService s = None \<longrightarrow> p_root s = None \<and> (\<forall>i. \<not> p_iface s i))"
proof -
  have s: "shell_inv s" using shell.run_inv [OF shell_inv_new assms] .
  then have o: "sh_ok (set notifying \<inter> Collect (p_iface s)) s" by (simp add: shell_inv_def)
  have n: "i \<in> set notifying \<longleftrightarrow> i \<notin> {IfFPD, IfAudio, IfHost}" for i
    by (cases i) (simp_all add: notifying_def)
  have m: "reg_members (sh_regs s r i)
      = (if p_root s = Some r \<and> p_iface s i \<and> i \<notin> {IfFPD, IfAudio, IfHost} then [0] else [])" for r i
    using o n by (simp add: sh_ok_def)
  have inv: "reg_inv (\<lambda>_. 0) [] (sh_regs s r i)" for r i using o by (simp add: sh_ok_def)
  have "rg_refs (sh_regs s r i) 0 = length (reg_members (sh_regs s r i))" for r i
    using inv [of r i] m [of r i]
    by (cases "0 \<in> set (reg_members (sh_regs s r i))")
      (auto simp: reg_inv_def reg_members_def registered_map split: if_splits)
  moreover have "(\<forall>r. sh_refs s r = (if p_root s = Some r then 1 + card {i. p_iface s i} else 0) + sh_ext s r)"
    using o by (simp add: sh_ok_def sh_own_def)
  moreover have "mService s = None \<longrightarrow> p_root s = None \<and> (\<forall>i. \<not> p_iface s i)"
    using s o by (auto simp: shell_inv_def sh_ok_def)
  ultimately show ?thesis using m s by (simp add: shell_inv_def sh_linked_def)
qed


text \<open>A host that answers everything; another plugin keeps the host interface over a restart.\<close>

definition shell_sample :: shell_env where
  "shell_sample = \<lparr>sv_legacy = False, sv_root = (\<lambda>_. True), sv_connection = (\<lambda>_. 7), sv_configure = (\<lambda>_. ERROR_NONE),
     sv_query = (\<lambda>_ i. i \<noteq> IfAudio)\<rparr>"

lemmas shell_eval = shell_sample_def shell_new_def Initialize_def Deinitialize_def service_Root_def root_each_def
  Acquire_def GiveBack_def QueryInterface_def register_sink_def unregister_sink_def release_iface_def sh_Release_def
  sh_log_def query_order_def notifying_def release_order_def Register_def Unregister_def AddRef_def Release_def
  registered_def reg_empty_def Let_def

text \<open>
  The host interface keeps the first implementation object alive while the second start creates
  another: two of them drive the same HAL and the same file-scope state.
\<close>

lemma two_implementations:
  "obind (shell_run shell_sample [OpInitialize 3, OpAcquire IfHost, OpDeinitialize 3, OpInitialize 3] shell_new)
     (\<lambda>s. Ret (p_root s, sh_refs s 0, sh_refs s 1)) = Ret (Some 1, 1, 8)"
  by (simp add: shell_eval)

theorem shell_references_witness:
  "\<exists>s. shell_run shell_sample [OpInitialize 3, OpAcquire IfHost, OpDeinitialize 3] shell_new = Ret s
     \<and> mService s = None \<and> sh_services s 3 = 0 \<and> sh_refs s 0 = sh_ext s 0 \<and> reg_members (sh_regs s 0 IfDisplay) = []"
proof -
  have "obind (shell_run shell_sample [OpInitialize 3, OpAcquire IfHost, OpDeinitialize 3] shell_new)
     (\<lambda>s. Ret (mService s)) = Ret None"
    by (simp add: shell_eval)
  then obtain s where s: "shell_run shell_sample [OpInitialize 3, OpAcquire IfHost, OpDeinitialize 3] shell_new = Ret s"
      "mService s = None" by (auto simp: obind_Ret_iff)
  from shell_references [OF s(1)] s show ?thesis by (intro exI [of _ s]) simp
qed

end
