(* ===== verification/C_Float.thy ===== *)
theory C_Float
  imports DS_Prelude "HOL-Library.Log_Nat"
begin

section \<open>The \<open>float\<close> of the audio code\<close>

text \<open>
  The audio code keeps volume levels and gains in IEEE 754 single precision, compares them,
  scales them, converts them to and from \<open>int32_t\<close>, prints them with \<open>std::to_string\<close> and
  reads them back with \<open>atof\<close>. Every finite \<open>float\<close> is a multiple of \<open>2^-149\<close>, so a finite
  value is its sign and that multiple, and each operation is exact arithmetic on naturals
  followed by one rounding to nearest, ties to even. The sign of a NaN, and hexadecimal input
  to \<open>atof\<close>, are not modelled. A conversion to \<open>int32_t\<close> that is out of range is undefined
  in C++; its result is the argument \<open>conv\<close>.
\<close>

subsection \<open>Values and rounding\<close>

datatype cfloat = F_fin bool nat | F_inf bool | F_nan

text \<open>How many units of the last place the number 1 has.\<close>

definition f_unit :: nat where "f_unit = 2 ^ 149"

text \<open>\<open>a / b\<close> to the nearest integer, ties to even.\<close>

definition rnd_even :: "nat \<Rightarrow> nat \<Rightarrow> nat" where
  "rnd_even a b = (let q = a div b; r = a mod b
     in if 2 * r < b \<or> (2 * r = b \<and> even q) then q else q + 1)"

text \<open>\<open>a / b\<close> to the nearest multiple of \<open>2^s\<close>, where \<open>s\<close> leaves \<open>p\<close> significant bits.\<close>

definition rnd_prec :: "nat \<Rightarrow> nat \<Rightarrow> nat \<Rightarrow> nat" where
  "rnd_prec p a b = (let s = floorlog 2 (a div b) - p in rnd_even a (b * 2 ^ s) * 2 ^ s)"

text \<open>The \<open>float\<close> nearest to \<open>a / b\<close> (in units of \<open>2^-149\<close>).\<close>

definition to_float :: "bool \<Rightarrow> nat \<Rightarrow> nat \<Rightarrow> cfloat" where
  "to_float neg a b = (let m = rnd_prec 24 a b in if m < 2 ^ 277 then F_fin neg m else F_inf neg)"

subsection \<open>Operations\<close>

definition f_of_int :: "int \<Rightarrow> cfloat" where
  "f_of_int i = to_float (i < 0) (nat \<bar>i\<bar> * f_unit) 1"

fun f_val :: "bool \<Rightarrow> nat \<Rightarrow> int" where
  "f_val neg m = (if neg then - int m else int m)"

fun f_eq :: "cfloat \<Rightarrow> cfloat \<Rightarrow> bool" where
  "f_eq (F_fin s a) (F_fin t b) = (f_val s a = f_val t b)"
| "f_eq (F_inf s) (F_inf t) = (s = t)"
| "f_eq _ _ = False"

fun f_less :: "cfloat \<Rightarrow> cfloat \<Rightarrow> bool" where
  "f_less (F_fin s a) (F_fin t b) = (f_val s a < f_val t b)"
| "f_less (F_fin s a) (F_inf t) = (\<not> t)"
| "f_less (F_inf s) (F_fin t b) = s"
| "f_less (F_inf s) (F_inf t) = (s \<and> \<not> t)"
| "f_less _ _ = False"

fun f_mul :: "cfloat \<Rightarrow> cfloat \<Rightarrow> cfloat" where
  "f_mul (F_fin s a) (F_fin t b) = to_float (s \<noteq> t) (a * b) f_unit"
| "f_mul (F_fin s a) (F_inf t) = (if a = 0 then F_nan else F_inf (s \<noteq> t))"
| "f_mul (F_inf s) (F_fin t b) = (if b = 0 then F_nan else F_inf (s \<noteq> t))"
| "f_mul (F_inf s) (F_inf t) = F_inf (s \<noteq> t)"
| "f_mul _ _ = F_nan"

fun f_div :: "cfloat \<Rightarrow> cfloat \<Rightarrow> cfloat" where
  "f_div (F_fin s a) (F_fin t b) =
     (if b = 0 then (if a = 0 then F_nan else F_inf (s \<noteq> t)) else to_float (s \<noteq> t) (a * f_unit) b)"
| "f_div (F_fin s a) (F_inf t) = F_fin (s \<noteq> t) 0"
| "f_div (F_inf s) (F_fin t b) = F_inf (s \<noteq> t)"
| "f_div _ _ = F_nan"

text \<open>\<open>static_cast<int32_t>\<close>: the fraction is cut off.\<close>

definition f_to_int :: "(cfloat \<Rightarrow> int) \<Rightarrow> cfloat \<Rightarrow> int" where
  "f_to_int conv x = (case x of
       F_fin neg m \<Rightarrow> (let v = f_val neg (m div f_unit)
         in if - (2 ^ 31) \<le> v \<and> v < 2 ^ 31 then v else conv x)
     | _ \<Rightarrow> conv x)"

text \<open>\<open>std::to_string (float)\<close>, which is \<open>"%f"\<close>: six digits after the point.\<close>

definition minus_sign :: "bool \<Rightarrow> string" where
  "minus_sign neg = (if neg then ''-'' else [])"

fun f_show :: "cfloat \<Rightarrow> string" where
  "f_show (F_fin neg m) = (let n = rnd_even (m * 10 ^ 6) f_unit
     in minus_sign neg @ show_nat (n div 10 ^ 6) @ ''.'' @ drop 1 (show_nat (10 ^ 6 + n mod 10 ^ 6)))"
| "f_show (F_inf neg) = minus_sign neg @ ''inf''"
| "f_show F_nan = ''nan''"

text \<open>
  \<open>atof\<close> and the conversion of its \<open>double\<close> to \<open>float\<close>: the decimal number is rounded to 53
  bits (in units of \<open>2^-1074\<close>) and then to 24.
\<close>

definition double_to_float :: "bool \<Rightarrow> nat \<Rightarrow> nat \<Rightarrow> cfloat" where
  "double_to_float neg a b = (let m = rnd_prec 53 (a * 2 ^ 1074) b
     in if m < 2 ^ 2098 then to_float neg m (2 ^ 925) else F_inf neg)"

text \<open>The exponent part of a decimal number; none unless a digit follows the \<open>e\<close>.\<close>

definition read_exponent :: "string \<Rightarrow> int" where
  "read_exponent s = (case s of
       [] \<Rightarrow> 0
     | c # r \<Rightarrow> if c \<noteq> CHR ''e'' \<and> c \<noteq> CHR ''E'' then 0
         else (case r of
             [] \<Rightarrow> 0
           | d # t \<Rightarrow> if d = CHR ''-'' then - int (read_digits 0 t)
               else if d = CHR ''+'' then int (read_digits 0 t) else int (read_digits 0 r)))"

definition read_decimal :: "bool \<Rightarrow> string \<Rightarrow> cfloat" where
  "read_decimal neg s =
     (let ds = takeWhile is_digit s; r = dropWhile is_digit s;
          (fs, r') = (case r of
              [] \<Rightarrow> ([], r)
            | c # t \<Rightarrow> if c = CHR ''.'' then (takeWhile is_digit t, dropWhile is_digit t) else ([], r));
          m = read_digits 0 (ds @ fs); e = read_exponent r' - int (length fs)
      in if ds = [] \<and> fs = [] then F_fin False 0
         else if 0 \<le> e then double_to_float neg (m * 10 ^ nat e) 1
         else double_to_float neg m (10 ^ nat (- e)))"

definition atof :: "string \<Rightarrow> cfloat" where
  "atof s =
     (let t = dropWhile isspace s;
          neg = (t \<noteq> [] \<and> hd t = CHR ''-'');
          r = (if t \<noteq> [] \<and> (hd t = CHR ''-'' \<or> hd t = CHR ''+'') then tl t else t);
          w = map tolower_c (take 3 r)
      in if w = ''inf'' then F_inf neg else if w = ''nan'' then F_nan else read_decimal neg r)"

subsection \<open>Small integers are exact\<close>

lemma rnd_even_exact [simp]: "0 < b \<Longrightarrow> rnd_even (q * b) b = q"
  by (simp add: rnd_even_def)

lemma rnd_even_scale: "0 < c \<Longrightarrow> rnd_even (a * c) (b * c) = rnd_even a b"
proof -
  assume c: "0 < c"
  then have "a * c div (b * c) = a div b" and "a * c mod (b * c) = a mod b * c"
    by (simp_all add: mod_mult2_eq mult_mod_left)
  moreover have "2 * (a mod b * c) < b * c \<longleftrightarrow> 2 * (a mod b) < b"
    using c by (metis mult.assoc mult_less_cancel2)
  moreover have "2 * (a mod b * c) = b * c \<longleftrightarrow> 2 * (a mod b) = b"
    using c by (metis mult.assoc mult_cancel2 less_numeral_extra(3))
  ultimately show ?thesis by (simp add: rnd_even_def Let_def)
qed

lemma rnd_prec_scale: "0 < c \<Longrightarrow> rnd_prec p (a * c) (b * c) = rnd_prec p a b"
  using rnd_even_scale [of c a "b * 2 ^ (floorlog 2 (a div b) - p)"]
  by (simp add: rnd_prec_def Let_def mult_ac)

lemma f_unit_pos [simp]: "0 < f_unit" "f_unit \<noteq> 0"
  by (simp_all add: f_unit_def)

lemma rnd_prec_exact:
  assumes "i < 2 ^ p" and "0 < b"
  shows "rnd_prec p (i * 2 ^ k * b) b = i * 2 ^ k"
proof (cases "i = 0")
  case True
  then show ?thesis using assms(2) by (simp add: rnd_prec_def rnd_even_def)
next
  case False
  let ?s = "floorlog 2 i + k - p"
  have "floorlog 2 i \<le> p" using assms(1) by (simp add: floorlog_le_iff)
  then have "?s \<le> k" by simp
  then obtain j where j: "k = j + ?s" by (metis le_add_diff_inverse2)
  then have k: "(2::nat) ^ k = 2 ^ j * 2 ^ ?s" by (metis power_add)
  have "rnd_even (i * 2 ^ k * b) (b * 2 ^ ?s) = i * 2 ^ j"
  proof -
    have "i * 2 ^ k * b = (i * 2 ^ j) * (b * 2 ^ ?s)" by (simp add: k mult_ac)
    then show ?thesis
      using rnd_even_exact [of "b * 2 ^ ?s" "i * 2 ^ j"] assms(2) by (simp only: zero_less_mult_iff) simp
  qed
  moreover have "floorlog 2 (i * 2 ^ k) = floorlog 2 i + k" using False by simp
  ultimately show ?thesis using assms(2) by (simp add: rnd_prec_def k mult.assoc)
qed

lemma to_float_exact:
  assumes "i < 2 ^ 24" and "0 < b"
  shows "to_float neg (i * f_unit * b) b = F_fin neg (i * f_unit)"
proof -
  have "i * 2 ^ 149 < 2 ^ 24 * 2 ^ 149" using assms(1) by simp
  then have "i * 2 ^ 149 < 2 ^ 277" by simp
  then show ?thesis using rnd_prec_exact [OF assms, of 149] by (simp add: to_float_def f_unit_def)
qed

lemma f_of_int_small: "\<bar>i\<bar> < 2 ^ 24 \<Longrightarrow> f_of_int i = F_fin (i < 0) (nat \<bar>i\<bar> * f_unit)"
  using to_float_exact [of "nat \<bar>i\<bar>" 1] by (simp add: f_of_int_def nat_less_iff)

lemma f_val_small: "f_val (i < 0) (nat \<bar>i\<bar> * f_unit) = i * int f_unit"
  by simp

lemma f_eq_small:
  "\<lbrakk>\<bar>i\<bar> < 2 ^ 24; \<bar>j\<bar> < 2 ^ 24\<rbrakk> \<Longrightarrow> f_eq (f_of_int i) (f_of_int j) \<longleftrightarrow> i = j"
  by (simp only: f_of_int_small f_eq.simps f_val_small) simp

lemma f_less_small:
  "\<lbrakk>\<bar>i\<bar> < 2 ^ 24; \<bar>j\<bar> < 2 ^ 24\<rbrakk> \<Longrightarrow> f_less (f_of_int i) (f_of_int j) \<longleftrightarrow> i < j"
  by (simp only: f_of_int_small f_less.simps f_val_small) simp

lemma f_to_int_small: "\<bar>i\<bar> < 2 ^ 24 \<Longrightarrow> f_to_int conv (f_of_int i) = i"
  by (auto simp: f_of_int_small f_to_int_def Let_def)

lemma f_mul_small:
  assumes "a * b < 2 ^ 24" and "a < 2 ^ 24" and "b < 2 ^ 24"
  shows "f_mul (f_of_int (int a)) (f_of_int (int b)) = f_of_int (int (a * b))"
proof -
  have "int a < 2 ^ 24" "int b < 2 ^ 24" using assms by simp_all
  moreover have "int (a * b) < 2 ^ 24" using assms(1) by (metis of_nat_less_iff of_nat_numeral of_nat_power)
  moreover have "a * f_unit * (b * f_unit) = a * b * f_unit * f_unit" by simp
  ultimately show ?thesis
    using to_float_exact [of "a * b" f_unit False] assms(1) by (simp only: f_of_int_small abs_of_nat
        f_mul.simps nat_int f_unit_pos) (simp del: of_nat_mult)
qed

subsection \<open>Scaling by a percentage\<close>

lemma rnd_even_bounds:
  assumes "0 < b"
  shows "a div b \<le> rnd_even a b" and "2 * (b * rnd_even a b) \<le> 2 * a + b"
proof -
  obtain q r where q: "a div b = q" "a mod b = r" by blast
  have a: "a = b * q + r" using q by auto
  have "rnd_even a b = q \<or> (rnd_even a b = q + 1 \<and> b \<le> 2 * r)"
    by (auto simp: rnd_even_def q Let_def)
  then show "a div b \<le> rnd_even a b" "2 * (b * rnd_even a b) \<le> 2 * a + b"
    by (auto simp: q(1)) (auto simp: a algebra_simps)
qed

text \<open>
  Dividing a small integer by 100 and cutting off the fraction is the division of integers:
  the rounding never reaches the next integer.
\<close>

lemma percent_cut:
  assumes "n < 2 ^ 24"
  defines "m \<equiv> rnd_prec 24 (n * f_unit) 100"
  shows "m div f_unit = n div 100" and "m < 2 ^ 277"
proof -
  define s where "s = floorlog 2 (n * f_unit div 100) - 24"
  define r where "r = rnd_even (n * f_unit) (100 * 2 ^ s)"
  have m: "m = r * 2 ^ s" by (simp add: m_def rnd_prec_def s_def r_def Let_def)
  have "n * f_unit div 100 < 2 ^ 167" using assms(1) by (simp add: f_unit_def)
  then have "floorlog 2 (n * f_unit div 100) \<le> 167" by (simp add: floorlog_le_iff)
  then have s: "s \<le> 143" by (simp add: s_def)
  then obtain t where t: "143 = s + t" using le_Suc_ex by blast
  have u: "f_unit = 64 * 2 ^ t * 2 ^ s"
  proof -
    have "f_unit = 64 * 2 ^ (s + t)" by (simp add: f_unit_def flip: t)
    then show ?thesis by (simp add: power_add mult_ac)
  qed
  have up: "2 * (100 * 2 ^ s * r) \<le> 2 * (n * f_unit) + 100 * 2 ^ s"
    using rnd_even_bounds(2) [of "100 * 2 ^ s" "n * f_unit"] by (simp add: r_def)
  have low: "n * f_unit div (100 * 2 ^ s) \<le> r"
    using rnd_even_bounds(1) [of "100 * 2 ^ s" "n * f_unit"] by (simp add: r_def)
  have "n div 100 * (64 * 2 ^ t) \<le> n * (64 * 2 ^ t) div 100"
    by (metis div_mult1_eq le_add1 mult.commute)
  also have "\<dots> = n * f_unit div (100 * 2 ^ s)"
    by (simp add: u flip: mult.assoc)
  finally have "n div 100 * (64 * 2 ^ t) \<le> r" using low by simp
  then have ge: "n div 100 * f_unit \<le> m" by (simp add: m u)
  have "2 ^ s \<le> (2::nat) ^ 143" using s by (rule power_increasing) simp
  then have half: "100 * 2 ^ s < 2 * f_unit" by (simp add: f_unit_def)
  have "100 * m * 2 \<le> 2 * (n * f_unit) + 100 * 2 ^ s" using up by (simp add: m mult.commute mult.left_commute)
  also have "\<dots> < 2 * ((n + 1) * f_unit)" using half by (simp add: algebra_simps)
  finally have "100 * m < (n + 1) * f_unit" by simp
  moreover have "n + 1 \<le> 100 * (n div 100 + 1)" by (metis Suc_eq_plus1 Suc_leI dividend_less_times_div mult.commute mult_Suc_right add.commute zero_less_numeral)
  ultimately have "100 * m < 100 * (n div 100 + 1) * f_unit"
    by (meson less_le_trans mult_le_mono1)
  then have lt: "m < (n div 100 + 1) * f_unit" by (simp only: mult.assoc mult_less_cancel1)
  show "m div f_unit = n div 100"
    using ge lt by (simp add: div_nat_eqI mult.commute)
  have "(n div 100 + 1) * f_unit \<le> 2 ^ 24 * f_unit" using assms(1) by (intro mult_le_mono1) simp
  then show "m < 2 ^ 277" using lt by (simp add: f_unit_def)
qed

lemma f_percent:
  assumes "a * b < 2 ^ 24" and "a < 2 ^ 24" and "b < 2 ^ 24"
  shows "f_to_int conv (f_div (f_mul (f_of_int (int a)) (f_of_int (int b))) (f_of_int 100)) = int (a * b div 100)"
proof -
  let ?n = "a * b"
  have n: "int ?n < 2 ^ 24" using assms(1) by (metis of_nat_less_iff of_nat_numeral of_nat_power)
  let ?m = "rnd_prec 24 (?n * f_unit) 100"
  have h: "f_of_int 100 = F_fin False (100 * f_unit)" by (simp add: f_of_int_small)
  have p: "f_mul (f_of_int (int a)) (f_of_int (int b)) = F_fin False (?n * f_unit)"
    using f_mul_small [OF assms] n by (simp add: f_of_int_small del: of_nat_mult)
  have r: "rnd_prec 24 (?n * f_unit * f_unit) (100 * f_unit) = ?m" by (rule rnd_prec_scale) simp
  have q: "f_div (F_fin False (?n * f_unit)) (F_fin False (100 * f_unit)) = F_fin False ?m"
    using percent_cut(2) [OF assms(1)] by (simp add: to_float_def r)
  have "a * b div 100 < 2 ^ 31" using assms(1) by simp
  then have "int (a * b div 100) < 2 ^ 31" by (metis of_nat_less_iff of_nat_numeral of_nat_power)
  then show ?thesis
    using percent_cut(1) [OF assms(1)] by (simp only: h p q) (simp add: f_to_int_def)
qed

subsection \<open>Writing and reading back\<close>

lemma f_show_small:
  assumes "\<bar>i\<bar> < 2 ^ 24"
  shows "f_show (f_of_int i) = minus_sign (i < 0) @ show_nat (nat \<bar>i\<bar>) @ ''.000000''"
proof -
  have "rnd_even (nat \<bar>i\<bar> * f_unit * 10 ^ 6) f_unit = nat \<bar>i\<bar> * 10 ^ 6"
    using rnd_even_exact [of f_unit "nat \<bar>i\<bar> * 10 ^ 6"] by (simp add: mult_ac)
  moreover have "drop 1 (show_nat (10 ^ 6)) = ''000000''" by (simp add: show_nat.simps digit_char_def char_of_eq_iff)
  ultimately show ?thesis using assms by (simp add: f_of_int_small Let_def)
qed

lemma double_to_float_exact:
  assumes "n < 2 ^ 24" and "0 < b"
  shows "double_to_float neg (n * b) b = F_fin neg (n * f_unit)"
proof -
  have "n < 2 ^ 53" using assms(1) by simp
  then have m: "rnd_prec 53 (n * b * 2 ^ 1074) b = n * 2 ^ 1074"
    using rnd_prec_exact [of n 53 b 1074] assms(2) by (simp only: mult_ac)
  have "n * 2 ^ 1074 < 2 ^ 24 * 2 ^ 1074" using assms(1) by (rule mult_strict_right_mono) simp
  also have "\<dots> \<le> 2 ^ 2098" by (simp flip: power_add)
  finally have "n * 2 ^ 1074 < 2 ^ 2098" .
  moreover have "n * 2 ^ 1074 = n * f_unit * 2 ^ 925"
    by (simp add: f_unit_def mult.assoc flip: power_add)
  ultimately show ?thesis
    using to_float_exact [OF assms(1), of "2 ^ 925"] by (simp only: double_to_float_def m Let_def if_True) simp
qed

lemma is_digit_letters: "is_digit c \<Longrightarrow> tolower_c c = c \<and> c \<noteq> CHR ''i'' \<and> c \<noteq> CHR ''n'' \<and> c \<noteq> CHR ''.''"
  by (auto simp: is_digit_def tolower_c_def)

lemma read_decimal_small:
  assumes "n < 2 ^ 24"
  shows "read_decimal neg (show_nat n @ ''.000000'') = F_fin neg (n * f_unit)"
proof -
  have d: "\<forall>c \<in> set (show_nat n). is_digit c" by (rule show_nat_digits)
  have z: "\<not> is_digit (CHR ''.'')" "is_digit (CHR ''0'')" "digit_val (CHR ''0'') = 0"
    by (simp_all add: is_digit_def digit_val_def)
  have t: "takeWhile is_digit (show_nat n @ ''.000000'') = show_nat n"
    using d by (subst takeWhile_append2) (simp_all add: z)
  have r: "dropWhile is_digit (show_nat n @ ''.000000'') = ''.000000''"
    using d by (subst dropWhile_append2) (simp_all add: z)
  have f: "takeWhile is_digit ''000000'' = ''000000''" "dropWhile is_digit ''000000'' = []"
    by (simp_all add: z)
  have m: "read_digits 0 (show_nat n @ ''000000'') = n * 10 ^ 6"
    using d by (simp add: read_digits_append read_digits_show_nat z)
  have "read_decimal neg (show_nat n @ ''.000000'') = double_to_float neg (n * 10 ^ 6) (10 ^ 6)"
    by (simp add: read_decimal_def t r f m z read_exponent_def del: power_numeral)
  with double_to_float_exact [OF assms] show ?thesis by simp
qed

text \<open>A level that is a small integer comes back from its text unchanged.\<close>

lemma atof_show_small:
  assumes "\<bar>i\<bar> < 2 ^ 24"
  shows "atof (f_show (f_of_int i)) = f_of_int i"
proof -
  obtain c r where c: "show_nat (nat \<bar>i\<bar>) = c # r" by (cases "show_nat (nat \<bar>i\<bar>)") simp_all
  then have d: "is_digit c" using show_nat_digits [of "nat \<bar>i\<bar>"] by simp
  have n: "nat \<bar>i\<bar> < 2 ^ 24" using assms by simp
  have "\<not> isspace (CHR ''-'')" by (simp add: isspace_def)
  then have "atof (f_show (f_of_int i)) = read_decimal (i < 0) (show_nat (nat \<bar>i\<bar>) @ ''.000000'')"
    using digit_not_special [OF d] is_digit_letters [OF d]
    by (simp add: f_show_small [OF assms] c minus_sign_def atof_def)
  with read_decimal_small [OF n] show ?thesis by (simp add: f_of_int_small [OF assms])
qed

end
