(* ===== verification/Audio_Base.thy ===== *)
theory Audio_Base
  imports Host_Persistence C_Float "HOL-Library.Word"
begin

section \<open>Audio ports: types, state and HAL calls (\<open>hal/dAudioImpl.h\<close>)\<close>

text \<open>
  What every part of the audio platform \<open>dAudioImpl\<close> shares: the file-scope variables and the
  members as one record, the HAL as an environment, and the persistent store. Each HAL call,
  and each event given to the client, is appended to \<open>au_trace\<close>; the HAL is answered by
  functions of the calls made so far, and a call that fails writes nothing. Optional functions
  are looked up by name (\<open>ae_symbol\<close>; a name that is there stays there). The build options
  \<open>DS_AUDIO_SETTINGS_PERSISTENCE\<close>, \<open>DS_LE_DEFAULT_DISABLED\<close> and \<open>IGNORE_EDID_LOGIC\<close> are flags
  of the environment. The audio level thread is a component of its own (\<open>Audio_Level\<close>).
\<close>

subsection \<open>Types\<close>

datatype dsAudioPortType =
    DSA_LR | DSA_HDMI | DSA_SPDIF | DSA_SPEAKER | DSA_HDMI_ARC | DSA_HEADPHONE | DSA_MAX

datatype AudioPortType =
    AP_LR | AP_HDMI | AP_SPDIF | AP_SPEAKER | AP_HDMIARC | AP_HEADPHONE | AP_other int

datatype dsAudioStereoMode =
    DSM_UNKNOWN | DSM_MONO | DSM_STEREO | DSM_SURROUND | DSM_PASSTHRU | DSM_DD | DSM_DDPLUS | DSM_other int

datatype AudioStereoMode =
    AM_UNKNOWN | AM_MONO | AM_STEREO | AM_SURROUND | AM_PASSTHROUGH | AM_DD | AM_DDPLUS | AM_other int

datatype AudioEncoding = ENC_NONE | ENC_DISPLAY | ENC_PCM | ENC_AC3 | ENC_EAC3

datatype AudioCompression = CMP_NONE | CMP_LIGHT | CMP_MEDIUM | CMP_HEAVY

text \<open>What a request can write to its out parameter.\<close>

datatype au_val =
    AInt int
  | ABool bool
  | AFloat cfloat
  | AText string
  | ATexts "string list"
  | AMode AudioStereoMode
  | AEncoding AudioEncoding
  | ACompressions "AudioCompression list"
  | APair int int

text \<open>
  The calls of the HAL: a query, and commands with an integer, a float, a string, a stereo
  mode, a pair, or a list of audio descriptors; then the events.
\<close>

datatype au_call =
    AuInit
  | AuTerm
  | AuPort dsAudioPortType int
  | AuGet string int
  | AuSetI string int int
  | AuSetF string int cfloat
  | AuSetS string int string
  | AuSetM int dsAudioStereoMode
  | AuSetP string int int int
  | AuSetSAD int "int list" nat
  | AuRegister string
  | EvHotPlug AudioPortType int bool
  | EvFormat int
  | EvAtmos int bool
  | EvMixing bool
  | EvFader int
  | EvPrimary string
  | EvSecondary string
  | EvPortState
  | EvLevel cfloat
  | EvMode AudioPortType AudioStereoMode

type_synonym au_hist = "au_call list"

datatype au_cb =
    CB_HotPlug | CB_Format | CB_Atmos | CB_Mixing | CB_Fader | CB_Primary | CB_Secondary | CB_PortState
  | CB_Level | CB_Mode

subsection \<open>Environment and state\<close>

record au_env =
  ae_ret :: "au_hist \<Rightarrow> au_call \<Rightarrow> dsError"
  ae_out :: "au_hist \<Rightarrow> au_call \<Rightarrow> int"
  ae_fout :: "au_hist \<Rightarrow> au_call \<Rightarrow> cfloat"
  ae_sout :: "au_hist \<Rightarrow> au_call \<Rightarrow> string"
  ae_mout :: "au_hist \<Rightarrow> au_call \<Rightarrow> dsAudioStereoMode"
  ae_pout :: "au_hist \<Rightarrow> au_call \<Rightarrow> int \<times> int"
  ae_symbol :: "string \<Rightarrow> bool"
  ae_conv :: "cfloat \<Rightarrow> int"
  ae_io :: host_io
  ae_persist :: bool
  ae_le_disabled :: bool
  ae_ignore_edid :: bool
  ae_support_DD :: "32 word"
  ae_support_DDPLUS :: "32 word"
  ae_profile_len :: nat

text \<open>
  Where the level thread is: not started, at its start, before testing its condition with the
  lock held, between the test and the wait, waiting, in its three seconds of sleep, ended.
  \<open>prev\<close> holds the levels it wrote last.
\<close>

datatype level_thread =
    LT_none
  | LT_start
  | LT_test "dsAudioPortType \<Rightarrow> cfloat"
  | LT_gap "dsAudioPortType \<Rightarrow> cfloat"
  | LT_wait "dsAudioPortType \<Rightarrow> cfloat"
  | LT_sleep "dsAudioPortType \<Rightarrow> cfloat"
  | LT_end

record au_state =
  au_isInitialized :: bool
  isDuckingInProgress :: bool
  volumeDuckingLevel :: int
  muteStatus :: bool
  audioPortEnabled :: "dsAudioPortType \<Rightarrow> bool"
  stereoAuto :: "dsAudioPortType \<Rightarrow> bool"
  stereoMode :: "dsAudioPortType \<Rightarrow> dsAudioStereoMode"
  g_LastVolumeLevel :: cfloat
  g_audioLevelCache :: "dsAudioPortType \<Rightarrow> cfloat"
  persistAlive :: bool
  persistPending :: bool
  persistThread :: level_thread
  m_LEEnabled :: bool
  au_resolved :: "string list"
  au_callback :: "au_cb \<Rightarrow> bool"
  au_store :: host_store
  au_trace :: au_hist

text \<open>The static initialisers, and the constructor before it initialises the HAL.\<close>

definition au_static :: "au_env \<Rightarrow> host_store \<Rightarrow> au_state" where
  "au_static e st = \<lparr>au_isInitialized = False, isDuckingInProgress = False, volumeDuckingLevel = 0,
     muteStatus = False, audioPortEnabled = (\<lambda>_. False),
     stereoAuto = (\<lambda>p. if ae_ignore_edid e then p = DSA_SPEAKER
                       else p \<in> {DSA_HDMI, DSA_SPDIF, DSA_HDMI_ARC, DSA_SPEAKER}),
     stereoMode = (\<lambda>p. if ae_ignore_edid e \<and> p \<noteq> DSA_SPEAKER then DSM_STEREO else DSM_SURROUND),
     g_LastVolumeLevel = f_of_int 0, g_audioLevelCache = (\<lambda>_. f_of_int 0),
     persistAlive = False, persistPending = False, persistThread = LT_none, m_LEEnabled = False,
     au_resolved = [], au_callback = (\<lambda>_. False), au_store = st, au_trace = []\<rparr>"

definition dAudioImpl_new :: "au_state \<Rightarrow> au_state" where
  "dAudioImpl_new s = s\<lparr>au_isInitialized := False, isDuckingInProgress := False,
     volumeDuckingLevel := 0, muteStatus := False, audioPortEnabled := (\<lambda>_. False)\<rparr>"

subsection \<open>HAL calls and events\<close>

definition au_log :: "au_call \<Rightarrow> au_state \<Rightarrow> au_state" where
  "au_log c s = s\<lparr>au_trace := au_trace s @ [c]\<rparr>"

definition au_do :: "au_env \<Rightarrow> au_call \<Rightarrow> au_state \<Rightarrow> dsError \<times> au_state" where
  "au_do e c s = (ae_ret e (au_trace s) c, au_log c s)"

definition au_ok :: "au_env \<Rightarrow> au_call \<Rightarrow> au_state \<Rightarrow> bool" where
  "au_ok e c s \<longleftrightarrow> ae_ret e (au_trace s) c = DsERR_NONE"

definition au_out :: "au_env \<Rightarrow> au_call \<Rightarrow> au_state \<Rightarrow> int" where
  "au_out e c s = ae_out e (au_trace s) c"

text \<open>\<open>dsGetAudioPort\<close> with the handle set to 0 before; then what is done if it succeeds.\<close>

definition with_port :: "au_env \<Rightarrow> dsAudioPortType \<Rightarrow> (int \<Rightarrow> au_state \<Rightarrow> au_state) \<Rightarrow> au_state \<Rightarrow> au_state" where
  "with_port e p k s =
     (let c = AuPort p 0; s1 = au_log c s in if au_ok e c s then k (au_out e c s) s1 else s1)"

definition au_event :: "au_cb \<Rightarrow> au_call \<Rightarrow> au_state \<Rightarrow> au_state" where
  "au_event cb ev s = (if au_callback s cb then au_log ev s else s)"

subsection \<open>The persistent store\<close>

text \<open>Reading inside a \<open>try\<close> block: \<open>None\<close> is the exception.\<close>

definition au_get :: "string \<Rightarrow> au_state \<Rightarrow> string option \<times> au_state" where
  "au_get key s = (let (v, st) = getProperty key (au_store s)
     in (case v of Ret t \<Rightarrow> Some t | _ \<Rightarrow> None, s\<lparr>au_store := st\<rparr>))"

definition au_getDefault :: "string \<Rightarrow> au_state \<Rightarrow> string option \<times> au_state" where
  "au_getDefault key s = (let (v, st) = getDefaultProperty key (au_store s)
     in (case v of Ret t \<Rightarrow> Some t | _ \<Rightarrow> None, s\<lparr>au_store := st\<rparr>))"

text \<open>The user setting, else the default setting, else \<open>d\<close>.\<close>

definition au_setting :: "string \<Rightarrow> string \<Rightarrow> au_state \<Rightarrow> string \<times> au_state" where
  "au_setting key d s = (case au_get key s of
       (Some v, s1) \<Rightarrow> (v, s1)
     | (None, s1) \<Rightarrow> (case au_getDefault key s1 of (Some v, s2) \<Rightarrow> (v, s2) | (None, s2) \<Rightarrow> (d, s2)))"

definition au_default :: "string \<Rightarrow> string \<Rightarrow> au_state \<Rightarrow> string \<times> au_state" where
  "au_default key d s = (case au_getDefault key s of (Some v, s1) \<Rightarrow> (v, s1) | (None, s1) \<Rightarrow> (d, s1))"

text \<open>Updates in a row; the first that throws ends them.\<close>

fun au_persist :: "au_env \<Rightarrow> (string \<times> string) list \<Rightarrow> au_state \<Rightarrow> bool \<times> au_state" where
  "au_persist e [] s = (True, s)"
| "au_persist e ((key, v) # kvs) s =
     (let (r, st) = persistHostProperty (ae_io e) key v (au_store s); s1 = s\<lparr>au_store := st\<rparr>
      in case r of Ret _ \<Rightarrow> au_persist e kvs s1 | _ \<Rightarrow> (False, s1))"

subsection \<open>Requests\<close>

type_synonym au_result = "coreErr \<times> au_val option \<times> au_state"

definition au_fail :: "au_state \<Rightarrow> au_result" where "au_fail s = (ERROR_GENERAL, None, s)"

definition au_done :: "au_state \<Rightarrow> au_result" where "au_done s = (ERROR_NONE, None, s)"

text \<open>After the HAL accepted a command: persist (if built in), then \<open>k\<close>, unless persisting threw.\<close>

definition au_finish ::
  "au_env \<Rightarrow> (au_state \<Rightarrow> (string \<times> string) list \<times> au_state) \<Rightarrow> (au_state \<Rightarrow> au_state) \<Rightarrow> au_state \<Rightarrow> au_result" where
  "au_finish e kvs k s =
     (if \<not> ae_persist e then au_done (k s)
      else let (l, s1) = kvs s; (ok, s2) = au_persist e l s1 in if ok then au_done (k s2) else au_fail s2)"

text \<open>
  The shape most setters share. \<open>guarded\<close>: whether the request first asks for the platform to
  be initialised; \<open>symbol\<close>: the optional function it looks up, \<open>[]\<close> for one that is linked.
\<close>

definition au_usable :: "au_env \<Rightarrow> bool \<Rightarrow> string \<Rightarrow> au_state \<Rightarrow> bool" where
  "au_usable e guarded symbol s \<longleftrightarrow>
     (guarded \<longrightarrow> au_isInitialized s) \<and> (symbol = [] \<or> ae_symbol e symbol)"

definition au_set ::
  "au_env \<Rightarrow> bool \<Rightarrow> string \<Rightarrow> au_call \<Rightarrow> (au_state \<Rightarrow> (string \<times> string) list \<times> au_state)
     \<Rightarrow> (au_state \<Rightarrow> au_state) \<Rightarrow> au_state \<Rightarrow> au_result" where
  "au_set e guarded symbol c kvs k s =
     (if \<not> au_usable e guarded symbol s then au_fail s
      else if \<not> au_ok e c s then au_fail (au_log c s) else au_finish e kvs k (au_log c s))"

definition au_query ::
  "au_env \<Rightarrow> bool \<Rightarrow> string \<Rightarrow> au_call \<Rightarrow> (au_hist \<Rightarrow> au_val) \<Rightarrow> au_state \<Rightarrow> au_result" where
  "au_query e guarded symbol c conv s =
     (if \<not> au_usable e guarded symbol s then au_fail s
      else if \<not> au_ok e c s then au_fail (au_log c s)
      else (ERROR_NONE, Some (conv (au_trace s)), au_log c s))"

definition fixed :: "(string \<times> string) list \<Rightarrow> au_state \<Rightarrow> (string \<times> string) list \<times> au_state" where
  "fixed l s = (l, s)"

definition bool_int :: "bool \<Rightarrow> int" where "bool_int b = (if b then 1 else 0)"

definition TRUE_FALSE :: "bool \<Rightarrow> string" where
  "TRUE_FALSE b = (if b then ''TRUE'' else ''FALSE'')"

definition Enabled_Disabled :: "bool \<Rightarrow> string" where
  "Enabled_Disabled b = (if b then ''Enabled'' else ''Disabled'')"

subsection \<open>Port types\<close>

fun au_port_to_ds :: "AudioPortType \<Rightarrow> dsAudioPortType" where
  "au_port_to_ds AP_LR = DSA_LR"
| "au_port_to_ds AP_HDMI = DSA_HDMI"
| "au_port_to_ds AP_SPDIF = DSA_SPDIF"
| "au_port_to_ds AP_SPEAKER = DSA_SPEAKER"
| "au_port_to_ds AP_HDMIARC = DSA_HDMI_ARC"
| "au_port_to_ds AP_HEADPHONE = DSA_HEADPHONE"
| "au_port_to_ds (AP_other i) = DSA_MAX"

fun au_find_port :: "au_env \<Rightarrow> int \<Rightarrow> dsAudioPortType list \<Rightarrow> au_state \<Rightarrow> dsAudioPortType \<times> au_state" where
  "au_find_port e handle [] s = (DSA_MAX, s)"
| "au_find_port e handle (p # ps) s =
     (let c = AuPort p 0; s1 = au_log c s
      in if au_ok e c s \<and> au_out e c s = handle then (p, s1) else au_find_port e handle ps s1)"

definition getAudioPortType :: "au_env \<Rightarrow> int \<Rightarrow> au_state \<Rightarrow> dsAudioPortType \<times> au_state" where
  "getAudioPortType e handle s =
     au_find_port e handle [DSA_HDMI, DSA_SPDIF, DSA_SPEAKER, DSA_HDMI_ARC, DSA_HEADPHONE] s"

text \<open>The prefix of a port in the keys of the store.\<close>

fun port_name :: "dsAudioPortType \<Rightarrow> string" where
  "port_name DSA_HDMI = ''HDMI0''"
| "port_name DSA_SPDIF = ''SPDIF0''"
| "port_name DSA_SPEAKER = ''SPEAKER0''"
| "port_name DSA_HDMI_ARC = ''HDMI_ARC0''"
| "port_name DSA_HEADPHONE = ''HEADPHONE0''"
| "port_name _ = []"

subsection \<open>What the helpers leave alone\<close>

named_theorems au_simps "how the audio helpers act on the state"

definition au_more :: "au_hist \<Rightarrow> au_state \<Rightarrow> au_state" where
  "au_more cs s = s\<lparr>au_trace := au_trace s @ cs\<rparr>"

lemma au_log_more [au_simps]: "au_log c s = au_more [c] s"
  by (simp add: au_log_def au_more_def)

lemma au_more_more [simp]: "au_more ds (au_more cs s) = au_more (cs @ ds) s"
  by (simp add: au_more_def)

lemma au_more_Nil [simp]: "au_more [] s = s"
  by (simp add: au_more_def)

lemma au_more_fields [simp]:
  "au_isInitialized (au_more cs s) = au_isInitialized s"
  "isDuckingInProgress (au_more cs s) = isDuckingInProgress s"
  "volumeDuckingLevel (au_more cs s) = volumeDuckingLevel s"
  "muteStatus (au_more cs s) = muteStatus s"
  "audioPortEnabled (au_more cs s) = audioPortEnabled s"
  "stereoAuto (au_more cs s) = stereoAuto s"
  "stereoMode (au_more cs s) = stereoMode s"
  "g_LastVolumeLevel (au_more cs s) = g_LastVolumeLevel s"
  "g_audioLevelCache (au_more cs s) = g_audioLevelCache s"
  "persistAlive (au_more cs s) = persistAlive s"
  "persistPending (au_more cs s) = persistPending s"
  "persistThread (au_more cs s) = persistThread s"
  "m_LEEnabled (au_more cs s) = m_LEEnabled s"
  "au_resolved (au_more cs s) = au_resolved s"
  "au_callback (au_more cs s) = au_callback s"
  "au_store (au_more cs s) = au_store s"
  "au_trace (au_more cs s) = au_trace s @ cs"
  by (simp_all add: au_more_def)

lemma au_event_more: "au_event cb ev s = au_more (if au_callback s cb then [ev] else []) s"
  by (simp add: au_event_def au_log_more)

text \<open>Looking up the type of a handle makes port queries only.\<close>

fun port_query :: "au_call \<Rightarrow> bool" where
  "port_query (AuPort p i) = (i = 0)"
| "port_query _ = False"

lemma au_find_port_more:
  "\<exists>cs. (\<forall>c \<in> set cs. port_query c) \<and> snd (au_find_port e handle ps s) = au_more cs s"
proof (induction e handle ps s rule: au_find_port.induct)
  case (1 e handle s)
  show ?case by (rule exI [of _ "[]"]) simp
next
  case (2 e handle p ps s)
  show ?case
  proof (cases "au_ok e (AuPort p 0) s \<and> au_out e (AuPort p 0) s = handle")
    case True
    then show ?thesis by (intro exI [of _ "[AuPort p 0]"]) (simp add: au_log_more)
  next
    case False
    then obtain cs where "\<forall>c \<in> set cs. port_query c"
      and "snd (au_find_port e handle ps (au_log (AuPort p 0) s)) = au_more cs (au_log (AuPort p 0) s)"
      using 2 [OF refl refl] by blast
    then show ?thesis
      using False by (intro exI [of _ "AuPort p 0 # cs"]) (auto simp: au_log_more Let_def)
  qed
qed

lemma getAudioPortType_more:
  obtains p cs where "getAudioPortType e handle s = (p, au_more cs s)" and "\<forall>c \<in> set cs. port_query c"
  using au_find_port_more [of e handle "[DSA_HDMI, DSA_SPDIF, DSA_SPEAKER, DSA_HDMI_ARC, DSA_HEADPHONE]" s]
  by (metis getAudioPortType_def prod.collapse)

text \<open>Reading the store changes the store only, and only by loading it.\<close>

definition au_load :: "au_state \<Rightarrow> au_state" where
  "au_load s = s\<lparr>au_store := ensureInitialized (au_store s)\<rparr>"

lemma au_load_idem [simp]: "au_load (au_load s) = au_load s"
  by (simp add: au_load_def)

lemma au_get_eq:
  "au_get key s = (if key = [] then None else hp_get (au_store s) key, au_load s)"
  by (simp add: au_get_def getProperty_eq au_load_def split: option.split)

lemma au_getDefault_load: "snd (au_getDefault key s) = au_load s"
  by (simp add: au_getDefault_def getDefaultProperty_def au_load_def Let_def split: option.split)

lemma au_load_fields [simp]:
  "au_isInitialized (au_load s) = au_isInitialized s"
  "isDuckingInProgress (au_load s) = isDuckingInProgress s"
  "volumeDuckingLevel (au_load s) = volumeDuckingLevel s"
  "muteStatus (au_load s) = muteStatus s"
  "audioPortEnabled (au_load s) = audioPortEnabled s"
  "stereoAuto (au_load s) = stereoAuto s"
  "stereoMode (au_load s) = stereoMode s"
  "g_LastVolumeLevel (au_load s) = g_LastVolumeLevel s"
  "g_audioLevelCache (au_load s) = g_audioLevelCache s"
  "persistAlive (au_load s) = persistAlive s"
  "persistPending (au_load s) = persistPending s"
  "persistThread (au_load s) = persistThread s"
  "m_LEEnabled (au_load s) = m_LEEnabled s"
  "au_resolved (au_load s) = au_resolved s"
  "au_callback (au_load s) = au_callback s"
  "au_trace (au_load s) = au_trace s"
  "hp_get (au_store (au_load s)) k = hp_get (au_store s) k"
  by (simp_all add: au_load_def hp_get_def)

text \<open>The default settings, and the value a setting has.\<close>

definition hp_dflt :: "host_store \<Rightarrow> string \<Rightarrow> string option" where
  "hp_dflt st key = map_of (hp_defaults (ensureInitialized st)) key"

definition setting_of :: "host_store \<Rightarrow> string \<Rightarrow> string \<Rightarrow> string" where
  "setting_of st key d = (case hp_get st key of Some v \<Rightarrow> v
     | None \<Rightarrow> (case hp_dflt st key of Some v \<Rightarrow> v | None \<Rightarrow> d))"

lemma au_load_dflt [simp]: "hp_dflt (au_store (au_load s)) k = hp_dflt (au_store s) k"
  by (simp add: au_load_def hp_dflt_def)

lemma au_load_setting [simp]: "setting_of (au_store (au_load s)) k d = setting_of (au_store s) k d"
  by (simp add: setting_of_def split: option.split)

lemma au_getDefault_eq: "k \<noteq> [] \<Longrightarrow> au_getDefault k s = (hp_dflt (au_store s) k, au_load s)"
  by (simp add: au_getDefault_def getDefaultProperty_def au_load_def hp_dflt_def Let_def split: option.split)

lemma au_setting_eq: "k \<noteq> [] \<Longrightarrow> au_setting k d s = (setting_of (au_store s) k d, au_load s)"
  by (simp add: au_setting_def au_get_eq au_getDefault_eq setting_of_def split: option.split)

lemma au_default_eq:
  "k \<noteq> [] \<Longrightarrow> au_default k d s = (case hp_dflt (au_store s) k of Some v \<Rightarrow> v | None \<Rightarrow> d, au_load s)"
  by (simp add: au_default_def au_getDefault_eq split: option.split)

lemma setting_of_stored [simp]: "hp_get st k = Some v \<Longrightarrow> setting_of st k d = v"
  by (simp add: setting_of_def)

lemma au_persist_put:
  assumes "\<forall>(k, v) \<in> set kvs. k \<noteq> [] \<and> v \<noteq> []"
  shows "au_persist e kvs s = (True, s\<lparr>au_store := fold (\<lambda>(k, v). hp_put (ae_io e) k v) kvs (au_store s)\<rparr>)"
  using assms
proof (induction kvs arbitrary: s)
  case Nil
  then show ?case by simp
next
  case (Cons kv kvs)
  obtain k v where kv: "kv = (k, v)" by (cases kv)
  with Cons show ?case by (simp add: persist_eq hp_put_def)
qed

subsection \<open>What an operation leaves alone\<close>

text \<open>
  The contract every operation of the platform keeps: it only appends calls that satisfy \<open>P\<close> to
  the trace, keeps the platform initialised (or not), the callbacks, the default settings and the
  well-formedness of the store, and changes no user setting but those of \<open>K\<close>.
\<close>

definition au_keeps :: "(au_call \<Rightarrow> bool) \<Rightarrow> string set \<Rightarrow> au_state \<Rightarrow> au_state \<Rightarrow> bool" where
  "au_keeps P K s t \<longleftrightarrow> (\<exists>cs. au_trace t = au_trace s @ cs \<and> (\<forall>c \<in> set cs. P c)) \<and> au_isInitialized t = au_isInitialized s
     \<and> au_callback t = au_callback s
     \<and> hp_dflt (au_store t) = hp_dflt (au_store s)
     \<and> (hp_ok (au_store s) \<longrightarrow> hp_ok (au_store t)
          \<and> (\<forall>k. k \<notin> K \<longrightarrow> hp_get (au_store t) k = hp_get (au_store s) k))"

lemma keeps_refl [simp, intro]: "au_keeps P K s s"
  by (simp add: au_keeps_def)

lemma keeps_trans: "au_keeps P K s t \<Longrightarrow> au_keeps P K t u \<Longrightarrow> au_keeps P K s u"
  unfolding au_keeps_def by (metis (no_types, lifting) UnE append.assoc set_append)

lemma keeps_mono: "au_keeps P K s t \<Longrightarrow> (\<And>c. P c \<Longrightarrow> Q c) \<Longrightarrow> K \<subseteq> L \<Longrightarrow> au_keeps Q L s t"
  by (auto simp: au_keeps_def)

lemma keeps_get: "au_keeps P K s t \<Longrightarrow> hp_ok (au_store s) \<Longrightarrow> k \<notin> K \<Longrightarrow> hp_get (au_store t) k = hp_get (au_store s) k"
  by (simp add: au_keeps_def)

lemma keeps_ok: "au_keeps P K s t \<Longrightarrow> hp_ok (au_store s) \<Longrightarrow> hp_ok (au_store t)"
  by (simp add: au_keeps_def)

lemma keeps_trace: "au_keeps P K s t \<Longrightarrow> \<exists>cs. au_trace t = au_trace s @ cs \<and> (\<forall>c \<in> set cs. P c)"
  by (simp add: au_keeps_def)

text \<open>An update that touches neither trace, store nor initialisation changes nothing here.\<close>

lemma keeps_same:
  assumes "au_trace t = au_trace u" and "au_isInitialized t = au_isInitialized u" and "au_store t = au_store u"
    and "au_callback t = au_callback u"
  shows "au_keeps P K s t = au_keeps P K s u"
  using assms by (simp add: au_keeps_def)

lemma keeps_more [simp]: "au_keeps P K s t \<Longrightarrow> \<forall>c \<in> set cs. P c \<Longrightarrow> au_keeps P K s (au_more cs t)"
  unfolding au_keeps_def by (metis (no_types, lifting) UnE append.assoc au_more_fields(1,15,16,17) set_append)

lemma keeps_log [simp]: "au_keeps P K s t \<Longrightarrow> P c \<Longrightarrow> au_keeps P K s (au_log c t)"
  by (simp add: au_log_more)

lemma keeps_event [simp]: "au_keeps P K s t \<Longrightarrow> P ev \<Longrightarrow> au_keeps P K s (au_event cb ev t)"
  by (simp add: au_event_more)

lemma keeps_call [simp]: "au_keeps P K s t \<Longrightarrow> P c \<Longrightarrow> au_keeps P K s (snd (au_do e c t))"
  by (simp add: au_do_def)

lemma au_load_dflt_fun: "hp_dflt (au_store (au_load s)) = hp_dflt (au_store s)"
  by (rule ext) simp

lemma au_load_ok: "hp_ok (au_store s) \<Longrightarrow> hp_ok (au_store (au_load s))"
  by (simp add: au_load_def hp_ok_init)

lemma keeps_load [simp]: "au_keeps P K s t \<Longrightarrow> au_keeps P K s (au_load t)"
  using au_load_dflt_fun [of t] au_load_ok [of t] by (auto simp: au_keeps_def)

lemma keeps_get_state [simp]: "au_keeps P K s t \<Longrightarrow> au_keeps P K s (snd (au_get key t))"
  by (simp add: au_get_eq)

lemma keeps_getDefault_state [simp]: "au_keeps P K s t \<Longrightarrow> au_keeps P K s (snd (au_getDefault key t))"
  by (simp add: au_getDefault_load)

lemma au_setting_state: "snd (au_setting key d s) = au_load s"
  by (auto simp: au_setting_def au_get_eq split: option.split prod.split
      dest!: arg_cong [where f = snd] simp: au_getDefault_load)

lemma au_default_state: "snd (au_default key d s) = au_load s"
  by (auto simp: au_default_def split: option.split prod.split
      dest!: arg_cong [where f = snd] simp: au_getDefault_load)

lemma keeps_setting_state [simp]:
  "au_keeps P K s t \<Longrightarrow> au_keeps P K s (snd (au_setting key d t))"
  "au_keeps P K s t \<Longrightarrow> au_keeps P K s (snd (au_default key d t))"
  by (simp_all add: au_setting_state au_default_state)

lemma dflt_put: "k \<noteq> [] \<Longrightarrow> v \<noteq> [] \<Longrightarrow> hp_dflt (hp_put io k v st) = hp_dflt st"
  by (rule ext) (simp add: hp_dflt_def put_defaults ensureInitialized_def [of "hp_put io k v st"])

lemma keeps_persist:
  assumes "au_keeps P K s t" and "fst ` set kvs \<subseteq> K"
  shows "au_keeps P K s (snd (au_persist e kvs t))"
  using assms
proof (induction kvs arbitrary: t)
  case Nil
  then show ?case by simp
next
  case (Cons kv kvs)
  obtain k v where kv: "kv = (k, v)" by (cases kv)
  show ?case
  proof (cases "k = [] \<or> v = []")
    case True
    then have "snd (au_persist e (kv # kvs) t) = au_load t"
      by (simp add: kv persistHostProperty_def au_load_def)
    with Cons.prems show ?thesis by simp
  next
    case False
    let ?t = "t\<lparr>au_store := hp_put (ae_io e) k v (au_store t)\<rparr>"
    have "au_keeps P K s ?t"
      using Cons.prems False by (auto simp: au_keeps_def hp_ok_put hp_get_put dflt_put kv)
    then have "au_keeps P K s (snd (au_persist e kvs ?t))" using Cons by simp
    then show ?thesis using False by (simp add: kv persist_eq hp_put_def)
  qed
qed

subsection \<open>A HAL that accepts everything\<close>

text \<open>Used at concrete inputs: the five ports have the handles 1 to 5, and every query answers 1.\<close>

fun sample_out :: "au_call \<Rightarrow> int" where
  "sample_out (AuPort DSA_SPDIF i) = 2"
| "sample_out (AuPort DSA_SPEAKER i) = 3"
| "sample_out (AuPort DSA_HDMI_ARC i) = 4"
| "sample_out (AuPort DSA_HEADPHONE i) = 5"
| "sample_out _ = 1"

definition sample_hal :: "bool \<Rightarrow> au_env" where
  "sample_hal persist = \<lparr>ae_ret = (\<lambda>h c. DsERR_NONE), ae_out = (\<lambda>h c. sample_out c),
     ae_fout = (\<lambda>h c. f_of_int 0), ae_sout = (\<lambda>h c. ''x''), ae_mout = (\<lambda>h c. DSM_STEREO),
     ae_pout = (\<lambda>h c. (0, 0)), ae_symbol = (\<lambda>f. True), ae_conv = (\<lambda>x. 0), ae_io = io_full,
     ae_persist = persist, ae_le_disabled = False, ae_ignore_edid = False, ae_support_DD = 1,
     ae_support_DDPLUS = 2, ae_profile_len = 1024\<rparr>"

lemma sample_hal_simps [simp]:
  "ae_ret (sample_hal p) h c = DsERR_NONE" "ae_out (sample_hal p) h c = sample_out c"
  "ae_fout (sample_hal p) h c = f_of_int 0" "ae_sout (sample_hal p) h c = ''x''"
  "ae_mout (sample_hal p) h c = DSM_STEREO" "ae_pout (sample_hal p) h c = (0, 0)"
  "ae_symbol (sample_hal p) f" "ae_conv (sample_hal p) x = 0" "ae_io (sample_hal p) = io_full"
  "ae_persist (sample_hal p) = p" "\<not> ae_le_disabled (sample_hal p)" "\<not> ae_ignore_edid (sample_hal p)"
  "ae_support_DD (sample_hal p) = 1" "ae_support_DDPLUS (sample_hal p) = 2" "ae_profile_len (sample_hal p) = 1024"
  by (simp_all add: sample_hal_def)

lemma sample_hal_ok [simp]: "au_ok (sample_hal p) c s" "au_out (sample_hal p) c s = sample_out c"
  by (simp_all add: au_ok_def au_out_def)

end
