(* ===== verification/Audio_Level.thy ===== *)
theory Audio_Level
  imports Audio_Base
begin

section \<open>Audio levels: volume, gain, mute, ducking, enabling, delay\<close>

text \<open>
  The part of \<open>dAudioImpl\<close> that keeps the volume of the ports: the requests that change the
  level, the gain and the mute state, audio ducking, the enabling of a port, the audio delay,
  and the background thread that writes the cached levels to the persistent store. The thread
  is a state machine (\<open>lt_next\<close>) that runs between the requests.
\<close>

subsection \<open>The level cache and its thread\<close>

definition level_ports :: "dsAudioPortType list" where
  "level_ports = [DSA_SPDIF, DSA_HDMI, DSA_SPEAKER, DSA_HEADPHONE]"

definition level_key :: "dsAudioPortType \<Rightarrow> string" where
  "level_key p = port_name p @ ''.audio.Level''"

text \<open>
  \<open>notify_one\<close> wakes the thread only when it already waits: the caller does not hold the lock,
  so a notification between the thread's test and its wait is lost.
\<close>

definition lt_notify :: "au_state \<Rightarrow> au_state" where
  "lt_notify s = (case persistThread s of LT_wait prev \<Rightarrow> s\<lparr>persistThread := LT_test prev\<rparr> | _ \<Rightarrow> s)"

definition cacheAudioLevelForPersist :: "dsAudioPortType \<Rightarrow> cfloat \<Rightarrow> au_state \<Rightarrow> au_state" where
  "cacheAudioLevelForPersist p level s =
     (if p \<in> set level_ports
      then lt_notify (s\<lparr>g_audioLevelCache := (g_audioLevelCache s)(p := level), persistPending := True\<rparr>)
      else s)"

definition startAudioLevelPersistThread :: "au_state \<Rightarrow> au_state" where
  "startAudioLevelPersistThread s =
     (if persistAlive s then s
      else s\<lparr>persistAlive := True, persistPending := False, persistThread := LT_start\<rparr>)"

text \<open>Up to the \<open>join\<close>, which returns once the thread is at \<open>LT_end\<close>.\<close>

definition stopAudioLevelPersistThread :: "au_state \<Rightarrow> au_state" where
  "stopAudioLevelPersistThread s =
     (if \<not> persistAlive s then s else lt_notify (s\<lparr>persistAlive := False, persistPending := True\<rparr>))"

definition persistAudioLevelIfChanged ::
  "au_env \<Rightarrow> dsAudioPortType \<Rightarrow> (dsAudioPortType \<Rightarrow> cfloat) \<Rightarrow> au_state
     \<Rightarrow> bool \<times> (dsAudioPortType \<Rightarrow> cfloat) \<times> au_state" where
  "persistAudioLevelIfChanged e p prev s =
     (let current = g_audioLevelCache s p
      in if f_eq current (prev p) then (True, prev, s)
         else let (ok, s1) = au_persist e [(level_key p, f_show current)] s
              in if ok then (True, prev(p := current), s1) else (False, prev, s1))"

fun persist_levels ::
  "au_env \<Rightarrow> dsAudioPortType list \<Rightarrow> (dsAudioPortType \<Rightarrow> cfloat) \<Rightarrow> au_state
     \<Rightarrow> (dsAudioPortType \<Rightarrow> cfloat) \<times> au_state" where
  "persist_levels e [] prev s = (prev, s)"
| "persist_levels e (p # ps) prev s =
     (let (ok, prev1, s1) = persistAudioLevelIfChanged e p prev s
      in if ok then persist_levels e ps prev1 s1 else (prev1, s1))"

text \<open>\<open>while (alive)\<close> at the head of the loop, then one step of the thread.\<close>

definition lt_loop :: "(dsAudioPortType \<Rightarrow> cfloat) \<Rightarrow> au_state \<Rightarrow> au_state" where
  "lt_loop prev s = s\<lparr>persistThread := (if persistAlive s then LT_test prev else LT_end)\<rparr>"

definition lt_next :: "au_env \<Rightarrow> au_state \<Rightarrow> au_state option" where
  "lt_next e s = (case persistThread s of
       LT_start \<Rightarrow> Some (lt_loop (g_audioLevelCache s) s)
     | LT_test prev \<Rightarrow>
         if \<not> persistPending s \<and> persistAlive s then Some (s\<lparr>persistThread := LT_gap prev\<rparr>)
         else if \<not> persistAlive s then Some (s\<lparr>persistThread := LT_end\<rparr>)
         else Some (s\<lparr>persistPending := False, persistThread := LT_sleep prev\<rparr>)
     | LT_gap prev \<Rightarrow> Some (s\<lparr>persistThread := LT_wait prev\<rparr>)
     | LT_sleep prev \<Rightarrow> (let (prev1, s1) = persist_levels e level_ports prev s in Some (lt_loop prev1 s1))
     | _ \<Rightarrow> None)"

text \<open>At most \<open>n\<close> steps of the thread, with no request in between.\<close>

fun lt_run :: "au_env \<Rightarrow> nat \<Rightarrow> au_state \<Rightarrow> au_state" where
  "lt_run e 0 s = s"
| "lt_run e (Suc n) s = (case lt_next e s of None \<Rightarrow> s | Some s1 \<Rightarrow> lt_run e n s1)"

subsection \<open>Level, gain, mute\<close>

definition set_level :: "au_env \<Rightarrow> int \<Rightarrow> cfloat \<Rightarrow> au_state \<Rightarrow> dsError \<times> au_state" where
  "set_level e handle level s = au_do e (AuSetF ''dsSetAudioLevel'' handle level) s"

text \<open>What the HAL is told for a requested level: during ducking the speaker keeps its level.\<close>

definition requested_level :: "au_env \<Rightarrow> int \<Rightarrow> cfloat \<Rightarrow> au_state \<Rightarrow> dsError \<times> au_state" where
  "requested_level e handle level s =
     (let (p, s1) = getAudioPortType e handle s
      in if p \<noteq> DSA_SPEAKER then set_level e handle level s1
         else let c = AuGet ''dsGetAudioLevel'' handle;
                  current = (if au_ok e c s1 then ae_fout e (au_trace s1) c else f_of_int 0);
                  s2 = au_log c s1; ducked = f_of_int (volumeDuckingLevel s2)
         in if isDuckingInProgress s2 \<and> \<not> f_eq current ducked then set_level e handle ducked s2
            else if isDuckingInProgress s2 then (DsERR_NONE, s2)
            else set_level e handle level s2)"

text \<open>\<open>switch\<close> over the port type, each case one update.\<close>

definition port_kvs :: "dsAudioPortType list \<Rightarrow> string \<Rightarrow> string \<Rightarrow> dsAudioPortType \<Rightarrow> (string \<times> string) list" where
  "port_kvs ports sfx v p = (if p \<in> set ports then [(port_name p @ sfx, v)] else [])"

definition by_port ::
  "au_env \<Rightarrow> int \<Rightarrow> dsAudioPortType list \<Rightarrow> string \<Rightarrow> string \<Rightarrow> au_state \<Rightarrow> (string \<times> string) list \<times> au_state" where
  "by_port e handle ports sfx v s =
     (let (p, s1) = getAudioPortType e handle s in (port_kvs ports sfx v p, s1))"

definition save_level ::
  "au_env \<Rightarrow> int \<Rightarrow> cfloat \<Rightarrow> au_state \<Rightarrow> (string \<times> string) list \<times> au_state" where
  "save_level e handle level s =
     (let (p, s1) = getAudioPortType e handle s
      in if persistAlive s1 then ([], cacheAudioLevelForPersist p level s1)
         else (port_kvs level_ports ''.audio.Level'' (f_show level) p, s1))"

definition notifyAudioLevelChanged :: "int \<Rightarrow> au_state \<Rightarrow> au_state" where
  "notifyAudioLevelChanged level s = au_event CB_Level (EvLevel (f_of_int level)) s"

definition SetAudioLevel :: "au_env \<Rightarrow> int \<Rightarrow> cfloat \<Rightarrow> au_state \<Rightarrow> au_result" where
  "SetAudioLevel e handle level s =
     (if \<not> au_usable e True ''dsSetAudioLevel'' s then au_fail s
      else let (ret, s1) = requested_level e handle level s
      in if ret \<noteq> DsERR_NONE then au_fail s1
         else au_finish e (save_level e handle level) (notifyAudioLevelChanged (f_to_int (ae_conv e) level))
                (s1\<lparr>g_LastVolumeLevel := level\<rparr>))"

definition GetAudioLevel :: "au_env \<Rightarrow> int \<Rightarrow> au_state \<Rightarrow> au_result" where
  "GetAudioLevel e handle s =
     (let c = AuGet ''dsGetAudioLevel'' handle; level = ae_fout e (au_trace s) c
      in if \<not> au_usable e True ''dsGetAudioLevel'' s then au_fail s
         else if \<not> au_ok e c s then au_fail (au_log c s)
         else (ERROR_NONE, Some (AFloat level), (au_log c s)\<lparr>g_LastVolumeLevel := level\<rparr>))"

definition SetAudioGain :: "au_env \<Rightarrow> int \<Rightarrow> cfloat \<Rightarrow> au_state \<Rightarrow> au_result" where
  "SetAudioGain e handle gain s =
     au_set e True ''dsSetAudioGain'' (AuSetF ''dsSetAudioGain'' handle gain)
       (by_port e handle [DSA_SPDIF, DSA_HDMI, DSA_SPEAKER] ''.audio.Gain'' (f_show gain)) (\<lambda>s. s) s"

definition GetAudioGain :: "au_env \<Rightarrow> int \<Rightarrow> au_state \<Rightarrow> au_result" where
  "GetAudioGain e handle s =
     (let c = AuGet ''dsGetAudioGain'' handle
      in au_query e True ''dsGetAudioGain'' c (\<lambda>h. AFloat (ae_fout e h c)) s)"

text \<open>The level a speaker gets when it is unmuted or enabled; \<open>False\<close> if the HAL refuses it.\<close>

definition setAudioDuckingAudioLevel :: "au_env \<Rightarrow> int \<Rightarrow> au_state \<Rightarrow> bool \<times> au_state" where
  "setAudioDuckingAudioLevel e handle s =
     (let volume = (if isDuckingInProgress s then f_of_int (volumeDuckingLevel s)
                    else if ae_persist e then g_audioLevelCache s DSA_SPEAKER else g_LastVolumeLevel s)
      in if \<not> ae_symbol e ''dsSetAudioLevel'' then (False, s)
         else let (ret, s1) = set_level e handle volume s in (ret = DsERR_NONE, s1))"

definition mute_ports :: "dsAudioPortType list" where
  "mute_ports = [DSA_SPDIF, DSA_HDMI, DSA_SPEAKER, DSA_HEADPHONE, DSA_HDMI_ARC]"

definition SetAudioMute :: "au_env \<Rightarrow> int \<Rightarrow> bool \<Rightarrow> au_state \<Rightarrow> au_result" where
  "SetAudioMute e handle mute s =
     (if \<not> au_isInitialized s then au_fail s
      else let (p, s1) = getAudioPortType e handle s;
               (ok, s2) = (if \<not> mute \<and> p = DSA_SPEAKER then setAudioDuckingAudioLevel e handle s1 else (True, s1))
      in if \<not> ok then au_fail s2
         else let (ret, s3) = au_do e (AuSetI ''dsSetAudioMute'' handle (bool_int mute)) s2
         in if ret \<noteq> DsERR_NONE then au_fail s3
            else au_finish e (by_port e handle mute_ports ''.audio.mute'' (TRUE_FALSE mute)) (\<lambda>s. s)
                   (s3\<lparr>muteStatus := mute\<rparr>))"

definition IsAudioMuted :: "au_env \<Rightarrow> int \<Rightarrow> au_state \<Rightarrow> au_result" where
  "IsAudioMuted e handle s =
     (let c = AuGet ''dsIsAudioMute'' handle; muted = (au_out e c s \<noteq> 0)
      in if \<not> au_usable e True ''dsIsAudioMute'' s then au_fail s
         else if \<not> au_ok e c s then au_fail (au_log c s)
         else if \<not> ae_persist e then (ERROR_NONE, Some (ABool muted), au_log c s)
         else let (p, s1) = getAudioPortType e handle (au_log c s)
         in if p \<notin> set mute_ports then (ERROR_NONE, Some (ABool muted), s1)
            else let (v, s2) = au_get (port_name p @ ''.audio.mute'') s1
                 in (ERROR_NONE, Some (ABool (v = Some ''TRUE'' \<or> muted)), s2))"

subsection \<open>Ducking\<close>

datatype AudioDuckingType = DUCK_ABSOLUTE | DUCK_RELATIVE

datatype AudioDuckingAction = DUCK_START | DUCK_STOP

definition ducking_volume :: "au_env \<Rightarrow> AudioDuckingType \<Rightarrow> AudioDuckingAction \<Rightarrow> 8 word \<Rightarrow> cfloat \<Rightarrow> int" where
  "ducking_volume e type action level v =
     (if action = DUCK_STOP then f_to_int (ae_conv e) v
      else if type = DUCK_RELATIVE
      then f_to_int (ae_conv e) (f_div (f_mul v (f_of_int (uint level))) (f_of_int 100))
      else if f_less v (f_of_int (uint level)) then f_to_int (ae_conv e) v
      else uint level)"

definition SetAudioDucking ::
  "au_env \<Rightarrow> int \<Rightarrow> AudioDuckingType \<Rightarrow> AudioDuckingAction \<Rightarrow> 8 word \<Rightarrow> au_state \<Rightarrow> au_result" where
  "SetAudioDucking e handle type action level s =
     (if \<not> au_isInitialized s then au_fail s
      else let c = AuGet ''dsIsAudioPortEnabled'' handle;
               portEnabled = (au_ok e c s \<and> au_out e c s \<noteq> 0);
               s1 = (au_log c s)\<lparr>isDuckingInProgress := (action = DUCK_START)\<rparr>;
               volume = ducking_volume e type action level (g_LastVolumeLevel s)
      in if muteStatus s1 \<or> \<not> portEnabled then au_done (s1\<lparr>volumeDuckingLevel := volume\<rparr>)
         else if volume = volumeDuckingLevel s1 then au_done s1
         else if \<not> ae_symbol e ''dsSetAudioLevel'' then au_fail s1
         else let (ret, s2) = set_level e handle (f_of_int volume) s1
         in if ret \<noteq> DsERR_NONE then au_fail s2
            else au_done (notifyAudioLevelChanged volume (s2\<lparr>volumeDuckingLevel := volume\<rparr>)))"

subsection \<open>Delay\<close>

text \<open>
  \<open>std::stoul\<close> with a 64-bit \<open>unsigned long\<close>: \<open>None\<close> for its two exceptions; a minus sign
  negates modulo \<open>2^64\<close>.
\<close>

definition stoul :: "string \<Rightarrow> nat option" where
  "stoul s = (case dropWhile isspace s of
       [] \<Rightarrow> None
     | c # r \<Rightarrow> (let digits = (if c = CHR ''-'' \<or> c = CHR ''+'' then r else c # r); v = read_digits 0 digits
         in if digits = [] \<or> \<not> is_digit (hd digits) \<or> 2 ^ 64 \<le> v then None
            else Some (if c = CHR ''-'' then (2 ^ 64 - v) mod 2 ^ 64 else v)))"

definition delay_ports :: "dsAudioPortType list" where
  "delay_ports = [DSA_SPDIF, DSA_HDMI, DSA_SPEAKER, DSA_HDMI_ARC]"

definition getAudioDelayInternal :: "dsAudioPortType \<Rightarrow> au_state \<Rightarrow> 32 word \<times> au_state" where
  "getAudioDelayInternal p s =
     (let (v, s1) = (if p \<in> set delay_ports then au_setting (port_name p @ ''.audio.Delay'') ''0'' s else (''0'', s))
      in (case stoul v of Some n \<Rightarrow> word_of_nat n | None \<Rightarrow> 0, s1))"

definition setAudioDelayInternal :: "au_env \<Rightarrow> int \<Rightarrow> 32 word \<Rightarrow> au_state \<Rightarrow> au_state" where
  "setAudioDelayInternal e handle delay s =
     (if \<not> ae_symbol e ''dsSetAudioDelay'' then s
      else snd (au_do e (AuSetI ''dsSetAudioDelay'' handle (uint delay)) s))"

definition SetAudioDelay :: "au_env \<Rightarrow> int \<Rightarrow> 32 word \<Rightarrow> au_state \<Rightarrow> au_result" where
  "SetAudioDelay e handle delay s =
     (if \<not> ae_symbol e ''dsSetAudioDelay'' then au_fail s
      else let (p, s1) = getAudioPortType e handle s;
               (ret, s2) = (if p \<noteq> DSA_MAX \<and> audioPortEnabled s1 p
                 then au_do e (AuSetI ''dsSetAudioDelay'' handle (uint delay)) s1 else (DsERR_NONE, s1));
               retCode = (if ret = DsERR_NONE then ERROR_NONE else ERROR_GENERAL);
               (ok, s3) = (if ae_persist e
                 then au_persist e (port_kvs delay_ports ''.audio.Delay'' (to_string (uint delay)) p) s2
                 else (True, s2))
      in (if ok then retCode else ERROR_GENERAL, None, s3))"

definition GetAudioDelay :: "au_env \<Rightarrow> int \<Rightarrow> au_state \<Rightarrow> au_result" where
  "GetAudioDelay e handle s =
     (let (p, s1) = getAudioPortType e handle s; (delay, s2) = getAudioDelayInternal p s1
      in (ERROR_NONE, Some (AInt (uint delay)), s2))"

definition SetAudioDelayOffset :: "au_env \<Rightarrow> int \<Rightarrow> 32 word \<Rightarrow> au_state \<Rightarrow> au_result" where
  "SetAudioDelayOffset e handle offset s =
     au_set e True ''dsSetAudioDelayOffset'' (AuSetI ''dsSetAudioDelayOffset'' handle (uint offset)) (fixed [])
       (\<lambda>s. s) s"

definition GetAudioDelayOffset :: "au_env \<Rightarrow> int \<Rightarrow> au_state \<Rightarrow> au_result" where
  "GetAudioDelayOffset e handle s =
     (let c = AuGet ''dsGetAudioDelayOffset'' handle
      in au_query e True ''dsGetAudioDelayOffset'' c (\<lambda>h. AInt (ae_out e h c)) s)"

subsection \<open>Enabling a port\<close>

definition IsAudioPortEnabled :: "au_env \<Rightarrow> int \<Rightarrow> au_state \<Rightarrow> au_result" where
  "IsAudioPortEnabled e handle s =
     (let c = AuGet ''dsIsAudioPortEnabled'' handle
      in au_query e False ''dsIsAudioPortEnabled'' c (\<lambda>h. ABool (ae_out e h c \<noteq> 0)) s)"

text \<open>Before the port is switched: the speaker gets its level unless it is muted.\<close>

definition enable_speaker :: "au_env \<Rightarrow> int \<Rightarrow> bool \<Rightarrow> dsAudioPortType \<Rightarrow> au_state \<Rightarrow> bool \<times> au_state" where
  "enable_speaker e handle enable p s =
     (if p \<noteq> DSA_SPEAKER then (True, s)
      else let c = AuGet ''dsIsAudioMute'' handle; muted = (au_ok e c s \<and> au_out e c s \<noteq> 0); s1 = au_log c s
      in if enable \<and> \<not> muted then setAudioDuckingAudioLevel e handle s1 else (True, s1))"

text \<open>After it: the other ports get their cached level.\<close>

definition restore_cached_level :: "au_env \<Rightarrow> int \<Rightarrow> bool \<Rightarrow> dsAudioPortType \<Rightarrow> au_state \<Rightarrow> au_state" where
  "restore_cached_level e handle enable p s =
     (if ae_persist e \<and> enable \<and> p \<in> {DSA_SPDIF, DSA_HDMI, DSA_HEADPHONE} \<and> ae_symbol e ''dsSetAudioLevel''
      then snd (set_level e handle (g_audioLevelCache s p) s) else s)"

definition verify_enabled :: "au_env \<Rightarrow> int \<Rightarrow> bool \<Rightarrow> dsAudioPortType \<Rightarrow> au_state \<Rightarrow> au_result" where
  "verify_enabled e handle enable p s =
     (let c = AuGet ''dsIsAudioPortEnabled'' handle; s1 = au_log c s
      in if \<not> au_ok e c s then au_done s1
         else if (au_out e c s \<noteq> 0) \<noteq> enable then au_fail s1
         else if p = DSA_MAX then au_done s1
         else let s2 = s1\<lparr>audioPortEnabled := (audioPortEnabled s1)(p := enable)\<rparr>
         in if \<not> enable then au_done s2
            else let (delay, s3) = getAudioDelayInternal p s2
                 in au_done (setAudioDelayInternal e handle delay s3))"

definition EnableAudioPort_au :: "au_env \<Rightarrow> int \<Rightarrow> bool \<Rightarrow> au_state \<Rightarrow> au_result" where
  "EnableAudioPort_au e handle enable s =
     (if \<not> au_isInitialized s then au_fail s
      else let (p, s1) = getAudioPortType e handle s;
               (ok, s2) = enable_speaker e handle enable p s1
      in if \<not> ok \<or> \<not> ae_symbol e ''dsEnableAudioPort'' then au_fail s2
         else let (ret, s3) = au_do e (AuSetI ''dsEnableAudioPort'' handle (bool_int enable)) s2
         in if ret \<noteq> DsERR_NONE then au_fail s3
            else verify_enabled e handle enable p (restore_cached_level e handle enable p s3))"

subsection \<open>The levels the HAL is told\<close>

fun level_call :: "au_call \<Rightarrow> (int \<times> cfloat) option" where
  "level_call (AuSetF f handle level) = (if f = ''dsSetAudioLevel'' then Some (handle, level) else None)"
| "level_call _ = None"

definition level_calls :: "au_hist \<Rightarrow> (int \<times> cfloat) list" where
  "level_calls t = List.map_filter level_call t"

lemma level_calls_append: "level_calls (t @ u) = level_calls t @ level_calls u"
  by (simp add: level_calls_def List.map_filter_def)

lemma level_calls_simps [simp]:
  "level_calls [] = []"
  "level_calls (c # t) = (case level_call c of Some l \<Rightarrow> l # level_calls t | None \<Rightarrow> level_calls t)"
  by (simp_all add: level_calls_def List.map_filter_simps split: option.split)

lemma level_calls_ports: "\<forall>c \<in> set cs. port_query c \<Longrightarrow> level_calls cs = []"
proof (induction cs)
  case Nil
  then show ?case by simp
next
  case (Cons c cs)
  then show ?case by (cases c) auto
qed

lemma level_calls_event [simp]: "level_calls (if b then [EvLevel x] else []) = []"
  by simp

lemmas level_simps = au_log_more au_do_def set_level_def au_done_def au_fail_def au_event_more
  notifyAudioLevelChanged_def level_calls_append

text \<open>The volume of a ducking request, for a level that is a small integer.\<close>

definition duck_to :: "AudioDuckingType \<Rightarrow> AudioDuckingAction \<Rightarrow> nat \<Rightarrow> nat \<Rightarrow> nat" where
  "duck_to type action l n =
     (if action = DUCK_STOP then n else if type = DUCK_RELATIVE then n * l div 100 else min n l)"

lemma ducking_volume_int:
  assumes "n * 255 < 2 ^ 24"
  shows "ducking_volume e type action level (f_of_int (int n)) = int (duck_to type action (unat level) n)"
proof -
  have n: "n < 2 ^ 24" using assms by simp
  then have n': "\<bar>int n\<bar> < 2 ^ 24" by simp
  have "unat level < 256" using unsigned_less [of level, where ?'a = nat] by simp
  then have l: "unat level < 2 ^ 24" "unat level \<le> 255" by simp_all
  have l': "\<bar>uint level\<bar> < 2 ^ 24" using unsigned_less [of level, where ?'a = int] by simp
  have "n * unat level \<le> n * 255" using l(2) by (rule mult_le_mono2)
  then have p: "n * unat level < 2 ^ 24" using assms by (rule le_less_trans)
  have u: "int (unat level) = uint level" by simp
  then have le: "n \<le> unat level \<longleftrightarrow> int n \<le> uint level" by linarith
  show ?thesis
    using f_percent [OF p n l(1)] f_less_small [OF n' l'] f_to_int_small [OF n']
    by (simp add: ducking_volume_def duck_to_def u le min_def)
qed

text \<open>
  A ducking request for a level that is a whole number: the volume is the floor of the
  percentage (or the smaller of the two levels, or the last level again), it is remembered,
  and it goes to the HAL exactly when the port is enabled, not muted, and the volume is not the
  one of the last ducking request - whatever level the port has now. Up to 100 percent a request
  never makes the port louder than the last level.
\<close>

theorem ducking_request:
  fixes level :: "8 word" and handle :: int and action :: AudioDuckingAction and type :: AudioDuckingType
  assumes "au_isInitialized s" and "g_LastVolumeLevel s = f_of_int (int n)" and "n * 255 < 2 ^ 24"
    and "ae_symbol e ''dsSetAudioLevel''"
  defines "c \<equiv> AuGet ''dsIsAudioPortEnabled'' handle"
  defines "enabled \<equiv> au_ok e c s \<and> au_out e c s \<noteq> 0"
  defines "v \<equiv> duck_to type action (unat level) n"
  defines "cmd \<equiv> AuSetF ''dsSetAudioLevel'' handle (f_of_int (int v))"
  defines "accepted \<equiv> ae_ret e (au_trace s @ [c]) cmd = DsERR_NONE"
  defines "told \<equiv> enabled \<and> \<not> muteStatus s \<and> int v \<noteq> volumeDuckingLevel s"
  defines "r \<equiv> SetAudioDucking e handle type action level s"
  shows "isDuckingInProgress (snd (snd r)) = (action = DUCK_START)
       \<and> level_calls (au_trace (snd (snd r)))
           = level_calls (au_trace s) @ (if told then [(handle, f_of_int (int v))] else [])
       \<and> (fst r = ERROR_NONE \<longleftrightarrow> \<not> told \<or> accepted)
       \<and> volumeDuckingLevel (snd (snd r)) = (if told \<and> \<not> accepted then volumeDuckingLevel s else int v)
       \<and> (unat level \<le> 100 \<longrightarrow> v \<le> n)"
proof -
  have "n * unat level div 100 \<le> n" if "unat level \<le> 100"
    using that by (metis div_le_mono mult_le_mono2 nonzero_mult_div_cancel_right zero_neq_numeral)
  then have "unat level \<le> 100 \<longrightarrow> v \<le> n" by (auto simp: v_def duck_to_def)
  then show ?thesis
    using assms(1,2,4) ducking_volume_int [OF assms(3), of e type action level]
    by (auto simp: r_def SetAudioDucking_def Let_def level_simps enabled_def c_def v_def [symmetric]
        told_def accepted_def cmd_def)
qed

theorem ducking_request_witness:
  defines "s \<equiv> (au_static (sample_hal True) (hp_new ''f'' (\<lambda>_. None)))
      \<lparr>au_isInitialized := True, g_LastVolumeLevel := f_of_int 80\<rparr>"
  shows "level_calls (au_trace (snd (snd (SetAudioDucking (sample_hal True) 3 DUCK_RELATIVE DUCK_START 30 s))))
       = [(3, f_of_int 24)]"
  using ducking_request [of s 80 "sample_hal True" 3 DUCK_RELATIVE DUCK_START 30]
  by (simp add: s_def au_static_def duck_to_def)

text \<open>A level request keeps everything but the level, the caches, the store and the thread.\<close>

definition level_frame :: "au_state \<Rightarrow> au_state \<Rightarrow> bool" where
  "level_frame s t \<longleftrightarrow> au_isInitialized t = au_isInitialized s \<and> isDuckingInProgress t = isDuckingInProgress s
     \<and> volumeDuckingLevel t = volumeDuckingLevel s \<and> muteStatus t = muteStatus s
     \<and> audioPortEnabled t = audioPortEnabled s \<and> au_callback t = au_callback s
     \<and> level_calls (au_trace t) = level_calls (au_trace s)"

lemma f_show_nonempty [simp]: "f_show x \<noteq> []"
  by (cases x) (simp_all add: Let_def)

lemma lt_notify_fields [simp]:
  "au_isInitialized (lt_notify s) = au_isInitialized s"
  "isDuckingInProgress (lt_notify s) = isDuckingInProgress s"
  "volumeDuckingLevel (lt_notify s) = volumeDuckingLevel s"
  "muteStatus (lt_notify s) = muteStatus s"
  "audioPortEnabled (lt_notify s) = audioPortEnabled s"
  "g_LastVolumeLevel (lt_notify s) = g_LastVolumeLevel s"
  "g_audioLevelCache (lt_notify s) = g_audioLevelCache s"
  "persistAlive (lt_notify s) = persistAlive s"
  "persistPending (lt_notify s) = persistPending s"
  "au_callback (lt_notify s) = au_callback s"
  "au_store (lt_notify s) = au_store s"
  "au_trace (lt_notify s) = au_trace s"
  by (simp_all add: lt_notify_def split: level_thread.split)

lemma save_level_finish:
  "\<exists>t. au_finish e (save_level e handle level) k s = au_done (k t) \<and> level_frame s t
     \<and> g_LastVolumeLevel t = g_LastVolumeLevel s"
proof -
  obtain p cs where g: "getAudioPortType e handle s = (p, au_more cs s)" and cs: "\<forall>c \<in> set cs. port_query c"
    by (rule getAudioPortType_more)
  let ?kvs = "port_kvs level_ports ''.audio.Level'' (f_show level) p"
  have p: "au_persist e ?kvs (au_more cs s) = (True, (au_more cs s)
      \<lparr>au_store := fold (\<lambda>(k, v). hp_put (ae_io e) k v) ?kvs (au_store s)\<rparr>)"
    by (subst au_persist_put) (auto simp: port_kvs_def)
  have l: "level_calls cs = []" using cs by (rule level_calls_ports)
  show ?thesis
    by (auto simp: au_finish_def save_level_def g p level_frame_def level_calls_append l
        cacheAudioLevelForPersist_def)
qed

text \<open>The calls \<open>requested_level\<close> makes.\<close>

lemma requested_level_calls:
  assumes "requested_level e handle level s = (ret, t)"
  shows "\<exists>cs. t = au_more cs s
     \<and> (if isDuckingInProgress s \<and> fst (getAudioPortType e handle s) = DSA_SPEAKER
        then level_calls cs \<in> {[], [(handle, f_of_int (volumeDuckingLevel s))]}
        else level_calls cs = [(handle, level)])"
proof -
  obtain p cs where g: "getAudioPortType e handle s = (p, au_more cs s)" and cs: "\<forall>c \<in> set cs. port_query c"
    by (rule getAudioPortType_more)
  have l: "level_calls (cs @ ds) = level_calls ds" for ds
    using level_calls_ports [OF cs] by (simp add: level_calls_append)
  show ?thesis
    using assms
    by (auto simp: requested_level_def Let_def g level_simps(1-3) split: if_splits intro!: exI [of _ "cs @ _"])
       (auto simp: l)
qed

lemma SetAudioLevel_effect:
  assumes "au_isInitialized s" and "ae_symbol e ''dsSetAudioLevel''"
    and "requested_level e handle level s = (DsERR_NONE, t)"
  shows "\<exists>u. SetAudioLevel e handle level s = au_done u \<and> level_frame t u \<and> g_LastVolumeLevel u = level"
proof -
  obtain v where v: "au_finish e (save_level e handle level)
       (notifyAudioLevelChanged (f_to_int (ae_conv e) level)) (t\<lparr>g_LastVolumeLevel := level\<rparr>)
       = au_done (notifyAudioLevelChanged (f_to_int (ae_conv e) level) v)"
    and f: "level_frame (t\<lparr>g_LastVolumeLevel := level\<rparr>) v" and g: "g_LastVolumeLevel v = level"
    using save_level_finish [of e handle level "notifyAudioLevelChanged (f_to_int (ae_conv e) level)"
        "t\<lparr>g_LastVolumeLevel := level\<rparr>"] by auto
  then show ?thesis
    using assms by (auto simp: SetAudioLevel_def au_usable_def level_frame_def level_simps)
qed

text \<open>
  C28. A level requested for the speaker during ducking does not reach the HAL - at most the
  ducking level is told again - but it is remembered: the request that ends ducking tells it
  (port enabled, not muted, a HAL that accepts; unless it equals the ducking level, when it is
  there already).
\<close>

theorem level_during_ducking:
  fixes handle :: int and n :: nat and l :: "8 word" and t :: AudioDuckingType
  assumes "au_isInitialized s" and "isDuckingInProgress s" and "\<not> muteStatus s"
    and "fst (getAudioPortType e handle s) = DSA_SPEAKER"
    and "ae_symbol e ''dsSetAudioLevel''" and "\<forall>h c. ae_ret e h c = DsERR_NONE"
    and "\<forall>h. ae_out e h (AuGet ''dsIsAudioPortEnabled'' handle) \<noteq> 0" and "n * 255 < 2 ^ 24"
  defines "s1 \<equiv> snd (snd (SetAudioLevel e handle (f_of_int (int n)) s))"
  defines "s2 \<equiv> snd (snd (SetAudioDucking e handle t DUCK_STOP l s1))"
  shows "level_calls (au_trace s1) \<in> {level_calls (au_trace s),
           level_calls (au_trace s) @ [(handle, f_of_int (volumeDuckingLevel s))]}
       \<and> level_calls (au_trace s2) = level_calls (au_trace s1)
           @ (if int n = volumeDuckingLevel s then [] else [(handle, f_of_int (int n))])
       \<and> \<not> isDuckingInProgress s2"
proof -
  obtain ret r where r: "requested_level e handle (f_of_int (int n)) s = (ret, r)" by fastforce
  moreover have "ret = DsERR_NONE"
    using r assms(6) by (auto simp: requested_level_def split_beta Let_def au_do_def set_level_def
        split: if_splits prod.splits)
  ultimately obtain u where u: "SetAudioLevel e handle (f_of_int (int n)) s = au_done u"
    and f: "level_frame r u" and g: "g_LastVolumeLevel u = f_of_int (int n)"
    using SetAudioLevel_effect [OF assms(1,5)] by blast
  obtain cs where cs: "r = au_more cs s"
    "level_calls cs \<in> {[], [(handle, f_of_int (volumeDuckingLevel s))]}"
    using requested_level_calls [OF r] assms(2,4) by auto
  have s1: "s1 = u" by (simp add: s1_def u au_done_def)
  have fr: "au_isInitialized u" "volumeDuckingLevel u = volumeDuckingLevel s" "\<not> muteStatus u"
    "level_calls (au_trace u) = level_calls (au_trace s) @ level_calls cs"
    using f cs(1) assms(1,3) by (auto simp: level_frame_def level_calls_append)
  have en: "au_ok e (AuGet ''dsIsAudioPortEnabled'' handle) u \<and> au_out e (AuGet ''dsIsAudioPortEnabled'' handle) u \<noteq> 0"
    using assms(6,7) by (simp add: au_ok_def au_out_def)
  show ?thesis
    using ducking_request [OF fr(1) g assms(8,5), of handle t DUCK_STOP l] en fr cs(2) assms(6)
    by (auto simp: s1 s2_def duck_to_def)
qed

theorem level_during_ducking_witness:
  defines "e \<equiv> sample_hal False"
  defines "s \<equiv> (au_static e (hp_new ''f'' (\<lambda>_. None)))
      \<lparr>au_isInitialized := True, isDuckingInProgress := True, volumeDuckingLevel := 20\<rparr>"
  shows "level_calls (au_trace (snd (snd (SetAudioDucking e 3 DUCK_RELATIVE DUCK_STOP 0
           (snd (snd (SetAudioLevel e 3 (f_of_int 70) s))))))) = [(3, f_of_int 20), (3, f_of_int 70)]"
proof -
  have p: "fst (getAudioPortType e 3 s) = DSA_SPEAKER" by (simp add: getAudioPortType_def e_def)
  have r: "requested_level e 3 (f_of_int 70) s = (DsERR_NONE, t) \<Longrightarrow> level_calls (au_trace t) = [(3, f_of_int 20)]" for t
    using f_eq_small [of 0 20]
    by (auto simp: requested_level_def getAudioPortType_def e_def s_def Let_def au_static_def level_simps)
  have "level_calls (au_trace (snd (snd (SetAudioLevel e 3 (f_of_int 70) s)))) = [(3, f_of_int 20)]"
  proof -
    obtain t where t: "requested_level e 3 (f_of_int 70) s = (DsERR_NONE, t)"
      using f_eq_small [of 0 20]
      by (simp add: requested_level_def getAudioPortType_def e_def s_def Let_def au_static_def level_simps)
    then show ?thesis
      using SetAudioLevel_effect [of s e 3 "f_of_int 70" t] r [OF t]
      by (auto simp: s_def e_def level_frame_def au_done_def)
  qed
  then show ?thesis
    using level_during_ducking [of s e 3 70 DUCK_RELATIVE 0] p
    by (simp add: s_def e_def au_static_def)
qed

text \<open>
  The ducking level is compared with the last ducking request, not with the level the port
  has: a level change between two ducking requests is not seen. When the new ducking volume is
  that of the last request, ducking is reported as started and the port stays at the full level.
\<close>

theorem stale_ducking_skipped:
  fixes handle :: int and n :: nat and l :: "8 word"
  assumes "au_isInitialized s" and "\<not> isDuckingInProgress s" and "\<not> muteStatus s"
    and "ae_symbol e ''dsSetAudioLevel''" and "\<forall>h c. ae_ret e h c = DsERR_NONE" and "n * 255 < 2 ^ 24"
    and "volumeDuckingLevel s = int (n * unat l div 100)"
  defines "r1 \<equiv> SetAudioLevel e handle (f_of_int (int n)) s"
  defines "r2 \<equiv> SetAudioDucking e handle DUCK_RELATIVE DUCK_START l (snd (snd r1))"
  shows "fst r1 = ERROR_NONE \<and> fst r2 = ERROR_NONE \<and> isDuckingInProgress (snd (snd r2))
       \<and> level_calls (au_trace (snd (snd r2))) = level_calls (au_trace s) @ [(handle, f_of_int (int n))]"
proof -
  obtain ret r where r: "requested_level e handle (f_of_int (int n)) s = (ret, r)" by fastforce
  moreover have "ret = DsERR_NONE"
    using r assms(5) by (auto simp: requested_level_def split_beta Let_def au_do_def set_level_def
        split: if_splits prod.splits)
  ultimately obtain u where u: "r1 = au_done u"
    and f: "level_frame r u" and g: "g_LastVolumeLevel u = f_of_int (int n)"
    using SetAudioLevel_effect [OF assms(1,4)] r1_def by blast
  obtain cs where cs: "r = au_more cs s" "level_calls cs = [(handle, f_of_int (int n))]"
    using requested_level_calls [OF r] assms(2) by auto
  have fr: "au_isInitialized u" "volumeDuckingLevel u = volumeDuckingLevel s"
    "level_calls (au_trace u) = level_calls (au_trace s) @ [(handle, f_of_int (int n))]"
    using f cs assms(1) by (auto simp: level_frame_def level_calls_append)
  show ?thesis
    using ducking_request [OF fr(1) g assms(6,4), of handle DUCK_RELATIVE DUCK_START l] fr assms(7)
    by (simp add: u au_done_def r2_def duck_to_def)
qed

theorem stale_ducking_skipped_witness:
  defines "e \<equiv> sample_hal True"
  defines "s \<equiv> (au_static e (hp_new ''f'' (\<lambda>_. None)))\<lparr>au_isInitialized := True\<rparr>"
  shows "level_calls (au_trace (snd (snd (SetAudioDucking e 3 DUCK_RELATIVE DUCK_START 0
           (snd (snd (SetAudioLevel e 3 (f_of_int 80) s))))))) = [(3, f_of_int 80)]"
  using stale_ducking_skipped [of s e 80 0 3] by (simp add: s_def e_def au_static_def)

subsection \<open>What the level thread writes\<close>

definition changed_levels ::
  "dsAudioPortType list \<Rightarrow> (dsAudioPortType \<Rightarrow> cfloat) \<Rightarrow> au_state \<Rightarrow> (string \<times> string) list" where
  "changed_levels ps prev s =
     map (\<lambda>p. (level_key p, f_show (g_audioLevelCache s p))) (filter (\<lambda>p. \<not> f_eq (g_audioLevelCache s p) (prev p)) ps)"

lemma level_key_nonempty [simp]: "level_key p \<noteq> []"
  by (simp add: level_key_def)

lemma level_key_inj: "inj_on level_key (set level_ports)"
  by (simp add: level_key_def level_ports_def)

lemma persist_levels_eq:
  assumes "distinct ps"
  shows "\<exists>prev1. persist_levels e ps prev s = (prev1, s\<lparr>au_store :=
           fold (\<lambda>(k, v). hp_put (ae_io e) k v) (changed_levels ps prev s) (au_store s)\<rparr>)"
  using assms
proof (induction ps arbitrary: prev s)
  case Nil
  then show ?case by (simp add: changed_levels_def)
next
  case (Cons p ps)
  show ?case
  proof (cases "f_eq (g_audioLevelCache s p) (prev p)")
    case True
    with Cons show ?thesis by (simp add: persistAudioLevelIfChanged_def Let_def changed_levels_def)
  next
    case False
    let ?s = "s\<lparr>au_store := hp_put (ae_io e) (level_key p) (f_show (g_audioLevelCache s p)) (au_store s)\<rparr>"
    have "filter (\<lambda>q. \<not> f_eq (g_audioLevelCache s q) ((prev(p := g_audioLevelCache s p)) q)) ps
        = filter (\<lambda>q. \<not> f_eq (g_audioLevelCache s q) (prev q)) ps"
      using Cons.prems by (intro filter_cong) auto
    then have ch: "changed_levels ps (prev(p := g_audioLevelCache s p)) ?s = changed_levels ps prev s"
      by (simp add: changed_levels_def)
    have pe: "au_persist e [(level_key p, f_show (g_audioLevelCache s p))] s = (True, ?s)"
      by (subst au_persist_put) simp_all
    have "persist_levels e (p # ps) prev s = persist_levels e ps (prev(p := g_audioLevelCache s p)) ?s"
      using False by (simp add: persistAudioLevelIfChanged_def Let_def pe del: au_persist.simps)
    moreover have "changed_levels (p # ps) prev s
        = (level_key p, f_show (g_audioLevelCache s p)) # changed_levels ps prev s"
      using False by (simp add: changed_levels_def)
    ultimately show ?thesis
      using Cons.IH [of "prev(p := g_audioLevelCache s p)" ?s] Cons.prems by (simp only: ch) (simp del: fun_upd_apply)
  qed
qed

lemma changed_levels_get:
  assumes "hp_ok (au_store s)" and "p \<in> set level_ports"
  shows "hp_get (fold (\<lambda>(k, v). hp_put io k v) (changed_levels level_ports prev s) (au_store s)) (level_key p)
     = (if f_eq (g_audioLevelCache s p) (prev p) then hp_get (au_store s) (level_key p)
        else Some (f_show (g_audioLevelCache s p)))"
proof -
  let ?kvs = "changed_levels level_ports prev s"
  have d: "distinct (map fst (rev ?kvs))"
    using level_key_inj by (auto simp: changed_levels_def rev_map distinct_map level_ports_def inj_on_def)
  have m: "(level_key p, v) \<in> set (rev ?kvs)
      \<longleftrightarrow> \<not> f_eq (g_audioLevelCache s p) (prev p) \<and> v = f_show (g_audioLevelCache s p)" for v
    using assms(2) level_key_inj by (auto simp: changed_levels_def inj_on_def)
  have "map_of (rev ?kvs) (level_key p)
      = (if f_eq (g_audioLevelCache s p) (prev p) then None else Some (f_show (g_audioLevelCache s p)))"
  proof (cases "f_eq (g_audioLevelCache s p) (prev p)")
    case True
    then have "map_of (rev ?kvs) (level_key p) = None" using m by (metis map_of_SomeD not_None_eq)
    with True show ?thesis by simp
  next
    case False
    then show ?thesis using m map_of_is_SomeI [OF d] by simp
  qed
  moreover have "\<forall>(k, v) \<in> set ?kvs. k \<noteq> [] \<and> v \<noteq> []" by (auto simp: changed_levels_def)
  ultimately show ?thesis
    using hp.puts(2) [OF assms(1), of ?kvs "level_key p" io] by simp
qed

text \<open>The thread asleep writes every changed level and tests again, or ends.\<close>

lemma lt_sleep_step:
  assumes "persistThread s = LT_sleep prev"
  shows "\<exists>prev1. lt_next e s = Some (lt_loop prev1 (s\<lparr>au_store :=
     fold (\<lambda>(k, v). hp_put (ae_io e) k v) (changed_levels level_ports prev s) (au_store s)\<rparr>))"
proof -
  have "distinct level_ports" by (simp add: level_ports_def)
  from persist_levels_eq [OF this, of e prev s] assms show ?thesis by (auto simp: lt_next_def)
qed

definition last_levels ::
  "(dsAudioPortType \<times> cfloat) list \<Rightarrow> (dsAudioPortType \<Rightarrow> cfloat) \<Rightarrow> dsAudioPortType \<Rightarrow> cfloat" where
  "last_levels changes cache p = (case map_of (rev changes) p of Some l \<Rightarrow> l | None \<Rightarrow> cache p)"

lemma last_levels_Cons: "last_levels ((q, l) # changes) cache = last_levels changes (cache(q := l))"
  by (rule ext) (simp add: last_levels_def map_add_def split: option.split)

lemma cache_changes:
  assumes "\<forall>(p, l) \<in> set changes. p \<in> set level_ports" and "persistThread s \<in> {LT_wait prev, LT_test prev}"
    and "changes \<noteq> []"
  shows "fold (\<lambda>(p, l). cacheAudioLevelForPersist p l) changes s
     = s\<lparr>g_audioLevelCache := last_levels changes (g_audioLevelCache s), persistPending := True,
         persistThread := LT_test prev\<rparr>"
  using assms
proof (induction changes arbitrary: s)
  case Nil
  then show ?case by simp
next
  case (Cons c changes)
  obtain q l where c: "c = (q, l)" by (cases c)
  have s: "cacheAudioLevelForPersist q l s = s\<lparr>g_audioLevelCache := (g_audioLevelCache s)(q := l),
      persistPending := True, persistThread := LT_test prev\<rparr>"
    using Cons.prems c by (auto simp: cacheAudioLevelForPersist_def lt_notify_def)
  show ?case
  proof (cases "changes = []")
    case True
    then show ?thesis by (simp add: c s last_levels_def fun_eq_iff)
  next
    case False
    with Cons show ?thesis by (simp add: c s last_levels_Cons)
  qed
qed

text \<open>
  Level changes made while the thread waits are coalesced: after two steps of the thread each
  port's last level is in the store, as text, unless it is the level the thread wrote there
  before; the intermediate levels are never written.
\<close>

theorem level_changes_are_written:
  fixes s :: au_state
  assumes "hp_ok (au_store s)" and "persistAlive s" and "persistThread s = LT_wait prev"
    and "changes \<noteq> []" and "\<forall>(p, l) \<in> set changes. p \<in> set level_ports" and "q \<in> set level_ports"
  defines "s1 \<equiv> fold (\<lambda>(p, l). cacheAudioLevelForPersist p l) changes s"
  defines "v \<equiv> last_levels changes (g_audioLevelCache s) q"
  shows "hp_get (au_store (lt_run e 2 s1)) (level_key q)
       = (if f_eq v (prev q) then hp_get (au_store s) (level_key q) else Some (f_show v))"
proof -
  let ?s2 = "s1\<lparr>persistPending := False, persistThread := LT_sleep prev\<rparr>"
  have s1: "s1 = s\<lparr>g_audioLevelCache := last_levels changes (g_audioLevelCache s), persistPending := True,
      persistThread := LT_test prev\<rparr>"
    unfolding s1_def by (rule cache_changes [OF assms(5) _ assms(4)]) (simp add: assms(3))
  then have "lt_next e s1 = Some ?s2" using assms(2) by (simp add: lt_next_def)
  moreover obtain prev1 where "lt_next e ?s2 = Some (lt_loop prev1 (?s2\<lparr>au_store :=
     fold (\<lambda>(k, v). hp_put (ae_io e) k v) (changed_levels level_ports prev ?s2) (au_store ?s2)\<rparr>))"
    using lt_sleep_step [of ?s2 prev e] by auto
  ultimately have "au_store (lt_run e 2 s1)
      = fold (\<lambda>(k, v). hp_put (ae_io e) k v) (changed_levels level_ports prev ?s2) (au_store ?s2)"
    by (simp add: lt_loop_def numeral_2_eq_2)
  moreover have "hp_ok (au_store ?s2)" "g_audioLevelCache ?s2 q = v" "au_store ?s2 = au_store s"
    using assms(1) by (simp_all add: s1 v_def)
  ultimately show ?thesis
    using changed_levels_get [of ?s2 q "ae_io e" prev] assms(6) by simp
qed

theorem level_changes_are_written_witness:
  defines "s \<equiv> (au_static (sample_hal True) (hp_new ''f'' (\<lambda>_. None)))
      \<lparr>persistAlive := True, persistThread := LT_wait (\<lambda>_. f_of_int 40)\<rparr>"
  defines "s1 \<equiv> fold (\<lambda>(p, l). cacheAudioLevelForPersist p l)
      [(DSA_SPEAKER, f_of_int 50), (DSA_HDMI, f_of_int 10), (DSA_SPEAKER, f_of_int 60)] s"
  shows "hp_get (au_store (lt_run (sample_hal True) 2 s1)) ''SPEAKER0.audio.Level'' = Some ''60.000000''"
proof -
  have ok: "hp_ok (au_store s)" by (simp add: s_def au_static_def hp_new_def hp_ok_def)
  have f: "f_show (f_of_int 60) = ''60.000000''"
    by (simp add: f_show_small minus_sign_def show_nat.simps digit_char_def char_of_eq_iff)
  show ?thesis
    using level_changes_are_written [OF ok, of "\<lambda>_. f_of_int 40"
        "[(DSA_SPEAKER, f_of_int 50), (DSA_HDMI, f_of_int 10), (DSA_SPEAKER, f_of_int 60)]" DSA_SPEAKER]
      f_eq_small [of 60 40]
    by (simp add: s_def s1_def level_ports_def last_levels_def level_key_def f)
qed

text \<open>
  C39. How shutting down ends depends on where the thread is, with no request in between.
  Asleep: it writes the cached levels and ends. About to test or waiting: it ends without
  writing, and a level change it has not seen is lost. Between its test and its wait: the
  notification is lost, the thread waits for ever (until the library wakes it for no reason)
  and the \<open>join\<close> of the destructor does not return.
\<close>

theorem level_thread_shutdown:
  fixes s :: au_state
  assumes "persistAlive s" and "persistThread s \<notin> {LT_none, LT_end}"
  defines "s1 \<equiv> stopAudioLevelPersistThread s"
  shows "case persistThread s of
       LT_gap prev \<Rightarrow> persistThread (lt_run e n s1) \<noteq> LT_end
         \<and> lt_next e (lt_run e 1 s1) = None \<and> au_store (lt_run e n s1) = au_store s
     | LT_sleep prev \<Rightarrow> persistThread (lt_run e 2 s1) = LT_end
         \<and> au_store (lt_run e 2 s1)
           = fold (\<lambda>(k, v). hp_put (ae_io e) k v) (changed_levels level_ports prev s) (au_store s)
     | _ \<Rightarrow> persistThread (lt_run e 1 s1) = LT_end \<and> au_store (lt_run e 1 s1) = au_store s"
proof (cases "persistThread s")
  case (LT_gap prev)
  have stuck: "lt_run e m (s1\<lparr>persistThread := LT_wait prev\<rparr>) = s1\<lparr>persistThread := LT_wait prev\<rparr>" for m
    by (cases m) (simp_all add: lt_next_def)
  have s1: "s1 = s\<lparr>persistAlive := False, persistPending := True\<rparr>"
    using LT_gap assms(1) by (simp add: s1_def stopAudioLevelPersistThread_def lt_notify_def)
  have "lt_next e s1 = Some (s1\<lparr>persistThread := LT_wait prev\<rparr>)" using LT_gap by (simp add: s1 lt_next_def)
  then have "lt_run e (Suc m) s1 = s1\<lparr>persistThread := LT_wait prev\<rparr>" for m using stuck by simp
  then show ?thesis using LT_gap by (cases n) (simp_all add: s1 lt_next_def)
next
  case (LT_sleep prev)
  have s1: "s1 = s\<lparr>persistAlive := False, persistPending := True\<rparr>"
    using LT_sleep assms(1) by (simp add: s1_def stopAudioLevelPersistThread_def lt_notify_def)
  have "changed_levels level_ports prev s1 = changed_levels level_ports prev s"
    by (simp add: s1 changed_levels_def)
  moreover have "persistThread s1 = LT_sleep prev" using LT_sleep by (simp add: s1)
  ultimately obtain prev1 where "lt_next e s1 = Some (lt_loop prev1 (s1\<lparr>au_store :=
     fold (\<lambda>(k, v). hp_put (ae_io e) k v) (changed_levels level_ports prev s) (au_store s1)\<rparr>))"
    using lt_sleep_step [of s1 prev e] by auto
  then show ?thesis using LT_sleep by (simp add: numeral_2_eq_2 lt_loop_def s1 lt_next_def)
qed (use assms(1,2) in \<open>simp_all add: s1_def stopAudioLevelPersistThread_def lt_notify_def lt_next_def lt_loop_def\<close>)

theorem level_thread_shutdown_witness:
  defines "s \<equiv> (au_static (sample_hal True) (hp_new ''f'' (\<lambda>_. None)))
      \<lparr>persistAlive := True, persistThread := LT_gap (\<lambda>_. f_of_int 40)\<rparr>"
  shows "persistThread (lt_run (sample_hal True) 100 (stopAudioLevelPersistThread s)) \<noteq> LT_end"
  using level_thread_shutdown [of s "sample_hal True" 100] by (simp add: s_def)

end
