(* ===== verification/Audio_Stereo.thy ===== *)
theory Audio_Stereo
  imports Audio_Base
begin

section \<open>Stereo modes\<close>

text \<open>
  The stereo mode and the automatic mode of each port: the requests of \<open>dAudioImpl\<close> that read
  and change them, what is persisted, and the start-up code that reads the persisted modes
  back and tells the HAL (\<open>initializeAudioPortSettings\<close>).
\<close>

subsection \<open>Conversions\<close>

fun to_ds_mode :: "AudioStereoMode \<Rightarrow> dsAudioStereoMode" where
  "to_ds_mode AM_UNKNOWN = DSM_UNKNOWN"
| "to_ds_mode AM_MONO = DSM_MONO"
| "to_ds_mode AM_STEREO = DSM_STEREO"
| "to_ds_mode AM_SURROUND = DSM_SURROUND"
| "to_ds_mode AM_PASSTHROUGH = DSM_PASSTHRU"
| "to_ds_mode AM_DD = DSM_DD"
| "to_ds_mode AM_DDPLUS = DSM_DDPLUS"
| "to_ds_mode (AM_other i) = DSM_UNKNOWN"

fun from_ds_mode :: "dsAudioStereoMode \<Rightarrow> AudioStereoMode" where
  "from_ds_mode DSM_UNKNOWN = AM_UNKNOWN"
| "from_ds_mode DSM_MONO = AM_MONO"
| "from_ds_mode DSM_STEREO = AM_STEREO"
| "from_ds_mode DSM_SURROUND = AM_SURROUND"
| "from_ds_mode DSM_PASSTHRU = AM_PASSTHROUGH"
| "from_ds_mode DSM_DD = AM_DD"
| "from_ds_mode DSM_DDPLUS = AM_DDPLUS"
| "from_ds_mode (DSM_other i) = AM_UNKNOWN"

definition mode_ports :: "dsAudioPortType list" where
  "mode_ports = [DSA_HDMI, DSA_SPDIF, DSA_HDMI_ARC, DSA_SPEAKER]"

definition mode_key :: "dsAudioPortType \<Rightarrow> string" where
  "mode_key p = port_name p @ ''.AudioMode''"

definition auto_key :: "dsAudioPortType \<Rightarrow> string" where
  "auto_key p = port_name p @ ''.AudioMode.AUTO''"

fun mode_text :: "AudioStereoMode \<Rightarrow> string" where
  "mode_text AM_SURROUND = ''SURROUND''"
| "mode_text AM_PASSTHROUGH = ''PASSTHRU''"
| "mode_text AM_DD = ''DOLBYDIGITAL''"
| "mode_text AM_DDPLUS = ''DOLBYDIGITALPLUS''"
| "mode_text _ = ''STEREO''"

text \<open>The comparison chain; \<open>d\<close> is its last branch.\<close>

definition parse_mode :: "dsAudioStereoMode \<Rightarrow> string \<Rightarrow> dsAudioStereoMode" where
  "parse_mode d v =
     (if v = ''SURROUND'' then DSM_SURROUND
      else if v = ''PASSTHRU'' then DSM_PASSTHRU
      else if v = ''DOLBYDIGITAL'' then DSM_DD
      else if v = ''DOLBYDIGITALPLUS'' then DSM_DDPLUS
      else if v = ''STEREO'' then DSM_STEREO
      else d)"

subsection \<open>The configured modes\<close>

definition getConfiguredStereoMode :: "dsAudioPortType \<Rightarrow> au_state \<Rightarrow> dsAudioStereoMode" where
  "getConfiguredStereoMode p s = (if p \<in> set mode_ports then stereoMode s p else DSM_STEREO)"

definition isStereoAutoEnabled :: "dsAudioPortType \<Rightarrow> au_state \<Rightarrow> bool" where
  "isStereoAutoEnabled p s = (p \<in> set mode_ports \<and> stereoAuto s p)"

definition setConfiguredStereoMode :: "dsAudioPortType \<Rightarrow> dsAudioStereoMode \<Rightarrow> au_state \<Rightarrow> au_state" where
  "setConfiguredStereoMode p m s =
     (if p \<in> set mode_ports then s\<lparr>stereoMode := (stereoMode s)(p := m)\<rparr> else s)"

definition setStereoAutoState :: "dsAudioPortType \<Rightarrow> bool \<Rightarrow> au_state \<Rightarrow> au_state" where
  "setStereoAutoState p b s = (if p \<in> set mode_ports then s\<lparr>stereoAuto := (stereoAuto s)(p := b)\<rparr> else s)"

text \<open>The user setting, else the default setting, else nothing.\<close>

definition au_lookup :: "string \<Rightarrow> au_state \<Rightarrow> string option \<times> au_state" where
  "au_lookup key s = (case au_get key s of (Some v, s1) \<Rightarrow> (Some v, s1) | (None, s1) \<Rightarrow> au_getDefault key s1)"

definition getPersistedStereoMode :: "dsAudioPortType \<Rightarrow> au_state \<Rightarrow> dsAudioStereoMode option \<times> au_state" where
  "getPersistedStereoMode p s =
     (if p \<notin> set mode_ports then (None, s)
      else let (v, s1) = au_lookup (mode_key p) s in (map_option (parse_mode DSM_STEREO) v, s1))"

definition getPersistedStereoAuto :: "dsAudioPortType \<Rightarrow> au_state \<Rightarrow> int option \<times> au_state" where
  "getPersistedStereoAuto p s =
     (if p \<notin> set mode_ports then (None, s)
      else let (v, s1) = au_lookup (auto_key p) s in (map_option (\<lambda>t. bool_int (t = ''TRUE'')) v, s1))"

subsection \<open>Requests\<close>

definition GetStereoMode :: "au_env \<Rightarrow> int \<Rightarrow> bool \<Rightarrow> au_state \<Rightarrow> au_result" where
  "GetStereoMode e handle persist s =
     (let found = (\<lambda>m t. (ERROR_NONE, Some (AMode (from_ds_mode m)), t))
      in if \<not> au_isInitialized s then au_fail s
         else let (p, s1) = getAudioPortType e handle s
         in if persist then (case getPersistedStereoMode p s1 of (Some m, s2) \<Rightarrow> found m s2 | (None, s2) \<Rightarrow> au_fail s2)
            else if isStereoAutoEnabled p s1 \<or> p = DSA_SPEAKER
            then (let c = AuGet ''dsGetStereoMode'' handle
                  in if au_ok e c s1 then found (ae_mout e (au_trace s1) c) (au_log c s1)
                     else au_fail (au_log c s1))
            else found (getConfiguredStereoMode p s1) s1)"

fun event_port :: "dsAudioPortType \<Rightarrow> AudioPortType" where
  "event_port DSA_HDMI = AP_HDMI"
| "event_port DSA_SPDIF = AP_SPDIF"
| "event_port DSA_SPEAKER = AP_SPEAKER"
| "event_port DSA_HDMI_ARC = AP_HDMIARC"
| "event_port _ = AP_SPEAKER"

definition persist_mode :: "au_env \<Rightarrow> dsAudioPortType \<Rightarrow> AudioStereoMode \<Rightarrow> au_state \<Rightarrow> au_state" where
  "persist_mode e p mode s =
     (if p \<in> set mode_ports then snd (au_persist e [(mode_key p, mode_text mode)] s) else s)"

definition SetStereoMode :: "au_env \<Rightarrow> int \<Rightarrow> AudioStereoMode \<Rightarrow> bool \<Rightarrow> au_state \<Rightarrow> au_result" where
  "SetStereoMode e handle mode persist s =
     (if \<not> au_isInitialized s then au_fail s
      else let (p, s1) = getAudioPortType e handle s
      in if p = DSA_MAX then (ERROR_BAD_REQUEST, None, s1)
         else let (ret, s2) = au_do e (AuSetM handle (to_ds_mode mode)) s1
         in if ret \<noteq> DsERR_NONE then au_fail s2
            else let s3 = (if persist then persist_mode e p mode s2 else s2);
                     s4 = setConfiguredStereoMode p (to_ds_mode mode) s3
                 in au_done (au_event CB_Mode (EvMode (event_port p) mode) s4))"

definition GetStereoAuto :: "au_env \<Rightarrow> int \<Rightarrow> au_state \<Rightarrow> au_result" where
  "GetStereoAuto e handle s =
     (if \<not> au_isInitialized s then au_fail s
      else let (p, s1) = getAudioPortType e handle s
           in (ERROR_NONE, Some (AInt (bool_int (isStereoAutoEnabled p s1))), s1))"

definition persist_auto :: "au_env \<Rightarrow> int \<Rightarrow> int \<Rightarrow> au_state \<Rightarrow> bool \<times> au_state" where
  "persist_auto e handle autoMode s =
     (let (p, s1) = getAudioPortType e handle s
      in if p \<in> set mode_ports then au_persist e [(auto_key p, TRUE_FALSE (autoMode \<noteq> 0))] s1 else (True, s1))"

definition SetStereoAuto :: "au_env \<Rightarrow> int \<Rightarrow> int \<Rightarrow> bool \<Rightarrow> au_state \<Rightarrow> au_result" where
  "SetStereoAuto e handle autoMode persist s =
     (if \<not> au_isInitialized s then au_fail s
      else let (ok, s1) = (if persist then persist_auto e handle autoMode s else (True, s))
      in if \<not> ok then au_fail s1
         else let (p, s2) = getAudioPortType e handle s1
         in if p \<notin> {DSA_HDMI_ARC, DSA_SPDIF} then au_done (setStereoAutoState p (autoMode \<noteq> 0) s2)
            else if \<not> ae_symbol e ''dsSetStereoAuto'' then au_fail s2
            else let (ret, s3) = au_do e (AuSetI ''dsSetStereoAuto'' handle autoMode) s2
            in if ret \<noteq> DsERR_NONE then au_fail s3 else au_done (setStereoAutoState p (autoMode \<noteq> 0) s3))"

fun encoding_of :: "dsAudioStereoMode \<Rightarrow> AudioEncoding" where
  "encoding_of DSM_STEREO = ENC_PCM"
| "encoding_of DSM_DD = ENC_AC3"
| "encoding_of DSM_DDPLUS = ENC_EAC3"
| "encoding_of DSM_SURROUND = ENC_DISPLAY"
| "encoding_of DSM_PASSTHRU = ENC_DISPLAY"
| "encoding_of _ = ENC_NONE"

definition GetAudioEncoding :: "au_env \<Rightarrow> int \<Rightarrow> au_state \<Rightarrow> au_result" where
  "GetAudioEncoding e handle s =
     (let c = AuGet ''dsGetStereoMode'' handle
      in au_query e True [] c (\<lambda>h. AEncoding (encoding_of (ae_mout e h c))) s)"

subsection \<open>Start-up\<close>

definition au_getOr :: "string \<Rightarrow> string \<Rightarrow> au_state \<Rightarrow> string \<times> au_state" where
  "au_getOr key d s = (let (v, st) = getProperty_default key d (au_store s)
     in (case v of Ret t \<Rightarrow> t | _ \<Rightarrow> d, s\<lparr>au_store := st\<rparr>))"

text \<open>The branches of the chains for SPDIF and ARC, and for the speaker.\<close>

definition parse_digital :: "string \<Rightarrow> dsAudioStereoMode" where
  "parse_digital v =
     (if v = ''SURROUND'' then DSM_SURROUND else if v = ''PASSTHRU'' then DSM_PASSTHRU else DSM_STEREO)"

definition parse_speaker :: "string \<Rightarrow> dsAudioStereoMode" where
  "parse_speaker v =
     (if v = ''SURROUND'' then DSM_SURROUND else if v = ''PASSTHRU'' then DSM_PASSTHRU
      else if v = ''STEREO'' then DSM_STEREO else DSM_SURROUND)"

definition apply_port :: "au_env \<Rightarrow> dsAudioPortType \<Rightarrow> au_state \<Rightarrow> au_state" where
  "apply_port e p s =
     with_port e p (\<lambda>h t.
       let t1 = snd (au_do e (AuSetM h (stereoMode t p)) t)
       in snd (au_do e (AuSetI ''dsSetStereoAuto'' h (bool_int (stereoAuto t1 p))) t1)) s"

definition initializeAudioPortSettings :: "au_env \<Rightarrow> au_state \<Rightarrow> au_state" where
  "initializeAudioPortSettings e s =
     (let (hdmi, s1) = au_setting (mode_key DSA_HDMI) (if ae_ignore_edid e then ''SURROUND'' else ''STEREO'') s;
          hdmiMode = parse_mode (if ae_ignore_edid e then DSM_SURROUND else DSM_STEREO) hdmi;
          (hdmiAuto, s2) = au_setting (auto_key DSA_HDMI) (TRUE_FALSE (ae_ignore_edid e)) s1;
          (arcAuto, s3) = au_setting (auto_key DSA_HDMI_ARC) ''FALSE'' s2;
          (spdifAuto, s4) = au_setting (auto_key DSA_SPDIF) ''FALSE'' s3;
          (speakerAuto, s5) = au_setting (auto_key DSA_SPEAKER) ''TRUE'' s4;
          (spdif, s6) = au_getOr (mode_key DSA_SPDIF) ''STEREO'' s5;
          (arc, s7) = au_getOr (mode_key DSA_HDMI_ARC) ''STEREO'' s6;
          (speaker, s8) = au_getOr (mode_key DSA_SPEAKER) ''SURROUND'' s7;
          s9 = s8\<lparr>stereoAuto := (stereoAuto s8)(DSA_HDMI := (hdmiAuto = ''TRUE''), DSA_SPDIF := (spdifAuto = ''TRUE''),
                     DSA_HDMI_ARC := (arcAuto = ''TRUE''), DSA_SPEAKER := (speakerAuto = ''TRUE'')),
                   stereoMode := (stereoMode s8)(DSA_HDMI := hdmiMode, DSA_SPDIF := parse_digital spdif,
                     DSA_HDMI_ARC := parse_digital arc, DSA_SPEAKER := parse_speaker speaker)\<rparr>
      in apply_port e DSA_SPEAKER (apply_port e DSA_HDMI_ARC (apply_port e DSA_SPDIF (apply_port e DSA_HDMI s9))))"

subsection \<open>The modes a restart brings back\<close>

lemma mode_keys [simp]: "mode_key p \<noteq> []" "auto_key p \<noteq> []"
  by (simp_all add: mode_key_def auto_key_def)

lemma au_getOr_eq:
  "k \<noteq> [] \<Longrightarrow> au_getOr k d s = (case hp_get (au_store s) k of Some v \<Rightarrow> v | None \<Rightarrow> d, au_load s)"
  by (simp add: au_getOr_def getProperty_default_def hp_get_def au_load_def Let_def split: option.split)

lemma apply_port_more: "\<exists>cs. apply_port e p s = au_more cs s"
  by (auto simp: apply_port_def with_port_def au_do_def au_log_more Let_def intro: exI [of _ "[]"])

lemma apply_ports_more:
  "\<exists>cs. apply_port e p (apply_port e q (apply_port e r (apply_port e t s))) = au_more cs s"
  by (metis apply_port_more au_more_more)

text \<open>The modes after start-up, from the settings there are.\<close>

lemma initialized_modes:
  "\<exists>cs b. initializeAudioPortSettings e s = au_more cs ((au_load s)\<lparr>stereoAuto := b,
     stereoMode := (stereoMode s)(
       DSA_HDMI := parse_mode (if ae_ignore_edid e then DSM_SURROUND else DSM_STEREO)
         (setting_of (au_store s) (mode_key DSA_HDMI) (if ae_ignore_edid e then ''SURROUND'' else ''STEREO'')),
       DSA_SPDIF := parse_digital (fst (au_getOr (mode_key DSA_SPDIF) ''STEREO'' s)),
       DSA_HDMI_ARC := parse_digital (fst (au_getOr (mode_key DSA_HDMI_ARC) ''STEREO'' s)),
       DSA_SPEAKER := parse_speaker (fst (au_getOr (mode_key DSA_SPEAKER) ''SURROUND'' s)))\<rparr>)"
proof -
  obtain cs where "\<And>s. \<exists>cs. apply_port e DSA_SPEAKER (apply_port e DSA_HDMI_ARC (apply_port e DSA_SPDIF
      (apply_port e DSA_HDMI s))) = au_more cs s"
    using apply_ports_more by blast
  then show ?thesis
    by (simp add: initializeAudioPortSettings_def au_getOr_eq au_setting_eq Let_def) blast
qed

lemma mode_words: "p \<in> set mode_ports \<Longrightarrow> word_ok (mode_key p)" "word_ok (mode_text m)"
  by (auto simp: mode_ports_def mode_key_def word_ok_def isspace_def) (cases m; simp add: isspace_def)+

lemma mode_text_nonempty [simp]: "mode_text m \<noteq> []"
  by (cases m) simp_all

text \<open>A mode that is set to persist is in the store; nothing else is changed there.\<close>

lemma SetStereoMode_stores:
  assumes "au_isInitialized s" and "fst (getAudioPortType e handle s) = p" and "p \<in> set mode_ports"
    and "\<forall>h c. ae_ret e h c = DsERR_NONE"
  shows "fst (SetStereoMode e handle mode True s) = ERROR_NONE"
    and "au_store (snd (snd (SetStereoMode e handle mode True s)))
       = hp_put (ae_io e) (mode_key p) (mode_text mode) (au_store s)"
    and "getConfiguredStereoMode p (snd (snd (SetStereoMode e handle mode True s))) = to_ds_mode mode"
proof -
  obtain cs where g: "getAudioPortType e handle s = (p, au_more cs s)"
    using assms(2) by (metis getAudioPortType_more fst_conv)
  have "au_persist e [(mode_key p, mode_text mode)] t
      = (True, t\<lparr>au_store := hp_put (ae_io e) (mode_key p) (mode_text mode) (au_store t)\<rparr>)" for t
    by (subst au_persist_put) simp_all
  then show "fst (SetStereoMode e handle mode True s) = ERROR_NONE"
    and "au_store (snd (snd (SetStereoMode e handle mode True s)))
       = hp_put (ae_io e) (mode_key p) (mode_text mode) (au_store s)"
    and "getConfiguredStereoMode p (snd (snd (SetStereoMode e handle mode True s))) = to_ds_mode mode"
    using assms(1,3,4)
    by (auto simp: SetStereoMode_def g au_do_def au_log_more persist_mode_def setConfiguredStereoMode_def
        au_done_def au_event_more mode_ports_def getConfiguredStereoMode_def simp del: au_persist.simps)
qed

text \<open>
  A stereo mode set to persist, after a restart of the process: a request for the persisted
  mode reports it exactly for the five modes that have a text, but the start-up code brings it
  back as the mode of the port only for stereo, surround and pass-through, or on HDMI. Dolby
  Digital on SPDIF, ARC or the speaker is lost although the store still has it.
\<close>

theorem stereo_mode_after_restart:
  fixes handle :: int and mode :: AudioStereoMode
  assumes "au_isInitialized s" and "fst (getAudioPortType e handle s) = p" and "p \<in> set mode_ports"
    and "\<forall>h c. ae_ret e h c = DsERR_NONE" and "ae_io e = io_full" and "hp_durable (au_store s)"
    and "au_store t = hp_restart (au_store (snd (snd (SetStereoMode e handle mode True s))))"
  defines "t1 \<equiv> initializeAudioPortSettings e t"
  shows "(getConfiguredStereoMode p t1 = to_ds_mode mode \<longleftrightarrow>
           mode \<in> {AM_STEREO, AM_SURROUND, AM_PASSTHROUGH} \<or> p = DSA_HDMI \<and> mode \<in> {AM_DD, AM_DDPLUS})
       \<and> (fst (getPersistedStereoMode p t) = Some (to_ds_mode mode) \<longleftrightarrow>
           mode \<in> {AM_STEREO, AM_SURROUND, AM_PASSTHROUGH, AM_DD, AM_DDPLUS})"
proof -
  have st: "hp_get (au_store t) (mode_key p) = Some (mode_text mode)"
    using hpd.get_put_reload [OF assms(6) mode_words(1) [OF assms(3)] mode_words(2)]
    by (simp add: assms(5,7) SetStereoMode_stores(2) [OF assms(1,2,3,4)])
  have v: "setting_of (au_store t) (mode_key p) d = mode_text mode" for d using st by simp
  have w: "fst (au_getOr (mode_key p) d t) = mode_text mode" for d
    by (simp add: au_getOr_eq st)
  have "getConfiguredStereoMode p t1 = (case p of
        DSA_HDMI \<Rightarrow> parse_mode (if ae_ignore_edid e then DSM_SURROUND else DSM_STEREO) (mode_text mode)
      | DSA_SPEAKER \<Rightarrow> parse_speaker (mode_text mode) | _ \<Rightarrow> parse_digital (mode_text mode))"
    using assms(3) v w initialized_modes [of e t]
    by (auto simp: mode_ports_def getConfiguredStereoMode_def t1_def)
  then have "getConfiguredStereoMode p t1 = to_ds_mode mode \<longleftrightarrow>
      mode \<in> {AM_STEREO, AM_SURROUND, AM_PASSTHROUGH} \<or> p = DSA_HDMI \<and> mode \<in> {AM_DD, AM_DDPLUS}"
    using assms(3) by (cases mode) (auto simp: mode_ports_def parse_mode_def parse_speaker_def parse_digital_def)
  moreover have "fst (getPersistedStereoMode p t) = Some (parse_mode DSM_STEREO (mode_text mode))"
    using assms(3) st by (simp add: getPersistedStereoMode_def au_lookup_def au_get_eq)
  then have "fst (getPersistedStereoMode p t) = Some (to_ds_mode mode) \<longleftrightarrow>
      mode \<in> {AM_STEREO, AM_SURROUND, AM_PASSTHROUGH, AM_DD, AM_DDPLUS}"
    by (cases mode) (simp_all add: parse_mode_def)
  ultimately show ?thesis by blast
qed

theorem stereo_mode_after_restart_witness:
  defines "e \<equiv> sample_hal True"
  defines "s \<equiv> (au_static e (hp_new ''f'' (\<lambda>_. None)))\<lparr>au_isInitialized := True\<rparr>"
  defines "t \<equiv> au_static e (hp_restart (au_store (snd (snd (SetStereoMode e 2 AM_DD True s)))))"
  shows "getConfiguredStereoMode DSA_SPDIF (initializeAudioPortSettings e t) \<noteq> DSM_DD
       \<and> fst (getPersistedStereoMode DSA_SPDIF t) = Some DSM_DD"
proof -
  have "hp_durable (hp_new ''f'' (\<lambda>_. None))" by (rule hp_durable_new) (simp add: no_nul_file_def)
  then have "hp_durable (au_store s)" by (simp add: s_def au_static_def)
  moreover have "fst (getAudioPortType e 2 s) = DSA_SPDIF" by (simp add: getAudioPortType_def e_def)
  moreover have "au_isInitialized s" by (simp add: s_def)
  moreover have "au_store t = hp_restart (au_store (snd (snd (SetStereoMode e 2 AM_DD True s))))"
    by (simp add: t_def au_static_def)
  ultimately show ?thesis
    using stereo_mode_after_restart [of s e 2 DSA_SPDIF t AM_DD] by (simp add: mode_ports_def e_def)
qed

end
