(* ===== verification/Audio_Settings.thy ===== *)
theory Audio_Settings
  imports Audio_Level Audio_Stereo
begin

unbundle bit_operations_syntax

section \<open>Audio settings and MS12 profiles\<close>

text \<open>
  The remaining requests of \<open>dAudioImpl\<close>: most look up an optional HAL function, call it, and
  persist the new value under a fixed key or under a key of the current MS12 profile; then the
  overrides of an MS12 profile, the four resets, and the loudness equivalence switch.
\<close>

subsection \<open>Keys of a profile\<close>

definition generateProfileProperty :: "string \<Rightarrow> string \<Rightarrow> string" where
  "generateProfileProperty profile property = ''audio.'' @ profile @ ''.'' @ property"

definition getCurrentProfileProperty :: "string \<Rightarrow> au_state \<Rightarrow> string \<times> au_state" where
  "getCurrentProfileProperty property s =
     (let (v, s1) = au_get ''audio.MS12Profile'' s
      in (generateProfileProperty (case v of Some p \<Rightarrow> p | None \<Rightarrow> ''Off'') property, s1))"

fun profile_kvs :: "(string \<times> string) list \<Rightarrow> au_state \<Rightarrow> (string \<times> string) list \<times> au_state" where
  "profile_kvs [] s = ([], s)"
| "profile_kvs ((property, v) # l) s =
     (let (key, s1) = getCurrentProfileProperty property s; (kvs, s2) = profile_kvs l s1
      in ((key, v) # kvs, s2))"

definition byte_pair :: "int \<times> int \<Rightarrow> au_val" where
  "byte_pair p = APair (uint (word_of_int (fst p) :: 8 word)) (uint (word_of_int (snd p) :: 8 word))"

subsection \<open>Capabilities and state of a port\<close>

definition GetAudioCapabilities :: "au_env \<Rightarrow> int \<Rightarrow> au_state \<Rightarrow> au_result" where
  "GetAudioCapabilities e handle s =
     (let c = AuGet ''dsGetAudioCapabilities'' handle
      in au_query e True ''dsGetAudioCapabilities'' c (\<lambda>h. AInt (ae_out e h c)) s)"

definition GetAudioMS12Capabilities :: "au_env \<Rightarrow> int \<Rightarrow> au_state \<Rightarrow> au_result" where
  "GetAudioMS12Capabilities e handle s =
     (let c = AuGet ''dsGetMS12Capabilities'' handle
      in au_query e True [] c (\<lambda>h. AInt (ae_out e h c)) s)"

definition GetAudioFormat :: "au_env \<Rightarrow> int \<Rightarrow> au_state \<Rightarrow> au_result" where
  "GetAudioFormat e handle s =
     (let c = AuGet ''dsGetAudioFormat'' handle
      in au_query e True ''dsGetAudioFormat'' c (\<lambda>h. AInt (ae_out e h c)) s)"

definition IsAudioOutputConnected :: "au_env \<Rightarrow> int \<Rightarrow> au_state \<Rightarrow> au_result" where
  "IsAudioOutputConnected e handle s =
     (let c = AuGet ''dsAudioOutIsConnected'' handle
      in au_query e True ''dsAudioOutIsConnected'' c (\<lambda>h. ABool (ae_out e h c \<noteq> 0)) s)"

definition GetAudioSinkDeviceAtmosCapability :: "au_env \<Rightarrow> int \<Rightarrow> au_state \<Rightarrow> au_result" where
  "GetAudioSinkDeviceAtmosCapability e handle s =
     (let c = AuGet ''dsGetSinkDeviceAtmosCapability'' handle
      in au_query e True ''dsGetSinkDeviceAtmosCapability'' c (\<lambda>h. AInt (ae_out e h c)) s)"

definition GetSupportedARCTypes :: "au_env \<Rightarrow> int \<Rightarrow> au_state \<Rightarrow> au_result" where
  "GetSupportedARCTypes e handle s =
     (let c = AuGet ''dsGetSupportedARCTypes'' handle
      in au_query e False ''dsGetSupportedARCTypes'' c (\<lambda>h. AInt (ae_out e h c)) s)"

definition IsAudioMSDecoded :: "au_env \<Rightarrow> int \<Rightarrow> au_state \<Rightarrow> au_result" where
  "IsAudioMSDecoded e handle s =
     (let c = AuGet ''dsIsAudioMSDecode'' handle
      in au_query e False ''dsIsAudioMSDecode'' c (\<lambda>h. ABool (ae_out e h c \<noteq> 0)) s)"

definition IsAudioMS12Decoded :: "au_env \<Rightarrow> int \<Rightarrow> au_state \<Rightarrow> au_result" where
  "IsAudioMS12Decoded e handle s =
     (let c = AuGet ''dsIsAudioMS12Decode'' handle
      in au_query e False [] c (\<lambda>h. ABool (ae_out e h c \<noteq> 0)) s)"

definition SetAudioAtmosOutputMode :: "au_env \<Rightarrow> int \<Rightarrow> bool \<Rightarrow> au_state \<Rightarrow> au_result" where
  "SetAudioAtmosOutputMode e handle enable s =
     au_set e True ''dsSetAudioAtmosOutputMode'' (AuSetI ''dsSetAudioAtmosOutputMode'' handle (bool_int enable))
       (fixed []) (\<lambda>s. s) s"

definition EnableARC :: "au_env \<Rightarrow> int \<Rightarrow> int \<Rightarrow> bool \<Rightarrow> au_state \<Rightarrow> au_result" where
  "EnableARC e handle arcType status s =
     au_set e True ''dsAudioEnableARC'' (AuSetP ''dsAudioEnableARC'' handle arcType (bool_int status))
       (fixed []) (\<lambda>s. s) s"

definition SetAudioMixerLevels :: "au_env \<Rightarrow> int \<Rightarrow> int \<Rightarrow> int \<Rightarrow> au_state \<Rightarrow> au_result" where
  "SetAudioMixerLevels e handle input volume s =
     au_set e True ''dsSetMixerLevel'' (AuSetP ''dsSetMixerLevel'' handle input volume)
       (fixed []) (\<lambda>s. s) s"

subsection \<open>Settings with one key\<close>

definition SetAudioCompression :: "au_env \<Rightarrow> int \<Rightarrow> int \<Rightarrow> au_state \<Rightarrow> au_result" where
  "SetAudioCompression e handle compression s =
     au_set e True ''dsSetAudioCompression'' (AuSetI ''dsSetAudioCompression'' handle compression)
       (fixed [(''audio.Compression'', to_string compression)]) (\<lambda>s. s) s"

definition GetAudioCompression :: "au_env \<Rightarrow> int \<Rightarrow> au_state \<Rightarrow> au_result" where
  "GetAudioCompression e handle s =
     (let c = AuGet ''dsGetAudioCompression'' handle
      in au_query e True ''dsGetAudioCompression'' c (\<lambda>h. AInt (ae_out e h c)) s)"

definition SetAudioCompression_level :: "au_env \<Rightarrow> int \<Rightarrow> int \<Rightarrow> au_state \<Rightarrow> au_result" where
  "SetAudioCompression_level e handle level s =
     au_set e False ''dsSetAudioCompression'' (AuSetI ''dsSetAudioCompression'' handle level)
       (fixed [(''audio.Compression'', to_string level)]) (\<lambda>s. s) s"

definition GetAudioCompression_level :: "au_env \<Rightarrow> int \<Rightarrow> au_state \<Rightarrow> au_result" where
  "GetAudioCompression_level e handle s =
     (let c = AuGet ''dsGetAudioCompression'' handle
      in au_query e False ''dsGetAudioCompression'' c (\<lambda>h. AInt (ae_out e h c)) s)"

definition SetAssociatedAudioMixing :: "au_env \<Rightarrow> int \<Rightarrow> bool \<Rightarrow> au_state \<Rightarrow> au_result" where
  "SetAssociatedAudioMixing e handle mixing s =
     au_set e True ''dsSetAssociatedAudioMixing'' (AuSetI ''dsSetAssociatedAudioMixing'' handle (bool_int mixing))
       (fixed [(''audio.AssociatedAudioMixing'', Enabled_Disabled mixing)]) (au_event CB_Mixing (EvMixing mixing)) s"

definition GetAssociatedAudioMixing :: "au_env \<Rightarrow> int \<Rightarrow> au_state \<Rightarrow> au_result" where
  "GetAssociatedAudioMixing e handle s =
     (let c = AuGet ''dsGetAssociatedAudioMixing'' handle
      in au_query e True ''dsGetAssociatedAudioMixing'' c (\<lambda>h. ABool (ae_out e h c \<noteq> 0)) s)"

definition SetAudioFaderControl :: "au_env \<Rightarrow> int \<Rightarrow> int \<Rightarrow> au_state \<Rightarrow> au_result" where
  "SetAudioFaderControl e handle balance s =
     au_set e True ''dsSetFaderControl'' (AuSetI ''dsSetFaderControl'' handle balance)
       (fixed [(''audio.FaderControl'', to_string balance)]) (au_event CB_Fader (EvFader balance)) s"

definition GetAudioFaderControl :: "au_env \<Rightarrow> int \<Rightarrow> au_state \<Rightarrow> au_result" where
  "GetAudioFaderControl e handle s =
     (let c = AuGet ''dsGetFaderControl'' handle
      in au_query e True ''dsGetFaderControl'' c (\<lambda>h. AInt (ae_out e h c)) s)"

definition SetAudioPrimaryLanguage :: "au_env \<Rightarrow> int \<Rightarrow> string \<Rightarrow> au_state \<Rightarrow> au_result" where
  "SetAudioPrimaryLanguage e handle lang s =
     au_set e True ''dsSetPrimaryLanguage'' (AuSetS ''dsSetPrimaryLanguage'' handle (c_str lang))
       (fixed [(''audio.PrimaryLanguage'', lang)]) (au_event CB_Primary (EvPrimary lang)) s"

definition GetAudioPrimaryLanguage :: "au_env \<Rightarrow> int \<Rightarrow> au_state \<Rightarrow> au_result" where
  "GetAudioPrimaryLanguage e handle s =
     (let c = AuGet ''dsGetPrimaryLanguage'' handle
      in au_query e True ''dsGetPrimaryLanguage'' c (\<lambda>h. AText (c_str (ae_sout e h c))) s)"

definition SetAudioSecondaryLanguage :: "au_env \<Rightarrow> int \<Rightarrow> string \<Rightarrow> au_state \<Rightarrow> au_result" where
  "SetAudioSecondaryLanguage e handle lang s =
     au_set e True ''dsSetSecondaryLanguage'' (AuSetS ''dsSetSecondaryLanguage'' handle (c_str lang))
       (fixed [(''audio.SecondaryLanguage'', lang)]) (au_event CB_Secondary (EvSecondary lang)) s"

definition GetAudioSecondaryLanguage :: "au_env \<Rightarrow> int \<Rightarrow> au_state \<Rightarrow> au_result" where
  "GetAudioSecondaryLanguage e handle s =
     (let c = AuGet ''dsGetSecondaryLanguage'' handle
      in au_query e True ''dsGetSecondaryLanguage'' c (\<lambda>h. AText (c_str (ae_sout e h c))) s)"

definition SetAudioDolbyVolumeMode :: "au_env \<Rightarrow> int \<Rightarrow> bool \<Rightarrow> au_state \<Rightarrow> au_result" where
  "SetAudioDolbyVolumeMode e handle enable s =
     au_set e False ''dsSetDolbyVolumeMode'' (AuSetI ''dsSetDolbyVolumeMode'' handle (bool_int enable))
       (fixed [(''audio.DolbyVolumeMode'', TRUE_FALSE enable)]) (\<lambda>s. s) s"

definition GetAudioDolbyVolumeMode :: "au_env \<Rightarrow> int \<Rightarrow> au_state \<Rightarrow> au_result" where
  "GetAudioDolbyVolumeMode e handle s =
     (let c = AuGet ''dsGetDolbyVolumeMode'' handle
      in au_query e False ''dsGetDolbyVolumeMode'' c (\<lambda>h. ABool (ae_out e h c \<noteq> 0)) s)"

definition SetAudioIntelligentEqualizerMode :: "au_env \<Rightarrow> int \<Rightarrow> int \<Rightarrow> au_state \<Rightarrow> au_result" where
  "SetAudioIntelligentEqualizerMode e handle mode s =
     au_set e False ''dsSetIntelligentEqualizerMode'' (AuSetI ''dsSetIntelligentEqualizerMode'' handle mode)
       (fixed [(''audio.IntelligentEQ'', to_string mode)]) (\<lambda>s. s) s"

definition GetAudioIntelligentEqualizerMode :: "au_env \<Rightarrow> int \<Rightarrow> au_state \<Rightarrow> au_result" where
  "GetAudioIntelligentEqualizerMode e handle s =
     (let c = AuGet ''dsGetIntelligentEqualizerMode'' handle
      in au_query e False ''dsGetIntelligentEqualizerMode'' c (\<lambda>h. AInt (ae_out e h c)) s)"

definition SetAudioBassEnhancer :: "au_env \<Rightarrow> int \<Rightarrow> int \<Rightarrow> au_state \<Rightarrow> au_result" where
  "SetAudioBassEnhancer e handle boost s =
     au_set e True ''dsSetBassEnhancer'' (AuSetI ''dsSetBassEnhancer'' handle boost)
       (fixed [(''audio.BassBoost'', to_string boost)]) (\<lambda>s. s) s"

definition GetAudioBassEnhancer :: "au_env \<Rightarrow> int \<Rightarrow> au_state \<Rightarrow> au_result" where
  "GetAudioBassEnhancer e handle s =
     (let c = AuGet ''dsGetBassEnhancer'' handle
      in au_query e False ''dsGetBassEnhancer'' c (\<lambda>h. AInt (ae_out e h c)) s)"

definition EnableAudioSurroudDecoder :: "au_env \<Rightarrow> int \<Rightarrow> bool \<Rightarrow> au_state \<Rightarrow> au_result" where
  "EnableAudioSurroudDecoder e handle enable s =
     au_set e True ''dsEnableSurroundDecoder'' (AuSetI ''dsEnableSurroundDecoder'' handle (bool_int enable))
       (fixed [(''audio.SurroundDecoderEnabled'', TRUE_FALSE enable)]) (\<lambda>s. s) s"

definition IsAudioSurroudDecoderEnabled :: "au_env \<Rightarrow> int \<Rightarrow> au_state \<Rightarrow> au_result" where
  "IsAudioSurroudDecoderEnabled e handle s =
     (let c = AuGet ''dsIsSurroundDecoderEnabled'' handle
      in au_query e False ''dsIsSurroundDecoderEnabled'' c (\<lambda>h. ABool (ae_out e h c \<noteq> 0)) s)"

definition SetAudioDRCMode :: "au_env \<Rightarrow> int \<Rightarrow> int \<Rightarrow> au_state \<Rightarrow> au_result" where
  "SetAudioDRCMode e handle mode s =
     au_set e True ''dsSetDRCMode'' (AuSetI ''dsSetDRCMode'' handle mode)
       (fixed [(''audio.DRCMode'', if mode \<noteq> 0 then ''RF'' else ''Line'')]) (\<lambda>s. s) s"

definition GetAudioDRCMode :: "au_env \<Rightarrow> int \<Rightarrow> au_state \<Rightarrow> au_result" where
  "GetAudioDRCMode e handle s =
     (let c = AuGet ''dsGetDRCMode'' handle
      in au_query e False ''dsGetDRCMode'' c (\<lambda>h. AInt (ae_out e h c)) s)"

definition SetAudioMISteering :: "au_env \<Rightarrow> int \<Rightarrow> bool \<Rightarrow> au_state \<Rightarrow> au_result" where
  "SetAudioMISteering e handle enable s =
     au_set e True ''dsSetMISteering'' (AuSetI ''dsSetMISteering'' handle (bool_int enable))
       (fixed [(''audio.MISteering'', Enabled_Disabled enable)]) (\<lambda>s. s) s"

definition GetAudioMISteering :: "au_env \<Rightarrow> int \<Rightarrow> au_state \<Rightarrow> au_result" where
  "GetAudioMISteering e handle s =
     (let c = AuGet ''dsGetMISteering'' handle
      in au_query e False ''dsGetMISteering'' c (\<lambda>h. ABool (ae_out e h c \<noteq> 0)) s)"

definition SetAudioGraphicEqualizerMode :: "au_env \<Rightarrow> int \<Rightarrow> int \<Rightarrow> au_state \<Rightarrow> au_result" where
  "SetAudioGraphicEqualizerMode e handle mode s =
     au_set e False ''dsSetGraphicEqualizerMode'' (AuSetI ''dsSetGraphicEqualizerMode'' handle mode)
       (fixed [(''audio.GraphicEQ'', to_string mode)]) (\<lambda>s. s) s"

definition GetAudioGraphicEqualizerMode :: "au_env \<Rightarrow> int \<Rightarrow> au_state \<Rightarrow> au_result" where
  "GetAudioGraphicEqualizerMode e handle s =
     (let c = AuGet ''dsGetGraphicEqualizerMode'' handle
      in au_query e False ''dsGetGraphicEqualizerMode'' c (\<lambda>h. AInt (ae_out e h c)) s)"

subsection \<open>Settings of the current profile\<close>

definition SetAudioDialogEnhancement :: "au_env \<Rightarrow> int \<Rightarrow> int \<Rightarrow> au_state \<Rightarrow> au_result" where
  "SetAudioDialogEnhancement e handle level s =
     au_set e True ''dsSetDialogEnhancement'' (AuSetI ''dsSetDialogEnhancement'' handle level)
       (profile_kvs [(''EnhancerLevel'', to_string level)]) (\<lambda>s. s) s"

definition GetAudioDialogEnhancement :: "au_env \<Rightarrow> int \<Rightarrow> au_state \<Rightarrow> au_result" where
  "GetAudioDialogEnhancement e handle s =
     (let c = AuGet ''dsGetDialogEnhancement'' handle
      in au_query e False ''dsGetDialogEnhancement'' c (\<lambda>h. AInt (ae_out e h c)) s)"

definition SetAudioVolumeLeveller :: "au_env \<Rightarrow> int \<Rightarrow> 8 word \<Rightarrow> 8 word \<Rightarrow> au_state \<Rightarrow> au_result" where
  "SetAudioVolumeLeveller e handle mode level s =
     au_set e True ''dsSetVolumeLeveller'' (AuSetP ''dsSetVolumeLeveller'' handle (uint mode) (uint level))
       (profile_kvs ((''VolumeLeveller.mode'', to_string (uint mode))
          # (if mode \<le> 1 then [(''VolumeLeveller.level'', to_string (uint level))] else []))) (\<lambda>s. s) s"

definition GetAudioVolumeLeveller :: "au_env \<Rightarrow> int \<Rightarrow> au_state \<Rightarrow> au_result" where
  "GetAudioVolumeLeveller e handle s =
     (let c = AuGet ''dsGetVolumeLeveller'' handle
      in au_query e False ''dsGetVolumeLeveller'' c (\<lambda>h. byte_pair (ae_pout e h c)) s)"

definition SetAudioSurroudVirtualizer :: "au_env \<Rightarrow> int \<Rightarrow> 8 word \<Rightarrow> 8 word \<Rightarrow> au_state \<Rightarrow> au_result" where
  "SetAudioSurroudVirtualizer e handle mode boost s =
     au_set e True ''dsSetSurroundVirtualizer'' (AuSetP ''dsSetSurroundVirtualizer'' handle (uint mode) (uint boost))
       (profile_kvs ((''SurroundVirtualizer.mode'', to_string (uint mode))
          # (if mode \<le> 2 then [(''SurroundVirtualizer.boost'', to_string (uint boost))] else []))) (\<lambda>s. s) s"

definition GetAudioSurroudVirtualizer :: "au_env \<Rightarrow> int \<Rightarrow> au_state \<Rightarrow> au_result" where
  "GetAudioSurroudVirtualizer e handle s =
     (let c = AuGet ''dsGetSurroundVirtualizer'' handle
      in au_query e False ''dsGetSurroundVirtualizer'' c (\<lambda>h. byte_pair (ae_pout e h c)) s)"

definition GetAudioPort :: "au_env \<Rightarrow> AudioPortType \<Rightarrow> int \<Rightarrow> au_state \<Rightarrow> au_result" where
  "GetAudioPort e type index s =
     (let c = AuPort (au_port_to_ds type) index
      in au_query e True [] c (\<lambda>h. AInt (sint (word_of_int (ae_out e h c) :: 32 word))) s)"

definition GetSupportedCompressions :: "au_env \<Rightarrow> int \<Rightarrow> au_state \<Rightarrow> au_result" where
  "GetSupportedCompressions e handle s =
     (if \<not> au_isInitialized s then au_fail s
      else let c = AuGet ''dsGetAudioCapabilities'' handle;
               (caps, s1) = (if \<not> ae_symbol e ''dsGetAudioCapabilities'' then (0, s)
                             else (if au_ok e c s then word_of_int (au_out e c s) else 0, au_log c s))
           in (ERROR_NONE, Some (ACompressions ([CMP_NONE, CMP_LIGHT]
                 @ (if caps AND ae_support_DD e \<noteq> 0 then [CMP_MEDIUM] else [])
                 @ (if caps AND ae_support_DDPLUS e \<noteq> 0 then [CMP_HEAVY] else []))), s1))"

text \<open>At most 15 descriptors are copied, but the count is passed on as it is.\<close>

definition SetSAD :: "au_env \<Rightarrow> int \<Rightarrow> int list \<Rightarrow> 8 word \<Rightarrow> au_state \<Rightarrow> au_result" where
  "SetSAD e handle sadList count s =
     au_set e True ''dsAudioSetSAD''
       (AuSetSAD handle (take (if count < 15 then unat count else 15) sadList) (unat count)) (fixed []) (\<lambda>s. s) s"

definition enable_key :: "string \<Rightarrow> string" where
  "enable_key portName = ''audio.'' @ portName @ ''.isEnabled''"

definition GetAudioEnablePersist :: "string \<Rightarrow> au_state \<Rightarrow> au_result" where
  "GetAudioEnablePersist portName s =
     (if \<not> au_isInitialized s then au_fail s
      else let (v, s1) = au_setting (enable_key portName) ''TRUE'' s
           in (ERROR_NONE, Some (ABool (v \<noteq> ''FALSE'')), s1))"

definition SetAudioEnablePersist :: "au_env \<Rightarrow> bool \<Rightarrow> string \<Rightarrow> au_state \<Rightarrow> au_result" where
  "SetAudioEnablePersist e enable portName s =
     (if \<not> au_isInitialized s then au_fail s
      else let (ok, s1) = au_persist e [(c_str (enable_key portName), TRUE_FALSE enable)] s
           in if ok then au_done s1 else au_fail s1)"

definition GetAudioHDMIARCPortId :: "au_state \<Rightarrow> au_result" where
  "GetAudioHDMIARCPortId s =
     (if \<not> au_isInitialized s then au_fail s
      else let (v, s1) = au_default ''HDMIARC.port.Id'' ''-1'' s in (ERROR_NONE, Some (AInt (atoi v)), s1))"

subsection \<open>Loudness equivalence\<close>

definition GetAudioLEConfig :: "au_env \<Rightarrow> int \<Rightarrow> au_state \<Rightarrow> au_result" where
  "GetAudioLEConfig e handle s =
     (let c = AuGet ''dsGetLEConfig'' handle
      in au_query e True ''dsGetLEConfig'' c (\<lambda>h. ABool (ae_out e h c \<noteq> 0)) s)"

definition EnableAudioLEConfig :: "au_env \<Rightarrow> int \<Rightarrow> bool \<Rightarrow> au_state \<Rightarrow> au_result" where
  "EnableAudioLEConfig e handle enable s =
     (if \<not> ae_symbol e ''dsEnableLEConfig'' then au_fail s
      else if enable = m_LEEnabled s then au_done s
      else let s1 = s\<lparr>m_LEEnabled := enable\<rparr>;
               (ok, s2) = (if ae_persist e then au_persist e [(''audio.LEEnable'', TRUE_FALSE enable)] s1 else (True, s1))
      in if \<not> ok then au_fail s2
         else let (ret, s3) = au_do e (AuSetI ''dsEnableLEConfig'' handle (bool_int enable)) s2
         in if ret = DsERR_NONE then au_done s3 else au_fail s3)"

subsection \<open>MS12 profiles\<close>

text \<open>\<open>strtok (buffer, ",")\<close> until it returns null; leading spaces of a token are skipped.\<close>

function tokens :: "string \<Rightarrow> string list" where
  "tokens s = (let t = dropWhile (\<lambda>c. c = CHR '','') s
     in if t = [] then []
        else takeWhile (\<lambda>c. c \<noteq> CHR '','') t # tokens (dropWhile (\<lambda>c. c \<noteq> CHR '','') t))"
  by pat_completeness auto
termination
proof (relation "measure length")
  fix s t :: string
  assume t: "t = dropWhile (\<lambda>c. c = CHR '','') s" and "t \<noteq> []"
  then have "hd t \<noteq> CHR '',''" using hd_dropWhile [of "\<lambda>c. c = CHR '',''" s] by simp
  then have "length (dropWhile (\<lambda>c. c \<noteq> CHR '','') t) < length t"
    using \<open>t \<noteq> []\<close> length_dropWhile_le [of "\<lambda>c. c \<noteq> CHR '',''" "tl t"] by (cases t) auto
  also have "\<dots> \<le> length s" by (simp add: t length_dropWhile_le)
  finally show "(dropWhile (\<lambda>c. c \<noteq> CHR '','') t, s) \<in> measure length" by simp
qed simp

declare tokens.simps [simp del]

definition GetAudioMS12ProfileList :: "au_env \<Rightarrow> int \<Rightarrow> au_state \<Rightarrow> au_result" where
  "GetAudioMS12ProfileList e handle s =
     (let c = AuGet ''dsGetMS12AudioProfileList'' handle;
          profiles = (\<lambda>l. filter (\<lambda>t. t \<noteq> []) (map (dropWhile (\<lambda>c. c = CHR '' '')) (tokens l)))
      in au_query e False ''dsGetMS12AudioProfileList'' c
           (\<lambda>h. ATexts (profiles (take (ae_profile_len e - 1) (c_str (ae_sout e h c))))) s)"

definition GetAudioMS12Profile :: "au_env \<Rightarrow> int \<Rightarrow> au_state \<Rightarrow> au_result" where
  "GetAudioMS12Profile e handle s =
     (let c = AuGet ''dsGetMS12AudioProfile'' handle
      in au_query e False [] c (\<lambda>h. AText (c_str (ae_sout e h c))) s)"

text \<open>The four \<open>try\<close> blocks: one value, or a pair of values, read from the store and applied.\<close>

definition apply_one :: "au_env \<Rightarrow> int \<Rightarrow> string \<Rightarrow> string \<Rightarrow> au_state \<Rightarrow> au_state" where
  "apply_one e handle symbol key s =
     (if \<not> ae_symbol e symbol then s
      else case au_get key s of
        (None, s1) \<Rightarrow> s1
      | (Some v, s1) \<Rightarrow>
          (let (ret, s2) = au_do e (AuSetI symbol handle (atoi v)) s1
           in if ret = DsERR_NONE then snd (au_persist e [(key, to_string (atoi v))] s2) else s2))"

definition apply_two :: "au_env \<Rightarrow> int \<Rightarrow> string \<Rightarrow> string \<Rightarrow> string \<Rightarrow> au_state \<Rightarrow> au_state" where
  "apply_two e handle symbol key1 key2 s =
     (if \<not> ae_symbol e symbol then s
      else case au_get key1 s of
        (None, s1) \<Rightarrow> s1
      | (Some v, s1) \<Rightarrow>
          (case au_get key2 s1 of
             (None, s2) \<Rightarrow> s2
           | (Some w, s2) \<Rightarrow>
               (let (ret, s3) = au_do e (AuSetP symbol handle (atoi v) (atoi w)) s2
                in if ret = DsERR_NONE
                   then snd (au_persist e [(key1, to_string (atoi v)), (key2, to_string (atoi w))] s3) else s3)))"

definition applyMS12ProfileSettingsOverride :: "au_env \<Rightarrow> int \<Rightarrow> au_state \<Rightarrow> au_state" where
  "applyMS12ProfileSettingsOverride e handle s =
     (if \<not> ae_persist e then s
      else let (enhancer, s1) = getCurrentProfileProperty ''EnhancerLevel'' s;
               (volumeMode, s2) = getCurrentProfileProperty ''VolumeLeveller.mode'' s1;
               (volumeLevel, s3) = getCurrentProfileProperty ''VolumeLeveller.level'' s2;
               (virtualizerMode, s4) = getCurrentProfileProperty ''SurroundVirtualizer.mode'' s3;
               (virtualizerBoost, s5) = getCurrentProfileProperty ''SurroundVirtualizer.boost'' s4;
               s6 = apply_one e handle ''dsSetDialogEnhancement'' enhancer s5;
               s7 = apply_one e handle ''dsSetBassEnhancer'' ''audio.BassBoost'' s6;
               s8 = apply_two e handle ''dsSetVolumeLeveller'' volumeMode volumeLevel s7
           in apply_two e handle ''dsSetSurroundVirtualizer'' virtualizerMode virtualizerBoost s8)"

definition SetAudioMS12Profile :: "au_env \<Rightarrow> int \<Rightarrow> string \<Rightarrow> au_state \<Rightarrow> au_result" where
  "SetAudioMS12Profile e handle profile s =
     au_set e True [] (AuSetS ''dsSetMS12AudioProfile'' handle (c_str profile))
       (fixed [(''audio.MS12Profile'', profile)])
       (\<lambda>s. if profile \<noteq> ''Off'' then applyMS12ProfileSettingsOverride e handle s else s) s"

subsection \<open>Overriding a setting of a profile\<close>

text \<open>Persist, where an exception makes the request fail; and a call that persists if it succeeds.\<close>

definition persist_result :: "au_env \<Rightarrow> (string \<times> string) list \<Rightarrow> au_state \<Rightarrow> au_result" where
  "persist_result e kvs s = (let (ok, s1) = au_persist e kvs s in if ok then au_done s1 else au_fail s1)"

definition call_persist :: "au_env \<Rightarrow> au_call \<Rightarrow> (string \<times> string) list \<Rightarrow> au_state \<Rightarrow> au_result" where
  "call_persist e c kvs s =
     (let (ret, s1) = au_do e c s in if ret = DsERR_NONE then persist_result e kvs s1 else au_done s1)"

datatype profile_state = PS_ADD | PS_REMOVE | PS_other

definition profile_state_of :: "string \<Rightarrow> profile_state" where
  "profile_state_of t = (if t = ''ADD'' then PS_ADD else if t = ''REMOVE'' then PS_REMOVE else PS_other)"

text \<open>
  One integer setting: \<open>key\<close> is where it is persisted, \<open>property\<close> names the default that
  \<open>REMOVE\<close> restores (the two differ for the bass boost).
\<close>

definition override_one ::
  "au_env \<Rightarrow> int \<Rightarrow> string \<Rightarrow> string \<Rightarrow> string option \<Rightarrow> string \<Rightarrow> profile_state \<Rightarrow> au_state \<Rightarrow> au_result" where
  "override_one e handle symbol property key v st s =
     (if \<not> ae_symbol e symbol then au_done s
      else case st of
        PS_ADD \<Rightarrow> (let (p, s1) = getCurrentProfileProperty property s
                 in call_persist e (AuSetI symbol handle (atoi v)) [(case key of Some k \<Rightarrow> k | None \<Rightarrow> p, v)] s1)
      | PS_REMOVE \<Rightarrow> (let (p, s1) = getCurrentProfileProperty property s; (d, s2) = au_default p ''0'' s1
                    in call_persist e (AuSetI symbol handle (atoi d)) [(case key of Some k \<Rightarrow> k | None \<Rightarrow> p, d)] s2)
      | PS_other \<Rightarrow> au_done s)"

text \<open>A pair whose second part is overridden; the first part is read from the store (0 if absent).\<close>

definition override_two ::
  "au_env \<Rightarrow> int \<Rightarrow> string \<Rightarrow> string \<Rightarrow> string \<Rightarrow> string \<Rightarrow> profile_state \<Rightarrow> au_state \<Rightarrow> au_result" where
  "override_two e handle symbol first second v st s =
     (if \<not> ae_symbol e symbol then au_done s
      else let (k1, s1) = getCurrentProfileProperty first s; (k2, s2) = getCurrentProfileProperty second s1
      in case st of
        PS_ADD \<Rightarrow> (let (m, s3) = au_get k1 s2
                 in call_persist e (AuSetP symbol handle (case m of Some t \<Rightarrow> atoi t | None \<Rightarrow> 0) (atoi v)) [(k2, v)] s3)
      | PS_REMOVE \<Rightarrow> (let (d1, s3) = au_default k1 ''0'' s2; (d2, s4) = au_default k2 ''0'' s3
                    in call_persist e (AuSetP symbol handle (atoi d1) (atoi d2)) [(k1, d1), (k2, d2)] s4)
      | PS_other \<Rightarrow> au_done s)"

definition override_mode :: "au_env \<Rightarrow> string \<Rightarrow> int \<Rightarrow> string \<Rightarrow> au_state \<Rightarrow> au_result" where
  "override_mode e property bound v s =
     (if 0 \<le> atoi v \<and> atoi v \<le> bound
      then let (k, s1) = getCurrentProfileProperty property s in persist_result e [(k, v)] s1
      else au_done s)"

definition override_active ::
  "au_env \<Rightarrow> int \<Rightarrow> string \<Rightarrow> string \<Rightarrow> profile_state \<Rightarrow> au_state \<Rightarrow> au_result" where
  "override_active e handle name v st s =
     (if name = ''DialogEnhance'' then override_one e handle ''dsSetDialogEnhancement'' ''EnhancerLevel'' None v st s
      else if name = ''VolumeLevellerMode'' then override_mode e ''VolumeLeveller.mode'' 1 v s
      else if name = ''VolumeLevellerLevel''
      then override_two e handle ''dsSetVolumeLeveller'' ''VolumeLeveller.mode'' ''VolumeLeveller.level'' v st s
      else if name = ''BassEnhancer''
      then override_one e handle ''dsSetBassEnhancer'' ''BassBoost'' (Some ''audio.BassBoost'') v st s
      else if name = ''SurroundVirtualizerMode'' then override_mode e ''SurroundVirtualizer.mode'' 2 v s
      else if name = ''SurroundVirtualizerLevel''
      then override_two e handle ''dsSetSurroundVirtualizer'' ''SurroundVirtualizer.mode'' ''SurroundVirtualizer.boost'' v st s
      else au_fail s)"

definition override_property :: "string \<Rightarrow> string \<Rightarrow> string option" where
  "override_property profile name =
     (if name = ''DialogEnhance'' then Some (generateProfileProperty profile ''EnhancerLevel'')
      else if name = ''VolumeLevellerMode'' then Some (generateProfileProperty profile ''VolumeLeveller.mode'')
      else if name = ''VolumeLevellerLevel'' then Some (generateProfileProperty profile ''VolumeLeveller.level'')
      else if name = ''BassEnhancer'' then Some ''audio.BassBoost''
      else if name = ''SurroundVirtualizerMode'' then Some (generateProfileProperty profile ''SurroundVirtualizer.mode'')
      else if name = ''SurroundVirtualizerLevel'' then Some (generateProfileProperty profile ''SurroundVirtualizer.boost'')
      else None)"

definition SetAudioMS12SettingsOverride ::
  "au_env \<Rightarrow> int \<Rightarrow> string \<Rightarrow> string \<Rightarrow> string \<Rightarrow> string \<Rightarrow> au_state \<Rightarrow> au_result" where
  "SetAudioMS12SettingsOverride e handle profile name v state s =
     (if \<not> au_isInitialized s then au_fail s
      else if \<not> ae_persist e then au_done s
      else let (active, s1) = au_setting ''audio.MS12Profile'' ''Off'' s
      in if profile = active then override_active e handle name v (profile_state_of state) s1
         else case override_property profile name of
             None \<Rightarrow> au_fail s1
           | Some key \<Rightarrow> (case profile_state_of state of
                 PS_ADD \<Rightarrow> persist_result e [(key, v)] s1
               | PS_REMOVE \<Rightarrow> (let (d, s2) = au_default key ''0'' s1 in persist_result e [(key, d)] s2)
               | PS_other \<Rightarrow> au_done s1))"

subsection \<open>Resets\<close>

text \<open>The default value is applied and persisted; without the build option 0 is applied.\<close>

definition reset_call ::
  "au_env \<Rightarrow> au_call \<Rightarrow> (string \<times> string) list \<Rightarrow> au_state \<Rightarrow> au_result" where
  "reset_call e c kvs s =
     (let (ret, s1) = au_do e c s in if ret = DsERR_NONE then persist_result e kvs s1 else au_fail s1)"

definition reset_one :: "au_env \<Rightarrow> int \<Rightarrow> string \<Rightarrow> string \<Rightarrow> string option \<Rightarrow> au_state \<Rightarrow> au_result" where
  "reset_one e handle symbol property key s =
     (if \<not> au_usable e True symbol s then au_fail s
      else if \<not> ae_persist e then reset_call e (AuSetI symbol handle 0) [] s
      else let (p, s1) = getCurrentProfileProperty property s; (d, s2) = au_default p ''0'' s1
           in reset_call e (AuSetI symbol handle (atoi d)) [(case key of Some k \<Rightarrow> k | None \<Rightarrow> p, d)] s2)"

definition reset_two :: "au_env \<Rightarrow> int \<Rightarrow> string \<Rightarrow> string \<Rightarrow> string \<Rightarrow> au_state \<Rightarrow> au_result" where
  "reset_two e handle symbol first second s =
     (if \<not> au_usable e True symbol s then au_fail s
      else if \<not> ae_persist e then reset_call e (AuSetP symbol handle 0 0) [] s
      else let (k1, s1) = getCurrentProfileProperty first s; (k2, s2) = getCurrentProfileProperty second s1;
               (d1, s3) = au_default k1 ''0'' s2; (d2, s4) = au_default k2 ''0'' s3
           in reset_call e (AuSetP symbol handle (atoi d1) (atoi d2)) [(k1, d1), (k2, d2)] s4)"

definition ResetAudioDialogEnhancement :: "au_env \<Rightarrow> int \<Rightarrow> au_state \<Rightarrow> au_result" where
  "ResetAudioDialogEnhancement e handle s = reset_one e handle ''dsSetDialogEnhancement'' ''EnhancerLevel'' None s"

definition ResetAudioBassEnhancer :: "au_env \<Rightarrow> int \<Rightarrow> au_state \<Rightarrow> au_result" where
  "ResetAudioBassEnhancer e handle s =
     reset_one e handle ''dsSetBassEnhancer'' ''BassBoost'' (Some ''audio.BassBoost'') s"

definition ResetAudioSurroundVirtualizer :: "au_env \<Rightarrow> int \<Rightarrow> au_state \<Rightarrow> au_result" where
  "ResetAudioSurroundVirtualizer e handle s =
     reset_two e handle ''dsSetSurroundVirtualizer'' ''SurroundVirtualizer.mode'' ''SurroundVirtualizer.boost'' s"

definition ResetAudioVolumeLeveller :: "au_env \<Rightarrow> int \<Rightarrow> au_state \<Rightarrow> au_result" where
  "ResetAudioVolumeLeveller e handle s =
     reset_two e handle ''dsSetVolumeLeveller'' ''VolumeLeveller.mode'' ''VolumeLeveller.level'' s"

end
