(* ===== verification/Audio_Profile.thy ===== *)
theory Audio_Profile
  imports Audio_Settings
begin

section \<open>Audio profiles: what the requests achieve\<close>

text \<open>
  Properties of the requests of \<open>Audio_Settings\<close>: the loudness equivalence switch, the settings
  kept per MS12 profile, and the list of profile names read from the HAL.
\<close>

subsection \<open>Loudness equivalence\<close>

text \<open>
  The member and the store are updated before the HAL is asked: when the HAL refuses, the
  request fails, but the same request made again succeeds without asking the HAL, and the store
  and the member hold the value that was refused.
\<close>

theorem le_refused_then_reported_set:
  fixes s :: au_state
  assumes "hp_ok (au_store s)" and "ae_persist e" and "ae_symbol e ''dsEnableLEConfig''"
    and "\<forall>h. ae_ret e h (AuSetI ''dsEnableLEConfig'' handle (bool_int enable)) \<noteq> DsERR_NONE"
    and "m_LEEnabled s \<noteq> enable"
  defines "x \<equiv> EnableAudioLEConfig e handle enable s"
  defines "y \<equiv> EnableAudioLEConfig e handle enable (snd (snd x))"
  shows "fst x = ERROR_GENERAL \<and> fst y = ERROR_NONE \<and> snd (snd y) = snd (snd x)
       \<and> m_LEEnabled (snd (snd y)) = enable
       \<and> hp_get (au_store (snd (snd y))) ''audio.LEEnable'' = Some (TRUE_FALSE enable)
       \<and> au_trace (snd (snd y)) = au_trace s @ [AuSetI ''dsEnableLEConfig'' handle (bool_int enable)]"
proof -
  let ?c = "AuSetI ''dsEnableLEConfig'' handle (bool_int enable)"
  have ne: "TRUE_FALSE enable \<noteq> []" by (simp add: TRUE_FALSE_def)
  have x: "x = (ERROR_GENERAL, None, au_more [?c] (s\<lparr>m_LEEnabled := enable,
      au_store := hp_put (ae_io e) ''audio.LEEnable'' (TRUE_FALSE enable) (au_store s)\<rparr>))"
    using assms(2-5) ne unfolding x_def
    by (auto simp: EnableAudioLEConfig_def au_persist_put au_do_def au_fail_def au_log_more simp del: au_persist.simps)
  have "y = (ERROR_NONE, None, snd (snd x))"
    using assms(3) unfolding y_def by (simp add: EnableAudioLEConfig_def x au_done_def)
  then show ?thesis using assms(1) ne by (simp add: x hp_get_put)
qed

theorem le_refused_then_reported_set_witness:
  defines "s \<equiv> au_static (sample_hal True) (hp_new ''f'' (\<lambda>_. None))"
  defines "e \<equiv> (sample_hal True)\<lparr>ae_ret := \<lambda>h c.
      if c = AuSetI ''dsEnableLEConfig'' 3 1 then DsERR_GENERAL else DsERR_NONE\<rparr>"
  shows "fst (EnableAudioLEConfig e 3 True (snd (snd (EnableAudioLEConfig e 3 True s)))) = ERROR_NONE"
  using le_refused_then_reported_set [of s e 3 True]
  by (simp add: s_def e_def au_static_def hp_new_def hp_ok_def bool_int_def sample_hal_def)

subsection \<open>The settings of a profile\<close>

lemma au_load_more: "au_load (au_more cs s) = au_more cs (au_load s)"
  by (simp add: au_load_def au_more_def)

lemma au_more_store: "(au_more cs s)\<lparr>au_store := x\<rparr> = au_more cs (s\<lparr>au_store := x\<rparr>)"
  by (simp add: au_more_def)

lemma profile_key_nonempty [simp]: "generateProfileProperty p q \<noteq> []"
  by (simp add: generateProfileProperty_def)

lemma getCurrentProfileProperty_eq:
  "getCurrentProfileProperty q s = (generateProfileProperty
     (case hp_get (au_store s) ''audio.MS12Profile'' of Some p \<Rightarrow> p | None \<Rightarrow> ''Off'') q, au_load s)"
  by (simp add: getCurrentProfileProperty_def au_get_eq)

text \<open>Keys that end in different characters are different.\<close>

lemma profile_key_last:
  assumes "q \<noteq> []" and "last q \<noteq> last k"
  shows "generateProfileProperty p q \<noteq> k"
  using assms by (auto simp: generateProfileProperty_def)

text \<open>A fixed key is no profile key unless it ends in the name of the property.\<close>

lemma profile_key_fixed: "drop (length k - length q) k \<noteq> q \<Longrightarrow> generateProfileProperty p q \<noteq> k"
proof
  assume "drop (length k - length q) k \<noteq> q" and k: "generateProfileProperty p q = k"
  moreover have "k = (''audio.'' @ p @ ''.'') @ q" using k by (simp add: generateProfileProperty_def)
  ultimately show False by (metis add_diff_cancel_right' append_eq_conv_conj length_append)
qed

lemma profile_key_profile:
  "generateProfileProperty p q = generateProfileProperty p' q \<longleftrightarrow> p = p'"
  by (simp add: generateProfileProperty_def)

lemma keeps_apply_one: "au_keeps P K s t \<Longrightarrow> key \<in> K \<Longrightarrow> (\<And>v. P (AuSetI f h v)) \<Longrightarrow> au_keeps P K s (apply_one e h f key t)"
  by (auto simp: apply_one_def au_get_eq au_do_def split: option.split simp del: au_persist.simps intro!: keeps_persist)

lemma keeps_apply_two:
  "au_keeps P K s t \<Longrightarrow> k1 \<in> K \<Longrightarrow> k2 \<in> K \<Longrightarrow> (\<And>v w. P (AuSetP f h v w))
     \<Longrightarrow> au_keeps P K s (apply_two e h f k1 k2 t)"
  by (auto simp: apply_two_def au_get_eq au_do_def split: option.split simp del: au_persist.simps intro!: keeps_persist)

definition profile_keys :: "string \<Rightarrow> string set" where
  "profile_keys p = insert ''audio.BassBoost'' (generateProfileProperty p ` {''EnhancerLevel'',
     ''VolumeLeveller.mode'', ''VolumeLeveller.level'', ''SurroundVirtualizer.mode'', ''SurroundVirtualizer.boost''})"

definition profile_of :: "au_state \<Rightarrow> string" where
  "profile_of s = (case hp_get (au_store s) ''audio.MS12Profile'' of Some p \<Rightarrow> p | None \<Rightarrow> ''Off'')"

lemma profile_of_load [simp]: "profile_of (au_load s) = profile_of s"
  by (simp add: profile_of_def)

lemma profile_of_more [simp]: "profile_of (au_more cs s) = profile_of s"
  by (simp add: profile_of_def)

lemma getCurrentProfileProperty_of:
  "getCurrentProfileProperty q s = (generateProfileProperty (profile_of s) q, au_load s)"
  by (simp add: getCurrentProfileProperty_eq profile_of_def)

lemma keeps_apply:
  "au_keeps (\<lambda>_. True) (profile_keys (profile_of s)) s (applyMS12ProfileSettingsOverride e h s)"
  by (auto simp: applyMS12ProfileSettingsOverride_def getCurrentProfileProperty_of Let_def profile_keys_def
      intro!: keeps_apply_two keeps_apply_one)

text \<open>The first setting applied: the dialog enhancer level stored for the profile.\<close>

lemma apply_enhancer:
  assumes "ae_persist e" and "ae_symbol e ''dsSetDialogEnhancement''"
    and "hp_get (au_store s) (generateProfileProperty (profile_of s) ''EnhancerLevel'') = Some v"
  shows "\<exists>cs. au_trace (applyMS12ProfileSettingsOverride e h s)
     = au_trace s @ AuSetI ''dsSetDialogEnhancement'' h (atoi v) # cs"
proof -
  let ?key = "generateProfileProperty (profile_of s) ''EnhancerLevel''"
  let ?c = "AuSetI ''dsSetDialogEnhancement'' h (atoi v)"
  let ?s6 = "apply_one e h ''dsSetDialogEnhancement'' ?key (au_load s)"
  have "au_keeps (\<lambda>_. True) {?key} (au_more [?c] (au_load s)) ?s6"
    using assms(2,3)
    by (auto simp: apply_one_def au_get_eq au_do_def au_log_more simp del: au_persist.simps intro!: keeps_persist)
  then have six: "\<exists>cs. au_trace ?s6 = au_trace s @ ?c # cs" by (auto dest: keeps_trace)
  have "au_keeps (\<lambda>_. True) UNIV u (apply_two e h f3 k4 k5 (apply_two e h f2 k2 k3 (apply_one e h f1 k1 u)))"
    for f1 f2 f3 k1 k2 k3 k4 k5 u
    by (intro keeps_apply_two keeps_apply_one) simp_all
  then have "au_keeps (\<lambda>_. True) UNIV ?s6 (applyMS12ProfileSettingsOverride e h s)"
    using assms(1) by (simp add: applyMS12ProfileSettingsOverride_def getCurrentProfileProperty_of Let_def)
  with six show ?thesis by (auto dest!: keeps_trace)
qed

definition accepts :: "au_env \<Rightarrow> au_call \<Rightarrow> bool" where
  "accepts e c \<longleftrightarrow> (\<forall>h. ae_ret e h c = DsERR_NONE)"

text \<open>Choosing a profile stores its name, keeps the other profiles, and applies its settings.\<close>

lemma choose_profile:
  assumes "hp_ok (au_store s)" and "au_isInitialized s" and "ae_persist e" and "P \<noteq> []"
    and "accepts e (AuSetS ''dsSetMS12AudioProfile'' h (c_str P))"
  defines "t \<equiv> snd (snd (SetAudioMS12Profile e h P s))"
  shows "fst (SetAudioMS12Profile e h P s) = ERROR_NONE" "hp_ok (au_store t)" "profile_of t = P"
    "au_isInitialized t"
    "k \<notin> profile_keys P \<Longrightarrow> k \<noteq> ''audio.MS12Profile'' \<Longrightarrow> hp_get (au_store t) k = hp_get (au_store s) k"
    "\<lbrakk>P \<noteq> ''Off''; ae_symbol e ''dsSetDialogEnhancement'';
      hp_get (au_store s) (generateProfileProperty P ''EnhancerLevel'') = Some v\<rbrakk>
      \<Longrightarrow> \<exists>cs. au_trace t = au_trace s @ AuSetS ''dsSetMS12AudioProfile'' h (c_str P)
            # AuSetI ''dsSetDialogEnhancement'' h (atoi v) # cs"
proof -
  let ?u = "au_more [AuSetS ''dsSetMS12AudioProfile'' h (c_str P)]
      (s\<lparr>au_store := hp_put (ae_io e) ''audio.MS12Profile'' P (au_store s)\<rparr>)"
  have eq: "SetAudioMS12Profile e h P s
      = (ERROR_NONE, None, if P \<noteq> ''Off'' then applyMS12ProfileSettingsOverride e h ?u else ?u)"
    using assms(2-5)
    by (simp add: SetAudioMS12Profile_def au_set_def au_usable_def au_ok_def accepts_def au_finish_def fixed_def
        au_persist_put au_done_def au_log_more au_more_store del: au_persist.simps)
  then show "fst (SetAudioMS12Profile e h P s) = ERROR_NONE" by simp
  have get: "hp_get (au_store ?u) k = (if k = ''audio.MS12Profile'' then Some P else hp_get (au_store s) k)" for k
    using assms(1,4) by (simp add: hp_get_put)
  then have P: "profile_of ?u = P" by (simp add: profile_of_def)
  have ok: "hp_ok (au_store ?u)" using assms(1,4) by (simp add: hp_ok_put)
  have t: "au_keeps (\<lambda>_. True) (profile_keys P) ?u t" using keeps_apply [of ?u e h] P by (simp add: t_def eq)
  then show "hp_ok (au_store t)" using ok by (rule keeps_ok)
  have "''audio.MS12Profile'' \<notin> profile_keys P"
    by (simp add: profile_keys_def profile_key_fixed [symmetric])
  then show "profile_of t = P" using keeps_get [OF t ok] get by (simp add: profile_of_def)
  show "au_isInitialized t" using t assms(2) by (simp add: au_keeps_def)
  show "hp_get (au_store t) k = hp_get (au_store s) k" if "k \<notin> profile_keys P" "k \<noteq> ''audio.MS12Profile''"
    using keeps_get [OF t ok that(1)] that(2) get by simp
  show "\<exists>cs. au_trace t = au_trace s @ AuSetS ''dsSetMS12AudioProfile'' h (c_str P)
            # AuSetI ''dsSetDialogEnhancement'' h (atoi v) # cs"
    if "P \<noteq> ''Off''" "ae_symbol e ''dsSetDialogEnhancement''"
      "hp_get (au_store s) (generateProfileProperty P ''EnhancerLevel'') = Some v"
    using apply_enhancer [OF assms(3) that(2), of ?u v h] that P get
    by (simp add: t_def eq profile_key_fixed)
qed

text \<open>The level a client sets for the dialog enhancer is kept for the current profile.\<close>

lemma SetAudioDialogEnhancement_stores:
  assumes "hp_ok (au_store s)" and "au_isInitialized s" and "ae_persist e"
    and "ae_symbol e ''dsSetDialogEnhancement''" and "accepts e (AuSetI ''dsSetDialogEnhancement'' h level)"
  defines "t \<equiv> snd (snd (SetAudioDialogEnhancement e h level s))"
  shows "hp_ok (au_store t)" "au_isInitialized t" "profile_of t = profile_of s"
    "hp_get (au_store t) k = (if k = generateProfileProperty (profile_of s) ''EnhancerLevel'' then Some (to_string level)
       else hp_get (au_store s) k)"
    "hp_dflt (au_store t) = hp_dflt (au_store s)"
proof -
  let ?key = "generateProfileProperty (profile_of s) ''EnhancerLevel''"
  have t: "t = au_more [AuSetI ''dsSetDialogEnhancement'' h level]
      ((au_load s)\<lparr>au_store := hp_put (ae_io e) ?key (to_string level) (au_store (au_load s))\<rparr>)"
    using assms(2-5)
    by (simp add: t_def SetAudioDialogEnhancement_def au_set_def au_usable_def au_ok_def accepts_def au_finish_def
        getCurrentProfileProperty_of au_persist_put au_done_def au_log_more au_more_store au_load_more profile_of_more
        del: au_persist.simps)
  have ok: "hp_ok (au_store (au_load s))" using assms(1) by (rule au_load_ok)
  then show "hp_ok (au_store t)" "au_isInitialized t" using assms(2) by (simp_all add: t hp_ok_put)
  show get: "hp_get (au_store t) k = (if k = ?key then Some (to_string level) else hp_get (au_store s) k)" for k
    using ok by (simp add: t hp_get_put)
  have "?key \<noteq> ''audio.MS12Profile''" by (simp add: profile_key_fixed)
  then show "profile_of t = profile_of s" using get by (simp add: profile_of_def)
  show "hp_dflt (au_store t) = hp_dflt (au_store s)" by (simp add: t dflt_put au_load_dflt_fun)
qed

text \<open>
  C31. A dialog enhancer level set while profile \<open>P\<close> is current comes back with the profile: after
  the client chooses another profile \<open>Q\<close> and then \<open>P\<close> again, the HAL is given the level of \<open>P\<close>
  right after the profile itself.
\<close>

theorem enhancer_level_follows_profile:
  fixes s :: au_state
  assumes "hp_ok (au_store s)" and "au_isInitialized s" and "ae_persist e"
    and "ae_symbol e ''dsSetDialogEnhancement''" and "accepts e (AuSetI ''dsSetDialogEnhancement'' h level)"
    and "hp_get (au_store s) ''audio.MS12Profile'' = Some P" and "P \<noteq> []" and "P \<noteq> ''Off''"
    and "Q \<noteq> []" and "Q \<noteq> P"
    and "accepts e (AuSetS ''dsSetMS12AudioProfile'' h (c_str P))"
    and "accepts e (AuSetS ''dsSetMS12AudioProfile'' h (c_str Q))"
  defines "s1 \<equiv> snd (snd (SetAudioDialogEnhancement e h level s))"
  defines "s2 \<equiv> snd (snd (SetAudioMS12Profile e h Q s1))"
  defines "s3 \<equiv> snd (snd (SetAudioMS12Profile e h P s2))"
  shows "\<exists>cs. au_trace s3 = au_trace s2 @ AuSetS ''dsSetMS12AudioProfile'' h (c_str P)
            # AuSetI ''dsSetDialogEnhancement'' h level # cs"
proof -
  let ?key = "generateProfileProperty P ''EnhancerLevel''"
  note stored = SetAudioDialogEnhancement_stores [OF assms(1-5), folded s1_def]
  have "profile_of s = P" using assms(6) by (simp add: profile_of_def)
  then have "hp_get (au_store s1) ?key = Some (to_string level)" using stored(4) by simp
  moreover have "?key \<notin> profile_keys Q" "?key \<noteq> ''audio.MS12Profile''"
    using assms(10) by (auto simp: profile_keys_def profile_key_fixed profile_key_profile)
      (simp_all add: generateProfileProperty_def)
  moreover note Q = choose_profile [OF stored(1,2) assms(3,9,12), folded s2_def]
  ultimately have "hp_get (au_store s2) ?key = Some (to_string level)" by simp
  from choose_profile(6) [OF Q(2,4) assms(3,7,11,8,4) this] show ?thesis
    by (simp add: s3_def atoi_to_string)
qed

theorem enhancer_level_follows_profile_witness:
  defines "e \<equiv> sample_hal True"
  defines "s \<equiv> (au_static e (hp_put io_full ''audio.MS12Profile'' ''Music'' (hp_new ''f'' (\<lambda>_. None))))
      \<lparr>au_isInitialized := True\<rparr>"
  defines "s2 \<equiv> snd (snd (SetAudioMS12Profile e 3 ''Movie'' (snd (snd (SetAudioDialogEnhancement e 3 12 s)))))"
  shows "\<exists>cs. au_trace (snd (snd (SetAudioMS12Profile e 3 ''Music'' s2)))
     = au_trace s2 @ AuSetS ''dsSetMS12AudioProfile'' 3 ''Music'' # AuSetI ''dsSetDialogEnhancement'' 3 12 # cs"
proof -
  have new: "hp_ok (hp_new ''f'' (\<lambda>_. None))" by (simp add: hp_new_def hp_ok_def)
  then have "hp_ok (au_store s)" "hp_get (au_store s) ''audio.MS12Profile'' = Some ''Music''"
    by (simp_all add: s_def au_static_def hp_ok_put hp_get_put)
  then show ?thesis
    using enhancer_level_follows_profile [of s e 3 12 "''Music''" "''Movie''"]
    by (simp add: s_def e_def s2_def accepts_def au_static_def c_str_def)
qed

text \<open>
  A setting overridden for a profile that is not the current one is kept and not given to the
  HAL; it is applied when the profile is chosen.
\<close>

theorem override_waits_for_profile:
  fixes s :: au_state
  assumes "hp_ok (au_store s)" and "au_isInitialized s" and "ae_persist e"
    and "P \<noteq> setting_of (au_store s) ''audio.MS12Profile'' ''Off''" and "P \<noteq> []" and "P \<noteq> ''Off''" and "v \<noteq> []"
    and "ae_symbol e ''dsSetDialogEnhancement''" and "accepts e (AuSetS ''dsSetMS12AudioProfile'' h (c_str P))"
  defines "x \<equiv> SetAudioMS12SettingsOverride e h P ''DialogEnhance'' v ''ADD'' s"
  defines "s2 \<equiv> snd (snd (SetAudioMS12Profile e h P (snd (snd x))))"
  shows "fst x = ERROR_NONE \<and> au_trace (snd (snd x)) = au_trace s
       \<and> (\<exists>cs. au_trace s2 = au_trace s @ AuSetS ''dsSetMS12AudioProfile'' h (c_str P)
            # AuSetI ''dsSetDialogEnhancement'' h (atoi v) # cs)"
proof -
  let ?key = "generateProfileProperty P ''EnhancerLevel''"
  let ?t = "(au_load s)\<lparr>au_store := hp_put (ae_io e) ?key v (au_store (au_load s))\<rparr>"
  have x: "x = (ERROR_NONE, None, ?t)"
    using assms(2-5,7) unfolding x_def
    by (simp add: SetAudioMS12SettingsOverride_def au_setting_eq override_property_def profile_state_of_def
        persist_result_def au_persist_put au_done_def del: au_persist.simps)
  have ok: "hp_ok (au_store (au_load s))" using assms(1) by (rule au_load_ok)
  then have t: "hp_ok (au_store ?t)" "au_isInitialized ?t" "hp_get (au_store ?t) ?key = Some v"
    using assms(2,7) by (simp_all add: hp_ok_put hp_get_put)
  from choose_profile(6) [OF t(1,2) assms(3,5,9,6,8) t(3)] show ?thesis
    by (simp add: s2_def x)
qed

theorem override_waits_for_profile_witness:
  defines "e \<equiv> sample_hal True"
  defines "s \<equiv> (au_static e (hp_put io_full ''audio.MS12Profile'' ''Music'' (hp_new ''f'' (\<lambda>_. None))))
      \<lparr>au_isInitialized := True\<rparr>"
  shows "au_trace (snd (snd (SetAudioMS12SettingsOverride e 3 ''Movie'' ''DialogEnhance'' ''7'' ''ADD'' s))) = au_trace s"
proof -
  have new: "hp_ok (hp_new ''f'' (\<lambda>_. None))" by (simp add: hp_new_def hp_ok_def)
  then have "hp_ok (au_store s)" "hp_get (au_store s) ''audio.MS12Profile'' = Some ''Music''"
    by (simp_all add: s_def au_static_def hp_ok_put hp_get_put)
  then show ?thesis
    using override_waits_for_profile [of s e "''Movie''" "''7''" 3]
    by (simp add: s_def e_def accepts_def au_static_def)
qed

subsection \<open>The list of profiles\<close>

fun comma_list :: "string list \<Rightarrow> string" where
  "comma_list [] = []"
| "comma_list [w] = w"
| "comma_list (w # ws) = w @ CHR '','' # comma_list ws"

lemma takeWhile_comma: "CHR '','' \<notin> set w \<Longrightarrow> takeWhile (\<lambda>c. c \<noteq> CHR '','') (w @ CHR '','' # r) = w"
  by (induction w) auto

lemma dropWhile_comma: "CHR '','' \<notin> set w \<Longrightarrow> dropWhile (\<lambda>c. c \<noteq> CHR '','') (w @ CHR '','' # r) = CHR '','' # r"
  by (induction w) auto

lemma dropWhile_word: "w \<noteq> [] \<Longrightarrow> CHR '','' \<notin> set w \<Longrightarrow> dropWhile (\<lambda>c. c = CHR '','') (w @ r) = w @ r"
  by (cases w) auto

lemma tokens_Nil [simp]: "tokens [] = []"
  by (simp add: tokens.simps)

lemma tokens_sep: "tokens (CHR '','' # r) = tokens r"
  by (simp add: tokens.simps [of "CHR '','' # r"] tokens.simps [of r])

lemma tokens_comma_list:
  "\<forall>w \<in> set ws. w \<noteq> [] \<and> CHR '','' \<notin> set w \<Longrightarrow> tokens (comma_list ws) = ws"
proof (induction ws rule: comma_list.induct)
  case 1
  show ?case by simp
next
  case (2 w)
  moreover from 2 have "takeWhile (\<lambda>c. c \<noteq> CHR '','') w = w" "dropWhile (\<lambda>c. c \<noteq> CHR '','') w = []"
    by (auto simp: takeWhile_eq_all_conv)
  ultimately show ?case using dropWhile_word [of w "[]"]
    by (simp add: tokens.simps [of w] del: dropWhile_eq_Nil_conv)
next
  case (3 w v ws)
  then show ?case
    by (simp add: tokens.simps [of "w @ _"] dropWhile_word takeWhile_comma dropWhile_comma tokens_sep)
qed

lemma dropWhile_spaces: "name \<noteq> [] \<Longrightarrow> hd name \<noteq> CHR '' '' \<Longrightarrow>
    dropWhile (\<lambda>c. c = CHR '' '') (replicate n CHR '' '' @ name) = name"
  by (induction n) (auto simp: neq_Nil_conv)

text \<open>
  Reading the profile list gives back the names the HAL wrote with commas between them, the
  spaces before a name removed, if the text fits the buffer; spaces after a name stay.
\<close>

theorem profile_list_names:
  fixes names :: "(nat \<times> string) list"
  assumes "ae_symbol e ''dsGetMS12AudioProfileList''"
    and "ae_ret e (au_trace s) (AuGet ''dsGetMS12AudioProfileList'' h) = DsERR_NONE"
    and "ae_sout e (au_trace s) (AuGet ''dsGetMS12AudioProfileList'' h)
       = comma_list (map (\<lambda>(n, p). replicate n CHR '' '' @ p) names)"
    and "\<forall>(n, p) \<in> set names. p \<noteq> [] \<and> hd p \<noteq> CHR '' '' \<and> CHR '','' \<notin> set p \<and> CHR 0x00 \<notin> set p"
    and "length (comma_list (map (\<lambda>(n, p). replicate n CHR '' '' @ p) names)) < ae_profile_len e"
  shows "fst (snd (GetAudioMS12ProfileList e h s)) = Some (ATexts (map snd names))"
proof -
  let ?ws = "map (\<lambda>(n, p). replicate n CHR '' '' @ p) names"
  have "CHR 0x00 \<notin> set (comma_list ws)" if "\<forall>w \<in> set ws. CHR 0x00 \<notin> set w" for ws
    using that by (induction ws rule: comma_list.induct) auto
  from this [of ?ws] have "CHR 0x00 \<notin> set (comma_list ?ws)" using assms(4) by auto
  then have "c_str (comma_list ?ws) = comma_list ?ws"
    by (auto simp: c_str_def takeWhile_eq_all_conv)
  moreover have "tokens (comma_list ?ws) = ?ws" using assms(4) by (intro tokens_comma_list) auto
  moreover have "filter (\<lambda>t. t \<noteq> []) (map (dropWhile (\<lambda>c. c = CHR '' '')) ?ws) = map snd names"
    using assms(4) by (induction names) (auto simp: dropWhile_spaces simp del: dropWhile_eq_Nil_conv)
  ultimately show ?thesis
    using assms(1-3,5)
    by (simp add: GetAudioMS12ProfileList_def au_query_def au_usable_def au_ok_def del: map_map)
qed

theorem profile_list_names_witness:
  defines "e \<equiv> (sample_hal True)\<lparr>ae_sout := \<lambda>h c. ''Movie, Music ''\<rparr>"
  shows "fst (snd (GetAudioMS12ProfileList e 3 (au_static e (hp_new ''f'' (\<lambda>_. None)))))
     = Some (ATexts [''Movie'', ''Music ''])"
  using profile_list_names [of e "au_static e (hp_new ''f'' (\<lambda>_. None))" 3 "[(0, ''Movie''), (1, ''Music '')]"]
  by (simp add: e_def sample_hal_def)

end
