(* ===== verification/Audio_Init.thy ===== *)
theory Audio_Init
  imports Audio_Profile
begin

section \<open>Audio start-up and shutdown\<close>

text \<open>
  What the constructor of \<open>dAudioImpl\<close> does to the HAL: the settings found in the store (or the
  default settings, or fixed values) are applied port by port, then the MS12 settings, along
  one of two paths. Seven of the optional functions are held in function-local \<open>static\<close>
  pointers, and the block that applies the setting is inside the test for the null pointer, so
  \<open>au_resolved\<close> (which outlives the object, as the other file-scope variables do) decides
  whether it runs.
\<close>

subsection \<open>Helpers\<close>

text \<open>The speaker, then HDMI; what the HAL returns is only logged.\<close>

definition on_port :: "au_env \<Rightarrow> (int \<Rightarrow> au_call) \<Rightarrow> dsAudioPortType \<Rightarrow> au_state \<Rightarrow> au_state" where
  "on_port e c p s = with_port e p (\<lambda>h t. snd (au_do e (c h) t)) s"

definition on_ports :: "au_env \<Rightarrow> (int \<Rightarrow> au_call) \<Rightarrow> au_state \<Rightarrow> au_state" where
  "on_ports e c s = on_port e c DSA_HDMI (on_port e c DSA_SPEAKER s)"

definition once :: "au_env \<Rightarrow> string \<Rightarrow> (au_state \<Rightarrow> au_state) \<Rightarrow> au_state \<Rightarrow> au_state" where
  "once e symbol k s =
     (if symbol \<in> set (au_resolved s) \<or> \<not> ae_symbol e symbol then s
      else k (s\<lparr>au_resolved := symbol # au_resolved s\<rparr>))"

subsection \<open>The basic settings\<close>

definition initializeMS12Settings :: "au_env \<Rightarrow> au_state \<Rightarrow> au_state" where
  "initializeMS12Settings e s =
     (if ae_symbol e ''dsSetAudioCompression'' then on_ports e (\<lambda>h. AuSetI ''dsSetAudioCompression'' h 0) s else s)"

definition initializeAudioSettings :: "au_env \<Rightarrow> au_state \<Rightarrow> au_state" where
  "initializeAudioSettings e s = initializeMS12Settings e (initializeAudioPortSettings e s)"

definition init_le :: "au_env \<Rightarrow> au_state \<Rightarrow> au_state" where
  "init_le e s = with_port e DSA_HDMI (\<lambda>h s1.
     if \<not> ae_symbol e ''dsEnableLEConfig'' then s1
     else let (v, s2) = au_get ''audio.LEEnable'' s1;
              dflt = TRUE_FALSE (\<not> ae_le_disabled e);
              (leEnable, s3) = (case v of Some t \<Rightarrow> (t, s2)
                 | None \<Rightarrow> (dflt, snd (au_persist e [(''audio.LEEnable'', dflt)] s2)));
              s4 = snd (au_do e (AuSetI ''dsEnableLEConfig'' h (bool_int (leEnable = ''TRUE''))) s3)
          in s4\<lparr>m_LEEnabled := (leEnable = ''TRUE'')\<rparr>) s"

definition init_gain :: "au_env \<Rightarrow> dsAudioPortType \<Rightarrow> au_state \<Rightarrow> au_state" where
  "init_gain e p s = with_port e p (\<lambda>h s1.
     let (gain, s2) = au_setting (port_name p @ ''.audio.Gain'') ''0'' s1
     in snd (au_do e (AuSetF ''dsSetAudioGain'' h (atof gain)) s2)) s"

definition isAudioOutputConnectedForInitialization :: "au_env \<Rightarrow> int \<Rightarrow> au_state \<Rightarrow> bool \<times> au_state" where
  "isAudioOutputConnectedForInitialization e handle s =
     (let c = AuGet ''dsAudioOutIsConnected'' handle
      in if \<not> ae_symbol e ''dsAudioOutIsConnected'' then (True, s)
         else (\<not> au_ok e c s \<or> au_out e c s \<noteq> 0, au_log c s))"

text \<open>A port's level: \<open>lastAudioLevel\<close> (\<open>None\<close> without \<open>hasLastAudioLevel\<close>) is threaded through.\<close>

definition init_level ::
  "au_env \<Rightarrow> dsAudioPortType \<Rightarrow> cfloat option \<times> au_state \<Rightarrow> cfloat option \<times> au_state" where
  "init_level e p ls =
     (let (lastLevel, s) = ls; c = AuPort p 0; s1 = au_log c s; h = au_out e c s
      in if \<not> au_ok e c s then (lastLevel, s1)
         else let (v, s2) = au_setting (level_key p) ''40'' s1; level = atof v;
                  s3 = s2\<lparr>g_audioLevelCache := (g_audioLevelCache s2)(p := level)\<rparr>;
                  (isConnected, s4) = (if p = DSA_HEADPHONE then isAudioOutputConnectedForInitialization e h s3 else (True, s3))
              in (if isConnected then Some level else lastLevel, snd (set_level e h level s4)))"

definition init_levels :: "au_env \<Rightarrow> au_state \<Rightarrow> au_state" where
  "init_levels e s =
     (case fold (init_level e) [DSA_SPDIF, DSA_SPEAKER, DSA_HEADPHONE, DSA_HDMI] (None, s) of
        (Some level, s1) \<Rightarrow> s1\<lparr>g_LastVolumeLevel := level\<rparr>
      | (None, s1) \<Rightarrow> s1)"

definition init_delay :: "au_env \<Rightarrow> dsAudioPortType \<Rightarrow> au_state \<Rightarrow> au_state" where
  "init_delay e p s = with_port e p (\<lambda>h s1.
     let (v, s2) = au_setting (port_name p @ ''.audio.Delay'') ''0'' s1
     in snd (au_do e (AuSetI ''dsSetAudioDelay'' h (uint (word_of_int (atoi v) :: 32 word))) s2)) s"

text \<open>The settings of the whole device are given to the handle 0.\<close>

definition init_global :: "au_env \<Rightarrow> string \<Rightarrow> string \<Rightarrow> (string \<Rightarrow> au_call) \<Rightarrow> au_state \<Rightarrow> au_state" where
  "init_global e key d c s = (let (v, s1) = au_setting key d s in snd (au_do e (c v) s1))"

definition init_gains :: "au_env \<Rightarrow> au_state \<Rightarrow> au_state" where
  "init_gains e s =
     (if ae_symbol e ''dsSetAudioGain''
      then init_gain e DSA_SPDIF (init_gain e DSA_HDMI (init_gain e DSA_SPEAKER s)) else s)"

text \<open>The blocks numbered 4 to 8 in the code.\<close>

definition init_rest :: "au_env \<Rightarrow> au_state \<Rightarrow> au_state" where
  "init_rest e s =
     (let s3 = once e ''dsSetAudioDelay''
                 (\<lambda>s. init_delay e DSA_HDMI_ARC (init_delay e DSA_HDMI (init_delay e DSA_SPEAKER s))) s;
          s4 = once e ''dsSetPrimaryLanguage''
                 (init_global e ''audio.PrimaryLanguage'' ''eng'' (\<lambda>v. AuSetS ''dsSetPrimaryLanguage'' 0 (c_str v))) s3;
          s5 = once e ''dsSetSecondaryLanguage''
                 (init_global e ''audio.SecondaryLanguage'' ''eng'' (\<lambda>v. AuSetS ''dsSetSecondaryLanguage'' 0 (c_str v))) s4;
          s6 = once e ''dsSetFaderControl''
                 (init_global e ''audio.FaderControl'' ''0'' (\<lambda>v. AuSetI ''dsSetFaderControl'' 0 (atoi v))) s5
      in once e ''dsSetAssociatedAudioMixing''
           (init_global e ''audio.AssociatedAudioMixing'' ''Disabled''
              (\<lambda>v. AuSetI ''dsSetAssociatedAudioMixing'' 0 (bool_int (v = ''Enabled'')))) s6)"

definition init_persisted :: "au_env \<Rightarrow> au_state \<Rightarrow> au_state" where
  "init_persisted e s = init_rest e (once e ''dsSetAudioLevel'' (init_levels e) (init_gains e s))"

subsection \<open>MS12 settings of an active profile\<close>

definition overridden :: "au_env \<Rightarrow> string \<Rightarrow> string \<Rightarrow> (au_state \<Rightarrow> au_state) \<Rightarrow> au_state \<Rightarrow> au_state" where
  "overridden e name symbol k s =
     (let (v, s1) = au_default (''audio.'' @ name @ ''.ms12ProfileOverride'') ''FALSE'' s
      in if v = ''TRUE'' \<and> ae_symbol e symbol then k s1 else s1)"

definition restore_int :: "au_env \<Rightarrow> string \<Rightarrow> string \<Rightarrow> (string \<Rightarrow> int) \<Rightarrow> au_state \<Rightarrow> au_state" where
  "restore_int e symbol key conv s =
     (case au_get key s of
        (None, s1) \<Rightarrow> s1
      | (Some v, s1) \<Rightarrow> on_ports e (\<lambda>h. AuSetI symbol h (conv v)) s1)"

definition restore_pair :: "au_env \<Rightarrow> string \<Rightarrow> string \<Rightarrow> string \<Rightarrow> au_state \<Rightarrow> au_state" where
  "restore_pair e symbol first second s =
     (let (k1, s1) = getCurrentProfileProperty first s; (k2, s2) = getCurrentProfileProperty second s1
      in case au_get k1 s2 of
           (None, s3) \<Rightarrow> s3
         | (Some v, s3) \<Rightarrow> (case au_get k2 s3 of
               (None, s4) \<Rightarrow> s4
             | (Some w, s4) \<Rightarrow> on_ports e (\<lambda>h. AuSetP symbol h (atoi v) (atoi w)) s4))"

definition restore_enhancer :: "au_env \<Rightarrow> au_state \<Rightarrow> au_state" where
  "restore_enhancer e s =
     (let (k, s1) = getCurrentProfileProperty ''EnhancerLevel'' s
      in restore_int e ''dsSetDialogEnhancement'' k atoi s1)"

definition is_on :: "string \<Rightarrow> string \<Rightarrow> int" where "is_on on v = bool_int (v = on)"

definition initializeMS12ProfileOverrides :: "au_env \<Rightarrow> au_state \<Rightarrow> au_state" where
  "initializeMS12ProfileOverrides e s =
     (let one = (\<lambda>name symbol key conv. overridden e name symbol (restore_int e symbol key conv));
          two = (\<lambda>name symbol second. overridden e name symbol (restore_pair e symbol (name @ ''.mode'') (name @ second)));
          s1 = one ''Compression'' ''dsSetAudioCompression'' ''audio.Compression'' atoi s;
          s2 = overridden e ''DialogEnhancer'' ''dsSetDialogEnhancement'' (restore_enhancer e) s1;
          s3 = one ''DolbyVolumeMode'' ''dsSetDolbyVolumeMode'' ''audio.DolbyVolumeMode'' (is_on ''TRUE'') s2;
          s4 = one ''IntelligentEQ'' ''dsSetIntelligentEqualizerMode'' ''audio.IntelligentEQ'' atoi s3;
          s5 = two ''VolumeLeveller'' ''dsSetVolumeLeveller'' ''.level'' s4;
          s6 = one ''BassBoost'' ''dsSetBassEnhancer'' ''audio.BassBoost'' atoi s5;
          s7 = one ''SurroundDecoder'' ''dsEnableSurroundDecoder'' ''audio.SurroundDecoderEnabled'' (is_on ''TRUE'') s6;
          s8 = one ''DRCMode'' ''dsSetDRCMode'' ''audio.DRCMode'' (is_on ''RF'') s7;
          s9 = two ''SurroundVirtualizer'' ''dsSetSurroundVirtualizer'' ''.boost'' s8;
          s10 = one ''MISteering'' ''dsSetMISteering'' ''audio.MISteering'' (is_on ''Enabled'') s9
      in one ''GraphicEQ'' ''dsSetGraphicEqualizerMode'' ''audio.GraphicEQ'' atoi s10)"

subsection \<open>MS12 settings without profiles\<close>

definition init_int :: "au_env \<Rightarrow> string \<Rightarrow> string \<Rightarrow> string \<Rightarrow> (string \<Rightarrow> int) \<Rightarrow> au_state \<Rightarrow> au_state" where
  "init_int e symbol key d conv s =
     (if \<not> ae_symbol e symbol then s
      else let (v, s1) = au_setting key d s in on_ports e (\<lambda>h. AuSetI symbol h (conv v)) s1)"

text \<open>Two values read in one \<open>try\<close> block: both, or none.\<close>

definition au_both ::
  "(string \<Rightarrow> au_state \<Rightarrow> string option \<times> au_state) \<Rightarrow> string \<Rightarrow> string \<Rightarrow> au_state
     \<Rightarrow> (string \<times> string) option \<times> au_state" where
  "au_both read k1 k2 s = (case read k1 s of
       (None, s1) \<Rightarrow> (None, s1)
     | (Some v, s1) \<Rightarrow> (case read k2 s1 of (None, s2) \<Rightarrow> (None, s2) | (Some w, s2) \<Rightarrow> (Some (v, w), s2)))"

definition au_pair_setting :: "string \<Rightarrow> string \<Rightarrow> au_state \<Rightarrow> bool \<times> string \<times> string \<times> au_state" where
  "au_pair_setting k1 k2 s = (case au_both au_get k1 k2 s of
       (Some (v, w), s1) \<Rightarrow> (True, v, w, s1)
     | (None, s1) \<Rightarrow> (case au_both au_getDefault k1 k2 s1 of
           (Some (v, w), s2) \<Rightarrow> (False, v, w, s2)
         | (None, s2) \<Rightarrow> (False, ''0'', ''0'', s2)))"

text \<open>\<open>bDolbyVolumeOverrideCheck\<close>: cleared by a volume mode the user set, set by a user's leveller.\<close>

definition init_dolby :: "au_env \<Rightarrow> au_state \<Rightarrow> bool \<times> au_state" where
  "init_dolby e s =
     (if \<not> ae_symbol e ''dsSetDolbyVolumeMode'' then (True, s)
      else let (v, s1) = au_get ''audio.DolbyVolumeMode'' s;
               (mode, s2) = (case v of Some t \<Rightarrow> (t, s1) | None \<Rightarrow> au_default ''audio.DolbyVolumeMode'' ''FALSE'' s1)
           in (v = None, on_ports e (\<lambda>h. AuSetI ''dsSetDolbyVolumeMode'' h (is_on ''TRUE'' mode)) s2))"

definition init_leveller :: "au_env \<Rightarrow> bool \<Rightarrow> au_state \<Rightarrow> au_state" where
  "init_leveller e check s =
     (if \<not> ae_symbol e ''dsSetVolumeLeveller'' then s
      else let (found, mode, level, s1) = au_pair_setting ''audio.VolumeLeveller.mode'' ''audio.VolumeLeveller.level'' s
           in if check \<or> found
              then on_ports e (\<lambda>h. AuSetP ''dsSetVolumeLeveller'' h (atoi mode) (atoi level)) s1 else s1)"

definition init_virtualizer :: "au_env \<Rightarrow> au_state \<Rightarrow> au_state" where
  "init_virtualizer e s =
     (if \<not> ae_symbol e ''dsSetSurroundVirtualizer'' then s
      else let (found, mode, boost, s1) =
             au_pair_setting ''audio.SurroundVirtualizer.mode'' ''audio.SurroundVirtualizer.boost'' s
           in on_ports e (\<lambda>h. AuSetP ''dsSetSurroundVirtualizer'' h (atoi mode) (atoi boost)) s1)"

definition initializeIndividualMS12Settings :: "au_env \<Rightarrow> au_state \<Rightarrow> au_state" where
  "initializeIndividualMS12Settings e s =
     (let s1 = init_int e ''dsSetAudioCompression'' ''audio.Compression'' ''0'' atoi s;
          s2 = init_int e ''dsSetDialogEnhancement'' ''audio.EnhancerLevel'' ''0'' atoi s1;
          (check, s3) = init_dolby e s2;
          s4 = init_int e ''dsSetIntelligentEqualizerMode'' ''audio.IntelligentEQ'' ''0'' atoi s3;
          s5 = init_leveller e check s4;
          s6 = init_int e ''dsSetBassEnhancer'' ''audio.BassBoost'' ''0'' atoi s5;
          s7 = init_int e ''dsEnableSurroundDecoder'' ''audio.SurroundDecoderEnabled'' ''FALSE'' (is_on ''TRUE'') s6;
          s8 = init_int e ''dsSetDRCMode'' ''audio.DRCMode'' ''Line'' (is_on ''RF'') s7;
          s9 = init_virtualizer e s8;
          s10 = init_int e ''dsSetMISteering'' ''audio.MISteering'' ''Disabled'' (is_on ''Enabled'') s9
      in init_int e ''dsSetGraphicEqualizerMode'' ''audio.GraphicEQ'' ''0'' atoi s10)"

subsection \<open>The whole start-up\<close>

text \<open>
  \<open>None\<close>: writing the name of the profile back threw (it is empty), which ends the start-up of
  the settings.
\<close>

definition init_profile :: "au_env \<Rightarrow> au_state \<Rightarrow> string option \<times> au_state" where
  "init_profile e s =
     (if ''dsSetMS12AudioProfile'' \<in> set (au_resolved s) \<or> \<not> ae_symbol e ''dsSetMS12AudioProfile'' then (Some ''Off'', s)
      else let (profile, s1) = au_setting ''audio.MS12Profile'' ''Off''
                 (s\<lparr>au_resolved := ''dsSetMS12AudioProfile'' # au_resolved s\<rparr>);
               c = AuPort DSA_SPEAKER 0; s2 = au_log c s1; h = au_out e c s1
      in if \<not> au_ok e c s1 then (Some profile, s2)
         else let (ret, s3) = au_do e (AuSetS ''dsSetMS12AudioProfile'' h (c_str profile)) s2
         in if ret \<noteq> DsERR_NONE then (Some profile, s3)
            else let (ok, s4) = au_persist e [(''audio.MS12Profile'', c_str profile)] s3
                 in (if ok then Some profile else None, s4))"

definition init_ms12 :: "au_env \<Rightarrow> au_state \<Rightarrow> au_state" where
  "init_ms12 e s =
     (let (supported, s1) = au_default ''audio.MS12Profile.supported'' ''FALSE'' s
      in if supported = ''TRUE''
         then (case init_profile e s1 of
                 (Some profile, s2) \<Rightarrow> if profile \<noteq> ''Off'' then initializeMS12ProfileOverrides e s2 else s2
               | (None, s2) \<Rightarrow> s2)
         else if supported = ''FALSE'' then initializeIndividualMS12Settings e s1 else s1)"

definition audioConfigInit :: "au_env \<Rightarrow> au_state \<Rightarrow> au_state" where
  "audioConfigInit e s =
     (let s1 = init_le e s; s2 = (if ae_persist e then init_persisted e s1 else s1) in init_ms12 e s2)"

definition registerHALCallbacks :: "au_env \<Rightarrow> au_state \<Rightarrow> dsError \<times> au_state" where
  "registerHALCallbacks e s =
     au_do e (AuRegister ''dsAudioAtmosCapsChangeRegisterCB'')
       (snd (au_do e (AuRegister ''dsAudioFormatUpdateRegisterCB'')
          (snd (au_do e (AuRegister ''dsAudioOutRegisterConnectCB'') s))))"

definition InitialiseHAL :: "au_env \<Rightarrow> au_state \<Rightarrow> au_state" where
  "InitialiseHAL e s =
     (if au_isInitialized s then s
      else let (ret, s1) = au_do e AuInit (s\<lparr>au_store := hp_load (au_store s)\<rparr>)
      in if ret \<noteq> DsERR_NONE then s1
         else let s2 = s1\<lparr>au_isInitialized := True\<rparr>;
                  s3 = (if ae_persist e then startAudioLevelPersistThread s2 else s2);
                  s4 = audioConfigInit e (initializeAudioSettings e s3);
                  s5 = snd (registerHALCallbacks e s4)
              in au_event CB_PortState EvPortState s5)"

definition dAudioImpl_create :: "au_env \<Rightarrow> au_state \<Rightarrow> au_state" where
  "dAudioImpl_create e s = InitialiseHAL e (dAudioImpl_new s)"

definition dAudioImpl_destroy :: "au_env \<Rightarrow> au_state \<Rightarrow> au_state" where
  "dAudioImpl_destroy e s =
     (let s1 = (if ae_persist e then stopAudioLevelPersistThread s else s)
      in if au_isInitialized s1 then (snd (au_do e AuTerm s1))\<lparr>au_isInitialized := False\<rparr> else s1)"

subsection \<open>Callbacks\<close>

fun hotplug_port :: "dsAudioPortType \<Rightarrow> AudioPortType" where
  "hotplug_port DSA_LR = AP_LR"
| "hotplug_port DSA_HDMI = AP_HDMI"
| "hotplug_port DSA_SPDIF = AP_SPDIF"
| "hotplug_port DSA_SPEAKER = AP_SPEAKER"
| "hotplug_port DSA_HDMI_ARC = AP_HDMIARC"
| "hotplug_port DSA_HEADPHONE = AP_HEADPHONE"
| "hotplug_port DSA_MAX = AP_SPEAKER"

definition audioOutPortConnectCallback :: "dsAudioPortType \<Rightarrow> 32 word \<Rightarrow> bool \<Rightarrow> au_state \<Rightarrow> au_state" where
  "audioOutPortConnectCallback p n isConnected s =
     au_event CB_HotPlug (EvHotPlug (hotplug_port p) (uint n) isConnected) s"

definition audioFormatUpdateCallback :: "int \<Rightarrow> au_state \<Rightarrow> au_state" where
  "audioFormatUpdateCallback format s = au_event CB_Format (EvFormat format) s"

definition audioAtmosCapsChangeCallback :: "int \<Rightarrow> bool \<Rightarrow> au_state \<Rightarrow> au_state" where
  "audioAtmosCapsChangeCallback caps status s = au_event CB_Atmos (EvAtmos caps status) s"

definition setAllCallbacks :: "au_cb set \<Rightarrow> au_state \<Rightarrow> au_state" where
  "setAllCallbacks bundle s = s\<lparr>au_callback := (\<lambda>cb. cb \<in> bundle \<or> au_callback s cb)\<rparr>"

text \<open>\<open>Audio::Platform_init\<close>, when there is a platform.\<close>

definition Platform_init :: "au_state \<Rightarrow> au_state" where
  "Platform_init s = setAllCallbacks UNIV s"

end
