(* ===== verification/Audio_Start.thy ===== *)
theory Audio_Start
  imports Audio_Init
begin

section \<open>Audio start-up: what is restored\<close>

text \<open>
  Properties of \<open>Audio_Init\<close>: which levels the ports get at start-up, in the first instance of a
  process and in a later one; and what boards without MS12 profiles get.
\<close>

subsection \<open>What start-up leaves alone\<close>

named_theorems keeps "how the pieces of the platform keep the contract of \<open>au_keeps\<close>"

lemma keeps_with_port [keeps]:
  assumes "au_keeps P K s t" and "P (AuPort p 0)" and "\<And>h u. au_keeps P K s u \<Longrightarrow> au_keeps P K s (k h u)"
  shows "au_keeps P K s (with_port e p k t)"
  using assms by (simp add: with_port_def Let_def)

lemma keeps_on_ports [keeps]:
  assumes "au_keeps P K s t" and "P (AuPort DSA_SPEAKER 0)" and "P (AuPort DSA_HDMI 0)" and "\<And>h. P (c h)"
  shows "au_keeps P K s (on_ports e c t)"
  using assms by (auto simp: on_ports_def on_port_def intro!: keeps_with_port)

lemma keeps_apply_port [keeps]:
  assumes "au_keeps P K s t" and "P (AuPort p 0)" and "\<And>h m. P (AuSetM h m)" and "\<And>h v. P (AuSetI ''dsSetStereoAuto'' h v)"
  shows "au_keeps P K s (apply_port e p t)"
  using assms by (auto simp: apply_port_def Let_def intro!: keeps_with_port)

lemma keeps_port_settings [keeps]:
  assumes "au_keeps P K s t" and "\<And>p. P (AuPort p 0)" and "\<And>h m. P (AuSetM h m)"
    and "\<And>h v. P (AuSetI ''dsSetStereoAuto'' h v)"
  shows "au_keeps P K s (initializeAudioPortSettings e t)"
proof -
  have upd: "au_keeps P K s (u\<lparr>stereoAuto := a, stereoMode := m\<rparr>)" if "au_keeps P K s u" for u a m
    using that by (simp add: keeps_same [of "u\<lparr>stereoAuto := a, stereoMode := m\<rparr>" u])
  show ?thesis
    unfolding initializeAudioPortSettings_def Let_def
    by (auto simp: au_setting_eq au_getOr_eq intro!: keeps_apply_port upd assms keeps_load)
qed

lemma keeps_once [keeps]:
  assumes "au_keeps P K s t" and "\<And>u. au_keeps P K s u \<Longrightarrow> au_keeps P K s (k u)"
  shows "au_keeps P K s (once e symbol k t)"
proof -
  have "au_keeps P K s (t\<lparr>au_resolved := r\<rparr>)" for r
    using assms(1) by (simp add: keeps_same [of "t\<lparr>au_resolved := r\<rparr>" t])
  then show ?thesis using assms by (simp add: once_def)
qed

text \<open>Calls that are no level and no event: a start-up without levels makes no others.\<close>

fun au_is_event :: "au_call \<Rightarrow> bool" where
  "au_is_event (EvHotPlug p i b) = True"
| "au_is_event (EvFormat i) = True"
| "au_is_event (EvAtmos i b) = True"
| "au_is_event (EvMixing b) = True"
| "au_is_event (EvFader i) = True"
| "au_is_event (EvPrimary t) = True"
| "au_is_event (EvSecondary t) = True"
| "au_is_event EvPortState = True"
| "au_is_event (EvLevel x) = True"
| "au_is_event (EvMode p m) = True"
| "au_is_event _ = False"

definition calm :: "au_call \<Rightarrow> bool" where "calm c \<longleftrightarrow> level_call c = None \<and> \<not> au_is_event c"

lemma calm_simps [simp]:
  "calm (AuPort p i)" "calm (AuSetI f h v)" "calm (AuSetP f h v w)" "calm (AuSetS f h t)" "calm (AuSetM h m)"
  "calm (AuGet f h)" "calm (AuRegister f)" "calm AuInit"
  "f \<noteq> ''dsSetAudioLevel'' \<Longrightarrow> calm (AuSetF f h l)"
  by (simp_all add: calm_def)

lemma calm_levels: "\<forall>c \<in> set cs. calm c \<Longrightarrow> level_calls cs = []"
  by (induction cs) (auto simp: calm_def)

lemma keeps_calm: "au_keeps calm K s t \<Longrightarrow> level_calls (au_trace t) = level_calls (au_trace s)"
  by (auto simp: au_keeps_def level_calls_append calm_levels)

lemma keeps_settings [keeps]:
  "au_keeps calm K s t \<Longrightarrow> au_keeps calm K s (initializeAudioSettings e t)"
  by (auto simp: initializeAudioSettings_def initializeMS12Settings_def intro!: keeps)

lemma keeps_LEEnabled: "au_keeps P K s (t\<lparr>m_LEEnabled := b\<rparr>) = au_keeps P K s t"
  by (rule keeps_same) simp_all

lemma keeps_init_le [keeps]:
  "au_keeps calm K s t \<Longrightarrow> ''audio.LEEnable'' \<in> K \<Longrightarrow> au_keeps calm K s (init_le e t)"
  unfolding init_le_def
  by (auto simp: au_get_eq Let_def keeps_LEEnabled split: option.split simp del: au_persist.simps
      intro!: keeps_with_port keeps_call keeps_persist)

lemma keeps_init_gain [keeps]: "au_keeps calm K s t \<Longrightarrow> au_keeps calm K s (init_gain e p t)"
  by (auto simp: init_gain_def Let_def case_prod_unfold intro!: keeps_with_port)

lemma keeps_init_delay [keeps]: "au_keeps calm K s t \<Longrightarrow> au_keeps calm K s (init_delay e p t)"
  by (auto simp: init_delay_def Let_def case_prod_unfold intro!: keeps_with_port)

lemma keeps_init_global [keeps]:
  "au_keeps calm K s t \<Longrightarrow> (\<And>v. calm (c v)) \<Longrightarrow> au_keeps calm K s (init_global e key d c t)"
  by (auto simp: init_global_def Let_def case_prod_unfold)

lemma keeps_overridden [keeps]:
  "au_keeps P K s t \<Longrightarrow> (\<And>u. au_keeps P K s u \<Longrightarrow> au_keeps P K s (k u)) \<Longrightarrow> au_keeps P K s (overridden e name f k t)"
  by (auto simp: overridden_def Let_def case_prod_unfold)

lemma keeps_restore [keeps]:
  "au_keeps calm K s t \<Longrightarrow> au_keeps calm K s (restore_int e f key conv t)"
  "au_keeps calm K s t \<Longrightarrow> au_keeps calm K s (restore_pair e f k1 k2 t)"
  "au_keeps calm K s t \<Longrightarrow> au_keeps calm K s (restore_enhancer e t)"
  by (auto simp: restore_int_def restore_pair_def restore_enhancer_def au_get_eq getCurrentProfileProperty_of
      split: option.split intro!: keeps_on_ports)

lemma keeps_overrides [keeps]:
  "au_keeps calm K s t \<Longrightarrow> au_keeps calm K s (initializeMS12ProfileOverrides e t)"
  unfolding initializeMS12ProfileOverrides_def Let_def by (intro keeps)

lemma keeps_init_int [keeps]: "au_keeps calm K s t \<Longrightarrow> au_keeps calm K s (init_int e f key d conv t)"
  by (auto simp: init_int_def Let_def case_prod_unfold intro!: keeps_on_ports)

lemma au_pair_setting_state [simp]:
  "snd (snd (snd (au_pair_setting k1 k2 s))) = au_load s"
  using au_getDefault_load [of k1 "au_load s"] au_getDefault_load [of k2 "au_load s"]
  by (cases "au_getDefault k1 (au_load s)"; cases "au_getDefault k2 (au_load s)")
    (auto simp: au_pair_setting_def au_both_def au_get_eq split: option.split)

lemma keeps_dolby [keeps]: "au_keeps calm K s t \<Longrightarrow> au_keeps calm K s (snd (init_dolby e t))"
  by (auto simp: init_dolby_def Let_def case_prod_unfold au_get_eq split: option.split intro!: keeps_on_ports)

lemma keeps_leveller [keeps]: "au_keeps calm K s t \<Longrightarrow> au_keeps calm K s (init_leveller e check t)"
  by (auto simp: init_leveller_def Let_def case_prod_unfold intro!: keeps_on_ports)

lemma keeps_virtualizer [keeps]: "au_keeps calm K s t \<Longrightarrow> au_keeps calm K s (init_virtualizer e t)"
  by (auto simp: init_virtualizer_def Let_def case_prod_unfold intro!: keeps_on_ports)

lemma keeps_individual [keeps]:
  "au_keeps calm K s t \<Longrightarrow> au_keeps calm K s (initializeIndividualMS12Settings e t)"
  unfolding initializeIndividualMS12Settings_def Let_def case_prod_unfold by (intro keeps)

lemma keeps_init_profile [keeps]:
  assumes "au_keeps calm K s t" and "''audio.MS12Profile'' \<in> K"
  shows "au_keeps calm K s (snd (init_profile e t))"
proof -
  have upd: "au_keeps calm K s (t\<lparr>au_resolved := r\<rparr>)" for r
    using assms(1) by (simp add: keeps_same [of "t\<lparr>au_resolved := r\<rparr>" t])
  then show ?thesis
    using assms
    by (auto simp: init_profile_def au_setting_eq Let_def case_prod_unfold au_do_def simp del: au_persist.simps
        intro!: keeps_persist)
qed

lemma keeps_ms12 [keeps]:
  "au_keeps calm K s t \<Longrightarrow> ''audio.MS12Profile'' \<in> K \<Longrightarrow> au_keeps calm K s (init_ms12 e t)"
  unfolding init_ms12_def Let_def case_prod_unfold
  by (auto split: option.split intro!: keeps keeps_individual dest: arg_cong [where f = snd])

lemma keeps_gains [keeps]: "au_keeps calm K s t \<Longrightarrow> au_keeps calm K s (init_gains e t)"
  by (auto simp: init_gains_def intro!: keeps)

lemma keeps_rest [keeps]: "au_keeps calm K s t \<Longrightarrow> au_keeps calm K s (init_rest e t)"
  unfolding init_rest_def Let_def by (intro keeps) simp_all

lemma keeps_last [keeps]: "au_keeps calm K s t \<Longrightarrow> au_keeps calm K s (snd (registerHALCallbacks e t))"
  by (simp add: registerHALCallbacks_def)

subsection \<open>The table of resolved functions\<close>

lemma resolved_simps [simp]:
  "au_resolved (snd (au_persist e kvs s)) = au_resolved s"
  "au_resolved (snd (au_do e c s)) = au_resolved s"
  "au_resolved (au_log c s) = au_resolved s"
  by (induction e kvs s rule: au_persist.induct) (auto simp: au_do_def au_log_def Let_def split: outcome.split prod.split)

lemma resolved_with_port: "(\<And>h u. au_resolved (k h u) = au_resolved u) \<Longrightarrow> au_resolved (with_port e p k s) = au_resolved s"
  by (simp add: with_port_def Let_def)

lemma resolved_on_port [simp]: "au_resolved (on_port e c p s) = au_resolved s"
  by (simp add: on_port_def resolved_with_port)

lemma resolved_init_gain [simp]: "au_resolved (init_gain e p s) = au_resolved s"
  by (simp add: init_gain_def Let_def case_prod_unfold au_setting_state resolved_with_port)

lemma resolved_init [simp]:
  "au_resolved (init_gains e s) = au_resolved s"
  "au_resolved (on_ports e c s) = au_resolved s"
  "au_resolved (init_le e s) = au_resolved s"
  by (auto simp: on_ports_def init_gains_def init_le_def Let_def case_prod_unfold au_get_eq
      au_setting_state split: option.split simp del: au_persist.simps intro!: resolved_with_port)

lemma resolved_settings [simp]: "au_resolved (initializeAudioSettings e s) = au_resolved s"
  using initialized_modes [of e s] by (auto simp: initializeAudioSettings_def initializeMS12Settings_def)

subsection \<open>The levels\<close>

definition port_at :: "au_env \<Rightarrow> dsAudioPortType \<Rightarrow> int \<Rightarrow> bool" where
  "port_at e p h \<longleftrightarrow> (\<forall>t. ae_ret e t (AuPort p 0) = DsERR_NONE \<and> ae_out e t (AuPort p 0) = h)"

text \<open>The level stored for a port, as start-up reads it.\<close>

definition stored_level :: "host_store \<Rightarrow> dsAudioPortType \<Rightarrow> cfloat" where
  "stored_level st p = atof (setting_of st (level_key p) ''40'')"

lemma init_level_step:
  assumes "port_at e p h" and "init_level e p (l, s) = (l', t)"
  shows "level_calls (au_trace t) = level_calls (au_trace s) @ [(h, stored_level (au_store s) p)]"
    and "stored_level (au_store t) q = stored_level (au_store s) q"
    and "au_resolved t = au_resolved s"
  using assms
  by (auto simp: init_level_def port_at_def au_ok_def au_out_def au_setting_eq level_simps stored_level_def
      isAudioOutputConnectedForInitialization_def Let_def split: if_splits)

lemma init_levels_fold:
  assumes "\<forall>p \<in> set ps. port_at e p (hnd p)"
  shows "level_calls (au_trace (snd (fold (init_level e) ps (l, s))))
       = level_calls (au_trace s) @ map (\<lambda>p. (hnd p, stored_level (au_store s) p)) ps"
  using assms
proof (induction ps arbitrary: l s)
  case Nil
  then show ?case by simp
next
  case (Cons p ps)
  obtain l' t where step: "init_level e p (l, s) = (l', t)" by (cases "init_level e p (l, s)")
  with Cons init_level_step [of e p "hnd p" l s l' t] show ?case by simp
qed

lemma keeps_stored_level:
  assumes "au_keeps P K s t" and "hp_ok (au_store s)" and "level_key p \<notin> K"
  shows "stored_level (au_store t) p = stored_level (au_store s) p"
  using assms by (auto simp: stored_level_def setting_of_def au_keeps_def split: option.split)

lemma init_levels_calls:
  assumes "\<forall>p \<in> set level_ports. port_at e p (hnd p)"
  shows "level_calls (au_trace (init_levels e s)) = level_calls (au_trace s)
     @ map (\<lambda>p. (hnd p, stored_level (au_store s) p)) [DSA_SPDIF, DSA_SPEAKER, DSA_HEADPHONE, DSA_HDMI]"
proof -
  have "level_calls (au_trace (init_levels e s)) = level_calls (au_trace
      (snd (fold (init_level e) [DSA_SPDIF, DSA_SPEAKER, DSA_HEADPHONE, DSA_HDMI] (None, s))))"
    by (simp add: init_levels_def split: option.split prod.split)
  then show ?thesis using assms by (subst (asm) init_levels_fold) (auto simp: level_ports_def)
qed

lemma hp_ok_load: "hp_ok st \<Longrightarrow> hp_ok (hp_load st)"
  by (simp add: hp_ok_def hp_load_def smap_ok_loadFromFile)

text \<open>Start-up of a platform that accepts \<open>dsAudioPortInit\<close>, up to the levels and after them.\<close>

lemma InitialiseHAL_split:
  assumes "\<not> au_isInitialized s" and "\<forall>t. ae_ret e t AuInit = DsERR_NONE" and "ae_persist e" and "hp_ok (au_store s)"
  obtains u where "level_calls (au_trace u) = level_calls (au_trace s)" and "au_resolved u = au_resolved s"
    and "\<And>p. stored_level (au_store u) p = stored_level (hp_load (au_store s)) p"
    and "level_calls (au_trace (InitialiseHAL e s))
       = level_calls (au_trace (once e ''dsSetAudioLevel'' (init_levels e) u))"
proof -
  let ?s1 = "startAudioLevelPersistThread
    ((au_log AuInit (s\<lparr>au_store := hp_load (au_store s)\<rparr>))\<lparr>au_isInitialized := True\<rparr>)"
  let ?u = "init_gains e (init_le e (initializeAudioSettings e ?s1))"
  let ?v = "once e ''dsSetAudioLevel'' (init_levels e) ?u"
  have "au_keeps calm {''audio.LEEnable''} v (init_gains e (init_le e (initializeAudioSettings e v)))" for v
    by (intro keeps_gains keeps_init_le keeps_settings keeps_refl) simp
  then have pre: "au_keeps calm {''audio.LEEnable''} ?s1 ?u" .
  have s1: "au_store ?s1 = hp_load (au_store s)" "au_resolved ?s1 = au_resolved s"
    "level_calls (au_trace ?s1) = level_calls (au_trace s)"
    by (simp_all add: startAudioLevelPersistThread_def au_log_more level_calls_append)
  have "au_keeps calm UNIV v (snd (registerHALCallbacks e (init_ms12 e (init_rest e v))))" for v
    by (intro keeps_last keeps_ms12 keeps_rest keeps_refl) simp_all
  note tail = keeps_calm [OF this]
  have event: "level_calls (au_trace (au_event CB_PortState EvPortState v)) = level_calls (au_trace v)" for v
    by (simp add: au_event_def au_log_more level_calls_append)
  have "level_calls (au_trace (InitialiseHAL e s)) = level_calls (au_trace ?v)"
    using assms(1-3)
    by (simp add: InitialiseHAL_def au_do_def audioConfigInit_def init_persisted_def tail event)
  moreover have "level_key p \<noteq> ''audio.LEEnable''" for p by (cases p) (simp_all add: level_key_def)
  then have "stored_level (au_store ?u) p = stored_level (hp_load (au_store s)) p" for p
    using keeps_stored_level [OF pre, of p] hp_ok_load [OF assms(4)] by (simp add: s1)
  ultimately show thesis using that [of ?u] keeps_calm [OF pre] by (simp add: s1)
qed

lemma start_levels:
  fixes s :: au_state and hnd :: "dsAudioPortType \<Rightarrow> int"
  assumes "\<not> au_isInitialized s" and "\<forall>t. ae_ret e t AuInit = DsERR_NONE" and "ae_persist e"
    and "hp_ok (au_store s)" and "ae_symbol e ''dsSetAudioLevel''"
    and "\<forall>p \<in> set level_ports. port_at e p (hnd p)"
  shows "level_calls (au_trace (InitialiseHAL e s)) = level_calls (au_trace s)
     @ (if ''dsSetAudioLevel'' \<in> set (au_resolved s) then []
        else map (\<lambda>p. (hnd p, stored_level (hp_load (au_store s)) p)) [DSA_SPDIF, DSA_SPEAKER, DSA_HEADPHONE, DSA_HDMI])"
proof -
  obtain u where u: "level_calls (au_trace u) = level_calls (au_trace s)" "au_resolved u = au_resolved s"
    "\<And>p. stored_level (au_store u) p = stored_level (hp_load (au_store s)) p"
    "level_calls (au_trace (InitialiseHAL e s)) = level_calls (au_trace (once e ''dsSetAudioLevel'' (init_levels e) u))"
    using InitialiseHAL_split [OF assms(1-4)] by blast
  then show ?thesis
    using assms(5) init_levels_calls [OF assms(6), of "u\<lparr>au_resolved := ''dsSetAudioLevel'' # au_resolved u\<rparr>"]
    by (simp add: once_def)
qed

text \<open>
  At start-up every port there is gets its stored level, once, in a fixed order (SPDIF,
  speaker, headphone, HDMI): the user setting, else the default setting, else 40; no other call
  sets a level. In a later instance in the same process, whose function-local pointer is
  already set, no level is restored at all.
\<close>

theorem levels_at_start:
  fixes s :: au_state and hnd :: "dsAudioPortType \<Rightarrow> int"
  assumes "\<not> au_isInitialized s" and "\<forall>t. ae_ret e t AuInit = DsERR_NONE" and "ae_persist e"
    and "hp_ok (au_store s)" and "ae_symbol e ''dsSetAudioLevel''"
    and "\<forall>p \<in> set level_ports. port_at e p (hnd p)"
  shows "level_calls (au_trace (InitialiseHAL e s)) = level_calls (au_trace s)
     @ (if ''dsSetAudioLevel'' \<in> set (au_resolved s) then []
        else map (\<lambda>p. (hnd p, stored_level (hp_load (au_store s)) p)) [DSA_SPDIF, DSA_SPEAKER, DSA_HEADPHONE, DSA_HDMI])"
  by (rule start_levels [OF assms])

lemma sample_port_at: "p \<in> set level_ports \<Longrightarrow> port_at (sample_hal b) p (sample_out (AuPort p 0))"
  by (simp add: port_at_def)

theorem levels_at_start_witness:
  defines "s \<equiv> au_static (sample_hal True) (hp_new ''f'' (\<lambda>_. None))"
  shows "level_calls (au_trace (InitialiseHAL (sample_hal True) s))
     = [(2, atof ''40''), (3, atof ''40''), (5, atof ''40''), (1, atof ''40'')]"
  using levels_at_start [of s "sample_hal True" "\<lambda>p. sample_out (AuPort p 0)"]
  by (simp add: s_def sample_port_at au_static_def hp_new_def hp_ok_def hp_load_def loadFromFile_def stored_level_def
      setting_of_def hp_get_def hp_dflt_def ensureInitialized_def)

text \<open>Loading twice is loading once: the first binding of a name stays.\<close>

lemma fold_insert_idem:
  assumes "smap_ok m"
  shows "map_of (fold (\<lambda>(k, v). smap_insert k v) ps m) x
     = (case map_of m x of Some v \<Rightarrow> Some v | None \<Rightarrow> map_of ps x)"
  using assms
proof (induction ps arbitrary: m)
  case Nil
  then show ?case by (simp split: option.split)
next
  case (Cons p ps)
  obtain k v where p: "p = (k, v)" by (cases p)
  from Cons.prems have "smap_ok (smap_insert k v m)" by (rule smap_ok_insert)
  with Cons.IH [of "smap_insert k v m"] Cons.prems show ?case
    by (auto simp: p map_of_smap_insert split: option.split)
qed

lemma load_twice:
  "smap_ok m \<Longrightarrow> map_of (loadFromFile f d (loadFromFile f d m)) x = map_of (loadFromFile f d m) x"
  by (auto simp: loadFromFile_def fold_insert_idem smap_ok_fold split: option.split)

lemma hp_get_load:
  assumes "hp_ok st" and "\<not> hp_isInitialized st"
  shows "hp_get (hp_load st) k = hp_get st k"
  using assms by (simp add: hp_get_def ensureInitialized_def hp_load_def hp_ok_def load_twice)

text \<open>
  C29. A whole-number level that the level thread wrote for a port is given to the port again
  after a restart: printed with six decimals, stored, read back with \<open>atof\<close> it is the same float.
\<close>

theorem whole_level_survives_restart:
  fixes st :: host_store and hnd :: "dsAudioPortType \<Rightarrow> int"
  assumes "hp_durable st" and "hp_get st (level_key p) = Some (f_show (f_of_int n))" and "\<bar>n\<bar> < 2 ^ 24"
    and "p \<in> set level_ports"
    and "\<forall>t. ae_ret e t AuInit = DsERR_NONE" and "ae_persist e" and "ae_symbol e ''dsSetAudioLevel''"
    and "\<forall>p \<in> set level_ports. port_at e p (hnd p)"
  shows "(hnd p, f_of_int n)
     \<in> set (level_calls (au_trace (dAudioImpl_create e (au_static e (hp_restart st)))))"
proof -
  let ?s = "dAudioImpl_new (au_static e (hp_restart st))"
  have s: "\<not> au_isInitialized ?s" "au_store ?s = hp_restart st" "au_resolved ?s = []"
    by (simp_all add: dAudioImpl_new_def au_static_def)
  have r: "\<not> hp_isInitialized (hp_restart st)" by (simp add: hp_restart_def)
  have ok: "hp_ok (hp_restart st)" using hp_durable_restart [OF assms(1)] by (simp add: hp_durable_def)
  have "hp_get (hp_load (hp_restart st)) (level_key p) = Some (f_show (f_of_int n))"
    using hp_get_restart [OF assms(1)] assms(2) by (simp add: hp_get_load [OF ok r])
  then have "stored_level (hp_load (hp_restart st)) p = f_of_int n"
    by (simp add: stored_level_def atof_show_small [OF assms(3)])
  then show ?thesis
    using start_levels [OF s(1) assms(5,6) _ assms(7,8)] assms(4) ok
    by (auto simp: dAudioImpl_create_def s level_ports_def)
qed

theorem whole_level_survives_restart_witness:
  defines "st \<equiv> hp_put io_full ''SPEAKER0.audio.Level'' ''60.000000'' (hp_new ''f'' (\<lambda>_. None))"
  shows "(3, f_of_int 60) \<in> set (level_calls (au_trace
     (dAudioImpl_create (sample_hal True) (au_static (sample_hal True) (hp_restart st)))))"
proof -
  have new: "hp_durable (hp_new ''f'' (\<lambda>_. None))" by (rule hp_durable_new) (simp add: no_nul_file_def)
  have words: "word_ok ''SPEAKER0.audio.Level''" "word_ok ''60.000000''" by (simp_all add: word_ok_def isspace_def)
  have st: "hp_durable st" "hp_get st ''SPEAKER0.audio.Level'' = Some ''60.000000''"
    using hp_durable_put [OF new words] hpd.get_put_same [OF new words] by (simp_all add: st_def)
  have f: "f_show (f_of_int 60) = ''60.000000''"
    by (simp add: f_show_small minus_sign_def show_nat.simps digit_char_def char_of_eq_iff)
  show ?thesis
    using whole_level_survives_restart [OF st(1), of DSA_SPEAKER 60 "sample_hal True" "\<lambda>p. sample_out (AuPort p 0)"] st(2)
    by (simp add: f level_key_def sample_port_at level_ports_def)
qed

subsection \<open>Boards without MS12 profiles\<close>

definition both_ports :: "int \<Rightarrow> int \<Rightarrow> (int \<Rightarrow> au_call) \<Rightarrow> au_hist" where
  "both_ports hS hH c = [AuPort DSA_SPEAKER 0, c hS, AuPort DSA_HDMI 0, c hH]"

lemma on_ports_eq:
  assumes "port_at e DSA_SPEAKER hS" and "port_at e DSA_HDMI hH"
  shows "on_ports e c s = au_more (both_ports hS hH c) s"
  using assms
  by (simp add: on_ports_def on_port_def with_port_def port_at_def au_ok_def au_out_def au_do_def au_log_more
      both_ports_def Let_def)

definition pair_setting :: "host_store \<Rightarrow> string \<Rightarrow> string \<Rightarrow> string \<times> string" where
  "pair_setting st k1 k2 = (case (hp_get st k1, hp_get st k2) of
       (Some v, Some w) \<Rightarrow> (v, w)
     | _ \<Rightarrow> (case (hp_dflt st k1, hp_dflt st k2) of (Some v, Some w) \<Rightarrow> (v, w) | _ \<Rightarrow> (''0'', ''0'')))"

lemma au_pair_setting_eq:
  assumes "k1 \<noteq> []" and "k2 \<noteq> []"
  shows "au_pair_setting k1 k2 s = (hp_get (au_store s) k1 \<noteq> None \<and> hp_get (au_store s) k2 \<noteq> None,
     fst (pair_setting (au_store s) k1 k2), snd (pair_setting (au_store s) k1 k2), au_load s)"
  using assms
  by (auto simp: au_pair_setting_def au_both_def au_get_eq au_getDefault_eq pair_setting_def split: option.split)

lemma pair_setting_load [simp]: "pair_setting (au_store (au_load s)) k1 k2 = pair_setting (au_store s) k1 k2"
  by (simp add: pair_setting_def split: option.split)

definition set_both :: "string \<Rightarrow> string \<times> string \<Rightarrow> int \<Rightarrow> au_call" where
  "set_both f vw h = AuSetP f h (atoi (fst vw)) (atoi (snd vw))"

lemma individual_trace:
  fixes s :: au_state
  assumes "port_at e DSA_SPEAKER hS" and "port_at e DSA_HDMI hH" and "\<forall>f. ae_symbol e f"
  defines "v \<equiv> setting_of (au_store s)"
  shows "au_trace (initializeIndividualMS12Settings e s) = au_trace s @ concat (map (both_ports hS hH)
     ([\<lambda>h. AuSetI ''dsSetAudioCompression'' h (atoi (v ''audio.Compression'' ''0'')),
       \<lambda>h. AuSetI ''dsSetDialogEnhancement'' h (atoi (v ''audio.EnhancerLevel'' ''0'')),
       \<lambda>h. AuSetI ''dsSetDolbyVolumeMode'' h (bool_int (v ''audio.DolbyVolumeMode'' ''FALSE'' = ''TRUE'')),
       \<lambda>h. AuSetI ''dsSetIntelligentEqualizerMode'' h (atoi (v ''audio.IntelligentEQ'' ''0''))]
      @ (if hp_get (au_store s) ''audio.DolbyVolumeMode'' = None
           \<or> hp_get (au_store s) ''audio.VolumeLeveller.mode'' \<noteq> None
             \<and> hp_get (au_store s) ''audio.VolumeLeveller.level'' \<noteq> None
         then [set_both ''dsSetVolumeLeveller'' (pair_setting (au_store s) ''audio.VolumeLeveller.mode'' ''audio.VolumeLeveller.level'')]
         else [])
      @ [\<lambda>h. AuSetI ''dsSetBassEnhancer'' h (atoi (v ''audio.BassBoost'' ''0'')),
         \<lambda>h. AuSetI ''dsEnableSurroundDecoder'' h (bool_int (v ''audio.SurroundDecoderEnabled'' ''FALSE'' = ''TRUE'')),
         \<lambda>h. AuSetI ''dsSetDRCMode'' h (bool_int (v ''audio.DRCMode'' ''Line'' = ''RF'')),
         set_both ''dsSetSurroundVirtualizer'' (pair_setting (au_store s) ''audio.SurroundVirtualizer.mode'' ''audio.SurroundVirtualizer.boost''),
         \<lambda>h. AuSetI ''dsSetMISteering'' h (bool_int (v ''audio.MISteering'' ''Disabled'' = ''Enabled'')),
         \<lambda>h. AuSetI ''dsSetGraphicEqualizerMode'' h (atoi (v ''audio.GraphicEQ'' ''0''))]))"
proof -
  note on = on_ports_eq [OF assms(1,2)]
  have one: "init_int e f k d conv t
      = au_more (both_ports hS hH (\<lambda>h. AuSetI f h (conv (setting_of (au_store t) k d)))) (au_load t)"
    if "k \<noteq> []" for f k d conv t
    using that assms(3) by (simp add: init_int_def au_setting_eq on)
  have dolby: "init_dolby e t = (hp_get (au_store t) ''audio.DolbyVolumeMode'' = None, au_more (both_ports hS hH
      (\<lambda>h. AuSetI ''dsSetDolbyVolumeMode'' h (is_on ''TRUE'' (setting_of (au_store t) ''audio.DolbyVolumeMode'' ''FALSE''))))
      (au_load t))" for t
    using assms(3) by (auto simp: init_dolby_def au_get_eq au_default_eq on setting_of_def split: option.split)
  have leveller: "init_leveller e check t = (if check \<or> hp_get (au_store t) ''audio.VolumeLeveller.mode'' \<noteq> None
             \<and> hp_get (au_store t) ''audio.VolumeLeveller.level'' \<noteq> None
      then au_more (both_ports hS hH (set_both ''dsSetVolumeLeveller''
        (pair_setting (au_store t) ''audio.VolumeLeveller.mode'' ''audio.VolumeLeveller.level''))) (au_load t)
      else au_load t)" for check t
    using assms(3) by (auto simp: init_leveller_def au_pair_setting_eq on set_both_def [abs_def])
  have virtualizer: "init_virtualizer e t = au_more (both_ports hS hH (set_both ''dsSetSurroundVirtualizer''
        (pair_setting (au_store t) ''audio.SurroundVirtualizer.mode'' ''audio.SurroundVirtualizer.boost''))) (au_load t)" for t
    using assms(3) by (simp add: init_virtualizer_def au_pair_setting_eq on set_both_def [abs_def])
  show ?thesis
    by (simp add: initializeIndividualMS12Settings_def one dolby leveller virtualizer is_on_def v_def Let_def) auto
qed

text \<open>
  On a board without MS12 profiles start-up applies eleven settings to the speaker and to
  HDMI, each the user setting, else the default setting, else a fixed value. The volume leveller
  is left out exactly when the user has stored a Dolby volume mode and not both parts of a
  leveller; a pair is taken from the user settings or from the defaults, never mixed.
\<close>

theorem settings_without_profiles:
  fixes s :: au_state
  assumes "port_at e DSA_SPEAKER hS" and "port_at e DSA_HDMI hH" and "\<forall>f. ae_symbol e f"
  defines "v \<equiv> setting_of (au_store s)"
  shows "au_trace (initializeIndividualMS12Settings e s) = au_trace s @ concat (map (both_ports hS hH)
     ([\<lambda>h. AuSetI ''dsSetAudioCompression'' h (atoi (v ''audio.Compression'' ''0'')),
       \<lambda>h. AuSetI ''dsSetDialogEnhancement'' h (atoi (v ''audio.EnhancerLevel'' ''0'')),
       \<lambda>h. AuSetI ''dsSetDolbyVolumeMode'' h (bool_int (v ''audio.DolbyVolumeMode'' ''FALSE'' = ''TRUE'')),
       \<lambda>h. AuSetI ''dsSetIntelligentEqualizerMode'' h (atoi (v ''audio.IntelligentEQ'' ''0''))]
      @ (if hp_get (au_store s) ''audio.DolbyVolumeMode'' = None
           \<or> hp_get (au_store s) ''audio.VolumeLeveller.mode'' \<noteq> None
             \<and> hp_get (au_store s) ''audio.VolumeLeveller.level'' \<noteq> None
         then [set_both ''dsSetVolumeLeveller'' (pair_setting (au_store s) ''audio.VolumeLeveller.mode'' ''audio.VolumeLeveller.level'')]
         else [])
      @ [\<lambda>h. AuSetI ''dsSetBassEnhancer'' h (atoi (v ''audio.BassBoost'' ''0'')),
         \<lambda>h. AuSetI ''dsEnableSurroundDecoder'' h (bool_int (v ''audio.SurroundDecoderEnabled'' ''FALSE'' = ''TRUE'')),
         \<lambda>h. AuSetI ''dsSetDRCMode'' h (bool_int (v ''audio.DRCMode'' ''Line'' = ''RF'')),
         set_both ''dsSetSurroundVirtualizer'' (pair_setting (au_store s) ''audio.SurroundVirtualizer.mode'' ''audio.SurroundVirtualizer.boost''),
         \<lambda>h. AuSetI ''dsSetMISteering'' h (bool_int (v ''audio.MISteering'' ''Disabled'' = ''Enabled'')),
         \<lambda>h. AuSetI ''dsSetGraphicEqualizerMode'' h (atoi (v ''audio.GraphicEQ'' ''0''))]))"
  unfolding v_def by (rule individual_trace [OF assms(1-3)])

theorem settings_without_profiles_witness:
  defines "e \<equiv> sample_hal True"
  defines "s \<equiv> au_static e (hp_put io_full ''audio.DolbyVolumeMode'' ''TRUE'' (hp_new ''f'' (\<lambda>_. None)))"
  shows "\<forall>h v w. AuSetP ''dsSetVolumeLeveller'' h v w \<notin> set (au_trace (initializeIndividualMS12Settings e s))"
proof -
  have new: "hp_ok (hp_new ''f'' (\<lambda>_. None))" by (simp add: hp_new_def hp_ok_def)
  have get: "hp_get (hp_new ''f'' (\<lambda>_. None)) k = None" for k
    by (simp add: hp_new_def hp_get_def ensureInitialized_def hp_load_def loadFromFile_def)
  have "hp_get (au_store s) ''audio.DolbyVolumeMode'' = Some ''TRUE''"
    "hp_get (au_store s) ''audio.VolumeLeveller.mode'' = None"
    using new by (simp_all add: s_def au_static_def hp_get_put get)
  then show ?thesis
    using settings_without_profiles [of e 3 1 s]
    by (auto simp: e_def s_def port_at_def au_static_def both_ports_def set_both_def)
qed

fun call_name :: "au_call \<Rightarrow> string option" where
  "call_name (AuSetI f h v) = Some f"
| "call_name (AuSetP f h v w) = Some f"
| "call_name _ = None"

text \<open>
  On such a board a level of the dialog enhancer does not survive a restart: a request stores
  it under a key with the name of the profile (\<open>audio.Off.EnhancerLevel\<close>), start-up reads
  \<open>audio.EnhancerLevel\<close>, so the level applied at start-up is the one from before the request.
\<close>

theorem enhancer_level_not_restored:
  fixes s t :: au_state
  assumes "hp_ok (au_store s)" and "au_isInitialized s" and "ae_persist e" and "\<forall>f. ae_symbol e f"
    and "accepts e (AuSetI ''dsSetDialogEnhancement'' h level)"
    and "au_store t = au_store (snd (snd (SetAudioDialogEnhancement e h level s)))" and "au_trace t = []"
    and "port_at e DSA_SPEAKER hS" and "port_at e DSA_HDMI hH"
  defines "old \<equiv> atoi (setting_of (au_store s) ''audio.EnhancerLevel'' ''0'')"
  shows "filter (\<lambda>c. call_name c = Some ''dsSetDialogEnhancement'')
       (au_trace (initializeIndividualMS12Settings e t))
     = [AuSetI ''dsSetDialogEnhancement'' hS old, AuSetI ''dsSetDialogEnhancement'' hH old]"
proof -
  let ?u = "snd (snd (SetAudioDialogEnhancement e h level s))"
  have d: "ae_symbol e ''dsSetDialogEnhancement''" using assms(4) by simp
  have "length (generateProfileProperty (profile_of s) ''EnhancerLevel'') \<noteq> length ''audio.EnhancerLevel''"
    by (simp add: generateProfileProperty_def)
  then have "''audio.EnhancerLevel'' \<noteq> generateProfileProperty (profile_of s) ''EnhancerLevel''" by metis
  then have "hp_get (au_store ?u) ''audio.EnhancerLevel'' = hp_get (au_store s) ''audio.EnhancerLevel''"
    using SetAudioDialogEnhancement_stores(4) [OF assms(1-3) d assms(5), of "''audio.EnhancerLevel''"] by simp
  moreover have "hp_dflt (au_store ?u) = hp_dflt (au_store s)"
    by (rule SetAudioDialogEnhancement_stores(5) [OF assms(1-3) d assms(5)])
  ultimately have "setting_of (au_store t) ''audio.EnhancerLevel'' ''0'' = setting_of (au_store s) ''audio.EnhancerLevel'' ''0''"
    by (simp add: assms(6) setting_of_def split: option.split)
  then show ?thesis
    using individual_trace [OF assms(8,9,4), of t] assms(7) by (simp add: both_ports_def set_both_def old_def)
qed

theorem enhancer_level_not_restored_witness:
  defines "e \<equiv> sample_hal True"
  defines "s \<equiv> (au_static e (hp_new ''f'' (\<lambda>_. None)))\<lparr>au_isInitialized := True\<rparr>"
  defines "t \<equiv> (snd (snd (SetAudioDialogEnhancement e 3 7 s)))\<lparr>au_trace := []\<rparr>"
  shows "filter (\<lambda>c. call_name c = Some ''dsSetDialogEnhancement'') (au_trace (initializeIndividualMS12Settings e t))
     = [AuSetI ''dsSetDialogEnhancement'' 3 0, AuSetI ''dsSetDialogEnhancement'' 1 0]"
proof -
  have get: "hp_get (hp_new ''f'' (\<lambda>_. None)) k = None" "hp_dflt (hp_new ''f'' (\<lambda>_. None)) k = None" for k
    by (simp_all add: hp_new_def hp_get_def hp_dflt_def ensureInitialized_def hp_load_def loadFromFile_def)
  have ok: "hp_ok (hp_new ''f'' (\<lambda>_. None))" by (simp add: hp_new_def hp_ok_def)
  have "to_string 0 = ''0''" by (simp add: to_string_def show_nat.simps digit_char_def char_of_eq_iff)
  then have "atoi ''0'' = 0" using atoi_to_string [of 0] by simp
  then show ?thesis
    using enhancer_level_not_restored [of s e 3 7 t 3 1]
    by (simp add: e_def s_def t_def accepts_def port_at_def au_static_def setting_of_def get ok)
qed

end
