(* ===== verification/Audio_Requests.thy ===== *)
theory Audio_Requests
  imports Audio_Start
begin

section \<open>The audio forwarding layer (\<open>Audio.cpp\<close>) and its histories\<close>

text \<open>
  \<open>Audio\<close> forwards each method to the platform, if there is one; without a platform it answers
  \<open>ERROR_GENERAL\<close> (the methods up to line 496) or \<open>ERROR_UNAVAILABLE\<close> (the others). The two
  relations list the methods that read and the methods that set, each with that error. A history
  interleaves requests, callbacks of the HAL and steps of the level thread.
\<close>

subsection \<open>The methods\<close>

inductive Audio_query :: "au_env \<Rightarrow> coreErr \<Rightarrow> (au_state \<Rightarrow> au_result) \<Rightarrow> bool" for e :: au_env where
  "Audio_query e ERROR_GENERAL (GetAudioPort e p i)"
| "Audio_query e ERROR_GENERAL (GetAudioCapabilities e i)"
| "Audio_query e ERROR_GENERAL (GetAudioMS12Capabilities e i)"
| "Audio_query e ERROR_GENERAL (GetAudioFormat e i)"
| "Audio_query e ERROR_GENERAL (GetAudioEncoding e i)"
| "Audio_query e ERROR_GENERAL (GetAudioLevel e i)"
| "Audio_query e ERROR_GENERAL (GetAudioGain e i)"
| "Audio_query e ERROR_GENERAL (IsAudioMuted e i)"
| "Audio_query e ERROR_GENERAL (GetStereoMode e i b)"
| "Audio_query e ERROR_GENERAL (GetAssociatedAudioMixing e i)"
| "Audio_query e ERROR_GENERAL (GetAudioFaderControl e i)"
| "Audio_query e ERROR_GENERAL (GetAudioPrimaryLanguage e i)"
| "Audio_query e ERROR_GENERAL (GetAudioSecondaryLanguage e i)"
| "Audio_query e ERROR_GENERAL (IsAudioOutputConnected e i)"
| "Audio_query e ERROR_GENERAL (GetAudioSinkDeviceAtmosCapability e i)"
| "Audio_query e ERROR_UNAVAILABLE (GetSupportedCompressions e i)"
| "Audio_query e ERROR_UNAVAILABLE (GetAudioCompression e i)"
| "Audio_query e ERROR_UNAVAILABLE (IsAudioPortEnabled e i)"
| "Audio_query e ERROR_UNAVAILABLE (GetSupportedARCTypes e i)"
| "Audio_query e ERROR_UNAVAILABLE (GetStereoAuto e i)"
| "Audio_query e ERROR_UNAVAILABLE (GetAudioEnablePersist t)"
| "Audio_query e ERROR_UNAVAILABLE (IsAudioMSDecoded e i)"
| "Audio_query e ERROR_UNAVAILABLE (IsAudioMS12Decoded e i)"
| "Audio_query e ERROR_UNAVAILABLE (GetAudioLEConfig e i)"
| "Audio_query e ERROR_UNAVAILABLE (GetAudioDelay e i)"
| "Audio_query e ERROR_UNAVAILABLE (GetAudioDelayOffset e i)"
| "Audio_query e ERROR_UNAVAILABLE (GetAudioCompression_level e i)"
| "Audio_query e ERROR_UNAVAILABLE (GetAudioDialogEnhancement e i)"
| "Audio_query e ERROR_UNAVAILABLE (GetAudioDolbyVolumeMode e i)"
| "Audio_query e ERROR_UNAVAILABLE (GetAudioIntelligentEqualizerMode e i)"
| "Audio_query e ERROR_UNAVAILABLE (GetAudioVolumeLeveller e i)"
| "Audio_query e ERROR_UNAVAILABLE (GetAudioBassEnhancer e i)"
| "Audio_query e ERROR_UNAVAILABLE (IsAudioSurroudDecoderEnabled e i)"
| "Audio_query e ERROR_UNAVAILABLE (GetAudioDRCMode e i)"
| "Audio_query e ERROR_UNAVAILABLE (GetAudioSurroudVirtualizer e i)"
| "Audio_query e ERROR_UNAVAILABLE (GetAudioMISteering e i)"
| "Audio_query e ERROR_UNAVAILABLE (GetAudioGraphicEqualizerMode e i)"
| "Audio_query e ERROR_UNAVAILABLE (GetAudioMS12ProfileList e i)"
| "Audio_query e ERROR_UNAVAILABLE (GetAudioMS12Profile e i)"
| "Audio_query e ERROR_UNAVAILABLE GetAudioHDMIARCPortId"

inductive Audio_command :: "au_env \<Rightarrow> coreErr \<Rightarrow> (au_state \<Rightarrow> au_result) \<Rightarrow> bool" for e :: au_env where
  "Audio_command e ERROR_GENERAL (SetAudioLevel e i x)"
| "Audio_command e ERROR_GENERAL (SetAudioGain e i x)"
| "Audio_command e ERROR_GENERAL (SetAudioMute e i b)"
| "Audio_command e ERROR_GENERAL (SetAudioDucking e i k a y)"
| "Audio_command e ERROR_GENERAL (SetStereoMode e i m b)"
| "Audio_command e ERROR_GENERAL (SetAssociatedAudioMixing e i b)"
| "Audio_command e ERROR_GENERAL (SetAudioFaderControl e i i2)"
| "Audio_command e ERROR_GENERAL (SetAudioPrimaryLanguage e i t)"
| "Audio_command e ERROR_GENERAL (SetAudioSecondaryLanguage e i t)"
| "Audio_command e ERROR_GENERAL (SetAudioAtmosOutputMode e i b)"
| "Audio_command e ERROR_UNAVAILABLE (SetAudioCompression e i i2)"
| "Audio_command e ERROR_UNAVAILABLE (EnableAudioPort_au e i b)"
| "Audio_command e ERROR_UNAVAILABLE (SetSAD e i l y)"
| "Audio_command e ERROR_UNAVAILABLE (EnableARC e i i2 b)"
| "Audio_command e ERROR_UNAVAILABLE (SetStereoAuto e i i2 b)"
| "Audio_command e ERROR_UNAVAILABLE (SetAudioEnablePersist e b t)"
| "Audio_command e ERROR_UNAVAILABLE (EnableAudioLEConfig e i b)"
| "Audio_command e ERROR_UNAVAILABLE (SetAudioDelay e i w)"
| "Audio_command e ERROR_UNAVAILABLE (SetAudioDelayOffset e i w)"
| "Audio_command e ERROR_UNAVAILABLE (SetAudioCompression_level e i i2)"
| "Audio_command e ERROR_UNAVAILABLE (SetAudioDialogEnhancement e i i2)"
| "Audio_command e ERROR_UNAVAILABLE (SetAudioDolbyVolumeMode e i b)"
| "Audio_command e ERROR_UNAVAILABLE (SetAudioIntelligentEqualizerMode e i i2)"
| "Audio_command e ERROR_UNAVAILABLE (SetAudioVolumeLeveller e i y y2)"
| "Audio_command e ERROR_UNAVAILABLE (SetAudioBassEnhancer e i i2)"
| "Audio_command e ERROR_UNAVAILABLE (EnableAudioSurroudDecoder e i b)"
| "Audio_command e ERROR_UNAVAILABLE (SetAudioDRCMode e i i2)"
| "Audio_command e ERROR_UNAVAILABLE (SetAudioSurroudVirtualizer e i y y2)"
| "Audio_command e ERROR_UNAVAILABLE (SetAudioMISteering e i b)"
| "Audio_command e ERROR_UNAVAILABLE (SetAudioGraphicEqualizerMode e i i2)"
| "Audio_command e ERROR_UNAVAILABLE (SetAudioMS12Profile e i t)"
| "Audio_command e ERROR_UNAVAILABLE (SetAudioMixerLevels e i i2 i3)"
| "Audio_command e ERROR_UNAVAILABLE (SetAudioMS12SettingsOverride e i t t2 t3 t4)"
| "Audio_command e ERROR_UNAVAILABLE (ResetAudioDialogEnhancement e i)"
| "Audio_command e ERROR_UNAVAILABLE (ResetAudioBassEnhancer e i)"
| "Audio_command e ERROR_UNAVAILABLE (ResetAudioSurroundVirtualizer e i)"
| "Audio_command e ERROR_UNAVAILABLE (ResetAudioVolumeLeveller e i)"

definition Audio_call :: "bool \<Rightarrow> coreErr \<Rightarrow> (au_state \<Rightarrow> au_result) \<Rightarrow> au_state \<Rightarrow> au_result" where
  "Audio_call platform err meth s = (if platform then meth s else (err, None, s))"

inductive audio_step :: "au_env \<Rightarrow> au_state \<Rightarrow> au_state \<Rightarrow> bool" for e :: au_env where
  query: "Audio_query e err meth \<Longrightarrow> audio_step e s (snd (snd (Audio_call True err meth s)))"
| command: "Audio_command e err meth \<Longrightarrow> audio_step e s (snd (snd (Audio_call True err meth s)))"
| hotplug: "audio_step e s (audioOutPortConnectCallback p n b s)"
| fmt: "audio_step e s (audioFormatUpdateCallback f s)"
| atmos: "audio_step e s (audioAtmosCapsChangeCallback c b s)"
| thread: "lt_next e s = Some s' \<Longrightarrow> audio_step e s s'"

subsection \<open>Queries only read\<close>

fun au_read :: "au_call \<Rightarrow> bool" where
  "au_read (AuGet f h) = True"
| "au_read (AuPort p i) = True"
| "au_read _ = False"

text \<open>Reading calls, the store at most loaded, and at most the last level noted.\<close>

definition read_only :: "au_state \<Rightarrow> au_state \<Rightarrow> bool" where
  "read_only s t \<longleftrightarrow> (\<exists>cs u l. (\<forall>c \<in> set cs. au_read c) \<and> (u = s \<or> u = au_load s)
     \<and> t = au_more cs (u\<lparr>g_LastVolumeLevel := l\<rparr>))"

lemma read_onlyI:
  "\<forall>c \<in> set cs. au_read c \<Longrightarrow> u = s \<or> u = au_load s \<Longrightarrow> t = au_more cs (u\<lparr>g_LastVolumeLevel := l\<rparr>)
     \<Longrightarrow> read_only s t"
  by (auto simp: read_only_def)

lemma read_only_refl [simp]: "read_only s s"
  by (rule read_onlyI [of "[]" s _ _ "g_LastVolumeLevel s"]) simp_all

lemma read_only_more: "read_only s t \<Longrightarrow> \<forall>c \<in> set ds. au_read c \<Longrightarrow> read_only s (au_more ds t)"
  unfolding read_only_def by (metis (no_types, lifting) UnE au_more_more set_append)

lemma read_only_log [simp]: "read_only s t \<Longrightarrow> au_read c \<Longrightarrow> read_only s (au_log c t)"
  by (simp add: au_log_more read_only_more)

lemma au_load_level: "au_load (s\<lparr>g_LastVolumeLevel := l\<rparr>) = (au_load s)\<lparr>g_LastVolumeLevel := l\<rparr>"
  by (simp add: au_load_def)

lemma read_only_load [simp]:
  assumes "read_only s t"
  shows "read_only s (au_load t)"
proof -
  obtain cs u l where "\<forall>c \<in> set cs. au_read c" "u = s \<or> u = au_load s" "t = au_more cs (u\<lparr>g_LastVolumeLevel := l\<rparr>)"
    using assms by (auto simp: read_only_def)
  then show ?thesis
    by (intro read_onlyI [of cs "au_load s" _ _ l]) (auto simp: au_load_more au_load_level)
qed

lemma au_more_level: "(au_more cs s)\<lparr>g_LastVolumeLevel := l\<rparr> = au_more cs (s\<lparr>g_LastVolumeLevel := l\<rparr>)"
  by (simp add: au_more_def)

lemma read_only_level [simp]:
  assumes "read_only s t"
  shows "read_only s (t\<lparr>g_LastVolumeLevel := l\<rparr>)"
proof -
  obtain cs u k where "\<forall>c \<in> set cs. au_read c" "u = s \<or> u = au_load s" "t = au_more cs (u\<lparr>g_LastVolumeLevel := k\<rparr>)"
    using assms by (auto simp: read_only_def)
  then show ?thesis
    by (intro read_onlyI [of cs u _ _ l]) (auto simp: au_more_level)
qed

lemma read_only_port [simp]:
  assumes "read_only s t"
  shows "read_only s (snd (getAudioPortType e h t))"
proof -
  obtain p cs where "getAudioPortType e h t = (p, au_more cs t)" and "\<forall>c \<in> set cs. port_query c"
    by (rule getAudioPortType_more)
  moreover have "port_query c \<Longrightarrow> au_read c" for c by (cases c) simp_all
  ultimately show ?thesis using assms by (simp add: read_only_more)
qed

lemma read_only_query [simp]:
  "au_read c \<Longrightarrow> read_only s (snd (snd (au_query e guarded f c conv s)))"
  by (simp add: au_query_def au_fail_def)

lemma read_only_states [simp]:
  "read_only s t \<Longrightarrow> read_only s (snd (au_get k t))"
  "read_only s t \<Longrightarrow> read_only s (snd (au_setting k d t))"
  "read_only s t \<Longrightarrow> read_only s (snd (au_default k d t))"
  "read_only s t \<Longrightarrow> read_only s (snd (au_lookup k t))"
  by (auto simp: au_get_eq au_setting_state au_default_state au_lookup_def au_getDefault_load split: option.split)

lemma read_only_persisted [simp]:
  "read_only s t \<Longrightarrow> read_only s (snd (getPersistedStereoMode p t))"
  by (simp add: getPersistedStereoMode_def Let_def case_prod_unfold)

lemma read_only_delay [simp]:
  "read_only s t \<Longrightarrow> read_only s (snd (getAudioDelayInternal p t))"
  by (simp add: getAudioDelayInternal_def Let_def case_prod_unfold)

lemma query_reads:
  assumes "Audio_query e err meth"
  shows "read_only s (snd (snd (meth s)))"
  using assms
proof cases
qed (auto simp: GetAudioPort_def GetAudioCapabilities_def GetAudioMS12Capabilities_def GetAudioFormat_def GetAudioEncoding_def GetAudioLevel_def GetAudioGain_def IsAudioMuted_def GetStereoMode_def GetAssociatedAudioMixing_def GetAudioFaderControl_def GetAudioPrimaryLanguage_def GetAudioSecondaryLanguage_def IsAudioOutputConnected_def GetAudioSinkDeviceAtmosCapability_def GetSupportedCompressions_def GetAudioCompression_def IsAudioPortEnabled_def GetSupportedARCTypes_def GetStereoAuto_def GetAudioEnablePersist_def IsAudioMSDecoded_def IsAudioMS12Decoded_def GetAudioLEConfig_def GetAudioDelay_def GetAudioDelayOffset_def GetAudioCompression_level_def GetAudioDialogEnhancement_def GetAudioDolbyVolumeMode_def GetAudioIntelligentEqualizerMode_def GetAudioVolumeLeveller_def GetAudioBassEnhancer_def IsAudioSurroudDecoderEnabled_def GetAudioDRCMode_def GetAudioSurroudVirtualizer_def GetAudioMISteering_def GetAudioGraphicEqualizerMode_def GetAudioMS12ProfileList_def GetAudioMS12Profile_def GetAudioHDMIARCPortId_def au_fail_def
  Let_def case_prod_unfold split: option.split)

subsection \<open>Commands keep the store well-formed\<close>

definition ordinary :: "au_call \<Rightarrow> bool" where "ordinary c \<longleftrightarrow> c \<noteq> EvPortState"

lemma ordinary_simps [simp]:
  "ordinary (AuPort dp i)" "ordinary (AuGet f h)" "ordinary (AuSetI f h v)" "ordinary (AuSetF f h x)"
  "ordinary (AuSetS f h t)" "ordinary (AuSetM h m)" "ordinary (AuSetP f h v w)" "ordinary (AuSetSAD h ds n)"
  "ordinary (EvHotPlug ap i b)" "ordinary (EvFormat i)" "ordinary (EvAtmos i b)" "ordinary (EvMixing b)"
  "ordinary (EvFader i)" "ordinary (EvPrimary t)" "ordinary (EvSecondary t)" "ordinary (EvLevel x)"
  "ordinary (EvMode ap am)" "ordinary (AuRegister f)" "ordinary AuInit" "ordinary AuTerm"
  by (simp_all add: ordinary_def)

text \<open>Members the contract does not speak about.\<close>

lemma keeps_fields [simp]:
  "au_keeps P K s (t\<lparr>isDuckingInProgress := b\<rparr>) = au_keeps P K s t"
  "au_keeps P K s (t\<lparr>volumeDuckingLevel := i\<rparr>) = au_keeps P K s t"
  "au_keeps P K s (t\<lparr>muteStatus := b\<rparr>) = au_keeps P K s t"
  "au_keeps P K s (t\<lparr>audioPortEnabled := f\<rparr>) = au_keeps P K s t"
  "au_keeps P K s (t\<lparr>stereoAuto := f\<rparr>) = au_keeps P K s t"
  "au_keeps P K s (t\<lparr>stereoMode := g\<rparr>) = au_keeps P K s t"
  "au_keeps P K s (t\<lparr>g_LastVolumeLevel := x\<rparr>) = au_keeps P K s t"
  "au_keeps P K s (t\<lparr>g_audioLevelCache := c\<rparr>) = au_keeps P K s t"
  "au_keeps P K s (t\<lparr>persistPending := b\<rparr>) = au_keeps P K s t"
  "au_keeps P K s (t\<lparr>persistThread := l\<rparr>) = au_keeps P K s t"
  "au_keeps P K s (t\<lparr>m_LEEnabled := b\<rparr>) = au_keeps P K s t"
  "au_keeps P K s (t\<lparr>au_resolved := r\<rparr>) = au_keeps P K s t"
  by (simp_all add: au_keeps_def)

lemma keeps_port [simp]:
  assumes "au_keeps P K s t" and "\<And>p. P (AuPort p 0)"
  shows "au_keeps P K s (snd (getAudioPortType e h t))"
proof -
  obtain p cs where "getAudioPortType e h t = (p, au_more cs t)" and "\<forall>c \<in> set cs. port_query c"
    by (rule getAudioPortType_more)
  moreover have "port_query c \<Longrightarrow> P c" for c using assms(2) by (cases c) simp_all
  ultimately show ?thesis using assms(1) by simp
qed

lemma keeps_lt_notify [simp]: "au_keeps P K s (lt_notify t) = au_keeps P K s t"
  by (simp add: lt_notify_def split: level_thread.split)

lemma keeps_cache [simp]: "au_keeps P K s t \<Longrightarrow> au_keeps P K s (cacheAudioLevelForPersist p l t)"
  by (simp add: cacheAudioLevelForPersist_def)

lemma keeps_persist_all [simp]: "au_keeps P UNIV s t \<Longrightarrow> au_keeps P UNIV s (snd (au_persist e kvs t))"
  by (rule keeps_persist) simp_all

lemma keeps_finish:
  assumes "au_keeps P UNIV s t" and "\<And>u. au_keeps P UNIV s u \<Longrightarrow> au_keeps P UNIV s (snd (kvs u))"
    and "\<And>u. au_keeps P UNIV s u \<Longrightarrow> au_keeps P UNIV s (k u)"
  shows "au_keeps P UNIV s (snd (snd (au_finish e kvs k t)))"
  using assms by (simp add: au_finish_def au_done_def au_fail_def Let_def case_prod_unfold)

lemma keeps_au_set:
  assumes "P c" and "\<And>u. au_keeps P UNIV s u \<Longrightarrow> au_keeps P UNIV s (snd (kvs u))"
    and "\<And>u. au_keeps P UNIV s u \<Longrightarrow> au_keeps P UNIV s (k u)"
  shows "au_keeps P UNIV s (snd (snd (au_set e guarded f c kvs k s)))"
  using assms by (simp add: au_set_def au_fail_def keeps_finish)

lemma keeps_profile_state [simp]: "au_keeps P K s t \<Longrightarrow> au_keeps P K s (snd (getCurrentProfileProperty q t))"
  by (simp add: getCurrentProfileProperty_of)

lemma keeps_profile_kvs [simp]: "au_keeps P K s t \<Longrightarrow> au_keeps P K s (snd (profile_kvs l t))"
  by (induction l t rule: profile_kvs.induct)
    (simp_all add: getCurrentProfileProperty_of Let_def case_prod_unfold)

declare au_persist.simps [simp del]

lemma keeps_kvs [simp]:
  "au_keeps P K s t \<Longrightarrow> au_keeps P K s (snd (fixed l t))"
  "au_keeps ordinary K s t \<Longrightarrow> au_keeps ordinary K s (snd (by_port e h ports sfx v t))"
  "au_keeps ordinary K s t \<Longrightarrow> au_keeps ordinary K s (snd (save_level e h level t))"
  by (simp_all add: fixed_def by_port_def save_level_def Let_def case_prod_unfold)

lemma keeps_level_parts [simp]:
  "au_keeps ordinary K s t \<Longrightarrow> au_keeps ordinary K s (snd (requested_level e h l t))"
  "au_keeps ordinary K s t \<Longrightarrow> au_keeps ordinary K s (snd (set_level e h l t))"
  "au_keeps ordinary K s t \<Longrightarrow> au_keeps ordinary K s (notifyAudioLevelChanged i t)"
  "au_keeps ordinary K s t \<Longrightarrow> au_keeps ordinary K s (snd (setAudioDuckingAudioLevel e h t))"
  by (simp_all add: requested_level_def set_level_def notifyAudioLevelChanged_def setAudioDuckingAudioLevel_def
      Let_def case_prod_unfold)

lemma keeps_delay_parts [simp]:
  "au_keeps ordinary K s t \<Longrightarrow> au_keeps ordinary K s (snd (getAudioDelayInternal p t))"
  "au_keeps ordinary K s t \<Longrightarrow> au_keeps ordinary K s (setAudioDelayInternal e h d t)"
  by (simp_all add: getAudioDelayInternal_def setAudioDelayInternal_def Let_def case_prod_unfold)

lemma keeps_enable_parts [simp]:
  "au_keeps ordinary K s t \<Longrightarrow> au_keeps ordinary K s (snd (enable_speaker e h b p t))"
  "au_keeps ordinary K s t \<Longrightarrow> au_keeps ordinary K s (restore_cached_level e h b p t)"
  "au_keeps ordinary K s t \<Longrightarrow> au_keeps ordinary K s (snd (snd (verify_enabled e h b p t)))"
  by (simp_all add: enable_speaker_def restore_cached_level_def verify_enabled_def au_done_def au_fail_def
      Let_def case_prod_unfold)

lemma keeps_stereo_parts [simp]:
  "au_keeps P K s (setStereoAutoState p b t) = au_keeps P K s t"
  "au_keeps P K s (setConfiguredStereoMode p m t) = au_keeps P K s t"
  "au_keeps ordinary UNIV s t \<Longrightarrow> au_keeps ordinary UNIV s (persist_mode e p mode t)"
  "au_keeps ordinary UNIV s t \<Longrightarrow> au_keeps ordinary UNIV s (snd (persist_auto e h i t))"
  by (simp_all add: setStereoAutoState_def setConfiguredStereoMode_def persist_mode_def persist_auto_def
      Let_def case_prod_unfold)

lemma keeps_result_parts [simp]:
  "au_keeps P UNIV s t \<Longrightarrow> au_keeps P UNIV s (snd (snd (persist_result e kvs t)))"
  "au_keeps P UNIV s t \<Longrightarrow> P c \<Longrightarrow> au_keeps P UNIV s (snd (snd (call_persist e c kvs t)))"
  "au_keeps P UNIV s t \<Longrightarrow> P c \<Longrightarrow> au_keeps P UNIV s (snd (snd (reset_call e c kvs t)))"
  by (simp_all add: persist_result_def call_persist_def reset_call_def au_done_def au_fail_def Let_def case_prod_unfold)

lemma keeps_override_parts [simp]:
  "au_keeps ordinary UNIV s t \<Longrightarrow> au_keeps ordinary UNIV s (snd (snd (override_one e h f q ko v st t)))"
  "au_keeps ordinary UNIV s t \<Longrightarrow> au_keeps ordinary UNIV s (snd (snd (override_two e h f q k v st t)))"
  "au_keeps ordinary UNIV s t \<Longrightarrow> au_keeps ordinary UNIV s (snd (snd (override_mode e q bound v t)))"
  by (auto simp: override_one_def override_two_def override_mode_def au_done_def au_fail_def
      Let_def case_prod_unfold split: profile_state.split)

lemma keeps_override_active [simp]:
  "au_keeps ordinary UNIV s t \<Longrightarrow> au_keeps ordinary UNIV s (snd (snd (override_active e h name v st t)))"
  by (simp add: override_active_def au_fail_def)

lemma keeps_resets [simp]:
  "au_keeps ordinary UNIV s t \<Longrightarrow> au_keeps ordinary UNIV s (snd (snd (reset_one e h f q ko t)))"
  "au_keeps ordinary UNIV s t \<Longrightarrow> au_keeps ordinary UNIV s (snd (snd (reset_two e h f q k t)))"
  by (simp_all add: reset_one_def reset_two_def au_fail_def Let_def case_prod_unfold)

lemma keeps_apply_profile [simp]:
  "au_keeps ordinary UNIV s t \<Longrightarrow> au_keeps ordinary UNIV s (applyMS12ProfileSettingsOverride e h t)"
  by (auto simp: applyMS12ProfileSettingsOverride_def Let_def case_prod_unfold intro!: keeps_apply_two keeps_apply_one)

lemma command_keeps:
  assumes "Audio_command e err meth"
  shows "au_keeps ordinary UNIV s (snd (snd (meth s)))"
  using assms
proof cases
qed (auto simp: SetAudioLevel_def SetAudioGain_def SetAudioMute_def SetAudioDucking_def SetStereoMode_def SetAssociatedAudioMixing_def SetAudioFaderControl_def SetAudioPrimaryLanguage_def SetAudioSecondaryLanguage_def SetAudioAtmosOutputMode_def SetAudioCompression_def EnableAudioPort_au_def SetSAD_def EnableARC_def SetStereoAuto_def SetAudioEnablePersist_def EnableAudioLEConfig_def SetAudioDelay_def SetAudioDelayOffset_def SetAudioCompression_level_def SetAudioDialogEnhancement_def SetAudioDolbyVolumeMode_def SetAudioIntelligentEqualizerMode_def SetAudioVolumeLeveller_def SetAudioBassEnhancer_def EnableAudioSurroudDecoder_def SetAudioDRCMode_def SetAudioSurroudVirtualizer_def SetAudioMISteering_def SetAudioGraphicEqualizerMode_def SetAudioMS12Profile_def SetAudioMixerLevels_def SetAudioMS12SettingsOverride_def ResetAudioDialogEnhancement_def ResetAudioBassEnhancer_def ResetAudioSurroundVirtualizer_def ResetAudioVolumeLeveller_def au_fail_def au_done_def
  Let_def case_prod_unfold simp del: au_persist.simps split: option.split profile_state.split intro!: keeps_au_set keeps_finish)

text \<open>
  C32. A query is harmless: it makes reading HAL calls only, changes no setting in the store (which
  it may load), and of the state of the platform at most the last level it has read.
\<close>

theorem queries_only_read:
  assumes "Audio_query e err meth" and "Audio_call platform err meth s = (r, out, t)"
  shows "\<exists>cs l. (\<forall>c \<in> set cs. au_read c) \<and> (t = au_more cs (s\<lparr>g_LastVolumeLevel := l\<rparr>)
     \<or> t = au_more cs ((au_load s)\<lparr>g_LastVolumeLevel := l\<rparr>))"
proof -
  have "read_only s t"
    using query_reads [OF assms(1), of s] assms(2) by (auto simp: Audio_call_def split: if_splits)
  then show ?thesis by (auto simp: read_only_def)
qed

theorem queries_only_read_witness:
  defines "e \<equiv> sample_hal True"
  defines "s \<equiv> au_static e (hp_new ''f'' (\<lambda>_. None))"
  shows "muteStatus (snd (snd (GetAudioDelay e 3 s))) = False"
proof -
  obtain r out t where g: "GetAudioDelay e 3 s = (r, out, t)" by (cases "GetAudioDelay e 3 s")
  have "Audio_query e ERROR_UNAVAILABLE (GetAudioDelay e 3)" by (intro Audio_query.intros)
  note reads = queries_only_read [OF this, of True s r out t]
  have "\<not> muteStatus s" by (simp add: s_def au_static_def)
  with reads g show ?thesis by (auto simp: Audio_call_def)
qed

subsection \<open>Histories\<close>

lemma persist_levels_keeps: "au_keeps ordinary UNIV s t \<Longrightarrow> au_keeps ordinary UNIV s (snd (persist_levels e ps prev t))"
  by (induction ps arbitrary: prev t)
    (simp_all add: persistAudioLevelIfChanged_def Let_def case_prod_unfold)

lemma lt_next_keeps: "lt_next e s = Some t \<Longrightarrow> au_keeps ordinary UNIV s t"
  using persist_levels_keeps [OF keeps_refl, of s e level_ports]
  by (auto simp: lt_next_def lt_loop_def Let_def case_prod_unfold split: level_thread.splits if_splits)

lemma audio_step_keeps: "audio_step e s t \<Longrightarrow> au_keeps ordinary UNIV s t"
proof (induction rule: audio_step.induct)
  case (query err meth s)
  then have "read_only s (snd (snd (meth s)))" by (rule query_reads)
  moreover have "au_read c \<Longrightarrow> ordinary c" for c by (cases c) simp_all
  ultimately show ?case by (auto simp: read_only_def Audio_call_def)
qed (simp_all add: command_keeps Audio_call_def audioOutPortConnectCallback_def audioFormatUpdateCallback_def
    audioAtmosCapsChangeCallback_def lt_next_keeps)

definition audio_ok :: "au_state \<Rightarrow> au_state \<Rightarrow> bool" where
  "audio_ok s t \<longleftrightarrow> au_keeps ordinary UNIV s t"

interpretation au: step_invariant "audio_step e" "audio_ok s" for e s
  by unfold_locales (auto simp: audio_ok_def intro: keeps_trans dest: audio_step_keeps)

text \<open>Up to its last step start-up raises no event.\<close>

definition unheard :: "au_call \<Rightarrow> bool" where "unheard c \<longleftrightarrow> \<not> au_is_event c"

lemma unheard_simps [simp]:
  "unheard (AuPort dp i)" "unheard (AuGet f h)" "unheard (AuSetI f h v)" "unheard (AuSetF f h x)"
  by (simp_all add: unheard_def)


lemma keeps_init_levels:
  assumes "au_keeps unheard K s t"
  shows "au_keeps unheard K s (init_levels e t)"
proof -
  have step: "au_keeps unheard K s (snd (init_level e p lt))" if "au_keeps unheard K s (snd lt)" for p lt
    using that
    by (simp add: init_level_def isAudioOutputConnectedForInitialization_def set_level_def Let_def case_prod_unfold)
  have "au_keeps unheard K s (snd (fold (init_level e) ps lt))" if "au_keeps unheard K s (snd lt)" for ps lt
    using that by (induction ps arbitrary: lt) (simp_all add: step)
  then have fold: "au_keeps unheard K s (snd (fold (init_level e) ps (None, t)))" for ps using assms by simp
  obtain l u where "fold (init_level e) [DSA_SPDIF, DSA_SPEAKER, DSA_HEADPHONE, DSA_HDMI] (None, t) = (l, u)"
    by (cases "fold (init_level e) [DSA_SPDIF, DSA_SPEAKER, DSA_HEADPHONE, DSA_HDMI] (None, t)")
  with fold [of "[DSA_SPDIF, DSA_SPEAKER, DSA_HEADPHONE, DSA_HDMI]"] show ?thesis
    unfolding init_levels_def by (simp del: fold_simps split: option.split)
qed

lemma keeps_calm_unheard: "au_keeps calm K s t \<Longrightarrow> au_keeps unheard K s t"
  by (erule keeps_mono) (auto simp: calm_def unheard_def)

lemma keeps_persisted: "au_keeps unheard UNIV s t \<Longrightarrow> au_keeps unheard UNIV s (init_persisted e t)"
proof -
  assume t: "au_keeps unheard UNIV s t"
  have "au_keeps unheard UNIV t (init_gains e t)" by (intro keeps_calm_unheard keeps_gains keeps_refl)
  with t have "au_keeps unheard UNIV s (init_gains e t)" by (rule keeps_trans)
  then have u: "au_keeps unheard UNIV s (once e ''dsSetAudioLevel'' (init_levels e) (init_gains e t))" (is "au_keeps _ _ _ ?u")
    by (intro keeps_once keeps_init_levels)
  have "au_keeps unheard UNIV u (init_rest e u)" for u by (intro keeps_calm_unheard keeps_rest keeps_refl)
  with u show ?thesis unfolding init_persisted_def by (rule keeps_trans)
qed

lemma keeps_config: "au_keeps unheard UNIV s (snd (registerHALCallbacks e (audioConfigInit e (initializeAudioSettings e s))))"
proof -
  have "au_keeps unheard UNIV s (init_le e (initializeAudioSettings e s))"
    by (intro keeps_calm_unheard keeps_init_le keeps_settings keeps_refl) simp
  then have "au_keeps unheard UNIV s (if ae_persist e then init_persisted e (init_le e (initializeAudioSettings e s))
      else init_le e (initializeAudioSettings e s))" (is "au_keeps _ _ _ ?u")
    using keeps_persisted by simp
  moreover have "au_keeps unheard UNIV u (snd (registerHALCallbacks e (init_ms12 e u)))" for u
    by (intro keeps_calm_unheard keeps_last keeps_ms12 keeps_refl) simp
  ultimately show ?thesis unfolding audioConfigInit_def Let_def by (rule keeps_trans)
qed

lemma start_ordinary:
  assumes "\<not> au_callback s CB_PortState" and "hp_ok (au_store s)" and "EvPortState \<notin> set (au_trace s)"
  shows "hp_ok (au_store (InitialiseHAL e s)) \<and> EvPortState \<notin> set (au_trace (InitialiseHAL e s))"
proof -
  let ?s1 = "au_log AuInit (s\<lparr>au_store := hp_load (au_store s)\<rparr>)"
  let ?s2 = "?s1\<lparr>au_isInitialized := True\<rparr>"
  let ?s3 = "if ae_persist e then startAudioLevelPersistThread ?s2 else ?s2"
  let ?t = "snd (registerHALCallbacks e (audioConfigInit e (initializeAudioSettings e ?s3)))"
  have s3: "au_callback ?s3 = au_callback s" "hp_ok (au_store ?s3)" "EvPortState \<notin> set (au_trace ?s3)"
    using assms hp_ok_load by (simp_all add: startAudioLevelPersistThread_def au_log_def)
  have t: "au_keeps ordinary UNIV ?s3 ?t"
    by (rule keeps_mono [OF keeps_config]) (auto simp: unheard_def ordinary_def)
  then have "au_callback ?t = au_callback s" using s3(1) by (simp add: au_keeps_def)
  moreover have "hp_ok (au_store ?t)" using t s3(2) by (rule keeps_ok)
  moreover obtain cs where "au_trace ?t = au_trace ?s3 @ cs" "\<forall>c \<in> set cs. ordinary c"
    using keeps_trace [OF t] by blast
  then have "EvPortState \<notin> set (au_trace ?t)" using s3(3) by (auto simp: ordinary_def)
  moreover have "InitialiseHAL e s = (if au_isInitialized s then s
      else if ae_ret e (au_trace s) AuInit \<noteq> DsERR_NONE then ?s1 else au_event CB_PortState EvPortState ?t)"
    by (simp add: InitialiseHAL_def au_do_def Let_def)
  ultimately show ?thesis
    using assms hp_ok_load [OF assms(2)] by (simp add: au_event_def) (simp add: au_log_def)
qed

text \<open>
  C30. The event that the audio ports are initialised is never delivered: the constructor raises it
  before \<open>Audio::Platform_init\<close> sets the callbacks, and nothing raises it later. Whatever requests,
  HAL callbacks and steps of the level thread follow, the store stays well-formed.
\<close>

theorem initialized_event_never_delivered:
  assumes "hp_ok st"
    and "(audio_step e)\<^sup>*\<^sup>* (Platform_init (dAudioImpl_create e (au_static e st))) t"
  shows "EvPortState \<notin> set (au_trace t) \<and> hp_ok (au_store t)"
proof -
  let ?s = "Platform_init (dAudioImpl_create e (au_static e st))"
  have s: "hp_ok (au_store ?s) \<and> EvPortState \<notin> set (au_trace ?s)"
    using start_ordinary [of "dAudioImpl_new (au_static e st)" e] assms(1)
    by (simp add: Platform_init_def setAllCallbacks_def dAudioImpl_create_def dAudioImpl_new_def au_static_def)
  have "audio_ok ?s t" by (rule au.reached [OF assms(2)]) (simp add: audio_ok_def)
  then show ?thesis using s by (auto simp: audio_ok_def au_keeps_def ordinary_def)
qed

theorem initialized_event_never_delivered_witness:
  defines "e \<equiv> sample_hal True"
  defines "s \<equiv> Platform_init (dAudioImpl_create e (au_static e (hp_new ''f'' (\<lambda>_. None))))"
  shows "EvPortState \<notin> set (au_trace (audioFormatUpdateCallback 1 s))"
proof -
  have "hp_ok (hp_new ''f'' (\<lambda>_. None))" by (simp add: hp_new_def hp_ok_def)
  moreover have "(audio_step e)\<^sup>*\<^sup>* s (audioFormatUpdateCallback 1 s)"
    by (rule r_into_rtranclp) (rule audio_step.intros)
  ultimately show ?thesis unfolding s_def using initialized_event_never_delivered by blast
qed

end
