(* ===== verification/Audio_Com.thy ===== *)
theory Audio_Com
  imports Audio_Requests Notification_Registry
begin

section \<open>The COM layer of the audio ports (\<open>DeviceSettingsAudioImplementation.cpp\<close>)\<close>

text \<open>
  \<open>DeviceSettingsAudioImpl\<close> forwards the requests of the clients to \<open>Audio\<close> and tells the clients
  what \<open>Audio\<close> reports. An object is created and destroyed with the plugin; the callbacks through
  which the platform reports are static, are set when an object is complete and never cleared.
  Objects are numbered, as in the other components; a callback into an object that is gone, or not
  yet complete, is undefined. An object that is destroyed joins its level thread; whether that
  returns is the subject of \<open>Audio_Level\<close>.

  The events are delivered after the call that reports them, in their order: clients only register
  and remove objects from their callbacks, which no part of the call looks at.
\<close>

subsection \<open>Types\<close>

datatype auc_event =
    OnAssociatedAudioMixingChanged bool
  | OnAudioFaderControlChanged int
  | OnAudioPrimaryLanguageChanged string
  | OnAudioSecondaryLanguageChanged string
  | OnAudioOutHotPlug AudioPortType int bool
  | OnAudioFormatUpdate int
  | OnDolbyAtmosCapabilitiesChanged int bool
  | OnAudioPortStateChanged
  | OnAudioLevelChanged int
  | OnAudioModeEvent AudioPortType AudioStereoMode

record auc_state =
  auc_audio :: au_state
  AudioNotifications :: "auc_event registry"
  auc_live :: "nat option"
  auc_owner :: "nat option"

definition auc_static :: "au_state \<Rightarrow> (ptr \<Rightarrow> nat) \<Rightarrow> auc_state" where
  "auc_static a base = \<lparr>auc_audio = a, AudioNotifications = reg_empty base, auc_live = None, auc_owner = None\<rparr>"

subsection \<open>The requests\<close>

type_synonym auc_result = "(coreErr \<times> au_val option \<times> auc_state) outcome"

definition auc_forward :: "coreErr \<Rightarrow> (au_state \<Rightarrow> au_result) \<Rightarrow> auc_state \<Rightarrow> auc_result" where
  "auc_forward err meth s =
     (let (r, out, a) = Audio_call True err meth (auc_audio s) in Ret (r, out, s\<lparr>auc_audio := a\<rparr>))"

text \<open>
  The methods of the file in its order, in four groups: ports and levels; outputs, delays and the
  decoder; the audio effects; profiles, mixer and resets. \<open>add\<close>: whether the enumerator of
  \<open>SetAudioMS12SettingsOverride\<close> is the one for adding. \<open>Audio::GetMS12Capabilities\<close> is declared
  in \<open>Audio.h\<close>, called here, and has no body: the call is undefined.
\<close>

datatype audio_port_request =
    A_GetAudioPort AudioPortType int
  | A_GetAudioCapabilities int
  | A_GetAudioMS12Capabilities int
  | A_GetAudioFormat int
  | A_GetAudioEncoding int
  | A_SetAudioLevel int cfloat
  | A_GetAudioLevel int
  | A_SetAudioGain int cfloat
  | A_GetAudioGain int
  | A_SetAudioMute int bool
  | A_IsAudioMuted int
  | A_SetAudioDucking int AudioDuckingType AudioDuckingAction "8 word"
  | A_GetStereoMode int bool
  | A_SetStereoMode int AudioStereoMode bool
  | A_SetAssociatedAudioMixing int bool
  | A_GetAssociatedAudioMixing int
  | A_SetAudioFaderControl int int
  | A_GetAudioFaderControl int
  | A_SetAudioPrimaryLanguage int string
  | A_GetAudioPrimaryLanguage int
  | A_SetAudioSecondaryLanguage int string
  | A_GetAudioSecondaryLanguage int

datatype audio_output_request =
    A_IsAudioOutputConnected int
  | A_GetAudioSinkDeviceAtmosCapability int
  | A_SetAudioAtmosOutputMode int bool
  | A_GetSupportedCompressions int
  | A_GetAudioCompression int
  | A_SetAudioCompression int int
  | A_GetMS12Capabilities int
  | A_GetStereoAuto int
  | A_SetStereoAuto int int bool
  | A_IsAudioPortEnabled int
  | A_EnableAudioPort int bool
  | A_GetSupportedARCTypes int
  | A_SetSAD int "int list" "8 word"
  | A_EnableARC int int bool
  | A_GetAudioEnablePersist int string
  | A_SetAudioEnablePersist int bool string
  | A_IsAudioMSDecoded int
  | A_IsAudioMS12Decoded int
  | A_GetAudioLEConfig int
  | A_EnableAudioLEConfig int bool
  | A_SetAudioDelay int "32 word"
  | A_GetAudioDelay int
  | A_SetAudioDelayOffset int "32 word"
  | A_GetAudioDelayOffset int

datatype audio_effect_request =
    A_SetAudioCompression_level int int
  | A_GetAudioCompression_level int
  | A_SetAudioDialogEnhancement int int
  | A_GetAudioDialogEnhancement int
  | A_SetAudioDolbyVolumeMode int bool
  | A_GetAudioDolbyVolumeMode int
  | A_SetAudioIntelligentEqualizerMode int int
  | A_GetAudioIntelligentEqualizerMode int
  | A_SetAudioVolumeLeveller int "8 word" "8 word"
  | A_GetAudioVolumeLeveller int
  | A_SetAudioBassEnhancer int int
  | A_GetAudioBassEnhancer int
  | A_EnableAudioSurroundDecoder int bool
  | A_IsAudioSurroundDecoderEnabled int
  | A_SetAudioDRCMode int int
  | A_GetAudioDRCMode int
  | A_SetAudioSurroundVirtualizer int "8 word" "8 word"
  | A_GetAudioSurroundVirtualizer int

datatype audio_profile_request =
    A_SetAudioMISteering int bool
  | A_GetAudioMISteering int
  | A_SetAudioGraphicEqualizerMode int int
  | A_GetAudioGraphicEqualizerMode int
  | A_GetAudioMS12ProfileList int
  | A_GetAudioMS12Profile int
  | A_SetAudioMS12Profile int string
  | A_SetAudioMixerLevels int int int
  | A_SetAudioMS12SettingsOverride int string string string bool
  | A_ResetAudioDialogEnhancement int
  | A_ResetAudioBassEnhancer int
  | A_ResetAudioSurroundVirtualizer int
  | A_ResetAudioVolumeLeveller int
  | A_GetAudioHDMIARCPortId int

definition profile_state_text :: "bool \<Rightarrow> string" where
  "profile_state_text add = (if add then ''ADD'' else ''REMOVE'')"

fun auc_port_call :: "au_env \<Rightarrow> audio_port_request \<Rightarrow> auc_state \<Rightarrow> auc_result" where
  "auc_port_call e (A_GetAudioPort p i) = auc_forward ERROR_GENERAL (GetAudioPort e p i)"
| "auc_port_call e (A_GetAudioCapabilities h) = auc_forward ERROR_GENERAL (GetAudioCapabilities e h)"
| "auc_port_call e (A_GetAudioMS12Capabilities h) = auc_forward ERROR_GENERAL (GetAudioMS12Capabilities e h)"
| "auc_port_call e (A_GetAudioFormat h) = auc_forward ERROR_GENERAL (GetAudioFormat e h)"
| "auc_port_call e (A_GetAudioEncoding h) = auc_forward ERROR_GENERAL (GetAudioEncoding e h)"
| "auc_port_call e (A_SetAudioLevel h x) = auc_forward ERROR_GENERAL (SetAudioLevel e h x)"
| "auc_port_call e (A_GetAudioLevel h) = auc_forward ERROR_GENERAL (GetAudioLevel e h)"
| "auc_port_call e (A_SetAudioGain h x) = auc_forward ERROR_GENERAL (SetAudioGain e h x)"
| "auc_port_call e (A_GetAudioGain h) = auc_forward ERROR_GENERAL (GetAudioGain e h)"
| "auc_port_call e (A_SetAudioMute h b) = auc_forward ERROR_GENERAL (SetAudioMute e h b)"
| "auc_port_call e (A_IsAudioMuted h) = auc_forward ERROR_GENERAL (IsAudioMuted e h)"
| "auc_port_call e (A_SetAudioDucking h k a l) = auc_forward ERROR_GENERAL (SetAudioDucking e h k a l)"
| "auc_port_call e (A_GetStereoMode h b) = auc_forward ERROR_GENERAL (GetStereoMode e h b)"
| "auc_port_call e (A_SetStereoMode h m b) = auc_forward ERROR_GENERAL (SetStereoMode e h m b)"
| "auc_port_call e (A_SetAssociatedAudioMixing h b) = auc_forward ERROR_GENERAL (SetAssociatedAudioMixing e h b)"
| "auc_port_call e (A_GetAssociatedAudioMixing h) = auc_forward ERROR_GENERAL (GetAssociatedAudioMixing e h)"
| "auc_port_call e (A_SetAudioFaderControl h i) = auc_forward ERROR_GENERAL (SetAudioFaderControl e h i)"
| "auc_port_call e (A_GetAudioFaderControl h) = auc_forward ERROR_GENERAL (GetAudioFaderControl e h)"
| "auc_port_call e (A_SetAudioPrimaryLanguage h t) = auc_forward ERROR_GENERAL (SetAudioPrimaryLanguage e h t)"
| "auc_port_call e (A_GetAudioPrimaryLanguage h) = auc_forward ERROR_GENERAL (GetAudioPrimaryLanguage e h)"
| "auc_port_call e (A_SetAudioSecondaryLanguage h t) = auc_forward ERROR_GENERAL (SetAudioSecondaryLanguage e h t)"
| "auc_port_call e (A_GetAudioSecondaryLanguage h) = auc_forward ERROR_GENERAL (GetAudioSecondaryLanguage e h)"

fun auc_output_call :: "au_env \<Rightarrow> audio_output_request \<Rightarrow> auc_state \<Rightarrow> auc_result" where
  "auc_output_call e (A_IsAudioOutputConnected h) = auc_forward ERROR_GENERAL (IsAudioOutputConnected e h)"
| "auc_output_call e (A_GetAudioSinkDeviceAtmosCapability h) = auc_forward ERROR_GENERAL (GetAudioSinkDeviceAtmosCapability e h)"
| "auc_output_call e (A_SetAudioAtmosOutputMode h b) = auc_forward ERROR_GENERAL (SetAudioAtmosOutputMode e h b)"
| "auc_output_call e (A_GetSupportedCompressions h) = auc_forward ERROR_UNAVAILABLE (GetSupportedCompressions e h)"
| "auc_output_call e (A_GetAudioCompression h) = auc_forward ERROR_UNAVAILABLE (GetAudioCompression e h)"
| "auc_output_call e (A_SetAudioCompression h i) = auc_forward ERROR_UNAVAILABLE (SetAudioCompression e h i)"
| "auc_output_call e (A_GetMS12Capabilities h) = (\<lambda>s. UB)"
| "auc_output_call e (A_GetStereoAuto h) = auc_forward ERROR_UNAVAILABLE (GetStereoAuto e h)"
| "auc_output_call e (A_SetStereoAuto h i b) = auc_forward ERROR_UNAVAILABLE (SetStereoAuto e h i b)"
| "auc_output_call e (A_IsAudioPortEnabled h) = auc_forward ERROR_UNAVAILABLE (IsAudioPortEnabled e h)"
| "auc_output_call e (A_EnableAudioPort h b) = auc_forward ERROR_UNAVAILABLE (EnableAudioPort_au e h b)"
| "auc_output_call e (A_GetSupportedARCTypes h) = auc_forward ERROR_UNAVAILABLE (GetSupportedARCTypes e h)"
| "auc_output_call e (A_SetSAD h l n) = auc_forward ERROR_UNAVAILABLE (SetSAD e h l n)"
| "auc_output_call e (A_EnableARC h k b) = auc_forward ERROR_UNAVAILABLE (EnableARC e h k b)"
| "auc_output_call e (A_GetAudioEnablePersist h t) = auc_forward ERROR_UNAVAILABLE (GetAudioEnablePersist t)"
| "auc_output_call e (A_SetAudioEnablePersist h b t) = auc_forward ERROR_UNAVAILABLE (SetAudioEnablePersist e b t)"
| "auc_output_call e (A_IsAudioMSDecoded h) = auc_forward ERROR_UNAVAILABLE (IsAudioMSDecoded e h)"
| "auc_output_call e (A_IsAudioMS12Decoded h) = auc_forward ERROR_UNAVAILABLE (IsAudioMS12Decoded e h)"
| "auc_output_call e (A_GetAudioLEConfig h) = auc_forward ERROR_UNAVAILABLE (GetAudioLEConfig e h)"
| "auc_output_call e (A_EnableAudioLEConfig h b) = auc_forward ERROR_UNAVAILABLE (EnableAudioLEConfig e h b)"
| "auc_output_call e (A_SetAudioDelay h w) = auc_forward ERROR_UNAVAILABLE (SetAudioDelay e h w)"
| "auc_output_call e (A_GetAudioDelay h) = auc_forward ERROR_UNAVAILABLE (GetAudioDelay e h)"
| "auc_output_call e (A_SetAudioDelayOffset h w) = auc_forward ERROR_UNAVAILABLE (SetAudioDelayOffset e h w)"
| "auc_output_call e (A_GetAudioDelayOffset h) = auc_forward ERROR_UNAVAILABLE (GetAudioDelayOffset e h)"

fun auc_effect_call :: "au_env \<Rightarrow> audio_effect_request \<Rightarrow> auc_state \<Rightarrow> auc_result" where
  "auc_effect_call e (A_SetAudioCompression_level h i) = auc_forward ERROR_UNAVAILABLE (SetAudioCompression_level e h i)"
| "auc_effect_call e (A_GetAudioCompression_level h) = auc_forward ERROR_UNAVAILABLE (GetAudioCompression_level e h)"
| "auc_effect_call e (A_SetAudioDialogEnhancement h i) = auc_forward ERROR_UNAVAILABLE (SetAudioDialogEnhancement e h i)"
| "auc_effect_call e (A_GetAudioDialogEnhancement h) = auc_forward ERROR_UNAVAILABLE (GetAudioDialogEnhancement e h)"
| "auc_effect_call e (A_SetAudioDolbyVolumeMode h b) = auc_forward ERROR_UNAVAILABLE (SetAudioDolbyVolumeMode e h b)"
| "auc_effect_call e (A_GetAudioDolbyVolumeMode h) = auc_forward ERROR_UNAVAILABLE (GetAudioDolbyVolumeMode e h)"
| "auc_effect_call e (A_SetAudioIntelligentEqualizerMode h i) = auc_forward ERROR_UNAVAILABLE (SetAudioIntelligentEqualizerMode e h i)"
| "auc_effect_call e (A_GetAudioIntelligentEqualizerMode h) = auc_forward ERROR_UNAVAILABLE (GetAudioIntelligentEqualizerMode e h)"
| "auc_effect_call e (A_SetAudioVolumeLeveller h m l) = auc_forward ERROR_UNAVAILABLE (SetAudioVolumeLeveller e h m l)"
| "auc_effect_call e (A_GetAudioVolumeLeveller h) = auc_forward ERROR_UNAVAILABLE (GetAudioVolumeLeveller e h)"
| "auc_effect_call e (A_SetAudioBassEnhancer h i) = auc_forward ERROR_UNAVAILABLE (SetAudioBassEnhancer e h i)"
| "auc_effect_call e (A_GetAudioBassEnhancer h) = auc_forward ERROR_UNAVAILABLE (GetAudioBassEnhancer e h)"
| "auc_effect_call e (A_EnableAudioSurroundDecoder h b) = auc_forward ERROR_UNAVAILABLE (EnableAudioSurroudDecoder e h b)"
| "auc_effect_call e (A_IsAudioSurroundDecoderEnabled h) = auc_forward ERROR_UNAVAILABLE (IsAudioSurroudDecoderEnabled e h)"
| "auc_effect_call e (A_SetAudioDRCMode h i) = auc_forward ERROR_UNAVAILABLE (SetAudioDRCMode e h i)"
| "auc_effect_call e (A_GetAudioDRCMode h) = auc_forward ERROR_UNAVAILABLE (GetAudioDRCMode e h)"
| "auc_effect_call e (A_SetAudioSurroundVirtualizer h m l) = auc_forward ERROR_UNAVAILABLE (SetAudioSurroudVirtualizer e h m l)"
| "auc_effect_call e (A_GetAudioSurroundVirtualizer h) = auc_forward ERROR_UNAVAILABLE (GetAudioSurroudVirtualizer e h)"

fun auc_profile_call :: "au_env \<Rightarrow> audio_profile_request \<Rightarrow> auc_state \<Rightarrow> auc_result" where
  "auc_profile_call e (A_SetAudioMISteering h b) = auc_forward ERROR_UNAVAILABLE (SetAudioMISteering e h b)"
| "auc_profile_call e (A_GetAudioMISteering h) = auc_forward ERROR_UNAVAILABLE (GetAudioMISteering e h)"
| "auc_profile_call e (A_SetAudioGraphicEqualizerMode h i) = auc_forward ERROR_UNAVAILABLE (SetAudioGraphicEqualizerMode e h i)"
| "auc_profile_call e (A_GetAudioGraphicEqualizerMode h) = auc_forward ERROR_UNAVAILABLE (GetAudioGraphicEqualizerMode e h)"
| "auc_profile_call e (A_GetAudioMS12ProfileList h) = auc_forward ERROR_UNAVAILABLE (GetAudioMS12ProfileList e h)"
| "auc_profile_call e (A_GetAudioMS12Profile h) = auc_forward ERROR_UNAVAILABLE (GetAudioMS12Profile e h)"
| "auc_profile_call e (A_SetAudioMS12Profile h t) = auc_forward ERROR_UNAVAILABLE (SetAudioMS12Profile e h t)"
| "auc_profile_call e (A_SetAudioMixerLevels h i v) = auc_forward ERROR_UNAVAILABLE (SetAudioMixerLevels e h i v)"
| "auc_profile_call e (A_SetAudioMS12SettingsOverride h p n v add) = auc_forward ERROR_UNAVAILABLE (SetAudioMS12SettingsOverride e h p n v (profile_state_text add))"
| "auc_profile_call e (A_ResetAudioDialogEnhancement h) = auc_forward ERROR_UNAVAILABLE (ResetAudioDialogEnhancement e h)"
| "auc_profile_call e (A_ResetAudioBassEnhancer h) = auc_forward ERROR_UNAVAILABLE (ResetAudioBassEnhancer e h)"
| "auc_profile_call e (A_ResetAudioSurroundVirtualizer h) = auc_forward ERROR_UNAVAILABLE (ResetAudioSurroundVirtualizer e h)"
| "auc_profile_call e (A_ResetAudioVolumeLeveller h) = auc_forward ERROR_UNAVAILABLE (ResetAudioVolumeLeveller e h)"
| "auc_profile_call e (A_GetAudioHDMIARCPortId h) = auc_forward ERROR_UNAVAILABLE GetAudioHDMIARCPortId"

datatype auc_request =
    AcPort audio_port_request
  | AcOutput audio_output_request
  | AcEffect audio_effect_request
  | AcProfile audio_profile_request

fun AudioImpl_call :: "au_env \<Rightarrow> auc_request \<Rightarrow> auc_state \<Rightarrow> auc_result" where
  "AudioImpl_call e (AcPort q) = auc_port_call e q"
| "AudioImpl_call e (AcOutput q) = auc_output_call e q"
| "AudioImpl_call e (AcEffect q) = auc_effect_call e q"
| "AudioImpl_call e (AcProfile q) = auc_profile_call e q"

fun unlinked :: "auc_request \<Rightarrow> bool" where
  "unlinked (AcOutput (A_GetMS12Capabilities h)) = True"
| "unlinked _ = False"

subsection \<open>Events\<close>

text \<open>What the event handlers of \<open>Audio\<close> make of an event: a level is cut to an integer.\<close>

fun as_audio_event :: "au_env \<Rightarrow> au_call \<Rightarrow> auc_event option" where
  "as_audio_event e (EvMixing b) = Some (OnAssociatedAudioMixingChanged b)"
| "as_audio_event e (EvFader i) = Some (OnAudioFaderControlChanged i)"
| "as_audio_event e (EvPrimary t) = Some (OnAudioPrimaryLanguageChanged t)"
| "as_audio_event e (EvSecondary t) = Some (OnAudioSecondaryLanguageChanged t)"
| "as_audio_event e (EvHotPlug p n b) = Some (OnAudioOutHotPlug p n b)"
| "as_audio_event e (EvFormat f) = Some (OnAudioFormatUpdate f)"
| "as_audio_event e (EvAtmos c b) = Some (OnDolbyAtmosCapabilitiesChanged c b)"
| "as_audio_event e EvPortState = Some OnAudioPortStateChanged"
| "as_audio_event e (EvLevel x) = Some (OnAudioLevelChanged (ae_conv e x))"
| "as_audio_event e (EvMode p m) = Some (OnAudioModeEvent p m)"
| "as_audio_event e _ = None"

definition audio_events :: "au_env \<Rightarrow> au_state \<Rightarrow> au_state \<Rightarrow> auc_event list" where
  "audio_events e a b = List.map_filter (as_audio_event e) (drop (length (au_trace a)) (au_trace b))"

definition dispatchAudioEvent :: "(ptr \<Rightarrow> auc_event \<Rightarrow> reg_op list) \<Rightarrow> auc_event \<Rightarrow> auc_state \<Rightarrow> auc_state outcome" where
  "dispatchAudioEvent client ev s =
     obind (dispatchEvent client ev (AudioNotifications s)) (\<lambda>g. Ret (s\<lparr>AudioNotifications := g\<rparr>))"

text \<open>The ten \<open>On...\<close> functions, reached through a callback that belongs to an object.\<close>

definition auc_notify :: "(ptr \<Rightarrow> auc_event \<Rightarrow> reg_op list) \<Rightarrow> auc_event \<Rightarrow> auc_state \<Rightarrow> auc_state outcome" where
  "auc_notify client ev s =
     (if auc_live s = None \<or> auc_owner s \<noteq> auc_live s then UB else dispatchAudioEvent client ev s)"

fun auc_deliver :: "(ptr \<Rightarrow> auc_event \<Rightarrow> reg_op list) \<Rightarrow> auc_event list \<Rightarrow> auc_state \<Rightarrow> auc_state outcome" where
  "auc_deliver client [] s = Ret s"
| "auc_deliver client (ev # evs) s = obind (auc_notify client ev s) (auc_deliver client evs)"

subsection \<open>Objects and histories\<close>

text \<open>The platform starts first; then the object takes the callbacks.\<close>

definition auc_create :: "au_env \<Rightarrow> (ptr \<Rightarrow> auc_event \<Rightarrow> reg_op list) \<Rightarrow> nat \<Rightarrow> auc_state \<Rightarrow> auc_state outcome" where
  "auc_create e client i s =
     (let a = dAudioImpl_create e (auc_audio s)
      in obind (auc_deliver client (audio_events e (auc_audio s) a) (s\<lparr>auc_audio := a\<rparr>)) (\<lambda>t.
        Ret (t\<lparr>auc_audio := Platform_init (auc_audio t), auc_live := Some i, auc_owner := Some i\<rparr>)))"

text \<open>The destructor drops the list of clients without releasing them.\<close>

definition auc_destroy :: "au_env \<Rightarrow> auc_state \<Rightarrow> auc_state" where
  "auc_destroy e s = s\<lparr>auc_audio := dAudioImpl_destroy e (auc_audio s),
     AudioNotifications := (AudioNotifications s)\<lparr>rg_list := []\<rparr>, auc_live := None\<rparr>"

datatype audio_report =
    ReportHotPlug dsAudioPortType "32 word" bool
  | ReportFormat int
  | ReportAtmos int bool

text \<open>The HAL reports what it was asked to report.\<close>

fun report_symbol :: "audio_report \<Rightarrow> string" where
  "report_symbol (ReportHotPlug p n b) = ''dsAudioOutRegisterConnectCB''"
| "report_symbol (ReportFormat f) = ''dsAudioFormatUpdateRegisterCB''"
| "report_symbol (ReportAtmos c b) = ''dsAudioAtmosCapsChangeRegisterCB''"

fun audio_reported :: "audio_report \<Rightarrow> au_state \<Rightarrow> au_state" where
  "audio_reported (ReportHotPlug p n b) a = audioOutPortConnectCallback p n b a"
| "audio_reported (ReportFormat f) a = audioFormatUpdateCallback f a"
| "audio_reported (ReportAtmos c b) a = audioAtmosCapsChangeCallback c b a"

datatype auc_op = AcCreate | AcDestroy | AcRequest auc_request | AcClient reg_op | AcReport audio_report | AcThread

text \<open>The \<open>i\<close>-th step creates object \<open>i\<close>.\<close>

fun auc_do :: "au_env \<Rightarrow> (ptr \<Rightarrow> auc_event \<Rightarrow> reg_op list) \<Rightarrow> nat \<Rightarrow> auc_op \<Rightarrow> auc_state \<Rightarrow> auc_state outcome" where
  "auc_do e client i AcCreate s = (if auc_live s = None then auc_create e client i s else Ret s)"
| "auc_do e client i AcDestroy s = Ret (if auc_live s = None then s else auc_destroy e s)"
| "auc_do e client i (AcRequest q) s =
     (if auc_live s = None then Ret s
      else obind (AudioImpl_call e q s) (\<lambda>(r, out, t). auc_deliver client (audio_events e (auc_audio s) (auc_audio t)) t))"
| "auc_do e client i (AcClient a) s =
     (if auc_live s = None then Ret s
      else obind (do_op a (AudioNotifications s)) (\<lambda>g. Ret (s\<lparr>AudioNotifications := g\<rparr>)))"
| "auc_do e client i (AcReport rp) s =
     (if AuRegister (report_symbol rp) \<notin> set (au_trace (auc_audio s)) then Ret s
      else let a = audio_reported rp (auc_audio s)
           in auc_deliver client (audio_events e (auc_audio s) a) (s\<lparr>auc_audio := a\<rparr>))"
| "auc_do e client i AcThread s = Ret (case lt_next e (auc_audio s) of
       None \<Rightarrow> s | Some a \<Rightarrow> s\<lparr>auc_audio := a\<rparr>)"

fun auc_run :: "au_env \<Rightarrow> (ptr \<Rightarrow> auc_event \<Rightarrow> reg_op list) \<Rightarrow> nat \<Rightarrow> auc_op list \<Rightarrow> auc_state \<Rightarrow> auc_state outcome" where
  "auc_run e client i [] s = Ret s"
| "auc_run e client i (c # cs) s = obind (auc_do e client i c s) (auc_run e client (Suc i) cs)"


subsection \<open>What the operations keep\<close>

lemma auc_map_filter_app: "List.map_filter f (xs @ ys) = List.map_filter f xs @ List.map_filter f ys"
  by (simp add: List.map_filter_def)

lemma auc_event_iff: "as_audio_event e c = None \<longleftrightarrow> \<not> au_is_event c"
  by (cases c) simp_all

lemma auc_no_events: "\<forall>c \<in> set cs. unheard c \<Longrightarrow> List.map_filter (as_audio_event e) cs = []"
  by (auto simp: List.map_filter_def unheard_def auc_event_iff)

lemma audio_events_app: "au_trace b = au_trace a @ cs \<Longrightarrow> audio_events e a b = List.map_filter (as_audio_event e) cs"
  by (simp add: audio_events_def)

text \<open>
  Constructing the platform: a HAL that refuses to start is heard of by nobody; one that starts
  is asked for its three kinds of reports, and the start is reported if a callback is set.
\<close>

lemma auc_create_refused:
  assumes "ae_ret e (au_trace a) AuInit \<noteq> DsERR_NONE"
  shows "audio_events e a (dAudioImpl_create e a) = []"
    and "au_callback (dAudioImpl_create e a) = au_callback a"
    and "au_trace (dAudioImpl_create e a) = au_trace a @ [AuInit]"
proof -
  have t: "au_trace (dAudioImpl_create e a) = au_trace a @ [AuInit]"
    and c: "au_callback (dAudioImpl_create e a) = au_callback a"
    using assms by (simp_all add: dAudioImpl_create_def dAudioImpl_new_def InitialiseHAL_def au_do_def au_log_def)
  from t c show "audio_events e a (dAudioImpl_create e a) = []"
    "au_trace (dAudioImpl_create e a) = au_trace a @ [AuInit]"
    "au_callback (dAudioImpl_create e a) = au_callback a"
    by (simp_all add: audio_events_def List.map_filter_def)
qed

lemma auc_create_accepted:
  assumes "ae_ret e (au_trace a) AuInit = DsERR_NONE"
  shows "audio_events e a (dAudioImpl_create e a) = (if au_callback a CB_PortState then [OnAudioPortStateChanged] else [])"
    and "au_callback (dAudioImpl_create e a) = au_callback a"
    and "\<forall>rp. AuRegister (report_symbol rp) \<in> set (au_trace (dAudioImpl_create e a))"
proof -
  let ?s = "(dAudioImpl_new a)\<lparr>au_store := hp_load (au_store a)\<rparr>"
  let ?s2 = "(au_log AuInit ?s)\<lparr>au_isInitialized := True\<rparr>"
  let ?s3 = "if ae_persist e then startAudioLevelPersistThread ?s2 else ?s2"
  let ?u = "audioConfigInit e (initializeAudioSettings e ?s3)"
  let ?t = "snd (registerHALCallbacks e ?u)"
  have s3: "au_callback ?s3 = au_callback a" "au_trace ?s3 = au_trace a @ [AuInit]"
    by (simp_all add: startAudioLevelPersistThread_def au_log_def dAudioImpl_new_def)
  have k: "au_keeps unheard UNIV ?s3 ?t" by (rule keeps_config)
  from keeps_trace [OF this] obtain cs where
    cs: "au_trace ?t = au_trace ?s3 @ cs" "\<forall>c \<in> set cs. unheard c" by blast
  have cb: "au_callback ?t = au_callback a" using k s3(1) by (simp add: au_keeps_def)
  have c: "dAudioImpl_create e a = au_event CB_PortState EvPortState ?t"
    using assms by (simp add: dAudioImpl_create_def InitialiseHAL_def au_do_def Let_def) (simp add: dAudioImpl_new_def)
  have trace: "au_trace (dAudioImpl_create e a)
      = au_trace a @ [AuInit] @ cs @ (if au_callback a CB_PortState then [EvPortState] else [])"
    using cs s3(2) cb by (simp add: c au_event_more)
  show "audio_events e a (dAudioImpl_create e a) = (if au_callback a CB_PortState then [OnAudioPortStateChanged] else [])"
    using auc_no_events [OF cs(2), of e] by (simp add: audio_events_app [OF trace] auc_map_filter_app List.map_filter_def)
  show "au_callback (dAudioImpl_create e a) = au_callback a" using cb by (simp add: c au_event_more)
  have "AuRegister (report_symbol rp) \<in> set (au_trace ?t)" for rp
    by (cases rp) (simp_all add: registerHALCallbacks_def au_do_def au_log_def)
  then show "\<forall>rp. AuRegister (report_symbol rp) \<in> set (au_trace (dAudioImpl_create e a))"
    by (auto simp: c au_event_more)
qed

text \<open>Every request that has a body is a query or a command of \<open>Audio\<close>.\<close>

lemma auc_request_forwarded:
  assumes "\<not> unlinked q"
  shows "\<exists>err meth. AudioImpl_call e q = auc_forward err meth \<and> (Audio_query e err meth \<or> Audio_command e err meth)"
proof (cases q)
  case (AcPort x)
  show ?thesis unfolding AcPort by (cases x; simp; blast intro: Audio_query.intros Audio_command.intros)
next
  case (AcOutput x)
  then show ?thesis using assms unfolding AcOutput
    by (cases x; simp; blast intro: Audio_query.intros Audio_command.intros)
next
  case (AcEffect x)
  show ?thesis unfolding AcEffect by (cases x; simp; blast intro: Audio_query.intros Audio_command.intros)
next
  case (AcProfile x)
  show ?thesis unfolding AcProfile by (cases x; simp; blast intro: Audio_query.intros Audio_command.intros)
qed

lemma auc_unlinked_call: "unlinked q \<Longrightarrow> AudioImpl_call e q s = UB"
  by (cases q rule: unlinked.cases) simp_all

lemma auc_request_keeps:
  assumes "\<not> unlinked q"
  shows "\<exists>r out a. AudioImpl_call e q s = Ret (r, out, s\<lparr>auc_audio := a\<rparr>) \<and> au_keeps ordinary UNIV (auc_audio s) a"
proof -
  obtain err meth where m: "AudioImpl_call e q = auc_forward err meth" "Audio_query e err meth \<or> Audio_command e err meth"
    using auc_request_forwarded [OF assms] by blast
  have "audio_step e (auc_audio s) (snd (snd (Audio_call True err meth (auc_audio s))))"
    using m(2) by (auto intro: audio_step.intros)
  then have "au_keeps ordinary UNIV (auc_audio s) (snd (snd (Audio_call True err meth (auc_audio s))))"
    by (rule audio_step_keeps)
  then show ?thesis by (auto simp: m(1) auc_forward_def Let_def case_prod_unfold)
qed


subsection \<open>Which histories are harmless\<close>

text \<open>
  What is known of a state: whether an object lives and whether there ever was one that started.
  An object that lives has the callbacks; the HAL has been asked for its reports.
\<close>

definition auc_view :: "bool \<Rightarrow> bool \<Rightarrow> auc_state \<Rightarrow> bool" where
  "auc_view live had s \<longleftrightarrow> (\<exists>base. reg_inv base [] (AudioNotifications s))
     \<and> (auc_live s \<noteq> None) = live \<and> (auc_owner s \<noteq> None) = had \<and> (live \<longrightarrow> auc_owner s = auc_live s)
     \<and> au_callback (auc_audio s) = (\<lambda>_. had)
     \<and> (had \<longrightarrow> (\<forall>rp. AuRegister (report_symbol rp) \<in> set (au_trace (auc_audio s))))"

text \<open>
  The steps that do harm: a second object (the platform reports its start to the first one), the
  method without a body, and a report of the HAL while no object lives but one did.
\<close>

fun auc_harm :: "bool \<Rightarrow> bool \<Rightarrow> auc_op list \<Rightarrow> bool" where
  "auc_harm live had [] = False"
| "auc_harm live had (AcCreate # cs) = (if live then auc_harm live had cs else had \<or> auc_harm True True cs)"
| "auc_harm live had (AcDestroy # cs) = auc_harm False had cs"
| "auc_harm live had (AcRequest q # cs) = (live \<and> unlinked q \<or> auc_harm live had cs)"
| "auc_harm live had (AcClient a # cs) = auc_harm live had cs"
| "auc_harm live had (AcReport rp # cs) = (\<not> live \<and> had \<or> auc_harm live had cs)"
| "auc_harm live had (AcThread # cs) = auc_harm live had cs"

lemma auc_view_audio:
  assumes "auc_view live had s" and "au_callback a = au_callback (auc_audio s)"
    and "set (au_trace (auc_audio s)) \<subseteq> set (au_trace a)"
  shows "auc_view live had (s\<lparr>auc_audio := a\<rparr>)"
  using assms by (auto simp: auc_view_def)

lemma auc_view_keeps: "auc_view live had s \<Longrightarrow> au_keeps P K (auc_audio s) a \<Longrightarrow> auc_view live had (s\<lparr>auc_audio := a\<rparr>)"
  by (rule auc_view_audio) (auto simp: au_keeps_def)

lemma auc_deliver_live:
  "auc_view True had s \<Longrightarrow> \<exists>t. auc_deliver client evs s = Ret t \<and> auc_view True had t"
proof (induction evs arbitrary: s)
  case (Cons ev evs)
  from Cons.prems obtain base where base: "reg_inv base [] (AudioNotifications s)"
    and o: "auc_live s \<noteq> None" "auc_owner s = auc_live s" by (auto simp: auc_view_def)
  from dispatchEvent_inv [OF base, of client ev] obtain g where
    g: "dispatchEvent client ev (AudioNotifications s) = Ret g" "reg_inv base [] g" by blast
  have "auc_view True had (s\<lparr>AudioNotifications := g\<rparr>)" using Cons.prems g(2) by (auto simp: auc_view_def)
  from Cons.IH [OF this] show ?case using o g(1) by (simp add: auc_notify_def dispatchAudioEvent_def)
qed simp

lemma auc_deliver_dead: "auc_live s = None \<Longrightarrow> evs \<noteq> [] \<Longrightarrow> auc_deliver client evs s = UB"
  by (cases evs) (simp_all add: auc_notify_def)

lemma auc_view_create:
  assumes "auc_view False had s" and "\<forall>t. ae_ret e t AuInit = DsERR_NONE"
  shows "if had then auc_do e client i AcCreate s = UB else \<exists>t. auc_do e client i AcCreate s = Ret t \<and> auc_view True True t"
proof -
  have s: "auc_live s = None" "au_callback (auc_audio s) = (\<lambda>_. had)" "\<exists>base. reg_inv base [] (AudioNotifications s)"
    using assms(1) by (auto simp: auc_view_def)
  note c = auc_create_accepted [of e "auc_audio s"]
  show ?thesis
  proof (cases had)
    case True
    then have "audio_events e (auc_audio s) (dAudioImpl_create e (auc_audio s)) \<noteq> []" using c(1) assms(2) s(2) by simp
    then show ?thesis using True s(1) by (simp add: auc_create_def Let_def auc_deliver_dead)
  next
    case False
    then have "audio_events e (auc_audio s) (dAudioImpl_create e (auc_audio s)) = []" using c(1) assms(2) s(2) by simp
    then show ?thesis using False s c(3) assms(2)
      by (auto simp: auc_create_def auc_view_def Platform_init_def setAllCallbacks_def)
  qed
qed

lemma auc_destroy_audio:
  "au_callback (dAudioImpl_destroy e a) = au_callback a" "set (au_trace a) \<subseteq> set (au_trace (dAudioImpl_destroy e a))"
  by (auto simp: dAudioImpl_destroy_def stopAudioLevelPersistThread_def lt_notify_def au_do_def au_log_def Let_def
      split: level_thread.split)

text \<open>The clients that are registered when an object ends keep the reference it took.\<close>

lemma auc_destroy_registry:
  assumes "reg_inv base [] g"
  shows "reg_inv (\<lambda>p. base p + (if p \<in> set (reg_members g) then 1 else 0)) [] (g\<lparr>rg_list := []\<rparr>)"
  using assms by (auto simp: reg_inv_def reg_members_def registered_map)

lemma auc_view_destroy: "auc_view True had s \<Longrightarrow> auc_view False had (auc_destroy e s)"
  using auc_destroy_audio [where e = e and a = "auc_audio s"] auc_destroy_registry [of _ "AudioNotifications s"]
  by (fastforce simp: auc_view_def auc_destroy_def)

lemma auc_view_request:
  assumes "auc_view True had s"
  shows "if unlinked q then auc_do e client i (AcRequest q) s = UB
    else \<exists>t. auc_do e client i (AcRequest q) s = Ret t \<and> auc_view True had t"
proof (cases "unlinked q")
  case True
  then show ?thesis using assms by (auto simp: auc_unlinked_call auc_view_def)
next
  case False
  from auc_request_keeps [OF this, of e s] obtain r out a where
    a: "AudioImpl_call e q s = Ret (r, out, s\<lparr>auc_audio := a\<rparr>)" "au_keeps ordinary UNIV (auc_audio s) a" by blast
  from auc_deliver_live [OF auc_view_keeps [OF assms a(2)], of client "audio_events e (auc_audio s) a"] show ?thesis
    using False a(1) assms by (auto simp: auc_view_def)
qed

lemma auc_view_client:
  assumes "auc_view live had s"
  shows "\<exists>t. auc_do e client i (AcClient x) s = Ret t \<and> auc_view live had t"
proof (cases live)
  case True
  from assms obtain base where base: "reg_inv base [] (AudioNotifications s)" by (auto simp: auc_view_def)
  from do_op_inv [OF this, of x] obtain g where "do_op x (AudioNotifications s) = Ret g" "reg_inv base [] g" by blast
  then show ?thesis using assms True by (auto simp: auc_view_def)
next
  case False
  then show ?thesis using assms by (simp add: auc_view_def)
qed

lemma auc_reported_event:
  "audio_reported rp a = (if au_callback a (case rp of ReportHotPlug _ _ _ \<Rightarrow> CB_HotPlug | ReportFormat _ \<Rightarrow> CB_Format
       | ReportAtmos _ _ \<Rightarrow> CB_Atmos)
     then au_more [case rp of ReportHotPlug p n b \<Rightarrow> EvHotPlug (hotplug_port p) (uint n) b | ReportFormat f \<Rightarrow> EvFormat f
       | ReportAtmos c b \<Rightarrow> EvAtmos c b] a else a)"
  by (cases rp) (simp_all add: audioOutPortConnectCallback_def audioFormatUpdateCallback_def
      audioAtmosCapsChangeCallback_def au_event_more)

lemma auc_view_report:
  assumes "auc_view live had s"
  shows "if \<not> live \<and> had then auc_do e client i (AcReport rp) s = UB
    else \<exists>t. auc_do e client i (AcReport rp) s = Ret t \<and> auc_view live had t"
proof (cases had)
  case False
  then have "audio_reported rp (auc_audio s) = auc_audio s" using assms by (simp add: auc_reported_event auc_view_def)
  then show ?thesis using False assms by (auto simp: audio_events_def List.map_filter_def)
next
  case True
  let ?a = "audio_reported rp (auc_audio s)"
  have cb: "au_callback (auc_audio s) = (\<lambda>_. True)"
    and asked: "AuRegister (report_symbol rp) \<in> set (au_trace (auc_audio s))"
    and live: "(auc_live s \<noteq> None) = live"
    using assms True by (auto simp: auc_view_def)
  have evs: "audio_events e (auc_audio s) ?a \<noteq> []"
    using cb by (cases rp) (simp_all add: auc_reported_event audio_events_def List.map_filter_def)
  have v: "auc_view live had (s\<lparr>auc_audio := ?a\<rparr>)"
    by (rule auc_view_audio [OF assms]) (auto simp: auc_reported_event)
  show ?thesis
  proof (cases live)
    case True
    with auc_deliver_live [of had "s\<lparr>auc_audio := ?a\<rparr>" client "audio_events e (auc_audio s) ?a"] v show ?thesis
      using asked by (simp add: Let_def)
  next
    case False
    then show ?thesis using asked evs live \<open>had\<close> by (simp add: Let_def auc_deliver_dead)
  qed
qed

lemma auc_view_thread: "auc_view live had s \<Longrightarrow> \<exists>t. auc_do e client i AcThread s = Ret t \<and> auc_view live had t"
  by (auto split: option.split dest!: lt_next_keeps intro: auc_view_keeps)

lemma auc_run_harm:
  assumes "\<forall>t. ae_ret e t AuInit = DsERR_NONE"
  shows "auc_view live had s \<Longrightarrow> live \<longrightarrow> had \<Longrightarrow> (if auc_harm live had cs then auc_run e client i cs s = UB
     else \<exists>t. auc_run e client i cs s = Ret t)"
proof (induction cs arbitrary: live had i s)
  case (Cons c cs)
  have live: "(auc_live s \<noteq> None) = live" using Cons.prems by (simp add: auc_view_def)
  have step: ?case if "auc_do e client i c s = Ret t" "auc_view live' had' t" "live' \<longrightarrow> had'"
      "auc_harm live had (c # cs) = auc_harm live' had' cs" for t live' had'
    using Cons.IH [OF that(2,3), of "Suc i"] that(1,4) by simp
  show ?case
  proof (cases c)
    case AcCreate
    show ?thesis
    proof (cases live)
      case True
      then show ?thesis using AcCreate live Cons.prems by (intro step [of s live had]) auto
    next
      case False
      with Cons.prems have "auc_view False had s" by simp
      from auc_view_create [OF this assms, of client i] show ?thesis
        using AcCreate False step [of _ True True] by (cases had) auto
    qed
  next
    case AcDestroy
    show ?thesis
    proof (cases live)
      case True
      with Cons.prems auc_view_destroy [of had s e] live show ?thesis
        using AcDestroy by (intro step [of "auc_destroy e s" False had]) auto
    next
      case False
      then show ?thesis using AcDestroy live Cons.prems by (intro step [of s False had]) auto
    qed
  next
    case (AcRequest q)
    show ?thesis
    proof (cases live)
      case True
      with Cons.prems have "auc_view True had s" by simp
      from auc_view_request [OF this, of q e client i] show ?thesis
        using AcRequest True Cons.prems(2) step [of _ True had] by (cases "unlinked q") auto
    next
      case False
      then show ?thesis using AcRequest live Cons.prems by (intro step [of s live had]) auto
    qed
  next
    case (AcClient a)
    from auc_view_client [OF Cons.prems(1), of e client i a] obtain t where
      "auc_do e client i c s = Ret t" "auc_view live had t" unfolding AcClient by blast
    with Cons.prems(2) show ?thesis by (intro step [of t live had]) (simp_all add: AcClient)
  next
    case (AcReport rp)
    with auc_view_report [OF Cons.prems(1), of e client i rp] Cons.prems(2) step [of _ live had] show ?thesis
      by (cases "\<not> live \<and> had") auto
  next
    case AcThread
    from auc_view_thread [OF Cons.prems(1), of e client i] obtain t where
      "auc_do e client i c s = Ret t" "auc_view live had t" unfolding AcThread by blast
    with Cons.prems(2) show ?thesis by (intro step [of t live had]) (simp_all add: AcThread)
  qed
qed simp


subsection \<open>Who is told of a changed setting\<close>

text \<open>The requests that report what they changed, and what they report.\<close>

fun audio_change :: "audio_port_request \<Rightarrow> auc_event option" where
  "audio_change (A_SetAssociatedAudioMixing h b) = Some (OnAssociatedAudioMixingChanged b)"
| "audio_change (A_SetAudioFaderControl h i) = Some (OnAudioFaderControlChanged i)"
| "audio_change (A_SetAudioPrimaryLanguage h t) = Some (OnAudioPrimaryLanguageChanged t)"
| "audio_change (A_SetAudioSecondaryLanguage h t) = Some (OnAudioSecondaryLanguageChanged t)"
| "audio_change _ = None"

lemma auc_persist_trace [simp]: "au_trace (snd (au_persist e kvs a)) = au_trace a"
  by (induction e kvs a rule: au_persist.induct) (auto simp: au_persist.simps Let_def split: outcome.split prod.split)

lemma auc_persist_callback [simp]: "au_callback (snd (au_persist e kvs a)) = au_callback a"
  by (induction e kvs a rule: au_persist.induct) (auto simp: au_persist.simps Let_def split: outcome.split prod.split)

lemma auc_set_events:
  assumes "au_callback a cb" and "as_audio_event e c = None"
  shows "audio_events e a (snd (snd (au_set e g f c (fixed l) (au_event cb ev) a)))
     = (if fst (au_set e g f c (fixed l) (au_event cb ev) a) = ERROR_NONE then List.map_filter (as_audio_event e) [ev] else [])"
  using assms
  by (simp add: au_set_def au_finish_def fixed_def au_fail_def au_done_def audio_events_def au_event_more au_log_more
      List.map_filter_def Let_def case_prod_unfold)

lemma au_set_silent: "fst (snd (au_set e guarded f c kvs k s)) = None"
  by (simp add: au_set_def au_finish_def au_done_def au_fail_def Let_def case_prod_unfold)

lemma auc_change_events:
  assumes "audio_change q = Some ev" and "au_callback (auc_audio s) = (\<lambda>_. True)"
  shows "\<exists>r a. AudioImpl_call e (AcPort q) s = Ret (r, None, s\<lparr>auc_audio := a\<rparr>)
     \<and> audio_events e (auc_audio s) a = (if r = ERROR_NONE then [ev] else [])"
  using assms
  by (cases q) (auto simp: auc_forward_def Audio_call_def Let_def case_prod_unfold auc_set_events au_set_silent List.map_filter_def
      SetAssociatedAudioMixing_def SetAudioFaderControl_def SetAudioPrimaryLanguage_def SetAudioSecondaryLanguage_def)

subsection \<open>Properties\<close>



text \<open>
  C17. Who is told of a changed setting. When the mixing, the fader or a language is set through a
  living object, every client registered at that moment is called once, in the order they
  registered, with the new value, if the request answers success; otherwise nobody is called. (A
  request the HAL accepted and the store refused answers an error.)
\<close>

theorem audio_change_told:
  assumes "auc_view True True s" and "audio_change q = Some ev"
    and "AudioImpl_call e (AcPort q) s = Ret (r, out, u)" and "auc_do e client i (AcRequest (AcPort q)) s = Ret t"
  shows "rg_calls (AudioNotifications t) = rg_calls (AudioNotifications s)
     @ (if r = ERROR_NONE then map (\<lambda>p. (p, ev)) (reg_members (AudioNotifications s)) else [])"
proof -
  have cb: "au_callback (auc_audio s) = (\<lambda>_. True)" and live: "auc_live s \<noteq> None" "auc_owner s = auc_live s"
    using assms(1) by (auto simp: auc_view_def)
  from assms(1) obtain base where base: "reg_inv base [] (AudioNotifications s)" by (auto simp: auc_view_def)
  from auc_change_events [OF assms(2) cb, of e] assms(3) obtain a where
    a: "u = s\<lparr>auc_audio := a\<rparr>" "audio_events e (auc_audio s) a = (if r = ERROR_NONE then [ev] else [])" by auto
  from dispatchEvent_inv [OF base, of client ev] obtain g where
    g: "dispatchEvent client ev (AudioNotifications s) = Ret g"
      "rg_calls g = rg_calls (AudioNotifications s) @ map (\<lambda>n. (snd n, ev)) (rg_list (AudioNotifications s))" by blast
  show ?thesis
    using assms(3,4) live a g
    by (auto simp: auc_notify_def dispatchAudioEvent_def reg_members_def split: if_splits)
qed

theorem audio_change_told_witness:
  defines "e \<equiv> sample_hal False"
  defines "a \<equiv> (Platform_init (au_static e (hp_new ''f'' (\<lambda>_. None))))\<lparr>au_isInitialized := True,
     au_trace := map AuRegister [''dsAudioOutRegisterConnectCB'', ''dsAudioFormatUpdateRegisterCB'', ''dsAudioAtmosCapsChangeRegisterCB'']\<rparr>"
  defines "s \<equiv> \<lparr>auc_audio = a, AudioNotifications = snd (Register ''app'' 7 (reg_empty (\<lambda>_. 1))), auc_live = Some 0, auc_owner = Some 0\<rparr>"
  shows "\<exists>t. auc_do e (\<lambda>_ _. []) 1 (AcRequest (AcPort (A_SetAssociatedAudioMixing 1 True))) s = Ret t
     \<and> rg_calls (AudioNotifications t) = [(7, OnAssociatedAudioMixingChanged True)]"
proof -
  have asked: "AuRegister (report_symbol rp) \<in> set (au_trace a)" for rp by (cases rp) (simp_all add: a_def)
  have "au_callback a = (\<lambda>_. True)" by (simp add: a_def Platform_init_def setAllCallbacks_def)
  with asked reg_inv_Register [OF reg_inv_empty, of _ "''app''" 7] have v: "auc_view True True s"
    by (auto simp: auc_view_def s_def)
  from auc_view_request [OF this, of "AcPort (A_SetAssociatedAudioMixing 1 True)" e "\<lambda>_ _. []" 1] obtain t where
    t: "auc_do e (\<lambda>_ _. []) 1 (AcRequest (AcPort (A_SetAssociatedAudioMixing 1 True))) s = Ret t" by auto
  have "au_isInitialized a" by (simp add: a_def)
  then obtain u where u: "AudioImpl_call e (AcPort (A_SetAssociatedAudioMixing 1 True)) s = Ret (ERROR_NONE, None, u)"
    by (simp add: s_def e_def auc_forward_def Audio_call_def SetAssociatedAudioMixing_def au_set_def au_usable_def
        au_ok_def au_finish_def au_done_def Let_def)
  from audio_change_told [OF v _ u t, of "OnAssociatedAudioMixingChanged True"] t show ?thesis
    by (simp add: s_def Register_def AddRef_def reg_empty_def reg_members_def registered_def)
qed

end
