(* ===== verification/HAL_Config.thy ===== *)
theory HAL_Config
  imports DS_Prelude "HOL-Library.Word"
begin

section \<open>Configuration tables of the HAL library (\<open>DeviceSettingsHALConfig.cpp\<close>)\<close>

text \<open>
  The HAL library exports tables (arrays with a size variable each); the functions here open
  the library, look the symbols up, copy the tables and close the library. The library is an
  argument: \<open>None\<close> if it cannot be opened, else which symbols it has and the tables. Reading
  an array past its end is undefined behaviour (\<open>UB\<close>). The number of open handles of the
  library is threaded through, as \<open>dlopen\<close> and \<open>dlclose\<close> count it.
\<close>

unbundle bit_operations_syntax

subsection \<open>The library\<close>

record fpd_color_cfg =
  fc_id :: int
  fc_color :: int

record fpd_indicator_cfg =
  fi_id :: int
  fi_maxBrightness :: int
  fi_maxCycleRate :: int
  fi_minBrightness :: int
  fi_levels :: int
  fi_colorMode :: int
  fi_supportedColors :: bool

record fpd_text_cfg =
  ft_id :: int
  ft_name :: "string option"
  ft_maxBrightness :: int
  ft_maxCycleRate :: int
  ft_supportedCharacters :: "string option"
  ft_columns :: int
  ft_rows :: int
  ft_maxHorizontalIterations :: int
  ft_maxVerticalIterations :: int
  ft_levels :: int
  ft_colorMode :: int
  ft_supportedColors :: bool

record audio_type_cfg =
  ac_typeId :: int
  ac_name :: "string option"
  ac_compressions :: "int list option"
  ac_numSupportedCompressions :: int
  ac_encodings :: "int list option"
  ac_numSupportedEncodings :: int
  ac_stereoModes :: "int list option"
  ac_numSupportedStereoModes :: int

record audio_port_cfg =
  ap_type :: int
  ap_index :: int
  ap_connectedVOPs :: "(int \<times> int) option"

record video_type_cfg =
  vt_typeId :: int
  vt_name :: "string option"
  vt_dtcpSupported :: bool
  vt_hdcpSupported :: bool
  vt_restrictedResolution :: int
  vt_supportedResolutions :: "string list option"
  vt_numSupportedResolutions :: int

record video_port_cfg =
  vo_type :: int
  vo_index :: int
  vo_connectedAOP :: "int \<times> int"
  vo_defaultResolution :: "string option"

record resolution_cfg =
  rs_name :: string
  rs_pixelResolution :: int
  rs_aspectRatio :: int
  rs_stereoScopicMode :: int
  rs_frameRate :: int
  rs_interlaced :: bool

record video_device_cfg =
  vd_numSupportedDFCs :: int
  vd_supportedDFCs :: "int list option"
  vd_defaultDFC :: int

record hal_lib =
  hl_symbol :: "string \<Rightarrow> bool"
  kFPDIndicatorColors :: "fpd_color_cfg list"
  kFPDIndicatorColors_size :: int
  kIndicators :: "fpd_indicator_cfg list"
  kIndicators_size :: int
  kFPDTextDisplays :: "fpd_text_cfg list"
  kFPDTextDisplays_size :: int
  kAudioConfigs :: "audio_type_cfg list"
  kAudioConfigs_size :: int
  kAudioPorts :: "audio_port_cfg list"
  kAudioPorts_size :: int
  kVideoPortConfigs :: "video_type_cfg list"
  kVideoPortConfigs_size :: int
  kVideoPortPorts :: "video_port_cfg list"
  kVideoPortPorts_size :: int
  kResolutionsSettings :: "resolution_cfg list"
  kResolutionsSettings_size :: int
  kVideoDeviceConfigs :: "video_device_cfg list"
  kVideoDeviceConfigs_size :: int

text \<open>The first \<open>n\<close> elements of a C array.\<close>

definition c_read :: "int \<Rightarrow> 'a list \<Rightarrow> 'a list outcome" where
  "c_read n xs = (if n \<le> int (length xs) then Ret (take (nat n) xs) else UB)"

fun omap :: "('a \<Rightarrow> 'b outcome) \<Rightarrow> 'a list \<Rightarrow> 'b list outcome" where
  "omap f [] = Ret []"
| "omap f (x # xs) = obind (f x) (\<lambda>y. obind (omap f xs) (\<lambda>ys. Ret (y # ys)))"

subsection \<open>Looking the symbols up\<close>

text \<open>
  \<open>LoadDLSymbols\<close>: entries without name or target are skipped (and then the count cannot be
  reached); \<open>None\<close> is a null handle.
\<close>

definition LoadDLSymbols :: "(string \<Rightarrow> bool) option \<Rightarrow> (string option \<times> bool) list \<Rightarrow> bool" where
  "LoadDLSymbols dl symbols = (case dl of
       None \<Rightarrow> False
     | Some dlsym \<Rightarrow>
         (let currentSymbols = fold (\<lambda>(name, dataptr) n. case name of
                  Some s \<Rightarrow> if dataptr \<and> dlsym s then n + 1 else n
                | None \<Rightarrow> n) symbols (0 :: nat)
          in 0 < length symbols \<and> currentSymbols = length symbols))"

text \<open>
  A loader: open, look up, and close again unless all symbols are there. The result tells
  whether the tables can be read, and the number of open handles.
\<close>

definition load_config :: "string list \<Rightarrow> hal_lib option \<Rightarrow> nat \<Rightarrow> bool \<times> nat" where
  "load_config names lib handles = (case lib of
       None \<Rightarrow> (False, handles)
     | Some l \<Rightarrow>
         (let opened = handles + 1;
              isSymbolsLoaded = LoadDLSymbols (Some (hl_symbol l)) (map (\<lambda>n. (Some n, True)) names)
          in if \<not> isSymbolsLoaded then (False, opened - 1)
             else if \<exists>n \<in> set names. \<not> hl_symbol l n then (False, opened - 1)
             else (True, opened)))"

definition sym :: "string \<Rightarrow> string" where
  "sym n = n @ CHR 0x5F # ''size''"

definition fpd_symbols :: "string list" where
  "fpd_symbols = [''kFPDIndicatorColors'', sym ''kFPDIndicatorColors'', ''kIndicators'', sym ''kIndicators'',
     ''kFPDTextDisplays'', sym ''kFPDTextDisplays'']"

definition LoadFrontPanelConfigFromHAL :: "hal_lib option \<Rightarrow> nat \<Rightarrow> bool \<times> nat" where
  "LoadFrontPanelConfigFromHAL = load_config fpd_symbols"

definition audio_symbols :: "string list" where
  "audio_symbols = [''kAudioConfigs'', ''kAudioPorts'', sym ''kAudioConfigs'', sym ''kAudioPorts'']"

definition LoadAudioConfigFromHAL :: "hal_lib option \<Rightarrow> nat \<Rightarrow> bool \<times> nat" where
  "LoadAudioConfigFromHAL = load_config audio_symbols"

definition video_port_symbols :: "string list" where
  "video_port_symbols = [''kVideoPortConfigs'', sym ''kVideoPortConfigs'', ''kVideoPortPorts'',
     sym ''kVideoPortPorts'', ''kResolutionsSettings'', sym ''kResolutionsSettings'']"

definition LoadVideoPortConfigFromHAL :: "hal_lib option \<Rightarrow> nat \<Rightarrow> bool \<times> nat" where
  "LoadVideoPortConfigFromHAL = load_config video_port_symbols"

definition video_device_symbols :: "string list" where
  "video_device_symbols = [''kVideoDeviceConfigs'', sym ''kVideoDeviceConfigs'']"

definition LoadVideoDeviceConfigFromHAL :: "hal_lib option \<Rightarrow> nat \<Rightarrow> bool \<times> nat" where
  "LoadVideoDeviceConfigFromHAL = load_config video_device_symbols"

text \<open>Load, copy with \<open>copy\<close> if that succeeded (and close), else \<open>nothing\<close>.\<close>

definition populate ::
  "(hal_lib option \<Rightarrow> nat \<Rightarrow> bool \<times> nat) \<Rightarrow> 'a \<Rightarrow> (hal_lib \<Rightarrow> 'a outcome) \<Rightarrow> hal_lib option \<Rightarrow> nat
    \<Rightarrow> 'a outcome \<times> nat" where
  "populate load nothing copy lib handles =
     (let (loadedFromHAL, handles') = load lib handles in
      if loadedFromHAL
      then (case lib of Some l \<Rightarrow> (copy l, handles' - 1) | None \<Rightarrow> (UB, handles'))
      else (Ret nothing, handles'))"

subsection \<open>Bit masks\<close>

definition ToEnumMask :: "int list \<Rightarrow> 32 word" where
  "ToEnumMask values = fold (\<lambda>v mask. let b = (word_of_int v :: 32 word)
     in if b < 32 then mask OR push_bit (unat b) 1 else mask) values 0"

text \<open>The same over the signed value (\<open>static_cast<int32_t>\<close>).\<close>

definition ToVideoZoomMask :: "int list \<Rightarrow> 32 word" where
  "ToVideoZoomMask values = fold (\<lambda>v mask. let b = sint (word_of_int v :: 32 word)
     in if 0 \<le> b \<and> b < 32 then mask OR push_bit (nat b) 1 else mask) values 0"

text \<open>The mask of an array that may be null.\<close>

definition enum_mask :: "(int list \<Rightarrow> 32 word) \<Rightarrow> int list option \<Rightarrow> int \<Rightarrow> 32 word outcome" where
  "enum_mask to_mask values n = (case values of
       None \<Rightarrow> Ret 0
     | Some vs \<Rightarrow> obind (c_read n vs) (\<lambda>xs. Ret (to_mask xs)))"

subsection \<open>Front panel\<close>

definition str_or :: "string option \<Rightarrow> string \<Rightarrow> string" where
  "str_or s d = (case s of Some x \<Rightarrow> x | None \<Rightarrow> d)"

record fpd_config =
  fg_colors :: "fpd_color_cfg list"
  fg_indicators :: "fpd_indicator_cfg list"
  fg_textDisplays :: "fpd_text_cfg list"
  fg_colorBindings :: "(nat \<times> int \<times> int) list"

definition fpd_empty :: fpd_config where
  "fpd_empty = \<lparr>fg_colors = [], fg_indicators = [], fg_textDisplays = [], fg_colorBindings = []\<rparr>"

text \<open>
  The bindings (target type, target id, colour id) of an indicator (0) or a text display (1):
  every colour of the table when the entry has a colour list at all.
\<close>

definition bind_colors :: "nat \<Rightarrow> int \<Rightarrow> bool \<Rightarrow> fpd_color_cfg list \<Rightarrow> (nat \<times> int \<times> int) list" where
  "bind_colors target i supported colors = (if supported then map (\<lambda>c. (target, i, fc_id c)) colors else [])"

definition text_display :: "fpd_text_cfg \<Rightarrow> fpd_text_cfg" where
  "text_display t = t\<lparr>ft_name := Some (str_or (ft_name t) []),
     ft_supportedCharacters := Some (str_or (ft_supportedCharacters t) ''ABCEDFG'')\<rparr>"

definition copy_fpd :: "hal_lib \<Rightarrow> fpd_config outcome" where
  "copy_fpd l =
     obind (c_read (kFPDIndicatorColors_size l) (kFPDIndicatorColors l)) (\<lambda>colors.
     obind (c_read (kIndicators_size l) (kIndicators l)) (\<lambda>indicators.
     obind (c_read (kFPDTextDisplays_size l) (kFPDTextDisplays l)) (\<lambda>texts.
       Ret \<lparr>fg_colors = colors, fg_indicators = indicators, fg_textDisplays = map text_display texts,
            fg_colorBindings = concat (map (\<lambda>i. bind_colors 0 (fi_id i) (fi_supportedColors i) colors) indicators)
              @ concat (map (\<lambda>t. bind_colors 1 (ft_id t) (ft_supportedColors t) colors) texts)\<rparr>)))"

definition PopulateFPDConfig :: "hal_lib option \<Rightarrow> nat \<Rightarrow> fpd_config outcome \<times> nat" where
  "PopulateFPDConfig = populate LoadFrontPanelConfigFromHAL fpd_empty copy_fpd"

subsection \<open>Audio\<close>

record audio_type_info =
  at_typeId :: int
  at_name :: string
  at_compressionMask :: "32 word"
  at_encodingMask :: "32 word"
  at_stereoModeMask :: "32 word"

record audio_port_info =
  ai_type :: int
  ai_index :: int
  ai_connectedVideoPortType :: int
  ai_connectedVideoPortIndex :: int

definition audio_type :: "audio_type_cfg \<Rightarrow> audio_type_info outcome" where
  "audio_type cfg =
     obind (enum_mask ToEnumMask (ac_compressions cfg) (ac_numSupportedCompressions cfg)) (\<lambda>c.
     obind (enum_mask ToEnumMask (ac_encodings cfg) (ac_numSupportedEncodings cfg)) (\<lambda>e.
     obind (enum_mask ToEnumMask (ac_stereoModes cfg) (ac_numSupportedStereoModes cfg)) (\<lambda>s.
       Ret \<lparr>at_typeId = ac_typeId cfg, at_name = str_or (ac_name cfg) [], at_compressionMask = c,
            at_encodingMask = e, at_stereoModeMask = s\<rparr>)))"

definition audio_port_entry :: "audio_port_cfg \<Rightarrow> audio_port_info" where
  "audio_port_entry cfg = \<lparr>ai_type = ap_type cfg, ai_index = ap_index cfg,
     ai_connectedVideoPortType = (case ap_connectedVOPs cfg of Some p \<Rightarrow> fst p | None \<Rightarrow> - 1),
     ai_connectedVideoPortIndex = (case ap_connectedVOPs cfg of Some p \<Rightarrow> snd p | None \<Rightarrow> - 1)\<rparr>"

definition copy_audio :: "hal_lib \<Rightarrow> (audio_type_info list \<times> audio_port_info list) outcome" where
  "copy_audio l =
     obind (c_read (kAudioConfigs_size l) (kAudioConfigs l)) (\<lambda>types.
     obind (omap audio_type types) (\<lambda>audioTypes.
     obind (c_read (kAudioPorts_size l) (kAudioPorts l)) (\<lambda>ports.
       Ret (audioTypes, map audio_port_entry ports))))"

definition PopulateAudioConfig ::
  "hal_lib option \<Rightarrow> nat \<Rightarrow> (audio_type_info list \<times> audio_port_info list) outcome \<times> nat" where
  "PopulateAudioConfig = populate LoadAudioConfigFromHAL ([], []) copy_audio"

subsection \<open>Video ports\<close>

record video_type_info =
  vi_typeId :: int
  vi_name :: string
  vi_dtcpSupported :: bool
  vi_hdcpSupported :: bool
  vi_restrictedResolution :: int
  vi_supportedResolutionNames :: string

record video_port_info =
  vp_type :: int
  vp_index :: int
  vp_connectedAudioPortType :: int
  vp_connectedAudioPortIndex :: int
  vp_defaultResolution :: string

fun join_names :: "string list \<Rightarrow> string" where
  "join_names [] = []"
| "join_names [n] = n"
| "join_names (n # m # ns) = n @ CHR 0x2C # join_names (m # ns)"

text \<open>The array of supported resolutions of a type, if there is one.\<close>

definition supported_names :: "video_type_cfg \<Rightarrow> string list outcome" where
  "supported_names cfg = (case vt_supportedResolutions cfg of
       Some ns \<Rightarrow> if 0 < vt_numSupportedResolutions cfg then c_read (vt_numSupportedResolutions cfg) ns else Ret []
     | None \<Rightarrow> Ret [])"

definition video_type :: "video_type_cfg \<Rightarrow> video_type_info outcome" where
  "video_type cfg = obind (supported_names cfg) (\<lambda>ns.
     Ret \<lparr>vi_typeId = vt_typeId cfg, vi_name = str_or (vt_name cfg) [], vi_dtcpSupported = vt_dtcpSupported cfg,
          vi_hdcpSupported = vt_hdcpSupported cfg, vi_restrictedResolution = vt_restrictedResolution cfg,
          vi_supportedResolutionNames = join_names ns\<rparr>)"

definition video_port_entry :: "video_port_cfg \<Rightarrow> video_port_info" where
  "video_port_entry cfg = \<lparr>vp_type = vo_type cfg, vp_index = vo_index cfg,
     vp_connectedAudioPortType = fst (vo_connectedAOP cfg), vp_connectedAudioPortIndex = snd (vo_connectedAOP cfg),
     vp_defaultResolution = str_or (vo_defaultResolution cfg) []\<rparr>"

definition copy_video_ports :: "hal_lib \<Rightarrow> (video_type_info list \<times> video_port_info list) outcome" where
  "copy_video_ports l =
     obind (c_read (kVideoPortConfigs_size l) (kVideoPortConfigs l)) (\<lambda>types.
     obind (omap video_type types) (\<lambda>videoPortTypes.
     obind (c_read (kVideoPortPorts_size l) (kVideoPortPorts l)) (\<lambda>ports.
       Ret (videoPortTypes, map video_port_entry ports))))"

definition PopulateVideoPortConfig ::
  "hal_lib option \<Rightarrow> nat \<Rightarrow> (video_type_info list \<times> video_port_info list) outcome \<times> nat" where
  "PopulateVideoPortConfig = populate LoadVideoPortConfigFromHAL ([], []) copy_video_ports"

text \<open>The resolutions of a port type: the first entry of the type decides what is supported.\<close>

definition copy_resolutions :: "int \<Rightarrow> hal_lib \<Rightarrow> resolution_cfg list outcome" where
  "copy_resolutions videoPortType l =
     obind (c_read (kVideoPortConfigs_size l) (kVideoPortConfigs l)) (\<lambda>types.
       case find (\<lambda>cfg. vt_typeId cfg = videoPortType) types of
         None \<Rightarrow> Ret []
       | Some cfg \<Rightarrow> obind (supported_names cfg) (\<lambda>supportedResolutionNames.
           obind (c_read (kResolutionsSettings_size l) (kResolutionsSettings l)) (\<lambda>rs.
             Ret (filter (\<lambda>r. rs_name r \<in> set supportedResolutionNames) rs))))"

definition PopulateVideoPortResolutionConfig ::
  "int \<Rightarrow> hal_lib option \<Rightarrow> nat \<Rightarrow> resolution_cfg list outcome \<times> nat" where
  "PopulateVideoPortResolutionConfig videoPortType =
     populate LoadVideoPortConfigFromHAL [] (copy_resolutions videoPortType)"

subsection \<open>Video devices\<close>

record video_device_info =
  di_numSupportedDFCs :: "32 word"
  di_supportedDFCsMask :: "32 word"
  di_defaultDFC :: int

definition video_device :: "video_device_cfg \<Rightarrow> video_device_info outcome" where
  "video_device cfg = obind (enum_mask ToVideoZoomMask (vd_supportedDFCs cfg) (vd_numSupportedDFCs cfg)) (\<lambda>m.
     Ret \<lparr>di_numSupportedDFCs = word_of_int (vd_numSupportedDFCs cfg), di_supportedDFCsMask = m,
          di_defaultDFC = vd_defaultDFC cfg\<rparr>)"

definition copy_video_devices :: "hal_lib \<Rightarrow> video_device_info list outcome" where
  "copy_video_devices l =
     obind (c_read (kVideoDeviceConfigs_size l) (kVideoDeviceConfigs l)) (\<lambda>cfgs. omap video_device cfgs)"

definition PopulateVideoDeviceConfig :: "hal_lib option \<Rightarrow> nat \<Rightarrow> video_device_info list outcome \<times> nat" where
  "PopulateVideoDeviceConfig = populate LoadVideoDeviceConfigFromHAL [] copy_video_devices"

subsection \<open>Loading is all or nothing\<close>

lemma symbol_count:
  "fold (\<lambda>(name, dataptr) n. case name of Some s \<Rightarrow> if dataptr \<and> f s then n + 1 else n | None \<Rightarrow> n)
     (map (\<lambda>n. (Some n, True)) names) (k :: nat) = k + length (filter f names)"
  by (induction names arbitrary: k) auto

lemma symbols_loaded_iff:
  "LoadDLSymbols (Some f) (map (\<lambda>n. (Some n, True)) names) \<longleftrightarrow> names \<noteq> [] \<and> (\<forall>n \<in> set names. f n)"
proof -
  have "length (filter f names) = length names \<longleftrightarrow> (\<forall>n \<in> set names. f n)"
    by (metis filter_id_conv length_filter_less less_irrefl)
  then show ?thesis by (simp add: LoadDLSymbols_def symbol_count)
qed

text \<open>The library has all of the symbols.\<close>

definition exports :: "string list \<Rightarrow> hal_lib option \<Rightarrow> bool" where
  "exports names lib \<longleftrightarrow> (case lib of None \<Rightarrow> False | Some l \<Rightarrow> \<forall>n \<in> set names. hl_symbol l n)"

lemma load_config_eq:
  "names \<noteq> [] \<Longrightarrow> load_config names lib h = (exports names lib, if exports names lib then h + 1 else h)"
  by (auto simp: load_config_def symbols_loaded_iff exports_def Let_def split: option.split)

lemma populate_eq:
  "names \<noteq> [] \<Longrightarrow> populate (load_config names) nothing copy lib h
     = (if exports names lib then copy (the lib) else Ret nothing, h)"
  by (cases lib) (auto simp: populate_def load_config_eq exports_def)

lemmas populate_tables =
  PopulateFPDConfig_def LoadFrontPanelConfigFromHAL_def fpd_symbols_def
  PopulateAudioConfig_def LoadAudioConfigFromHAL_def audio_symbols_def
  PopulateVideoPortConfig_def PopulateVideoPortResolutionConfig_def LoadVideoPortConfigFromHAL_def
  video_port_symbols_def PopulateVideoDeviceConfig_def LoadVideoDeviceConfigFromHAL_def
  video_device_symbols_def

lemma mask_fold_bit:
  fixes ks :: "nat list" and m :: "32 word"
  assumes "\<forall>k \<in> set ks. k < 32"
  shows "bit (fold (\<lambda>k m. m OR push_bit k 1) ks m) j \<longleftrightarrow> bit m j \<or> j \<in> set ks"
  using assms
  by (induction ks arbitrary: m) (auto simp: bit_or_iff bit_exp_iff)

subsection \<open>Properties\<close>

text \<open>
  C27. Loading is all or nothing and leaks no handle: each of the five loaders reads its
  tables only if the library opens and exports every symbol of the component; otherwise it
  reports empty tables, never partial ones. In every case the library is open as many times
  afterwards as before.
\<close>

theorem hal_config_all_or_nothing:
  "PopulateFPDConfig lib h = (if exports fpd_symbols lib then copy_fpd (the lib) else Ret fpd_empty, h)
   \<and> PopulateAudioConfig lib h = (if exports audio_symbols lib then copy_audio (the lib) else Ret ([], []), h)
   \<and> PopulateVideoPortConfig lib h
       = (if exports video_port_symbols lib then copy_video_ports (the lib) else Ret ([], []), h)
   \<and> PopulateVideoPortResolutionConfig t lib h
       = (if exports video_port_symbols lib then copy_resolutions t (the lib) else Ret [], h)
   \<and> PopulateVideoDeviceConfig lib h
       = (if exports video_device_symbols lib then copy_video_devices (the lib) else Ret [], h)"
  by (simp add: populate_tables populate_eq)

text \<open>
  The two mask routines agree on every array of 32-bit enumerators, although one works
  on the unsigned and one on the signed value: bit \<open>k\<close> is set exactly if \<open>k\<close> is below 32 and
  in the array; negative and larger enumerators are dropped without a trace.
\<close>

theorem enum_masks_agree:
  assumes "\<forall>v \<in> set vs. - (2 ^ 31) \<le> v \<and> v < 2 ^ 31"
  shows "ToEnumMask vs = ToVideoZoomMask vs \<and> (\<forall>k. bit (ToEnumMask vs) k \<longleftrightarrow> k < 32 \<and> int k \<in> set vs)"
proof -
  let ?ks = "map nat (filter (\<lambda>v. 0 \<le> v \<and> v < 32) vs)"
  have s: "sint (word_of_int v :: 32 word) = v" if "v \<in> set vs" for v
    using assms that by (simp add: sint_sbintrunc' signed_take_bit_int_eq_self)
  have u: "((word_of_int v :: 32 word) < 32) = (0 \<le> v \<and> v < 32)"
    and n: "0 \<le> v \<Longrightarrow> unat (word_of_int v :: 32 word) = nat v" if "v \<in> set vs" for v
  proof -
    have r: "- (2 ^ 31) \<le> v" "v < 2 ^ 31" using assms that by auto
    have e: "uint (word_of_int v :: 32 word) = (if 0 \<le> v then v else v + 2 ^ 32)"
    proof (cases "0 \<le> v")
      case False
      with r have "(v + 2 ^ 32) mod 2 ^ 32 = v + 2 ^ 32" by (intro mod_pos_pos_trivial) simp_all
      moreover have "v mod 2 ^ 32 = (v + 2 ^ 32) mod 2 ^ 32" by (rule mod_add_self2 [symmetric])
      ultimately show ?thesis using False by (simp only: uint_word_of_int) simp
    qed (use r in \<open>simp add: uint_word_of_int\<close>)
    show "((word_of_int v :: 32 word) < 32) = (0 \<le> v \<and> v < 32)"
      using e r by (simp add: word_less_def)
    show "0 \<le> v \<Longrightarrow> unat (word_of_int v :: 32 word) = nat v" using e by (simp add: unat_eq_nat_uint)
  qed
  have 1: "fold (\<lambda>v mask. let b = (word_of_int v :: 32 word) in if b < 32 then mask OR push_bit (unat b) 1 else mask) ws m
      = fold (\<lambda>k m. m OR push_bit k 1) (map nat (filter (\<lambda>v. 0 \<le> v \<and> v < 32) ws)) m"
    and 2: "fold (\<lambda>v mask. let b = sint (word_of_int v :: 32 word) in if 0 \<le> b \<and> b < 32 then mask OR push_bit (nat b) 1 else mask) ws m
      = fold (\<lambda>k m. m OR push_bit k 1) (map nat (filter (\<lambda>v. 0 \<le> v \<and> v < 32) ws)) m"
    if "set ws \<subseteq> set vs" for ws and m :: "32 word"
    using that by (induction ws arbitrary: m) (auto simp: u n s Let_def)
  have "bit (ToEnumMask vs) k \<longleftrightarrow> k < 32 \<and> int k \<in> set vs" for k
  proof -
    have "bit (ToEnumMask vs) k \<longleftrightarrow> k \<in> set ?ks"
      unfolding ToEnumMask_def 1 [OF order_refl] by (subst mask_fold_bit) (auto simp: nat_less_iff)
    also have "\<dots> \<longleftrightarrow> k < 32 \<and> int k \<in> set vs" by (auto simp: image_iff)
    finally show ?thesis .
  qed
  then show ?thesis by (simp add: ToEnumMask_def ToVideoZoomMask_def 1 2)
qed

theorem enum_masks_agree_witness: "bit (ToVideoZoomMask [3, - 1, 40]) 3 \<and> \<not> bit (ToVideoZoomMask [3, - 1, 40]) 8"
proof -
  let ?vs = "[3, - 1, 40] :: int list"
  have r: "\<forall>v \<in> set ?vs. - (2 ^ 31) \<le> v \<and> v < 2 ^ 31" by simp
  note a = enum_masks_agree [OF r]
  have "bit (ToVideoZoomMask ?vs) k \<longleftrightarrow> k < 32 \<and> int k \<in> set ?vs" for k
    using conjunct2 [OF a] unfolding conjunct1 [OF a] by (rule spec)
  from this [of 3] this [of 8] show ?thesis by simp
qed

subsection \<open>An example library\<close>

text \<open>One HDMI port type (6) that supports two of three resolutions.\<close>

definition cfg_named :: "string \<Rightarrow> resolution_cfg" where
  "cfg_named n = \<lparr>rs_name = n, rs_pixelResolution = 0, rs_aspectRatio = 0, rs_stereoScopicMode = 0, rs_frameRate = 0,
     rs_interlaced = False\<rparr>"

definition dsp_lib :: hal_lib where
  "dsp_lib = \<lparr>hl_symbol = (\<lambda>_. True), kFPDIndicatorColors = [], kFPDIndicatorColors_size = 0, kIndicators = [],
     kIndicators_size = 0, kFPDTextDisplays = [], kFPDTextDisplays_size = 0, kAudioConfigs = [], kAudioConfigs_size = 0,
     kAudioPorts = [], kAudioPorts_size = 0,
     kVideoPortConfigs = [\<lparr>vt_typeId = 6, vt_name = Some ''HDMI'', vt_dtcpSupported = False, vt_hdcpSupported = True,
       vt_restrictedResolution = 0, vt_supportedResolutions = Some [''720p'', ''1080p''], vt_numSupportedResolutions = 2\<rparr>],
     kVideoPortConfigs_size = 1,
     kVideoPortPorts = [\<lparr>vo_type = 6, vo_index = 0, vo_connectedAOP = (0, 0), vo_defaultResolution = None\<rparr>],
     kVideoPortPorts_size = 1, kResolutionsSettings = [cfg_named ''720p'', cfg_named ''1080p'', cfg_named ''480i''],
     kResolutionsSettings_size = 3, kVideoDeviceConfigs = [], kVideoDeviceConfigs_size = 0\<rparr>"

lemma sample_resolutions:
  "fst (PopulateVideoPortResolutionConfig 6 (Some dsp_lib) n) = Ret [cfg_named ''720p'', cfg_named ''1080p'']"
proof -
  have "PopulateVideoPortResolutionConfig 6 (Some dsp_lib) n = (copy_resolutions 6 dsp_lib, n)"
    by (simp add: populate_tables populate_eq exports_def dsp_lib_def)
  then show ?thesis
    by (simp add: copy_resolutions_def c_read_def dsp_lib_def supported_names_def cfg_named_def)
qed

end
