(* ===== verification/Hdmi_Status.thy ===== *)
theory Hdmi_Status
  imports DS_Interfaces
begin

section \<open>The HDMI status file (\<open>DeviceSettingsHdmiStatus.cpp\<close>)\<close>

text \<open>
  \<open>_dsSyncHdmiStatus\<close> rewrites a small text file of \<open>key=value\<close> lines that other processes
  read. A file is the option of its contents; the enumerators of the HAL are the fields of
  \<open>hdmi_consts\<close>. The file refines a map from keys to values, and it provides the interface
  \<open>kv_store\<close>.
\<close>

record hdmi_consts =
  EVENT_CONNECTED :: int
  EVENT_DISCONNECTED :: int
  HDCP_UNPOWERED :: int
  HDCP_UNAUTHENTICATED :: int
  HDCP_AUTHENTICATED :: int
  HDCP_AUTHENTICATIONFAILURE :: int
  HDCP_INPROGRESS :: int
  HDCP_PORTDISABLED :: int
  HDCP_VERSION_1X :: int
  HDCP_VERSION_2X :: int

definition HdmiConnectionToStrMapping :: "hdmi_consts \<Rightarrow> (int \<times> string) list" where
  "HdmiConnectionToStrMapping c =
     [(EVENT_CONNECTED c, ''CONNECTED''), (EVENT_DISCONNECTED c, ''DISCONNECTED'')]"

definition HdmiStatusToStrMapping :: "hdmi_consts \<Rightarrow> (int \<times> string) list" where
  "HdmiStatusToStrMapping c =
     [(HDCP_UNPOWERED c, ''UNPOWERED''), (HDCP_UNAUTHENTICATED c, ''UNAUTHENTICATED''),
      (HDCP_AUTHENTICATED c, ''AUTHENTICATED''), (HDCP_AUTHENTICATIONFAILURE c, ''AUTHENTICATIONFAILURE''),
      (HDCP_INPROGRESS c, ''INPROGRESS''), (HDCP_PORTDISABLED c, ''PORTDISABLED'')]"

definition HdmiVerToStrMapping :: "hdmi_consts \<Rightarrow> (int \<times> string) list" where
  "HdmiVerToStrMapping c = [(HDCP_VERSION_1X c, ''VERSION_1X''), (HDCP_VERSION_2X c, ''VERSION_2X'')]"

text \<open>The three lookup loops: the first entry with the tag, else the empty string.\<close>

definition enum_name :: "(int \<times> string) list \<Rightarrow> int \<Rightarrow> string" where
  "enum_name tbl key = (case find (\<lambda>p. fst p = key) tbl of Some p \<Rightarrow> snd p | None \<Rightarrow> [])"

definition DS_HDMI_TAG_HOTPLUP :: string where "DS_HDMI_TAG_HOTPLUP = ''hotplug''"
definition DS_HDMI_TAG_HDCPSTATUS :: string where
  "DS_HDMI_TAG_HDCPSTATUS = ''hdcp'' @ CHR 0x5F # ''status''"
definition DS_HDMI_TAG_HDCPVERSION :: string where
  "DS_HDMI_TAG_HDCPVERSION = ''hdcp'' @ CHR 0x5F # ''version''"

text \<open>The name of the value; \<open>strncmp (key, TAG, strlen (TAG)) == 0\<close> asks for a prefix.\<close>

definition hdmi_value :: "hdmi_consts \<Rightarrow> string \<Rightarrow> int \<Rightarrow> string" where
  "hdmi_value c key val =
     (if prefix DS_HDMI_TAG_HOTPLUP key then enum_name (HdmiConnectionToStrMapping c) val
      else if prefix DS_HDMI_TAG_HDCPSTATUS key then enum_name (HdmiStatusToStrMapping c) val
      else if prefix DS_HDMI_TAG_HDCPVERSION key then enum_name (HdmiVerToStrMapping c) val
      else [])"

definition hdmi_lines :: "string option \<Rightarrow> string list" where
  "hdmi_lines file = (case file of None \<Rightarrow> [] | Some t \<Rightarrow> getlines t)"

definition eq_sign :: char where "eq_sign = CHR 0x3D"

definition hdmi_write :: "string \<Rightarrow> string \<Rightarrow> string option \<Rightarrow> string option" where
  "hdmi_write key value file =
     (let lines = filter (\<lambda>l. \<not> prefix (key @ [eq_sign]) l) (hdmi_lines file) @ [key @ eq_sign # value]
      in Some (concat (map (\<lambda>l. l @ [nl]) lines)))"

text \<open>\<open>writable\<close>: the file can be opened for writing (otherwise nothing is written).\<close>

definition dsSyncHdmiStatus ::
  "hdmi_consts \<Rightarrow> bool \<Rightarrow> string \<Rightarrow> int \<Rightarrow> string option \<Rightarrow> string option" where
  "dsSyncHdmiStatus c writable key val file =
     (if writable then hdmi_write key (hdmi_value c key val) file else file)"

subsection \<open>The file as a map\<close>

definition hdmi_key :: "string \<Rightarrow> bool" where
  "hdmi_key k \<longleftrightarrow> eq_sign \<notin> set k \<and> nl \<notin> set k"

definition line_value :: "string \<Rightarrow> string list \<Rightarrow> string option" where
  "line_value k ls = map_option (drop (Suc (length k))) (find (prefix (k @ [eq_sign])) ls)"

definition hdmi_get :: "string option \<Rightarrow> string \<Rightarrow> string option" where
  "hdmi_get file k = (if hdmi_key k then line_value k (hdmi_lines file) else None)"

lemma prefix_line:
  "hdmi_key k \<Longrightarrow> hdmi_key k' \<Longrightarrow> prefix (k' @ [eq_sign]) (k @ eq_sign # v) \<longleftrightarrow> k' = k"
  unfolding hdmi_key_def
proof (induction k arbitrary: k')
  case Nil
  then show ?case by (cases k') auto
next
  case (Cons c k)
  then show ?case by (cases k') auto
qed

lemma hdmi_lines_write:
  assumes "hdmi_key key" and "nl \<notin> set value"
  shows "hdmi_lines (hdmi_write key value file)
       = filter (\<lambda>l. \<not> prefix (key @ [eq_sign]) l) (hdmi_lines file) @ [key @ eq_sign # value]"
proof -
  have "nl \<notin> set l" if "l \<in> set (hdmi_lines file)" for l
    using that getlines_no_nl by (auto simp: hdmi_lines_def split: option.splits)
  moreover have "nl \<noteq> eq_sign" by (simp add: nl_def eq_sign_def)
  ultimately have "\<forall>l \<in> set (filter (\<lambda>l. \<not> prefix (key @ [eq_sign]) l) (hdmi_lines file) @ [key @ eq_sign # value]). nl \<notin> set l"
    using assms by (auto simp: hdmi_key_def)
  from getlines_unlines [OF this] show ?thesis
    unfolding hdmi_write_def Let_def by (subst hdmi_lines_def) simp
qed

lemma line_value_append: "line_value k (ls @ ms) = (case line_value k ls of Some v \<Rightarrow> Some v | None \<Rightarrow> line_value k ms)"
  by (induction ls) (auto simp: line_value_def)

lemma line_value_filter_other:
  assumes "hdmi_key key" and "hdmi_key k"
  shows "line_value k (filter (\<lambda>l. \<not> prefix (key @ [eq_sign]) l) ls) = (if k = key then None else line_value k ls)"
proof -
  have 1: "k = key" if "prefix (k @ [eq_sign]) l" "prefix (key @ [eq_sign]) l" for l
    using that assms by (auto simp: prefix_def) (metis append_Cons append_Nil append_assoc prefixI prefix_line)
  have 2: "find (prefix (key @ [eq_sign])) (filter (\<lambda>l. \<not> prefix (key @ [eq_sign]) l) ls) = None" for ls
    by (induction ls) auto
  show ?thesis
  proof (cases "k = key")
    case True
    then show ?thesis by (simp add: line_value_def 2)
  next
    case False
    with 1 have "find (prefix (k @ [eq_sign])) (filter (\<lambda>l. \<not> prefix (key @ [eq_sign]) l) ls)
        = find (prefix (k @ [eq_sign])) ls" by (induction ls) auto
    with False show ?thesis by (simp add: line_value_def)
  qed
qed

lemma hdmi_get_write:
  assumes "hdmi_key key" and "nl \<notin> set value"
  shows "hdmi_get (hdmi_write key value file) = (hdmi_get file)(key \<mapsto> value)"
proof
  fix k
  have new: "line_value k [key @ eq_sign # value] = (if k = key then Some value else None)" if "hdmi_key k" for k
    using that assms(1) by (simp add: line_value_def prefix_line)
  with assms show "hdmi_get (hdmi_write key value file) k = ((hdmi_get file)(key \<mapsto> value)) k"
    by (simp add: hdmi_get_def hdmi_lines_write line_value_append line_value_filter_other split: option.split)
qed

interpretation hs: kv_store hdmi_get hdmi_write "\<lambda>_. True" hdmi_key "\<lambda>v. nl \<notin> set v"
  by unfold_locales (simp_all add: hdmi_get_write)

lemma enum_name_no_nl: "\<forall>p \<in> set tbl. nl \<notin> set (snd p) \<Longrightarrow> nl \<notin> set (enum_name tbl key)"
  by (induction tbl) (auto simp: enum_name_def)

lemma hdmi_value_no_nl: "nl \<notin> set (hdmi_value c key val)"
proof -
  have "nl \<notin> set (enum_name (HdmiConnectionToStrMapping c) val)" "nl \<notin> set (enum_name (HdmiStatusToStrMapping c) val)"
    "nl \<notin> set (enum_name (HdmiVerToStrMapping c) val)"
    by (rule enum_name_no_nl, simp add: HdmiConnectionToStrMapping_def HdmiStatusToStrMapping_def
        HdmiVerToStrMapping_def nl_def)+
  then show ?thesis by (simp add: hdmi_value_def)
qed

lemma hdmi_tags: "hdmi_key DS_HDMI_TAG_HOTPLUP" "hdmi_key DS_HDMI_TAG_HDCPSTATUS" "hdmi_key DS_HDMI_TAG_HDCPVERSION"
  by (simp_all add: hdmi_key_def eq_sign_def nl_def DS_HDMI_TAG_HOTPLUP_def DS_HDMI_TAG_HDCPSTATUS_def
      DS_HDMI_TAG_HDCPVERSION_def)

subsection \<open>Properties\<close>

text \<open>
  C11. The status file refines a map: for a key without \<open>=\<close> and line break, an update of the
  file is the update of the map it stands for, whatever the file held before (none, foreign
  lines, the key several times); afterwards exactly one line has the key, and it is the last.
\<close>

theorem hdmi_status_refines_map:
  fixes c :: hdmi_consts and val :: int and "file" :: "string option"
  assumes "hdmi_key key"
  defines "file' \<equiv> dsSyncHdmiStatus c True key val file"
  shows "hdmi_get file' = (hdmi_get file)(key \<mapsto> hdmi_value c key val)
     \<and> filter (prefix (key @ [eq_sign])) (hdmi_lines file') = [last (hdmi_lines file')]"
proof -
  have "hdmi_get file' = (hdmi_get file)(key \<mapsto> hdmi_value c key val)"
    using hdmi_get_write [OF assms(1) hdmi_value_no_nl] by (simp add: file'_def dsSyncHdmiStatus_def)
  then show ?thesis
    by (simp add: file'_def dsSyncHdmiStatus_def hdmi_lines_write [OF assms(1) hdmi_value_no_nl] filter_empty_conv)
qed

definition ex_hdmi :: hdmi_consts where
  "ex_hdmi = \<lparr>EVENT_CONNECTED = 0, EVENT_DISCONNECTED = 1, HDCP_UNPOWERED = 0, HDCP_UNAUTHENTICATED = 1,
     HDCP_AUTHENTICATED = 2, HDCP_AUTHENTICATIONFAILURE = 3, HDCP_INPROGRESS = 4, HDCP_PORTDISABLED = 5,
     HDCP_VERSION_1X = 0, HDCP_VERSION_2X = 1\<rparr>"

theorem hdmi_status_refines_map_witness:
  "hdmi_get (dsSyncHdmiStatus ex_hdmi True DS_HDMI_TAG_HOTPLUP 1 (Some ''x'')) DS_HDMI_TAG_HOTPLUP = Some ''DISCONNECTED''"
  using hdmi_status_refines_map [OF hdmi_tags(1), of ex_hdmi 1 "Some ''x''"]
  by (simp add: hdmi_value_def enum_name_def ex_hdmi_def HdmiConnectionToStrMapping_def)

end
