(* ===== verification/Video_Port.thy ===== *)
theory Video_Port
  imports Host_Persistence HAL_Config Hdmi_Status
begin

section \<open>Video ports (\<open>hal/dVideoPortImpl.h\<close>)\<close>

text \<open>
  Models the legacy video port platform \<open>dVideoPortImpl\<close> and the layer above it
  (\<open>VideoPort.cpp\<close>), which forwards every request. The file-scope variables, the persistent
  store and the HDMI status file are one record; each HAL call, and each event given to the
  client, is appended to \<open>vs_trace\<close>. The HAL is answered by functions of the calls made so
  far. Optional functions are looked up by name (\<open>ve_symbol\<close>; a name that is there stays
  there); a looked-up function that is missing is never called. The tables of the HAL library
  appear as the results of the loaders of \<open>HAL_Config\<close>.
\<close>

subsection \<open>Types\<close>

datatype VideoPortType =
    VP_HDMI | VP_COMPONENT | VP_SVIDEO | VP_1394 | VP_DVI | VP_INTERNAL | VP_BB | VP_RF | VP_other int

datatype dsVideoPortType =
    DSVP_HDMI | DSVP_COMPONENT | DSVP_SVIDEO | DSVP_1394 | DSVP_DVI | DSVP_INTERNAL | DSVP_BB | DSVP_RF | DSVP_MAX

text \<open>The pixel resolutions, in the order of the enumeration (it is compared with \<open><\<close>).\<close>

datatype pixel_res =
    PX_720x480 | PX_720x576 | PX_1280x720 | PX_1366x768 | PX_1920x1080 | PX_3840x2160 | PX_4096x2160 | PX_MAX

fun pixel_rank :: "pixel_res \<Rightarrow> nat" where
  "pixel_rank PX_720x480 = 0"
| "pixel_rank PX_720x576 = 1"
| "pixel_rank PX_1280x720 = 2"
| "pixel_rank PX_1366x768 = 3"
| "pixel_rank PX_1920x1080 = 4"
| "pixel_rank PX_3840x2160 = 5"
| "pixel_rank PX_4096x2160 = 6"
| "pixel_rank PX_MAX = 7"

instantiation pixel_res :: linorder
begin

definition less_eq_pixel_res :: "pixel_res \<Rightarrow> pixel_res \<Rightarrow> bool" where
  "less_eq_pixel_res p q \<longleftrightarrow> pixel_rank p \<le> pixel_rank q"

definition less_pixel_res :: "pixel_res \<Rightarrow> pixel_res \<Rightarrow> bool" where
  "less_pixel_res p q \<longleftrightarrow> pixel_rank p < pixel_rank q"

instance
proof
  fix p q r :: pixel_res
  have inj: "pixel_rank p = pixel_rank q \<Longrightarrow> p = q" by (cases p; cases q) simp_all
  show "p \<le> q \<Longrightarrow> q \<le> p \<Longrightarrow> p = q" by (rule inj) (simp add: less_eq_pixel_res_def)
  show "(p < q) = (p \<le> q \<and> \<not> q \<le> p)" "p \<le> p" "p \<le> q \<or> q \<le> p" "p \<le> q \<Longrightarrow> q \<le> r \<Longrightarrow> p \<le> r"
    by (auto simp: less_eq_pixel_res_def less_pixel_res_def)
qed

end

datatype frame_rate =
    FR_UNKNOWN | FR_24 | FR_25 | FR_30 | FR_60 | FR_23dot98 | FR_29dot97 | FR_50 | FR_59dot94 | FR_other int

datatype aspect_ratio = ASPECT_4x3 | ASPECT_16x9 | ASPECT_other int

datatype stereo_mode = SSMODE_2D | SSMODE_other int

record vp_res =
  r_name :: string
  r_pixel :: pixel_res
  r_aspect :: aspect_ratio
  r_stereo :: stereo_mode
  r_frame :: frame_rate
  r_interlaced :: bool

datatype hdcp_interface =
    IH_UNPOWERED | IH_UNAUTHENTICATED | IH_AUTHENTICATED | IH_AUTHENTICATIONFAILURE | IH_INPROGRESS | IH_PORTDISABLED

datatype hdcp_version = HV_1X | HV_2X

datatype quantization = QR_LIMITED | QR_FULL

datatype hdr_standard = HDR_SDR | HDR_HDR10 | HDR_HDR10PLUS | HDR_DOLBYVISION

text \<open>What a request can write to its out parameter.\<close>

datatype vp_val =
    VInt int
  | VBool bool
  | VWord "32 word"
  | VRes vp_res
  | VHdcp hdcp_interface
  | VVersion hdcp_version
  | VQuant quantization
  | VSettings int int int int int

subsection \<open>Calls, events, environment\<close>

datatype vp_call =
    CInit
  | CTerm
  | CGetPort dsVideoPortType int
  | CIsEnabled int
  | CEnable int bool
  | CIsConnected int
  | CIsActive int
  | CGetResolution int
  | CSetResolution int vp_res
  | CSetForceDisable4K int bool
  | CGetForceDisable4K int
  | CEnableHDCP int bool "int list"
  | CIsHDCPEnabled int
  | CSetBackgroundColor int int
  | CSetPreferredColorDepth int "32 word"
  | COptGet string int
  | COptSet string int int
  | CResetToSDR
  | CRegisterHdcpCallback int
  | CRegisterFormatCallback
  | EPreChange int int
  | EPostChange int int
  | EHdcpStatus hdcp_interface
  | EVideoFormat hdr_standard

type_synonym vp_hist = "vp_call list"

record vp_env =
  ve_ret :: "vp_hist \<Rightarrow> vp_call \<Rightarrow> dsError"
  ve_out :: "vp_hist \<Rightarrow> vp_call \<Rightarrow> int"
  ve_res :: "vp_hist \<Rightarrow> vp_call \<Rightarrow> vp_res"
  ve_settings :: "vp_hist \<Rightarrow> vp_call \<Rightarrow> int \<times> int \<times> int \<times> int \<times> int"
  ve_symbol :: "string \<Rightarrow> bool"
  ve_ports :: "(VideoPortType \<times> int) list"
  ve_resolutions :: "(string \<times> pixel_res) list"
  ve_io :: host_io
  ve_writable :: bool
  ve_tv :: bool
  ve_stb :: bool
  ve_only_composite :: bool
  ve_nameSize :: nat
  ve_valid_rate :: "frame_rate \<Rightarrow> bool"
  ve_hdmi :: hdmi_consts
  ve_enum :: "string \<Rightarrow> int"
  ve_quant_full :: int
  ve_hdr10 :: int
  ve_hdr10plus :: int
  ve_dolby :: int
  DEPTH_8BIT :: "32 word"
  DEPTH_10BIT :: "32 word"
  DEPTH_12BIT :: "32 word"
  DEPTH_AUTO :: "32 word"

record vp_state =
  videoPort_isInitialized :: bool
  videoPort_isPlatInitialized :: bool
  dsHDMIResolution :: string
  dsCompResolution :: string
  dsRFResolution :: string
  dsBBResolution :: string
  cachedHdcpStatus :: int
  cb_preChange :: bool
  cb_postChange :: bool
  cb_hdcp :: bool
  cb_format :: bool
  vs_store :: host_store
  vs_status :: "string option"
  vs_trace :: vp_hist

definition vp_static :: "vp_env \<Rightarrow> host_store \<Rightarrow> string option \<Rightarrow> vp_state" where
  "vp_static e st file = \<lparr>videoPort_isInitialized = False, videoPort_isPlatInitialized = False,
     dsHDMIResolution = ''1080p'', dsCompResolution = ''1080p'', dsRFResolution = ''1080p'',
     dsBBResolution = ''1080p'', cachedHdcpStatus = HDCP_UNAUTHENTICATED (ve_hdmi e),
     cb_preChange = False, cb_postChange = False, cb_hdcp = False, cb_format = False,
     vs_store = st, vs_status = file, vs_trace = []\<rparr>"

definition vp_log :: "vp_call \<Rightarrow> vp_state \<Rightarrow> vp_state" where
  "vp_log c s = s\<lparr>vs_trace := vs_trace s @ [c]\<rparr>"

text \<open>A HAL call: its error code, the integer it writes, and the new state.\<close>

definition vp_hal :: "vp_env \<Rightarrow> vp_call \<Rightarrow> vp_state \<Rightarrow> dsError \<times> int \<times> vp_state" where
  "vp_hal e c s = (ve_ret e (vs_trace s) c, ve_out e (vs_trace s) c, vp_log c s)"

type_synonym vp_result = "coreErr \<times> vp_val option \<times> vp_state"

text \<open>A direct query, and a direct command.\<close>

definition vp_query :: "vp_env \<Rightarrow> vp_call \<Rightarrow> (int \<Rightarrow> vp_val) \<Rightarrow> vp_val option \<Rightarrow> vp_state \<Rightarrow> vp_result" where
  "vp_query e c conv onError s =
     (let (eError, v, s1) = vp_hal e c s in
      if eError = DsERR_NONE then (ERROR_NONE, Some (conv v), s1) else (ERROR_GENERAL, onError, s1))"

definition vp_command :: "vp_env \<Rightarrow> vp_call \<Rightarrow> vp_state \<Rightarrow> vp_result" where
  "vp_command e c s =
     (let (eError, v, s1) = vp_hal e c s in
      (if eError = DsERR_NONE then ERROR_NONE else ERROR_GENERAL, None, s1))"

text \<open>A query of an optional function; \<open>absent\<close> is what is written when it is missing.\<close>

definition vp_optional ::
  "vp_env \<Rightarrow> string \<Rightarrow> int \<Rightarrow> (int \<Rightarrow> vp_val) \<Rightarrow> vp_val option \<Rightarrow> vp_val option \<Rightarrow> vp_state \<Rightarrow> vp_result" where
  "vp_optional e symbol handle conv absent onError s =
     (if \<not> ve_symbol e symbol then (ERROR_GENERAL, absent, s)
      else vp_query e (COptGet symbol handle) conv onError s)"

definition vbool :: "int \<Rightarrow> vp_val" where "vbool v = VBool (v \<noteq> 0)"

definition to32 :: "int \<Rightarrow> int" where "to32 v = sint (word_of_int v :: 32 word)"

definition vword :: "int \<Rightarrow> vp_val" where "vword v = VWord (word_of_int v)"

subsection \<open>Conversions\<close>

fun to_ds_port :: "VideoPortType \<Rightarrow> dsVideoPortType" where
  "to_ds_port VP_HDMI = DSVP_HDMI"
| "to_ds_port VP_COMPONENT = DSVP_COMPONENT"
| "to_ds_port VP_SVIDEO = DSVP_SVIDEO"
| "to_ds_port VP_1394 = DSVP_1394"
| "to_ds_port VP_DVI = DSVP_DVI"
| "to_ds_port VP_INTERNAL = DSVP_INTERNAL"
| "to_ds_port _ = DSVP_HDMI"

text \<open>\<open>convertVideoPortResolution\<close>, from the HAL to the interface.\<close>

definition from_ds_resolution :: "vp_env \<Rightarrow> vp_res \<Rightarrow> vp_res" where
  "from_ds_resolution e ds = \<lparr>
     r_name = (if r_name ds \<noteq> [] then r_name ds
       else case r_pixel ds of
         PX_720x480 \<Rightarrow> if r_interlaced ds then ''480i'' else ''480p''
       | PX_720x576 \<Rightarrow> if r_interlaced ds then ''576i50'' else ''576p50''
       | PX_1280x720 \<Rightarrow> ''720p''
       | PX_1366x768 \<Rightarrow> ''768p60''
       | PX_1920x1080 \<Rightarrow> if r_interlaced ds then ''1080i'' else ''1080p''
       | PX_3840x2160 \<Rightarrow> ''2160p60''
       | PX_4096x2160 \<Rightarrow> ''4096x2160''
       | PX_MAX \<Rightarrow> ''1080p''),
     r_pixel = (case r_pixel ds of
         PX_720x480 \<Rightarrow> PX_720x480
       | PX_720x576 \<Rightarrow> PX_720x576
       | PX_1280x720 \<Rightarrow> PX_1280x720
       | PX_1920x1080 \<Rightarrow> PX_1920x1080
       | PX_3840x2160 \<Rightarrow> PX_3840x2160
       | _ \<Rightarrow> PX_1920x1080),
     r_aspect = r_aspect ds, r_stereo = r_stereo ds,
     r_frame = (if ve_valid_rate e (r_frame ds) then r_frame ds else FR_UNKNOWN),
     r_interlaced = r_interlaced ds\<rparr>"

text \<open>The other direction: the name is cut to its buffer.\<close>

definition to_ds_resolution :: "vp_env \<Rightarrow> vp_res \<Rightarrow> vp_res" where
  "to_ds_resolution e r = r\<lparr>
     r_name := take (ve_nameSize e - 1) (c_str (r_name r)),
     r_pixel := (case r_pixel r of
         PX_720x480 \<Rightarrow> PX_720x480
       | PX_720x576 \<Rightarrow> PX_720x576
       | PX_1280x720 \<Rightarrow> PX_1280x720
       | PX_1920x1080 \<Rightarrow> PX_1920x1080
       | PX_3840x2160 \<Rightarrow> PX_3840x2160
       | _ \<Rightarrow> PX_1920x1080)\<rparr>"

text \<open>The frame rate \<open>buildResolutionFromName\<close> reads out of a 2160 or 1080 name.\<close>

definition rate_in_name :: "string \<Rightarrow> frame_rate" where
  "rate_in_name n =
     (if contains n ''24'' then FR_24 else if contains n ''25'' then FR_25
      else if contains n ''30'' then FR_30 else if contains n ''50'' then FR_50 else FR_60)"

definition buildResolutionFromName :: "string \<Rightarrow> vp_res" where
  "buildResolutionFromName n =
     (let r = \<lparr>r_name = n, r_pixel = PX_1920x1080, r_aspect = ASPECT_16x9, r_stereo = SSMODE_2D,
               r_frame = FR_60, r_interlaced = False\<rparr>
      in if contains n ''2160'' then r\<lparr>r_pixel := PX_3840x2160, r_frame := rate_in_name n\<rparr>
         else if contains n ''1080i'' then r\<lparr>r_interlaced := True\<rparr>
         else if contains n ''1080'' then r\<lparr>r_frame := rate_in_name n\<rparr>
         else if contains n ''720'' then
           r\<lparr>r_pixel := PX_1280x720, r_frame := (if contains n ''50'' then FR_50 else FR_60)\<rparr>
         else if contains n ''576i'' then
           r\<lparr>r_pixel := PX_720x576, r_interlaced := True, r_aspect := ASPECT_4x3, r_frame := FR_50\<rparr>
         else if contains n ''576'' then r\<lparr>r_pixel := PX_720x576, r_aspect := ASPECT_4x3, r_frame := FR_50\<rparr>
         else if contains n ''480i'' then r\<lparr>r_pixel := PX_720x480, r_interlaced := True, r_aspect := ASPECT_4x3\<rparr>
         else if contains n ''480'' then r\<lparr>r_pixel := PX_720x480, r_aspect := ASPECT_4x3\<rparr>
         else r)"

definition convertHdcpProtocolVersion :: "vp_env \<Rightarrow> int \<Rightarrow> hdcp_version" where
  "convertHdcpProtocolVersion e v =
     (if v = HDCP_VERSION_1X (ve_hdmi e) then HV_1X
      else if v = HDCP_VERSION_2X (ve_hdmi e) then HV_2X else HV_1X)"

fun convertHdcpProtocolVersionToDSHal :: "vp_env \<Rightarrow> hdcp_version \<Rightarrow> int" where
  "convertHdcpProtocolVersionToDSHal e HV_1X = HDCP_VERSION_1X (ve_hdmi e)"
| "convertHdcpProtocolVersionToDSHal e HV_2X = HDCP_VERSION_2X (ve_hdmi e)"

definition convertQuantizationRange :: "vp_env \<Rightarrow> int \<Rightarrow> quantization" where
  "convertQuantizationRange e v = (if v = ve_quant_full e then QR_FULL else QR_LIMITED)"

text \<open>The switch on the HDCP status; \<open>other\<close> is its default (it differs between two places).\<close>

definition hdcp_status_of :: "hdmi_consts \<Rightarrow> hdcp_interface \<Rightarrow> int \<Rightarrow> hdcp_interface" where
  "hdcp_status_of c other v =
     (if v = HDCP_UNPOWERED c then IH_UNPOWERED
      else if v = HDCP_UNAUTHENTICATED c then IH_UNAUTHENTICATED
      else if v = HDCP_AUTHENTICATED c then IH_AUTHENTICATED
      else if v = HDCP_AUTHENTICATIONFAILURE c then IH_AUTHENTICATIONFAILURE
      else if v = HDCP_INPROGRESS c then IH_INPROGRESS
      else if v = HDCP_PORTDISABLED c then IH_PORTDISABLED
      else other)"

definition convertHdcpStatus :: "vp_env \<Rightarrow> int \<Rightarrow> hdcp_interface" where
  "convertHdcpStatus e v = hdcp_status_of (ve_hdmi e) IH_UNPOWERED v"

fun resolution_size :: "pixel_res \<Rightarrow> int \<times> int" where
  "resolution_size PX_720x480 = (720, 480)"
| "resolution_size PX_720x576 = (720, 576)"
| "resolution_size PX_1280x720 = (1280, 720)"
| "resolution_size PX_1366x768 = (1366, 768)"
| "resolution_size PX_1920x1080 = (1920, 1080)"
| "resolution_size PX_3840x2160 = (3840, 2160)"
| "resolution_size PX_4096x2160 = (4096, 2160)"
| "resolution_size PX_MAX = (1280, 720)"

subsection \<open>The resolution caches\<close>

text \<open>
  The loops that compare the handle of each port type in turn: \<open>narrow\<close> is the conversion of
  the HAL handle before the comparison.
\<close>

fun find_port_type ::
  "vp_env \<Rightarrow> (int \<Rightarrow> int) \<Rightarrow> int \<Rightarrow> dsVideoPortType list \<Rightarrow> vp_state \<Rightarrow> dsVideoPortType option \<times> vp_state" where
  "find_port_type e narrow handle [] s = (None, s)"
| "find_port_type e narrow handle (t # ts) s =
     (let (eError, h, s1) = vp_hal e (CGetPort t 0) s in
      if eError = DsERR_NONE \<and> narrow h = handle then (Some t, s1)
      else find_port_type e narrow handle ts s1)"

definition resolvePortTypeByHandle :: "vp_env \<Rightarrow> int \<Rightarrow> vp_state \<Rightarrow> dsVideoPortType option \<times> vp_state" where
  "resolvePortTypeByHandle e handle s =
     find_port_type e to32 handle [DSVP_HDMI, DSVP_INTERNAL, DSVP_COMPONENT, DSVP_BB, DSVP_RF] s"

definition defaultResolutionByProfile :: "vp_env \<Rightarrow> string" where
  "defaultResolutionByProfile e = (if ve_tv e then ''2160p'' else ''1080p'')"

definition getCachedResolutionForPort :: "vp_env \<Rightarrow> dsVideoPortType \<Rightarrow> vp_state \<Rightarrow> string" where
  "getCachedResolutionForPort e t s =
     (let or_default = (\<lambda>n d. if n = [] then d else n) in case t of
       DSVP_HDMI \<Rightarrow> or_default (dsHDMIResolution s) (defaultResolutionByProfile e)
     | DSVP_INTERNAL \<Rightarrow> or_default (dsHDMIResolution s) (defaultResolutionByProfile e)
     | DSVP_COMPONENT \<Rightarrow> or_default (dsCompResolution s) (defaultResolutionByProfile e)
     | DSVP_BB \<Rightarrow> or_default (dsBBResolution s) ''720p''
     | DSVP_RF \<Rightarrow> or_default (dsRFResolution s) ''720p''
     | _ \<Rightarrow> defaultResolutionByProfile e)"

definition updateCachedResolutionForPort :: "dsVideoPortType \<Rightarrow> string \<Rightarrow> vp_state \<Rightarrow> vp_state" where
  "updateCachedResolutionForPort t n s =
     (if n = [] then s else case t of
       DSVP_HDMI \<Rightarrow> s\<lparr>dsHDMIResolution := n\<rparr>
     | DSVP_INTERNAL \<Rightarrow> s\<lparr>dsHDMIResolution := n\<rparr>
     | DSVP_COMPONENT \<Rightarrow> s\<lparr>dsCompResolution := n\<rparr>
     | DSVP_BB \<Rightarrow> s\<lparr>dsBBResolution := n\<rparr>
     | DSVP_RF \<Rightarrow> s\<lparr>dsRFResolution := n\<rparr>
     | _ \<Rightarrow> s)"

definition IsHDCompatible :: "pixel_res \<Rightarrow> bool" where
  "IsHDCompatible p \<longleftrightarrow> PX_1280x720 \<le> p \<and> p < PX_MAX"

definition IsCompatibleResolution :: "pixel_res \<Rightarrow> pixel_res \<Rightarrow> bool" where
  "IsCompatibleResolution p q \<longleftrightarrow> p = q \<or> (IsHDCompatible p \<and> IsHDCompatible q)"

definition getPixelResolutionByName :: "vp_env \<Rightarrow> string \<Rightarrow> pixel_res" where
  "getPixelResolutionByName e n =
     (case find (\<lambda>r. fst r = n) (ve_resolutions e) of Some r \<Rightarrow> snd r | None \<Rightarrow> PX_MAX)"

fun getCompatibleAnalogResolution :: "pixel_res \<Rightarrow> string" where
  "getCompatibleAnalogResolution PX_3840x2160 = ''1080p''"
| "getCompatibleAnalogResolution PX_4096x2160 = ''1080p''"
| "getCompatibleAnalogResolution PX_1920x1080 = ''1080p''"
| "getCompatibleAnalogResolution PX_1280x720 = ''720p''"
| "getCompatibleAnalogResolution PX_720x480 = ''480p''"
| "getCompatibleAnalogResolution PX_720x576 = ''576p''"
| "getCompatibleAnalogResolution _ = ''1080p''"

fun getCompatibleHDMIResolution :: "pixel_res \<Rightarrow> string" where
  "getCompatibleHDMIResolution PX_720x480 = ''480p''"
| "getCompatibleHDMIResolution PX_720x576 = ''576p''"
| "getCompatibleHDMIResolution PX_1280x720 = ''720p''"
| "getCompatibleHDMIResolution PX_1920x1080 = ''1080p''"
| "getCompatibleHDMIResolution _ = ''1080p''"

subsection \<open>Persistence\<close>

definition vp_setting :: "string \<Rightarrow> string \<Rightarrow> vp_state \<Rightarrow> string outcome \<times> vp_state" where
  "vp_setting key def s =
     (let (v, st) = getProperty_default key def (vs_store s) in (v, s\<lparr>vs_store := st\<rparr>))"

text \<open>\<open>persistHostProperty\<close>, then the rest of the \<open>try\<close> block unless it threw.\<close>

definition persist_then ::
  "vp_env \<Rightarrow> string \<Rightarrow> string \<Rightarrow> (vp_state \<Rightarrow> vp_state) \<Rightarrow> vp_state \<Rightarrow> vp_state" where
  "persist_then e key val k s =
     (let (r, st) = persistHostProperty (ve_io e) key val (vs_store s); s1 = s\<lparr>vs_store := st\<rparr>
      in case r of Ret _ \<Rightarrow> k s1 | _ \<Rightarrow> s1)"

definition vp_persist :: "vp_env \<Rightarrow> string \<Rightarrow> string \<Rightarrow> vp_state \<Rightarrow> vp_state" where
  "vp_persist e key val s = persist_then e key val (\<lambda>s. s) s"

definition vp_sync :: "vp_env \<Rightarrow> string \<Rightarrow> int \<Rightarrow> vp_state \<Rightarrow> vp_state" where
  "vp_sync e tag v s =
     s\<lparr>vs_status := dsSyncHdmiStatus (ve_hdmi e) (ve_writable e) tag v (vs_status s)\<rparr>"

definition comp_key :: "vp_env \<Rightarrow> string" where
  "comp_key e = (if ve_only_composite e then ''Baseband0.resolution'' else ''COMPONENT0.resolution'')"

text \<open>The HDMI cache follows an analog resolution it is not compatible with.\<close>

definition follow_analog :: "vp_env \<Rightarrow> vp_res \<Rightarrow> (string \<Rightarrow> vp_state \<Rightarrow> vp_state) \<Rightarrow> vp_state \<Rightarrow> vp_state" where
  "follow_analog e r k s =
     (if IsCompatibleResolution (r_pixel r) (getPixelResolutionByName e (dsHDMIResolution s)) then s
      else let c = getCompatibleHDMIResolution (r_pixel r) in k c (s\<lparr>dsHDMIResolution := c\<rparr>))"

definition persist_hdmi :: "vp_env \<Rightarrow> vp_res \<Rightarrow> bool \<Rightarrow> vp_state \<Rightarrow> vp_state" where
  "persist_hdmi e r force s =
     persist_then e ''HDMI0.resolution'' (r_name r) (\<lambda>s1.
       let s2 = s1\<lparr>dsHDMIResolution := r_name r\<rparr> in
       if IsCompatibleResolution (r_pixel r) (getPixelResolutionByName e (dsCompResolution s2)) then s2
       else let c = getCompatibleAnalogResolution (r_pixel r); s3 = s2\<lparr>dsCompResolution := c\<rparr>
            in if force then vp_persist e (comp_key e) c s3 else s3) s"

definition persist_component :: "vp_env \<Rightarrow> vp_res \<Rightarrow> bool \<Rightarrow> vp_state \<Rightarrow> vp_state" where
  "persist_component e r force s =
     persist_then e (comp_key e) (r_name r) (\<lambda>s1.
       follow_analog e r (\<lambda>c s3. if force then vp_persist e ''HDMI0.resolution'' c s3 else s3)
         (s1\<lparr>dsCompResolution := r_name r\<rparr>)) s"

definition persistVideoPortResolution ::
  "vp_env \<Rightarrow> int \<Rightarrow> vp_res \<Rightarrow> bool \<Rightarrow> vp_state \<Rightarrow> vp_state" where
  "persistVideoPortResolution e handle r force s =
     (let (t, s1) = find_port_type e (\<lambda>h. h) handle
              [DSVP_HDMI, DSVP_COMPONENT, DSVP_INTERNAL, DSVP_BB, DSVP_RF] s
      in case (case t of Some p \<Rightarrow> p | None \<Rightarrow> DSVP_HDMI) of
           DSVP_HDMI \<Rightarrow> persist_hdmi e r force s1
         | DSVP_INTERNAL \<Rightarrow> persist_hdmi e r force s1
         | DSVP_COMPONENT \<Rightarrow> persist_component e r force s1
         | DSVP_BB \<Rightarrow> persist_then e ''Baseband0.resolution'' (r_name r)
             (\<lambda>s2. follow_analog e r (\<lambda>c s3. s3) (s2\<lparr>dsBBResolution := r_name r\<rparr>)) s1
         | DSVP_RF \<Rightarrow> persist_then e ''RF0.resolution'' (r_name r)
             (\<lambda>s2. follow_analog e r (\<lambda>c s3. s3) (s2\<lparr>dsRFResolution := r_name r\<rparr>)) s1
         | _ \<Rightarrow> s1)"

subsection \<open>Colour depth\<close>

definition getPersistentColorDepth :: "vp_env \<Rightarrow> vp_state \<Rightarrow> 32 word \<times> vp_state" where
  "getPersistentColorDepth e s =
     (let (v, s1) = vp_setting ''HDMI0.colorDepth'' (to_string (sint (DEPTH_AUTO e))) s
      in (case v of
            Ret str \<Rightarrow> (case stoi str of Some i \<Rightarrow> word_of_int i | None \<Rightarrow> DEPTH_AUTO e)
          | _ \<Rightarrow> DEPTH_AUTO e, s1))"

text \<open>A query and a command that an optional function answers; \<open>dsERR_GENERAL\<close> when it is missing.\<close>

definition opt_word :: "vp_env \<Rightarrow> string \<Rightarrow> int \<Rightarrow> vp_state \<Rightarrow> dsError \<times> 32 word \<times> vp_state" where
  "opt_word e symbol handle s =
     (if \<not> ve_symbol e symbol then (DsERR_GENERAL, 0, s)
      else let (eError, v, s1) = vp_hal e (COptGet symbol handle) s in (eError, word_of_int v, s1))"

definition getCurrentPreferredColorDepth :: "vp_env \<Rightarrow> int \<Rightarrow> vp_state \<Rightarrow> dsError \<times> 32 word \<times> vp_state" where
  "getCurrentPreferredColorDepth e handle s = opt_word e ''dsGetPreferredColorDepth'' handle s"

definition getColorDepthCapabilitiesHAL :: "vp_env \<Rightarrow> int \<Rightarrow> vp_state \<Rightarrow> dsError \<times> 32 word \<times> vp_state" where
  "getColorDepthCapabilitiesHAL e handle s = opt_word e ''dsColorDepthCapabilities'' handle s"

definition best_depth :: "vp_env \<Rightarrow> 32 word \<Rightarrow> 32 word \<Rightarrow> 32 word" where
  "best_depth e capability requested =
     (let cap = capability OR DEPTH_AUTO e
      in if cap AND requested \<noteq> 0 \<and> requested \<noteq> DEPTH_AUTO e then requested
         else if cap AND DEPTH_12BIT e \<noteq> 0 then DEPTH_12BIT e
         else if cap AND DEPTH_10BIT e \<noteq> 0 then DEPTH_10BIT e
         else DEPTH_8BIT e)"

definition getBestSupportedColorDepth :: "vp_env \<Rightarrow> int \<Rightarrow> 32 word \<Rightarrow> vp_state \<Rightarrow> 32 word \<times> vp_state" where
  "getBestSupportedColorDepth e handle requested s =
     (let (capError, capability, s1) = getColorDepthCapabilitiesHAL e handle s
      in (if capError \<noteq> DsERR_NONE then DEPTH_8BIT e else best_depth e capability requested, s1))"

definition setPreferredColorDepthHAL :: "vp_env \<Rightarrow> int \<Rightarrow> 32 word \<Rightarrow> vp_state \<Rightarrow> dsError \<times> vp_state" where
  "setPreferredColorDepthHAL e handle depth s =
     (if \<not> ve_symbol e ''dsSetPreferredColorDepth'' then (DsERR_GENERAL, s)
      else let (eError, v, s1) = vp_hal e (CSetPreferredColorDepth handle depth) s in (eError, s1))"

subsection \<open>The default port, initialisation\<close>

text \<open>A failing \<open>dsGetVideoPort\<close> leaves the handle as it was.\<close>

fun default_port_loop :: "vp_env \<Rightarrow> int \<Rightarrow> (VideoPortType \<times> int) list \<Rightarrow> vp_state \<Rightarrow> int \<times> vp_state" where
  "default_port_loop e handle [] s = (handle, s)"
| "default_port_loop e handle (port # ports) s =
     (let type = to_ds_port (fst port);
          (eError, h, s1) = vp_hal e (CGetPort type (snd port)) s;
          handle1 = (if eError = DsERR_NONE then h else handle)
      in if type = DSVP_HDMI \<or> type = DSVP_INTERNAL
         then (if eError \<noteq> DsERR_NONE then 0 else handle1, s1)
         else default_port_loop e handle1 ports s1)"

definition dsGetDefaultPortHandle :: "vp_env \<Rightarrow> vp_state \<Rightarrow> int \<times> vp_state" where
  "dsGetDefaultPortHandle e s = default_port_loop e 0 (ve_ports e) s"

definition ApplyPreferredColorDepthAfterHdmiReset :: "vp_env \<Rightarrow> int \<Rightarrow> vp_state \<Rightarrow> vp_state" where
  "ApplyPreferredColorDepthAfterHdmiReset e preferredHandle s =
     (let (targetHandle, s1) = (if preferredHandle = 0 then dsGetDefaultPortHandle e s
                                else (preferredHandle, s))
      in if targetHandle = 0 then s1
         else let (connectedError, connected, s2) = vp_hal e (CIsConnected targetHandle) s1
         in if connectedError \<noteq> DsERR_NONE \<or> connected = 0 then s2
            else let (persisted, s3) = getPersistentColorDepth e s2;
                     (currentError, current, s4) = getCurrentPreferredColorDepth e targetHandle s3
            in if currentError = DsERR_NONE \<and> current = persisted then s4
               else let (toSet, s5) = getBestSupportedColorDepth e targetHandle persisted s4
               in snd (setPreferredColorDepthHAL e targetHandle toSet s5))"

text \<open>
  The five settings read at start-up. Reading a non-empty key never throws, so the
  \<open>try\<close> block runs to its end.
\<close>

definition read_resolution :: "vp_env \<Rightarrow> string \<Rightarrow> (string \<Rightarrow> vp_state \<Rightarrow> vp_state) \<Rightarrow> vp_state \<Rightarrow> vp_state" where
  "read_resolution e key upd s =
     (let (v, s1) = vp_setting key (defaultResolutionByProfile e) s
      in case v of Ret n \<Rightarrow> upd n s1 | _ \<Rightarrow> s1)"

definition vp_getPersistenceValue :: "vp_env \<Rightarrow> vp_state \<Rightarrow> vp_state" where
  "vp_getPersistenceValue e s =
     (let s1 = read_resolution e ''HDMI0.resolution'' (\<lambda>n t. t\<lparr>dsHDMIResolution := n\<rparr>) s;
          s2 = read_resolution e (comp_key e) (\<lambda>n t. t\<lparr>dsCompResolution := n\<rparr>) s1;
          s3 = read_resolution e ''RF0.resolution'' (\<lambda>n t. t\<lparr>dsRFResolution := n\<rparr>) s2;
          s4 = read_resolution e ''Baseband0.resolution'' (\<lambda>n t. t\<lparr>dsBBResolution := n\<rparr>) s3;
          (force4KDisabled, s5) = vp_setting ''VideoDevice.force4KDisabled'' ''false'' s4
      in if force4KDisabled = Ret ''true''
         then let (eError, hdmiHandle, s6) = vp_hal e (CGetPort DSVP_HDMI 0) s5
              in if eError = DsERR_NONE then snd (snd (vp_hal e (CSetForceDisable4K hdmiHandle True) s6)) else s6
         else s5)"

definition vp_InitialiseHAL :: "vp_env \<Rightarrow> vp_state \<Rightarrow> vp_state" where
  "vp_InitialiseHAL e s =
     (if videoPort_isPlatInitialized s then s
      else let (eError, v, s1) = vp_hal e CInit s
      in if eError \<noteq> DsERR_NONE then s1
         else let s2 = vp_sync e DS_HDMI_TAG_HDCPSTATUS (HDCP_UNAUTHENTICATED (ve_hdmi e)) s1;
                  s3 = vp_sync e DS_HDMI_TAG_HDCPVERSION (HDCP_VERSION_1X (ve_hdmi e)) s2;
                  (handle, s4) = dsGetDefaultPortHandle e s3;
                  (displayError, connected, s5) = vp_hal e (CIsConnected handle) s4;
                  s6 = vp_sync e DS_HDMI_TAG_HOTPLUP
                         (if displayError = DsERR_NONE \<and> connected \<noteq> 0 then EVENT_CONNECTED (ve_hdmi e)
                          else EVENT_DISCONNECTED (ve_hdmi e)) s5;
                  s7 = vp_getPersistenceValue e s6;
                  s8 = ApplyPreferredColorDepthAfterHdmiReset e 0 s7
              in s8\<lparr>videoPort_isPlatInitialized := True\<rparr>)"

definition vp_DeInitialiseHAL :: "vp_env \<Rightarrow> vp_state \<Rightarrow> vp_state" where
  "vp_DeInitialiseHAL e s =
     (let s1 = (if videoPort_isPlatInitialized s
                then (snd (snd (vp_hal e CTerm s)))\<lparr>videoPort_isPlatInitialized := False\<rparr> else s)
      in s1\<lparr>videoPort_isInitialized := False\<rparr>)"

subsection \<open>Events and callbacks\<close>

definition vp_event :: "bool \<Rightarrow> vp_call \<Rightarrow> vp_state \<Rightarrow> vp_state" where
  "vp_event registered ev s = (if registered then vp_log ev s else s)"

definition VideoPortPreResolutionChange :: "vp_res \<Rightarrow> vp_state \<Rightarrow> vp_state" where
  "VideoPortPreResolutionChange r s =
     vp_event (cb_preChange s) (EPreChange (fst (resolution_size (r_pixel r))) (snd (resolution_size (r_pixel r)))) s"

definition VideoPortPostResolutionChange :: "vp_res \<Rightarrow> vp_state \<Rightarrow> vp_state" where
  "VideoPortPostResolutionChange r s =
     vp_event (cb_postChange s) (EPostChange (fst (resolution_size (r_pixel r))) (snd (resolution_size (r_pixel r)))) s"

definition current_protocol :: "vp_env \<Rightarrow> int \<Rightarrow> vp_state \<Rightarrow> int \<times> vp_state" where
  "current_protocol e status s =
     (if status = HDCP_AUTHENTICATED (ve_hdmi e) \<and> ve_symbol e ''dsGetHDCPCurrentProtocol''
      then let (handle, s1) = dsGetDefaultPortHandle e s;
               (eError, v, s2) = vp_hal e (COptGet ''dsGetHDCPCurrentProtocol'' handle) s1
           in (if eError \<noteq> DsERR_NONE then HDCP_VERSION_1X (ve_hdmi e) else v, s2)
      else (HDCP_VERSION_1X (ve_hdmi e), s))"

definition VideoPortHDCPStatusCallback :: "vp_env \<Rightarrow> int \<Rightarrow> int \<Rightarrow> vp_state \<Rightarrow> vp_state" where
  "VideoPortHDCPStatusCallback e handle status s =
     (let s1 = s\<lparr>cachedHdcpStatus := status\<rparr>;
          hdcpStatus = hdcp_status_of (ve_hdmi e) IH_UNAUTHENTICATED status;
          s2 = vp_sync e DS_HDMI_TAG_HDCPSTATUS status s1;
          (protocolVersion, s3) = current_protocol e status s2;
          s4 = vp_sync e DS_HDMI_TAG_HDCPVERSION protocolVersion s3
      in vp_event (cb_hdcp s4) (EHdcpStatus hdcpStatus) s4)"

definition hdr_of_format :: "vp_env \<Rightarrow> int \<Rightarrow> hdr_standard" where
  "hdr_of_format e f =
     (if f = ve_hdr10 e then HDR_HDR10 else if f = ve_hdr10plus e then HDR_HDR10PLUS
      else if f = ve_dolby e then HDR_DOLBYVISION else HDR_SDR)"

definition VideoPortVideoFormatUpdateCallback :: "vp_env \<Rightarrow> int \<Rightarrow> vp_state \<Rightarrow> vp_state" where
  "VideoPortVideoFormatUpdateCallback e videoFormat s =
     vp_event (cb_format s) (EVideoFormat (hdr_of_format e videoFormat)) s"

definition VideoPortRegisterVideoFormatUpdateCB :: "vp_env \<Rightarrow> vp_state \<Rightarrow> dsError \<times> vp_state" where
  "VideoPortRegisterVideoFormatUpdateCB e s =
     (if \<not> ve_symbol e ''dsVideoFormatUpdateRegisterCB'' then (DsERR_GENERAL, s)
      else let (eRet, v, s1) = vp_hal e CRegisterFormatCallback s in (eRet, s1))"

record vp_bundle =
  OnResolutionPreChange :: bool
  OnResolutionPostChange :: bool
  OnHDCPStatusChange :: bool
  OnVideoFormatUpdate :: bool

definition register_hdcp :: "vp_env \<Rightarrow> vp_state \<Rightarrow> vp_state" where
  "register_hdcp e s =
     (let (r0, h0, s0) = vp_hal e (CGetPort DSVP_HDMI 0) s;
          (eReturn, handle, s1) =
            (if r0 \<noteq> DsERR_NONE then vp_hal e (CGetPort DSVP_INTERNAL 0) s0 else (r0, h0, s0))
      in if eReturn = DsERR_NONE \<and> handle \<noteq> 0
         then let s2 = snd (snd (vp_hal e (CRegisterHdcpCallback handle) s1))
              in if ve_stb e then snd (snd (vp_hal e (CEnableHDCP handle True []) s2)) else s2
         else s1)"

definition vp_setAllCallbacks :: "vp_env \<Rightarrow> vp_bundle \<Rightarrow> vp_state \<Rightarrow> vp_state" where
  "vp_setAllCallbacks e bundle s =
     (if videoPort_isPlatInitialized s \<and> \<not> videoPort_isInitialized s
      then let s1 = (if OnResolutionPreChange bundle then s\<lparr>cb_preChange := True\<rparr> else s);
               s2 = (if OnResolutionPostChange bundle then s1\<lparr>cb_postChange := True\<rparr> else s1);
               s3 = (if OnHDCPStatusChange bundle then register_hdcp e (s2\<lparr>cb_hdcp := True\<rparr>) else s2);
               s4 = (if OnVideoFormatUpdate bundle
                     then snd (VideoPortRegisterVideoFormatUpdateCB e (s3\<lparr>cb_format := True\<rparr>)) else s3)
           in s4\<lparr>videoPort_isInitialized := True\<rparr>
      else s)"

subsection \<open>Requests: ports and settings\<close>

definition GetVideoPort_vp :: "vp_env \<Rightarrow> VideoPortType \<Rightarrow> int \<Rightarrow> vp_state \<Rightarrow> vp_result" where
  "GetVideoPort_vp e t index s = vp_query e (CGetPort (to_ds_port t) index) (\<lambda>h. VInt (to32 h)) None s"

definition IsVideoPortEnabled :: "vp_env \<Rightarrow> int \<Rightarrow> vp_state \<Rightarrow> vp_result" where
  "IsVideoPortEnabled e handle s = vp_query e (CIsEnabled handle) vbool None s"

definition EnableVideoPort :: "vp_env \<Rightarrow> int \<Rightarrow> bool \<Rightarrow> vp_state \<Rightarrow> vp_result" where
  "EnableVideoPort e handle enabled s = vp_command e (CEnable handle enabled) s"

definition IsVideoPortDisplayConnected_vp :: "vp_env \<Rightarrow> int \<Rightarrow> vp_state \<Rightarrow> vp_result" where
  "IsVideoPortDisplayConnected_vp e handle s = vp_query e (CIsConnected handle) vbool None s"

definition IsVideoPortActive :: "vp_env \<Rightarrow> int \<Rightarrow> vp_state \<Rightarrow> vp_result" where
  "IsVideoPortActive e handle s = vp_query e (CIsActive handle) vbool None s"

definition get_resolution :: "vp_env \<Rightarrow> int \<Rightarrow> vp_state \<Rightarrow> dsError \<times> vp_res \<times> vp_state" where
  "get_resolution e handle s =
     (ve_ret e (vs_trace s) (CGetResolution handle), ve_res e (vs_trace s) (CGetResolution handle),
      vp_log (CGetResolution handle) s)"

definition GetVideoPortResolution :: "vp_env \<Rightarrow> int \<Rightarrow> vp_state \<Rightarrow> vp_result" where
  "GetVideoPortResolution e handle s =
     (case resolvePortTypeByHandle e handle s of
        (None, s1) \<Rightarrow> (ERROR_GENERAL, None, s1)
      | (Some portType, s1) \<Rightarrow>
          let cached = (\<lambda>t. (ERROR_NONE, Some (VRes (buildResolutionFromName (getCachedResolutionForPort e portType t))), t))
          in if portType \<in> {DSVP_COMPONENT, DSVP_BB, DSVP_RF} then cached s1
             else let (connectedError, connected, s2) = vp_hal e (CIsConnected handle) s1
             in if connectedError = DsERR_NONE \<and> connected = 0 then cached s2
                else let (eError, dsResolution, s3) = get_resolution e handle s2
                in if eError \<noteq> DsERR_NONE then cached s3
                   else let resolution = from_ds_resolution e dsResolution
                   in if r_name resolution = [] then cached s3
                      else (ERROR_NONE, Some (VRes resolution),
                            updateCachedResolutionForPort portType (r_name resolution) s3))"

definition getIgnoreEDIDStatus_vp :: "vp_env \<Rightarrow> int \<Rightarrow> vp_state \<Rightarrow> vp_result" where
  "getIgnoreEDIDStatus_vp e handle s =
     (if \<not> ve_symbol e ''dsGetIgnoreEDIDStatus'' then (ERROR_NONE, Some (VBool False), s)
      else vp_query e (COptGet ''dsGetIgnoreEDIDStatus'' handle) vbool (Some (VBool False)) s)"

definition GetColorDepth :: "vp_env \<Rightarrow> int \<Rightarrow> vp_state \<Rightarrow> vp_result" where
  "GetColorDepth e handle s =
     vp_optional e ''dsGetColorDepth'' handle vword (Some (VWord 0)) (Some (VWord 0)) s"

definition SetVideoPortColorDepth :: "vp_env \<Rightarrow> int \<Rightarrow> 32 word \<Rightarrow> vp_state \<Rightarrow> vp_result" where
  "SetVideoPortColorDepth e handle depth s = vp_command e (CSetPreferredColorDepth handle depth) s"

definition GetQuantizationRange :: "vp_env \<Rightarrow> int \<Rightarrow> vp_state \<Rightarrow> vp_result" where
  "GetQuantizationRange e handle s =
     vp_optional e ''dsGetQuantizationRange'' handle (\<lambda>v. VQuant (convertQuantizationRange e v))
       (Some (VInt (ve_enum e ''QUANTIZATIONRANGE-UNKNOWN''))) None s"

definition GetColorSpace :: "vp_env \<Rightarrow> int \<Rightarrow> vp_state \<Rightarrow> vp_result" where
  "GetColorSpace e handle s =
     vp_optional e ''dsGetColorSpace'' handle VInt (Some (VInt (ve_enum e ''COLORSPACE-RGB''))) None s"

text \<open>The three setters the HAL does not have: they report success and do nothing.\<close>

definition set_unsupported :: "vp_state \<Rightarrow> vp_result" where
  "set_unsupported s = (ERROR_NONE, None, s)"

fun frames_per_second :: "frame_rate \<Rightarrow> int" where
  "frames_per_second FR_24 = 24"
| "frames_per_second FR_25 = 25"
| "frames_per_second FR_30 = 30"
| "frames_per_second FR_50 = 50"
| "frames_per_second FR_60 = 60"
| "frames_per_second FR_23dot98 = 24"
| "frames_per_second FR_29dot97 = 30"
| "frames_per_second FR_59dot94 = 60"
| "frames_per_second _ = 60"

definition GetVideoPortFrameRate :: "vp_env \<Rightarrow> int \<Rightarrow> vp_state \<Rightarrow> vp_result" where
  "GetVideoPortFrameRate e handle s =
     (let (eError, r, s1) = get_resolution e handle s
      in if eError = DsERR_NONE then (ERROR_NONE, Some (VInt (frames_per_second (r_frame r))), s1)
         else (ERROR_GENERAL, Some (VInt 60), s1))"

definition GetVideoPortHDCPStatus :: "vp_env \<Rightarrow> int \<Rightarrow> vp_state \<Rightarrow> vp_result" where
  "GetVideoPortHDCPStatus e handle s = (ERROR_NONE, Some (VHdcp (convertHdcpStatus e (cachedHdcpStatus s))), s)"

definition vversion :: "vp_env \<Rightarrow> int \<Rightarrow> vp_val" where
  "vversion e v = VVersion (convertHdcpProtocolVersion e v)"

definition GetHDCPProtocolVersionOnVideoPort :: "vp_env \<Rightarrow> int \<Rightarrow> vp_state \<Rightarrow> vp_result" where
  "GetHDCPProtocolVersionOnVideoPort e handle s =
     vp_optional e ''dsGetHDCPProtocol'' handle (vversion e) None None s"

definition GetHDCPReceiverProtocolVersionOnVideoPort :: "vp_env \<Rightarrow> int \<Rightarrow> vp_state \<Rightarrow> vp_result" where
  "GetHDCPReceiverProtocolVersionOnVideoPort e handle s =
     vp_optional e ''dsGetHDCPReceiverProtocol'' handle (vversion e) None None s"

definition GetHDCPCurrentProtocolVersionOnVideoPort :: "vp_env \<Rightarrow> int \<Rightarrow> vp_state \<Rightarrow> vp_result" where
  "GetHDCPCurrentProtocolVersionOnVideoPort e handle s =
     vp_optional e ''dsGetHDCPCurrentProtocol'' handle (vversion e) None None s"

definition GetVideoEOTF_vp :: "vp_env \<Rightarrow> int \<Rightarrow> vp_state \<Rightarrow> vp_result" where
  "GetVideoEOTF_vp e handle s =
     vp_optional e ''dsGetVideoEOTF'' handle VInt (Some (VInt (ve_enum e ''HDRSTANDARD-NONE''))) None s"

definition GetMatrixCoefficients :: "vp_env \<Rightarrow> int \<Rightarrow> vp_state \<Rightarrow> vp_result" where
  "GetMatrixCoefficients e handle s =
     vp_optional e ''dsGetMatrixCoefficients'' handle VInt
       (Some (VInt (ve_enum e ''MATRIXCOEFFICIENT-UNKNOWN''))) None s"

definition IsVideoPortDisplaySurround :: "vp_env \<Rightarrow> int \<Rightarrow> vp_state \<Rightarrow> vp_result" where
  "IsVideoPortDisplaySurround e handle s =
     vp_optional e ''dsIsDisplaySurround'' handle vbool (Some (VBool False)) None s"

definition GetVideoPortDisplaySurroundMode :: "vp_env \<Rightarrow> int \<Rightarrow> vp_state \<Rightarrow> vp_result" where
  "GetVideoPortDisplaySurroundMode e handle s =
     vp_optional e ''dsGetSurroundMode'' handle VInt (Some (VInt (ve_enum e ''SURROUNDMODE-NONE''))) None s"

definition GetCurrentOutputSettings :: "vp_env \<Rightarrow> int \<Rightarrow> vp_state \<Rightarrow> vp_result" where
  "GetCurrentOutputSettings e handle s =
     (if \<not> ve_symbol e ''dsGetCurrentOutputSettings''
      then (ERROR_GENERAL, Some (VSettings (ve_enum e ''HDRSTANDARD-NONE'')
              (ve_enum e ''MATRIXCOEFFICIENT-UNKNOWN'') 0 (ve_enum e ''COLORSPACE-UNKNOWN'')
              (ve_enum e ''QUANTIZATIONRANGE-UNKNOWN'')), s)
      else let c = COptGet ''dsGetCurrentOutputSettings'' handle;
               (eotf, matrix, depth, space, range) = ve_settings e (vs_trace s) c;
               (eError, v, s1) = vp_hal e c s
           in if eError = DsERR_NONE
              then (ERROR_NONE, Some (VSettings eotf matrix depth space range), s1)
              else (ERROR_GENERAL, None, s1))"

definition GetPreferredColorDepth :: "vp_env \<Rightarrow> int \<Rightarrow> bool \<Rightarrow> vp_state \<Rightarrow> vp_result" where
  "GetPreferredColorDepth e handle persist s =
     (if persist then let (depth, s1) = getPersistentColorDepth e s in (ERROR_NONE, Some (VWord depth), s1)
      else vp_optional e ''dsGetPreferredColorDepth'' handle vword
             (Some (vword (ve_enum e ''COLORDEPTH-UNKNOWN''))) None s)"

definition persist_depth :: "vp_env \<Rightarrow> bool \<Rightarrow> 32 word \<Rightarrow> vp_state \<Rightarrow> vp_state" where
  "persist_depth e persist depth s =
     (if persist then vp_persist e ''HDMI0.colorDepth'' (to_string (sint depth)) s else s)"

definition SetPreferredColorDepth :: "vp_env \<Rightarrow> int \<Rightarrow> 32 word \<Rightarrow> bool \<Rightarrow> vp_state \<Rightarrow> vp_result" where
  "SetPreferredColorDepth e handle depth persist s =
     (let (connectedError, connected, s1) = vp_hal e (CIsConnected handle) s
      in if connectedError = DsERR_NONE \<and> connected = 0 then (ERROR_GENERAL, None, s1)
         else let (currentError, current, s2) = getCurrentPreferredColorDepth e handle s1
         in if currentError = DsERR_NONE \<and> depth = current
            then (ERROR_NONE, None, persist_depth e persist depth s2)
            else let (toSet, s3) = getBestSupportedColorDepth e handle depth s2;
                     (eError, s4) = setPreferredColorDepthHAL e handle toSet s3
                 in if eError = DsERR_NONE then (ERROR_NONE, None, persist_depth e persist depth s4)
                    else (ERROR_GENERAL, None, s4))"

text \<open>What both successful branches do: update the cache, and persist when asked to.\<close>

definition settle_resolution ::
  "vp_env \<Rightarrow> int \<Rightarrow> dsVideoPortType \<Rightarrow> vp_res \<Rightarrow> bool \<Rightarrow> bool \<Rightarrow> vp_state \<Rightarrow> vp_state" where
  "settle_resolution e handle portType r persist force s =
     (let s1 = updateCachedResolutionForPort portType (r_name r) s
      in if persist then persistVideoPortResolution e handle r force s1 else s1)"

definition SetVideoPortResolution_vp ::
  "vp_env \<Rightarrow> int \<Rightarrow> vp_res \<Rightarrow> bool \<Rightarrow> bool \<Rightarrow> vp_state \<Rightarrow> vp_result" where
  "SetVideoPortResolution_vp e handle resolution persist force s =
     (case resolvePortTypeByHandle e handle s of
        (None, s1) \<Rightarrow> (ERROR_GENERAL, None, s1)
      | (Some portType, s1) \<Rightarrow>
          let (connectedError, connected, s2) = vp_hal e (CIsConnected handle) s1
          in if connectedError = DsERR_NONE \<and> connected = 0 then (ERROR_GENERAL, None, s2)
             else let (force4KError, forceDisable4K, s3) = vp_hal e (CGetForceDisable4K handle) s2
             in if force4KError = DsERR_NONE \<and> forceDisable4K \<noteq> 0 \<and> contains (r_name resolution) ''2160''
                then (ERROR_GENERAL, None, s3)
                else let (_, _, s4) = getIgnoreEDIDStatus_vp e handle s3;
                         dsResolution = to_ds_resolution e resolution;
                         (platformError, platformResolution, s5) = get_resolution e handle s4
                in if platformError = DsERR_NONE \<and> r_name dsResolution = r_name platformResolution
                   then (ERROR_NONE, None, settle_resolution e handle portType platformResolution persist force s5)
                   else let s6 = VideoPortPreResolutionChange dsResolution s5;
                            (eError, v, s7) = vp_hal e (CSetResolution handle dsResolution) s6;
                            s8 = VideoPortPostResolutionChange dsResolution s7
                        in if eError = DsERR_NONE
                           then (ERROR_NONE, None, settle_resolution e handle portType dsResolution persist force s8)
                           else (ERROR_GENERAL, None, s8))"

subsection \<open>Requests: HDCP, HDR, HDMI preference\<close>

definition EnableHDCPOnVideoPort :: "vp_env \<Rightarrow> int \<Rightarrow> bool \<Rightarrow> int list \<Rightarrow> vp_state \<Rightarrow> vp_result" where
  "EnableHDCPOnVideoPort e handle hdcpEnable hdcpKey s = vp_command e (CEnableHDCP handle hdcpEnable hdcpKey) s"

definition IsHDCPEnabledOnVideoPort :: "vp_env \<Rightarrow> int \<Rightarrow> vp_state \<Rightarrow> vp_result" where
  "IsHDCPEnabledOnVideoPort e handle s = vp_query e (CIsHDCPEnabled handle) vbool None s"

definition GetTVHDRCapabilities :: "vp_env \<Rightarrow> int \<Rightarrow> vp_state \<Rightarrow> vp_result" where
  "GetTVHDRCapabilities e handle s =
     vp_optional e ''dsGetTVHDRCapabilities'' handle VInt (Some (VInt 0)) None s"

definition GetTVSupportedResolutions :: "vp_env \<Rightarrow> int \<Rightarrow> vp_state \<Rightarrow> vp_result" where
  "GetTVSupportedResolutions e handle s =
     vp_optional e ''dsSupportedTvResolutions'' handle VInt (Some (VInt 0)) None s"

definition SetForceDisable4K :: "vp_env \<Rightarrow> int \<Rightarrow> bool \<Rightarrow> vp_state \<Rightarrow> vp_result" where
  "SetForceDisable4K e handle disable s =
     (let (eError, v, s1) = vp_hal e (CSetForceDisable4K handle disable) s
      in if eError = DsERR_NONE
         then (ERROR_NONE, None,
               vp_persist e ''VideoDevice.force4KDisabled'' (if disable then ''true'' else ''false'') s1)
         else (ERROR_GENERAL, None, s1))"

definition GetForceDisable4K :: "vp_env \<Rightarrow> int \<Rightarrow> vp_state \<Rightarrow> vp_result" where
  "GetForceDisable4K e handle s = vp_query e (CGetForceDisable4K handle) vbool (Some (VBool False)) s"

definition IsVideoPortOutputHDR :: "vp_env \<Rightarrow> int \<Rightarrow> vp_state \<Rightarrow> vp_result" where
  "IsVideoPortOutputHDR e handle s =
     vp_optional e ''dsIsOutputHDR'' handle vbool (Some (VBool False)) None s"

definition opt_command :: "vp_env \<Rightarrow> string \<Rightarrow> vp_call \<Rightarrow> vp_state \<Rightarrow> vp_result" where
  "opt_command e symbol c s =
     (if \<not> ve_symbol e symbol then (ERROR_GENERAL, None, s) else vp_command e c s)"

definition ResetVideoPortOutputToSDR :: "vp_env \<Rightarrow> vp_state \<Rightarrow> vp_result" where
  "ResetVideoPortOutputToSDR e s = opt_command e ''dsResetOutputToSDR'' CResetToSDR s"

definition GetHDMIPreference :: "vp_env \<Rightarrow> int \<Rightarrow> vp_state \<Rightarrow> vp_result" where
  "GetHDMIPreference e handle s = vp_optional e ''dsGetHdmiPreference'' handle (vversion e) None None s"

definition SetHDMIPreference :: "vp_env \<Rightarrow> int \<Rightarrow> hdcp_version \<Rightarrow> vp_state \<Rightarrow> vp_result" where
  "SetHDMIPreference e handle v s =
     opt_command e ''dsSetHdmiPreference''
       (COptSet ''dsSetHdmiPreference'' handle (convertHdcpProtocolVersionToDSHal e v)) s"

definition SetBackgroundColor_vp :: "vp_env \<Rightarrow> int \<Rightarrow> int \<Rightarrow> vp_state \<Rightarrow> vp_result" where
  "SetBackgroundColor_vp e handle color s = vp_command e (CSetBackgroundColor handle color) s"

definition SetForceHDRMode_vp :: "vp_env \<Rightarrow> int \<Rightarrow> int \<Rightarrow> vp_state \<Rightarrow> vp_result" where
  "SetForceHDRMode_vp e handle mode s =
     opt_command e ''dsSetForceHDRMode'' (COptSet ''dsSetForceHDRMode'' handle mode) s"

definition GetColorDepthCapabilities :: "vp_env \<Rightarrow> int \<Rightarrow> vp_state \<Rightarrow> vp_result" where
  "GetColorDepthCapabilities e handle s =
     vp_optional e ''dsColorDepthCapabilities'' handle
       (\<lambda>v. VWord (word_of_int v OR DEPTH_AUTO e)) (Some (VWord 0)) (Some (VWord 0)) s"

subsection \<open>The request interface\<close>

text \<open>The methods of \<open>IPlatform\<close>.\<close>

datatype vp_request =
    V_GetVideoPort VideoPortType int
  | V_IsVideoPortEnabled int
  | V_EnableVideoPort int bool
  | V_IsVideoPortDisplayConnected int
  | V_IsVideoPortActive int
  | V_GetVideoPortResolution int
  | V_SetVideoPortResolution int vp_res bool bool
  | V_GetIgnoreEDIDStatus int
  | V_GetColorDepth int
  | V_SetVideoPortColorDepth int "32 word"
  | V_GetQuantizationRange int
  | V_SetVideoPortQuantizationRange int quantization
  | V_GetColorSpace int
  | V_SetColorSpace int int
  | V_GetVideoPortFrameRate int
  | V_SetVideoPortFrameRate int int
  | V_GetVideoPortHDCPStatus int
  | V_GetHDCPProtocolVersion int
  | V_GetHDCPReceiverProtocolVersion int
  | V_GetHDCPCurrentProtocolVersion int
  | V_EnableHDCP int bool "int list"
  | V_IsHDCPEnabled int
  | V_GetTVHDRCapabilities int
  | V_GetTVSupportedResolutions int
  | V_SetForceDisable4K int bool
  | V_GetForceDisable4K int
  | V_IsVideoPortOutputHDR int
  | V_ResetVideoPortOutputToSDR
  | V_GetHDMIPreference int
  | V_SetHDMIPreference int hdcp_version
  | V_GetVideoEOTF int
  | V_GetMatrixCoefficients int
  | V_IsVideoPortDisplaySurround int
  | V_GetVideoPortDisplaySurroundMode int
  | V_GetCurrentOutputSettings int
  | V_SetBackgroundColor int int
  | V_SetForceHDRMode int int
  | V_GetColorDepthCapabilities int
  | V_GetPreferredColorDepth int bool
  | V_SetPreferredColorDepth int "32 word" bool

fun platform :: "vp_env \<Rightarrow> vp_request \<Rightarrow> vp_state \<Rightarrow> vp_result" where
  "platform e (V_GetVideoPort t n) s = GetVideoPort_vp e t n s"
| "platform e (V_IsVideoPortEnabled h) s = IsVideoPortEnabled e h s"
| "platform e (V_EnableVideoPort h b) s = EnableVideoPort e h b s"
| "platform e (V_IsVideoPortDisplayConnected h) s = IsVideoPortDisplayConnected_vp e h s"
| "platform e (V_IsVideoPortActive h) s = IsVideoPortActive e h s"
| "platform e (V_GetVideoPortResolution h) s = GetVideoPortResolution e h s"
| "platform e (V_SetVideoPortResolution h r p f) s = SetVideoPortResolution_vp e h r p f s"
| "platform e (V_GetIgnoreEDIDStatus h) s = getIgnoreEDIDStatus_vp e h s"
| "platform e (V_GetColorDepth h) s = GetColorDepth e h s"
| "platform e (V_SetVideoPortColorDepth h w) s = SetVideoPortColorDepth e h w s"
| "platform e (V_GetQuantizationRange h) s = GetQuantizationRange e h s"
| "platform e (V_SetVideoPortQuantizationRange h q) s = set_unsupported s"
| "platform e (V_GetColorSpace h) s = GetColorSpace e h s"
| "platform e (V_SetColorSpace h n) s = set_unsupported s"
| "platform e (V_GetVideoPortFrameRate h) s = GetVideoPortFrameRate e h s"
| "platform e (V_SetVideoPortFrameRate h n) s = set_unsupported s"
| "platform e (V_GetVideoPortHDCPStatus h) s = GetVideoPortHDCPStatus e h s"
| "platform e (V_GetHDCPProtocolVersion h) s = GetHDCPProtocolVersionOnVideoPort e h s"
| "platform e (V_GetHDCPReceiverProtocolVersion h) s = GetHDCPReceiverProtocolVersionOnVideoPort e h s"
| "platform e (V_GetHDCPCurrentProtocolVersion h) s = GetHDCPCurrentProtocolVersionOnVideoPort e h s"
| "platform e (V_EnableHDCP h b k) s = EnableHDCPOnVideoPort e h b k s"
| "platform e (V_IsHDCPEnabled h) s = IsHDCPEnabledOnVideoPort e h s"
| "platform e (V_GetTVHDRCapabilities h) s = GetTVHDRCapabilities e h s"
| "platform e (V_GetTVSupportedResolutions h) s = GetTVSupportedResolutions e h s"
| "platform e (V_SetForceDisable4K h b) s = SetForceDisable4K e h b s"
| "platform e (V_GetForceDisable4K h) s = GetForceDisable4K e h s"
| "platform e (V_IsVideoPortOutputHDR h) s = IsVideoPortOutputHDR e h s"
| "platform e (V_ResetVideoPortOutputToSDR) s = ResetVideoPortOutputToSDR e s"
| "platform e (V_GetHDMIPreference h) s = GetHDMIPreference e h s"
| "platform e (V_SetHDMIPreference h v) s = SetHDMIPreference e h v s"
| "platform e (V_GetVideoEOTF h) s = GetVideoEOTF_vp e h s"
| "platform e (V_GetMatrixCoefficients h) s = GetMatrixCoefficients e h s"
| "platform e (V_IsVideoPortDisplaySurround h) s = IsVideoPortDisplaySurround e h s"
| "platform e (V_GetVideoPortDisplaySurroundMode h) s = GetVideoPortDisplaySurroundMode e h s"
| "platform e (V_GetCurrentOutputSettings h) s = GetCurrentOutputSettings e h s"
| "platform e (V_SetBackgroundColor h n) s = SetBackgroundColor_vp e h n s"
| "platform e (V_SetForceHDRMode h n) s = SetForceHDRMode_vp e h n s"
| "platform e (V_GetColorDepthCapabilities h) s = GetColorDepthCapabilities e h s"
| "platform e (V_GetPreferredColorDepth h p) s = GetPreferredColorDepth e h p s"
| "platform e (V_SetPreferredColorDepth h w p) s = SetPreferredColorDepth e h w p s"

text \<open>\<open>VideoPort\<close>: every method forwards to the platform object, if there is one.\<close>

definition VideoPort_call :: "vp_env \<Rightarrow> bool \<Rightarrow> vp_request \<Rightarrow> vp_state \<Rightarrow> vp_result" where
  "VideoPort_call e has_platform r s = (if has_platform then platform e r s else (ERROR_GENERAL, None, s))"

definition VideoPort_Platform_init :: "vp_env \<Rightarrow> bool \<Rightarrow> vp_state \<Rightarrow> vp_state" where
  "VideoPort_Platform_init e has_platform s =
     (if has_platform
      then vp_getPersistenceValue e (vp_setAllCallbacks e
             \<lparr>OnResolutionPreChange = True, OnResolutionPostChange = True,
              OnHDCPStatusChange = True, OnVideoFormatUpdate = True\<rparr> s)
      else s)"

text \<open>The construction of the platform object and of \<open>VideoPort\<close> on it.\<close>

definition vp_start :: "vp_env \<Rightarrow> host_store \<Rightarrow> string option \<Rightarrow> vp_state" where
  "vp_start e st file = VideoPort_Platform_init e True (vp_InitialiseHAL e (vp_static e st file))"

subsection \<open>What a call leaves as it was\<close>

text \<open>\<open>only_calls P s s'\<close>: between the two states only calls with \<open>P\<close> were made.\<close>

definition only_calls :: "(vp_call \<Rightarrow> bool) \<Rightarrow> vp_state \<Rightarrow> vp_state \<Rightarrow> bool" where
  "only_calls P s s' \<longleftrightarrow> (\<exists>cs. s' = s\<lparr>vs_trace := vs_trace s @ cs\<rparr> \<and> list_all P cs)"

lemma only_calls_refl [simp]: "only_calls P s s"
  by (auto simp: only_calls_def intro: exI [of _ "[]"])

lemma only_calls_trans: "only_calls P s s' \<Longrightarrow> only_calls P s' s'' \<Longrightarrow> only_calls P s s''"
  by (auto simp: only_calls_def)

lemma only_calls_log: "P c \<Longrightarrow> only_calls P s (vp_log c s)"
  by (auto simp: only_calls_def vp_log_def intro: exI [of _ "[c]"])

lemma only_calls_simps:
  assumes "only_calls P s s'"
  shows "dsHDMIResolution s' = dsHDMIResolution s" "dsCompResolution s' = dsCompResolution s"
    "vs_store s' = vs_store s" "vs_status s' = vs_status s" "cachedHdcpStatus s' = cachedHdcpStatus s"
    "cb_preChange s' = cb_preChange s" "cb_postChange s' = cb_postChange s" "cb_hdcp s' = cb_hdcp s"
  using assms by (auto simp: only_calls_def)

lemma only_calls_filter:
  "only_calls P s s' \<Longrightarrow> (\<And>c. P c \<Longrightarrow> \<not> Q c) \<Longrightarrow> filter Q (vs_trace s') = filter Q (vs_trace s)"
  by (auto simp: only_calls_def list_all_iff filter_empty_conv)

fun read_call :: "vp_call \<Rightarrow> bool" where
  "read_call (CGetPort _ _) = True"
| "read_call (CIsEnabled _) = True"
| "read_call (CIsConnected _) = True"
| "read_call (CIsActive _) = True"
| "read_call (CGetResolution _) = True"
| "read_call (CGetForceDisable4K _) = True"
| "read_call (CIsHDCPEnabled _) = True"
| "read_call (COptGet _ _) = True"
| "read_call _ = False"

lemma only_calls_query: "P c \<Longrightarrow> only_calls P s (snd (snd (vp_query e c conv x s)))"
  by (simp add: vp_query_def vp_hal_def only_calls_log)

lemma only_calls_optional: "P (COptGet y h) \<Longrightarrow> only_calls P s (snd (snd (vp_optional e y h conv a x s)))"
  by (simp add: vp_optional_def only_calls_query)

lemma only_calls_find:
  "(\<And>t. P (CGetPort t 0)) \<Longrightarrow> only_calls P s (snd (find_port_type e narrow handle ts s))"
proof (induction ts arbitrary: s)
  case Nil
  then show ?case by simp
next
  case (Cons t ts)
  have "only_calls P s (vp_log (CGetPort t 0) s)" using Cons.prems by (simp add: only_calls_log)
  with Cons show ?case
    by (auto simp: vp_hal_def intro: only_calls_trans)
qed

lemma only_calls_resolve:
  "(\<And>t. P (CGetPort t 0)) \<Longrightarrow> only_calls P s (snd (resolvePortTypeByHandle e handle s))"
  unfolding resolvePortTypeByHandle_def by (rule only_calls_find)

lemma only_calls_default_port:
  "(\<And>t i. P (CGetPort t i)) \<Longrightarrow> only_calls P s (snd (default_port_loop e h ps s))"
proof (induction ps arbitrary: s h)
  case Nil
  then show ?case by simp
next
  case (Cons p ps)
  have "only_calls P s (vp_log (CGetPort (to_ds_port (fst p)) (snd p)) s)"
    using Cons.prems by (simp add: only_calls_log)
  with Cons show ?case
    by (auto simp: vp_hal_def Let_def intro: only_calls_trans)
qed

lemma only_calls_edid: "P (COptGet ''dsGetIgnoreEDIDStatus'' h) \<Longrightarrow> only_calls P s (snd (snd (getIgnoreEDIDStatus_vp e h s)))"
  by (simp add: getIgnoreEDIDStatus_vp_def only_calls_query)

text \<open>Reading a setting at most loads the property file.\<close>

lemma vp_setting_eq:
  "k \<noteq> [] \<Longrightarrow> vp_setting k d s
     = (Ret (case hp_get (vs_store s) k of None \<Rightarrow> d | Some v \<Rightarrow> v),
        s\<lparr>vs_store := ensureInitialized (vs_store s)\<rparr>)"
  by (simp add: vp_setting_def getProperty_default_def hp_get_def Let_def split: option.split)

lemma persist_then_eq:
  "k \<noteq> [] \<Longrightarrow> v \<noteq> [] \<Longrightarrow> persist_then e k v f s = f (s\<lparr>vs_store := hp_put (ve_io e) k v (vs_store s)\<rparr>)"
  by (simp add: persist_then_def hp_put_def persist_eq)

lemma hp_get_init [simp]: "hp_get (ensureInitialized st) = hp_get st"
  by (simp add: hp_get_def fun_eq_iff)

text \<open>Persisting a resolution makes no call of its own but those that look up the port.\<close>

lemma persist_then_trace:
  "(\<And>t. vs_trace (f t) = vs_trace t) \<Longrightarrow> vs_trace (persist_then e k v f s) = vs_trace s"
  by (simp add: persist_then_def Let_def split: prod.split outcome.split)

lemma follow_analog_trace:
  "(\<And>c t. vs_trace (f c t) = vs_trace t) \<Longrightarrow> vs_trace (follow_analog e r f s) = vs_trace s"
  by (simp add: follow_analog_def Let_def)

lemma persist_resolution_trace:
  "\<exists>cs. vs_trace (persistVideoPortResolution e h r f s) = vs_trace s @ cs
      \<and> list_all (\<lambda>c. \<exists>t. c = CGetPort t 0) cs"
proof -
  let ?ts = "[DSVP_HDMI, DSVP_COMPONENT, DSVP_INTERNAL, DSVP_BB, DSVP_RF]"
  have f: "only_calls (\<lambda>c. \<exists>t. c = CGetPort t 0) s (snd (find_port_type e (\<lambda>h. h) h ?ts s))"
    by (rule only_calls_find) simp
  have "vs_trace (persistVideoPortResolution e h r f s) = vs_trace (snd (find_port_type e (\<lambda>h. h) h ?ts s))"
    unfolding persistVideoPortResolution_def persist_hdmi_def persist_component_def vp_persist_def
    by (auto simp: Let_def persist_then_trace follow_analog_trace split: prod.split dsVideoPortType.split)
  with f show ?thesis by (auto simp: only_calls_def)
qed

text \<open>The requests that are meant to change something.\<close>

fun setter :: "vp_request \<Rightarrow> bool" where
  "setter (V_EnableVideoPort _ _) = True"
| "setter (V_SetVideoPortResolution _ _ _ _) = True"
| "setter (V_SetVideoPortColorDepth _ _) = True"
| "setter (V_EnableHDCP _ _ _) = True"
| "setter (V_SetForceDisable4K _ _) = True"
| "setter V_ResetVideoPortOutputToSDR = True"
| "setter (V_SetHDMIPreference _ _) = True"
| "setter (V_SetBackgroundColor _ _) = True"
| "setter (V_SetForceHDRMode _ _) = True"
| "setter (V_SetPreferredColorDepth _ _ _) = True"
| "setter _ = False"

text \<open>\<open>harmless s s'\<close>: only reading calls, the settings read as before, nothing was written.\<close>

definition harmless :: "vp_state \<Rightarrow> vp_state \<Rightarrow> bool" where
  "harmless s s' \<longleftrightarrow> (\<exists>cs. vs_trace s' = vs_trace s @ cs \<and> list_all read_call cs)
     \<and> hp_get (vs_store s') = hp_get (vs_store s) \<and> hp_disk (vs_store s') = hp_disk (vs_store s)
     \<and> vs_status s' = vs_status s \<and> cachedHdcpStatus s' = cachedHdcpStatus s"

lemma harmless_calls: "only_calls read_call s s' \<Longrightarrow> harmless s s'"
  by (auto simp: only_calls_def harmless_def)

lemma harmless_cache: "harmless s s' \<Longrightarrow> harmless s (updateCachedResolutionForPort t n s')"
  by (auto simp: harmless_def updateCachedResolutionForPort_def split: dsVideoPortType.split)

lemma harmless_store: "harmless s (s\<lparr>vs_store := ensureInitialized (vs_store s)\<rparr>)"
  by (simp add: harmless_def)

lemma only_calls_get_resolution: "P (CGetResolution h) \<Longrightarrow> only_calls P s (snd (snd (get_resolution e h s)))"
  by (simp add: get_resolution_def only_calls_log)

lemma harmless_GetVideoPortResolution: "harmless s (snd (snd (GetVideoPortResolution e h s)))"
proof -
  obtain t s1 where r: "resolvePortTypeByHandle e h s = (t, s1)" by fastforce
  then have 1: "only_calls read_call s s1"
    using only_calls_resolve [of read_call s e h] by simp
  have 2: "only_calls read_call s (vp_log (CIsConnected h) s1)"
    using 1 by (rule only_calls_trans) (simp add: only_calls_log)
  have 3: "only_calls read_call s (vp_log (CGetResolution h) (vp_log (CIsConnected h) s1))"
    using 2 by (rule only_calls_trans) (simp add: only_calls_log)
  note hs = harmless_calls [OF 1] harmless_calls [OF 2] harmless_calls [OF 3]
  show ?thesis
    using hs
    by (cases t) (simp_all add: GetVideoPortResolution_def r vp_hal_def get_resolution_def Let_def harmless_cache)
qed

lemmas read_requests =
  GetVideoPort_vp_def IsVideoPortEnabled_def IsVideoPortDisplayConnected_vp_def IsVideoPortActive_def
  GetColorDepth_def GetQuantizationRange_def GetColorSpace_def set_unsupported_def
  GetVideoPortHDCPStatus_def GetHDCPProtocolVersionOnVideoPort_def
  GetHDCPReceiverProtocolVersionOnVideoPort_def GetHDCPCurrentProtocolVersionOnVideoPort_def
  GetVideoEOTF_vp_def GetMatrixCoefficients_def IsVideoPortDisplaySurround_def
  GetVideoPortDisplaySurroundMode_def IsHDCPEnabledOnVideoPort_def GetTVHDRCapabilities_def
  GetTVSupportedResolutions_def GetForceDisable4K_def IsVideoPortOutputHDR_def GetHDMIPreference_def
  GetColorDepthCapabilities_def

lemma harmless_frame_rate: "harmless s (snd (snd (GetVideoPortFrameRate e h s)))"
  by (rule harmless_calls) (simp add: GetVideoPortFrameRate_def get_resolution_def only_calls_log)

lemma harmless_output_settings: "harmless s (snd (snd (GetCurrentOutputSettings e h s)))"
  by (rule harmless_calls)
    (simp add: GetCurrentOutputSettings_def vp_hal_def Let_def only_calls_log split: prod.split)

lemma harmless_GetPreferredColorDepth: "harmless s (snd (snd (GetPreferredColorDepth e h p s)))"
  by (cases p) (simp_all add: GetPreferredColorDepth_def getPersistentColorDepth_def vp_setting_eq
      harmless_store harmless_calls only_calls_optional)

subsection \<open>Setting a resolution\<close>

fun resolution_call :: "vp_call \<Rightarrow> bool" where
  "resolution_call (CSetResolution _ _) = True"
| "resolution_call (EPreChange _ _) = True"
| "resolution_call (EPostChange _ _) = True"
| "resolution_call _ = False"

text \<open>The answers a resolution request depends on, from the calls made so far.\<close>

definition says :: "vp_env \<Rightarrow> vp_hist \<Rightarrow> vp_call \<Rightarrow> bool \<Rightarrow> bool" where
  "says e hist c b \<longleftrightarrow> ve_ret e hist c = DsERR_NONE \<and> (ve_out e hist c \<noteq> 0) = b"

definition edid_query :: "vp_env \<Rightarrow> int \<Rightarrow> vp_hist" where
  "edid_query e handle =
     (if ve_symbol e ''dsGetIgnoreEDIDStatus'' then [COptGet ''dsGetIgnoreEDIDStatus'' handle] else [])"

definition refused :: "vp_env \<Rightarrow> int \<Rightarrow> vp_res \<Rightarrow> vp_hist \<Rightarrow> bool" where
  "refused e handle r hist \<longleftrightarrow> says e hist (CIsConnected handle) False
     \<or> (says e (hist @ [CIsConnected handle]) (CGetForceDisable4K handle) True \<and> contains (r_name r) ''2160'')"

definition current_name :: "vp_env \<Rightarrow> int \<Rightarrow> vp_hist \<Rightarrow> string option" where
  "current_name e handle hist =
     (let h = hist @ [CIsConnected handle, CGetForceDisable4K handle] @ edid_query e handle
      in if ve_ret e h (CGetResolution handle) = DsERR_NONE
         then Some (r_name (ve_res e h (CGetResolution handle))) else None)"

lemma edid_state: "snd (snd (getIgnoreEDIDStatus_vp e h s)) = s\<lparr>vs_trace := vs_trace s @ edid_query e h\<rparr>"
  by (simp add: getIgnoreEDIDStatus_vp_def edid_query_def vp_query_def vp_hal_def vp_log_def)

lemma update_cache_simps [simp]:
  "vs_trace (updateCachedResolutionForPort t n s) = vs_trace s"
  "vs_store (updateCachedResolutionForPort t n s) = vs_store s"
  by (auto simp: updateCachedResolutionForPort_def split: dsVideoPortType.split)

lemma change_event_simps [simp]:
  "vs_store (VideoPortPreResolutionChange r s) = vs_store s"
  "vs_store (VideoPortPostResolutionChange r s) = vs_store s"
  "cb_postChange (VideoPortPreResolutionChange r s) = cb_postChange s"
  by (auto simp: VideoPortPreResolutionChange_def VideoPortPostResolutionChange_def vp_event_def vp_log_def)

definition asked :: "vp_env \<Rightarrow> int \<Rightarrow> vp_state \<Rightarrow> vp_state" where
  "asked e handle s = s\<lparr>vs_trace := vs_trace s @ [CIsConnected handle, CGetForceDisable4K handle]
     @ edid_query e handle @ [CGetResolution handle]\<rparr>"

lemma asked_calls: "only_calls read_call s (asked e h s)"
  by (auto simp: only_calls_def asked_def edid_query_def)

lemma set_resolution_refused:
  assumes "resolvePortTypeByHandle e h s = (Some t, s1)" and "refused e h r (vs_trace s1)"
  shows "\<exists>s2. SetVideoPortResolution_vp e h r p f s = (ERROR_GENERAL, None, s2) \<and> only_calls read_call s1 s2"
proof -
  have 1: "only_calls read_call s1 (vp_log (CIsConnected h) s1)" by (simp add: only_calls_log)
  have 2: "only_calls read_call s1 (vp_log (CGetForceDisable4K h) (vp_log (CIsConnected h) s1))"
    using 1 by (rule only_calls_trans) (simp add: only_calls_log)
  show ?thesis
  proof (cases "says e (vs_trace s1) (CIsConnected h) False")
    case True
    then show ?thesis using assms(1) 1
      by (simp add: SetVideoPortResolution_vp_def says_def vp_hal_def)
  next
    case False
    then have "says e (vs_trace s1 @ [CIsConnected h]) (CGetForceDisable4K h) True"
      and "contains (r_name r) ''2160''" using assms(2) by (auto simp: refused_def)
    then show ?thesis using False assms(1) 2
      by (auto simp: SetVideoPortResolution_vp_def says_def vp_hal_def Let_def) (auto simp: vp_log_def)
  qed
qed

lemma set_resolution_accepted:
  assumes "resolvePortTypeByHandle e h s = (Some t, s1)" and "\<not> refused e h r (vs_trace s1)"
  defines "d \<equiv> to_ds_resolution e r" and "s5 \<equiv> asked e h s1"
  defines "s6 \<equiv> VideoPortPreResolutionChange d s5"
  defines "s8 \<equiv> VideoPortPostResolutionChange d (vp_log (CSetResolution h d) s6)"
  shows "SetVideoPortResolution_vp e h r p f s =
    (if current_name e h (vs_trace s1) = Some (r_name d)
     then (ERROR_NONE, None, settle_resolution e h t (ve_res e (vs_trace s1 @ [CIsConnected h, CGetForceDisable4K h]
             @ edid_query e h) (CGetResolution h)) p f s5)
     else if ve_ret e (vs_trace s6) (CSetResolution h d) = DsERR_NONE
     then (ERROR_NONE, None, settle_resolution e h t d p f s8) else (ERROR_GENERAL, None, s8))"
proof -
  have c: "\<not> (ve_ret e (vs_trace s1) (CIsConnected h) = DsERR_NONE \<and> ve_out e (vs_trace s1) (CIsConnected h) = 0)"
    and k: "\<not> (ve_ret e (vs_trace s1 @ [CIsConnected h]) (CGetForceDisable4K h) = DsERR_NONE
       \<and> ve_out e (vs_trace s1 @ [CIsConnected h]) (CGetForceDisable4K h) \<noteq> 0 \<and> contains (r_name r) ''2160'')"
    using assms(2) by (auto simp: refused_def says_def)
  define s3 where "s3 = vp_log (CGetForceDisable4K h) (vp_log (CIsConnected h) s1)"
  obtain x y where g: "getIgnoreEDIDStatus_vp e h s3 = (x, y, s3\<lparr>vs_trace := vs_trace s3 @ edid_query e h\<rparr>)"
    using edid_state [of e h s3] by (cases "getIgnoreEDIDStatus_vp e h s3") auto
  have t3: "vs_trace s3 = vs_trace s1 @ [CIsConnected h, CGetForceDisable4K h]" by (simp add: s3_def vp_log_def)
  have 5: "vp_log (CGetResolution h) (s3\<lparr>vs_trace := vs_trace s3 @ edid_query e h\<rparr>) = s5"
    by (simp add: s3_def s5_def asked_def vp_log_def)
  have 0: "SetVideoPortResolution_vp e h r p f s =
     (let (_, _, s4) = getIgnoreEDIDStatus_vp e h s3;
          (platformError, platformResolution, s5) = get_resolution e h s4
      in if platformError = DsERR_NONE \<and> r_name d = r_name platformResolution
         then (ERROR_NONE, None, settle_resolution e h t platformResolution p f s5)
         else let s6 = VideoPortPreResolutionChange d s5;
                  (eError, v, s7) = vp_hal e (CSetResolution h d) s6;
                  s8 = VideoPortPostResolutionChange d s7
              in if eError = DsERR_NONE then (ERROR_NONE, None, settle_resolution e h t d p f s8)
                 else (ERROR_GENERAL, None, s8))"
    using c k assms(1) unfolding SetVideoPortResolution_vp_def s3_def d_def
    by (simp add: vp_hal_def Let_def) (auto simp: vp_log_def)
  show ?thesis
    unfolding 0 g
    using 5 unfolding t3
    by (simp add: get_resolution_def Let_def vp_hal_def current_name_def t3 s6_def s8_def)
qed

subsection \<open>Properties\<close>

lemma read_not_resolution: "read_call c \<Longrightarrow> \<not> resolution_call c"
  by (cases c) simp_all

lemma filter_read_calls: "only_calls read_call s s' \<Longrightarrow> filter resolution_call (vs_trace s') = filter resolution_call (vs_trace s)"
  by (rule only_calls_filter [where P = read_call]) (simp_all add: read_not_resolution)

lemma filter_settle:
  "filter resolution_call (vs_trace (settle_resolution e h t r p f s)) = filter resolution_call (vs_trace s)"
proof -
  obtain cs where "vs_trace (persistVideoPortResolution e h r f (updateCachedResolutionForPort t (r_name r) s))
      = vs_trace s @ cs" and "list_all (\<lambda>c. \<exists>t. c = CGetPort t 0) cs"
    using persist_resolution_trace [of e h r f "updateCachedResolutionForPort t (r_name r) s"] by auto
  then show ?thesis
    by (auto simp: settle_resolution_def Let_def list_all_iff filter_empty_conv)
qed

text \<open>The calls and events of a change of resolution.\<close>

definition change_calls :: "int \<Rightarrow> vp_res \<Rightarrow> bool \<Rightarrow> bool \<Rightarrow> vp_call list" where
  "change_calls handle d pre post =
     (let (w, h) = resolution_size (r_pixel d) in
      (if pre then [EPreChange w h] else []) @ [CSetResolution handle d]
      @ (if post then [EPostChange w h] else []))"

lemma change_trace:
  "filter resolution_call (vs_trace (VideoPortPostResolutionChange d
       (vp_log (CSetResolution h d) (VideoPortPreResolutionChange d s))))
   = filter resolution_call (vs_trace s) @ change_calls h d (cb_preChange s) (cb_postChange s)"
  by (simp add: VideoPortPreResolutionChange_def VideoPortPostResolutionChange_def vp_event_def vp_log_def
      change_calls_def Let_def case_prod_unfold)

text \<open>
  C5. When a resolution reaches the hardware. A request on a port that is found is refused, with
  nothing but questions asked of the HAL and every setting as it was, exactly when the HAL says
  that no display is connected or that 4K is disabled and the name contains 2160. Otherwise
  the HAL is told the resolution once, bracketed by the two change events, unless the port
  already has a resolution of that name.
\<close>

theorem set_resolution_reaches_hal:
  fixes r :: vp_res and p f :: bool
  assumes "resolvePortTypeByHandle e h s = (Some t, s1)"
  defines "d \<equiv> to_ds_resolution e r" and "res \<equiv> SetVideoPortResolution_vp e h r p f s"
  shows "if refused e h r (vs_trace s1)
         then fst res = ERROR_GENERAL \<and> only_calls read_call s (snd (snd res))
         else filter resolution_call (vs_trace (snd (snd res))) = filter resolution_call (vs_trace s)
           @ (if current_name e h (vs_trace s1) = Some (r_name d) then []
              else change_calls h d (cb_preChange s) (cb_postChange s))"
proof -
  have 1: "only_calls read_call s s1" using only_calls_resolve [of read_call s e h] assms(1) by simp
  show ?thesis
  proof (cases "refused e h r (vs_trace s1)")
    case True
    obtain s2 where "res = (ERROR_GENERAL, None, s2)" and "only_calls read_call s1 s2"
      using set_resolution_refused [OF assms(1) True] unfolding res_def by blast
    then show ?thesis using True 1 by (auto intro: only_calls_trans)
  next
    case False
    have 2: "only_calls read_call s (asked e h s1)" using 1 asked_calls by (rule only_calls_trans)
    show ?thesis
      unfolding res_def set_resolution_accepted [OF assms(1) False]
      using False by (simp add: filter_settle change_trace filter_read_calls [OF 2] only_calls_simps [OF 2] d_def)
  qed
qed

text \<open>
  Only the setters change anything: every other request, on any HAL, makes reading calls only
  and writes no file; afterwards every persisted setting, the status file and the HDCP status
  are what they were.
\<close>

theorem reads_are_harmless:
  assumes "\<not> setter r"
  shows "harmless s (snd (snd (platform e r s)))"
  using assms
  by (cases r) (simp_all add: read_requests harmless_calls only_calls_query only_calls_optional
      only_calls_edid harmless_GetVideoPortResolution harmless_frame_rate harmless_output_settings
      harmless_GetPreferredColorDepth)

lemma sync_status:
  assumes "ve_writable e" and "hdmi_key tag"
  shows "hdmi_get (vs_status (vp_sync e tag v s)) = (hdmi_get (vs_status s))(tag \<mapsto> hdmi_value (ve_hdmi e) tag v)"
  using assms by (simp add: vp_sync_def dsSyncHdmiStatus_def hdmi_get_write hdmi_value_no_nl)

lemma sync_simps [simp]:
  "vs_trace (vp_sync e tag v s) = vs_trace s" "vs_store (vp_sync e tag v s) = vs_store s"
  "cachedHdcpStatus (vp_sync e tag v s) = cachedHdcpStatus s" "cb_hdcp (vp_sync e tag v s) = cb_hdcp s"
  by (simp_all add: vp_sync_def)

definition known_status :: "hdmi_consts \<Rightarrow> int \<Rightarrow> bool" where
  "known_status c v \<longleftrightarrow> v \<in> {HDCP_UNPOWERED c, HDCP_UNAUTHENTICATED c, HDCP_AUTHENTICATED c,
     HDCP_AUTHENTICATIONFAILURE c, HDCP_INPROGRESS c, HDCP_PORTDISABLED c}"

lemma status_defaults:
  "hdcp_status_of c x v = hdcp_status_of c y v \<longleftrightarrow> known_status c v \<or> x = y"
  by (auto simp: hdcp_status_of_def known_status_def)

lemma current_protocol_calls: "only_calls read_call s (snd (current_protocol e v s))"
proof -
  obtain h s1 where d: "dsGetDefaultPortHandle e s = (h, s1)" by fastforce
  then have "only_calls read_call s s1"
    using only_calls_default_port [of read_call s e 0 "ve_ports e"] by (simp add: dsGetDefaultPortHandle_def)
  then have "only_calls read_call s (vp_log (COptGet ''dsGetHDCPCurrentProtocol'' h) s1)"
    by (rule only_calls_trans) (simp add: only_calls_log)
  then show ?thesis by (simp add: current_protocol_def d vp_hal_def)
qed

lemma current_protocol_1X:
  "v \<noteq> HDCP_AUTHENTICATED (ve_hdmi e) \<Longrightarrow> current_protocol e v s = (HDCP_VERSION_1X (ve_hdmi e), s)"
  by (simp add: current_protocol_def)

lemma tag_values:
  "hdmi_value c DS_HDMI_TAG_HDCPSTATUS v = enum_name (HdmiStatusToStrMapping c) v"
  "hdmi_value c DS_HDMI_TAG_HDCPVERSION v = enum_name (HdmiVerToStrMapping c) v"
  "DS_HDMI_TAG_HDCPSTATUS \<noteq> DS_HDMI_TAG_HDCPVERSION"
  by (simp_all add: hdmi_value_def DS_HDMI_TAG_HOTPLUP_def DS_HDMI_TAG_HDCPSTATUS_def DS_HDMI_TAG_HDCPVERSION_def)

text \<open>
  One HDCP status, three reports. When the HAL reports a status, the clients get an event,
  the status file gets the name of the status (and version 1X unless the link is authenticated),
  and later queries answer from the cache. The event and the query agree exactly for the six
  statuses of the HAL: any other is announced as unauthenticated and answered as unpowered.
\<close>

theorem hdcp_status_reports:
  fixes status h :: int
  assumes "cb_hdcp s" and "ve_writable e"
  defines "s' \<equiv> VideoPortHDCPStatusCallback e h status s"
  shows "\<exists>x y. last (vs_trace s') = EHdcpStatus x
       \<and> fst (snd (GetVideoPortHDCPStatus e h' s')) = Some (VHdcp y)
       \<and> (x = y \<longleftrightarrow> known_status (ve_hdmi e) status)
       \<and> hdmi_get (vs_status s') DS_HDMI_TAG_HDCPSTATUS = Some (enum_name (HdmiStatusToStrMapping (ve_hdmi e)) status)
       \<and> (status = HDCP_AUTHENTICATED (ve_hdmi e) \<or> hdmi_get (vs_status s') DS_HDMI_TAG_HDCPVERSION
            = Some (enum_name (HdmiVerToStrMapping (ve_hdmi e)) (HDCP_VERSION_1X (ve_hdmi e))))"
proof -
  define s2 where "s2 = vp_sync e DS_HDMI_TAG_HDCPSTATUS status (s\<lparr>cachedHdcpStatus := status\<rparr>)"
  obtain v s3 where p: "current_protocol e status s2 = (v, s3)" by fastforce
  have 3: "only_calls read_call s2 s3" using current_protocol_calls [of s2 e status] by (simp add: p)
  have s': "s' = vp_log (EHdcpStatus (hdcp_status_of (ve_hdmi e) IH_UNAUTHENTICATED status))
      (vp_sync e DS_HDMI_TAG_HDCPVERSION v s3)"
    using assms(1) only_calls_simps [OF 3]
    by (simp add: s'_def VideoPortHDCPStatusCallback_def Let_def s2_def [symmetric] p vp_event_def) (simp add: s2_def)
  have "hdmi_get (vs_status s') DS_HDMI_TAG_HDCPSTATUS = Some (enum_name (HdmiStatusToStrMapping (ve_hdmi e)) status)"
    using only_calls_simps(4) [OF 3] assms(2)
    by (simp add: s' s2_def vp_log_def sync_status hdmi_tags tag_values)
  moreover have "v = HDCP_VERSION_1X (ve_hdmi e)" if "status \<noteq> HDCP_AUTHENTICATED (ve_hdmi e)"
    using current_protocol_1X [OF that, of s2] p by simp
  then have "status = HDCP_AUTHENTICATED (ve_hdmi e) \<or> hdmi_get (vs_status s') DS_HDMI_TAG_HDCPVERSION
            = Some (enum_name (HdmiVerToStrMapping (ve_hdmi e)) (HDCP_VERSION_1X (ve_hdmi e)))"
    using assms(2) by (auto simp: s' vp_log_def sync_status hdmi_tags tag_values)
  moreover have "fst (snd (GetVideoPortHDCPStatus e h' s')) = Some (VHdcp (convertHdcpStatus e status))"
    using only_calls_simps(5) [OF 3]
    by (simp add: GetVideoPortHDCPStatus_def s' vp_log_def s2_def)
  ultimately show ?thesis
    by (simp add: s' [symmetric] convertHdcpStatus_def status_defaults) (simp add: s' vp_log_def status_defaults)
qed

subsection \<open>Resolutions over a restart\<close>

text \<open>The HDMI port of the HAL has this handle, and the handle fits the interface.\<close>

definition hdmi_at :: "vp_env \<Rightarrow> int \<Rightarrow> bool" where
  "hdmi_at e h \<longleftrightarrow> (\<forall>t. ve_ret e t (CGetPort DSVP_HDMI 0) = DsERR_NONE \<and> ve_out e t (CGetPort DSVP_HDMI 0) = h)
     \<and> - (2 ^ 31) \<le> h \<and> h < 2 ^ 31"

lemma to32_id: "- (2 ^ 31) \<le> h \<Longrightarrow> h < 2 ^ 31 \<Longrightarrow> to32 h = h"
  by (simp add: to32_def sint_sbintrunc' signed_take_bit_int_eq_self)

lemma resolve_hdmi: "hdmi_at e h \<Longrightarrow> resolvePortTypeByHandle e h s = (Some DSVP_HDMI, vp_log (CGetPort DSVP_HDMI 0) s)"
  by (simp add: resolvePortTypeByHandle_def hdmi_at_def vp_hal_def to32_id)

lemma word_ok_keys: "word_ok ''HDMI0.resolution''" "word_ok (comp_key e)" "comp_key e \<noteq> ''HDMI0.resolution''"
  by (simp_all add: word_ok_def comp_key_def isspace_def)

lemma word_ok_compatible: "word_ok (getCompatibleAnalogResolution q)" "word_ok (getCompatibleHDMIResolution q)"
  by (cases q; simp add: word_ok_def isspace_def)+

definition hdmi_stored :: "vp_env \<Rightarrow> string \<Rightarrow> vp_state \<Rightarrow> bool" where
  "hdmi_stored e n s \<longleftrightarrow> hp_durable (vs_store s) \<and> hp_get (vs_store s) ''HDMI0.resolution'' = Some n"

lemma persist_hdmi_stores:
  assumes "ve_io e = io_full" and "hp_durable (vs_store s)" and "word_ok (r_name r)"
  shows "hdmi_stored e (r_name r) (persist_hdmi e r force s)"
proof -
  let ?st = "hp_put io_full ''HDMI0.resolution'' (r_name r) (vs_store s)"
  let ?c = "getCompatibleAnalogResolution (r_pixel r)"
  have st: "hp_durable ?st" "hp_get ?st ''HDMI0.resolution'' = Some (r_name r)"
    using hpd.inv_put [OF assms(2) word_ok_keys(1) assms(3)]
      hpd.get_put_same [OF assms(2) word_ok_keys(1) assms(3)] by simp_all
  have "hp_durable (hp_put io_full (comp_key e) ?c ?st)"
    and "hp_get (hp_put io_full (comp_key e) ?c ?st) ''HDMI0.resolution'' = Some (r_name r)"
    using hpd.inv_put [OF st(1) word_ok_keys(2) word_ok_compatible(1)] st(2)
      hpd.get_put_other [OF st(1) word_ok_keys(2) word_ok_compatible(1) word_ok_keys(1)] word_ok_keys(3) [of e]
    by simp_all
  moreover have "r_name r \<noteq> []" "comp_key e \<noteq> []" "?c \<noteq> []"
    using assms(3) word_ok_keys(2) [of e] word_ok_compatible(1) [of "r_pixel r"] by (auto simp: word_ok_def)
  ultimately show ?thesis
    using st assms(1)
    by (simp add: hdmi_stored_def persist_hdmi_def persist_then_eq vp_persist_def Let_def)
qed

lemma settle_hdmi_stores:
  assumes "hdmi_at e h" and "ve_io e = io_full" and "hp_durable (vs_store s)" and "word_ok (r_name r)"
    and "r_name r = n"
  shows "hdmi_stored e n (settle_resolution e h t r True f s)"
proof -
  have "hdmi_stored e (r_name r) (persistVideoPortResolution e h r f s')" if "vs_store s' = vs_store s" for s'
    using assms(1) persist_hdmi_stores [OF assms(2) _ assms(4), of "vp_log (CGetPort DSVP_HDMI 0) s'" f] assms(3) that
    by (simp add: persistVideoPortResolution_def hdmi_at_def vp_hal_def Let_def vp_log_def)
  then show ?thesis using assms(5) by (simp add: settle_resolution_def Let_def)
qed

lemma call_store [simp]: "vs_store (vp_log c s) = vs_store s" "vs_store (asked e h s) = vs_store s"
  by (simp_all add: vp_log_def asked_def)

lemma set_resolution_stores:
  assumes "hdmi_at e h" and "ve_io e = io_full" and "hp_durable (vs_store s)"
    and "word_ok (r_name (to_ds_resolution e r))"
    and "SetVideoPortResolution_vp e h r True f s = (ERROR_NONE, x, s')"
  shows "hdmi_stored e (r_name (to_ds_resolution e r)) s'"
proof -
  let ?s1 = "vp_log (CGetPort DSVP_HDMI 0) s"
  note res = resolve_hdmi [OF assms(1), of s]
  have nr: "\<not> refused e h r (vs_trace ?s1)"
    using set_resolution_refused [OF res, of r True f] assms(5) by auto
  from set_resolution_accepted [OF res nr, of True f] assms(5)
  show ?thesis
    using assms(1-4)
    by (auto simp: current_name_def Let_def split: if_splits intro!: settle_hdmi_stores)
qed

lemma vp_getPersistenceValue_reads:
  "dsHDMIResolution (vp_getPersistenceValue e s)
     = (case hp_get (vs_store s) ''HDMI0.resolution'' of None \<Rightarrow> defaultResolutionByProfile e | Some n \<Rightarrow> n)"
  "hp_get (vs_store (vp_getPersistenceValue e s)) = hp_get (vs_store s)"
  using word_ok_keys(2) [of e]
  by (simp_all add: vp_getPersistenceValue_def read_resolution_def vp_setting_eq Let_def vp_hal_def vp_log_def
      word_ok_def)

lemma depth_reconcile_store:
  "hp_get (vs_store (ApplyPreferredColorDepthAfterHdmiReset e h s)) = hp_get (vs_store s)"
proof -
  obtain d s1 where d: "(if h = 0 then dsGetDefaultPortHandle e s else (h, s)) = (d, s1)" by fastforce
  then have "vs_store s1 = vs_store s"
    using only_calls_simps(3) [OF only_calls_default_port [of "\<lambda>_. True" s e 0 "ve_ports e"]]
    by (auto simp: dsGetDefaultPortHandle_def split: if_splits)
  then show ?thesis
    by (simp add: ApplyPreferredColorDepthAfterHdmiReset_def d Let_def vp_hal_def vp_log_def
        getPersistentColorDepth_def vp_setting_eq getCurrentPreferredColorDepth_def opt_word_def
        getBestSupportedColorDepth_def getColorDepthCapabilitiesHAL_def setPreferredColorDepthHAL_def)
qed

lemma vp_InitialiseHAL_store: "hp_get (vs_store (vp_InitialiseHAL e s)) = hp_get (vs_store s)"
proof -
  have d: "vs_store s2 = vs_store s1" if "dsGetDefaultPortHandle e s1 = (h, s2)" for s1 s2 h
    using only_calls_simps(3) [OF only_calls_default_port [of "\<lambda>_. True" s1 e 0 "ve_ports e"]] that
    by (simp add: dsGetDefaultPortHandle_def)
  show ?thesis
    by (auto simp: vp_InitialiseHAL_def vp_hal_def Let_def depth_reconcile_store vp_getPersistenceValue_reads
        vp_log_def dest!: d split: prod.split)
qed

lemma register_hdcp_store: "vs_store (register_hdcp e s) = vs_store s"
  by (simp add: register_hdcp_def vp_hal_def vp_log_def Let_def)

lemma vp_setAllCallbacks_store: "vs_store (vp_setAllCallbacks e b s) = vs_store s"
  by (simp add: vp_setAllCallbacks_def Let_def register_hdcp_store VideoPortRegisterVideoFormatUpdateCB_def
      vp_hal_def vp_log_def)

lemma vp_start_reads:
  "dsHDMIResolution (vp_start e st f)
     = (case hp_get st ''HDMI0.resolution'' of None \<Rightarrow> defaultResolutionByProfile e | Some n \<Rightarrow> n)"
  "hp_get (vs_store (vp_start e st f)) = hp_get st"
  by (simp_all add: vp_start_def VideoPort_Platform_init_def vp_getPersistenceValue_reads
      vp_setAllCallbacks_store vp_InitialiseHAL_store) (simp_all add: vp_static_def)

text \<open>
  C10. A resolution survives a restart: after a successful request on the HDMI port that is to be
  persisted, with a disk that takes every write, the plugin started again on the same disk (with
  any other HAL behaviour) answers, while no display is connected, with the resolution built from
  the requested name, cut to the size of the name buffer.
\<close>

theorem hdmi_resolution_survives_restart:
  fixes stat :: "string option"
  assumes "hdmi_at e h" and "ve_io e = io_full" and "hp_durable (vs_store s)"
    and "word_ok (r_name (to_ds_resolution e r))"
    and "SetVideoPortResolution_vp e h r True force s = (ERROR_NONE, x, s')"
    and "hdmi_at e' h" and "\<forall>t. says e' t (CIsConnected h) False"
  defines "s'' \<equiv> vp_start e' (hp_restart (vs_store s')) stat"
  shows "fst (snd (GetVideoPortResolution e' h s''))
       = Some (VRes (buildResolutionFromName (r_name (to_ds_resolution e r))))"
proof -
  let ?n = "r_name (to_ds_resolution e r)"
  have "hdmi_stored e ?n s'" by (rule set_resolution_stores [OF assms(1-5)])
  then have "hp_get (hp_restart (vs_store s')) ''HDMI0.resolution'' = Some ?n"
    by (simp add: hdmi_stored_def hp_get_restart)
  then have "dsHDMIResolution s'' = ?n" by (simp add: s''_def vp_start_reads)
  moreover have "?n \<noteq> []" using assms(4) by (auto simp: word_ok_def)
  ultimately show ?thesis
    using assms(7)
    by (simp add: GetVideoPortResolution_def resolve_hdmi [OF assms(6)] vp_hal_def says_def
        getCachedResolutionForPort_def Let_def vp_log_def)
qed

subsection \<open>The two resolution caches\<close>

definition caches_compatible :: "vp_env \<Rightarrow> vp_state \<Rightarrow> bool" where
  "caches_compatible e s \<longleftrightarrow> IsCompatibleResolution (getPixelResolutionByName e (dsHDMIResolution s))
     (getPixelResolutionByName e (dsCompResolution s))"

text \<open>The platform table lists the standard names with their pixel resolutions.\<close>

definition standard_table :: "vp_env \<Rightarrow> bool" where
  "standard_table e \<longleftrightarrow> getPixelResolutionByName e ''480p'' = PX_720x480
     \<and> getPixelResolutionByName e ''576p'' = PX_720x576 \<and> getPixelResolutionByName e ''720p'' = PX_1280x720
     \<and> getPixelResolutionByName e ''1080p'' = PX_1920x1080"

lemma compatible_sym: "IsCompatibleResolution p q = IsCompatibleResolution q p"
  by (auto simp: IsCompatibleResolution_def)

lemma hd_pixels: "IsHDCompatible p \<longleftrightarrow> p \<in> {PX_1280x720, PX_1366x768, PX_1920x1080, PX_3840x2160, PX_4096x2160}"
  by (cases p) (simp_all add: IsHDCompatible_def less_eq_pixel_res_def less_pixel_res_def)

lemma compatible_choice:
  assumes "standard_table e" and "p \<noteq> PX_MAX"
  shows "IsCompatibleResolution p (getPixelResolutionByName e (getCompatibleAnalogResolution p))"
    and "IsCompatibleResolution p (getPixelResolutionByName e (getCompatibleHDMIResolution p))"
  using assms by (cases p; simp add: standard_table_def IsCompatibleResolution_def hd_pixels)+

lemma vp_persist_caches [simp]:
  "dsHDMIResolution (vp_persist e k v s) = dsHDMIResolution s"
  "dsCompResolution (vp_persist e k v s) = dsCompResolution s"
  by (simp_all add: vp_persist_def persist_then_def Let_def split: prod.split outcome.split)

text \<open>
  Persisting keeps HDMI and the component output compatible: however the caches stood and
  whatever the port, after a named resolution of the platform table has been persisted for the
  HDMI or internal port, or for the component port, the two remembered resolutions are equal
  or both high definition. (Without \<open>persist\<close> only one of them is updated.)
\<close>

theorem persisting_makes_caches_compatible:
  assumes "standard_table e" and "r_name r \<noteq> []" and "r_pixel r \<noteq> PX_MAX"
    and "getPixelResolutionByName e (r_name r) = r_pixel r"
    and "fst (find_port_type e (\<lambda>h. h) h [DSVP_HDMI, DSVP_COMPONENT, DSVP_INTERNAL, DSVP_BB, DSVP_RF] s)
       \<notin> {Some DSVP_BB, Some DSVP_RF}"
  shows "caches_compatible e (persistVideoPortResolution e h r force s)"
proof -
  let ?f = "find_port_type e (\<lambda>h. h) h [DSVP_HDMI, DSVP_COMPONENT, DSVP_INTERNAL, DSVP_BB, DSVP_RF] s"
  note c = compatible_choice [OF assms(1,3)]
  have keys: "comp_key e \<noteq> []" by (simp add: comp_key_def)
  have hdmi: "caches_compatible e (persist_hdmi e r force s1)" for s1
    using assms(2,4) c(1)
    by (simp add: persist_hdmi_def persist_then_eq Let_def caches_compatible_def)
  have comp: "caches_compatible e (persist_component e r force s1)" for s1
    using assms(2,4) c(2) keys
    by (simp add: persist_component_def persist_then_eq follow_analog_def Let_def caches_compatible_def compatible_sym)
  have "fst ?f \<in> {None, Some DSVP_HDMI, Some DSVP_COMPONENT, Some DSVP_INTERNAL, Some DSVP_BB, Some DSVP_RF}"
    by (auto simp: vp_hal_def)
  with hdmi comp assms(5) show ?thesis
    by (auto simp: persistVideoPortResolution_def split: prod.split dsVideoPortType.split)
qed

subsection \<open>Colour depth negotiation\<close>

definition depth_bits :: "vp_env \<Rightarrow> bool" where
  "depth_bits e \<longleftrightarrow> (let ds = [DEPTH_8BIT e, DEPTH_10BIT e, DEPTH_12BIT e, DEPTH_AUTO e] in
     (\<forall>x \<in> set ds. x \<noteq> 0) \<and> distinct ds \<and> (\<forall>x \<in> set ds. \<forall>y \<in> set ds. x \<noteq> y \<longrightarrow> x AND y = 0))"

text \<open>The specification: the requested depth if the sink has it, else its deepest, else 8 bit.\<close>

definition sink_depths :: "vp_env \<Rightarrow> 32 word \<Rightarrow> 32 word list" where
  "sink_depths e cap = filter (\<lambda>d. cap AND d \<noteq> 0) [DEPTH_12BIT e, DEPTH_10BIT e, DEPTH_8BIT e]"

definition negotiated :: "vp_env \<Rightarrow> 32 word \<Rightarrow> 32 word \<Rightarrow> 32 word" where
  "negotiated e cap d = (if d \<in> set (sink_depths e cap) then d else hd (sink_depths e cap @ [DEPTH_8BIT e]))"

lemma best_depth_negotiated:
  assumes "depth_bits e" and "d \<in> {DEPTH_8BIT e, DEPTH_10BIT e, DEPTH_12BIT e, DEPTH_AUTO e}"
  shows "best_depth e cap d = negotiated e cap d"
proof -
  have auto: "(cap OR DEPTH_AUTO e) AND x = cap AND x"
    if "x \<in> {DEPTH_8BIT e, DEPTH_10BIT e, DEPTH_12BIT e}" for x
  proof -
    have "DEPTH_AUTO e AND x = 0" using that assms(1) by (auto simp: depth_bits_def Let_def)
    then show ?thesis by (simp add: bit.conj_disj_distrib2)
  qed
  have ne: "DEPTH_8BIT e \<noteq> DEPTH_AUTO e" "DEPTH_10BIT e \<noteq> DEPTH_AUTO e" "DEPTH_12BIT e \<noteq> DEPTH_AUTO e"
    using assms(1) by (auto simp: depth_bits_def Let_def)
  show ?thesis
    using assms(2) ne by (auto simp: best_depth_def negotiated_def sink_depths_def auto Let_def)
qed

definition is_set_depth :: "vp_call \<Rightarrow> bool" where
  "is_set_depth c \<longleftrightarrow> (\<exists>h d. c = CSetPreferredColorDepth h d)"

lemma persist_depth_simps [simp]: "vs_trace (persist_depth e p d s) = vs_trace s"
  by (simp add: persist_depth_def vp_persist_def persist_then_trace)

text \<open>The sink reports these capabilities, whenever it is asked.\<close>

definition sink_caps :: "vp_env \<Rightarrow> int \<Rightarrow> 32 word \<Rightarrow> bool" where
  "sink_caps e h cap \<longleftrightarrow> ve_symbol e ''dsColorDepthCapabilities''
     \<and> (\<forall>t. ve_ret e t (COptGet ''dsColorDepthCapabilities'' h) = DsERR_NONE
          \<and> word_of_int (ve_out e t (COptGet ''dsColorDepthCapabilities'' h)) = cap)"

lemma getBest_eq:
  "sink_caps e h cap \<Longrightarrow> getBestSupportedColorDepth e h d s
     = (best_depth e cap d, vp_log (COptGet ''dsColorDepthCapabilities'' h) s)"
  by (simp add: getBestSupportedColorDepth_def getColorDepthCapabilitiesHAL_def opt_word_def vp_hal_def sink_caps_def)

text \<open>
  C25. The colour depth that reaches the sink: whatever the display answers about its connection
  and its current depth, a request for one of the depths makes at most one HAL setting, to the
  requested depth if the sink has it and otherwise to the deepest depth it has (8 bit if it has
  none), never to the pseudo depth AUTO.
\<close>

theorem color_depth_negotiation:
  fixes s :: vp_state and persist :: bool
  assumes "depth_bits e" and "sink_caps e h cap"
    and "d \<in> {DEPTH_8BIT e, DEPTH_10BIT e, DEPTH_12BIT e, DEPTH_AUTO e}"
  defines "s' \<equiv> snd (snd (SetPreferredColorDepth e h d persist s))"
  shows "filter is_set_depth (vs_trace s') = filter is_set_depth (vs_trace s)
      \<or> filter is_set_depth (vs_trace s') = filter is_set_depth (vs_trace s)
           @ [CSetPreferredColorDepth h (negotiated e cap d)] \<and> negotiated e cap d \<noteq> DEPTH_AUTO e"
proof -
  have "negotiated e cap d \<noteq> DEPTH_AUTO e"
    using assms(1) by (auto simp: negotiated_def sink_depths_def depth_bits_def Let_def)
  then show ?thesis
    by (simp add: s'_def SetPreferredColorDepth_def Let_def vp_hal_def vp_log_def is_set_depth_def
        getCurrentPreferredColorDepth_def opt_word_def getBest_eq [OF assms(2)] setPreferredColorDepthHAL_def
        best_depth_negotiated [OF assms(1,3)] split: prod.split)
qed

text \<open>
  The reconciliation after an HDMI reset is the request for the persisted depth: when the
  HAL answers whether the display is connected, it makes exactly the HAL calls of
  \<open>SetPreferredColorDepth\<close> for that depth.
\<close>

theorem reconcile_is_request:
  assumes "h \<noteq> 0" and "ve_ret e (vs_trace s) (CIsConnected h) = DsERR_NONE"
  shows "vs_trace (ApplyPreferredColorDepthAfterHdmiReset e h s)
       = vs_trace (snd (snd (SetPreferredColorDepth e h (fst (getPersistentColorDepth e s)) persist s)))"
proof -
  define s1 where "s1 = vp_log (CIsConnected h) s"
  define d where "d = fst (getPersistentColorDepth e s)"
  define s2 where "s2 = s1\<lparr>vs_store := ensureInitialized (vs_store s)\<rparr>"
  have g: "getPersistentColorDepth e s1 = (d, s2)"
    by (simp add: getPersistentColorDepth_def vp_setting_eq d_def s2_def s1_def)
  have 1: "ApplyPreferredColorDepthAfterHdmiReset e h s = (if ve_out e (vs_trace s) (CIsConnected h) = 0 then s1
      else let (r, v, s4) = getCurrentPreferredColorDepth e h s2
           in if r = DsERR_NONE \<and> v = d then s4
              else let (b, s5) = getBestSupportedColorDepth e h d s4 in snd (setPreferredColorDepthHAL e h b s5))"
    using assms by (simp add: ApplyPreferredColorDepthAfterHdmiReset_def vp_hal_def s1_def [symmetric] g)
  have tr: "vs_trace s2 = vs_trace s1" by (simp add: s2_def)
  show ?thesis
    unfolding 1 SetPreferredColorDepth_def d_def [symmetric]
    using assms(2)
    by (simp add: vp_hal_def s1_def [symmetric] Let_def getCurrentPreferredColorDepth_def tr eq_commute [of _ d]
        getBestSupportedColorDepth_def getColorDepthCapabilitiesHAL_def setPreferredColorDepthHAL_def
        opt_word_def split: prod.split) (simp add: vp_log_def tr)
qed

subsection \<open>Witnesses\<close>

definition ex_res :: "string \<Rightarrow> pixel_res \<Rightarrow> vp_res" where
  "ex_res n p = \<lparr>r_name = n, r_pixel = p, r_aspect = ASPECT_16x9, r_stereo = SSMODE_2D, r_frame = FR_60,
     r_interlaced = False\<rparr>"

text \<open>A HAL with an HDMI port 7 showing 720p, connected or not; a sink with 8 and 10 bit.\<close>

definition ex_vp :: "bool \<Rightarrow> vp_env" where
  "ex_vp on = \<lparr>ve_ret = (\<lambda>_ _. DsERR_NONE),
     ve_out = (\<lambda>_ c. case c of CGetPort p _ \<Rightarrow> (if p = DSVP_HDMI then 7 else 9)
       | CIsConnected _ \<Rightarrow> (if on then 1 else 0)
       | COptGet n _ \<Rightarrow> (if n = ''dsColorDepthCapabilities'' then 3 else 0) | _ \<Rightarrow> 0),
     ve_res = (\<lambda>_ _. ex_res ''720p'' PX_1280x720), ve_settings = (\<lambda>_ _. (0, 0, 0, 0, 0)),
     ve_symbol = (\<lambda>_. True), ve_ports = [(VP_HDMI, 0)],
     ve_resolutions = [(''480p'', PX_720x480), (''576p'', PX_720x576), (''720p'', PX_1280x720),
       (''1080p'', PX_1920x1080), (''2160p30'', PX_3840x2160)],
     ve_io = io_full, ve_writable = True, ve_tv = False, ve_stb = True, ve_only_composite = False,
     ve_nameSize = 32, ve_valid_rate = (\<lambda>_. True), ve_hdmi = ex_hdmi, ve_enum = (\<lambda>_. 0),
     ve_quant_full = 2, ve_hdr10 = 1, ve_hdr10plus = 16, ve_dolby = 4,
     DEPTH_8BIT = 1, DEPTH_10BIT = 2, DEPTH_12BIT = 4, DEPTH_AUTO = 8\<rparr>"

definition ex_vp_state :: vp_state where
  "ex_vp_state = (vp_static (ex_vp True) (hp_new ''f'' (\<lambda>_. None)) None)
     \<lparr>cb_preChange := True, cb_postChange := True, cb_hdcp := True\<rparr>"

lemma ex_hdmi_at: "hdmi_at (ex_vp on) 7"
  by (simp add: hdmi_at_def ex_vp_def)

lemmas ex_vp_simps = ex_vp_def ex_vp_state_def vp_static_def ex_res_def

theorem set_resolution_reaches_hal_witness:
  "filter resolution_call (vs_trace (snd (snd (SetVideoPortResolution_vp (ex_vp True) 7
       (ex_res ''1080p'' PX_1920x1080) True False ex_vp_state))))
     = [EPreChange 1920 1080, CSetResolution 7 (ex_res ''1080p'' PX_1920x1080), EPostChange 1920 1080]"
proof -
  have d: "to_ds_resolution (ex_vp True) (ex_res ''1080p'' PX_1920x1080) = ex_res ''1080p'' PX_1920x1080"
    by (simp add: to_ds_resolution_def ex_vp_def ex_res_def c_str_def)
  have "\<not> refused (ex_vp True) 7 (ex_res ''1080p'' PX_1920x1080) t" for t
    by (simp add: refused_def says_def ex_vp_def)
  moreover have "current_name (ex_vp True) 7 t \<noteq> Some ''1080p''" for t
    by (simp add: current_name_def ex_vp_def ex_res_def Let_def)
  ultimately show ?thesis
    using set_resolution_reaches_hal [OF resolve_hdmi [OF ex_hdmi_at [of True], of ex_vp_state],
        of "ex_res ''1080p'' PX_1920x1080" True False]
    by (simp add: d) (simp add: change_calls_def ex_vp_state_def vp_static_def ex_res_def)
qed

theorem reads_are_harmless_witness:
  "harmless ex_vp_state (snd (snd (platform (ex_vp True) (V_GetVideoPortResolution 7) ex_vp_state)))"
  by (rule reads_are_harmless) simp

theorem hdcp_status_reports_witness:
  "\<exists>x y. last (vs_trace (VideoPortHDCPStatusCallback (ex_vp True) 7 99 ex_vp_state)) = EHdcpStatus x
     \<and> fst (snd (GetVideoPortHDCPStatus (ex_vp True) 7 (VideoPortHDCPStatusCallback (ex_vp True) 7 99 ex_vp_state)))
         = Some (VHdcp y) \<and> x \<noteq> y"
proof -
  have "\<not> known_status (ve_hdmi (ex_vp True)) 99"
    by (simp add: known_status_def ex_vp_def ex_hdmi_def)
  then show ?thesis
    using hdcp_status_reports [of ex_vp_state "ex_vp True" 7 99 7] by (auto simp: ex_vp_state_def ex_vp_def)
qed

lemma ex_word_720p: "word_ok ''720p''"
  by (simp add: word_ok_def isspace_def)

theorem hdmi_resolution_survives_restart_witness:
  "fst (snd (GetVideoPortResolution (ex_vp False) 7 (vp_start (ex_vp False) (hp_restart (vs_store (snd (snd
       (SetVideoPortResolution_vp (ex_vp True) 7 (ex_res ''720p'' PX_1280x720) True False ex_vp_state))))) None)))
     = Some (VRes (ex_res ''720p'' PX_1280x720))"
proof -
  let ?r = "ex_res ''720p'' PX_1280x720"
  have d: "to_ds_resolution (ex_vp True) ?r = ?r"
    by (simp add: to_ds_resolution_def ex_vp_def ex_res_def c_str_def)
  have "\<not> refused (ex_vp True) 7 ?r t" for t by (simp add: refused_def says_def ex_vp_def)
  moreover have "current_name (ex_vp True) 7 t = Some (r_name ?r)" for t
    by (simp add: current_name_def ex_vp_def Let_def)
  ultimately have "fst (SetVideoPortResolution_vp (ex_vp True) 7 ?r True False ex_vp_state) = ERROR_NONE"
    using set_resolution_accepted [OF resolve_hdmi [OF ex_hdmi_at [of True], of ex_vp_state], of ?r True False]
    by (simp add: d)
  then obtain x s' where set: "SetVideoPortResolution_vp (ex_vp True) 7 ?r True False ex_vp_state = (ERROR_NONE, x, s')"
    by (metis prod.exhaust_sel)
  have "ve_io (ex_vp True) = io_full" and "\<forall>t. says (ex_vp False) t (CIsConnected 7) False"
    and "hp_durable (vs_store ex_vp_state)" and "word_ok (r_name (to_ds_resolution (ex_vp True) ?r))"
    using ex_word_720p hp_durable_new [of "''f''" "\<lambda>_. None"]
    by (simp_all add: d ex_vp_state_def vp_static_def no_nul_file_def) (simp_all add: ex_vp_def says_def ex_res_def)
  from hdmi_resolution_survives_restart [OF ex_hdmi_at this(1,3,4) set ex_hdmi_at this(2), of None]
  show ?thesis
    by (simp add: set d) (simp add: buildResolutionFromName_def ex_res_def)
qed

theorem persisting_makes_caches_compatible_witness:
  "caches_compatible (ex_vp True) (persistVideoPortResolution (ex_vp True) 7 (ex_res ''480p'' PX_720x480) False ex_vp_state)"
  by (rule persisting_makes_caches_compatible)
    (simp_all add: standard_table_def getPixelResolutionByName_def ex_res_def ex_vp_def vp_hal_def)

theorem color_depth_negotiation_witness:
  "filter is_set_depth (vs_trace (snd (snd (SetPreferredColorDepth (ex_vp True) 7 8 False ex_vp_state))))
     \<in> {[], [CSetPreferredColorDepth 7 2]}"
proof -
  have "depth_bits (ex_vp True)" and "sink_caps (ex_vp True) 7 3" and "negotiated (ex_vp True) 3 8 = 2"
    and "vs_trace ex_vp_state = []"
    by (simp_all add: depth_bits_def Let_def sink_caps_def negotiated_def sink_depths_def ex_vp_simps)
  then show ?thesis
    using color_depth_negotiation [of "ex_vp True" 7 3 8 False ex_vp_state] by (auto simp: ex_vp_def)
qed

theorem reconcile_is_request_witness:
  "vs_trace (ApplyPreferredColorDepthAfterHdmiReset (ex_vp True) 7 ex_vp_state)
     = vs_trace (snd (snd (SetPreferredColorDepth (ex_vp True) 7
         (fst (getPersistentColorDepth (ex_vp True) ex_vp_state)) False ex_vp_state)))"
  by (rule reconcile_is_request) (simp_all add: ex_vp_def)

end
