(* ===== verification/Video_Port_Com.thy ===== *)
theory Video_Port_Com
  imports Video_Port HAL_Config Notification_Registry
begin

section \<open>The COM layer of the video ports (\<open>DeviceSettingsVideoPortImplementation.cpp\<close>)\<close>

text \<open>
  \<open>DeviceSettingsVideoPortImpl\<close> stands between the clients and \<open>VideoPort\<close>. It forwards every
  request, but completes the resolution of \<open>SetVideoPortResolution\<close> from a cache of the HAL tables
  first. Three of its four events go to the clients in the calling thread; the end of a change of
  the resolution is a job of the worker pool, which holds the plain address of the object. Objects
  are numbered, as in the other components; a callback or a job of an object that is gone is
  undefined. The jobs run in the order they were submitted.

  The events are delivered after the call that reports them, in their order: clients only register
  and remove objects from their callbacks, which no part of the call looks at.
\<close>

subsection \<open>Types\<close>

datatype vpc_event = PreChange int int | PostChange int int | HdcpStatus hdcp_interface | VideoFormat hdr_standard

text \<open>
  \<open>vc_pixel\<close> and so on read the enumerators of a table row; \<open>vc_RF\<close> and \<open>vc_MAX\<close> are the bounds of the
  loop over the port types.
\<close>

record vpc_env =
  vc_vp :: vp_env
  vc_lib :: "hal_lib option"
  vc_pixel :: "int \<Rightarrow> pixel_res"
  vc_aspect :: "int \<Rightarrow> aspect_ratio"
  vc_stereo :: "int \<Rightarrow> stereo_mode"
  vc_frame :: "int \<Rightarrow> frame_rate"
  vc_RF :: int
  vc_MAX :: int

record vpc_state =
  vpc_port :: vp_state
  cachedVideoPortResolutions :: "resolution_cfg list"
  vpc_handles :: nat
  VideoPortNotifications :: "vpc_event registry"
  vpc_jobs :: "(nat \<times> int \<times> int) list"
  vpc_live :: "nat option"
  vpc_owner :: "nat option"

definition vpc_static :: "vp_state \<Rightarrow> (ptr \<Rightarrow> nat) \<Rightarrow> vpc_state" where
  "vpc_static v base = \<lparr>vpc_port = v, cachedVideoPortResolutions = [], vpc_handles = 0,
     VideoPortNotifications = reg_empty base, vpc_jobs = [], vpc_live = None, vpc_owner = None\<rparr>"

subsection \<open>The cache of resolutions\<close>

definition table_resolution :: "vpc_env \<Rightarrow> resolution_cfg \<Rightarrow> vp_res" where
  "table_resolution e c = \<lparr>r_name = rs_name c, r_pixel = vc_pixel e (rs_pixelResolution c),
     r_aspect = vc_aspect e (rs_aspectRatio c), r_stereo = vc_stereo e (rs_stereoScopicMode c),
     r_frame = vc_frame e (rs_frameRate c), r_interlaced = rs_interlaced c\<rparr>"

text \<open>Of the rows of one name the first is kept.\<close>

definition cache_rows :: "resolution_cfg list \<Rightarrow> resolution_cfg list \<Rightarrow> resolution_cfg list" where
  "cache_rows tmp cache = fold (\<lambda>r c. if rs_name r \<in> rs_name ` set c then c else c @ [r]) tmp cache"

fun cache_types :: "hal_lib option \<Rightarrow> int list \<Rightarrow> resolution_cfg list \<Rightarrow> nat \<Rightarrow> (resolution_cfg list \<times> nat) outcome" where
  "cache_types lib [] cache handles = Ret (cache, handles)"
| "cache_types lib (t # ts) cache handles =
     (let (tmp, handles1) = PopulateVideoPortResolutionConfig t lib handles
      in obind tmp (\<lambda>rows. cache_types lib ts (cache_rows rows cache) handles1))"

text \<open>An empty cache is filled; so it is tried again as long as the tables give nothing.\<close>

definition cache_resolutions :: "vpc_env \<Rightarrow> vpc_state \<Rightarrow> vpc_state outcome" where
  "cache_resolutions e s =
     (if cachedVideoPortResolutions s \<noteq> [] then Ret s
      else obind (cache_types (vc_lib e) [vc_RF e ..vc_MAX e - 1] [] (vpc_handles s)) (\<lambda>(cache, handles).
        Ret (s\<lparr>cachedVideoPortResolutions := cache, vpc_handles := handles\<rparr>)))"

subsection \<open>The requests\<close>

datatype vpc_val = PvVal vp_val | PvResolutions "vp_res list"

type_synonym vpc_result = "(coreErr \<times> vpc_val option \<times> vpc_state) outcome"

definition vpc_forward :: "vpc_env \<Rightarrow> vp_request \<Rightarrow> vpc_state \<Rightarrow> vpc_result" where
  "vpc_forward e req s =
     (let (r, out, port) = VideoPort_call (vc_vp e) True req (vpc_port s)
      in Ret (r, map_option PvVal out, s\<lparr>vpc_port := port\<rparr>))"

text \<open>Through a local variable: the client's is written only on success.\<close>

definition vpc_copied :: "vpc_env \<Rightarrow> vp_request \<Rightarrow> vpc_state \<Rightarrow> vpc_result" where
  "vpc_copied e req s = obind (vpc_forward e req s) (\<lambda>(r, out, t). Ret (r, if r = ERROR_NONE then out else None, t))"

definition VPC_SetVideoPortResolution :: "vpc_env \<Rightarrow> int \<Rightarrow> vp_res \<Rightarrow> bool \<Rightarrow> bool \<Rightarrow> vpc_state \<Rightarrow> vpc_result" where
  "VPC_SetVideoPortResolution e handle resolution persist force s =
     (if r_name resolution = [] then vpc_forward e (V_SetVideoPortResolution handle resolution persist force) s
      else obind (cache_resolutions e s) (\<lambda>s1.
        let resolved = (case find (\<lambda>c. rs_name c = r_name resolution) (cachedVideoPortResolutions s1) of
              Some cached \<Rightarrow> table_resolution e cached | None \<Rightarrow> resolution)
        in vpc_forward e (V_SetVideoPortResolution handle resolved persist force) s1))"

definition GetVideoPortResolutionConfig :: "vpc_env \<Rightarrow> int \<Rightarrow> vpc_state \<Rightarrow> vpc_result" where
  "GetVideoPortResolutionConfig e type s =
     (let (rows, handles) = PopulateVideoPortResolutionConfig type (vc_lib e) (vpc_handles s)
      in obind rows (\<lambda>rs. Ret (ERROR_NONE, Some (PvResolutions (map (table_resolution e) rs)), s\<lparr>vpc_handles := handles\<rparr>)))"

text \<open>The port, the picture, the colour depth and HDCP, HDR: the four groups of methods of the file.\<close>

datatype port_request =
    P_GetVideoPort VideoPortType int
  | P_IsVideoPortEnabled int
  | P_EnableVideoPort int bool
  | P_IsVideoPortDisplayConnected int
  | P_IsVideoPortActive int
  | P_GetVideoPortResolution int

datatype picture_request =
    P_GetColorSpace int
  | P_SetColorSpace int int bool
  | P_GetQuantizationRange int
  | P_SetQuantizationRange int quantization bool
  | P_GetVideoPortHDCPStatus int
  | P_GetHDCPProtocolVersion int
  | P_GetVideoPortHDCPCurrentProtocol int
  | P_SetVideoPortHDCPProfile int hdcp_version bool
  | P_GetMatrixCoefficients int
  | P_GetCurrentOutputSettings int
  | P_SetBackgroundColor int int

datatype depth_request =
    P_SetForceHDRMode int int
  | P_GetColorDepthCapabilities int
  | P_GetPreferredColorDepth int bool
  | P_SetPreferredColorDepth int "32 word" bool
  | P_getIgnoreEDIDStatus int
  | P_GetColorDepth int
  | P_EnableHDCP int bool "int list"
  | P_IsHDCPEnabled int
  | P_GetTVHDRCapabilities int
  | P_GetTVSupportedResolutions int

datatype output_request =
    P_SetForceDisable4K int bool
  | P_GetForceDisable4K int
  | P_IsVideoPortOutputHDR int
  | P_ResetVideoPortOutputToSDR
  | P_GetHDMIPreference int
  | P_SetHDMIPreference int hdcp_version
  | P_GetVideoEOTF int
  | P_IsVideoPortDisplaySurround int
  | P_GetVideoPortDisplaySurroundMode int
  | P_GetHDCPReceiverProtocolVersion int
  | P_GetHDCPCurrentProtocolVersion int

fun vpc_port_call :: "vpc_env \<Rightarrow> port_request \<Rightarrow> vpc_state \<Rightarrow> vpc_result" where
  "vpc_port_call e (P_GetVideoPort t i) = vpc_forward e (V_GetVideoPort t i)"
| "vpc_port_call e (P_IsVideoPortEnabled h) = vpc_forward e (V_IsVideoPortEnabled h)"
| "vpc_port_call e (P_EnableVideoPort h b) = vpc_forward e (V_EnableVideoPort h b)"
| "vpc_port_call e (P_IsVideoPortDisplayConnected h) = vpc_forward e (V_IsVideoPortDisplayConnected h)"
| "vpc_port_call e (P_IsVideoPortActive h) = vpc_forward e (V_IsVideoPortActive h)"
| "vpc_port_call e (P_GetVideoPortResolution h) = vpc_forward e (V_GetVideoPortResolution h)"

text \<open>The three requests with \<open>persist\<close> do not look at it.\<close>

fun vpc_picture_call :: "vpc_env \<Rightarrow> picture_request \<Rightarrow> vpc_state \<Rightarrow> vpc_result" where
  "vpc_picture_call e (P_GetColorSpace h) = vpc_forward e (V_GetColorSpace h)"
| "vpc_picture_call e (P_SetColorSpace h c persist) = vpc_forward e (V_SetColorSpace h c)"
| "vpc_picture_call e (P_GetQuantizationRange h) = vpc_forward e (V_GetQuantizationRange h)"
| "vpc_picture_call e (P_SetQuantizationRange h q persist) = vpc_forward e (V_SetVideoPortQuantizationRange h q)"
| "vpc_picture_call e (P_GetVideoPortHDCPStatus h) = vpc_forward e (V_GetVideoPortHDCPStatus h)"
| "vpc_picture_call e (P_GetHDCPProtocolVersion h) = vpc_forward e (V_GetHDCPProtocolVersion h)"
| "vpc_picture_call e (P_GetVideoPortHDCPCurrentProtocol h) = vpc_forward e (V_GetHDCPCurrentProtocolVersion h)"
| "vpc_picture_call e (P_SetVideoPortHDCPProfile h v persist) = vpc_forward e (V_SetHDMIPreference h v)"
| "vpc_picture_call e (P_GetMatrixCoefficients h) = vpc_copied e (V_GetMatrixCoefficients h)"
| "vpc_picture_call e (P_GetCurrentOutputSettings h) = vpc_copied e (V_GetCurrentOutputSettings h)"
| "vpc_picture_call e (P_SetBackgroundColor h c) = vpc_forward e (V_SetBackgroundColor h c)"

fun vpc_depth_call :: "vpc_env \<Rightarrow> depth_request \<Rightarrow> vpc_state \<Rightarrow> vpc_result" where
  "vpc_depth_call e (P_SetForceHDRMode h m) = vpc_forward e (V_SetForceHDRMode h m)"
| "vpc_depth_call e (P_GetColorDepthCapabilities h) = vpc_forward e (V_GetColorDepthCapabilities h)"
| "vpc_depth_call e (P_GetPreferredColorDepth h persist) = vpc_copied e (V_GetPreferredColorDepth h persist)"
| "vpc_depth_call e (P_SetPreferredColorDepth h d persist) = vpc_forward e (V_SetPreferredColorDepth h d persist)"
| "vpc_depth_call e (P_getIgnoreEDIDStatus h) = vpc_forward e (V_GetIgnoreEDIDStatus h)"
| "vpc_depth_call e (P_GetColorDepth h) = vpc_forward e (V_GetColorDepth h)"
| "vpc_depth_call e (P_EnableHDCP h b k) = vpc_forward e (V_EnableHDCP h b k)"
| "vpc_depth_call e (P_IsHDCPEnabled h) = vpc_forward e (V_IsHDCPEnabled h)"
| "vpc_depth_call e (P_GetTVHDRCapabilities h) = vpc_forward e (V_GetTVHDRCapabilities h)"
| "vpc_depth_call e (P_GetTVSupportedResolutions h) = vpc_forward e (V_GetTVSupportedResolutions h)"

fun vpc_output_call :: "vpc_env \<Rightarrow> output_request \<Rightarrow> vpc_state \<Rightarrow> vpc_result" where
  "vpc_output_call e (P_SetForceDisable4K h b) = vpc_forward e (V_SetForceDisable4K h b)"
| "vpc_output_call e (P_GetForceDisable4K h) = vpc_forward e (V_GetForceDisable4K h)"
| "vpc_output_call e (P_IsVideoPortOutputHDR h) = vpc_forward e (V_IsVideoPortOutputHDR h)"
| "vpc_output_call e P_ResetVideoPortOutputToSDR = vpc_forward e V_ResetVideoPortOutputToSDR"
| "vpc_output_call e (P_GetHDMIPreference h) = vpc_forward e (V_GetHDMIPreference h)"
| "vpc_output_call e (P_SetHDMIPreference h v) = vpc_forward e (V_SetHDMIPreference h v)"
| "vpc_output_call e (P_GetVideoEOTF h) = vpc_copied e (V_GetVideoEOTF h)"
| "vpc_output_call e (P_IsVideoPortDisplaySurround h) = vpc_forward e (V_IsVideoPortDisplaySurround h)"
| "vpc_output_call e (P_GetVideoPortDisplaySurroundMode h) = vpc_forward e (V_GetVideoPortDisplaySurroundMode h)"
| "vpc_output_call e (P_GetHDCPReceiverProtocolVersion h) = vpc_forward e (V_GetHDCPReceiverProtocolVersion h)"
| "vpc_output_call e (P_GetHDCPCurrentProtocolVersion h) = vpc_forward e (V_GetHDCPCurrentProtocolVersion h)"

datatype vpc_request =
    VcPort port_request
  | VcPicture picture_request
  | VcDepth depth_request
  | VcOutput output_request
  | VcSetResolution int vp_res bool bool
  | VcResolutionConfig int

fun VideoPortImpl_call :: "vpc_env \<Rightarrow> vpc_request \<Rightarrow> vpc_state \<Rightarrow> vpc_result" where
  "VideoPortImpl_call e (VcPort q) = vpc_port_call e q"
| "VideoPortImpl_call e (VcPicture q) = vpc_picture_call e q"
| "VideoPortImpl_call e (VcDepth q) = vpc_depth_call e q"
| "VideoPortImpl_call e (VcOutput q) = vpc_output_call e q"
| "VideoPortImpl_call e (VcSetResolution h r p f) = VPC_SetVideoPortResolution e h r p f"
| "VideoPortImpl_call e (VcResolutionConfig t) = GetVideoPortResolutionConfig e t"

subsection \<open>Events\<close>

fun as_event :: "vp_call \<Rightarrow> vpc_event option" where
  "as_event (EPreChange w h) = Some (PreChange w h)"
| "as_event (EPostChange w h) = Some (PostChange w h)"
| "as_event (EHdcpStatus x) = Some (HdcpStatus x)"
| "as_event (EVideoFormat f) = Some (VideoFormat f)"
| "as_event _ = None"

definition new_events :: "vp_state \<Rightarrow> vp_state \<Rightarrow> vpc_event list" where
  "new_events v w = List.map_filter as_event (drop (length (vs_trace v)) (vs_trace w))"

definition dispatchVideoPortEvent :: "(ptr \<Rightarrow> vpc_event \<Rightarrow> reg_op list) \<Rightarrow> vpc_event \<Rightarrow> vpc_state \<Rightarrow> vpc_state outcome" where
  "dispatchVideoPortEvent client ev s =
     obind (dispatchEvent client ev (VideoPortNotifications s)) (\<lambda>g. Ret (s\<lparr>VideoPortNotifications := g\<rparr>))"

definition submitVideoPortEvent :: "int \<Rightarrow> int \<Rightarrow> vpc_state \<Rightarrow> vpc_state outcome" where
  "submitVideoPortEvent w h s = (case vpc_live s of None \<Rightarrow> UB
     | Some i \<Rightarrow> Ret (s\<lparr>vpc_jobs := vpc_jobs s @ [(i, w, h)]\<rparr>))"

text \<open>The four \<open>On...\<close> functions, reached through a callback that belongs to an object.\<close>

definition vpc_notify :: "(ptr \<Rightarrow> vpc_event \<Rightarrow> reg_op list) \<Rightarrow> vpc_event \<Rightarrow> vpc_state \<Rightarrow> vpc_state outcome" where
  "vpc_notify client ev s =
     (if vpc_live s = None \<or> vpc_owner s \<noteq> vpc_live s then UB
      else case ev of PostChange w h \<Rightarrow> submitVideoPortEvent w h s
           | _ \<Rightarrow> dispatchVideoPortEvent client ev s)"

fun vpc_deliver :: "(ptr \<Rightarrow> vpc_event \<Rightarrow> reg_op list) \<Rightarrow> vpc_event list \<Rightarrow> vpc_state \<Rightarrow> vpc_state outcome" where
  "vpc_deliver client [] s = Ret s"
| "vpc_deliver client (ev # evs) s = obind (vpc_notify client ev s) (vpc_deliver client evs)"

text \<open>A worker takes the next job and runs \<open>Dispatch\<close> of the object it names.\<close>

definition run_job :: "(ptr \<Rightarrow> vpc_event \<Rightarrow> reg_op list) \<Rightarrow> vpc_state \<Rightarrow> vpc_state outcome" where
  "run_job client s = (case vpc_jobs s of [] \<Rightarrow> Ret s
     | (i, w, h) # jobs \<Rightarrow>
         if vpc_live s \<noteq> Some i then UB
         else dispatchVideoPortEvent client (PostChange w h) (s\<lparr>vpc_jobs := jobs\<rparr>))"

subsection \<open>Objects and histories\<close>

definition VideoPort_create :: "vpc_env \<Rightarrow> nat \<Rightarrow> vpc_state \<Rightarrow> vpc_state" where
  "VideoPort_create e i s =
     (let v = vp_InitialiseHAL (vc_vp e) (vpc_port s);
          sets = videoPort_isPlatInitialized v \<and> \<not> videoPort_isInitialized v
      in s\<lparr>vpc_port := VideoPort_Platform_init (vc_vp e) True v, cachedVideoPortResolutions := [],
           vpc_live := Some i, vpc_owner := if sets then Some i else vpc_owner s\<rparr>)"

fun release_clients :: "(string \<times> ptr) list \<Rightarrow> 'e registry \<Rightarrow> 'e registry outcome" where
  "release_clients [] g = Ret g"
| "release_clients (n # ns) g = obind (Release (snd n) g) (release_clients ns)"

text \<open>The destructor releases the clients that are still registered; then the platform object ends.\<close>

definition VideoPort_destroy :: "vpc_env \<Rightarrow> vpc_state \<Rightarrow> vpc_state outcome" where
  "VideoPort_destroy e s =
     (let notifications = rg_list (VideoPortNotifications s)
      in obind (release_clients notifications ((VideoPortNotifications s)\<lparr>rg_list := []\<rparr>)) (\<lambda>g.
        Ret (s\<lparr>VideoPortNotifications := g, vpc_port := vp_DeInitialiseHAL (vc_vp e) (vpc_port s), vpc_live := None\<rparr>)))"

datatype vp_report = HdcpReport int int | FormatReport int

text \<open>The HAL reports what it was asked to report.\<close>

definition vpc_asked :: "vp_report \<Rightarrow> vpc_state \<Rightarrow> bool" where
  "vpc_asked rp s \<longleftrightarrow> (case rp of HdcpReport handle _ \<Rightarrow> CRegisterHdcpCallback handle \<in> set (vs_trace (vpc_port s))
     | FormatReport _ \<Rightarrow> CRegisterFormatCallback \<in> set (vs_trace (vpc_port s)))"

fun vpc_reported :: "vpc_env \<Rightarrow> vp_report \<Rightarrow> vp_state \<Rightarrow> vp_state" where
  "vpc_reported e (HdcpReport handle status) v = VideoPortHDCPStatusCallback (vc_vp e) handle status v"
| "vpc_reported e (FormatReport f) v = VideoPortVideoFormatUpdateCallback (vc_vp e) f v"

datatype vpc_op = VpCreate | VpDestroy | VpRequest vpc_request | VpClient reg_op | VpReport vp_report | VpWorker

text \<open>The \<open>i\<close>-th step creates object \<open>i\<close>.\<close>

fun vpc_do :: "vpc_env \<Rightarrow> (ptr \<Rightarrow> vpc_event \<Rightarrow> reg_op list) \<Rightarrow> nat \<Rightarrow> vpc_op \<Rightarrow> vpc_state \<Rightarrow> vpc_state outcome" where
  "vpc_do e client i VpCreate s = Ret (if vpc_live s = None then VideoPort_create e i s else s)"
| "vpc_do e client i VpDestroy s = (if vpc_live s = None then Ret s else VideoPort_destroy e s)"
| "vpc_do e client i (VpRequest q) s =
     (if vpc_live s = None then Ret s
      else obind (VideoPortImpl_call e q s) (\<lambda>(r, out, t). vpc_deliver client (new_events (vpc_port s) (vpc_port t)) t))"
| "vpc_do e client i (VpClient a) s =
     (if vpc_live s = None then Ret s
      else obind (do_op a (VideoPortNotifications s)) (\<lambda>g. Ret (s\<lparr>VideoPortNotifications := g\<rparr>)))"
| "vpc_do e client i (VpReport rp) s =
     (if \<not> vpc_asked rp s then Ret s
      else let v = vpc_reported e rp (vpc_port s)
           in vpc_deliver client (new_events (vpc_port s) v) (s\<lparr>vpc_port := v\<rparr>))"
| "vpc_do e client i VpWorker s = run_job client s"

fun vpc_run :: "vpc_env \<Rightarrow> (ptr \<Rightarrow> vpc_event \<Rightarrow> reg_op list) \<Rightarrow> nat \<Rightarrow> vpc_op list \<Rightarrow> vpc_state \<Rightarrow> vpc_state outcome" where
  "vpc_run e client i [] s = Ret s"
| "vpc_run e client i (c # cs) s = obind (vpc_do e client i c s) (vpc_run e client (Suc i) cs)"


subsection \<open>The tables\<close>

lemma Populate_resolutions:
  "PopulateVideoPortResolutionConfig t lib h = (fst (PopulateVideoPortResolutionConfig t lib 0), h)"
proof -
  have "video_port_symbols \<noteq> []" by (simp add: video_port_symbols_def)
  note eq = populate_eq [OF this, of "[]" "copy_resolutions t" lib]
  show ?thesis
    by (simp only: PopulateVideoPortResolutionConfig_def LoadVideoPortConfigFromHAL_def eq fst_conv)
qed

lemma cache_types_handles:
  "cache_types lib ts cache h = obind (cache_types lib ts cache 0) (\<lambda>(c, n). Ret (c, h))"
proof (induction ts arbitrary: cache h)
  case (Cons t ts)
  show ?case
  proof (cases "fst (PopulateVideoPortResolutionConfig t lib 0)")
    case (Ret rows)
    then show ?thesis
      using Cons.IH [of "cache_rows rows cache" h] Populate_resolutions [of t lib h] Populate_resolutions [of t lib 0]
      by (simp add: Let_def case_prod_unfold)
  qed (use Populate_resolutions [of t lib h] Populate_resolutions [of t lib 0] in \<open>simp_all add: case_prod_unfold\<close>)
qed simp

lemma cache_rows_Cons:
  "cache_rows (r # rs) c = cache_rows rs (if rs_name r \<in> rs_name ` set c then c else c @ [r])"
  by (simp add: cache_rows_def)

lemma cache_rows_distinct: "distinct (map rs_name c) \<Longrightarrow> distinct (map rs_name (cache_rows rs c))"
  by (induction rs arbitrary: c) (auto simp: cache_rows_Cons cache_rows_def)

lemma cache_rows_set: "set (cache_rows rs c) \<subseteq> set rs \<union> set c"
proof (induction rs arbitrary: c)
  case (Cons r rs)
  from Cons.IH [of "if rs_name r \<in> rs_name ` set c then c else c @ [r]"] show ?case
    by (auto simp: cache_rows_Cons split: if_splits)
qed (simp add: cache_rows_def)

text \<open>A row of the cache is a resolution some port type supports; the names are different.\<close>

definition supported_row :: "hal_lib option \<Rightarrow> int list \<Rightarrow> resolution_cfg \<Rightarrow> bool" where
  "supported_row lib ts c \<longleftrightarrow> (\<exists>t \<in> set ts. \<exists>rows. fst (PopulateVideoPortResolutionConfig t lib 0) = Ret rows \<and> c \<in> set rows)"

lemma cache_types_rows:
  "cache_types lib ts cache h = Ret (c, n) \<Longrightarrow> distinct (map rs_name cache) \<Longrightarrow>
     distinct (map rs_name c) \<and> (\<forall>x \<in> set c. x \<in> set cache \<or> supported_row lib ts x)"
proof (induction ts arbitrary: cache h)
  case (Cons t ts)
  from Cons.prems(1) obtain rows where
    r: "fst (PopulateVideoPortResolutionConfig t lib 0) = Ret rows" "cache_types lib ts (cache_rows rows cache) h = Ret (c, n)"
    using Populate_resolutions [of t lib h] by (auto simp: Let_def case_prod_unfold obind_Ret_iff)
  from Cons.IH [OF r(2) cache_rows_distinct [OF Cons.prems(2)]] show ?case
    using cache_rows_set [of rows cache] r(1) by (fastforce simp: supported_row_def)
qed simp

subsection \<open>What the operations keep\<close>

text \<open>A request only touches the platform and the cache, and the cache is the whole table or empty.\<close>

definition vpc_same :: "vpc_state \<Rightarrow> vpc_state \<Rightarrow> bool" where
  "vpc_same s t \<longleftrightarrow> VideoPortNotifications t = VideoPortNotifications s \<and> vpc_jobs t = vpc_jobs s \<and> vpc_live t = vpc_live s
     \<and> vpc_owner t = vpc_owner s \<and> vpc_handles t = vpc_handles s"

definition cache_ok :: "vpc_env \<Rightarrow> vpc_state \<Rightarrow> bool" where
  "cache_ok e s \<longleftrightarrow> cachedVideoPortResolutions s = []
     \<or> (\<exists>n. cache_types (vc_lib e) [vc_RF e ..vc_MAX e - 1] [] 0 = Ret (cachedVideoPortResolutions s, n))"

lemma cache_resolutions_eq:
  assumes "cache_ok e s"
  shows "cache_resolutions e s = obind (cache_types (vc_lib e) [vc_RF e ..vc_MAX e - 1] [] 0) (\<lambda>(c, n).
           Ret (s\<lparr>cachedVideoPortResolutions := c\<rparr>))"
proof (cases "cachedVideoPortResolutions s = []")
  case True
  then show ?thesis
    using cache_types_handles [of "vc_lib e" "[vc_RF e ..vc_MAX e - 1]" "[]" "vpc_handles s"]
    by (cases "cache_types (vc_lib e) [vc_RF e ..vc_MAX e - 1] [] 0") (auto simp: cache_resolutions_def case_prod_unfold)
next
  case False
  with assms show ?thesis by (auto simp: cache_ok_def cache_resolutions_def)
qed

lemma forward_same: "vpc_forward e q s = Ret (r, out, t) \<Longrightarrow> vpc_same s t
    \<and> cachedVideoPortResolutions t = cachedVideoPortResolutions s"
  by (auto simp: vpc_forward_def vpc_same_def case_prod_unfold Let_def)

lemma copied_same: "vpc_copied e q s = Ret (r, out, t) \<Longrightarrow> vpc_same s t
    \<and> cachedVideoPortResolutions t = cachedVideoPortResolutions s"
  by (auto simp: vpc_copied_def obind_Ret_iff dest: forward_same)

lemma request_same:
  assumes "VideoPortImpl_call e q s = Ret (r, out, t)" and "cache_ok e s"
  shows "vpc_same s t \<and> cache_ok e t"
proof (cases q)
  case (VcPort x)
  with assms show ?thesis by (cases x) (auto simp: cache_ok_def dest: forward_same)
next
  case (VcPicture x)
  with assms show ?thesis by (cases x) (auto simp: cache_ok_def dest: forward_same copied_same)
next
  case (VcDepth x)
  with assms show ?thesis by (cases x) (auto simp: cache_ok_def dest: forward_same copied_same)
next
  case (VcOutput x)
  with assms show ?thesis by (cases x) (auto simp: cache_ok_def dest: forward_same copied_same)
next
  case (VcSetResolution h x p f)
  show ?thesis
  proof (cases "r_name x = []")
    case True
    with assms VcSetResolution show ?thesis
      by (auto simp: VPC_SetVideoPortResolution_def cache_ok_def dest: forward_same)
  next
    case False
    with assms VcSetResolution obtain c n where
      "cache_types (vc_lib e) [vc_RF e ..vc_MAX e - 1] [] 0 = Ret (c, n)"
      and "\<exists>req. vpc_forward e req (s\<lparr>cachedVideoPortResolutions := c\<rparr>) = Ret (r, out, t)"
      by (auto simp: VPC_SetVideoPortResolution_def cache_resolutions_eq obind_Ret_iff Let_def)
    then show ?thesis by (auto simp: cache_ok_def vpc_same_def dest: forward_same)
  qed
next
  case (VcResolutionConfig x)
  with assms show ?thesis
    using Populate_resolutions [of x "vc_lib e" "vpc_handles s"]
    by (auto simp: GetVideoPortResolutionConfig_def obind_Ret_iff vpc_same_def cache_ok_def case_prod_unfold)
qed

text \<open>The clients' references.\<close>

lemma release_clients_inv:
  "reg_inv base (map snd ns @ pend) g \<Longrightarrow> \<exists>h. release_clients ns g = Ret h \<and> reg_inv base pend h \<and> rg_list h = rg_list g"
proof (induction ns arbitrary: g)
  case (Cons n ns)
  from Cons.prems have "reg_inv base (snd n # map snd ns @ pend) g" by simp
  from Release_pend [OF this] obtain h where
    h: "Release (snd n) g = Ret h" "reg_inv base (map snd ns @ pend) h" "rg_list h = rg_list g" by blast
  from Cons.IH [OF h(2)] h show ?case by auto
qed simp

lemma swapped_inv:
  assumes "reg_inv base [] g"
  shows "reg_inv base (map snd (rg_list g)) (g\<lparr>rg_list := []\<rparr>)"
proof -
  have "count_list xs p = (if p \<in> set xs then 1 else 0)" if "distinct xs" for xs :: "ptr list" and p
    using that by (induction xs) auto
  then show ?thesis using assms by (simp add: reg_inv_def registered_map)
qed

text \<open>Always true, and what it takes to notify.\<close>

definition vpc_inv :: "vpc_env \<Rightarrow> (ptr \<Rightarrow> nat) \<Rightarrow> vpc_state \<Rightarrow> bool" where
  "vpc_inv e base s \<longleftrightarrow> reg_inv base [] (VideoPortNotifications s) \<and> cache_ok e s
     \<and> (vpc_live s = None \<longrightarrow> rg_list (VideoPortNotifications s) = [])"

lemma vpc_inv_same: "vpc_inv e base s \<Longrightarrow> vpc_same s t \<Longrightarrow> cache_ok e t \<Longrightarrow> vpc_inv e base t"
  by (simp add: vpc_inv_def vpc_same_def)

lemma dispatch_vpc:
  assumes "vpc_inv e base s" and "vpc_live s \<noteq> None"
  shows "\<exists>t. dispatchVideoPortEvent client ev s = Ret t \<and> vpc_inv e base t \<and> vpc_live t = vpc_live s
           \<and> vpc_owner t = vpc_owner s \<and> vpc_jobs t = vpc_jobs s \<and> vpc_port t = vpc_port s
           \<and> rg_calls (VideoPortNotifications t)
               = rg_calls (VideoPortNotifications s) @ map (\<lambda>p. (p, ev)) (reg_members (VideoPortNotifications s))"
proof -
  have "reg_inv base [] (VideoPortNotifications s)" using assms by (simp add: vpc_inv_def)
  from dispatchEvent_inv [OF this, of client ev] show ?thesis
    using assms by (auto simp: dispatchVideoPortEvent_def vpc_inv_def cache_ok_def reg_members_def)
qed

lemma notify_vpc:
  assumes "vpc_inv e base s" and "vpc_live s \<noteq> None" and "vpc_owner s = vpc_live s"
  shows "\<exists>t. vpc_notify client ev s = Ret t \<and> vpc_inv e base t \<and> vpc_live t = vpc_live s \<and> vpc_owner t = vpc_owner s
           \<and> vpc_port t = vpc_port s"
proof (cases "\<exists>w h. ev = PostChange w h")
  case True
  then show ?thesis using assms by (auto simp: vpc_notify_def submitVideoPortEvent_def vpc_inv_def cache_ok_def)
next
  case False
  then have "vpc_notify client ev s = dispatchVideoPortEvent client ev s"
    using assms by (cases ev) (auto simp: vpc_notify_def)
  with dispatch_vpc [OF assms(1,2), of client ev] show ?thesis by auto
qed

lemma deliver_vpc:
  "vpc_inv e base s \<Longrightarrow> vpc_live s \<noteq> None \<Longrightarrow> vpc_owner s = vpc_live s \<Longrightarrow>
     \<exists>t. vpc_deliver client evs s = Ret t \<and> vpc_inv e base t \<and> vpc_live t = vpc_live s \<and> vpc_owner t = vpc_owner s
       \<and> vpc_port t = vpc_port s"
proof (induction evs arbitrary: s)
  case (Cons ev evs)
  from notify_vpc [OF Cons.prems, of client ev] obtain u where
    u: "vpc_notify client ev s = Ret u" "vpc_inv e base u" "vpc_live u = vpc_live s" "vpc_owner u = vpc_owner s"
      "vpc_port u = vpc_port s" by blast
  then have "vpc_live u \<noteq> None" "vpc_owner u = vpc_live u" using Cons.prems by simp_all
  from Cons.IH [OF u(2) this] u show ?case by auto
qed simp

lemma deliver_wrong: "vpc_live s = None \<or> vpc_owner s \<noteq> vpc_live s \<Longrightarrow>
    vpc_deliver client evs s = (if evs = [] then Ret s else UB)"
  by (cases evs) (simp_all add: vpc_notify_def)

lemma deliver_inv:
  assumes "vpc_inv e base s" and "vpc_deliver client evs s = Ret t"
  shows "vpc_inv e base t"
proof (cases "vpc_live s = None \<or> vpc_owner s \<noteq> vpc_live s")
  case True
  then show ?thesis using deliver_wrong [OF True] assms by (simp split: if_splits)
next
  case False
  then show ?thesis using deliver_vpc [OF assms(1), of client evs] assms(2) by auto
qed

lemma destroy_vpc:
  assumes "vpc_inv e base s"
  shows "\<exists>t. VideoPort_destroy e s = Ret t \<and> vpc_inv e base t \<and> vpc_live t = None \<and> vpc_owner t = vpc_owner s
           \<and> vpc_jobs t = vpc_jobs s \<and> vpc_port t = vp_DeInitialiseHAL (vc_vp e) (vpc_port s)"
proof -
  have g: "reg_inv base [] (VideoPortNotifications s)" using assms by (simp add: vpc_inv_def)
  from release_clients_inv [of base _ "[]"] swapped_inv [OF g] obtain h where
    "release_clients (rg_list (VideoPortNotifications s)) ((VideoPortNotifications s)\<lparr>rg_list := []\<rparr>) = Ret h"
    "reg_inv base [] h" "rg_list h = []" by fastforce
  then show ?thesis using assms by (simp add: VideoPort_destroy_def Let_def vpc_inv_def cache_ok_def)
qed

lemma create_vpc:
  "vpc_inv e base s \<Longrightarrow> vpc_live s = None \<Longrightarrow> vpc_inv e base (VideoPort_create e i s)"
  by (simp add: VideoPort_create_def Let_def vpc_inv_def cache_ok_def)

lemma vpc_inv_port [simp]: "vpc_inv e base (s\<lparr>vpc_port := v\<rparr>) = vpc_inv e base s"
  by (simp add: vpc_inv_def cache_ok_def)

lemma client_vpc:
  assumes "vpc_inv e base s" and "vpc_live s \<noteq> None"
  shows "\<exists>t. obind (do_op a (VideoPortNotifications s)) (\<lambda>g. Ret (s\<lparr>VideoPortNotifications := g\<rparr>)) = Ret t
           \<and> vpc_inv e base t \<and> vpc_live t = vpc_live s \<and> vpc_owner t = vpc_owner s \<and> vpc_jobs t = vpc_jobs s
           \<and> vpc_port t = vpc_port s"
proof -
  have "reg_inv base [] (VideoPortNotifications s)" using assms by (simp add: vpc_inv_def)
  from do_op_inv [OF this, of a] show ?thesis using assms by (auto simp: vpc_inv_def cache_ok_def)
qed

lemma vpc_inv_do:
  assumes s: "vpc_inv e base s" and do: "vpc_do e client i c s = Ret t"
  shows "vpc_inv e base t"
proof (cases c)
  case VpCreate
  then show ?thesis using assms create_vpc by (auto split: if_splits)
next
  case VpDestroy
  then show ?thesis using assms destroy_vpc [OF s] by (auto split: if_splits)
next
  case (VpRequest q)
  show ?thesis
  proof (cases "vpc_live s = None")
    case False
    with do VpRequest obtain r out u where
      u: "VideoPortImpl_call e q s = Ret (r, out, u)" "vpc_deliver client (new_events (vpc_port s) (vpc_port u)) u = Ret t"
      by (auto simp: obind_Ret_iff)
    have "cache_ok e s" using s by (simp add: vpc_inv_def)
    from request_same [OF u(1) this] vpc_inv_same [OF s] have "vpc_inv e base u" by blast
    then show ?thesis using u(2) by (rule deliver_inv)
  qed (use assms VpRequest in simp)
next
  case (VpClient a)
  then show ?thesis using assms client_vpc [OF s, of a] by (auto split: if_splits)
next
  case (VpReport rp)
  then show ?thesis using assms by (auto simp: Let_def split: if_splits intro: deliver_inv [rotated])
next
  case VpWorker
  have "dispatchVideoPortEvent client ev (s\<lparr>vpc_jobs := js\<rparr>) = Ret t \<Longrightarrow> vpc_live s \<noteq> None \<Longrightarrow> vpc_inv e base t" for ev js
    using dispatch_vpc [of e base "s\<lparr>vpc_jobs := js\<rparr>" client ev] s by (auto simp: vpc_inv_def cache_ok_def)
  then show ?thesis
    using VpWorker assms by (auto simp: run_job_def split: list.splits if_splits)
qed

lemma vpc_inv_run: "vpc_inv e base s \<Longrightarrow> vpc_run e client i cs s = Ret t \<Longrightarrow> vpc_inv e base t"
  by (induction cs arbitrary: i s) (auto simp: obind_Ret_iff dest: vpc_inv_do)

lemma vpc_run_append:
  "vpc_run e client i (as @ bs) s = obind (vpc_run e client i as s) (vpc_run e client (i + length as) bs)"
proof (induction as arbitrary: i s)
  case (Cons a as)
  then show ?case by (cases "vpc_do e client i a s") simp_all
qed simp

lemma vpc_inv_static: "vpc_inv e base (vpc_static v base)"
  by (simp add: vpc_inv_def vpc_static_def reg_inv_empty cache_ok_def) (simp add: reg_empty_def)

subsection \<open>Whose callbacks the platform has\<close>

lemma flag_log [simp]: "videoPort_isInitialized (vp_log c v) = videoPort_isInitialized v"
  by (simp add: vp_log_def)

lemma flag_sync [simp]: "videoPort_isInitialized (vp_sync e tag x v) = videoPort_isInitialized v"
  by (simp add: vp_sync_def)

lemma flag_port_loop [simp]: "videoPort_isInitialized (snd (default_port_loop e h ps v)) = videoPort_isInitialized v"
  using only_calls_default_port [of "\<lambda>_. True" v e h ps] by (auto simp: only_calls_def)

lemma flag_setting [simp]: "videoPort_isInitialized (snd (vp_setting k d v)) = videoPort_isInitialized v"
  by (simp add: vp_setting_def case_prod_unfold Let_def)

lemma flag_read_resolution:
  "(\<And>n t. videoPort_isInitialized (f n t) = videoPort_isInitialized t) \<Longrightarrow>
     videoPort_isInitialized (read_resolution e k f v) = videoPort_isInitialized v"
  by (auto simp: read_resolution_def case_prod_unfold Let_def split: outcome.split)

lemma flag_persistence [simp]: "videoPort_isInitialized (vp_getPersistenceValue e v) = videoPort_isInitialized v"
  by (simp add: vp_getPersistenceValue_def vp_hal_def Let_def case_prod_unfold flag_read_resolution)

lemma flag_depth [simp]:
  "videoPort_isInitialized (ApplyPreferredColorDepthAfterHdmiReset e h v) = videoPort_isInitialized v"
  by (auto simp: ApplyPreferredColorDepthAfterHdmiReset_def dsGetDefaultPortHandle_def vp_hal_def Let_def case_prod_unfold
      getPersistentColorDepth_def getCurrentPreferredColorDepth_def getBestSupportedColorDepth_def
      getColorDepthCapabilitiesHAL_def opt_word_def setPreferredColorDepthHAL_def split: outcome.split)

lemma flag_start:
  "videoPort_isInitialized (vp_InitialiseHAL e v) = videoPort_isInitialized v"
  "(\<And>h. ve_ret e h CInit = DsERR_NONE) \<Longrightarrow> videoPort_isPlatInitialized (vp_InitialiseHAL e v)"
  by (simp_all add: vp_InitialiseHAL_def vp_hal_def dsGetDefaultPortHandle_def Let_def case_prod_unfold)

lemma flag_reported: "videoPort_isInitialized (vpc_reported e rp v) = videoPort_isInitialized v"
  by (cases rp) (simp_all add: VideoPortHDCPStatusCallback_def VideoPortVideoFormatUpdateCallback_def vp_event_def
      current_protocol_def dsGetDefaultPortHandle_def vp_hal_def Let_def case_prod_unfold)

text \<open>If every start of the HAL succeeds, the platform has the callbacks of the object that exists.\<close>

definition vpc_owned :: "vpc_state \<Rightarrow> bool" where
  "vpc_owned s \<longleftrightarrow> (if vpc_live s = None then \<not> videoPort_isInitialized (vpc_port s) else vpc_owner s = vpc_live s)"

lemma create_owned:
  assumes "\<And>h. ve_ret (vc_vp e) h CInit = DsERR_NONE" and "vpc_owned s" and "vpc_live s = None"
  shows "vpc_owned (VideoPort_create e i s)"
  using assms flag_start [of "vc_vp e" "vpc_port s"]
  by (simp add: vpc_owned_def VideoPort_create_def Let_def)

lemma destroy_owned: "VideoPort_destroy e s = Ret t \<Longrightarrow> vpc_owned t"
  by (auto simp: VideoPort_destroy_def Let_def obind_Ret_iff vpc_owned_def vp_DeInitialiseHAL_def)

text \<open>The callbacks the platform holds are not of the object that exists.\<close>

definition vpc_orphan :: "vpc_state \<Rightarrow> bool" where
  "vpc_orphan s \<longleftrightarrow> vpc_live s = None \<or> vpc_owner s \<noteq> vpc_live s"

text \<open>
  The three ways a history can go wrong: a worker runs a job of an object that is gone; the HAL
  reports, or a request causes, an event while the platform holds the callbacks of such an object.
\<close>

definition vpc_stale :: "vpc_env \<Rightarrow> vpc_op \<Rightarrow> vpc_state \<Rightarrow> bool" where
  "vpc_stale e c s \<longleftrightarrow> (case c of
       VpWorker \<Rightarrow> (case vpc_jobs s of [] \<Rightarrow> False | (i, w, h) # jobs \<Rightarrow> vpc_live s \<noteq> Some i)
     | VpReport rp \<Rightarrow> vpc_orphan s \<and> vpc_asked rp s \<and> new_events (vpc_port s) (vpc_reported e rp (vpc_port s)) \<noteq> []
     | VpRequest q \<Rightarrow> vpc_live s \<noteq> None \<and> vpc_orphan s
         \<and> (\<exists>r out t. VideoPortImpl_call e q s = Ret (r, out, t) \<and> new_events (vpc_port s) (vpc_port t) \<noteq> [])
     | _ \<Rightarrow> False)"

text \<open>No table is read past its end.\<close>

definition vpc_tables_ok :: "vpc_env \<Rightarrow> bool" where
  "vpc_tables_ok e \<longleftrightarrow> (\<forall>t. \<exists>rows. fst (PopulateVideoPortResolutionConfig t (vc_lib e) 0) = Ret rows)"

lemma cache_types_returns: "vpc_tables_ok e \<Longrightarrow> \<exists>r. cache_types (vc_lib e) ts cache h = Ret r"
proof (induction ts arbitrary: cache h)
  case (Cons t ts)
  from Cons.prems obtain rows where "fst (PopulateVideoPortResolutionConfig t (vc_lib e) 0) = Ret rows"
    unfolding vpc_tables_ok_def by blast
  with Cons.IH [OF Cons.prems, of "cache_rows rows cache" h] Populate_resolutions [of t "vc_lib e" h] show ?case
    by (simp add: case_prod_unfold Let_def)
qed simp

lemma forward_returns: "\<exists>r out t. vpc_forward e q s = Ret (r, out, t)"
  by (simp add: vpc_forward_def case_prod_unfold Let_def)

lemma copied_returns: "\<exists>r out t. vpc_copied e q s = Ret (r, out, t)"
  using forward_returns [of e q s] by (auto simp: vpc_copied_def)

lemma request_returns:
  assumes "vpc_tables_ok e" and "cache_ok e s"
  shows "\<exists>r out t. VideoPortImpl_call e q s = Ret (r, out, t)"
proof (cases q)
  case (VcPort x)
  then show ?thesis by (cases x) (simp_all add: forward_returns)
next
  case (VcPicture x)
  then show ?thesis by (cases x) (simp_all add: forward_returns copied_returns)
next
  case (VcDepth x)
  then show ?thesis by (cases x) (simp_all add: forward_returns copied_returns)
next
  case (VcOutput x)
  then show ?thesis by (cases x) (simp_all add: forward_returns copied_returns)
next
  case (VcSetResolution h x p f)
  from cache_types_returns [OF assms(1)] obtain c n where
    "cache_types (vc_lib e) [vc_RF e ..vc_MAX e - 1] [] 0 = Ret (c, n)" by fastforce
  with VcSetResolution show ?thesis
    by (simp add: VPC_SetVideoPortResolution_def cache_resolutions_eq [OF assms(2)] forward_returns Let_def)
next
  case (VcResolutionConfig x)
  from assms(1) obtain rows where "fst (PopulateVideoPortResolutionConfig x (vc_lib e) 0) = Ret rows"
    by (auto simp: vpc_tables_ok_def)
  with VcResolutionConfig Populate_resolutions [of x "vc_lib e" "vpc_handles s"] show ?thesis
    by (simp add: GetVideoPortResolutionConfig_def case_prod_unfold)
qed

lemma vpc_do_exact:
  assumes s: "vpc_inv e base s" and tables: "vpc_tables_ok e"
  shows "if vpc_stale e c s then vpc_do e client i c s = UB else \<exists>t. vpc_do e client i c s = Ret t"
proof (cases c)
  case VpCreate
  then show ?thesis by (auto simp: vpc_stale_def)
next
  case VpDestroy
  then show ?thesis using destroy_vpc [OF s(1)] by (auto simp: vpc_stale_def)
next
  case (VpRequest q)
  show ?thesis
  proof (cases "vpc_live s = None")
    case False
    have ok: "cache_ok e s" using s(1) by (simp add: vpc_inv_def)
    from request_returns [OF tables ok] obtain r out u where u: "VideoPortImpl_call e q s = Ret (r, out, u)" by blast
    note same = request_same [OF u ok]
    then have i: "vpc_inv e base u" using vpc_inv_same [OF s(1)] by blast
    have o: "vpc_orphan s \<longleftrightarrow> vpc_live u = None \<or> vpc_owner u \<noteq> vpc_live u"
      using same by (simp add: vpc_same_def vpc_orphan_def)
    show ?thesis
    proof (cases "vpc_orphan s")
      case True
      then show ?thesis
        using VpRequest u False o deliver_wrong [of u client "new_events (vpc_port s) (vpc_port u)"]
        by (auto simp: vpc_stale_def)
    next
      case no: False
      then show ?thesis
        using deliver_vpc [OF i, of client "new_events (vpc_port s) (vpc_port u)"] VpRequest u False o
        by (auto simp: vpc_stale_def)
    qed
  qed (use VpRequest s in \<open>simp add: vpc_stale_def\<close>)
next
  case (VpClient a)
  show ?thesis
  proof (cases "vpc_live s = None")
    case False
    from client_vpc [OF s(1) this, of a] obtain t where
      "obind (do_op a (VideoPortNotifications s)) (\<lambda>g. Ret (s\<lparr>VideoPortNotifications := g\<rparr>)) = Ret t"
      "vpc_live t = vpc_live s" "vpc_owner t = vpc_owner s" by blast
    then show ?thesis using VpClient False by (auto simp: vpc_stale_def)
  qed (use VpClient s in \<open>simp add: vpc_stale_def\<close>)
next
  case (VpReport rp)
  let ?v = "vpc_reported e rp (vpc_port s)"
  show ?thesis
  proof (cases "vpc_asked rp s")
    case True
    show ?thesis
    proof (cases "vpc_orphan s")
      case True
      then show ?thesis
        using VpReport \<open>vpc_asked rp s\<close> deliver_wrong [of "s\<lparr>vpc_port := ?v\<rparr>" client "new_events (vpc_port s) ?v"]
        by (simp add: vpc_stale_def vpc_orphan_def Let_def)
    next
      case False
      then show ?thesis
        using VpReport \<open>vpc_asked rp s\<close> s deliver_vpc [of e base "s\<lparr>vpc_port := ?v\<rparr>" client "new_events (vpc_port s) ?v"]
        by (auto simp: vpc_stale_def vpc_orphan_def Let_def)
    qed
  qed (use VpReport s in \<open>simp add: vpc_stale_def\<close>)
next
  case VpWorker
  have "vpc_inv e base (s\<lparr>vpc_jobs := js\<rparr>)" for js using s(1) by (simp add: vpc_inv_def cache_ok_def)
  from dispatch_vpc [OF this] show ?thesis
    using VpWorker by (fastforce simp: vpc_stale_def run_job_def split: list.split)
qed

interpretation vpc: guarded_run "vpc_do e client" "vpc_run e client" "vpc_stale e"
  "\<lambda>s. vpc_inv e base s \<and> vpc_tables_ok e" for e client base
proof unfold_locales
  fix s c i assume s: "vpc_inv e base s \<and> vpc_tables_ok e"
  then have "if vpc_stale e c s then vpc_do e client i c s = UB else \<exists>t. vpc_do e client i c s = Ret t"
    by (intro vpc_do_exact [of e base]) simp_all
  then show "vpc_stale e c s \<Longrightarrow> vpc_do e client i c s = UB"
    and "\<not> vpc_stale e c s \<Longrightarrow> \<exists>t. vpc_do e client i c s = Ret t \<and> vpc_inv e base t \<and> vpc_tables_ok e"
    using s vpc_inv_do [of e base s client i c] by auto
qed simp_all

text \<open>If every start of the HAL succeeds, a living object always has the callbacks.\<close>

lemma deliver_fields:
  "vpc_deliver client evs s = Ret t \<Longrightarrow> vpc_live t = vpc_live s \<and> vpc_owner t = vpc_owner s \<and> vpc_port t = vpc_port s"
proof (induction evs arbitrary: s)
  case (Cons ev evs)
  then obtain u where u: "vpc_notify client ev s = Ret u" "vpc_deliver client evs u = Ret t" by (auto simp: obind_Ret_iff)
  have "vpc_live u = vpc_live s \<and> vpc_owner u = vpc_owner s \<and> vpc_port u = vpc_port s"
    using u(1) by (cases ev) (auto simp: vpc_notify_def submitVideoPortEvent_def dispatchVideoPortEvent_def
        obind_Ret_iff split: if_splits option.splits)
  with Cons.IH [OF u(2)] show ?case by simp
qed simp

lemma vpc_owned_do:
  assumes init: "\<And>h. ve_ret (vc_vp e) h CInit = DsERR_NONE" and s: "vpc_inv e base s" "vpc_owned s"
    and do: "vpc_do e client i c s = Ret t"
  shows "vpc_owned t"
proof (cases c)
  case VpCreate
  then show ?thesis using s(2) do create_owned [OF init s(2)] by (auto split: if_splits)
next
  case VpDestroy
  then show ?thesis using s(2) do destroy_owned by (auto split: if_splits)
next
  case (VpRequest q)
  show ?thesis
  proof (cases "vpc_live s = None")
    case False
    with do VpRequest obtain r out u where
      u: "VideoPortImpl_call e q s = Ret (r, out, u)" "vpc_deliver client (new_events (vpc_port s) (vpc_port u)) u = Ret t"
      by (auto simp: obind_Ret_iff)
    have "cache_ok e s" using s by (simp add: vpc_inv_def)
    from request_same [OF u(1) this] deliver_fields [OF u(2)] s(2) False show ?thesis
      by (auto simp: vpc_owned_def vpc_same_def)
  qed (use s do VpRequest in simp)
next
  case (VpClient a)
  then show ?thesis using s(2) do by (auto simp: obind_Ret_iff vpc_owned_def split: if_splits)
next
  case (VpReport rp)
  then show ?thesis using s(2) do flag_reported [of e rp "vpc_port s"]
    by (auto simp: Let_def vpc_owned_def dest!: deliver_fields split: if_splits)
next
  case VpWorker
  then show ?thesis using s(2) do
    by (auto simp: run_job_def dispatchVideoPortEvent_def obind_Ret_iff vpc_owned_def split: list.splits if_splits)
qed

lemma vpc_owned_run:
  "(\<And>h. ve_ret (vc_vp e) h CInit = DsERR_NONE) \<Longrightarrow> vpc_inv e base s \<Longrightarrow> vpc_owned s \<Longrightarrow>
     vpc_run e client i cs s = Ret t \<Longrightarrow> vpc_owned t"
proof (induction cs arbitrary: i s)
  case (Cons c cs)
  then obtain u where "vpc_do e client i c s = Ret u" "vpc_run e client (Suc i) cs u = Ret t" by (auto simp: obind_Ret_iff)
  with Cons vpc_owned_do vpc_inv_do show ?case by blast
qed simp

subsection \<open>The events of a change of resolution\<close>

lemma as_event_read: "read_call c \<Longrightarrow> as_event c = None"
  by (cases c) simp_all

lemma no_events: "list_all P cs \<Longrightarrow> (\<And>c. P c \<Longrightarrow> as_event c = None) \<Longrightarrow> List.map_filter as_event cs = []"
  by (induction cs) (simp_all add: List.map_filter_simps)

text \<open>An accepted change is announced before and after, with the size that goes to the HAL.\<close>

lemma resolution_events:
  assumes "resolvePortTypeByHandle e h v = (Some ty, s1)" and "\<not> refused e h r (vs_trace s1)"
    and "current_name e h (vs_trace s1) \<noteq> Some (r_name (to_ds_resolution e r))"
    and "cb_preChange v" and "cb_postChange v" and "resolution_size (r_pixel (to_ds_resolution e r)) = (x, y)"
  shows "new_events v (snd (snd (VideoPort_call e True (V_SetVideoPortResolution h r p f) v))) = [PreChange x y, PostChange x y]"
proof -
  let ?d = "to_ds_resolution e r"
  let ?s8 = "VideoPortPostResolutionChange ?d (vp_log (CSetResolution h ?d) (VideoPortPreResolutionChange ?d (asked e h s1)))"
  have 1: "only_calls read_call v s1" using only_calls_resolve [of read_call v e h] assms(1) by simp
  have 2: "only_calls read_call v (asked e h s1)" using 1 asked_calls by (rule only_calls_trans)
  then obtain cs where cs: "vs_trace (asked e h s1) = vs_trace v @ cs" "list_all read_call cs"
    by (auto simp: only_calls_def)
  have cb: "cb_preChange (asked e h s1)" "cb_postChange (asked e h s1)"
    using only_calls_simps [OF 2] assms(4,5) by simp_all
  have 8: "vs_trace ?s8 = vs_trace v @ cs @ [EPreChange x y, CSetResolution h ?d, EPostChange x y]"
    using cb cs(1) assms(6)
    by (simp add: VideoPortPreResolutionChange_def VideoPortPostResolutionChange_def vp_event_def vp_log_def)
  obtain ds where ds: "vs_trace (settle_resolution e h ty ?d p f ?s8) = vs_trace ?s8 @ ds" "list_all (\<lambda>c. \<exists>t. c = CGetPort t 0) ds"
  proof (cases p)
    case True
    from persist_resolution_trace [of e h ?d f "updateCachedResolutionForPort ty (r_name ?d) ?s8"] that show ?thesis
      using True by (auto simp: settle_resolution_def)
  qed (use that [of "[]"] in \<open>simp add: settle_resolution_def\<close>)
  have "List.map_filter as_event ds = []" by (rule no_events [OF ds(2)]) auto
  then have n: "List.map_filter as_event cs = []" "List.map_filter as_event ds = []"
    using no_events [OF cs(2) as_event_read] by simp_all
  show ?thesis
    using assms(3) 8 ds(1) n
    by (simp add: VideoPort_call_def set_resolution_accepted [OF assms(1,2)] new_events_def List.map_filter_simps map_filter_def)
qed

text \<open>A job that waits when its object is destroyed runs into nothing.\<close>

lemma late_job:
  assumes "vpc_inv e base s" and "vpc_jobs s = (i, w, h) # js" and "vpc_live s = Some i"
  shows "vpc_run e client k [VpDestroy, VpWorker] s = UB"
  using destroy_vpc [OF assms(1)] assms(2,3) by (auto simp: run_job_def)

lemma persistence_callbacks:
  "cb_preChange (vp_getPersistenceValue e s) = cb_preChange s"
  "cb_postChange (vp_getPersistenceValue e s) = cb_postChange s"
proof -
  have set: "cb_preChange (snd (vp_setting k d s)) = cb_preChange s" "cb_postChange (snd (vp_setting k d s)) = cb_postChange s" for k d s
    by (simp_all add: vp_setting_def case_prod_unfold Let_def)
  have rr: "cb_preChange (read_resolution e k f s) = cb_preChange s" "cb_postChange (read_resolution e k f s) = cb_postChange s"
    if "\<And>n t. cb_preChange (f n t) = cb_preChange t" "\<And>n t. cb_postChange (f n t) = cb_postChange t" for k f s
    using that set by (auto simp: read_resolution_def case_prod_unfold Let_def split: outcome.split)
  show "cb_preChange (vp_getPersistenceValue e s) = cb_preChange s"
    "cb_postChange (vp_getPersistenceValue e s) = cb_postChange s"
    by (simp_all add: vp_getPersistenceValue_def vp_hal_def vp_log_def Let_def case_prod_unfold set rr)
qed

lemma platform_init_callbacks:
  assumes "videoPort_isPlatInitialized v" and "\<not> videoPort_isInitialized v"
  shows "cb_preChange (VideoPort_Platform_init e True v) \<and> cb_postChange (VideoPort_Platform_init e True v)"
proof -
  have set: "cb_preChange (snd (vp_setting k d s)) = cb_preChange s" "cb_postChange (snd (vp_setting k d s)) = cb_postChange s" for k d s
    by (simp_all add: vp_setting_def case_prod_unfold Let_def)
  have rr: "cb_preChange (read_resolution e k f s) = cb_preChange s" "cb_postChange (read_resolution e k f s) = cb_postChange s"
    if "\<And>n t. cb_preChange (f n t) = cb_preChange t" "\<And>n t. cb_postChange (f n t) = cb_postChange t" for k f s
    using that set by (auto simp: read_resolution_def case_prod_unfold Let_def split: outcome.split)
  show ?thesis
    using assms
    by (simp add: VideoPort_Platform_init_def vp_getPersistenceValue_def vp_setAllCallbacks_def register_hdcp_def
        VideoPortRegisterVideoFormatUpdateCB_def vp_hal_def vp_log_def Let_def case_prod_unfold set rr)
qed

subsection \<open>Properties\<close>

text \<open>
  C14. A name is enough. After any history, a request for a resolution by a name that is in the
  tables reaches the platform with the complete row of that name, and not with the other fields
  the client sent; a row is one that some port type supports, and there is one per name. With a
  name that is in no table the fields of the client go on as they are.
\<close>

theorem resolution_by_name:
  assumes "vpc_run e client 0 cs (vpc_static v base) = Ret s"
    and "cache_types (vc_lib e) [vc_RF e ..vc_MAX e - 1] [] 0 = Ret (table, n)" and "r_name r \<noteq> []"
  shows "VideoPortImpl_call e (VcSetResolution h r p f) s
      = vpc_forward e (V_SetVideoPortResolution h (case find (\<lambda>c. rs_name c = r_name r) table of
            Some row \<Rightarrow> table_resolution e row | None \<Rightarrow> r) p f) (s\<lparr>cachedVideoPortResolutions := table\<rparr>)
    \<and> distinct (map rs_name table) \<and> (\<forall>row \<in> set table. supported_row (vc_lib e) [vc_RF e ..vc_MAX e - 1] row)"
proof -
  have "cache_ok e s" using vpc_inv_run [OF vpc_inv_static assms(1)] by (simp add: vpc_inv_def)
  from cache_resolutions_eq [OF this] assms(2,3) show ?thesis
    using cache_types_rows [OF assms(2)] by (auto simp: VPC_SetVideoPortResolution_def Let_def)
qed

text \<open>
  C22. The object keeps exact count of its clients. After any history each client has the references
  held outside and one more if it is registered, and none is left when the object is destroyed,
  whether or not the clients removed themselves.
\<close>

theorem video_port_clients_released:
  assumes "vpc_run e client 0 cs (vpc_static v base) = Ret s"
  shows "distinct (reg_members (VideoPortNotifications s))
     \<and> (\<forall>p. rg_refs (VideoPortNotifications s) p
           = base p + (if p \<in> set (reg_members (VideoPortNotifications s)) then 1 else 0))
     \<and> (vpc_live s = None \<longrightarrow> reg_members (VideoPortNotifications s) = [])"
  using vpc_inv_run [OF vpc_inv_static assms]
  by (simp add: vpc_inv_def reg_inv_def reg_members_def registered_map)

text \<open>
  C12. Events and objects, exactly, for any HAL whose tables are sound, also one that fails to
  start for a later object. A history of objects, requests, clients (which may register and remove
  objects from inside their callbacks), HAL reports and worker steps is undefined precisely if a
  worker runs a job submitted by an object that is gone, or an event is caused, by a report of the
  HAL or by a request, while the platform holds the callbacks of an object that is gone; otherwise
  it returns. If every \<open>dsVideoPortInit\<close> succeeds a living object has the callbacks, so that
  requests are safe and reports are while there is an object. If a second one fails, they are not:
  \<open>failed_start_runs_old_callbacks\<close>.
\<close>

theorem video_port_events_safe:
  assumes "vpc_tables_ok e" and "\<not> videoPort_isInitialized v"
  shows "(vpc_run e client 0 cs (vpc_static v base) = UB \<longleftrightarrow>
      (\<exists>as c bs t. cs = as @ c # bs \<and> vpc_run e client 0 as (vpc_static v base) = Ret t
         \<and> (c = VpWorker \<and> (\<exists>i w h js. vpc_jobs t = (i, w, h) # js \<and> vpc_live t \<noteq> Some i)
            \<or> (\<exists>rp. c = VpReport rp \<and> vpc_orphan t \<and> vpc_asked rp t
                 \<and> new_events (vpc_port t) (vpc_reported e rp (vpc_port t)) \<noteq> [])
            \<or> (\<exists>q r out u. c = VpRequest q \<and> vpc_live t \<noteq> None \<and> vpc_orphan t
                 \<and> VideoPortImpl_call e q t = Ret (r, out, u) \<and> new_events (vpc_port t) (vpc_port u) \<noteq> []))))
    \<and> (vpc_run e client 0 cs (vpc_static v base) = UB \<or> (\<exists>t. vpc_run e client 0 cs (vpc_static v base) = Ret t))
    \<and> ((\<forall>h. ve_ret (vc_vp e) h CInit = DsERR_NONE) \<longrightarrow>
         (\<forall>t. vpc_run e client 0 cs (vpc_static v base) = Ret t \<longrightarrow> vpc_orphan t \<longrightarrow> vpc_live t = None))"
proof -
  have "vpc_inv e base (vpc_static v base) \<and> vpc_tables_ok e" using assms(1) vpc_inv_static by simp
  note run = vpc.run_exact [OF this, of client 0 cs]
  have "vpc_stale e c t \<longleftrightarrow> c = VpWorker \<and> (\<exists>i w h js. vpc_jobs t = (i, w, h) # js \<and> vpc_live t \<noteq> Some i)
      \<or> (\<exists>rp. c = VpReport rp \<and> vpc_orphan t \<and> vpc_asked rp t
           \<and> new_events (vpc_port t) (vpc_reported e rp (vpc_port t)) \<noteq> [])
      \<or> (\<exists>q r out u. c = VpRequest q \<and> vpc_live t \<noteq> None \<and> vpc_orphan t
           \<and> VideoPortImpl_call e q t = Ret (r, out, u) \<and> new_events (vpc_port t) (vpc_port u) \<noteq> [])" for c t
    by (cases c) (auto simp: vpc_stale_def split: list.split)
  note exact = run [unfolded this]
  have "vpc_owned (vpc_static v base)" using assms(2) by (simp add: vpc_owned_def vpc_static_def)
  then have "vpc_orphan t \<longrightarrow> vpc_live t = None"
    if "\<forall>h. ve_ret (vc_vp e) h CInit = DsERR_NONE" "vpc_run e client 0 cs (vpc_static v base) = Ret t" for t
    using vpc_owned_run [OF _ vpc_inv_static _ that(2)] that(1) by (auto simp: vpc_owned_def vpc_orphan_def split: if_splits)
  then have own: "(\<forall>h. ve_ret (vc_vp e) h CInit = DsERR_NONE) \<longrightarrow>
      (\<forall>t. vpc_run e client 0 cs (vpc_static v base) = Ret t \<longrightarrow> vpc_orphan t \<longrightarrow> vpc_live t = None)" by simp
  have "vpc_run e client 0 cs (vpc_static v base) = UB \<or> (\<exists>t. vpc_run e client 0 cs (vpc_static v base) = Ret t)"
    using exact [THEN conjunct2] by (elim disjE exE conjE) simp_all
  with exact [THEN conjunct1] own show ?thesis by (intro conjI)
qed

text \<open>
  An object whose HAL does not start gets no callbacks: with the callbacks of the object before
  still in place, an accepted change of the resolution runs that object's.
\<close>

lemma failed_start_runs_old_callbacks:
  assumes "vpc_live s = None" and "\<not> videoPort_isPlatInitialized (vpc_port s)"
    and "ve_ret (vc_vp e) (vs_trace (vpc_port s)) CInit \<noteq> DsERR_NONE"
    and "vpc_owner s \<noteq> Some i" and "cb_preChange (vpc_port s)" and "cb_postChange (vpc_port s)" and "r_name r = []"
  defines "v \<equiv> vpc_port (VideoPort_create e i s)"
  assumes "resolvePortTypeByHandle (vc_vp e) h v = (Some ty, s1)" and "\<not> refused (vc_vp e) h r (vs_trace s1)"
    and "current_name (vc_vp e) h (vs_trace s1) \<noteq> Some (r_name (to_ds_resolution (vc_vp e) r))"
  shows "vpc_run e client i [VpCreate, VpRequest (VcSetResolution h r p f)] s = UB"
proof -
  let ?c = "VideoPort_create e i s"
  have fail: "vp_InitialiseHAL (vc_vp e) (vpc_port s) = vp_log CInit (vpc_port s)"
    using assms(2,3) by (simp add: vp_InitialiseHAL_def vp_hal_def)
  have cb: "cb_preChange (vp_getPersistenceValue e' x) = cb_preChange x"
      "cb_postChange (vp_getPersistenceValue e' x) = cb_postChange x" for e' x
    by (rule persistence_callbacks)+
  have plat: "\<not> videoPort_isPlatInitialized (vp_log CInit (vpc_port s))"
    "cb_preChange (vp_log CInit (vpc_port s))" "cb_postChange (vp_log CInit (vpc_port s))"
    using assms(2,5,6) by (simp_all add: vp_log_def)
  then have c: "vpc_live ?c = Some i" "vpc_owner ?c \<noteq> Some i" "cb_preChange v" "cb_postChange v"
    using assms(4) by (simp_all add: VideoPort_create_def Let_def fail v_def VideoPort_Platform_init_def
        vp_setAllCallbacks_def cb)
  obtain x y where xy: "resolution_size (r_pixel (to_ds_resolution (vc_vp e) r)) = (x, y)" by fastforce
  define w where "w = snd (snd (VideoPort_call (vc_vp e) True (V_SetVideoPortResolution h r p f) v))"
  have ev: "new_events v w = [PreChange x y, PostChange x y]"
    unfolding w_def using assms(9-11) c(3,4) xy by (rule resolution_events)
  have "\<exists>k out. VideoPortImpl_call e (VcSetResolution h r p f) ?c = Ret (k, out, ?c\<lparr>vpc_port := w\<rparr>)"
    using assms(7) by (simp add: VPC_SetVideoPortResolution_def vpc_forward_def v_def w_def Let_def case_prod_unfold)
  then obtain k out where call: "VideoPortImpl_call e (VcSetResolution h r p f) ?c = Ret (k, out, ?c\<lparr>vpc_port := w\<rparr>)"
    by blast
  have "vpc_deliver client (new_events (vpc_port ?c) w) (?c\<lparr>vpc_port := w\<rparr>) = UB"
    using deliver_wrong [of "?c\<lparr>vpc_port := w\<rparr>"] c(1,2) ev by (simp add: v_def)
  then show ?thesis using assms(1) c(1) call by (simp del: VideoPortImpl_call.simps)
qed


lemma workers_deliver:
  "vpc_inv e base s \<Longrightarrow> vpc_live s = Some o' \<Longrightarrow> \<forall>j \<in> set (vpc_jobs s). fst j = o' \<Longrightarrow>
     \<exists>t ms. vpc_run e client i (replicate (length (vpc_jobs s)) VpWorker) s = Ret t \<and> vpc_jobs t = []
       \<and> length ms = length (vpc_jobs s) \<and> (ms \<noteq> [] \<longrightarrow> hd ms = reg_members (VideoPortNotifications s))
       \<and> rg_calls (VideoPortNotifications t) = rg_calls (VideoPortNotifications s)
           @ concat (map2 (\<lambda>m j. map (\<lambda>p. (p, PostChange (fst (snd j)) (snd (snd j)))) m) ms (vpc_jobs s))"
proof (induction "vpc_jobs s" arbitrary: s i)
  case Nil
  then show ?case by (intro exI [of _ s] exI [of _ "[]"]) simp
next
  case (Cons j js)
  obtain w h where j: "j = (o', w, h)" using Cons.prems(3) Cons.hyps(2) [symmetric] by (cases j) auto
  have v: "vpc_inv e base (s\<lparr>vpc_jobs := js\<rparr>)" "vpc_live (s\<lparr>vpc_jobs := js\<rparr>) \<noteq> None"
    using Cons.prems by (simp_all add: vpc_inv_def cache_ok_def)
  from dispatch_vpc [OF v, of client "PostChange w h"] obtain u where
    u: "dispatchVideoPortEvent client (PostChange w h) (s\<lparr>vpc_jobs := js\<rparr>) = Ret u" "vpc_inv e base u"
      "vpc_live u = Some o'" "vpc_jobs u = js"
      "rg_calls (VideoPortNotifications u) = rg_calls (VideoPortNotifications s)
         @ map (\<lambda>p. (p, PostChange w h)) (reg_members (VideoPortNotifications s))"
    using Cons.prems(2) by auto
  have step: "vpc_do e client i VpWorker s = Ret u"
    using u(1) Cons.prems(2) Cons.hyps(2) [symmetric] j by (simp add: run_job_def)
  have "\<forall>j \<in> set (vpc_jobs u). fst j = o'" using Cons.prems(3) Cons.hyps(2) [symmetric] u(4) by auto
  from Cons.hyps(1) [OF u(4) [symmetric] u(2,3) this, of "Suc i"] obtain t ms where
    t: "vpc_run e client (Suc i) (replicate (length js) VpWorker) u = Ret t" "vpc_jobs t = []" "length ms = length js"
      "rg_calls (VideoPortNotifications t) = rg_calls (VideoPortNotifications u)
         @ concat (map2 (\<lambda>m j. map (\<lambda>p. (p, PostChange (fst (snd j)) (snd (snd j)))) m) ms js)"
    using u(4) by auto
  show ?case
    using step t u(5) Cons.hyps(2) [symmetric] j
    by (intro exI [of _ t] exI [of _ "reg_members (VideoPortNotifications s) # ms"]) simp
qed

text \<open>
  C19. The end of a change is announced, in order, if the object lives long enough. In every state a
  history reaches with an object alive and every waiting job its own (a job of an object that is gone
  is undefined, see \<open>video_port_events_safe\<close>), as many worker steps as there
  are jobs deliver all of them, in the order they were submitted, each to the clients registered at
  its turn (for the first: now).
\<close>

theorem post_changes_delivered:
  assumes "vpc_run e client 0 cs (vpc_static v base) = Ret s"
    and "vpc_live s = Some o'" and "\<forall>j \<in> set (vpc_jobs s). fst j = o'"
  shows "\<exists>t ms. vpc_run e client 0 (cs @ replicate (length (vpc_jobs s)) VpWorker) (vpc_static v base) = Ret t
       \<and> vpc_jobs t = [] \<and> length ms = length (vpc_jobs s) \<and> (ms \<noteq> [] \<longrightarrow> hd ms = reg_members (VideoPortNotifications s))
       \<and> rg_calls (VideoPortNotifications t) = rg_calls (VideoPortNotifications s)
           @ concat (map2 (\<lambda>m j. map (\<lambda>p. (p, PostChange (fst (snd j)) (snd (snd j)))) m) ms (vpc_jobs s))"
proof -
  from workers_deliver [OF vpc_inv_run [OF vpc_inv_static assms(1)] assms(2,3), of client "0 + length cs"] assms(1)
  show ?thesis by (simp add: vpc_run_append)
qed

subsection \<open>Witnesses\<close>

text \<open>The board of the video port examples with the example tables; one client, the object 5.\<close>

definition vpc_sample :: vpc_env where
  "vpc_sample = \<lparr>vc_vp = ex_vp True, vc_lib = Some dsp_lib, vc_pixel = (\<lambda>_. PX_1920x1080), vc_aspect = (\<lambda>_. ASPECT_16x9),
     vc_stereo = (\<lambda>_. SSMODE_2D), vc_frame = (\<lambda>_. FR_60), vc_RF = 6, vc_MAX = 8\<rparr>"

definition vpc_sample_start :: vpc_state where
  "vpc_sample_start = vpc_static (vp_static (ex_vp True) (hp_new ''f'' Map.empty) None) (\<lambda>_. 1)"

abbreviation quiet_client :: "ptr \<Rightarrow> vpc_event \<Rightarrow> reg_op list" where
  "quiet_client \<equiv> \<lambda>_ _. []"

lemma sample_table:
  "cache_types (vc_lib vpc_sample) [vc_RF vpc_sample..vc_MAX vpc_sample - 1] [] 0
     = Ret ([cfg_named ''720p'', cfg_named ''1080p''], 0)"
  "vpc_tables_ok vpc_sample"
proof -
  have p: "PopulateVideoPortResolutionConfig t (Some dsp_lib) n = (copy_resolutions t dsp_lib, n)" for t n
    by (simp add: populate_tables populate_eq exports_def dsp_lib_def)
  have c: "copy_resolutions t dsp_lib = Ret (if t = 6 then [cfg_named ''720p'', cfg_named ''1080p''] else [])" for t
    by (simp add: copy_resolutions_def c_read_def dsp_lib_def supported_names_def cfg_named_def)
  have "[6..7] = [6, 7 :: int]" by (simp add: upto.simps)
  then show "cache_types (vc_lib vpc_sample) [vc_RF vpc_sample..vc_MAX vpc_sample - 1] [] 0
     = Ret ([cfg_named ''720p'', cfg_named ''1080p''], 0)"
    by (simp add: vpc_sample_def p c cache_rows_def cfg_named_def)
  show "vpc_tables_ok vpc_sample" by (simp add: vpc_tables_ok_def vpc_sample_def p c)
qed

theorem resolution_by_name_witness:
  "VideoPortImpl_call vpc_sample (VcSetResolution 7 (ex_res ''1080p'' PX_720x480) True False) vpc_sample_start
      = vpc_forward vpc_sample (V_SetVideoPortResolution 7 (table_resolution vpc_sample (cfg_named ''1080p'')) True False)
          (vpc_sample_start\<lparr>cachedVideoPortResolutions := [cfg_named ''720p'', cfg_named ''1080p'']\<rparr>)"
proof -
  have "vpc_run vpc_sample quiet_client 0 [] vpc_sample_start = Ret vpc_sample_start" by simp
  from resolution_by_name [OF this [unfolded vpc_sample_start_def] sample_table(1),
      of "ex_res ''1080p'' PX_720x480" 7 True False]
  show ?thesis by (simp add: ex_res_def cfg_named_def vpc_sample_start_def del: VideoPortImpl_call.simps)
qed

theorem video_port_clients_released_witness:
  "\<exists>s. vpc_run vpc_sample quiet_client 0 [VpCreate, VpClient (OpRegister ''app'' 5), VpDestroy] vpc_sample_start = Ret s
     \<and> rg_refs (VideoPortNotifications s) 5 = 1"
proof -
  let ?cs = "[VpCreate, VpClient (OpRegister ''app'' 5), VpDestroy]"
  have "\<exists>s. vpc_run vpc_sample quiet_client 0 ?cs vpc_sample_start = Ret s \<and> vpc_live s = None"
    by (simp add: vpc_sample_start_def vpc_static_def VideoPort_create_def VideoPort_destroy_def Register_def AddRef_def
        Release_def registered_def reg_empty_def Let_def)
  then obtain s where s: "vpc_run vpc_sample quiet_client 0 ?cs vpc_sample_start = Ret s" "vpc_live s = None" by blast
  from video_port_clients_released [OF s(1) [unfolded vpc_sample_start_def]] s show ?thesis
    by (intro exI [of _ s]) simp
qed


text \<open>One change of the resolution, asked for by name: its beginning is announced, its end waits.\<close>

definition sample_change :: "vpc_op list" where
  "sample_change = [VpCreate, VpClient (OpRegister ''app'' 5), VpRequest (VcSetResolution 7 (ex_res ''1080p'' PX_720x480) False False)]"

lemma sample_change_runs:
  "\<exists>s. vpc_run vpc_sample quiet_client 0 sample_change vpc_sample_start = Ret s \<and> vpc_jobs s = [(0, 1920, 1080)]
     \<and> vpc_live s = Some 0 \<and> reg_members (VideoPortNotifications s) = [5]"
proof -
  let ?e = "ex_vp True" and ?r = "table_resolution vpc_sample (cfg_named ''1080p'')"
  have e: "vc_vp vpc_sample = ?e" by (simp add: vpc_sample_def)
  define v where "v = VideoPort_Platform_init ?e True (vp_InitialiseHAL ?e (vpc_port vpc_sample_start))"
  have init: "ve_ret ?e h CInit = DsERR_NONE" for h by (simp add: ex_vp_def)
  have n: "\<not> videoPort_isInitialized (vpc_port vpc_sample_start)"
    by (simp add: vpc_sample_start_def vpc_static_def vp_static_def)
  have cb: "cb_preChange v" "cb_postChange v"
    using platform_init_callbacks [of "vp_InitialiseHAL ?e (vpc_port vpc_sample_start)" ?e] flag_start init n
    by (simp_all add: v_def)
  define s1 where "s1 = VideoPort_create vpc_sample 0 vpc_sample_start"
  define s2 where "s2 = s1\<lparr>VideoPortNotifications := snd (Register ''app'' 5 (VideoPortNotifications s1))\<rparr>"
  have s1: "vpc_port s1 = v" "vpc_live s1 = Some 0" "vpc_owner s1 = Some 0" "vpc_jobs s1 = []"
      "VideoPortNotifications s1 = reg_empty (\<lambda>_. 1)" "cachedVideoPortResolutions s1 = []"
    using flag_start init n
    by (simp_all add: s1_def VideoPort_create_def Let_def e v_def) (simp_all add: vpc_sample_start_def vpc_static_def)
  have inv1: "vpc_inv vpc_sample (\<lambda>_. 1) s1" unfolding s1_def vpc_sample_start_def
    by (rule create_vpc [OF vpc_inv_static]) (simp add: vpc_static_def)
  have inv2: "vpc_inv vpc_sample (\<lambda>_. 1) s2"
    using inv1 s1(2) by (auto simp: s2_def vpc_inv_def reg_inv_Register cache_ok_def)
  then have ok2: "cache_ok vpc_sample s2" by (simp add: vpc_inv_def)
  let ?s3 = "s2\<lparr>cachedVideoPortResolutions := [cfg_named ''720p'', cfg_named ''1080p'']\<rparr>"
  let ?w = "snd (snd (VideoPort_call ?e True (V_SetVideoPortResolution 7 ?r False False) v))"
  have set: "VideoPortImpl_call vpc_sample (VcSetResolution 7 (ex_res ''1080p'' PX_720x480) False False) s2
      = vpc_forward vpc_sample (V_SetVideoPortResolution 7 ?r False False) ?s3"
    using sample_table
    by (simp add: VPC_SetVideoPortResolution_def cache_resolutions_eq [OF ok2] ex_res_def cfg_named_def Let_def)
  have fwd: "\<exists>r out. vpc_forward vpc_sample (V_SetVideoPortResolution 7 ?r False False) ?s3 = Ret (r, out, ?s3\<lparr>vpc_port := ?w\<rparr>)"
    using s1 by (simp add: vpc_forward_def e Let_def case_prod_unfold s2_def)
  have row: "?r = ex_res ''1080p'' PX_1920x1080" by (simp add: table_resolution_def cfg_named_def vpc_sample_def ex_res_def)
  have d: "to_ds_resolution ?e ?r = ?r" by (simp add: row to_ds_resolution_def ex_vp_def ex_res_def c_str_def)
  have "\<not> refused ?e 7 ?r t" and "current_name ?e 7 t \<noteq> Some (r_name ?r)" for t
    by (simp_all add: refused_def says_def current_name_def row ex_vp_def ex_res_def Let_def)
  then have ev: "new_events v ?w = [PreChange 1920 1080, PostChange 1920 1080]"
    using resolution_events [OF resolve_hdmi [OF ex_hdmi_at [of True], of v], of ?r 1920 1080 False False] cb
    by (simp add: d) (simp add: row ex_res_def)
  let ?s4 = "?s3\<lparr>vpc_port := ?w\<rparr>"
  have same: "vpc_same s2 ?s4" by (simp add: vpc_same_def)
  have inv4: "vpc_inv vpc_sample (\<lambda>_. 1) ?s4"
  proof -
    have "cache_ok vpc_sample ?s4" using sample_table(1) by (auto simp: cache_ok_def)
    then show ?thesis by (rule vpc_inv_same [OF inv2 same])
  qed
  have live: "vpc_live ?s4 = Some 0" "vpc_owner ?s4 = Some 0" "vpc_jobs ?s4 = []" using s1 by (simp_all add: s2_def)
  obtain g where g: "dispatchEvent quiet_client (PreChange 1920 1080) (VideoPortNotifications s2) = Ret g" "reg_members g = [5]"
    by (simp add: s2_def s1 dispatchEvent_def Register_def AddRef_def Release_def registered_def reg_empty_def reg_members_def)
  have "vpc_deliver quiet_client (new_events v ?w) ?s4 = Ret (?s4\<lparr>VideoPortNotifications := g, vpc_jobs := [(0, 1920, 1080)]\<rparr>)"
    using g(1) live unfolding ev by (simp add: vpc_notify_def dispatchVideoPortEvent_def submitVideoPortEvent_def)
  moreover have "vpc_run vpc_sample quiet_client 0 sample_change vpc_sample_start
      = vpc_deliver quiet_client (new_events v ?w) ?s4"
  proof -
    have a: "vpc_do vpc_sample quiet_client 0 VpCreate vpc_sample_start = Ret s1"
      by (simp add: s1_def) (simp add: vpc_sample_start_def vpc_static_def)
    have b: "vpc_do vpc_sample quiet_client (Suc 0) (VpClient (OpRegister ''app'' 5)) s1 = Ret s2"
      using s1(2) by (simp add: s2_def)
    from fwd obtain r out where "VideoPortImpl_call vpc_sample (VcSetResolution 7 (ex_res ''1080p'' PX_720x480) False False) s2
        = Ret (r, out, ?s4)" unfolding set by blast
    then have "vpc_do vpc_sample quiet_client k (VpRequest (VcSetResolution 7 (ex_res ''1080p'' PX_720x480) False False)) s2
        = vpc_deliver quiet_client (new_events v ?w) ?s4" for k
      using s1 by (simp add: s2_def del: VideoPortImpl_call.simps)
    then show ?thesis using a b
      by (simp add: sample_change_def del: vpc_do.simps) (cases "vpc_deliver quiet_client (new_events v ?w) ?s4"; simp)
  qed
  ultimately show ?thesis using g(2) live by simp
qed

theorem post_changes_delivered_witness:
  "\<exists>s t. vpc_run vpc_sample quiet_client 0 sample_change vpc_sample_start = Ret s
     \<and> vpc_run vpc_sample quiet_client 0 (sample_change @ [VpWorker]) vpc_sample_start = Ret t \<and> vpc_jobs t = []
     \<and> rg_calls (VideoPortNotifications t) = rg_calls (VideoPortNotifications s) @ [(5, PostChange 1920 1080)]"
proof -
  from sample_change_runs obtain s where s: "vpc_run vpc_sample quiet_client 0 sample_change vpc_sample_start = Ret s"
    "vpc_jobs s = [(0, 1920, 1080)]" "vpc_live s = Some 0" "reg_members (VideoPortNotifications s) = [5]" by blast
  have j: "\<forall>j \<in> set (vpc_jobs s). fst j = 0" using s(2) by simp
  have r: "replicate (length (vpc_jobs s)) VpWorker = [VpWorker]" using s(2) by simp
  from post_changes_delivered [OF s(1) [unfolded vpc_sample_start_def] s(3) j, unfolded r, unfolded s(2) s(4),
      folded vpc_sample_start_def]
  obtain t ms where
    t: "vpc_run vpc_sample quiet_client 0 (sample_change @ [VpWorker]) vpc_sample_start = Ret t" "vpc_jobs t = []"
      "length ms = length [(0 :: nat, 1920 :: int, 1080 :: int)]" "ms \<noteq> [] \<longrightarrow> hd ms = [5]"
      "rg_calls (VideoPortNotifications t) = rg_calls (VideoPortNotifications s)
         @ concat (map2 (\<lambda>m j. map (\<lambda>p. (p, PostChange (fst (snd j)) (snd (snd j)))) m) ms [(0 :: nat, 1920, 1080)])"
    by (elim exE conjE) (rule that)
  then have "ms = [[5]]" by (cases ms) auto
  with s t show ?thesis by auto
qed

theorem video_port_events_safe_witness:
  "vpc_run vpc_sample quiet_client 0 (sample_change @ [VpDestroy, VpWorker]) vpc_sample_start = UB"
proof -
  from sample_change_runs obtain s where s: "vpc_run vpc_sample quiet_client 0 sample_change vpc_sample_start = Ret s"
    "vpc_jobs s = [(0, 1920, 1080)]" "vpc_live s = Some 0" by blast
  have inv: "vpc_inv vpc_sample (\<lambda>_. 1) s"
    using vpc_inv_run [OF vpc_inv_static s(1) [unfolded vpc_sample_start_def]] .
  from destroy_vpc [OF inv] obtain t where
    t: "VideoPort_destroy vpc_sample s = Ret t" "vpc_live t = None" "vpc_jobs t = [(0, 1920, 1080)]" using s by auto
  have "vpc_run vpc_sample quiet_client 0 (sample_change @ [VpDestroy]) vpc_sample_start = Ret t"
    using s t by (simp add: vpc_run_append)
  then have bad: "\<exists>as c bs t. sample_change @ [VpDestroy, VpWorker] = as @ c # bs
      \<and> vpc_run vpc_sample quiet_client 0 as vpc_sample_start = Ret t
      \<and> (c = VpWorker \<and> (\<exists>i w h js. vpc_jobs t = (i, w, h) # js \<and> vpc_live t \<noteq> Some i)
         \<or> (\<exists>rp. c = VpReport rp \<and> vpc_orphan t \<and> vpc_asked rp t
              \<and> new_events (vpc_port t) (vpc_reported vpc_sample rp (vpc_port t)) \<noteq> [])
         \<or> (\<exists>q r out u. c = VpRequest q \<and> vpc_live t \<noteq> None \<and> vpc_orphan t
              \<and> VideoPortImpl_call vpc_sample q t = Ret (r, out, u) \<and> new_events (vpc_port t) (vpc_port u) \<noteq> []))"
    using t by (intro exI [of _ "sample_change @ [VpDestroy]"] exI [of _ VpWorker] exI [of _ "[]"] exI [of _ t]) simp
  from video_port_events_safe [OF sample_table(2), of "vp_static (ex_vp True) (hp_new ''f'' Map.empty) None" quiet_client
      "sample_change @ [VpDestroy, VpWorker]" "\<lambda>_. 1"] bad
  show ?thesis unfolding vpc_sample_start_def by (simp add: vp_static_def)
qed

end
