(* ===== verification/Front_Panel.thy ===== *)
theory Front_Panel
  imports Host_Persistence "HOL-Library.Word"
begin

section \<open>The front panel (\<open>dFPDImpl\<close>, \<open>FPD\<close>, \<open>DeviceSettingsFPDImpl\<close>)\<close>

text \<open>
  Models \<open>hal/dFPDImpl.h\<close> (the platform layer over the HAL functions \<open>dsFPInit\<close>,
  \<open>dsSetFPBrightness\<close>, ...), \<open>fpd.cpp\<close> (which forwards to the platform object) and
  \<open>DeviceSettingsFPDImplementation.cpp\<close> (which normalises the result code). The file-scope
  variables and the persistent store are one record; every HAL call is appended to
  \<open>fp_trace\<close>. The HAL is a function of the calls made so far, so it may be any stateful
  library; its constants are the fields of \<open>fpd_consts\<close>. Indicators and states arrive as
  the integers the code casts them to; colours and API brightness values are 32-bit words.
\<close>

unbundle bit_operations_syntax

subsection \<open>Constants, calls and state\<close>

record fpd_consts =
  INDICATOR_MESSAGE :: int
  INDICATOR_POWER :: int
  INDICATOR_MAX :: int
  BRIGHTNESS_MAX :: int
  BRIGHTNESS_DEFAULT :: int
  COLOR_BLUE :: "32 word"
  COLOR_GREEN :: "32 word"
  COLOR_RED :: "32 word"
  COLOR_YELLOW :: "32 word"
  COLOR_ORANGE :: "32 word"
  STATE_OFF :: int
  STATE_ON :: int
  color_isValid :: "32 word \<Rightarrow> bool"

datatype fpd_call =
    dsFPInit
  | dsFPTerm
  | dsSetFPBrightness int int
  | dsGetFPBrightness int
  | dsSetFPColor int "32 word"
  | dsGetFPColor int
  | dsSetFPDMode int

text \<open>A HAL reply: the error code, and the value written to the out parameter if any.\<close>

type_synonym fpd_hal = "fpd_call list \<Rightarrow> fpd_call \<Rightarrow> dsError \<times> int option"

record fpd_env =
  fe_hal :: fpd_hal
  fe_io :: host_io

record fpd_setting =
  fs_brightness :: int
  fs_state :: int
  fs_color :: "32 word"

record fpd_state =
  fpd_isInitialized :: bool
  fpd_isPlatInitialized :: bool
  srvFPDSettings :: "fpd_setting list"
  dsPowerBrightness :: int
  dsTextBrightness :: int
  dsPowerLedColor :: "32 word"
  fp_store :: host_store
  fp_trace :: "fpd_call list"

text \<open>The static variables when the plugin library is loaded.\<close>

definition fpd_static :: "fpd_consts \<Rightarrow> host_store \<Rightarrow> fpd_state" where
  "fpd_static c st = \<lparr>fpd_isInitialized = False, fpd_isPlatInitialized = False,
     srvFPDSettings = replicate (nat (INDICATOR_MAX c)) \<lparr>fs_brightness = 0, fs_state = 0, fs_color = 0\<rparr>,
     dsPowerBrightness = BRIGHTNESS_MAX c, dsTextBrightness = BRIGHTNESS_MAX c,
     dsPowerLedColor = COLOR_BLUE c, fp_store = st, fp_trace = []\<rparr>"

definition fpd_InitialiseHAL :: "fpd_consts \<Rightarrow> fpd_state \<Rightarrow> fpd_state" where
  "fpd_InitialiseHAL c s = (if fpd_isInitialized s then s
     else s\<lparr>srvFPDSettings := map (\<lambda>i. if INDICATOR_MESSAGE c \<le> int i
                then \<lparr>fs_brightness = BRIGHTNESS_MAX c, fs_state = STATE_OFF c, fs_color = COLOR_BLUE c\<rparr>
                else srvFPDSettings s ! i) [0..<length (srvFPDSettings s)],
            fpd_isInitialized := True\<rparr>)"

definition fpd_call_hal :: "fpd_env \<Rightarrow> fpd_call \<Rightarrow> fpd_state \<Rightarrow> (dsError \<times> int option) \<times> fpd_state" where
  "fpd_call_hal e call s = (fe_hal e (fp_trace s) call, s\<lparr>fp_trace := fp_trace s @ [call]\<rparr>)"

definition fpd_DeInitialiseHAL :: "fpd_env \<Rightarrow> fpd_state \<Rightarrow> fpd_state" where
  "fpd_DeInitialiseHAL e s =
     (let s1 = (if fpd_isPlatInitialized s
                then (snd (fpd_call_hal e dsFPTerm s))\<lparr>fpd_isPlatInitialized := False\<rparr> else s)
      in s1\<lparr>fpd_isInitialized := False\<rparr>)"

subsection \<open>Deferred initialisation\<close>

text \<open>The \<open>do ... while\<close> of \<open>EnsurePlatInit\<close>; \<open>retryCount\<close> is the number of the attempt.\<close>

function fpd_init_loop :: "fpd_env \<Rightarrow> nat \<Rightarrow> fpd_state \<Rightarrow> fpd_state" where
  "fpd_init_loop e retryCount s =
     (let r = fpd_call_hal e dsFPInit s;
          s1 = (if fst (fst r) = DsERR_NONE then (snd r)\<lparr>fpd_isPlatInitialized := True\<rparr> else snd r)
      in if \<not> fpd_isPlatInitialized s1 \<and> retryCount < 20
         then fpd_init_loop e (retryCount + 1) s1 else s1)"
  by pat_completeness auto
termination
  by (relation "measure (\<lambda>(e, n, s). 20 - n)") auto

declare fpd_init_loop.simps [simp del]

text \<open>A stored value, or the default, which is then stored: the \<open>try\<close>/\<open>catch\<close> blocks.\<close>

definition fpd_read_brightness ::
  "fpd_env \<Rightarrow> int \<Rightarrow> string \<Rightarrow> host_store \<Rightarrow> string outcome \<times> host_store" where
  "fpd_read_brightness e maxBrightness key st = (case getProperty key st of
       (Ret v, st1) \<Rightarrow> (Ret v, st1)
     | (_, st1) \<Rightarrow> (let value = to_string maxBrightness in
          case persistHostProperty (fe_io e) key value st1 of
            (Ret _, st2) \<Rightarrow> (Ret value, st2)
          | (Throw x, st2) \<Rightarrow> (Throw x, st2)
          | (UB, st2) \<Rightarrow> (UB, st2)))"

definition fpd_clamp :: "fpd_consts \<Rightarrow> int \<Rightarrow> int" where
  "fpd_clamp c b = (if BRIGHTNESS_DEFAULT c \<noteq> BRIGHTNESS_MAX c \<and> b = BRIGHTNESS_MAX c
     then BRIGHTNESS_DEFAULT c else b)"

definition color_of_name :: "fpd_consts \<Rightarrow> string \<Rightarrow> 32 word" where
  "color_of_name c n =
     (if n = ''GREEN'' then COLOR_GREEN c
      else if n = ''RED'' then COLOR_RED c
      else if n = ''YELLOW'' then COLOR_YELLOW c
      else if n = ''ORANGE'' then COLOR_ORANGE c
      else COLOR_BLUE c)"

text \<open>The block that reads the persisted settings; an exception leaves it early.\<close>

definition fpd_load_persisted :: "fpd_consts \<Rightarrow> fpd_env \<Rightarrow> fpd_state \<Rightarrow> fpd_state" where
  "fpd_load_persisted c e s =
     (case fpd_read_brightness e (BRIGHTNESS_DEFAULT c) ''Power.brightness'' (fp_store s) of
        (Ret v, st1) \<Rightarrow>
          (let s1 = s\<lparr>fp_store := st1, dsPowerBrightness := atoi v\<rparr> in
           case fpd_read_brightness e (BRIGHTNESS_DEFAULT c) ''Text.brightness'' st1 of
             (Ret w, st2) \<Rightarrow>
               (let g = getProperty ''Power.Color'' st2;
                    colorStr = (case fst g of Ret x \<Rightarrow> x | _ \<Rightarrow> ''BLUE'')
                in s1\<lparr>fp_store := snd g,
                      dsPowerBrightness := fpd_clamp c (dsPowerBrightness s1),
                      dsTextBrightness := fpd_clamp c (atoi w),
                      dsPowerLedColor := color_of_name c colorStr\<rparr>)
           | (_, st2) \<Rightarrow> s1\<lparr>fp_store := st2\<rparr>)
      | (_, st1) \<Rightarrow> s\<lparr>fp_store := st1\<rparr>)"

definition EnsurePlatInit :: "fpd_consts \<Rightarrow> fpd_env \<Rightarrow> fpd_state \<Rightarrow> bool \<times> fpd_state" where
  "EnsurePlatInit c e s =
     (if fpd_isPlatInitialized s then (True, s)
      else let s1 = fpd_init_loop e 1 s
           in if \<not> fpd_isPlatInitialized s1 then (False, s1)
              else (True, fpd_load_persisted c e s1))"

subsection \<open>The platform operations\<close>

text \<open>A result: the error code, the out parameter if it was written, and the new state.\<close>

type_synonym fpd_result = "(coreErr \<times> int option \<times> fpd_state) outcome"

definition fpd_array_put ::
  "int \<Rightarrow> (fpd_setting \<Rightarrow> fpd_setting) \<Rightarrow> fpd_state \<Rightarrow> fpd_state outcome" where
  "fpd_array_put i f s =
     (if 0 \<le> i \<and> nat i < length (srvFPDSettings s)
      then Ret (s\<lparr>srvFPDSettings := (srvFPDSettings s)[nat i := f (srvFPDSettings s ! nat i)]\<rparr>)
      else UB)"

fun ret_none :: "fpd_state outcome \<Rightarrow> int option \<Rightarrow> fpd_result" where
  "ret_none (Ret s) v = Ret (ERROR_NONE, v, s)"
| "ret_none (Throw x) v = Throw x"
| "ret_none UB v = UB"

definition fpd_persist :: "fpd_env \<Rightarrow> string \<Rightarrow> string \<Rightarrow> fpd_state \<Rightarrow> fpd_state" where
  "fpd_persist e k v s = s\<lparr>fp_store := snd (persistHostProperty (fe_io e) k v (fp_store s))\<rparr>"

definition SetFPDBrightness ::
  "fpd_consts \<Rightarrow> fpd_env \<Rightarrow> int \<Rightarrow> 32 word \<Rightarrow> bool \<Rightarrow> fpd_state \<Rightarrow> fpd_result" where
  "SetFPDBrightness c e indicator brightNess persist s =
     (let (ok, s1) = EnsurePlatInit c e s in
      if \<not> ok then Ret (ERROR_GENERAL, None, s1)
      else if indicator < INDICATOR_MAX c \<and> uint brightNess \<le> BRIGHTNESS_MAX c then
        (let (r, s2) = fpd_call_hal e (dsSetFPBrightness indicator (uint brightNess)) s1 in
         if fst r = DsERR_NONE then
           (case fpd_array_put indicator (\<lambda>x. x\<lparr>fs_brightness := uint brightNess\<rparr>) s2 of
              Ret s3 \<Rightarrow>
                (if indicator = INDICATOR_POWER c \<and> persist
                 then let s4 = s3\<lparr>dsPowerBrightness := uint brightNess\<rparr>
                      in Ret (ERROR_NONE, None,
                           fpd_persist e ''Power.brightness'' (to_string (dsPowerBrightness s4)) s4)
                 else Ret (ERROR_NONE, None, s3))
            | Throw x \<Rightarrow> Throw x
            | UB \<Rightarrow> UB)
         else Ret (ERROR_GENERAL, None, s2))
      else Ret (ERROR_GENERAL, None, s1))"

definition GetFPDBrightness ::
  "fpd_consts \<Rightarrow> fpd_env \<Rightarrow> int \<Rightarrow> bool \<Rightarrow> fpd_state \<Rightarrow> fpd_result" where
  "GetFPDBrightness c e indicator persist s =
     (let (ok, s1) = EnsurePlatInit c e s in
      if \<not> ok then Ret (ERROR_GENERAL, None, s1)
      else if indicator < INDICATOR_MAX c then
        (let (r, s2) = fpd_call_hal e (dsGetFPBrightness indicator) s1;
             halBrightness = (case snd r of Some b \<Rightarrow> b | None \<Rightarrow> 0);
             b = (if persist then dsPowerBrightness s2 else halBrightness)
         in Ret (ERROR_NONE, Some (uint (word_of_int b :: 32 word)), s2))
      else Ret (ERROR_GENERAL, None, s1))"

definition SetFPDState :: "fpd_consts \<Rightarrow> fpd_env \<Rightarrow> int \<Rightarrow> int \<Rightarrow> fpd_state \<Rightarrow> fpd_result" where
  "SetFPDState c e indicator state s =
     (let (ok, s1) = EnsurePlatInit c e s in
      if \<not> ok then Ret (ERROR_GENERAL, None, s1)
      else if indicator < INDICATOR_MAX c then
        (let (eError, s2) =
           (if state = STATE_ON c then
              (let (r, s') = fpd_call_hal e (dsSetFPBrightness indicator (dsPowerBrightness s1)) s1
               in (fst r, s'))
            else if state = STATE_OFF c then
              (let (r, s') = fpd_call_hal e (dsSetFPBrightness indicator 0) s1 in (fst r, s'))
            else (DsERR_NONE, s1))
         in if eError = DsERR_NONE
            then ret_none (fpd_array_put indicator (\<lambda>x. x\<lparr>fs_state := state\<rparr>) s2) None
            else Ret (ERROR_GENERAL, None, s2))
      else Ret (ERROR_GENERAL, None, s1))"

definition GetFPDState :: "fpd_consts \<Rightarrow> fpd_env \<Rightarrow> int \<Rightarrow> fpd_state \<Rightarrow> fpd_result" where
  "GetFPDState c e indicator s =
     (let (ok, s1) = EnsurePlatInit c e s in
      if \<not> ok then Ret (ERROR_GENERAL, None, s1)
      else if indicator < INDICATOR_MAX c then
        (if 0 \<le> indicator \<and> nat indicator < length (srvFPDSettings s1)
         then Ret (ERROR_NONE, Some (fs_state (srvFPDSettings s1 ! nat indicator)), s1)
         else UB)
      else Ret (ERROR_GENERAL, None, s1))"

definition GetFPDColor :: "fpd_consts \<Rightarrow> fpd_env \<Rightarrow> int \<Rightarrow> fpd_state \<Rightarrow> fpd_result" where
  "GetFPDColor c e indicator s =
     (let (ok, s1) = EnsurePlatInit c e s in
      if \<not> ok then Ret (ERROR_GENERAL, None, s1)
      else if indicator < INDICATOR_MAX c then
        (let (r, s2) = fpd_call_hal e (dsGetFPColor indicator) s1;
             halColor = (case snd r of Some x \<Rightarrow> word_of_int x | None \<Rightarrow> (0 :: 32 word))
         in if fst r = DsERR_NONE
            then ret_none (fpd_array_put indicator (\<lambda>x. x\<lparr>fs_color := halColor\<rparr>) s2)
                   (Some (uint halColor))
            else if 0 \<le> indicator \<and> nat indicator < length (srvFPDSettings s2)
            then Ret (ERROR_NONE, Some (uint (fs_color (srvFPDSettings s2 ! nat indicator))), s2)
            else UB)
      else Ret (ERROR_GENERAL, None, s1))"

definition color_name :: "fpd_consts \<Rightarrow> 32 word \<Rightarrow> string" where
  "color_name c x =
     (if x = COLOR_GREEN c then ''GREEN''
      else if x = COLOR_RED c then ''RED''
      else if x = COLOR_YELLOW c then ''YELLOW''
      else if x = COLOR_ORANGE c then ''RED''
      else ''BLUE'')"

definition SetFPDColor ::
  "fpd_consts \<Rightarrow> fpd_env \<Rightarrow> int \<Rightarrow> 32 word \<Rightarrow> fpd_state \<Rightarrow> fpd_result" where
  "SetFPDColor c e indicator color s =
     (let (ok, s1) = EnsurePlatInit c e s in
      if \<not> ok then Ret (ERROR_GENERAL, None, s1)
      else if indicator < INDICATOR_MAX c \<and> color_isValid c color then
        (let (r, s2) = fpd_call_hal e (dsSetFPColor indicator color) s1 in
         if fst r = DsERR_NONE then
           (let maskedColor = color AND 0x00FFFFFF in
            case fpd_array_put indicator (\<lambda>x. x\<lparr>fs_color := maskedColor\<rparr>) s2 of
              Ret s3 \<Rightarrow>
                (if indicator = INDICATOR_POWER c
                 then let s4 = s3\<lparr>dsPowerLedColor := maskedColor\<rparr>
                      in Ret (ERROR_NONE, None,
                           fpd_persist e ''Power.Color'' (color_name c (dsPowerLedColor s4)) s4)
                 else Ret (ERROR_NONE, None, s3))
            | Throw x \<Rightarrow> Throw x
            | UB \<Rightarrow> UB)
         else Ret (ERROR_GENERAL, None, s2))
      else Ret (ERROR_GENERAL, None, s1))"

definition SetFPDMode :: "fpd_env \<Rightarrow> int \<Rightarrow> fpd_state \<Rightarrow> fpd_result" where
  "SetFPDMode e fpdMode s =
     (let (r, s1) = fpd_call_hal e (dsSetFPDMode fpdMode) s in
      Ret (if fst r = DsERR_NONE then ERROR_NONE else ERROR_GENERAL, None, s1))"

subsection \<open>The layers above: \<open>fpd.cpp\<close> and the COM implementation\<close>

datatype fpd_deprecated = DepTime | DepScroll | DepBlink | DepSetText | DepGetText | DepClock
  | DepGetTimeFormat | DepSetTimeFormat

datatype fpd_request =
    ReqSetBrightness int "32 word" bool
  | ReqGetBrightness int bool
  | ReqSetState int int
  | ReqGetState int
  | ReqGetColor int
  | ReqSetColor int "32 word"
  | ReqSetMode int
  | ReqDeprecated fpd_deprecated

definition platform_deprecated :: "fpd_deprecated \<Rightarrow> fpd_state \<Rightarrow> fpd_result" where
  "platform_deprecated d s = Ret (ERROR_GENERAL, None, s)"

fun platform_call :: "fpd_consts \<Rightarrow> fpd_env \<Rightarrow> fpd_request \<Rightarrow> fpd_state \<Rightarrow> fpd_result" where
  "platform_call c e (ReqSetBrightness i b p) s = SetFPDBrightness c e i b p s"
| "platform_call c e (ReqGetBrightness i p) s = GetFPDBrightness c e i p s"
| "platform_call c e (ReqSetState i x) s = SetFPDState c e i x s"
| "platform_call c e (ReqGetState i) s = GetFPDState c e i s"
| "platform_call c e (ReqGetColor i) s = GetFPDColor c e i s"
| "platform_call c e (ReqSetColor i x) s = SetFPDColor c e i x s"
| "platform_call c e (ReqSetMode m) s = SetFPDMode e m s"
| "platform_call c e (ReqDeprecated d) s = platform_deprecated d s"

text \<open>\<open>fpd.cpp\<close>: every method calls the platform object if there is one.\<close>

definition FPD_call :: "bool \<Rightarrow> fpd_consts \<Rightarrow> fpd_env \<Rightarrow> fpd_request \<Rightarrow> fpd_state \<Rightarrow> fpd_result" where
  "FPD_call platform c e req s =
     (if platform then platform_call c e req s else Ret (ERROR_GENERAL, None, s))"

text \<open>The COM methods keep only success or \<open>ERROR_GENERAL\<close>; two deprecated ones are stubs.\<close>

fun normalise :: "fpd_result \<Rightarrow> fpd_result" where
  "normalise (Ret (r, v, s)) = Ret (if r = ERROR_NONE then ERROR_NONE else ERROR_GENERAL, v, s)"
| "normalise (Throw x) = Throw x"
| "normalise UB = UB"

definition Impl_deprecated ::
  "bool \<Rightarrow> fpd_consts \<Rightarrow> fpd_env \<Rightarrow> fpd_deprecated \<Rightarrow> fpd_state \<Rightarrow> fpd_result" where
  "Impl_deprecated platform c e d s =
     (if d = DepTime \<or> d = DepScroll then Ret (ERROR_NONE, None, s)
      else normalise (FPD_call platform c e (ReqDeprecated d) s))"

fun Impl_call :: "bool \<Rightarrow> fpd_consts \<Rightarrow> fpd_env \<Rightarrow> fpd_request \<Rightarrow> fpd_state \<Rightarrow> fpd_result" where
  "Impl_call platform c e (ReqDeprecated d) s = Impl_deprecated platform c e d s"
| "Impl_call platform c e req s = normalise (FPD_call platform c e req s)"

subsection \<open>Initialisation and the persisted settings\<close>

definition fpd_init_ok :: "fpd_env \<Rightarrow> fpd_call list \<Rightarrow> nat \<Rightarrow> bool" where
  "fpd_init_ok e tr m \<longleftrightarrow> fst (fe_hal e (tr @ replicate m dsFPInit) dsFPInit) = DsERR_NONE"

lemma fpd_init_ok_Suc: "fpd_init_ok e (tr @ [dsFPInit]) m = fpd_init_ok e tr (Suc m)"
  by (simp add: fpd_init_ok_def)

lemma fpd_init_loop_none:
  "\<lbrakk>\<not> fpd_isPlatInitialized s; n + k = 20; \<forall>m \<le> k. \<not> fpd_init_ok e (fp_trace s) m\<rbrakk> \<Longrightarrow>
     fpd_init_loop e n s = s\<lparr>fp_trace := fp_trace s @ replicate (Suc k) dsFPInit\<rparr>"
proof (induction k arbitrary: n s)
  case 0
  then show ?case
    by (subst fpd_init_loop.simps) (simp add: fpd_call_hal_def fpd_init_ok_def)
next
  case (Suc k)
  let ?s = "s\<lparr>fp_trace := fp_trace s @ [dsFPInit]\<rparr>"
  have "fst (fe_hal e (fp_trace s) dsFPInit) \<noteq> DsERR_NONE"
    using Suc.prems(3) by (auto simp: fpd_init_ok_def)
  moreover have "fpd_init_loop e (n + 1) ?s = ?s\<lparr>fp_trace := fp_trace ?s @ replicate (Suc k) dsFPInit\<rparr>"
    using Suc.prems by (intro Suc.IH) (auto simp: fpd_init_ok_Suc)
  ultimately show ?case
    using Suc.prems by (subst fpd_init_loop.simps) (simp add: fpd_call_hal_def)
qed

lemma fpd_init_loop_some:
  "\<lbrakk>\<not> fpd_isPlatInitialized s; n + k = 20; m \<le> k; fpd_init_ok e (fp_trace s) m;
     \<forall>j < m. \<not> fpd_init_ok e (fp_trace s) j\<rbrakk> \<Longrightarrow>
     fpd_init_loop e n s = s\<lparr>fp_trace := fp_trace s @ replicate (Suc m) dsFPInit, fpd_isPlatInitialized := True\<rparr>"
proof (induction k arbitrary: n s m)
  case 0
  then show ?case
    by (subst fpd_init_loop.simps) (simp add: fpd_call_hal_def fpd_init_ok_def)
next
  case (Suc k)
  show ?case
  proof (cases m)
    case 0
    with Suc.prems show ?thesis
      by (subst fpd_init_loop.simps) (simp add: fpd_call_hal_def fpd_init_ok_def)
  next
    case m: (Suc m')
    let ?s = "s\<lparr>fp_trace := fp_trace s @ [dsFPInit]\<rparr>"
    have "fst (fe_hal e (fp_trace s) dsFPInit) \<noteq> DsERR_NONE"
      using Suc.prems(5) m by (force simp: fpd_init_ok_def)
    moreover have "fpd_init_loop e (n + 1) ?s = ?s\<lparr>fp_trace := fp_trace ?s @ replicate (Suc m') dsFPInit,
        fpd_isPlatInitialized := True\<rparr>"
      using Suc.prems m by (intro Suc.IH) (auto simp: fpd_init_ok_Suc)
    ultimately show ?thesis
      using Suc.prems m by (subst fpd_init_loop.simps) (simp add: fpd_call_hal_def)
  qed
qed

lemma fpd_load_simps [simp]:
  "fpd_isPlatInitialized (fpd_load_persisted c e s) = fpd_isPlatInitialized s"
  "fp_trace (fpd_load_persisted c e s) = fp_trace s"
  "srvFPDSettings (fpd_load_persisted c e s) = srvFPDSettings s"
  by (simp_all add: fpd_load_persisted_def Let_def split: prod.split outcome.split)

text \<open>The first successful attempt among the twenty.\<close>

lemma EnsurePlatInit_cases:
  assumes "\<not> fpd_isPlatInitialized s"
  shows "EnsurePlatInit c e s = (case find (fpd_init_ok e (fp_trace s)) [0..<20] of
       None \<Rightarrow> (False, s\<lparr>fp_trace := fp_trace s @ replicate 20 dsFPInit\<rparr>)
     | Some m \<Rightarrow> (True, fpd_load_persisted c e (s\<lparr>fp_trace := fp_trace s @ replicate (Suc m) dsFPInit,
          fpd_isPlatInitialized := True\<rparr>)))"
proof (cases "find (fpd_init_ok e (fp_trace s)) [0..<20]")
  case None
  then have "\<forall>m \<le> 19. \<not> fpd_init_ok e (fp_trace s) m" by (auto simp: find_None_iff)
  from fpd_init_loop_none [OF assms _ this, of 1] None assms show ?thesis
    by (simp add: EnsurePlatInit_def)
next
  case (Some m)
  then have "m \<le> 19" and "fpd_init_ok e (fp_trace s) m" and "\<forall>j < m. \<not> fpd_init_ok e (fp_trace s) j"
    by (auto simp: find_Some_iff)
  from fpd_init_loop_some [OF assms _ this, of 1] Some assms show ?thesis
    by (simp add: EnsurePlatInit_def)
qed

lemma fpd_read_brightness_eq:
  assumes "hp_ok st" and "key \<noteq> []"
  shows "\<exists>st1. fpd_read_brightness e m key st
       = (Ret (case hp_get st key of Some v \<Rightarrow> v | None \<Rightarrow> to_string m), st1)
     \<and> hp_ok st1 \<and> (\<forall>k. k \<noteq> key \<longrightarrow> hp_get st1 k = hp_get st k)"
proof (cases "hp_get st key")
  case (Some v)
  with assms show ?thesis
    by (auto simp: fpd_read_brightness_def getProperty_eq hp_ok_init hp_get_def)
next
  case None
  have i: "hp_ok (ensureInitialized st)" using assms(1) by (rule hp_ok_init)
  have g: "hp_get (ensureInitialized st) k = hp_get st k" for k by (simp add: hp_get_def)
  let ?p = "persistHostProperty (fe_io e) key (to_string m) (ensureInitialized st)"
  have "fst ?p = Ret ()" using assms(2) by (simp add: persist_eq)
  moreover have "hp_ok (snd ?p)" and "\<forall>k. k \<noteq> key \<longrightarrow> hp_get (snd ?p) k = hp_get st k"
    using hp_ok_put [OF i assms(2), of "to_string m" "fe_io e"]
      hp_get_put [OF i assms(2), of "to_string m" "fe_io e"] g by (auto simp: hp_put_def)
  ultimately show ?thesis
    using None assms(2)
    by (cases ?p) (auto simp: fpd_read_brightness_def getProperty_eq)
qed

lemma fpd_load_values:
  assumes "hp_ok (fp_store s)"
  shows "dsPowerBrightness (fpd_load_persisted c e s) = fpd_clamp c
           (case hp_get (fp_store s) ''Power.brightness'' of Some v \<Rightarrow> atoi v | None \<Rightarrow> BRIGHTNESS_DEFAULT c)"
    and "dsPowerLedColor (fpd_load_persisted c e s) = color_of_name c
           (case hp_get (fp_store s) ''Power.Color'' of Some v \<Rightarrow> v | None \<Rightarrow> ''BLUE'')"
    and "hp_ok (fp_store (fpd_load_persisted c e s))"
proof -
  let ?d = "BRIGHTNESS_DEFAULT c"
  obtain st1 where 1: "fpd_read_brightness e ?d ''Power.brightness'' (fp_store s)
       = (Ret (case hp_get (fp_store s) ''Power.brightness'' of Some v \<Rightarrow> v | None \<Rightarrow> to_string ?d), st1)"
    "hp_ok st1" "hp_get st1 ''Power.Color'' = hp_get (fp_store s) ''Power.Color''"
    using fpd_read_brightness_eq [OF assms, of "''Power.brightness''" e ?d] by auto
  obtain st2 w where 2: "fpd_read_brightness e ?d ''Text.brightness'' st1 = (Ret w, st2)"
    "hp_ok st2" "hp_get st2 ''Power.Color'' = hp_get st1 ''Power.Color''"
    using fpd_read_brightness_eq [OF 1(2), of "''Text.brightness''" e ?d] by auto
  note eqs = fpd_load_persisted_def 1 2 Let_def getProperty_eq
  show "dsPowerBrightness (fpd_load_persisted c e s) = fpd_clamp c
           (case hp_get (fp_store s) ''Power.brightness'' of Some v \<Rightarrow> atoi v | None \<Rightarrow> ?d)"
    by (simp add: eqs atoi_to_string split: option.split)
  show "dsPowerLedColor (fpd_load_persisted c e s) = color_of_name c
           (case hp_get (fp_store s) ''Power.Color'' of Some v \<Rightarrow> v | None \<Rightarrow> ''BLUE'')"
    by (simp add: eqs split: option.split)
  show "hp_ok (fp_store (fpd_load_persisted c e s))"
    by (simp add: eqs hp_ok_init)
qed

subsection \<open>What a request does to the state\<close>

definition fpd_ok :: "fpd_consts \<Rightarrow> fpd_state \<Rightarrow> bool" where
  "fpd_ok c s \<longleftrightarrow> length (srvFPDSettings s) = nat (INDICATOR_MAX c) \<and> hp_ok (fp_store s)"

lemma fpd_ok_static: "hp_ok st \<Longrightarrow> fpd_ok c (fpd_InitialiseHAL c (fpd_static c st))"
  by (simp add: fpd_ok_def fpd_InitialiseHAL_def fpd_static_def)

lemma fpd_ok_Ensure: "fpd_ok c s \<Longrightarrow> fpd_ok c (snd (EnsurePlatInit c e s))"
  by (cases "fpd_isPlatInitialized s", simp add: EnsurePlatInit_def)
    (auto simp: EnsurePlatInit_cases fpd_ok_def fpd_load_values split: option.split)

lemma Ensure_plat:
  "fst (EnsurePlatInit c e s) \<longleftrightarrow> fpd_isPlatInitialized (snd (EnsurePlatInit c e s))"
  by (auto simp: EnsurePlatInit_def Let_def)

lemma fpd_call_hal_simps [simp]:
  "fst (fpd_call_hal e call s) = fe_hal e (fp_trace s) call"
  "snd (fpd_call_hal e call s) = s\<lparr>fp_trace := fp_trace s @ [call]\<rparr>"
  by (simp_all add: fpd_call_hal_def)

lemma fpd_array_put_ok:
  "fpd_ok c s \<Longrightarrow> 0 \<le> i \<Longrightarrow> i < INDICATOR_MAX c \<Longrightarrow>
     fpd_array_put i f s = Ret (s\<lparr>srvFPDSettings := (srvFPDSettings s)[nat i := f (srvFPDSettings s ! nat i)]\<rparr>)"
  by (simp add: fpd_array_put_def fpd_ok_def)

lemma fpd_persist_simps [simp]:
  "fpd_isPlatInitialized (fpd_persist e k v s) = fpd_isPlatInitialized s"
  "fp_trace (fpd_persist e k v s) = fp_trace s"
  "srvFPDSettings (fpd_persist e k v s) = srvFPDSettings s"
  "dsPowerBrightness (fpd_persist e k v s) = dsPowerBrightness s"
  "fp_store (fpd_persist e k v s) = hp_put (fe_io e) k v (fp_store s)"
  by (simp_all add: fpd_persist_def hp_put_def)

text \<open>The request is one the guards let through, and the HAL call it stands for.\<close>

fun req_valid :: "fpd_consts \<Rightarrow> fpd_request \<Rightarrow> bool" where
  "req_valid c (ReqSetBrightness i b p) \<longleftrightarrow> i < INDICATOR_MAX c \<and> uint b \<le> BRIGHTNESS_MAX c"
| "req_valid c (ReqGetBrightness i p) \<longleftrightarrow> i < INDICATOR_MAX c"
| "req_valid c (ReqSetState i x) \<longleftrightarrow> i < INDICATOR_MAX c"
| "req_valid c (ReqGetState i) \<longleftrightarrow> i < INDICATOR_MAX c"
| "req_valid c (ReqGetColor i) \<longleftrightarrow> i < INDICATOR_MAX c"
| "req_valid c (ReqSetColor i x) \<longleftrightarrow> i < INDICATOR_MAX c \<and> color_isValid c x"
| "req_valid c (ReqSetMode m) \<longleftrightarrow> True"
| "req_valid c (ReqDeprecated d) \<longleftrightarrow> True"

fun req_hal :: "fpd_consts \<Rightarrow> int \<Rightarrow> fpd_request \<Rightarrow> fpd_call list" where
  "req_hal c pw (ReqSetBrightness i b p) = [dsSetFPBrightness i (uint b)]"
| "req_hal c pw (ReqGetBrightness i p) = [dsGetFPBrightness i]"
| "req_hal c pw (ReqSetState i x) = (if x = STATE_ON c then [dsSetFPBrightness i pw]
     else if x = STATE_OFF c then [dsSetFPBrightness i 0] else [])"
| "req_hal c pw (ReqGetState i) = []"
| "req_hal c pw (ReqGetColor i) = [dsGetFPColor i]"
| "req_hal c pw (ReqSetColor i x) = [dsSetFPColor i x]"
| "req_hal c pw (ReqSetMode m) = [dsSetFPDMode m]"
| "req_hal c pw (ReqDeprecated d) = []"

fun req_indicator :: "fpd_request \<Rightarrow> int" where
  "req_indicator (ReqSetBrightness i b p) = i"
| "req_indicator (ReqGetBrightness i p) = i"
| "req_indicator (ReqSetState i x) = i"
| "req_indicator (ReqGetState i) = i"
| "req_indicator (ReqGetColor i) = i"
| "req_indicator (ReqSetColor i x) = i"
| "req_indicator (ReqSetMode m) = 0"
| "req_indicator (ReqDeprecated d) = 0"

fun needs_platform :: "fpd_request \<Rightarrow> bool" where
  "needs_platform (ReqSetMode m) = False"
| "needs_platform (ReqDeprecated d) = False"
| "needs_platform _ = True"

definition fpd_after :: "fpd_consts \<Rightarrow> fpd_env \<Rightarrow> fpd_request \<Rightarrow> fpd_state \<Rightarrow> fpd_state \<Rightarrow> bool" where
  "fpd_after c e req s s' \<longleftrightarrow> fpd_ok c s' \<and>
     (let s1 = (if needs_platform req then snd (EnsurePlatInit c e s) else s) in
      fpd_isPlatInitialized s' = fpd_isPlatInitialized s1 \<and>
      fp_trace s' = fp_trace s1 @
        (if (needs_platform req \<longrightarrow> fpd_isPlatInitialized s1) \<and> req_valid c req
         then req_hal c (dsPowerBrightness s1) req else []))"

lemma platform_call_after:
  assumes "fpd_ok c s" and "0 \<le> req_indicator req"
  shows "\<exists>r v s'. platform_call c e req s = Ret (r, v, s') \<and> fpd_after c e req s s'"
proof -
  obtain ok s1 where E: "EnsurePlatInit c e s = (ok, s1)" by (cases "EnsurePlatInit c e s")
  then have ok: "fpd_ok c s1" and p: "fpd_isPlatInitialized s1 = ok"
    using fpd_ok_Ensure [OF assms(1), of e] Ensure_plat [of c e s] by simp_all
  note defs = fpd_after_def E p Let_def fpd_array_put_def case_prod_unfold
  show ?thesis
  proof (cases req)
    case (ReqSetBrightness i b pr)
    with assms ok show ?thesis
      by (simp add: defs SetFPDBrightness_def fpd_ok_def hp_ok_put)
  next
    case (ReqGetBrightness i pr)
    with assms ok show ?thesis by (simp add: defs GetFPDBrightness_def fpd_ok_def)
  next
    case (ReqSetState i x)
    with assms ok show ?thesis by (simp add: defs SetFPDState_def fpd_ok_def)
  next
    case (ReqGetState i)
    with assms ok show ?thesis by (simp add: defs GetFPDState_def fpd_ok_def)
  next
    case (ReqGetColor i)
    with assms ok show ?thesis by (simp add: defs GetFPDColor_def fpd_ok_def)
  next
    case (ReqSetColor i x)
    have "color_name c y \<noteq> []" for y by (simp add: color_name_def)
    with assms ok ReqSetColor show ?thesis
      by (simp add: defs SetFPDColor_def fpd_ok_def hp_ok_put)
  next
    case (ReqSetMode m)
    with assms show ?thesis by (simp add: defs SetFPDMode_def fpd_ok_def)
  next
    case (ReqDeprecated d)
    with assms show ?thesis by (simp add: defs platform_deprecated_def)
  qed
qed

lemma Impl_call_after:
  assumes "fpd_ok c s" and "0 \<le> req_indicator req"
  shows "\<exists>r v s'. Impl_call True c e req s = Ret (r, v, s') \<and> r \<in> {ERROR_NONE, ERROR_GENERAL}
           \<and> fpd_after c e req s s'"
proof -
  from platform_call_after [OF assms, of e] obtain r v s' where
    "platform_call c e req s = Ret (r, v, s')" "fpd_after c e req s s'" by blast
  then show ?thesis
    using assms(1)
    by (cases req) (auto simp: FPD_call_def Impl_deprecated_def fpd_after_def)
qed

subsection \<open>Histories of requests\<close>

fun fpd_run :: "bool \<Rightarrow> fpd_consts \<Rightarrow> fpd_env \<Rightarrow> fpd_request list \<Rightarrow> fpd_state \<Rightarrow> fpd_state outcome" where
  "fpd_run platform c e [] s = Ret s"
| "fpd_run platform c e (r # rs) s = (case Impl_call platform c e r s of
     Ret (_, _, s') \<Rightarrow> fpd_run platform c e rs s' | Throw x \<Rightarrow> Throw x | UB \<Rightarrow> UB)"

text \<open>
  Every panel call comes after an attempt of \<open>dsFPInit\<close> that succeeded, but for
  \<open>dsSetFPDMode\<close>, the one method of the platform layer without \<open>EnsurePlatInit\<close>.
\<close>

definition fpd_init_done :: "fpd_env \<Rightarrow> fpd_call list \<Rightarrow> bool" where
  "fpd_init_done e tr \<longleftrightarrow> (\<exists>p q. tr = p @ dsFPInit # q \<and> fst (fe_hal e p dsFPInit) = DsERR_NONE)"

fun fpd_uses_panel :: "fpd_call \<Rightarrow> bool" where
  "fpd_uses_panel (dsSetFPBrightness i b) = True"
| "fpd_uses_panel (dsGetFPBrightness i) = True"
| "fpd_uses_panel (dsSetFPColor i x) = True"
| "fpd_uses_panel (dsGetFPColor i) = True"
| "fpd_uses_panel (dsSetFPDMode m) = True"
| "fpd_uses_panel dsFPInit = False"
| "fpd_uses_panel dsFPTerm = False"

fun call_mode :: "fpd_call \<Rightarrow> int list" where
  "call_mode (dsSetFPDMode m) = [m]"
| "call_mode _ = []"

fun req_mode :: "fpd_request \<Rightarrow> int list" where
  "req_mode (ReqSetMode m) = [m]"
| "req_mode _ = []"

definition fpd_disciplined :: "fpd_env \<Rightarrow> fpd_call list \<Rightarrow> bool" where
  "fpd_disciplined e tr \<longleftrightarrow>
     (\<forall>p x q. tr = p @ x # q \<longrightarrow> fpd_uses_panel x \<longrightarrow> fpd_init_done e p \<or> call_mode x \<noteq> [])"

lemma fpd_disciplined_snoc:
  "fpd_disciplined e (tr @ [x]) \<longleftrightarrow>
     fpd_disciplined e tr \<and> (fpd_uses_panel x \<longrightarrow> fpd_init_done e tr \<or> call_mode x \<noteq> [])"
proof -
  have *: "tr @ [x] = p @ y # q \<longleftrightarrow> (q = [] \<and> p = tr \<and> y = x) \<or> (\<exists>q'. q = q' @ [x] \<and> tr = p @ y # q')" for p y q
    by (cases q rule: rev_cases) auto
  show ?thesis
  proof
    assume d: "fpd_disciplined e (tr @ [x])"
    then have "fpd_uses_panel x \<longrightarrow> fpd_init_done e tr \<or> call_mode x \<noteq> []" by (simp add: fpd_disciplined_def)
    moreover have "fpd_init_done e p \<or> call_mode y \<noteq> []" if "tr = p @ y # q" "fpd_uses_panel y" for p y q
      using d that unfolding fpd_disciplined_def by (metis append.assoc append_Cons)
    ultimately show "fpd_disciplined e tr \<and> (fpd_uses_panel x \<longrightarrow> fpd_init_done e tr \<or> call_mode x \<noteq> [])"
      by (simp add: fpd_disciplined_def)
  next
    assume "fpd_disciplined e tr \<and> (fpd_uses_panel x \<longrightarrow> fpd_init_done e tr \<or> call_mode x \<noteq> [])"
    then show "fpd_disciplined e (tr @ [x])"
      unfolding fpd_disciplined_def * by metis
  qed
qed

lemma fpd_disciplined_inits:
  "fpd_disciplined e tr \<Longrightarrow> fpd_disciplined e (tr @ replicate n dsFPInit)"
proof (induction n)
  case 0
  then show ?case by simp
next
  case (Suc n)
  have "tr @ replicate (Suc n) dsFPInit = (tr @ replicate n dsFPInit) @ [dsFPInit]"
    by (simp add: replicate_append_same)
  with Suc show ?case by (simp only: fpd_disciplined_snoc) simp
qed

lemma fpd_init_done_append: "fpd_init_done e tr \<Longrightarrow> fpd_init_done e (tr @ t)"
  unfolding fpd_init_done_def by (metis append.assoc append_Cons)

definition fpd_hist :: "fpd_consts \<Rightarrow> fpd_env \<Rightarrow> fpd_state \<Rightarrow> bool" where
  "fpd_hist c e s \<longleftrightarrow> fpd_ok c s \<and> fpd_disciplined e (fp_trace s)
     \<and> (fpd_isPlatInitialized s \<longrightarrow> fpd_init_done e (fp_trace s))"

lemma fpd_hist_Ensure: "fpd_hist c e s \<Longrightarrow> fpd_hist c e (snd (EnsurePlatInit c e s))"
proof (cases "fpd_isPlatInitialized s")
  case True
  then show "fpd_hist c e s \<Longrightarrow> ?thesis" by (simp add: EnsurePlatInit_def)
next
  case False
  assume h: "fpd_hist c e s"
  have "fpd_init_done e (fp_trace s @ replicate (Suc m) dsFPInit)" if "fpd_init_ok e (fp_trace s) m" for m
    using that unfolding fpd_init_done_def fpd_init_ok_def
    by (intro exI [of _ "fp_trace s @ replicate m dsFPInit"] exI [of _ "[]"])
      (simp add: replicate_append_same)
  with h False fpd_ok_Ensure [of c s e] show ?thesis
    by (auto simp: fpd_hist_def EnsurePlatInit_cases fpd_disciplined_inits find_Some_iff
        simp del: replicate.simps split: option.splits)
qed

lemma fpd_hist_after:
  assumes "fpd_hist c e s" and "fpd_after c e req s s'"
  shows "fpd_hist c e s'"
proof -
  let ?s1 = "if needs_platform req then snd (EnsurePlatInit c e s) else s"
  have h: "fpd_hist c e ?s1" using assms(1) fpd_hist_Ensure by simp
  have "fpd_disciplined e (fp_trace ?s1 @ req_hal c pw req)"
    if "needs_platform req \<longrightarrow> fpd_isPlatInitialized ?s1" for pw
    using h that fpd_disciplined_snoc [of e "fp_trace ?s1"]
    by (cases req) (auto simp: fpd_hist_def)
  with h assms(2) show ?thesis
    by (auto simp: fpd_after_def fpd_hist_def Let_def fpd_init_done_append)
qed

lemma modes_inits: "concat (map call_mode (replicate n dsFPInit)) = []"
  by (induction n) simp_all

lemma fpd_modes_Ensure:
  "concat (map call_mode (fp_trace (snd (EnsurePlatInit c e s)))) = concat (map call_mode (fp_trace s))"
  by (cases "fpd_isPlatInitialized s")
    (simp add: EnsurePlatInit_def, simp add: EnsurePlatInit_cases modes_inits del: replicate.simps map_replicate
       split: option.split)

lemma fpd_modes_after:
  assumes "fpd_after c e req s s'"
  shows "concat (map call_mode (fp_trace s')) = concat (map call_mode (fp_trace s)) @ req_mode req"
  using assms fpd_modes_Ensure [of c e s] by (cases req) (auto simp: fpd_after_def Let_def)

lemma fpd_run_hist:
  "fpd_hist c e s \<Longrightarrow> \<forall>r \<in> set rs. 0 \<le> req_indicator r \<Longrightarrow>
     \<exists>s'. fpd_run True c e rs s = Ret s' \<and> fpd_hist c e s'
       \<and> concat (map call_mode (fp_trace s')) = concat (map call_mode (fp_trace s)) @ concat (map req_mode rs)"
proof (induction rs arbitrary: s)
  case Nil
  then show ?case by simp
next
  case (Cons r rs)
  then obtain x v s1 where "Impl_call True c e r s = Ret (x, v, s1)" "fpd_after c e r s s1"
    using Impl_call_after [of c s r e] by (auto simp: fpd_hist_def)
  moreover from this Cons have "fpd_hist c e s1" "concat (map call_mode (fp_trace s1))
      = concat (map call_mode (fp_trace s)) @ req_mode r"
    using fpd_hist_after fpd_modes_after by auto
  ultimately show ?case using Cons.IH [of s1] Cons.prems(2) by auto
qed

lemma fpd_hist_start: "hp_ok st \<Longrightarrow> fpd_hist c e (fpd_InitialiseHAL c (fpd_static c st))"
  using fpd_ok_static [of st c]
  by (simp add: fpd_hist_def) (simp add: fpd_InitialiseHAL_def fpd_static_def fpd_disciplined_def)

subsection \<open>Settings across a restart\<close>

text \<open>The plugin process ends and starts again with the same disk.\<close>

definition fpd_restart :: "fpd_consts \<Rightarrow> fpd_state \<Rightarrow> fpd_state" where
  "fpd_restart c s = fpd_InitialiseHAL c (fpd_static c (hp_restart (fp_store s)))"

lemma fpd_restart_simps:
  "fp_store (fpd_restart c s) = hp_restart (fp_store s)"
  "\<not> fpd_isPlatInitialized (fpd_restart c s)"
  by (simp_all add: fpd_restart_def fpd_InitialiseHAL_def fpd_static_def)

lemma word_ok_to_string:
  fixes b :: "32 word"
  shows "word_ok (to_string (uint b))"
proof -
  have "unat b < 2 ^ 32" using unsigned_less [of b] by simp
  also have "(2 :: nat) ^ 32 \<le> 10 ^ 10" by simp
  finally have l: "length (show_nat (unat b)) \<le> 10" by (rule length_show_nat) simp
  have "to_string (uint b) = show_nat (unat b)"
    by (simp add: to_string_def)
  with l show ?thesis by (simp add: word_ok_def show_nat_chars)
qed

lemma Ensure_restart:
  assumes "hp_durable (fp_store s)" and "fst (EnsurePlatInit c e (fpd_restart c s))"
  shows "dsPowerBrightness (snd (EnsurePlatInit c e (fpd_restart c s))) = fpd_clamp c
           (case hp_get (fp_store s) ''Power.brightness'' of Some v \<Rightarrow> atoi v | None \<Rightarrow> BRIGHTNESS_DEFAULT c)"
    and "dsPowerLedColor (snd (EnsurePlatInit c e (fpd_restart c s))) = color_of_name c
           (case hp_get (fp_store s) ''Power.Color'' of Some v \<Rightarrow> v | None \<Rightarrow> ''BLUE'')"
proof -
  let ?r = "fpd_restart c s"
  have ok: "hp_ok (fp_store ?r)"
    using hp_durable_restart [OF assms(1)] by (simp add: fpd_restart_simps hp_durable_def)
  have get: "hp_get (fp_store ?r) k = hp_get (fp_store s) k" for k
    using hp_get_restart [OF assms(1)] by (simp add: fpd_restart_simps)
  from assms(2) obtain m where "EnsurePlatInit c e ?r = (True, fpd_load_persisted c e
      (?r\<lparr>fp_trace := fp_trace ?r @ replicate (Suc m) dsFPInit, fpd_isPlatInitialized := True\<rparr>))"
    by (auto simp: EnsurePlatInit_cases fpd_restart_simps split: option.splits)
  with ok get show "dsPowerBrightness (snd (EnsurePlatInit c e ?r)) = fpd_clamp c
           (case hp_get (fp_store s) ''Power.brightness'' of Some v \<Rightarrow> atoi v | None \<Rightarrow> BRIGHTNESS_DEFAULT c)"
    and "dsPowerLedColor (snd (EnsurePlatInit c e ?r)) = color_of_name c
           (case hp_get (fp_store s) ''Power.Color'' of Some v \<Rightarrow> v | None \<Rightarrow> ''BLUE'')"
    by (simp_all add: fpd_load_values)
qed

text \<open>A panel that is running, with a disk that takes every write.\<close>

definition fpd_running :: "fpd_consts \<Rightarrow> fpd_env \<Rightarrow> fpd_state \<Rightarrow> bool" where
  "fpd_running c e s \<longleftrightarrow> fpd_isPlatInitialized s \<and> fpd_ok c s \<and> hp_durable (fp_store s)
     \<and> fe_io e = io_full \<and> 0 \<le> INDICATOR_POWER c \<and> INDICATOR_POWER c < INDICATOR_MAX c"

text \<open>A concrete HAL for the examples: every call succeeds, as in a typical header.\<close>

definition ex_consts :: fpd_consts where
  "ex_consts = \<lparr>INDICATOR_MESSAGE = 0, INDICATOR_POWER = 1, INDICATOR_MAX = 5,
     BRIGHTNESS_MAX = 100, BRIGHTNESS_DEFAULT = 100,
     COLOR_BLUE = 0x0000FF, COLOR_GREEN = 0x00FF00, COLOR_RED = 0xFF0000,
     COLOR_YELLOW = 0xFFFFE0, COLOR_ORANGE = 0xFF8C00, STATE_OFF = 0, STATE_ON = 1,
     color_isValid = (\<lambda>x. x \<le> 0xFFFFFF)\<rparr>"

definition ex_env :: fpd_env where
  "ex_env = \<lparr>fe_hal = (\<lambda>_ _. (DsERR_NONE, Some 7)), fe_io = io_full\<rparr>"

definition ex_panel :: fpd_state where
  "ex_panel = (fpd_InitialiseHAL ex_consts (fpd_static ex_consts (hp_new ''f'' (\<lambda>_. None))))
     \<lparr>fpd_isPlatInitialized := True\<rparr>"

lemma ex_running: "fpd_running ex_consts ex_env ex_panel"
proof -
  have d: "hp_durable (hp_new ''f'' (\<lambda>_. None))"
    by (rule hp_durable_new) (simp add: no_nul_file_def)
  then have "hp_ok (hp_new ''f'' (\<lambda>_. None))" by (simp add: hp_durable_def)
  from fpd_ok_static [OF this, of ex_consts] d show ?thesis
    by (simp add: fpd_running_def ex_panel_def ex_env_def fpd_ok_def)
      (simp add: ex_consts_def fpd_InitialiseHAL_def fpd_static_def)
qed

lemma ex_init: "fst (EnsurePlatInit ex_consts ex_env (fpd_restart ex_consts s))"
proof -
  have "find (fpd_init_ok ex_env tr) [0..<20] = Some 0" for tr
    by (simp add: upt_conv_Cons fpd_init_ok_def ex_env_def)
  then show ?thesis by (simp add: EnsurePlatInit_cases fpd_restart_simps)
qed

subsection \<open>Properties\<close>

text \<open>
  The deferred initialisation tries \<open>dsFPInit\<close> at most twenty times: it stops at the
  first success, reports true and loads the persisted settings; after twenty failures it
  reports false and has changed nothing but the calls made. Once initialised it never calls
  \<open>dsFPInit\<close> again.
\<close>

theorem EnsurePlatInit_retries:
  "EnsurePlatInit c e s =
     (if fpd_isPlatInitialized s then (True, s)
      else case find (\<lambda>m. fst (fe_hal e (fp_trace s @ replicate m dsFPInit) dsFPInit) = DsERR_NONE) [0..<20] of
        None \<Rightarrow> (False, s\<lparr>fp_trace := fp_trace s @ replicate 20 dsFPInit\<rparr>)
      | Some m \<Rightarrow> (True, fpd_load_persisted c e (s\<lparr>fp_trace := fp_trace s @ replicate (Suc m) dsFPInit,
           fpd_isPlatInitialized := True\<rparr>)))"
proof (cases "fpd_isPlatInitialized s")
  case True
  then show ?thesis by (simp add: EnsurePlatInit_def)
next
  case False
  have "fpd_init_ok e (fp_trace s)
      = (\<lambda>m. fst (fe_hal e (fp_trace s @ replicate m dsFPInit) dsFPInit) = DsERR_NONE)"
    by (simp add: fpd_init_ok_def fun_eq_iff)
  with False show ?thesis by (simp only: EnsurePlatInit_cases [OF False] if_False)
qed

text \<open>
  C2. The front panel API is safe: from the initial state, over any HAL and any sequence of
  requests with non-negative indicators (however large, with any brightness, colour and state),
  no call has undefined behaviour, the settings array keeps its length, and no panel function
  of the HAL but \<open>dsSetFPDMode\<close> is called before a \<open>dsFPInit\<close> that succeeded. The exception is
  exact: every mode request becomes one \<open>dsSetFPDMode\<close>, in order, initialised or not.
\<close>

theorem front_panel_safe:
  assumes "hp_ok st" and "\<forall>r \<in> set rs. 0 \<le> req_indicator r"
  shows "\<exists>s. fpd_run True c e rs (fpd_InitialiseHAL c (fpd_static c st)) = Ret s
     \<and> length (srvFPDSettings s) = nat (INDICATOR_MAX c)
     \<and> (\<forall>p x q. fp_trace s = p @ x # q \<longrightarrow> fpd_uses_panel x \<longrightarrow> fpd_init_done e p \<or> call_mode x \<noteq> [])
     \<and> concat (map call_mode (fp_trace s)) = concat (map req_mode rs)"
proof -
  have t: "fp_trace (fpd_InitialiseHAL c (fpd_static c st)) = []"
    by (simp add: fpd_InitialiseHAL_def fpd_static_def)
  obtain s where "fpd_run True c e rs (fpd_InitialiseHAL c (fpd_static c st)) = Ret s" "fpd_hist c e s"
    "concat (map call_mode (fp_trace s)) = concat (map req_mode rs)"
    using fpd_run_hist [OF fpd_hist_start [OF assms(1)] assms(2), of c e] by (auto simp: t)
  then show ?thesis by (auto simp: fpd_hist_def fpd_ok_def fpd_disciplined_def)
qed

text \<open>
  Requests reach the HAL exactly as the guards allow: through the COM layer a request ends
  with success or \<open>ERROR_GENERAL\<close>, and it makes exactly its one HAL call (\<open>req_hal\<close>) when
  the panel is initialised and its indicator, brightness and colour are in range, and none
  otherwise. Switching an indicator on uses the stored power brightness.
\<close>

theorem front_panel_hal_calls:
  assumes "fpd_ok c s" and "0 \<le> req_indicator req" and "needs_platform req"
  shows "\<exists>r v s'. Impl_call True c e req s = Ret (r, v, s') \<and> r \<in> {ERROR_NONE, ERROR_GENERAL} \<and>
     (let (ok, s1) = EnsurePlatInit c e s in
      fp_trace s' = fp_trace s1 @ (if ok \<and> req_valid c req then req_hal c (dsPowerBrightness s1) req else []))"
  using Impl_call_after [OF assms(1,2), of e] assms(3) Ensure_plat [of c e s]
  by (fastforce simp: fpd_after_def Let_def case_prod_unfold)

text \<open>
  The power brightness survives a restart: once a running panel has accepted a persisted
  brightness for the power indicator, then after the plugin restarts and the panel initialises
  again (over any HAL), reading the persisted brightness of any indicator gives that value
  (the full brightness comes back as the build's default where the two differ).
\<close>

theorem power_brightness_survives:
  assumes "fpd_running c e s" and "uint b \<le> BRIGHTNESS_MAX c"
    and "fst (fe_hal e (fp_trace s) (dsSetFPBrightness (INDICATOR_POWER c) (uint b))) = DsERR_NONE"
  shows "\<exists>s1. Impl_call True c e (ReqSetBrightness (INDICATOR_POWER c) b True) s = Ret (ERROR_NONE, None, s1)
     \<and> (\<forall>e' i. fst (EnsurePlatInit c e' (fpd_restart c s1)) \<longrightarrow> i < INDICATOR_MAX c \<longrightarrow>
          (\<exists>s2. Impl_call True c e' (ReqGetBrightness i True) (fpd_restart c s1)
             = Ret (ERROR_NONE, Some (uint (word_of_int (fpd_clamp c (uint b)) :: 32 word)), s2)))"
proof -
  have w: "word_ok ''Power.brightness''" by (simp add: word_ok_def isspace_def)
  have d: "hp_durable (fp_store s)" using assms(1) by (simp add: fpd_running_def)
  let ?st = "hp_put io_full ''Power.brightness'' (to_string (uint b)) (fp_store s)"
  have "\<exists>s1. Impl_call True c e (ReqSetBrightness (INDICATOR_POWER c) b True) s = Ret (ERROR_NONE, None, s1)
      \<and> fp_store s1 = ?st"
    using assms by (simp add: fpd_running_def FPD_call_def SetFPDBrightness_def EnsurePlatInit_def
        case_prod_unfold fpd_array_put_ok fpd_ok_def fpd_array_put_def Let_def)
  then obtain s1 where s1:
    "Impl_call True c e (ReqSetBrightness (INDICATOR_POWER c) b True) s = Ret (ERROR_NONE, None, s1)"
    "fp_store s1 = ?st" by blast
  have d1: "hp_durable (fp_store s1)" using hpd.inv_put [OF d w word_ok_to_string] s1(2) by simp
  have g: "hp_get (fp_store s1) ''Power.brightness'' = Some (to_string (uint b))"
    using hpd.get_put_same [OF d w word_ok_to_string] s1(2) by simp
  have "\<exists>s2. Impl_call True c e' (ReqGetBrightness i True) (fpd_restart c s1)
             = Ret (ERROR_NONE, Some (uint (word_of_int (fpd_clamp c (uint b)) :: 32 word)), s2)"
    if "fst (EnsurePlatInit c e' (fpd_restart c s1))" "i < INDICATOR_MAX c" for e' i
    using that Ensure_restart(1) [OF d1 that(1)] g
    by (simp add: FPD_call_def GetFPDBrightness_def case_prod_unfold Let_def atoi_to_string)
  with s1(1) show ?thesis by blast
qed

theorem power_brightness_survives_witness:
  "\<exists>s1 s2. Impl_call True ex_consts ex_env (ReqSetBrightness 1 42 True) ex_panel = Ret (ERROR_NONE, None, s1)
     \<and> Impl_call True ex_consts ex_env (ReqGetBrightness 3 True) (fpd_restart ex_consts s1)
       = Ret (ERROR_NONE, Some 42, s2)"
  using power_brightness_survives [OF ex_running, of 42] ex_init
  by (fastforce simp: ex_consts_def ex_env_def fpd_clamp_def)

text \<open>
  The power colour after a restart: green, red and yellow (and blue) come back as set;
  orange comes back as red, because it is stored under the name of red although the loader
  knows the name \<open>ORANGE\<close>; any other colour comes back as blue.
\<close>

theorem power_color_after_restart:
  assumes "fpd_running c e s" and "color_isValid c x"
    and "fst (fe_hal e (fp_trace s) (dsSetFPColor (INDICATOR_POWER c) x)) = DsERR_NONE"
  defines "y \<equiv> x AND 0x00FFFFFF"
  shows "\<exists>s1. Impl_call True c e (ReqSetColor (INDICATOR_POWER c) x) s = Ret (ERROR_NONE, None, s1)
     \<and> dsPowerLedColor s1 = y
     \<and> (\<forall>e'. fst (EnsurePlatInit c e' (fpd_restart c s1)) \<longrightarrow>
          dsPowerLedColor (snd (EnsurePlatInit c e' (fpd_restart c s1)))
            = (if y \<in> {COLOR_GREEN c, COLOR_RED c, COLOR_YELLOW c} then y
               else if y = COLOR_ORANGE c then COLOR_RED c else COLOR_BLUE c))"
proof -
  have w: "word_ok ''Power.Color''" "word_ok (color_name c y)"
    by (simp_all add: word_ok_def isspace_def color_name_def)
  have d: "hp_durable (fp_store s)" using assms(1) by (simp add: fpd_running_def)
  let ?st = "hp_put io_full ''Power.Color'' (color_name c y) (fp_store s)"
  have "\<exists>s1. Impl_call True c e (ReqSetColor (INDICATOR_POWER c) x) s = Ret (ERROR_NONE, None, s1)
      \<and> fp_store s1 = ?st \<and> dsPowerLedColor s1 = y"
    using assms(1-3) by (simp add: fpd_running_def FPD_call_def SetFPDColor_def EnsurePlatInit_def
        case_prod_unfold fpd_ok_def fpd_array_put_def Let_def y_def fpd_persist_def hp_put_def)
  then obtain s1 where s1:
    "Impl_call True c e (ReqSetColor (INDICATOR_POWER c) x) s = Ret (ERROR_NONE, None, s1)"
    "fp_store s1 = ?st" "dsPowerLedColor s1 = y" by blast
  have d1: "hp_durable (fp_store s1)" using hpd.inv_put [OF d w] s1(2) by simp
  have g: "hp_get (fp_store s1) ''Power.Color'' = Some (color_name c y)"
    using hpd.get_put_same [OF d w] s1(2) by simp
  have "color_of_name c (color_name c y)
      = (if y \<in> {COLOR_GREEN c, COLOR_RED c, COLOR_YELLOW c} then y
         else if y = COLOR_ORANGE c then COLOR_RED c else COLOR_BLUE c)"
    by (simp add: color_of_name_def color_name_def)
  with Ensure_restart(2) [OF d1] g s1(1,3) show ?thesis by simp
qed

theorem power_color_after_restart_witness:
  "\<exists>s1. Impl_call True ex_consts ex_env (ReqSetColor 1 0xFF8C00) ex_panel = Ret (ERROR_NONE, None, s1)
     \<and> dsPowerLedColor s1 = 0xFF8C00
     \<and> dsPowerLedColor (snd (EnsurePlatInit ex_consts ex_env (fpd_restart ex_consts s1))) = 0xFF0000"
  using power_color_after_restart [OF ex_running, of "0xFF8C00"] ex_init
  by (fastforce simp: ex_consts_def ex_env_def)

text \<open>
  A negative indicator passes the guard (only the upper bound is tested): on an
  initialised panel reading its state always reads outside the settings array, and setting
  its brightness writes outside it whenever the HAL accepts the call.
\<close>

theorem negative_indicator_out_of_bounds:
  assumes "fpd_isPlatInitialized s" and "i < 0" and "0 \<le> INDICATOR_MAX c"
  shows "Impl_call True c e (ReqGetState i) s = UB
     \<and> (uint b \<le> BRIGHTNESS_MAX c \<longrightarrow>
          (Impl_call True c e (ReqSetBrightness i b p) s = UB
             \<longleftrightarrow> fst (fe_hal e (fp_trace s) (dsSetFPBrightness i (uint b))) = DsERR_NONE))"
  using assms by (simp add: FPD_call_def GetFPDState_def SetFPDBrightness_def EnsurePlatInit_def
      fpd_array_put_def case_prod_unfold Let_def)

theorem negative_indicator_out_of_bounds_witness:
  "Impl_call True ex_consts ex_env (ReqGetState (- 1)) ex_panel = UB"
  using negative_indicator_out_of_bounds [of ex_panel "- 1" ex_consts] by (simp add: ex_panel_def ex_consts_def)

theorem front_panel_safe_witness:
  "\<exists>s. fpd_run True ex_consts ex_env [ReqSetMode 3, ReqSetState 2 1, ReqGetColor 9]
         (fpd_InitialiseHAL ex_consts (fpd_static ex_consts (hp_new ''f'' (\<lambda>_. None)))) = Ret s
     \<and> concat (map call_mode (fp_trace s)) = [3]"
proof -
  have "hp_ok (hp_new ''f'' (\<lambda>_. None))" by (simp add: hp_ok_def hp_new_def)
  from front_panel_safe [OF this, of "[ReqSetMode 3, ReqSetState 2 1, ReqGetColor 9]" ex_consts ex_env]
  show ?thesis by auto
qed

theorem front_panel_hal_calls_witness:
  "\<exists>r v s'. Impl_call True ex_consts ex_env (ReqSetState 2 1) ex_panel = Ret (r, v, s')
     \<and> fp_trace s' = [dsSetFPBrightness 2 100]"
proof -
  have "fpd_ok ex_consts ex_panel" using ex_running by (simp add: fpd_running_def)
  from front_panel_hal_calls [OF this, of "ReqSetState 2 1" ex_env] show ?thesis
    by (simp add: EnsurePlatInit_def ex_panel_def fpd_InitialiseHAL_def fpd_static_def)
      (auto simp: ex_consts_def)
qed

end
