(* ===== verification/Hal_Base.thy ===== *)
theory Hal_Base
  imports Host_Persistence Notification_Registry "HOL-Library.Word"
begin

section \<open>HAL calls, settings and listeners of a platform object\<close>

text \<open>
  What the platform layers of the video device, the HDMI inputs, the composite inputs and the
  display share. The type of HAL calls \<open>'c\<close> is the component's; each call is appended to
  \<open>hs_trace\<close>, and the HAL is answered by functions of the calls made so far. Settings go through
  \<open>HostPersistence\<close>; their keys and values are never empty, so that no access throws. A callback
  is a lambda that captures the forwarding object: it is identified by the number of that
  object, \<open>hs_live\<close> is the object that exists now, and to run a callback of another one is
  undefined.
\<close>

record 'c hal_env =
  he_ret :: "'c list \<Rightarrow> 'c \<Rightarrow> dsError"
  he_int :: "'c list \<Rightarrow> 'c \<Rightarrow> int"
  he_symbol :: "string \<Rightarrow> bool"
  he_io :: host_io
  he_tv :: bool

record 'c hal_state =
  hs_trace :: "'c list"
  hs_store :: host_store
  hs_live :: "nat option"

definition hal_log :: "'c \<Rightarrow> ('c, 's) hal_state_scheme \<Rightarrow> ('c, 's) hal_state_scheme" where
  "hal_log c s = s\<lparr>hs_trace := hs_trace s @ [c]\<rparr>"

definition hal_ok :: "('c, 'e) hal_env_scheme \<Rightarrow> 'c \<Rightarrow> ('c, 's) hal_state_scheme \<Rightarrow> bool" where
  "hal_ok e c s \<longleftrightarrow> he_ret e (hs_trace s) c = DsERR_NONE"

definition hal_int :: "('c, 'e) hal_env_scheme \<Rightarrow> 'c \<Rightarrow> ('c, 's) hal_state_scheme \<Rightarrow> int" where
  "hal_int e c s = he_int e (hs_trace s) c"

definition hal_read :: "string \<Rightarrow> string \<Rightarrow> ('c, 's) hal_state_scheme \<Rightarrow> string \<times> ('c, 's) hal_state_scheme" where
  "hal_read key d s = (let (v, st) = getProperty_default key d (hs_store s)
     in (case v of Ret t \<Rightarrow> t | _ \<Rightarrow> d, s\<lparr>hs_store := st\<rparr>))"

definition hal_put ::
  "('c, 'e) hal_env_scheme \<Rightarrow> string \<Rightarrow> string \<Rightarrow> ('c, 's) hal_state_scheme \<Rightarrow> ('c, 's) hal_state_scheme" where
  "hal_put e key v s = s\<lparr>hs_store := snd (persistHostProperty (he_io e) key v (hs_store s))\<rparr>"

text \<open>The callback \<open>cb\<close> is run, if it is set; the event is logged like a call.\<close>

definition hal_notify ::
  "nat option \<Rightarrow> 'c \<Rightarrow> ('c, 's) hal_state_scheme \<Rightarrow> ('c, 's) hal_state_scheme outcome" where
  "hal_notify cb ev s = (case cb of None \<Rightarrow> Ret s
     | Some owner \<Rightarrow> if hs_live s = Some owner then Ret (hal_log ev s) else UB)"

definition int32 :: "int \<Rightarrow> int" where
  "int32 i = sint (word_of_int i :: 32 word)"

lemma int32_id: "- (2 ^ 31) \<le> i \<Longrightarrow> i < 2 ^ 31 \<Longrightarrow> int32 i = i"
  by (simp add: int32_def sint_sbintrunc' signed_take_bit_int_eq_self)

subsection \<open>How the helpers act on the state\<close>

named_theorems hal_simps "how the HAL helpers act on the state"

lemma hal_fields [simp]:
  "hs_trace (hal_log c s) = hs_trace s @ [c]"
  "hs_store (hal_log c s) = hs_store s"
  "hs_live (hal_log c s) = hs_live s"
  "hs_trace (hal_put e k v s) = hs_trace s"
  "hs_store (hal_put e k v s) = hp_put (he_io e) k v (hs_store s)"
  "hs_live (hal_put e k v s) = hs_live s"
  "hs_trace (snd (hal_read k d s)) = hs_trace s"
  "hs_live (snd (hal_read k d s)) = hs_live s"
  by (simp_all add: hal_log_def hal_put_def hp_put_def hal_read_def Let_def case_prod_unfold)

lemma hal_more [simp]:
  "hal_state.more (hal_log c s) = hal_state.more s"
  "hal_state.more (hal_put e k v s) = hal_state.more s"
  "hal_state.more (snd (hal_read k d s)) = hal_state.more s"
  by (simp_all add: hal_log_def hal_put_def hal_read_def Let_def case_prod_unfold)

lemma hal_read_eq:
  "key \<noteq> [] \<Longrightarrow> hal_read key d s =
     (case hp_get (hs_store s) key of None \<Rightarrow> d | Some v \<Rightarrow> v, s\<lparr>hs_store := ensureInitialized (hs_store s)\<rparr>)"
  by (simp add: hal_read_def getProperty_default_def hp_get_def Let_def split: option.split)

lemma hp_get_settled [simp]: "hp_get (ensureInitialized s) k = hp_get s k"
  by (simp add: hp_get_def)

lemma hp_durable_init: "hp_durable s \<Longrightarrow> hp_durable (ensureInitialized s)"
proof -
  assume s: "hp_durable s"
  have "hp_filePath (ensureInitialized s) = hp_filePath s" "hp_disk (ensureInitialized s) = hp_disk s"
    by (simp_all add: ensureInitialized_def hp_load_def)
  moreover have "hp_isInitialized (ensureInitialized s)" by (simp add: ensureInitialized_def)
  ultimately show ?thesis
    using s hp_ok_init [of s] by (simp add: hp_durable_def)
qed

lemma hal_notify_live:
  "cb = None \<or> cb = hs_live s \<Longrightarrow> hal_notify cb ev s = Ret (if cb = None then s else hal_log ev s)"
  by (cases "hs_live s") (auto simp: hal_notify_def)

lemma hal_notify_dead: "hs_live s \<noteq> Some i \<Longrightarrow> hal_notify (Some i) ev s = UB"
  by (simp add: hal_notify_def)

end
