(* ===== verification/Hdmi_In.thy ===== *)
theory Hdmi_In
  imports Hal_Base
begin

section \<open>HDMI inputs (\<open>hal/dHdmiInImpl.h\<close>, \<open>HdmiIn\<close>, \<open>DeviceSettingsHdmiInImp\<close>)\<close>

text \<open>
  The platform layer \<open>dHdmiInImpl\<close> of the HDMI inputs: the EDID version of each port and its ALLM
  and VRR bits, which are kept in arrays and in the store, the port and picture requests, and the
  events; the forwarding layer \<open>HdmiIn.cpp\<close>; and the COM layer. A port is the number of its
  enumerator, as the casts of the code have it (\<open>dsHDMI_IN_PORT_0\<close> is 0, the port "none" is
  negative); the arrays have \<open>dsHDMI_IN_PORT_MAX\<close> elements, and an access outside is undefined.
  Optional functions are looked up by name; a call that fails writes nothing.
\<close>

subsection \<open>Types\<close>

record hin_mode =
  hm_name :: string
  hm_pixelResolution :: int
  hm_aspectRatio :: int
  hm_stereoScopicMode :: int
  hm_frameRate :: int
  hm_interlaced :: bool

datatype hin_cb =
    CbHotPlug | CbSignal | CbStatus | CbVideoMode | CbAllm | CbVRR | CbAvi | CbLatency

datatype hin_event =
    HevHotPlug int bool
  | HevSignal int int
  | HevStatus int bool
  | HevVideoMode int hin_mode
  | HevAllm int bool
  | HevVRR int int
  | HevAvi int int
  | HevLatency int int

fun event_cb :: "hin_event \<Rightarrow> hin_cb" where
  "event_cb (HevHotPlug p b) = CbHotPlug"
| "event_cb (HevSignal p x) = CbSignal"
| "event_cb (HevStatus p b) = CbStatus"
| "event_cb (HevVideoMode p m) = CbVideoMode"
| "event_cb (HevAllm p b) = CbAllm"
| "event_cb (HevVRR p x) = CbVRR"
| "event_cb (HevAvi p x) = CbAvi"
| "event_cb (HevLatency a v) = CbLatency"

datatype hin_call =
    HinInit
  | HinTerm
  | HinRegister hin_cb
  | HinNumber
  | HinStatus
  | HinSelect int bool int bool
  | HinScale int int int int
  | HinZoom int
  | HinVideoMode
  | HinIsARC int
  | HinGetVRR int
  | HinSetVRR int bool
  | HinVRRStatus int
  | HinSetAllm int bool
  | HinAllmStatus int
  | HinSetEdid int int
  | HinGetEdid int
  | HinFeatures
  | HinLatency
  | HinVersion int
  | HinEdidBytes int int
  | HinSPD int
  | HinEvent hin_event

text \<open>
  \<open>hi_rfc\<close> is the value of the RFC parameter for automatic latency, if it can be read; \<open>hi_max\<close> is
  \<open>dsHDMI_IN_PORT_MAX\<close>, \<open>hi_ver20\<close> is \<open>HDMI_EDID_VER_20\<close>, \<open>hi_name_size\<close> the size of the name of a
  video mode, and \<open>hi_raw\<close> the core error with the number of a HAL error.
\<close>

record hin_env = "hin_call hal_env" +
  hi_bytes :: "hin_call list \<Rightarrow> hin_call \<Rightarrow> int list"
  hi_mode :: "hin_call list \<Rightarrow> hin_mode"
  hi_status :: "hin_call list \<Rightarrow> int \<times> bool \<times> bool list"
  hi_features :: "hin_call list \<Rightarrow> int \<times> string"
  hi_pair :: "hin_call list \<Rightarrow> hin_call \<Rightarrow> int \<times> int"
  hi_rfc :: "string option"
  hi_max :: nat
  hi_ver20 :: int
  hi_name_size :: nat
  hi_raw :: "dsError \<Rightarrow> coreErr"

record hin_state = "hin_call hal_state" +
  m_hdmiInInitialized :: bool
  m_hdmiInPlatInitialized :: nat
  isDalsEnabled :: bool
  isPortArcCapable :: "int \<Rightarrow> bool"
  m_edidallmsupport :: "int \<Rightarrow> bool"
  m_vrrsupport :: "int \<Rightarrow> bool"
  m_hdmiPortVrrCaps :: "int \<Rightarrow> bool"
  m_edidversion :: "int \<Rightarrow> int"
  hin_cb :: "hin_cb \<Rightarrow> nat option"

datatype hin_val =
    HInt int
  | HBool bool
  | HPair int int
  | HBytes "int list"
  | HStatus int bool "bool list"
  | HMode hin_mode
  | HNames "string list"

type_synonym hin_result = "(coreErr \<times> hin_val option \<times> hin_state) outcome"

definition hin_static :: "host_store \<Rightarrow> hin_state" where
  "hin_static st = \<lparr>hs_trace = [], hs_store = st, hs_live = None, m_hdmiInInitialized = False,
     m_hdmiInPlatInitialized = 0, isDalsEnabled = False, isPortArcCapable = (\<lambda>_. False),
     m_edidallmsupport = (\<lambda>_. False), m_vrrsupport = (\<lambda>_. False), m_hdmiPortVrrCaps = (\<lambda>_. False),
     m_edidversion = (\<lambda>_. 0), hin_cb = (\<lambda>_. None)\<rparr>"

definition in_array :: "hin_env \<Rightarrow> int \<Rightarrow> bool" where
  "in_array e p \<longleftrightarrow> 0 \<le> p \<and> p < int (hi_max e)"

subsection \<open>The HAL functions\<close>

type_synonym hin_ret = "(dsError \<times> hin_state) outcome"

definition hin_optional :: "hin_env \<Rightarrow> string \<Rightarrow> hin_call \<Rightarrow> hin_state \<Rightarrow> dsError \<times> hin_state" where
  "hin_optional e symbol c s =
     (if he_symbol e symbol then (he_ret e (hs_trace s) c, hal_log c s) else (DsERR_GENERAL, s))"

definition getVRRSupport :: "hin_env \<Rightarrow> int \<Rightarrow> hin_state \<Rightarrow> hin_state" where
  "getVRRSupport e p s =
     (let c = HinGetVRR p; (r, s1) = hin_optional e ''dsHdmiInGetVRRSupport'' c s
      in if r = DsERR_NONE
         then s1\<lparr>m_hdmiPortVrrCaps := (m_hdmiPortVrrCaps s1)(p := hal_int e c s \<noteq> 0)\<rparr> else s1)"

text \<open>The function is called twice; the second answer counts.\<close>

definition setVRRSupport :: "hin_env \<Rightarrow> int \<Rightarrow> bool \<Rightarrow> hin_state \<Rightarrow> hin_ret" where
  "setVRRSupport e p v s =
     (if \<not> in_array e p then UB
      else if \<not> m_hdmiPortVrrCaps s p then Ret (DsERR_OPERATION_NOT_SUPPORTED, s)
      else let c = HinSetVRR p v; (r, s1) = hin_optional e ''dsHdmiInSetVRRSupport'' c s
           in Ret (hin_optional e ''dsHdmiInSetVRRSupport'' c s1))"

definition setEdid2AllmSupport :: "hin_env \<Rightarrow> int \<Rightarrow> bool \<Rightarrow> hin_state \<Rightarrow> dsError \<times> hin_state" where
  "setEdid2AllmSupport e p v s = hin_optional e ''dsSetEdid2AllmSupport'' (HinSetAllm p v) s"

definition isHdmiARCPort :: "hin_env \<Rightarrow> int \<Rightarrow> hin_state \<Rightarrow> bool \<times> hin_state" where
  "isHdmiARCPort e p s =
     (if he_symbol e ''dsIsHdmiARCPort'' then (hal_int e (HinIsARC p) s \<noteq> 0, hal_log (HinIsARC p) s)
      else (False, s))"

text \<open>The key of a setting of a port, and the four ports whose settings are stored.\<close>

definition port_key :: "int \<Rightarrow> string \<Rightarrow> string" where
  "port_key p name = ''HDMI'' @ to_string p @ ''.'' @ name"

definition persist_port :: "hin_env \<Rightarrow> int \<Rightarrow> string \<Rightarrow> string \<Rightarrow> hin_state \<Rightarrow> hin_state" where
  "persist_port e p name v s = (if p \<in> set [0, 1, 2, 3] then hal_put e (port_key p name) v s else s)"

text \<open>
  The version is first printed with \<open>sprintf\<close> into a buffer of two bytes. A change to version 2.0
  sets the two bits of the port again.
\<close>

definition setEdidVersion :: "hin_env \<Rightarrow> int \<Rightarrow> int \<Rightarrow> hin_state \<Rightarrow> hin_ret" where
  "setEdidVersion e p v s =
     (if 2 \<le> length (to_string v) then UB
      else let (r, s1) = hin_optional e ''dsSetEdidVersion'' (HinSetEdid p v) s
           in if r \<noteq> DsERR_NONE then Ret (r, s1)
              else let s2 = persist_port e p ''edidversion'' (to_string v) s1
                   in if v \<noteq> hi_ver20 e then Ret (r, s2)
                      else if \<not> in_array e p then UB
                      else let (ra, s3) = setEdid2AllmSupport e p (m_edidallmsupport s2 p) s2
                           in obind (setVRRSupport e p (m_vrrsupport s3 p) s3) (\<lambda>(rv, s4). Ret (r, s4)))"

definition getHdmiInPortPersistValue :: "string \<Rightarrow> hin_state \<Rightarrow> bool \<times> hin_state" where
  "getHdmiInPortPersistValue key s = (let (v, s1) = hal_read key ''TRUE'' s in (v = ''TRUE'', s1))"

subsection \<open>Start and end of a platform object\<close>

definition getDynamicAutoLatencyConfig :: "hin_env \<Rightarrow> hin_state \<Rightarrow> hin_state" where
  "getDynamicAutoLatencyConfig e s =
     (case hi_rfc e of None \<Rightarrow> s
      | Some v \<Rightarrow> if strncasecmp0 v ''true'' 4 then s\<lparr>isDalsEnabled := True\<rparr> else s)"

definition InitialiseHAL_hin :: "hin_env \<Rightarrow> hin_state \<Rightarrow> hin_state" where
  "InitialiseHAL_hin e s =
     (let s1 = getDynamicAutoLatencyConfig e s
      in if he_tv e
         then let s2 = (if m_hdmiInPlatInitialized s1 = 0 then hal_log HinInit s1 else s1)
              in s2\<lparr>m_hdmiInPlatInitialized := m_hdmiInPlatInitialized s2 + 1\<rparr>
         else s1)"

definition DeInitialiseHAL_hin :: "hin_env \<Rightarrow> hin_state \<Rightarrow> hin_state" where
  "DeInitialiseHAL_hin e s =
     (let s1 = getDynamicAutoLatencyConfig e s
      in if he_tv e \<and> m_hdmiInPlatInitialized s1 \<noteq> 0
         then (if m_hdmiInPlatInitialized s1 = 1 then hal_log HinTerm s1 else s1)\<lparr>m_hdmiInPlatInitialized := 0\<rparr>
         else s1)"

text \<open>Every callback is stored; its HAL function is called if it is there (the first is linked).\<close>

fun cb_symbol :: "hin_cb \<Rightarrow> string" where
  "cb_symbol CbHotPlug = []"
| "cb_symbol CbSignal = ''dsHdmiInRegisterSignalChangeCB''"
| "cb_symbol CbStatus = ''dsHdmiInRegisterStatusChangeCB''"
| "cb_symbol CbVideoMode = ''dsHdmiInRegisterVideoModeUpdateCB''"
| "cb_symbol CbAllm = ''dsHdmiInRegisterAllmChangeCB''"
| "cb_symbol CbVRR = ''dsHdmiInRegisterVRRChangeCB''"
| "cb_symbol CbAvi = ''dsHdmiInRegisterAviContentTypeChangeCB''"
| "cb_symbol CbLatency = ''dsHdmiInRegisterAVLatencyChangeCB''"

definition register_cb :: "hin_env \<Rightarrow> nat \<Rightarrow> hin_cb \<Rightarrow> hin_state \<Rightarrow> hin_state" where
  "register_cb e i k s =
     (let s1 = s\<lparr>hin_cb := (hin_cb s)(k := Some i)\<rparr>
      in if (k = CbHotPlug \<or> he_symbol e (cb_symbol k)) \<and> (k = CbLatency \<longrightarrow> isDalsEnabled s1)
         then hal_log (HinRegister k) s1 else s1)"

definition setAllCallbacks_hin :: "hin_env \<Rightarrow> nat \<Rightarrow> hin_state \<Rightarrow> hin_state" where
  "setAllCallbacks_hin e i s =
     (if \<not> m_hdmiInInitialized s \<and> m_hdmiInPlatInitialized s \<noteq> 0 \<and> he_tv e
      then fold (register_cb e i) [CbHotPlug, CbSignal, CbStatus, CbVideoMode, CbAllm, CbVRR, CbAvi, CbLatency] s
      else s)"

text \<open>The stored version, else the default one, else 2.0.\<close>

definition read_version :: "hin_env \<Rightarrow> string \<Rightarrow> hin_state \<Rightarrow> int \<times> hin_state" where
  "read_version e key s =
     (case getProperty key (hs_store s) of
        (Ret v, st) \<Rightarrow> (atoi v, s\<lparr>hs_store := st\<rparr>)
      | (_, st) \<Rightarrow> (case getDefaultProperty key st of
            (Ret v, st2) \<Rightarrow> (atoi v, s\<lparr>hs_store := st2\<rparr>)
          | (_, st2) \<Rightarrow> (hi_ver20 e, s\<lparr>hs_store := st2\<rparr>)))"

definition load_arc :: "hin_env \<Rightarrow> int \<Rightarrow> hin_state \<Rightarrow> hin_state" where
  "load_arc e p s = (let (b, s1) = isHdmiARCPort e p s
     in s1\<lparr>isPortArcCapable := (isPortArcCapable s1)(p := b)\<rparr>)"

definition load_allm :: "int \<Rightarrow> hin_state \<Rightarrow> hin_state" where
  "load_allm p s = (let (b, s1) = getHdmiInPortPersistValue (port_key p ''edidallmEnable'') s
     in s1\<lparr>m_edidallmsupport := (m_edidallmsupport s1)(p := b)\<rparr>)"

definition load_vrr :: "int \<Rightarrow> hin_state \<Rightarrow> hin_state" where
  "load_vrr p s = (let (b, s1) = getHdmiInPortPersistValue (port_key p ''vrrEnable'') s
     in s1\<lparr>m_vrrsupport := (m_vrrsupport s1)(p := b)\<rparr>)"

definition load_version :: "hin_env \<Rightarrow> int \<Rightarrow> hin_state \<Rightarrow> hin_state" where
  "load_version e p s = (let (v, s1) = read_version e (port_key p ''edidversion'') s
     in s1\<lparr>m_edidversion := (m_edidversion s1)(p := v)\<rparr>)"

fun apply_versions :: "hin_env \<Rightarrow> int list \<Rightarrow> hin_state \<Rightarrow> hin_state outcome" where
  "apply_versions e [] s = Ret s"
| "apply_versions e (p # ps) s = obind (setEdidVersion e p (m_edidversion s p) s) (\<lambda>(r, s1). apply_versions e ps s1)"

text \<open>The number of inputs is a byte, 0 if the HAL does not answer.\<close>

definition input_count :: "hin_env \<Rightarrow> hin_state \<Rightarrow> nat" where
  "input_count e s = (if hal_ok e HinNumber s then nat (hal_int e HinNumber s mod 256) else 0)"

definition getPersistenceValue_hin :: "hin_env \<Rightarrow> hin_state \<Rightarrow> hin_state outcome" where
  "getPersistenceValue_hin e s =
     (if m_hdmiInInitialized s \<or> m_hdmiInPlatInitialized s = 0 then Ret s
      else let n = input_count e s; ports = map int [0..<n]; s1 = hal_log HinNumber s
           in if hi_max e < n then UB
              else obind (apply_versions e ports (fold (getVRRSupport e) ports (fold (load_version e) ports
                     (fold load_vrr ports (fold load_allm ports (fold (load_arc e) ports s1))))))
                   (\<lambda>s2. Ret (s2\<lparr>m_hdmiInInitialized := True\<rparr>)))"

text \<open>\<open>HdmiIn::Create\<close>: the platform object, then the forwarding object \<open>i\<close>; and its end.\<close>

definition HdmiIn_create :: "hin_env \<Rightarrow> nat \<Rightarrow> hin_state \<Rightarrow> hin_state outcome" where
  "HdmiIn_create e i s =
     getPersistenceValue_hin e (setAllCallbacks_hin e i ((InitialiseHAL_hin e s)\<lparr>hs_live := Some i\<rparr>))"

definition HdmiIn_destroy :: "hin_env \<Rightarrow> hin_state \<Rightarrow> hin_state" where
  "HdmiIn_destroy e s = (DeInitialiseHAL_hin e s)\<lparr>hs_live := None\<rparr>"

subsection \<open>Events\<close>

text \<open>The eight \<open>DS_On...\<close> functions: the callback of that kind is run, if it is set.\<close>

definition DS_OnHDMIInEvent :: "hin_event \<Rightarrow> hin_state \<Rightarrow> hin_state outcome" where
  "DS_OnHDMIInEvent ev s = hal_notify (hin_cb s (event_cb ev)) (HinEvent ev) s"

subsection \<open>The requests\<close>

definition hin_fail :: "hin_state \<Rightarrow> hin_result" where "hin_fail s = Ret (ERROR_GENERAL, None, s)"

text \<open>A query of the HAL; the optional ones are \<open>dsERR_GENERAL\<close> where the function is missing.\<close>

definition hin_query :: "hin_env \<Rightarrow> string \<Rightarrow> hin_call \<Rightarrow> (hin_call list \<Rightarrow> hin_val option) \<Rightarrow> hin_state \<Rightarrow> hin_result" where
  "hin_query e symbol c val s =
     (if symbol \<noteq> [] \<and> \<not> he_symbol e symbol then hin_fail s
      else if hal_ok e c s then Ret (ERROR_NONE, val (hs_trace s), hal_log c s) else hin_fail (hal_log c s))"

definition GetHDMIInNumberOfInputs :: "hin_env \<Rightarrow> hin_state \<Rightarrow> hin_result" where
  "GetHDMIInNumberOfInputs e s = hin_query e [] HinNumber (\<lambda>h. Some (HInt (he_int e h HinNumber mod 256))) s"

definition GetHDMIInStatus :: "hin_env \<Rightarrow> hin_state \<Rightarrow> hin_result" where
  "GetHDMIInStatus e s = hin_query e [] HinStatus (\<lambda>h. let (active, presented, connected) = hi_status e h
     in Some (HStatus active presented (take (hi_max e) connected))) s"

text \<open>The HAL gives the latencies of audio and video, in this order; the request video and audio.\<close>

definition GetHDMIInAVLatency :: "hin_env \<Rightarrow> hin_state \<Rightarrow> hin_result" where
  "GetHDMIInAVLatency e s = hin_query e ''dsGetAVLatency'' HinLatency (\<lambda>h. let (a, v) = hi_pair e h HinLatency
     in Some (HPair (uint (word_of_int v :: 32 word)) (uint (word_of_int a :: 32 word)))) s"

definition GetHDMIInAllmStatus :: "hin_env \<Rightarrow> int \<Rightarrow> hin_state \<Rightarrow> hin_result" where
  "GetHDMIInAllmStatus e p s = hin_query e ''dsGetAllmStatus'' (HinAllmStatus p)
     (\<lambda>h. Some (HBool (he_int e h (HinAllmStatus p) \<noteq> 0))) s"

text \<open>The ports are compared with \<open>dsHDMI_IN_PORT_MAX\<close> only.\<close>

definition GetHDMIInEdid2AllmSupport :: "hin_env \<Rightarrow> int \<Rightarrow> hin_state \<Rightarrow> hin_result" where
  "GetHDMIInEdid2AllmSupport e p s =
     (if int (hi_max e) \<le> p then hin_fail s
      else if p < 0 then UB else Ret (ERROR_NONE, Some (HBool (m_edidallmsupport s p)), s))"

definition SetHDMIInEdid2AllmSupport :: "hin_env \<Rightarrow> int \<Rightarrow> bool \<Rightarrow> hin_state \<Rightarrow> hin_result" where
  "SetHDMIInEdid2AllmSupport e p v s =
     (if int (hi_max e) \<le> p then hin_fail s
      else if p < 0 then UB
      else if m_edidversion s p \<noteq> hi_ver20 e then Ret (ERROR_UNAVAILABLE, None, s)
      else let (r, s1) = setEdid2AllmSupport e p v s
           in if r \<noteq> DsERR_NONE then hin_fail s1
              else let s2 = persist_port e p ''edidallmEnable'' (if v then ''TRUE'' else ''FALSE'') s1
                   in Ret (ERROR_NONE, None, s2\<lparr>m_edidallmsupport := (m_edidallmsupport s2)(p := v)\<rparr>))"

text \<open>Lines up to the comma; quotes and blanks are removed; at most as many as the HAL reports.\<close>

fun getlines_comma :: "string \<Rightarrow> string \<Rightarrow> string list" where
  "getlines_comma acc [] = (if acc = [] then [] else [rev acc])"
| "getlines_comma acc (c # s) = (if c = CHR '','' then rev acc # getlines_comma [] s else getlines_comma (c # acc) s)"

fun take_features :: "int \<Rightarrow> string list \<Rightarrow> string list" where
  "take_features n [] = []"
| "take_features n (l # ls) =
     (if n \<le> 0 then []
      else let f = filter (\<lambda>c. c \<noteq> CHR 0x22 \<and> c \<noteq> CHR 0x20) l
           in if f = [] then take_features n ls else f # take_features (n - 1) ls)"

definition game_features :: "int \<times> string \<Rightarrow> string list" where
  "game_features x = take_features (fst x) (getlines_comma [] (c_str (snd x)))"

definition GetSupportedGameFeaturesList :: "hin_env \<Rightarrow> hin_state \<Rightarrow> hin_result" where
  "GetSupportedGameFeaturesList e s = hin_query e ''dsGetSupportedGameFeaturesList'' HinFeatures
     (\<lambda>h. Some (HNames (game_features (hi_features e h)))) s"

definition SelectHDMIInPort :: "hin_env \<Rightarrow> int \<Rightarrow> bool \<Rightarrow> bool \<Rightarrow> int \<Rightarrow> hin_state \<Rightarrow> hin_result" where
  "SelectHDMIInPort e p requestAudioMix topMostPlane plane s =
     hin_query e [] (HinSelect p requestAudioMix plane topMostPlane) (\<lambda>_. None) s"

definition ScaleHDMIInVideo :: "hin_env \<Rightarrow> int \<Rightarrow> int \<Rightarrow> int \<Rightarrow> int \<Rightarrow> hin_state \<Rightarrow> hin_result" where
  "ScaleHDMIInVideo e x y w h s = hin_query e [] (HinScale x y w h) (\<lambda>_. None) s"

text \<open>A refusal is returned with the number of the HAL error.\<close>

definition SelectHDMIZoomMode :: "hin_env \<Rightarrow> int \<Rightarrow> hin_state \<Rightarrow> hin_result" where
  "SelectHDMIZoomMode e zoom s =
     (let c = HinZoom zoom; r = he_ret e (hs_trace s) c
      in Ret (if r = DsERR_NONE then ERROR_NONE else hi_raw e r, None, hal_log c s))"

definition GetEdidBytes :: "hin_env \<Rightarrow> int \<Rightarrow> int \<Rightarrow> hin_state \<Rightarrow> hin_result" where
  "GetEdidBytes e p len s = hin_query e ''dsGetEDIDBytesInfo'' (HinEdidBytes p len)
     (\<lambda>h. Some (HBytes (hi_bytes e h (HinEdidBytes p len)))) s"

definition GetHDMISPDInformation :: "hin_env \<Rightarrow> int \<Rightarrow> hin_state \<Rightarrow> hin_result" where
  "GetHDMISPDInformation e p s = hin_query e ''dsGetHDMISPDInfo'' (HinSPD p)
     (\<lambda>h. Some (HBytes (hi_bytes e h (HinSPD p)))) s"

definition GetHDMIEdidVersion :: "hin_env \<Rightarrow> int \<Rightarrow> hin_state \<Rightarrow> hin_result" where
  "GetHDMIEdidVersion e p s = hin_query e ''dsGetEdidVersion'' (HinGetEdid p)
     (\<lambda>h. Some (HInt (he_int e h (HinGetEdid p)))) s"

definition SetHDMIEdidVersion :: "hin_env \<Rightarrow> int \<Rightarrow> int \<Rightarrow> hin_state \<Rightarrow> hin_result" where
  "SetHDMIEdidVersion e p v s =
     obind (setEdidVersion e p v s) (\<lambda>(r, s1).
       if r \<noteq> DsERR_NONE then hin_fail s1
       else if \<not> in_array e p then UB
       else Ret (ERROR_NONE, None, s1\<lparr>m_edidversion := (m_edidversion s1)(p := v)\<rparr>))"

text \<open>Without an answer the out parameter is set too.\<close>

definition mode_error :: hin_mode where
  "mode_error = \<lparr>hm_name = ''ERROR'', hm_pixelResolution = 0, hm_aspectRatio = 0, hm_stereoScopicMode = 0,
     hm_frameRate = 0, hm_interlaced = False\<rparr>"

definition mode_answer :: "hin_env \<Rightarrow> hin_mode \<Rightarrow> hin_mode" where
  "mode_answer e m = (let n = c_str (hm_name m)
     in m\<lparr>hm_name := (if n \<noteq> [] \<and> length n < hi_name_size e then n else ''UNKNOWN'')\<rparr>)"

definition GetHDMIVideoMode :: "hin_env \<Rightarrow> hin_state \<Rightarrow> hin_result" where
  "GetHDMIVideoMode e s =
     (let s1 = hal_log HinVideoMode s
      in if hal_ok e HinVideoMode s then Ret (ERROR_NONE, Some (HMode (mode_answer e (hi_mode e (hs_trace s)))), s1)
         else Ret (ERROR_GENERAL, Some (HMode mode_error), s1))"

definition GetHDMIVersion :: "hin_env \<Rightarrow> int \<Rightarrow> hin_state \<Rightarrow> hin_result" where
  "GetHDMIVersion e p s = hin_query e ''dsGetHdmiVersion'' (HinVersion p)
     (\<lambda>h. Some (HInt (he_int e h (HinVersion p)))) s"

definition SetVRRSupport :: "hin_env \<Rightarrow> int \<Rightarrow> bool \<Rightarrow> hin_state \<Rightarrow> hin_result" where
  "SetVRRSupport e p v s =
     (if int (hi_max e) \<le> p then hin_fail s
      else if p < 0 then UB
      else if m_edidversion s p \<noteq> hi_ver20 e then Ret (ERROR_UNAVAILABLE, None, s)
      else obind (setVRRSupport e p v s) (\<lambda>(r, s1).
        if r \<noteq> DsERR_NONE then hin_fail s1
        else let s2 = persist_port e p ''vrrEnable'' (if v then ''TRUE'' else ''FALSE'') s1
             in Ret (ERROR_NONE, None, s2\<lparr>m_vrrsupport := (m_vrrsupport s2)(p := v)\<rparr>)))"

definition GetVRRSupport :: "hin_env \<Rightarrow> int \<Rightarrow> hin_state \<Rightarrow> hin_result" where
  "GetVRRSupport e p s =
     (if int (hi_max e) \<le> p then hin_fail s
      else if p < 0 then UB else Ret (ERROR_NONE, Some (HBool (m_vrrsupport s p)), s))"

definition GetVRRStatus :: "hin_env \<Rightarrow> int \<Rightarrow> hin_state \<Rightarrow> hin_result" where
  "GetVRRStatus e p s = hin_query e ''dsHdmiInGetVRRStatus'' (HinVRRStatus p)
     (\<lambda>h. let (t, rate) = hi_pair e h (HinVRRStatus p) in Some (HPair t rate)) s"

subsection \<open>The layers above\<close>

datatype hin_request =
    HNumber
  | HGetStatus
  | HSelect int bool bool int
  | HScale int int int int
  | HZoom int
  | HFeatures
  | HLatency
  | HAllmStatus int
  | HGetAllm int
  | HSetAllm int bool
  | HEdidBytes int int
  | HSPD int
  | HGetEdid int
  | HSetEdid int int
  | HVideoMode
  | HVersion int
  | HGetVRR int
  | HSetVRR int bool
  | HVRRStatus int

fun hin_platform :: "hin_env \<Rightarrow> hin_request \<Rightarrow> hin_state \<Rightarrow> hin_result" where
  "hin_platform e HNumber s = GetHDMIInNumberOfInputs e s"
| "hin_platform e HGetStatus s = GetHDMIInStatus e s"
| "hin_platform e (HSelect p mix front plane) s = SelectHDMIInPort e p mix front plane s"
| "hin_platform e (HScale x y w h) s = ScaleHDMIInVideo e x y w h s"
| "hin_platform e (HZoom z) s = SelectHDMIZoomMode e z s"
| "hin_platform e HFeatures s = GetSupportedGameFeaturesList e s"
| "hin_platform e HLatency s = GetHDMIInAVLatency e s"
| "hin_platform e (HAllmStatus p) s = GetHDMIInAllmStatus e p s"
| "hin_platform e (HGetAllm p) s = GetHDMIInEdid2AllmSupport e p s"
| "hin_platform e (HSetAllm p v) s = SetHDMIInEdid2AllmSupport e p v s"
| "hin_platform e (HEdidBytes p n) s = GetEdidBytes e p n s"
| "hin_platform e (HSPD p) s = GetHDMISPDInformation e p s"
| "hin_platform e (HGetEdid p) s = GetHDMIEdidVersion e p s"
| "hin_platform e (HSetEdid p v) s = SetHDMIEdidVersion e p v s"
| "hin_platform e HVideoMode s = GetHDMIVideoMode e s"
| "hin_platform e (HVersion p) s = GetHDMIVersion e p s"
| "hin_platform e (HGetVRR p) s = GetVRRSupport e p s"
| "hin_platform e (HSetVRR p v) s = SetVRRSupport e p v s"
| "hin_platform e (HVRRStatus p) s = GetVRRStatus e p s"

definition HdmiIn_call :: "bool \<Rightarrow> hin_env \<Rightarrow> hin_request \<Rightarrow> hin_state \<Rightarrow> hin_result" where
  "HdmiIn_call platform e req s = (if platform then hin_platform e req s else hin_fail s)"

text \<open>The COM methods keep only success or \<open>ERROR_GENERAL\<close>.\<close>

definition HdmiInImp_call :: "hin_env \<Rightarrow> hin_request \<Rightarrow> hin_state \<Rightarrow> hin_result" where
  "HdmiInImp_call e req s = obind (HdmiIn_call True e req s)
     (\<lambda>(r, out, s1). Ret (if r = ERROR_NONE then ERROR_NONE else ERROR_GENERAL, out, s1))"

text \<open>
  What happens in one process: an object is created or destroyed, a client makes a request, the
  HAL reports an event it was asked to report. The \<open>i\<close>-th step creates object \<open>i\<close>.
\<close>

datatype hin_op = HinCreate | HinDestroy | HinRequest hin_request | HinReport hin_event

fun hin_do :: "hin_env \<Rightarrow> nat \<Rightarrow> hin_op \<Rightarrow> hin_state \<Rightarrow> hin_state outcome" where
  "hin_do e i HinCreate s = (if hs_live s = None then HdmiIn_create e i s else Ret s)"
| "hin_do e i HinDestroy s = Ret (if hs_live s = None then s else HdmiIn_destroy e s)"
| "hin_do e i (HinRequest req) s = (if hs_live s = None then Ret s
     else obind (HdmiInImp_call e req s) (\<lambda>(r, out, s1). Ret s1))"
| "hin_do e i (HinReport ev) s =
     (if HinRegister (event_cb ev) \<in> set (hs_trace s) then DS_OnHDMIInEvent ev s else Ret s)"

fun hin_run :: "hin_env \<Rightarrow> nat \<Rightarrow> hin_op list \<Rightarrow> hin_state \<Rightarrow> hin_state outcome" where
  "hin_run e i [] s = Ret s"
| "hin_run e i (c # cs) s = obind (hin_do e i c s) (hin_run e (Suc i) cs)"

subsection \<open>What the operations change\<close>

lemma one_digit: "length (to_string v) < 2 \<longleftrightarrow> 0 \<le> v \<and> v \<le> 9"
proof -
  have n: "length (show_nat n) < 2 \<longleftrightarrow> n < 10" for n
    by (subst show_nat.simps) (auto simp: not_less length_greater_0_conv [symmetric] simp del: length_greater_0_conv)
  have pos: "0 < length (show_nat n)" for n by simp
  show ?thesis using n [of "nat v"] pos [of "nat (- v)"] by (auto simp: to_string_def simp del: length_greater_0_conv)
qed

lemma hin_fields [simp]:
  "m_hdmiInInitialized (hal_log c s) = m_hdmiInInitialized s"
  "m_hdmiInPlatInitialized (hal_log c s) = m_hdmiInPlatInitialized s"
  "isDalsEnabled (hal_log c s) = isDalsEnabled s"
  "isPortArcCapable (hal_log c s) = isPortArcCapable s"
  "m_edidallmsupport (hal_log c s) = m_edidallmsupport s"
  "m_vrrsupport (hal_log c s) = m_vrrsupport s"
  "m_hdmiPortVrrCaps (hal_log c s) = m_hdmiPortVrrCaps s"
  "m_edidversion (hal_log c s) = m_edidversion s"
  "hin_cb (hal_log c s) = hin_cb s"
  "m_hdmiInInitialized (hal_put e k v s) = m_hdmiInInitialized s"
  "m_hdmiInPlatInitialized (hal_put e k v s) = m_hdmiInPlatInitialized s"
  "isDalsEnabled (hal_put e k v s) = isDalsEnabled s"
  "isPortArcCapable (hal_put e k v s) = isPortArcCapable s"
  "m_edidallmsupport (hal_put e k v s) = m_edidallmsupport s"
  "m_vrrsupport (hal_put e k v s) = m_vrrsupport s"
  "m_hdmiPortVrrCaps (hal_put e k v s) = m_hdmiPortVrrCaps s"
  "m_edidversion (hal_put e k v s) = m_edidversion s"
  "hin_cb (hal_put e k v s) = hin_cb s"
  by (simp_all add: hal_log_def hal_put_def)

text \<open>Only the trace grows and the store changes.\<close>

definition hin_only :: "hin_state \<Rightarrow> hin_state \<Rightarrow> bool" where
  "hin_only s t \<longleftrightarrow> (\<exists>cs st. t = s\<lparr>hs_trace := hs_trace s @ cs, hs_store := st\<rparr>)"

lemma hin_only_refl [simp]: "hin_only s s"
proof -
  have "s = s\<lparr>hs_trace := hs_trace s @ [], hs_store := hs_store s\<rparr>" by simp
  then show ?thesis unfolding hin_only_def by blast
qed

lemma hin_only_log [simp]: "hin_only s (hal_log c s)"
proof -
  have "hal_log c s = s\<lparr>hs_trace := hs_trace s @ [c], hs_store := hs_store s\<rparr>" by (simp add: hal_log_def)
  then show ?thesis unfolding hin_only_def by blast
qed

lemma hin_only_put [simp]: "hin_only s (hal_put e k v s)"
proof -
  have "hal_put e k v s = s\<lparr>hs_trace := hs_trace s @ [], hs_store := hs_store (hal_put e k v s)\<rparr>"
    by (simp add: hal_put_def)
  then show ?thesis unfolding hin_only_def by blast
qed

lemma hin_only_trans [trans]: "hin_only s t \<Longrightarrow> hin_only t u \<Longrightarrow> hin_only s u"
  unfolding hin_only_def by fastforce

lemma hin_only_same:
  assumes "hin_only s t"
  shows "hs_live t = hs_live s" "m_hdmiInInitialized t = m_hdmiInInitialized s"
    "m_hdmiInPlatInitialized t = m_hdmiInPlatInitialized s" "m_edidallmsupport t = m_edidallmsupport s"
    "m_vrrsupport t = m_vrrsupport s" "m_edidversion t = m_edidversion s" "hin_cb t = hin_cb s"
    "m_hdmiPortVrrCaps t = m_hdmiPortVrrCaps s" "set (hs_trace s) \<subseteq> set (hs_trace t)"
  using assms by (auto simp: hin_only_def)

lemma optional_only: "hin_only s (snd (hin_optional e y c s))"
  by (simp add: hin_optional_def)

lemma setVRR_only: "in_array e p \<Longrightarrow> \<exists>r t. setVRRSupport e p v s = Ret (r, t) \<and> hin_only s t"
  using hin_only_trans [OF optional_only optional_only]
  by (auto simp: setVRRSupport_def Let_def case_prod_unfold) (metis prod.collapse)

lemma persist_only [simp]: "hin_only s (persist_port e p k v s)"
  by (simp add: persist_port_def)

lemma setEdid_only:
  assumes "in_array e p" and "0 \<le> v" and "v \<le> 9"
  shows "\<exists>r t. setEdidVersion e p v s = Ret (r, t) \<and> hin_only s t
     \<and> (he_symbol e ''dsSetEdidVersion'' \<longrightarrow> HinSetEdid p v \<in> set (hs_trace t))"
proof -
  obtain r1 s1 where s1: "hin_optional e ''dsSetEdidVersion'' (HinSetEdid p v) s = (r1, s1)"
    by (cases "hin_optional e ''dsSetEdidVersion'' (HinSetEdid p v) s")
  define s2 where "s2 = persist_port e p ''edidversion'' (to_string v) s1"
  obtain ra s3 where s3: "setEdid2AllmSupport e p (m_edidallmsupport s2 p) s2 = (ra, s3)"
    by (cases "setEdid2AllmSupport e p (m_edidallmsupport s2 p) s2")
  obtain rv s4 where s4: "setVRRSupport e p (m_vrrsupport s3 p) s3 = Ret (rv, s4)" "hin_only s3 s4"
    using setVRR_only [OF assms(1)] by blast
  have o: "hin_only s s1" "hin_only s1 s2" "hin_only s2 s3"
    using optional_only [of s e] optional_only [of s2 e] s1 s3
    by (metis snd_conv, simp add: s2_def, metis setEdid2AllmSupport_def snd_conv)
  have c: "he_symbol e ''dsSetEdidVersion'' \<Longrightarrow> HinSetEdid p v \<in> set (hs_trace s1)"
    using s1 by (auto simp: hin_optional_def)
  have "\<not> 2 \<le> length (to_string v)" using assms one_digit [of v] by simp
  then have "setEdidVersion e p v s = Ret (if r1 = DsERR_NONE then DsERR_NONE else r1,
      if r1 \<noteq> DsERR_NONE then s1 else if v \<noteq> hi_ver20 e then s2 else s4)"
    using assms(1) s1 s3 s4(1) by (simp add: setEdidVersion_def Let_def s2_def [symmetric])
  moreover have "hin_only s s2" "hin_only s s4" "hin_only s1 s4"
    using o s4(2) by (blast intro: hin_only_trans)+
  ultimately show ?thesis
    using o c hin_only_same(9) [OF o(2)] hin_only_same(9) [of s1 s4] by auto
qed

text \<open>
  C40. Which requests for an EDID version are safe: the version must have one decimal digit, since
  it is printed into a buffer of two bytes before anything else, and if the HAL accepts the version
  the port must have an element in the arrays. In all other cases the request has undefined behaviour.
\<close>

theorem edid_version_request_safe:
  "SetHDMIEdidVersion e p v s = UB \<longleftrightarrow>
     v < 0 \<or> 9 < v
     \<or> he_symbol e ''dsSetEdidVersion'' \<and> hal_ok e (HinSetEdid p v) s \<and> (p < 0 \<or> int (hi_max e) \<le> p)"
proof (cases "0 \<le> v \<and> v \<le> 9 \<and> in_array e p")
  case True
  then obtain r t where "setEdidVersion e p v s = Ret (r, t)" using setEdid_only [of e p v s] by blast
  with True show ?thesis by (auto simp: SetHDMIEdidVersion_def hin_fail_def in_array_def)
next
  case False
  have "length (to_string v) < 2 \<longleftrightarrow> 0 \<le> v \<and> v \<le> 9" by (rule one_digit)
  with False show ?thesis
    by (auto simp: SetHDMIEdidVersion_def setEdidVersion_def hin_optional_def Let_def hin_fail_def hal_ok_def not_le
        in_array_def)
qed

subsection \<open>The state after the start\<close>

definition stored_bit :: "host_store \<Rightarrow> string \<Rightarrow> bool" where
  "stored_bit st key \<longleftrightarrow> hp_get st key \<in> {None, Some ''TRUE''}"

definition stored_version :: "hin_env \<Rightarrow> host_store \<Rightarrow> int \<Rightarrow> int" where
  "stored_version e st p = (case hp_get st (port_key p ''edidversion'') of
       Some v \<Rightarrow> atoi v
     | None \<Rightarrow> (case map_of (hp_defaults (ensureInitialized st)) (port_key p ''edidversion'') of
           Some v \<Rightarrow> atoi v
         | None \<Rightarrow> hi_ver20 e))"

lemma port_key_nonempty [simp]: "port_key p k \<noteq> []"
  by (simp add: port_key_def)

lemma load_eqs:
  "load_allm p s = s\<lparr>hs_store := ensureInitialized (hs_store s),
     m_edidallmsupport := (m_edidallmsupport s)(p := stored_bit (hs_store s) (port_key p ''edidallmEnable''))\<rparr>"
  "load_vrr p s = s\<lparr>hs_store := ensureInitialized (hs_store s),
     m_vrrsupport := (m_vrrsupport s)(p := stored_bit (hs_store s) (port_key p ''vrrEnable''))\<rparr>"
  "load_version e p s = s\<lparr>hs_store := ensureInitialized (hs_store s),
     m_edidversion := (m_edidversion s)(p := stored_version e (hs_store s) p)\<rparr>"
  by (auto simp: load_allm_def load_vrr_def load_version_def getHdmiInPortPersistValue_def hal_read_eq stored_bit_def
      read_version_def stored_version_def getProperty_def getDefaultProperty_def hp_get_def Let_def split: option.splits)

lemma stored_init [simp]:
  "stored_bit (ensureInitialized st) k = stored_bit st k"
  "stored_version e (ensureInitialized st) p = stored_version e st p"
  by (simp_all add: stored_bit_def stored_version_def split: option.split)

definition settled :: "nat \<Rightarrow> host_store \<Rightarrow> host_store" where
  "settled n st = (if n = 0 then st else ensureInitialized st)"

lemma stored_version_settled [simp]: "stored_version e (settled n st) = stored_version e st"
  by (rule ext) (simp add: settled_def)

lemma settled_simps [simp]:
  "ensureInitialized (settled n st) = ensureInitialized st" "stored_bit (settled n st) k = stored_bit st k"
  "settled (Suc n) st = ensureInitialized st"
  "hp_get (settled n st) k = hp_get st k"
  by (simp_all add: settled_def)

definition below :: "nat \<Rightarrow> (int \<Rightarrow> 'a) \<Rightarrow> (int \<Rightarrow> 'a) \<Rightarrow> int \<Rightarrow> 'a" where
  "below n f g p = (if 0 \<le> p \<and> p < int n then f p else g p)"

lemma below_simps [simp]: "below 0 f g = g" "(below n f g)(int n := f (int n)) = below (Suc n) f g"
  by (auto simp: below_def fun_eq_iff)

lemma fold_loads:
  "fold load_allm (map int [0..<n]) s = s\<lparr>hs_store := settled n (hs_store s), m_edidallmsupport :=
     below n (\<lambda>q. stored_bit (hs_store s) (port_key q ''edidallmEnable'')) (m_edidallmsupport s)\<rparr>"
  "fold load_vrr (map int [0..<n]) s = s\<lparr>hs_store := settled n (hs_store s), m_vrrsupport :=
     below n (\<lambda>q. stored_bit (hs_store s) (port_key q ''vrrEnable'')) (m_vrrsupport s)\<rparr>"
  "fold (load_version e) (map int [0..<n]) s = s\<lparr>hs_store := settled n (hs_store s), m_edidversion :=
     below n (stored_version e (hs_store s)) (m_edidversion s)\<rparr>"
proof (induction n)
  case 0
  { case 1 then show ?case by (simp add: settled_def) }
  { case 2 then show ?case by (simp add: settled_def) }
  { case 3 then show ?case by (simp add: settled_def) }
next
  case (Suc n)
  { case 1 show ?case
      using Suc.IH(1) below_simps(2) [of n "\<lambda>q. stored_bit (hs_store s) (port_key q ''edidallmEnable'')"]
      by (simp add: load_eqs) }
  { case 2 show ?case
      using Suc.IH(2) below_simps(2) [of n "\<lambda>q. stored_bit (hs_store s) (port_key q ''vrrEnable'')"]
      by (simp add: load_eqs) }
  { case 3 then show ?case using Suc.IH(3) by (simp add: load_eqs) }
qed

lemma apply_versions_only:
  assumes "\<forall>p \<in> set ps. in_array e p \<and> 0 \<le> m_edidversion s p \<and> m_edidversion s p \<le> 9"
  shows "\<exists>t. apply_versions e ps s = Ret t \<and> hin_only s t
     \<and> (he_symbol e ''dsSetEdidVersion'' \<longrightarrow> (\<forall>p \<in> set ps. HinSetEdid p (m_edidversion s p) \<in> set (hs_trace t)))"
  using assms
proof (induction ps arbitrary: s)
  case (Cons p ps)
  then obtain r s1 where s1: "setEdidVersion e p (m_edidversion s p) s = Ret (r, s1)" "hin_only s s1"
      "he_symbol e ''dsSetEdidVersion'' \<Longrightarrow> HinSetEdid p (m_edidversion s p) \<in> set (hs_trace s1)"
    using setEdid_only [of e p "m_edidversion s p" s] by auto
  moreover have v: "m_edidversion s1 = m_edidversion s" using s1(2) by (rule hin_only_same)
  then obtain t where t: "apply_versions e ps s1 = Ret t" "hin_only s1 t"
      "he_symbol e ''dsSetEdidVersion'' \<Longrightarrow> \<forall>q \<in> set ps. HinSetEdid q (m_edidversion s q) \<in> set (hs_trace t)"
    using Cons.IH [of s1] Cons.prems by auto
  ultimately show ?case
    using hin_only_trans [OF s1(2) t(2)] hin_only_same(9) [OF t(2)] by auto
qed simp

text \<open>Reading the capabilities of the ports.\<close>

definition probes :: "hin_state \<Rightarrow> hin_state \<Rightarrow> bool" where
  "probes s t \<longleftrightarrow> hs_live t = hs_live s \<and> hs_store t = hs_store s \<and> m_hdmiInInitialized t = m_hdmiInInitialized s
     \<and> m_hdmiInPlatInitialized t = m_hdmiInPlatInitialized s \<and> m_edidallmsupport t = m_edidallmsupport s
     \<and> m_vrrsupport t = m_vrrsupport s \<and> m_edidversion t = m_edidversion s \<and> hin_cb t = hin_cb s
     \<and> set (hs_trace s) \<subseteq> set (hs_trace t)"

lemma fold_probes:
  assumes "\<And>p t. probes t (f p t)"
  shows "probes s (fold f ps s)"
proof (induction ps arbitrary: s)
  case (Cons p ps)
  with assms [of s p] show ?case by (fastforce simp: probes_def)
qed (simp add: probes_def)

lemma probes_arc: "probes s (fold (load_arc e) ps s)"
  by (rule fold_probes) (simp add: probes_def load_arc_def isHdmiARCPort_def Let_def subset_insertI)

lemma probes_caps: "probes s (fold (getVRRSupport e) ps s)"
  by (rule fold_probes) (auto simp: probes_def getVRRSupport_def hin_optional_def Let_def)

text \<open>On a TV, in a new process, if the stored versions have one digit.\<close>

definition can_start :: "hin_env \<Rightarrow> nat \<Rightarrow> host_store \<Rightarrow> bool" where
  "can_start e n st \<longleftrightarrow> he_tv e \<and> n \<le> hi_max e \<and> n < 256
     \<and> (\<forall>h. he_ret e h HinNumber = DsERR_NONE \<and> he_int e h HinNumber = int n)
     \<and> (\<forall>p. 0 \<le> p \<and> p < int n \<longrightarrow> 0 \<le> stored_version e st p \<and> stored_version e st p \<le> 9)"

lemma register_cb_eq:
  "register_cb e i k s = s\<lparr>hs_trace := hs_trace s @
      (if (k = CbHotPlug \<or> he_symbol e (cb_symbol k)) \<and> (k = CbLatency \<longrightarrow> isDalsEnabled s) then [HinRegister k] else []),
      hin_cb := (hin_cb s)(k := Some i)\<rparr>"
  by (simp add: register_cb_def hal_log_def Let_def)

lemma setAllCallbacks_first:
  fixes e :: hin_env and i :: nat
  assumes "\<not> m_hdmiInInitialized s" and "m_hdmiInPlatInitialized s \<noteq> 0" and "he_tv e"
  defines "t \<equiv> setAllCallbacks_hin e i s"
  shows "hin_cb t = (\<lambda>_. Some i)" and "hs_live t = hs_live s" and "hs_store t = hs_store s"
    and "m_hdmiInInitialized t = m_hdmiInInitialized s" and "m_hdmiInPlatInitialized t = m_hdmiInPlatInitialized s"
    and "k \<noteq> CbLatency \<Longrightarrow> k = CbHotPlug \<or> he_symbol e (cb_symbol k) \<Longrightarrow> HinRegister k \<in> set (hs_trace t)"
proof -
  show "hin_cb t = (\<lambda>_. Some i)"
  proof
    fix k
    show "hin_cb t k = Some i" using assms by (cases k) (simp_all add: setAllCallbacks_hin_def register_cb_eq)
  qed
  show "k \<noteq> CbLatency \<Longrightarrow> k = CbHotPlug \<or> he_symbol e (cb_symbol k) \<Longrightarrow> HinRegister k \<in> set (hs_trace t)"
    using assms by (cases k) (simp_all add: setAllCallbacks_hin_def register_cb_eq)
qed (use assms in \<open>simp_all add: setAllCallbacks_hin_def register_cb_eq\<close>)

lemma create_loaded:
  assumes "can_start e n st"
  shows "\<exists>s t. HdmiIn_create e i (hin_static st) = Ret (t\<lparr>m_hdmiInInitialized := True\<rparr>)
    \<and> apply_versions e (map int [0..<n]) s = Ret t
    \<and> hs_live s = Some i \<and> hin_cb s = (\<lambda>_. Some i) \<and> m_hdmiInPlatInitialized s = 1 \<and> hs_store s \<in> {st, ensureInitialized st}
    \<and> m_edidversion s = below n (stored_version e st) (\<lambda>_. 0)
    \<and> m_edidallmsupport s = below n (\<lambda>q. stored_bit st (port_key q ''edidallmEnable'')) (\<lambda>_. False)
    \<and> m_vrrsupport s = below n (\<lambda>q. stored_bit st (port_key q ''vrrEnable'')) (\<lambda>_. False)
    \<and> (\<forall>k. k \<noteq> CbLatency \<and> (k = CbHotPlug \<or> he_symbol e (cb_symbol k)) \<longrightarrow> HinRegister k \<in> set (hs_trace s))
    \<and> hin_only s t
    \<and> (he_symbol e ''dsSetEdidVersion'' \<longrightarrow> (\<forall>p \<in> set (map int [0..<n]). HinSetEdid p (m_edidversion s p) \<in> set (hs_trace t)))"
proof -
  have e: "he_tv e" "n \<le> hi_max e" "n < 256" "\<And>h. he_ret e h HinNumber = DsERR_NONE" "\<And>h. he_int e h HinNumber = int n"
    and digit: "\<And>p. 0 \<le> p \<Longrightarrow> p < int n \<Longrightarrow> 0 \<le> stored_version e st p \<and> stored_version e st p \<le> 9"
    using assms by (auto simp: can_start_def)
  let ?s0 = "(InitialiseHAL_hin e (hin_static st))\<lparr>hs_live := Some i\<rparr>"
  have s0: "\<not> m_hdmiInInitialized ?s0" "m_hdmiInPlatInitialized ?s0 = 1" "hs_live ?s0 = Some i" "hs_store ?s0 = st"
      "m_edidversion ?s0 = (\<lambda>_. 0)" "m_edidallmsupport ?s0 = (\<lambda>_. False)" "m_vrrsupport ?s0 = (\<lambda>_. False)"
    using e(1) by (simp_all add: InitialiseHAL_hin_def getDynamicAutoLatencyConfig_def hin_static_def Let_def split: option.split)
  define s1 where "s1 = setAllCallbacks_hin e i ?s0"
  note f = setAllCallbacks_first [OF s0(1) _ e(1), where i = i, folded s1_def]
  have s1: "hin_cb s1 = (\<lambda>_. Some i)" "hs_live s1 = Some i" "hs_store s1 = st" "\<not> m_hdmiInInitialized s1"
      "m_hdmiInPlatInitialized s1 = 1" "m_edidversion s1 = (\<lambda>_. 0)" "m_edidallmsupport s1 = (\<lambda>_. False)"
      "m_vrrsupport s1 = (\<lambda>_. False)"
    using f s0 e(1) by (simp_all, simp_all add: s1_def setAllCallbacks_hin_def register_cb_eq)
  have reg: "\<forall>k. k \<noteq> CbLatency \<and> (k = CbHotPlug \<or> he_symbol e (cb_symbol k)) \<longrightarrow> HinRegister k \<in> set (hs_trace s1)"
    using f(6) s0(2) by simp
  let ?ps = "map int [0..<n]"
  define s2 where "s2 = fold (load_arc e) ?ps (hal_log HinNumber s1)"
  define s3 where "s3 = fold (load_version e) ?ps (fold load_vrr ?ps (fold load_allm ?ps s2))"
  define s4 where "s4 = fold (getVRRSupport e) ?ps s3"
  have s2: "probes (hal_log HinNumber s1) s2" by (simp add: s2_def probes_arc)
  have s3: "m_edidversion s3 = below n (stored_version e st) (\<lambda>_. 0)"
      "m_edidallmsupport s3 = below n (\<lambda>q. stored_bit st (port_key q ''edidallmEnable'')) (\<lambda>_. False)"
      "m_vrrsupport s3 = below n (\<lambda>q. stored_bit st (port_key q ''vrrEnable'')) (\<lambda>_. False)"
      "hs_live s3 = Some i" "hin_cb s3 = (\<lambda>_. Some i)" "m_hdmiInPlatInitialized s3 = 1" "set (hs_trace s1) \<subseteq> set (hs_trace s3)"
    using s1 s2 by (simp_all add: s3_def fold_loads probes_def)
  have "hs_store s3 \<in> {st, ensureInitialized st}"
    using s1(3) s2 by (simp add: s3_def fold_loads probes_def, simp add: settled_def)
  note s3 = s3 this
  have s4: "probes s3 s4" by (simp add: s4_def probes_caps)
  have "\<forall>p \<in> set ?ps. in_array e p \<and> 0 \<le> m_edidversion s4 p \<and> m_edidversion s4 p \<le> 9"
    using digit e(2) s3(1) s4 by (auto simp: in_array_def probes_def below_def)
  then obtain t where t: "apply_versions e ?ps s4 = Ret t" "hin_only s4 t"
      "he_symbol e ''dsSetEdidVersion'' \<longrightarrow> (\<forall>p \<in> set ?ps. HinSetEdid p (m_edidversion s4 p) \<in> set (hs_trace t))"
    using apply_versions_only by blast
  have "input_count e s1 = n" using e(3-5) by (simp add: input_count_def hal_ok_def hal_int_def)
  then have "HdmiIn_create e i (hin_static st) = Ret (t\<lparr>m_hdmiInInitialized := True\<rparr>)"
    using s1(4,5) e(2) t(1)
    by (simp add: HdmiIn_create_def s1_def [symmetric] getPersistenceValue_hin_def s2_def s3_def s4_def)
  moreover have "\<forall>k. k \<noteq> CbLatency \<and> (k = CbHotPlug \<or> he_symbol e (cb_symbol k)) \<longrightarrow> HinRegister k \<in> set (hs_trace s4)"
    using reg s3(7) s4 by (auto simp: probes_def)
  ultimately show ?thesis
    using t s3 s4 by (intro exI [of _ s4] exI [of _ t]) (simp add: probes_def)
qed

lemma create_first:
  assumes "can_start e n st"
  shows "\<exists>t. HdmiIn_create e i (hin_static st) = Ret t \<and> hs_live t = Some i \<and> hin_cb t = (\<lambda>_. Some i)
    \<and> m_hdmiInInitialized t \<and> m_hdmiInPlatInitialized t = 1
    \<and> m_edidversion t = below n (stored_version e st) (\<lambda>_. 0)
    \<and> m_edidallmsupport t = below n (\<lambda>q. stored_bit st (port_key q ''edidallmEnable'')) (\<lambda>_. False)
    \<and> m_vrrsupport t = below n (\<lambda>q. stored_bit st (port_key q ''vrrEnable'')) (\<lambda>_. False)
    \<and> (\<forall>k. k \<noteq> CbLatency \<and> (k = CbHotPlug \<or> he_symbol e (cb_symbol k)) \<longrightarrow> HinRegister k \<in> set (hs_trace t))
    \<and> (he_symbol e ''dsSetEdidVersion'' \<longrightarrow>
         (\<forall>p. 0 \<le> p \<and> p < int n \<longrightarrow> HinSetEdid p (stored_version e st p) \<in> set (hs_trace t)))"
proof -
  from create_loaded [OF assms, of i] obtain s t where c: "HdmiIn_create e i (hin_static st) = Ret (t\<lparr>m_hdmiInInitialized := True\<rparr>)"
    and s: "hs_live s = Some i" "hin_cb s = (\<lambda>_. Some i)" "m_hdmiInPlatInitialized s = 1"
      "m_edidversion s = below n (stored_version e st) (\<lambda>_. 0)"
      "m_edidallmsupport s = below n (\<lambda>q. stored_bit st (port_key q ''edidallmEnable'')) (\<lambda>_. False)"
      "m_vrrsupport s = below n (\<lambda>q. stored_bit st (port_key q ''vrrEnable'')) (\<lambda>_. False)"
      "\<forall>k. k \<noteq> CbLatency \<and> (k = CbHotPlug \<or> he_symbol e (cb_symbol k)) \<longrightarrow> HinRegister k \<in> set (hs_trace s)"
    and t: "hin_only s t"
      "he_symbol e ''dsSetEdidVersion'' \<longrightarrow> (\<forall>p \<in> set (map int [0..<n]). HinSetEdid p (m_edidversion s p) \<in> set (hs_trace t))"
    by blast
  have "he_symbol e ''dsSetEdidVersion'' \<longrightarrow>
      (\<forall>p. 0 \<le> p \<and> p < int n \<longrightarrow> HinSetEdid p (stored_version e st p) \<in> set (hs_trace t))"
  proof (intro impI allI)
    fix p
    assume y: "he_symbol e ''dsSetEdidVersion''" and p: "0 \<le> p \<and> p < int n"
    have "p \<in> set (map int [0..<n])" using p by (auto simp: image_iff intro!: bexI [of _ "nat p"])
    with y t(2) have "HinSetEdid p (m_edidversion s p) \<in> set (hs_trace t)" by blast
    moreover have "m_edidversion s p = stored_version e st p" using p s(4) by (simp add: below_def)
    ultimately show "HinSetEdid p (stored_version e st p) \<in> set (hs_trace t)" by simp
  qed
  moreover have "\<forall>k. k \<noteq> CbLatency \<and> (k = CbHotPlug \<or> he_symbol e (cb_symbol k)) \<longrightarrow> HinRegister k \<in> set (hs_trace t)"
    using s(7) hin_only_same(9) [OF t(1)] by blast
  moreover define u where "u = t\<lparr>m_hdmiInInitialized := True\<rparr>"
  moreover have "hs_trace u = hs_trace t" "hs_live u = Some i" "hin_cb u = (\<lambda>_. Some i)" "m_hdmiInInitialized u"
      "m_hdmiInPlatInitialized u = 1" "m_edidversion u = below n (stored_version e st) (\<lambda>_. 0)"
      "m_edidallmsupport u = below n (\<lambda>q. stored_bit st (port_key q ''edidallmEnable'')) (\<lambda>_. False)"
      "m_vrrsupport u = below n (\<lambda>q. stored_bit st (port_key q ''vrrEnable'')) (\<lambda>_. False)"
    using s(1-6) hin_only_same(1-7) [OF t(1)] by (simp_all add: u_def)
  ultimately show ?thesis
    using c by (intro exI [of _ u] conjI) (simp only:)+
qed

subsection \<open>Settings and listeners over a restart\<close>

lemma word_ok_append: "word_ok a \<Longrightarrow> word_ok b \<Longrightarrow> length a + length b \<le> 1023 \<Longrightarrow> word_ok (a @ b)"
  by (auto simp: word_ok_def)

lemma word_ok_digit:
  assumes "0 \<le> p" and "p \<le> 9"
  shows "word_ok (to_string p)" and "length (to_string p) < 2"
proof -
  show l: "length (to_string p) < 2" using assms by (simp add: one_digit)
  with assms show "word_ok (to_string p)"
    using show_nat_chars [of _ "nat p"] by (auto simp: word_ok_def to_string_def)
qed

lemma port_key_words:
  assumes "0 \<le> p" and "p \<le> 9" and "k \<in> {''edidversion'', ''edidallmEnable'', ''vrrEnable''}"
  shows "word_ok (port_key p k)"
proof -
  have k: "word_ok (''.'' @ k)" "length k \<le> 20" using assms(3) by (auto simp: word_ok_def isspace_def)
  have h: "word_ok ''HDMI''" by (simp add: word_ok_def isspace_def)
  have "word_ok (to_string p @ ''.'' @ k)"
    by (rule word_ok_append [OF word_ok_digit(1) [OF assms(1,2)] k(1)]) (use word_ok_digit(2) [OF assms(1,2)] k(2) in simp)
  then show ?thesis
    unfolding port_key_def by (rule word_ok_append [OF h]) (use word_ok_digit(2) [OF assms(1,2)] k(2) in simp)
qed

lemma port_key_inj:
  assumes "0 \<le> p" and "p \<le> 9" and "0 \<le> q" and "q \<le> 9"
  shows "port_key p k = port_key q l \<longleftrightarrow> p = q \<and> k = l"
proof -
  have one: "length (to_string i) = 1" if "0 \<le> i" "i \<le> 9" for i
    using word_ok_digit(2) [OF that] to_string_nonempty [of i] by (cases "to_string i") auto
  have "length (to_string p) = length (to_string q)" using one assms by simp
  moreover have "to_string p = to_string q \<longleftrightarrow> p = q" by (metis atoi_to_string)
  ultimately show ?thesis by (simp add: port_key_def)
qed

text \<open>The arrays agree with the store for the ports that are stored.\<close>

definition mirrors :: "hin_env \<Rightarrow> nat \<Rightarrow> hin_state \<Rightarrow> bool" where
  "mirrors e n s \<longleftrightarrow> (\<forall>p. 0 \<le> p \<and> p \<le> 3 \<and> p < int n \<longrightarrow>
     m_edidversion s p = stored_version e (hs_store s) p
     \<and> m_edidallmsupport s p = stored_bit (hs_store s) (port_key p ''edidallmEnable'')
     \<and> m_vrrsupport s p = stored_bit (hs_store s) (port_key p ''vrrEnable''))"

lemma stored_put:
  assumes "hp_durable st" and "0 \<le> p" and "p \<le> 3" and "0 \<le> q" and "q \<le> 3" and "v \<noteq> []"
  shows "stored_version e (hp_put io_full (port_key p k) v st) q
       = (if p = q \<and> k = ''edidversion'' then atoi v else stored_version e st q)"
    and "stored_bit (hp_put io_full (port_key p k) v st) (port_key q l)
       = (if p = q \<and> k = l then v = ''TRUE'' else stored_bit st (port_key q l))"
proof -
  have ok: "hp_ok st" using assms(1) by (simp add: hp_durable_def)
  have inj: "port_key q l = port_key p k \<longleftrightarrow> p = q \<and> k = l" for l
    using assms by (auto simp: port_key_inj)
  have d: "hp_defaults (ensureInitialized (hp_put io_full (port_key p k) v st)) = hp_defaults (ensureInitialized st)"
    using assms(6) put_initialized [of "port_key p k" v io_full st]
    by (simp add: ensureInitialized_def [of "hp_put io_full (port_key p k) v st"] put_defaults)
  show "stored_version e (hp_put io_full (port_key p k) v st) q
       = (if p = q \<and> k = ''edidversion'' then atoi v else stored_version e st q)"
    using ok assms(6) by (simp add: stored_version_def hp_get_put inj d split: option.split)
  show "stored_bit (hp_put io_full (port_key p k) v st) (port_key q l)
       = (if p = q \<and> k = l then v = ''TRUE'' else stored_bit st (port_key q l))"
    using ok assms(6) by (auto simp: stored_bit_def hp_get_put inj)
qed

text \<open>The effect on the store: none, or the new value of the port.\<close>

lemma optional_store [simp]: "hs_store (snd (hin_optional e y c s)) = hs_store s"
  by (simp add: hin_optional_def)

lemma setVRR_store:
  assumes "setVRRSupport e p v s = Ret (r, t)"
  shows "hs_store t = hs_store s"
proof -
  let ?o = "hin_optional e ''dsHdmiInSetVRRSupport'' (HinSetVRR p v)"
  have "t = s \<or> t = snd (?o (snd (?o s)))"
    using assms by (auto simp: setVRRSupport_def Let_def case_prod_unfold split: if_splits dest: arg_cong [of _ _ snd])
  then show ?thesis by auto
qed

lemma setEdid_store:
  assumes "setEdidVersion e p v s = Ret (r, t)" and "he_io e = io_full"
  shows "hs_store t = (if r = DsERR_NONE \<and> p \<in> {0, 1, 2, 3}
      then hp_put io_full (port_key p ''edidversion'') (to_string v) (hs_store s) else hs_store s)"
    and "0 \<le> v \<and> v \<le> 9"
proof -
  show "0 \<le> v \<and> v \<le> 9"
    using assms(1) one_digit [of v] by (auto simp: setEdidVersion_def not_le split: if_splits)
  obtain r1 s1 where s1: "hin_optional e ''dsSetEdidVersion'' (HinSetEdid p v) s = (r1, s1)"
    by (cases "hin_optional e ''dsSetEdidVersion'' (HinSetEdid p v) s")
  define s2 where "s2 = persist_port e p ''edidversion'' (to_string v) s1"
  obtain ra s3 where s3: "setEdid2AllmSupport e p (m_edidallmsupport s2 p) s2 = (ra, s3)"
    by (cases "setEdid2AllmSupport e p (m_edidallmsupport s2 p) s2")
  have st: "hs_store s1 = hs_store s" "hs_store s3 = hs_store s2"
    using optional_store [of e _ _ s] optional_store [of e _ _ s2] s1 s3
    by (metis snd_conv, metis setEdid2AllmSupport_def snd_conv)
  have "r = r1 \<and> (if r1 \<noteq> DsERR_NONE then t = s1 else if v \<noteq> hi_ver20 e then t = s2
      else \<exists>rv. setVRRSupport e p (m_vrrsupport s3 p) s3 = Ret (rv, t))"
    using assms(1) s1 s3
    by (auto simp: setEdidVersion_def Let_def s2_def [symmetric] obind_Ret_iff split: if_splits)
  then have "hs_store t = (if r = DsERR_NONE then hs_store s2 else hs_store s)"
    using st setVRR_store by (auto split: if_splits)
  then show "hs_store t = (if r = DsERR_NONE \<and> p \<in> {0, 1, 2, 3}
      then hp_put io_full (port_key p ''edidversion'') (to_string v) (hs_store s) else hs_store s)"
    using st assms(2) by (auto simp: s2_def persist_port_def)
qed

text \<open>Each setter keeps the arrays and the store in step.\<close>

definition in_step :: "hin_env \<Rightarrow> nat \<Rightarrow> hin_state \<Rightarrow> bool" where
  "in_step e n s \<longleftrightarrow> hp_durable (hs_store s) \<and> m_hdmiInInitialized s \<and> mirrors e n s"

lemma in_step_same:
  assumes "in_step e n s" and "hs_store t = hs_store s" and "m_hdmiInInitialized t = m_hdmiInInitialized s"
    and "m_edidversion t = m_edidversion s" and "m_edidallmsupport t = m_edidallmsupport s" and "m_vrrsupport t = m_vrrsupport s"
  shows "in_step e n t"
  using assms by (simp add: in_step_def mirrors_def)

lemma in_step_put:
  assumes s: "in_step e n s" and k: "k \<in> {''edidversion'', ''edidallmEnable'', ''vrrEnable''}" and v: "word_ok v"
    and store: "hs_store t = (if p \<in> {0, 1, 2, 3} then hp_put io_full (port_key p k) v (hs_store s) else hs_store s)"
    and ini: "m_hdmiInInitialized t"
    and ver: "m_edidversion t = (if k = ''edidversion'' then (m_edidversion s)(p := atoi v) else m_edidversion s)"
    and allm: "m_edidallmsupport t = (if k = ''edidallmEnable'' then (m_edidallmsupport s)(p := v = ''TRUE'') else m_edidallmsupport s)"
    and vrr: "m_vrrsupport t = (if k = ''vrrEnable'' then (m_vrrsupport s)(p := v = ''TRUE'') else m_vrrsupport s)"
  shows "in_step e n t"
proof (cases "p \<in> {0, 1, 2, 3}")
  case True
  then have p: "0 \<le> p" "p \<le> 3" by auto
  have d: "hp_durable (hs_store s)" and m: "mirrors e n s" using s by (simp_all add: in_step_def)
  have ne: "v \<noteq> []" using v by (simp add: word_ok_def)
  have "hp_durable (hs_store t)"
    using d v k p store True by (simp add: hp_durable_put port_key_words)
  moreover have "mirrors e n t"
    using m store True stored_put [OF d p _ _ ne] by (auto simp: mirrors_def ver allm vrr)
  ultimately show ?thesis using ini by (simp add: in_step_def)
next
  case False
  then have "\<And>q. 0 \<le> q \<Longrightarrow> q \<le> 3 \<Longrightarrow> q \<noteq> p" by auto
  then have "mirrors e n t" using s store False by (simp add: in_step_def mirrors_def ver allm vrr)
  then show ?thesis using s store False ini by (simp add: in_step_def)
qed

lemma SetEdid_in_step:
  assumes "in_step e n s" and "he_io e = io_full" and "SetHDMIEdidVersion e p v s = Ret (r, out, t)"
  shows "in_step e n t \<and> hs_live t = hs_live s \<and> hin_cb t = hin_cb s \<and> (r = ERROR_NONE \<longrightarrow> m_edidversion t p = v)"
proof -
  obtain q s1 where q: "setEdidVersion e p v s = Ret (q, s1)" using assms(3) by (auto simp: SetHDMIEdidVersion_def obind_Ret_iff)
  note st = setEdid_store [OF q assms(2)]
  show ?thesis
  proof (cases "q = DsERR_NONE")
    case True
    then have a: "in_array e p" and t: "t = s1\<lparr>m_edidversion := (m_edidversion s1)(p := v)\<rparr>"
      using assms(3) q by (auto simp: SetHDMIEdidVersion_def split: if_splits)
    then have o: "hin_only s s1" using setEdid_only [of e p v s] st(2) q by auto
    have "in_step e n t"
      by (rule in_step_put [OF assms(1), of "''edidversion''" "to_string v" t p])
        (use hin_only_same [OF o] t st True assms(1) in \<open>simp_all add: word_ok_digit atoi_to_string in_step_def\<close>)
    then show ?thesis using hin_only_same [OF o] t by simp
  next
    case False
    then have t: "t = s1" "r \<noteq> ERROR_NONE" using assms(3) q by (auto simp: SetHDMIEdidVersion_def hin_fail_def)
    have "s1 = snd (hin_optional e ''dsSetEdidVersion'' (HinSetEdid p v) s)"
      using q False by (auto simp: setEdidVersion_def Let_def case_prod_unfold obind_Ret_iff split: if_splits)
    then have o: "hin_only s s1" using optional_only by simp
    have "in_step e n t"
      by (rule in_step_same [OF assms(1)]) (use hin_only_same [OF o] t st False in simp_all)
    then show ?thesis using hin_only_same [OF o] t by simp
  qed
qed

lemma SetAllm_in_step:
  assumes "in_step e n s" and "he_io e = io_full" and "SetHDMIInEdid2AllmSupport e p v s = Ret (r, out, t)"
  shows "in_step e n t \<and> hs_live t = hs_live s \<and> hin_cb t = hin_cb s \<and> (r = ERROR_NONE \<longrightarrow> m_edidallmsupport t p = v)"
proof -
  obtain q s1 where q: "setEdid2AllmSupport e p v s = (q, s1)" by (cases "setEdid2AllmSupport e p v s")
  have o: "hin_only s s1" "hs_store s1 = hs_store s"
    using q optional_only [of s e] optional_store [of e _ _ s] by (metis setEdid2AllmSupport_def snd_conv)+
  let ?t = "(persist_port e p ''edidallmEnable'' (if v then ''TRUE'' else ''FALSE'') s1)"
  consider (set) "r = ERROR_NONE" "t = ?t\<lparr>m_edidallmsupport := (m_edidallmsupport ?t)(p := v)\<rparr>"
    | (no) "r \<noteq> ERROR_NONE" "t = s \<or> t = s1"
    using assms(3) q by (auto simp: SetHDMIInEdid2AllmSupport_def hin_fail_def Let_def split: if_splits)
  then show ?thesis
  proof cases
    case set
    have "in_step e n t"
      by (rule in_step_put [OF assms(1), of "''edidallmEnable''" "if v then ''TRUE'' else ''FALSE''" t p])
        (use hin_only_same [OF o(1)] o(2) set assms(1,2) in \<open>simp_all add: word_ok_def isspace_def persist_port_def in_step_def\<close>)
    then show ?thesis using hin_only_same [OF o(1)] set by (simp add: persist_port_def)
  next
    case no
    have "in_step e n t"
      by (rule in_step_same [OF assms(1)]) (use hin_only_same [OF o(1)] o(2) no in auto)
    then show ?thesis using hin_only_same [OF o(1)] no by auto
  qed
qed

lemma SetVRR_in_step:
  assumes "in_step e n s" and "he_io e = io_full" and "SetVRRSupport e p v s = Ret (r, out, t)"
  shows "in_step e n t \<and> hs_live t = hs_live s \<and> hin_cb t = hin_cb s \<and> (r = ERROR_NONE \<longrightarrow> m_vrrsupport t p = v)"
proof (cases "t = s \<and> r \<noteq> ERROR_NONE")
  case False
  then have c: "p < int (hi_max e)" "0 \<le> p" "m_edidversion s p = hi_ver20 e"
    using assms(3) by (auto simp: SetVRRSupport_def hin_fail_def split: if_splits)
  then obtain q s1 where q: "setVRRSupport e p v s = Ret (q, s1)" "hin_only s s1"
    using setVRR_only [of e p v s] by (auto simp: in_array_def)
  note st = setVRR_store [OF q(1)]
  let ?t = "(persist_port e p ''vrrEnable'' (if v then ''TRUE'' else ''FALSE'') s1)"
  consider (set) "r = ERROR_NONE" "t = ?t\<lparr>m_vrrsupport := (m_vrrsupport ?t)(p := v)\<rparr>" | (no) "r \<noteq> ERROR_NONE" "t = s1"
    using assms(3) q c by (auto simp: SetVRRSupport_def hin_fail_def Let_def split: if_splits)
  then show ?thesis
  proof cases
    case set
    have "in_step e n t"
      by (rule in_step_put [OF assms(1), of "''vrrEnable''" "if v then ''TRUE'' else ''FALSE''" t p])
        (use hin_only_same [OF q(2)] st set assms(1,2) in \<open>simp_all add: word_ok_def isspace_def persist_port_def in_step_def\<close>)
    then show ?thesis using hin_only_same [OF q(2)] set by (simp add: persist_port_def)
  next
    case no
    have "in_step e n t"
      by (rule in_step_same [OF assms(1)]) (use hin_only_same [OF q(2)] st no in auto)
    then show ?thesis using hin_only_same [OF q(2)] no by auto
  qed
qed (use assms(1) in auto)

lemma query_state: "hin_query e y c f s = Ret (r, out, t) \<Longrightarrow> t = s \<or> t = hal_log c s"
  by (auto simp: hin_query_def hin_fail_def split: if_splits)

lemma request_in_step:
  assumes s: "in_step e n s" and io: "he_io e = io_full" and req: "hin_platform e req s = Ret (r, out, t)"
  shows "in_step e n t \<and> hs_live t = hs_live s \<and> hin_cb t = hin_cb s"
proof -
  have log: "in_step e n (hal_log c s)" for c by (rule in_step_same [OF s]) simp_all
  have q: ?thesis if "hin_query e y c f s = Ret (r, out, t)" for y c f
    using query_state [OF that] log s by auto
  show ?thesis
  proof (cases req)
    case (HSetAllm p v)
    then show ?thesis using SetAllm_in_step [OF s io] req by simp
  next
    case (HSetEdid p v)
    then show ?thesis using SetEdid_in_step [OF s io] req by simp
  next
    case (HSetVRR p v)
    then show ?thesis using SetVRR_in_step [OF s io] req by simp
  qed (use req q s log in \<open>auto simp: GetHDMIInNumberOfInputs_def GetHDMIInStatus_def GetHDMIInAVLatency_def
      GetHDMIInAllmStatus_def GetHDMIInEdid2AllmSupport_def GetSupportedGameFeaturesList_def SelectHDMIInPort_def
      ScaleHDMIInVideo_def SelectHDMIZoomMode_def GetEdidBytes_def GetHDMISPDInformation_def GetHDMIEdidVersion_def
      GetHDMIVideoMode_def GetHDMIVersion_def GetVRRSupport_def GetVRRStatus_def hin_fail_def Let_def split: if_splits\<close>)
qed

lemma apply_versions_in_step:
  assumes "mirrors e n s" and "hp_durable (hs_store s)" and "he_io e = io_full" and "apply_versions e ps s = Ret t"
    and "\<forall>p \<in> set ps. in_array e p"
  shows "mirrors e n t \<and> hp_durable (hs_store t)"
  using assms
proof (induction ps arbitrary: s)
  case (Cons p ps)
  from Cons.prems(4) obtain q s1 where q: "setEdidVersion e p (m_edidversion s p) s = Ret (q, s1)"
      and rest: "apply_versions e ps s1 = Ret t" by (auto simp: obind_Ret_iff)
  note st = setEdid_store [OF q Cons.prems(3)]
  have o: "hin_only s s1" using setEdid_only [of e p "m_edidversion s p" s] st(2) q Cons.prems(5) by auto
  have "in_step e n (s\<lparr>m_hdmiInInitialized := True\<rparr>)"
    using Cons.prems(1,2) by (simp add: in_step_def mirrors_def)
  then have "in_step e n (s1\<lparr>m_hdmiInInitialized := True\<rparr>)"
  proof (cases "q = DsERR_NONE")
    case True
    assume i: "in_step e n (s\<lparr>m_hdmiInInitialized := True\<rparr>)"
    show ?thesis
      by (rule in_step_put [OF i, of "''edidversion''" "to_string (m_edidversion s p)" _ p])
        (use hin_only_same [OF o] st True in \<open>simp_all add: word_ok_digit atoi_to_string fun_eq_iff\<close>)
  next
    case False
    assume i: "in_step e n (s\<lparr>m_hdmiInInitialized := True\<rparr>)"
    show ?thesis by (rule in_step_same [OF i]) (use hin_only_same [OF o] st False in simp_all)
  qed
  then have "mirrors e n s1" "hp_durable (hs_store s1)" by (simp_all add: in_step_def mirrors_def)
  with Cons.IH [of s1] Cons.prems(3,5) rest show ?case by simp
qed simp

lemma create_in_step:
  assumes "can_start e n st" and "hp_durable st" and "he_io e = io_full"
  shows "\<exists>t. HdmiIn_create e i (hin_static st) = Ret t \<and> in_step e n t"
proof -
  from create_loaded [OF assms(1), of i] obtain s t where c: "HdmiIn_create e i (hin_static st) = Ret (t\<lparr>m_hdmiInInitialized := True\<rparr>)"
    and a: "apply_versions e (map int [0..<n]) s = Ret t" and st: "hs_store s \<in> {st, ensureInitialized st}"
    and s: "m_edidversion s = below n (stored_version e st) (\<lambda>_. 0)"
      "m_edidallmsupport s = below n (\<lambda>q. stored_bit st (port_key q ''edidallmEnable'')) (\<lambda>_. False)"
      "m_vrrsupport s = below n (\<lambda>q. stored_bit st (port_key q ''vrrEnable'')) (\<lambda>_. False)"
    by blast
  have "mirrors e n s" "hp_durable (hs_store s)"
    using st assms(2) by (auto simp: mirrors_def s below_def hp_durable_init)
  moreover have "\<forall>p \<in> set (map int [0..<n]). in_array e p" using assms(1) by (auto simp: can_start_def in_array_def)
  ultimately have "mirrors e n t \<and> hp_durable (hs_store t)" using apply_versions_in_step assms(3) a by blast
  with c show ?thesis by (simp add: in_step_def mirrors_def)
qed

lemma run_in_step:
  assumes e: "can_start e n st" "hp_durable st" "he_io e = io_full"
    and s: "s = hin_static st \<or> in_step e n s" and run: "hin_run e i cs s = Ret t"
  shows "t = hin_static st \<or> in_step e n t"
  using s run
proof (induction cs arbitrary: i s)
  case (Cons c cs)
  from Cons.prems(2) obtain u where u: "hin_do e i c s = Ret u" and rest: "hin_run e (Suc i) cs u = Ret t"
    by (auto simp: obind_Ret_iff)
  have "u = hin_static st \<or> in_step e n u"
  proof (cases "s = hin_static st")
    case True
    then show ?thesis
      using u create_in_step [OF e, of i] by (cases c) (auto simp: hin_static_def)
  next
    case False
    then have s: "in_step e n s" using Cons.prems(1) by simp
    then have ini: "m_hdmiInInitialized s" by (simp add: in_step_def)
    have same: "in_step e n v" if "hs_store v = hs_store s" "m_hdmiInInitialized v = m_hdmiInInitialized s"
      "m_edidversion v = m_edidversion s" "m_edidallmsupport v = m_edidallmsupport s" "m_vrrsupport v = m_vrrsupport s" for v
      using in_step_same [OF s that] .
    show ?thesis
    proof (cases c)
      case HinCreate
      then have "u = s \<or> u = (InitialiseHAL_hin e s)\<lparr>hs_live := Some i\<rparr>"
        using u ini by (auto simp: HdmiIn_create_def setAllCallbacks_hin_def getPersistenceValue_hin_def InitialiseHAL_hin_def
            getDynamicAutoLatencyConfig_def Let_def split: if_splits option.splits)
      then have "in_step e n u"
        by (elim disjE) (simp add: s, rule same, simp_all add: InitialiseHAL_hin_def getDynamicAutoLatencyConfig_def Let_def
            split: option.split)
      then show ?thesis ..
    next
      case HinDestroy
      then have "u = s \<or> u = HdmiIn_destroy e s" using u by (auto split: if_splits)
      then have "in_step e n u"
        by (elim disjE) (simp add: s, rule same, simp_all add: HdmiIn_destroy_def DeInitialiseHAL_hin_def
            getDynamicAutoLatencyConfig_def Let_def split: option.split)
      then show ?thesis ..
    next
      case (HinRequest req)
      then show ?thesis
        using u s request_in_step [OF s e(3)]
        by (fastforce simp: HdmiInImp_call_def HdmiIn_call_def obind_Ret_iff split: if_splits)
    next
      case (HinReport ev)
      then have "u = s \<or> u = hal_log (HinEvent ev) s"
        using u by (auto simp: DS_OnHDMIInEvent_def hal_notify_def split: if_splits option.splits)
      then show ?thesis using s same by auto
    qed
  qed
  then show ?case using Cons.IH rest by blast
qed simp

text \<open>
  C34. The settings of the first four HDMI inputs survive a restart: after any history of one
  process (creations, destructions, requests, events), a new process has the ALLM and VRR bits of
  these ports as they were, and the EDID version if it was ever stored, which it gives to the HAL
  again. (A fifth port is loaded at the start but never stored.)
\<close>

theorem hdmi_in_restart_restores:
  fixes e e2 :: hin_env
  assumes "can_start e n st" and "hp_durable st" and "he_io e = io_full"
    and "hin_run e 0 cs (hin_static st) = Ret t" and "m_hdmiInInitialized t"
    and "can_start e2 n (hp_restart (hs_store t))" and "0 \<le> p" and "p \<le> 3" and "p < int n"
  shows "\<exists>u. HdmiIn_create e2 i (hin_static (hp_restart (hs_store t))) = Ret u
    \<and> m_edidallmsupport u p = m_edidallmsupport t p \<and> m_vrrsupport u p = m_vrrsupport t p
    \<and> (hp_get (hs_store t) (port_key p ''edidversion'') \<noteq> None \<longrightarrow> m_edidversion u p = m_edidversion t p
         \<and> (he_symbol e2 ''dsSetEdidVersion'' \<longrightarrow> HinSetEdid p (m_edidversion t p) \<in> set (hs_trace u)))"
proof -
  have "\<not> m_hdmiInInitialized (hin_static st)" by (simp add: hin_static_def)
  then have "in_step e n t" using run_in_step [OF assms(1-3) _ assms(4)] assms(5) by auto
  then have d: "hp_durable (hs_store t)" and m: "m_edidversion t p = stored_version e (hs_store t) p"
      "m_edidallmsupport t p = stored_bit (hs_store t) (port_key p ''edidallmEnable'')"
      "m_vrrsupport t p = stored_bit (hs_store t) (port_key p ''vrrEnable'')"
    using assms(7-9) by (auto simp: in_step_def mirrors_def)
  have g: "hp_get (hp_restart (hs_store t)) k = hp_get (hs_store t) k" for k using d by (rule hp_get_restart)
  have v: "stored_version e2 (hp_restart (hs_store t)) p = m_edidversion t p"
    if "hp_get (hs_store t) (port_key p ''edidversion'') \<noteq> None"
    using that g m(1) by (auto simp: stored_version_def)
  from create_first [OF assms(6), of i] obtain u where u: "HdmiIn_create e2 i (hin_static (hp_restart (hs_store t))) = Ret u"
    "m_edidversion u = below n (stored_version e2 (hp_restart (hs_store t))) (\<lambda>_. 0)"
    "m_edidallmsupport u = below n (\<lambda>q. stored_bit (hp_restart (hs_store t)) (port_key q ''edidallmEnable'')) (\<lambda>_. False)"
    "m_vrrsupport u = below n (\<lambda>q. stored_bit (hp_restart (hs_store t)) (port_key q ''vrrEnable'')) (\<lambda>_. False)"
    "he_symbol e2 ''dsSetEdidVersion'' \<longrightarrow>
       (\<forall>p. 0 \<le> p \<and> p < int n \<longrightarrow> HinSetEdid p (stored_version e2 (hp_restart (hs_store t)) p) \<in> set (hs_trace u))"
    by blast
  have "m_edidallmsupport u p = m_edidallmsupport t p" "m_vrrsupport u p = m_vrrsupport t p"
    using assms(7,9) by (simp_all add: u(3,4) below_def m(2,3) stored_bit_def g)
  moreover have "m_edidversion u p = m_edidversion t p
      \<and> (he_symbol e2 ''dsSetEdidVersion'' \<longrightarrow> HinSetEdid p (m_edidversion t p) \<in> set (hs_trace u))"
    if "hp_get (hs_store t) (port_key p ''edidversion'') \<noteq> None"
  proof -
    have "m_edidversion u p = m_edidversion t p" using v [OF that] assms(7,9) by (simp add: u(2) below_def)
    moreover have "HinSetEdid p (m_edidversion t p) \<in> set (hs_trace u)" if "he_symbol e2 ''dsSetEdidVersion''"
      using u(5) that assms(7,9) v [OF \<open>hp_get (hs_store t) (port_key p ''edidversion'') \<noteq> None\<close>] by metis
    ultimately show ?thesis by blast
  qed
  ultimately show ?thesis using u(1) by blast
qed

text \<open>A port without an enumerator among the four is not stored.\<close>

lemma fifth_port_not_stored:
  assumes "setEdidVersion e 4 v s = Ret (r, t)" and "he_io e = io_full"
  shows "hs_store t = hs_store s"
  using setEdid_store(1) [OF assms] by simp

definition hin_sample :: hin_env where
  "hin_sample = \<lparr>he_ret = (\<lambda>_ _. DsERR_NONE), he_int = (\<lambda>_ _. 1), he_symbol = (\<lambda>_. True), he_io = io_full, he_tv = True,
     hi_bytes = (\<lambda>_ _. []), hi_mode = (\<lambda>_. mode_error), hi_status = (\<lambda>_. (0, True, [True])), hi_features = (\<lambda>_. (0, [])),
     hi_pair = (\<lambda>_ _. (0, 0)), hi_rfc = None, hi_max = 5, hi_ver20 = 1, hi_name_size = 32, hi_raw = (\<lambda>_. ERROR_GENERAL)\<rparr>"

definition hin_sample_store :: host_store where
  "hin_sample_store = hp_new ''f'' (\<lambda>_. None)"

lemma sample_version: "stored_version hin_sample hin_sample_store p = 1"
proof -
  have "hp_get hin_sample_store k = None" "hp_defaults (ensureInitialized hin_sample_store) = []" for k
    by (simp_all add: hin_sample_store_def hp_new_def hp_get_def ensureInitialized_def hp_load_def loadFromFile_def)
  then show ?thesis by (simp add: stored_version_def hin_sample_def)
qed

lemma sample_start: "can_start hin_sample 1 hin_sample_store" "hp_durable hin_sample_store" "he_io hin_sample = io_full"
  using sample_version by (simp_all add: can_start_def hin_sample_store_def hp_durable_new no_nul_file_def)
    (simp_all add: hin_sample_def)

lemma sample_stored:
  "\<exists>t. HdmiIn_create hin_sample 0 (hin_static hin_sample_store) = Ret t
     \<and> hp_get (hs_store t) (port_key 0 ''edidversion'') = Some ''1'' \<and> m_hdmiInInitialized t \<and> hp_durable (hs_store t)
     \<and> hs_live t = Some 0"
proof -
  from create_loaded [OF sample_start(1), of 0] obtain s t
    where c: "HdmiIn_create hin_sample 0 (hin_static hin_sample_store) = Ret (t\<lparr>m_hdmiInInitialized := True\<rparr>)"
      and a: "apply_versions hin_sample [0] s = Ret t" and st: "hs_store s \<in> {hin_sample_store, ensureInitialized hin_sample_store}"
      and v: "m_edidversion s = below 1 (stored_version hin_sample hin_sample_store) (\<lambda>_. 0)"
      and o: "hin_only s t" "hs_live s = Some 0"
    by auto
  have v0: "m_edidversion s 0 = 1" by (simp add: v below_def sample_version)
  obtain r where r: "setEdidVersion hin_sample 0 1 s = Ret (r, t)" using a v0 by (auto simp: obind_Ret_iff)
  then have "r = DsERR_NONE"
    by (auto simp: setEdidVersion_def hin_optional_def Let_def obind_Ret_iff case_prod_unfold hin_sample_def split: if_splits)
  then have s: "hs_store t = hp_put io_full (port_key 0 ''edidversion'') (to_string 1) (hs_store s)"
    using setEdid_store(1) [OF r sample_start(3)] by simp
  have d: "hp_durable (hs_store s)" using st sample_start(2) hp_durable_init by auto
  moreover have one: "to_string 1 = ''1''"
    by (simp add: to_string_def show_nat.simps digit_char_def char_of_def bit_Suc flip: bit_0) code_simp
  moreover have "word_ok ''1''" by (simp add: word_ok_def isspace_def)
  moreover have "word_ok (port_key 0 ''edidversion'')" by (rule port_key_words) simp_all
  ultimately have "hp_get (hs_store t) (port_key 0 ''edidversion'') = Some ''1''" "hp_durable (hs_store t)"
    using hpd.get_put_same [of "hs_store s" "port_key 0 ''edidversion''" "''1''"] by (simp_all add: s hp_durable_put)
  then show ?thesis using c o hin_only_same(1) [OF o(1)] by (intro exI [of _ "t\<lparr>m_hdmiInInitialized := True\<rparr>"]) simp
qed

theorem hdmi_in_restart_restores_witness:
  "\<exists>t u. hin_run hin_sample 0 [HinCreate] (hin_static hin_sample_store) = Ret t
     \<and> HdmiIn_create hin_sample 0 (hin_static (hp_restart (hs_store t))) = Ret u \<and> m_edidversion u 0 = m_edidversion t 0"
proof -
  obtain t where t: "HdmiIn_create hin_sample 0 (hin_static hin_sample_store) = Ret t"
      "hp_get (hs_store t) (port_key 0 ''edidversion'') = Some ''1''" "m_hdmiInInitialized t" "hp_durable (hs_store t)"
    using sample_stored by blast
  have "stored_version hin_sample (hp_restart (hs_store t)) 0 = 1"
    using t(2) hp_get_restart [OF t(4)] by (simp add: stored_version_def) code_simp
  then have "stored_version hin_sample (hp_restart (hs_store t)) p = 1" if "0 \<le> p" "p < int 1" for p
  proof -
    have "p = 0" using that by simp
    then show ?thesis using \<open>stored_version hin_sample (hp_restart (hs_store t)) 0 = 1\<close> by simp
  qed
  then have c: "can_start hin_sample 1 (hp_restart (hs_store t))"
    using sample_start(1) by (simp add: can_start_def)
  have run: "hin_run hin_sample 0 [HinCreate] (hin_static hin_sample_store) = Ret t"
    using t(1) by (simp add: hin_static_def)
  then show ?thesis
    using hdmi_in_restart_restores [OF sample_start run t(3) c, of 0 0] t(2) by auto
qed

text \<open>
  C36. Once an object has started, the flag that says so is never reset: when the object is destroyed
  and a new one created in the same process, the callbacks still belong to the old one. An event
  the HAL was asked to report is delivered while the first object exists, and has undefined
  behaviour after that, in the gap as well as when a new object exists.
\<close>

theorem hdmi_in_events_after_restart:
  assumes "can_start e n st" and "event_cb ev \<noteq> CbLatency"
    and "event_cb ev = CbHotPlug \<or> he_symbol e (cb_symbol (event_cb ev))"
  shows "(\<exists>t. hin_run e 0 [HinCreate, HinReport ev] (hin_static st) = Ret t \<and> last (hs_trace t) = HinEvent ev)
    \<and> hin_run e 0 [HinCreate, HinDestroy, HinReport ev] (hin_static st) = UB
    \<and> hin_run e 0 [HinCreate, HinDestroy, HinCreate, HinReport ev] (hin_static st) = UB"
proof -
  from create_first [OF assms(1), of 0] obtain t where t: "HdmiIn_create e 0 (hin_static st) = Ret t" "hs_live t = Some 0"
    "hin_cb t = (\<lambda>_. Some 0)" "m_hdmiInInitialized t" "HinRegister (event_cb ev) \<in> set (hs_trace t)"
    using assms(2,3) by blast
  have dead: "hs_live (hin_static st) = None" by (simp add: hin_static_def)
  let ?d = "HdmiIn_destroy e t"
  have d: "hs_live ?d = None" "hin_cb ?d = (\<lambda>_. Some 0)" "m_hdmiInInitialized ?d" "HinRegister (event_cb ev) \<in> set (hs_trace ?d)"
    using t(3-5) by (simp_all add: HdmiIn_destroy_def DeInitialiseHAL_hin_def getDynamicAutoLatencyConfig_def Let_def
        split: option.split)
  let ?c = "(InitialiseHAL_hin e ?d)\<lparr>hs_live := Some 2\<rparr>"
  have c: "HdmiIn_create e 2 ?d = Ret ?c"
    using d(3) by (simp add: HdmiIn_create_def setAllCallbacks_hin_def getPersistenceValue_hin_def InitialiseHAL_hin_def
        getDynamicAutoLatencyConfig_def Let_def split: option.split)
  have c2: "hin_cb ?c = (\<lambda>_. Some 0)" "HinRegister (event_cb ev) \<in> set (hs_trace ?c)"
    using d(2,4) by (simp_all add: InitialiseHAL_hin_def getDynamicAutoLatencyConfig_def Let_def split: option.split)
  show ?thesis
    using t d c c2 dead by (simp add: DS_OnHDMIInEvent_def hal_notify_def numeral_2_eq_2)
qed

theorem hdmi_in_events_after_restart_witness:
  "hin_run hin_sample 0 [HinCreate, HinDestroy, HinCreate, HinReport (HevHotPlug 1 True)] (hin_static hin_sample_store) = UB"
  using hdmi_in_events_after_restart [OF sample_start(1), of "HevHotPlug 1 True"] by simp

text \<open>
  The ALLM and VRR bits of a port follow its EDID version. While the version is not 2.0 both
  requests fail with \<open>ERROR_UNAVAILABLE\<close> (a client sees \<open>ERROR_GENERAL\<close>) and change nothing, not
  even the HAL is asked; once a change to 2.0 is accepted, the bits the client had asked for are
  given to the HAL with it: the ALLM bit once, the VRR bit twice if the port can do it.
\<close>

theorem edid_bits_follow_version:
  fixes e :: hin_env and p v :: int
  assumes "in_array e p" and "0 \<le> hi_ver20 e" and "hi_ver20 e \<le> 9" and "\<And>y. he_symbol e y"
    and "hal_ok e (HinSetEdid p (hi_ver20 e)) s"
  defines "bits \<equiv> [HinSetAllm p (m_edidallmsupport s p)]
     @ (if m_hdmiPortVrrCaps s p then replicate 2 (HinSetVRR p (m_vrrsupport s p)) else [])"
  shows "(m_edidversion s p \<noteq> hi_ver20 e \<longrightarrow>
       SetHDMIInEdid2AllmSupport e p b s = Ret (ERROR_UNAVAILABLE, None, s)
     \<and> SetVRRSupport e p b s = Ret (ERROR_UNAVAILABLE, None, s)
     \<and> HdmiInImp_call e (HSetAllm p b) s = Ret (ERROR_GENERAL, None, s))
   \<and> (\<exists>t. SetHDMIEdidVersion e p (hi_ver20 e) s = Ret (ERROR_NONE, None, t) \<and> m_edidversion t p = hi_ver20 e
     \<and> hs_trace t = hs_trace s @ HinSetEdid p (hi_ver20 e) # bits)"
proof -
  have port: "0 \<le> p" "p < int (hi_max e)" using assms(1) by (simp_all add: in_array_def)
  have d: "\<not> 2 \<le> length (to_string (hi_ver20 e))" using one_digit [of "hi_ver20 e"] assms(2,3) by simp
  have r: "he_ret e (hs_trace s) (HinSetEdid p (hi_ver20 e)) = DsERR_NONE" using assms(5) by (simp add: hal_ok_def)
  have pp: "m_edidallmsupport (persist_port e p k x u) = m_edidallmsupport u" "m_vrrsupport (persist_port e p k x u) = m_vrrsupport u"
      "m_hdmiPortVrrCaps (persist_port e p k x u) = m_hdmiPortVrrCaps u" "hs_trace (persist_port e p k x u) = hs_trace u" for k x u
    by (simp_all add: persist_port_def)
  have "m_edidversion s p \<noteq> hi_ver20 e \<longrightarrow>
       SetHDMIInEdid2AllmSupport e p b s = Ret (ERROR_UNAVAILABLE, None, s)
     \<and> SetVRRSupport e p b s = Ret (ERROR_UNAVAILABLE, None, s)
     \<and> HdmiInImp_call e (HSetAllm p b) s = Ret (ERROR_GENERAL, None, s)"
    using port by (simp add: SetHDMIInEdid2AllmSupport_def SetVRRSupport_def HdmiInImp_call_def HdmiIn_call_def)
  moreover have "\<exists>t. SetHDMIEdidVersion e p (hi_ver20 e) s = Ret (ERROR_NONE, None, t) \<and> m_edidversion t p = hi_ver20 e
     \<and> hs_trace t = hs_trace s @ HinSetEdid p (hi_ver20 e) # bits"
    using d r assms(1,4)
    by (simp add: SetHDMIEdidVersion_def setEdidVersion_def hin_optional_def setEdid2AllmSupport_def setVRRSupport_def
        pp bits_def numeral_2_eq_2 Let_def)
  ultimately show ?thesis by blast
qed

theorem edid_bits_follow_version_witness:
  "\<exists>t. SetHDMIEdidVersion hin_sample 2 1 (hin_static hin_sample_store) = Ret (ERROR_NONE, None, t)
     \<and> hs_trace t = [HinSetEdid 2 1, HinSetAllm 2 False]"
proof -
  let ?s = "hin_static hin_sample_store"
  have e: "hi_ver20 hin_sample = 1" "\<And>y. he_symbol hin_sample y" "in_array hin_sample 2" "hal_ok hin_sample (HinSetEdid 2 1) ?s"
    by (simp_all add: hin_sample_def in_array_def hal_ok_def)
  have s: "hs_trace ?s = []" "m_edidallmsupport ?s 2 = False" "m_hdmiPortVrrCaps ?s 2 = False" by (simp_all add: hin_static_def)
  have "\<exists>t. SetHDMIEdidVersion hin_sample 2 1 ?s = Ret (ERROR_NONE, None, t) \<and> m_edidversion t 2 = 1
     \<and> hs_trace t = hs_trace ?s @ HinSetEdid 2 1 # [HinSetAllm 2 (m_edidallmsupport ?s 2)]
        @ (if m_hdmiPortVrrCaps ?s 2 then replicate 2 (HinSetVRR 2 (m_vrrsupport ?s 2)) else [])"
    using edid_bits_follow_version [of hin_sample 2 ?s True, THEN conjunct2] e by simp
  then show ?thesis by (auto simp: s)
qed

subsection \<open>The list of game features\<close>

definition quoted :: "string \<Rightarrow> string" where
  "quoted n = CHR 0x22 # n @ [CHR 0x22]"

fun feature_text :: "string list \<Rightarrow> string" where
  "feature_text [] = []"
| "feature_text [n] = quoted n"
| "feature_text (n # ns) = quoted n @ '', '' @ feature_text ns"

definition feature_name :: "string \<Rightarrow> bool" where
  "feature_name n \<longleftrightarrow> n \<noteq> [] \<and> (\<forall>c \<in> set n. c \<notin> set [CHR '','', CHR 0x22, CHR 0x20, CHR 0x00])"

lemma getlines_comma_line:
  "CHR '','' \<notin> set l \<Longrightarrow> getlines_comma acc (l @ CHR '','' # s) = (rev acc @ l) # getlines_comma [] s"
  by (induction l arbitrary: acc) auto

lemma getlines_comma_last: "CHR '','' \<notin> set l \<Longrightarrow> acc @ l \<noteq> [] \<Longrightarrow> getlines_comma acc l = [rev acc @ l]"
  by (induction l arbitrary: acc) auto

lemma strip_quoted:
  assumes "feature_name n" and "\<forall>c \<in> set acc. c = CHR 0x20"
  shows "filter (\<lambda>c. c \<noteq> CHR 0x22 \<and> c \<noteq> CHR 0x20) (rev acc @ quoted n) = n"
proof -
  have "filter (\<lambda>c. c \<noteq> CHR 0x22 \<and> c \<noteq> CHR 0x20) (rev acc) = []" using assms(2) by auto
  moreover have "filter (\<lambda>c. c \<noteq> CHR 0x22 \<and> c \<noteq> CHR 0x20) n = n"
    using assms(1) by (intro filter_True) (auto simp: feature_name_def)
  ultimately show ?thesis by (simp add: quoted_def)
qed

lemma features_lines:
  assumes "\<forall>n \<in> set ns. feature_name n" and "\<forall>c \<in> set acc. c = CHR 0x20" and "ns \<noteq> []"
  shows "take_features k (getlines_comma acc (feature_text ns)) = take (nat k) ns"
  using assms
proof (induction ns arbitrary: acc k rule: feature_text.induct)
  case (2 n)
  then have c: "CHR '','' \<notin> set (quoted n)" "n \<noteq> []" by (auto simp: feature_name_def quoted_def)
  then have "getlines_comma acc (quoted n) = [rev acc @ quoted n]" by (intro getlines_comma_last) (auto simp: quoted_def)
  moreover have "filter (\<lambda>c. c \<noteq> CHR 0x22 \<and> c \<noteq> CHR 0x20) (rev acc @ quoted n) = n"
    using "2.prems" by (intro strip_quoted) simp_all
  ultimately show ?case using c(2) by (auto simp: take_Cons' simp del: filter_append)
next
  case (3 n m ns)
  have c: "CHR '','' \<notin> set (quoted n)" "n \<noteq> []" using 3 by (auto simp: feature_name_def quoted_def)
  have "getlines_comma acc (feature_text (n # m # ns))
      = (rev acc @ quoted n) # getlines_comma [CHR 0x20] (feature_text (m # ns))"
    using getlines_comma_line [OF c(1)] by simp
  moreover have "filter (\<lambda>c. c \<noteq> CHR 0x22 \<and> c \<noteq> CHR 0x20) (rev acc @ quoted n) = n"
    using "3.prems" by (intro strip_quoted) simp_all
  moreover have "take_features (k - 1) (getlines_comma [CHR 0x20] (feature_text (m # ns))) = take (nat (k - 1)) (m # ns)"
    using 3 by (intro "3.IH") auto
  ultimately show ?case using c(2) by (auto simp: take_Cons' nat_diff_distrib simp del: filter_append)
qed simp

lemma feature_text_nul: "\<forall>n \<in> set ns. feature_name n \<Longrightarrow> CHR 0x00 \<notin> set (feature_text ns)"
  by (induction ns rule: feature_text.induct) (auto simp: feature_name_def quoted_def)

text \<open>
  The list of game features is parsed back: from the quoted names joined with a comma and a
  blank the request returns the names, as many as the HAL says there are.
\<close>

theorem game_features_parsed:
  assumes "\<forall>n \<in> set ns. feature_name n"
  shows "game_features (k, feature_text ns) = take (nat k) ns"
proof (cases "ns = []")
  case False
  have "c_str (feature_text ns) = feature_text ns"
    using feature_text_nul [OF assms] by (auto simp: c_str_def takeWhile_eq_all_conv)
  then show ?thesis using features_lines [OF assms _ False, of "[]"] by (simp add: game_features_def)
qed (simp add: game_features_def c_str_def)

theorem game_features_parsed_witness:
  "game_features (1, feature_text [''allm'', ''hgig'']) = [''allm'']"
  using game_features_parsed [of "[''allm'', ''hgig'']" 1] by (simp add: feature_name_def)

end
