(* ===== verification/Video_Device.thy ===== *)
theory Video_Device
  imports Hal_Base
begin

section \<open>The video device (\<open>hal/dVideoDeviceImpl.h\<close>, \<open>VideoDevice\<close>)\<close>

text \<open>
  The platform layer \<open>dVideoDeviceImpl\<close> of the video device: the zoom mode, HDR, the frame rate
  mode and the display frame rate, with the settings it keeps in the store; the forwarding layer
  \<open>VideoDevice.cpp\<close> and the COM layer \<open>DeviceSettingsVideoDeviceImpl\<close>; and the life of the
  objects in one process, as a history of steps. The AIDL variant is not modelled.
\<close>

subsection \<open>Types\<close>

datatype dsVideoZoom =
    DSZ_NONE | DSZ_FULL | DSZ_LB_16_9 | DSZ_LB_14_9 | DSZ_CCO | DSZ_PAN_SCAN | DSZ_LB_2_21_1_ON_4_3
  | DSZ_LB_2_21_1_ON_16_9 | DSZ_PLATFORM | DSZ_16_9_ZOOM | DSZ_PILLARBOX_4_3 | DSZ_WIDE_4_3

datatype VideoDeviceZoom =
    ZOOM_NONE | ZOOM_FULL | ZOOM_LB_16_9 | ZOOM_LB_14_9 | ZOOM_CCO | ZOOM_PAN_SCAN | ZOOM_LB_2_21_1_ON_4_3
  | ZOOM_LB_2_21_1_ON_16_9 | ZOOM_PLATFORM | ZOOM_16_9_ZOOM | ZOOM_PILLARBOX_4_3 | ZOOM_WIDE_4_3
  | ZOOM_other int

datatype dsVideoCodingFormat = DSC_MPEGHPART2 | DSC_MPEG4PART10 | DSC_MPEG2

datatype VideoDeviceCodec = CODEC_MPEGHPART2 | CODEC_MPEG4PART10 | CODEC_MPEG2 | CODEC_other int

text \<open>The calls of the HAL, and last the three events given to the client.\<close>

datatype vd_call =
    VdInit
  | VdTerm
  | VdDevice int
  | VdSetDFC int dsVideoZoom
  | VdHdmiInZoom dsVideoZoom
  | VdRegisterPre
  | VdRegisterPost
  | VdGetHDR int
  | VdGetFormats int
  | VdGetCodec int dsVideoCodingFormat
  | VdDisableHDR int bool
  | VdSetFRF int int
  | VdGetFRF int
  | VdGetRate int
  | VdSetRate int string
  | EvZoom VideoDeviceZoom
  | EvPreChange string
  | EvPostChange string

text \<open>A codec answer is \<open>num_entries\<close> and the array of profiles with their levels.\<close>

record vd_env = "vd_call hal_env" +
  ve_text :: "vd_call list \<Rightarrow> vd_call \<Rightarrow> string"
  ve_codec :: "vd_call list \<Rightarrow> vd_call \<Rightarrow> nat \<times> (int \<times> int) list"
  ve_HDR_NONE :: int

record vd_state = "vd_call hal_state" +
  videoDevice_isInitialized :: bool
  videoDevice_isPlatInitialized :: bool
  srv_dfc :: dsVideoZoom
  force_disable_hdr :: bool
  vd_cb_zoom :: "nat option"
  vd_cb_pre :: "nat option"
  vd_cb_post :: "nat option"

datatype vd_val = VdInt int | VdZoom VideoDeviceZoom | VdText string | VdCodecs "(int \<times> int) list"

type_synonym vd_result = "(coreErr \<times> vd_val option \<times> vd_state) outcome"

definition vd_static :: "host_store \<Rightarrow> vd_state" where
  "vd_static st = \<lparr>hs_trace = [], hs_store = st, hs_live = None, videoDevice_isInitialized = False,
     videoDevice_isPlatInitialized = False, srv_dfc = DSZ_FULL, force_disable_hdr = True,
     vd_cb_zoom = None, vd_cb_pre = None, vd_cb_post = None\<rparr>"

fun convertVideoDeviceZoom :: "VideoDeviceZoom \<Rightarrow> dsVideoZoom" where
  "convertVideoDeviceZoom ZOOM_NONE = DSZ_NONE"
| "convertVideoDeviceZoom ZOOM_FULL = DSZ_FULL"
| "convertVideoDeviceZoom ZOOM_LB_16_9 = DSZ_LB_16_9"
| "convertVideoDeviceZoom ZOOM_LB_14_9 = DSZ_LB_14_9"
| "convertVideoDeviceZoom ZOOM_CCO = DSZ_CCO"
| "convertVideoDeviceZoom ZOOM_PAN_SCAN = DSZ_PAN_SCAN"
| "convertVideoDeviceZoom ZOOM_LB_2_21_1_ON_4_3 = DSZ_LB_2_21_1_ON_4_3"
| "convertVideoDeviceZoom ZOOM_LB_2_21_1_ON_16_9 = DSZ_LB_2_21_1_ON_16_9"
| "convertVideoDeviceZoom ZOOM_PLATFORM = DSZ_PLATFORM"
| "convertVideoDeviceZoom ZOOM_16_9_ZOOM = DSZ_16_9_ZOOM"
| "convertVideoDeviceZoom ZOOM_PILLARBOX_4_3 = DSZ_PILLARBOX_4_3"
| "convertVideoDeviceZoom ZOOM_WIDE_4_3 = DSZ_WIDE_4_3"
| "convertVideoDeviceZoom (ZOOM_other i) = DSZ_FULL"

fun convertDSVideoZoom :: "dsVideoZoom \<Rightarrow> VideoDeviceZoom" where
  "convertDSVideoZoom DSZ_NONE = ZOOM_NONE"
| "convertDSVideoZoom DSZ_FULL = ZOOM_FULL"
| "convertDSVideoZoom DSZ_LB_16_9 = ZOOM_LB_16_9"
| "convertDSVideoZoom DSZ_LB_14_9 = ZOOM_LB_14_9"
| "convertDSVideoZoom DSZ_CCO = ZOOM_CCO"
| "convertDSVideoZoom DSZ_PAN_SCAN = ZOOM_PAN_SCAN"
| "convertDSVideoZoom DSZ_LB_2_21_1_ON_4_3 = ZOOM_LB_2_21_1_ON_4_3"
| "convertDSVideoZoom DSZ_LB_2_21_1_ON_16_9 = ZOOM_LB_2_21_1_ON_16_9"
| "convertDSVideoZoom DSZ_PLATFORM = ZOOM_PLATFORM"
| "convertDSVideoZoom DSZ_16_9_ZOOM = ZOOM_16_9_ZOOM"
| "convertDSVideoZoom DSZ_PILLARBOX_4_3 = ZOOM_PILLARBOX_4_3"
| "convertDSVideoZoom DSZ_WIDE_4_3 = ZOOM_WIDE_4_3"

fun convertVideoCodecToDSFormat :: "VideoDeviceCodec \<Rightarrow> dsVideoCodingFormat" where
  "convertVideoCodecToDSFormat CODEC_MPEGHPART2 = DSC_MPEGHPART2"
| "convertVideoCodecToDSFormat CODEC_MPEG4PART10 = DSC_MPEG4PART10"
| "convertVideoCodecToDSFormat CODEC_MPEG2 = DSC_MPEG2"
| "convertVideoCodecToDSFormat (CODEC_other i) = DSC_MPEGHPART2"

subsection \<open>Start and end of a platform object\<close>

text \<open>
  Only \<open>"None"\<close> changes the zoom mode; without it the static variable keeps its value. On a TV
  the mode goes to the HDMI input, the video device itself is not told.
\<close>

definition getPersistenceValue_vd :: "vd_env \<Rightarrow> vd_state \<Rightarrow> vd_state" where
  "getPersistenceValue_vd e s =
     (let (z, s1) = hal_read ''VideoDevice.DFC'' ''Full'' s;
          s2 = (if z = ''None'' then s1\<lparr>srv_dfc := DSZ_NONE\<rparr> else s1);
          s3 = (if he_tv e then hal_log (VdHdmiInZoom (srv_dfc s2)) s2 else s2);
          (h, s4) = hal_read ''VideoDevice.forceHDRDisabled'' ''false'' s3
      in s4\<lparr>force_disable_hdr := h \<noteq> ''false''\<rparr>)"

definition InitialiseHAL_vd :: "vd_env \<Rightarrow> vd_state \<Rightarrow> vd_state" where
  "InitialiseHAL_vd e s =
     (if videoDevice_isPlatInitialized s then s
      else if \<not> hal_ok e VdInit s then hal_log VdInit s
      else (getPersistenceValue_vd e (hal_log VdInit s))\<lparr>videoDevice_isPlatInitialized := True\<rparr>)"

definition DeInitialiseHAL_vd :: "vd_state \<Rightarrow> vd_state" where
  "DeInitialiseHAL_vd s =
     (if videoDevice_isPlatInitialized s
      then (hal_log VdTerm s)\<lparr>videoDevice_isPlatInitialized := False, videoDevice_isInitialized := False\<rparr>
      else s\<lparr>videoDevice_isInitialized := False\<rparr>)"

definition VideoDeviceRegisterFrameratePreChangeCB :: "vd_env \<Rightarrow> vd_state \<Rightarrow> vd_state" where
  "VideoDeviceRegisterFrameratePreChangeCB e s =
     (if he_symbol e ''dsRegisterFrameratePreChangeCB'' then hal_log VdRegisterPre s else s)"

definition VideoDeviceRegisterFrameratePostChangeCB :: "vd_env \<Rightarrow> vd_state \<Rightarrow> vd_state" where
  "VideoDeviceRegisterFrameratePostChangeCB e s =
     (if he_symbol e ''dsRegisterFrameratePostChangeCB'' then hal_log VdRegisterPost s else s)"

text \<open>The bundle of \<open>VideoDevice::Platform_init\<close> sets all three callbacks, for the object \<open>i\<close>.\<close>

definition setAllCallbacks_vd :: "vd_env \<Rightarrow> nat \<Rightarrow> vd_state \<Rightarrow> vd_state" where
  "setAllCallbacks_vd e i s =
     (if videoDevice_isPlatInitialized s \<and> \<not> videoDevice_isInitialized s
      then let s1 = s\<lparr>vd_cb_zoom := Some i\<rparr>;
               s2 = VideoDeviceRegisterFrameratePreChangeCB e (s1\<lparr>vd_cb_pre := Some i\<rparr>);
               s3 = VideoDeviceRegisterFrameratePostChangeCB e (s2\<lparr>vd_cb_post := Some i\<rparr>)
           in s3\<lparr>videoDevice_isInitialized := True\<rparr>
      else s)"

definition VideoDevice_Platform_init :: "vd_env \<Rightarrow> nat \<Rightarrow> vd_state \<Rightarrow> vd_state" where
  "VideoDevice_Platform_init e i s = getPersistenceValue_vd e (setAllCallbacks_vd e i s)"

text \<open>
  \<open>VideoDevice::Create\<close> builds the platform object, then the forwarding object \<open>i\<close>; the
  destructor of the latter ends both.
\<close>

definition VideoDevice_create :: "vd_env \<Rightarrow> nat \<Rightarrow> vd_state \<Rightarrow> vd_state" where
  "VideoDevice_create e i s = VideoDevice_Platform_init e i ((InitialiseHAL_vd e s)\<lparr>hs_live := Some i\<rparr>)"

definition VideoDevice_destroy :: "vd_state \<Rightarrow> vd_state" where
  "VideoDevice_destroy s = (DeInitialiseHAL_vd s)\<lparr>hs_live := None\<rparr>"

subsection \<open>The requests\<close>

definition vd_fail :: "vd_state \<Rightarrow> vd_result" where "vd_fail s = Ret (ERROR_GENERAL, None, s)"

definition GetVideoDeviceHandle :: "vd_env \<Rightarrow> int \<Rightarrow> vd_state \<Rightarrow> vd_result" where
  "GetVideoDeviceHandle e index s =
     (let c = VdDevice index
      in if hal_ok e c s then Ret (ERROR_NONE, Some (VdInt (int32 (hal_int e c s))), hal_log c s)
         else vd_fail (hal_log c s))"

text \<open>The branch of one supported zoom mode: \<open>name\<close> is what is stored, \<open>ev\<close> what is announced.\<close>

definition zoom_branch :: "vd_env \<Rightarrow> int \<Rightarrow> dsVideoZoom \<Rightarrow> string \<Rightarrow> VideoDeviceZoom \<Rightarrow> vd_state
    \<Rightarrow> (coreErr \<times> vd_state) outcome" where
  "zoom_branch e handle d name ev s =
     (let c = VdSetDFC handle d
      in if hal_ok e c s
         then obind (hal_notify (vd_cb_zoom s) (EvZoom ev)
                (hal_put e ''VideoDevice.DFC'' name ((hal_log c s)\<lparr>srv_dfc := d\<rparr>)))
              (\<lambda>s1. Ret (ERROR_NONE, s1))
         else Ret (ERROR_GENERAL, hal_log c s))"

definition SetVideoDeviceDFC :: "vd_env \<Rightarrow> int \<Rightarrow> VideoDeviceZoom \<Rightarrow> vd_state \<Rightarrow> vd_result" where
  "SetVideoDeviceDFC e handle z s =
     (let d = convertVideoDeviceZoom z
      in obind (if d = DSZ_NONE then zoom_branch e handle d ''None'' ZOOM_NONE s
                else if d = DSZ_FULL then zoom_branch e handle d ''Full'' ZOOM_FULL s
                else if d = DSZ_16_9_ZOOM then zoom_branch e handle d ''Full'' ZOOM_16_9_ZOOM s
                else Ret (ERROR_GENERAL, s))
         (\<lambda>(r, s1). Ret (r, None, if he_tv e then hal_log (VdHdmiInZoom (srv_dfc s1)) s1 else s1)))"

definition GetVideoDeviceDFC :: "vd_state \<Rightarrow> vd_result" where
  "GetVideoDeviceDFC s = Ret (ERROR_NONE, Some (VdZoom (convertDSVideoZoom (srv_dfc s))), s)"

definition GetHDRCapabilities_vd :: "vd_env \<Rightarrow> int \<Rightarrow> vd_state \<Rightarrow> vd_result" where
  "GetHDRCapabilities_vd e handle s =
     (let c = VdGetHDR handle
      in if he_symbol e ''dsGetHDRCapabilities'' \<and> \<not> force_disable_hdr s
         then if hal_ok e c s then Ret (ERROR_NONE, Some (VdInt (hal_int e c s)), hal_log c s)
              else vd_fail (hal_log c s)
         else Ret (ERROR_NONE, Some (VdInt (ve_HDR_NONE e)), s))"

definition GetSupportedVideoCodingFormats :: "vd_env \<Rightarrow> int \<Rightarrow> vd_state \<Rightarrow> vd_result" where
  "GetSupportedVideoCodingFormats e handle s =
     (let c = VdGetFormats handle
      in if he_symbol e ''dsGetSupportedVideoCodingFormats''
         then if hal_ok e c s then Ret (ERROR_NONE, Some (VdInt (int32 (hal_int e c s))), hal_log c s)
              else vd_fail (hal_log c s)
         else Ret (ERROR_NONE, Some (VdInt 0), s))"

definition createCodecInfoIterator :: "nat \<times> (int \<times> int) list \<Rightarrow> (int \<times> int) list" where
  "createCodecInfoIterator info = map (\<lambda>i. snd info ! i) [0..<min (fst info) (length (snd info))]"

definition GetCodecInfo :: "vd_env \<Rightarrow> int \<Rightarrow> VideoDeviceCodec \<Rightarrow> vd_state \<Rightarrow> vd_result" where
  "GetCodecInfo e handle codec s =
     (if \<not> he_symbol e ''dsGetVideoCodecInfo'' then Ret (ERROR_UNAVAILABLE, None, s)
      else let c = VdGetCodec handle (convertVideoCodecToDSFormat codec)
           in if hal_ok e c s
              then Ret (ERROR_NONE, Some (VdCodecs (createCodecInfoIterator (ve_codec e (hs_trace s) c))), hal_log c s)
              else vd_fail (hal_log c s))"

text \<open>The setting is changed and stored whether or not the HAL accepted it.\<close>

definition DisableHDR :: "vd_env \<Rightarrow> int \<Rightarrow> bool \<Rightarrow> vd_state \<Rightarrow> vd_result" where
  "DisableHDR e handle disable s =
     (let c = VdDisableHDR handle disable;
          (r, s1) = (if he_symbol e ''dsForceDisableHDRSupport''
                     then (if hal_ok e c s then ERROR_NONE else ERROR_GENERAL, hal_log c s)
                     else (ERROR_NONE, s))
      in Ret (r, None, hal_put e ''VideoDevice.forceHDRDisabled'' (if disable then ''true'' else ''false'')
            (s1\<lparr>force_disable_hdr := disable\<rparr>)))"

definition SetFRFMode :: "vd_env \<Rightarrow> int \<Rightarrow> int \<Rightarrow> vd_state \<Rightarrow> vd_result" where
  "SetFRFMode e handle mode s =
     (let c = VdSetFRF handle mode
      in if \<not> he_symbol e ''dsSetFRFMode'' then vd_fail s
         else if hal_ok e c s then Ret (ERROR_NONE, None, hal_log c s) else vd_fail (hal_log c s))"

definition GetFRFMode :: "vd_env \<Rightarrow> int \<Rightarrow> vd_state \<Rightarrow> vd_result" where
  "GetFRFMode e handle s =
     (let c = VdGetFRF handle
      in if \<not> he_symbol e ''dsGetFRFMode'' then vd_fail s
         else if hal_ok e c s then Ret (ERROR_NONE, Some (VdInt (hal_int e c s)), hal_log c s)
         else vd_fail (hal_log c s))"

text \<open>The HAL writes a NUL-terminated rate into a buffer of 32 bytes.\<close>

definition GetCurrentDisplayFrameRate :: "vd_env \<Rightarrow> int \<Rightarrow> vd_state \<Rightarrow> vd_result" where
  "GetCurrentDisplayFrameRate e handle s =
     (let c = VdGetRate handle
      in if \<not> he_symbol e ''dsGetCurrentDisplayframerate'' then vd_fail s
         else if hal_ok e c s then Ret (ERROR_NONE, Some (VdText (c_str (ve_text e (hs_trace s) c))), hal_log c s)
         else vd_fail (hal_log c s))"

definition SetDisplayFrameRate :: "vd_env \<Rightarrow> int \<Rightarrow> string \<Rightarrow> vd_state \<Rightarrow> vd_result" where
  "SetDisplayFrameRate e handle rate s =
     (if rate = [] then Ret (ERROR_BAD_REQUEST, None, s)
      else obind (hal_notify (vd_cb_pre s) (EvPreChange rate) s) (\<lambda>s1.
        let c = VdSetRate handle (take 31 (c_str rate));
            (r, result, s2) = (if he_symbol e ''dsSetDisplayframerate''
               then (if hal_ok e c s1 then ERROR_NONE else ERROR_GENERAL, he_ret e (hs_trace s1) c, hal_log c s1)
               else (ERROR_GENERAL, DsERR_NONE, s1))
        in if result = DsERR_INVALID_PARAM then Ret (r, None, s2)
           else obind (hal_notify (vd_cb_post s2) (EvPostChange rate) s2) (\<lambda>s3. Ret (r, None, s3))))"

subsection \<open>Events of the HAL, and the layers above\<close>

definition FramerateStatusPreChangeCB :: "int \<Rightarrow> vd_state \<Rightarrow> vd_state outcome" where
  "FramerateStatusPreChangeCB status s = hal_notify (vd_cb_pre s) (EvPreChange (to_string status)) s"

definition FramerateStatusPostChangeCB :: "int \<Rightarrow> vd_state \<Rightarrow> vd_state outcome" where
  "FramerateStatusPostChangeCB status s = hal_notify (vd_cb_post s) (EvPostChange (to_string status)) s"

datatype vd_request =
    RGetHandle int
  | RSetDFC int VideoDeviceZoom
  | RGetDFC int
  | RGetHDR int
  | RGetFormats int
  | RGetCodec int VideoDeviceCodec
  | RDisableHDR int bool
  | RSetFRF int int
  | RGetFRF int
  | RGetRate int
  | RSetRate int string

fun vd_platform :: "vd_env \<Rightarrow> vd_request \<Rightarrow> vd_state \<Rightarrow> vd_result" where
  "vd_platform e (RGetHandle i) s = GetVideoDeviceHandle e i s"
| "vd_platform e (RSetDFC h z) s = SetVideoDeviceDFC e h z s"
| "vd_platform e (RGetDFC h) s = GetVideoDeviceDFC s"
| "vd_platform e (RGetHDR h) s = GetHDRCapabilities_vd e h s"
| "vd_platform e (RGetFormats h) s = GetSupportedVideoCodingFormats e h s"
| "vd_platform e (RGetCodec h c) s = GetCodecInfo e h c s"
| "vd_platform e (RDisableHDR h d) s = DisableHDR e h d s"
| "vd_platform e (RSetFRF h m) s = SetFRFMode e h m s"
| "vd_platform e (RGetFRF h) s = GetFRFMode e h s"
| "vd_platform e (RGetRate h) s = GetCurrentDisplayFrameRate e h s"
| "vd_platform e (RSetRate h r) s = SetDisplayFrameRate e h r s"

definition VideoDevice_call :: "bool \<Rightarrow> vd_env \<Rightarrow> vd_request \<Rightarrow> vd_state \<Rightarrow> vd_result" where
  "VideoDevice_call platform e req s = (if platform then vd_platform e req s else vd_fail s)"

text \<open>The COM methods hand the request and its result through; the list of cached configurations
  is never filled.\<close>

definition VideoDeviceImpl_call :: "vd_env \<Rightarrow> vd_request \<Rightarrow> vd_state \<Rightarrow> vd_result" where
  "VideoDeviceImpl_call e req s = VideoDevice_call True e req s"

text \<open>
  What happens in one process: an object is created or destroyed, a client makes a request, the
  HAL reports a frame rate change it was asked to report. The \<open>i\<close>-th step creates object \<open>i\<close>.
\<close>

datatype vd_op = VdCreate | VdDestroy | VdRequest vd_request | VdPre int | VdPost int

fun vd_do :: "vd_env \<Rightarrow> nat \<Rightarrow> vd_op \<Rightarrow> vd_state \<Rightarrow> vd_state outcome" where
  "vd_do e i VdCreate s = Ret (if hs_live s = None then VideoDevice_create e i s else s)"
| "vd_do e i VdDestroy s = Ret (if hs_live s = None then s else VideoDevice_destroy s)"
| "vd_do e i (VdRequest req) s = (if hs_live s = None then Ret s
     else obind (VideoDeviceImpl_call e req s) (\<lambda>(r, out, s1). Ret s1))"
| "vd_do e i (VdPre status) s =
     (if VdRegisterPre \<in> set (hs_trace s) then FramerateStatusPreChangeCB status s else Ret s)"
| "vd_do e i (VdPost status) s =
     (if VdRegisterPost \<in> set (hs_trace s) then FramerateStatusPostChangeCB status s else Ret s)"

fun vd_run :: "vd_env \<Rightarrow> nat \<Rightarrow> vd_op list \<Rightarrow> vd_state \<Rightarrow> vd_state outcome" where
  "vd_run e i [] s = Ret s"
| "vd_run e i (c # cs) s = obind (vd_do e i c s) (vd_run e (Suc i) cs)"

subsection \<open>What the operations leave alone\<close>

lemma vd_fields [simp]:
  "videoDevice_isInitialized (hal_log c s) = videoDevice_isInitialized s"
  "videoDevice_isPlatInitialized (hal_log c s) = videoDevice_isPlatInitialized s"
  "srv_dfc (hal_log c s) = srv_dfc s"
  "force_disable_hdr (hal_log c s) = force_disable_hdr s"
  "vd_cb_zoom (hal_log c s) = vd_cb_zoom s"
  "vd_cb_pre (hal_log c s) = vd_cb_pre s"
  "vd_cb_post (hal_log c s) = vd_cb_post s"
  "videoDevice_isInitialized (hal_put e k v s) = videoDevice_isInitialized s"
  "videoDevice_isPlatInitialized (hal_put e k v s) = videoDevice_isPlatInitialized s"
  "srv_dfc (hal_put e k v s) = srv_dfc s"
  "force_disable_hdr (hal_put e k v s) = force_disable_hdr s"
  "vd_cb_zoom (hal_put e k v s) = vd_cb_zoom s"
  "vd_cb_pre (hal_put e k v s) = vd_cb_pre s"
  "vd_cb_post (hal_put e k v s) = vd_cb_post s"
  by (simp_all add: hal_log_def hal_put_def)

text \<open>The callbacks are those of the object that exists; without one the platform is down.\<close>

definition vd_ok :: "vd_state \<Rightarrow> bool" where
  "vd_ok s \<longleftrightarrow> (case hs_live s of
       None \<Rightarrow> \<not> videoDevice_isPlatInitialized s \<and> \<not> videoDevice_isInitialized s
     | Some i \<Rightarrow> videoDevice_isPlatInitialized s \<and> videoDevice_isInitialized s
         \<and> vd_cb_zoom s = Some i \<and> vd_cb_pre s = Some i \<and> vd_cb_post s = Some i)"

definition same_objects :: "vd_state \<Rightarrow> vd_state \<Rightarrow> bool" where
  "same_objects s t \<longleftrightarrow> hs_live t = hs_live s \<and> videoDevice_isPlatInitialized t = videoDevice_isPlatInitialized s
     \<and> videoDevice_isInitialized t = videoDevice_isInitialized s \<and> vd_cb_zoom t = vd_cb_zoom s
     \<and> vd_cb_pre t = vd_cb_pre s \<and> vd_cb_post t = vd_cb_post s
     \<and> (VdRegisterPre \<in> set (hs_trace t)) = (VdRegisterPre \<in> set (hs_trace s))
     \<and> (VdRegisterPost \<in> set (hs_trace t)) = (VdRegisterPost \<in> set (hs_trace s))"

lemma vd_ok_same: "same_objects s t \<Longrightarrow> vd_ok t = vd_ok s"
  by (simp add: vd_ok_def same_objects_def split: option.split)

lemma vd_ok_static: "vd_ok (vd_static st)"
  by (simp add: vd_ok_def vd_static_def)

lemma persistence_same: "same_objects s (getPersistenceValue_vd e s)"
  by (simp add: same_objects_def getPersistenceValue_vd_def hal_read_eq Let_def)

lemma vd_ok_create:
  assumes "\<And>h. he_ret e h VdInit = DsERR_NONE" and "vd_ok s" and "hs_live s = None"
  shows "vd_ok (VideoDevice_create e i s)"
proof -
  have "hal_ok e VdInit s" using assms(1) by (simp add: hal_ok_def)
  then show ?thesis
    using assms(2,3) persistence_same [of "hal_log VdInit s" e]
    unfolding VideoDevice_create_def VideoDevice_Platform_init_def vd_ok_same [OF persistence_same]
    by (simp add: InitialiseHAL_vd_def vd_ok_def setAllCallbacks_vd_def same_objects_def Let_def
        VideoDeviceRegisterFrameratePreChangeCB_def VideoDeviceRegisterFrameratePostChangeCB_def)
qed

lemma vd_ok_destroy: "vd_ok (VideoDevice_destroy s)"
  by (simp add: VideoDevice_destroy_def DeInitialiseHAL_vd_def vd_ok_def)

lemma vd_ok_notify:
  assumes "vd_ok s" and "hs_live s = Some i"
  shows "hal_notify (vd_cb_zoom s) ev s = Ret (hal_log ev s)"
    and "hal_notify (vd_cb_pre s) ev s = Ret (hal_log ev s)"
    and "hal_notify (vd_cb_post s) ev s = Ret (hal_log ev s)"
  using assms by (simp_all add: vd_ok_def hal_notify_def)

lemma same_log [simp]:
  "c \<noteq> VdRegisterPre \<Longrightarrow> c \<noteq> VdRegisterPost \<Longrightarrow> same_objects s (hal_log c t) = same_objects s t"
  by (simp add: same_objects_def)

lemma same_put [simp]: "same_objects s (hal_put e k v t) = same_objects s t"
  by (simp add: same_objects_def)

lemma same_refl [simp]: "same_objects s s" "same_objects s (s\<lparr>srv_dfc := d\<rparr>)"
    "same_objects s (s\<lparr>force_disable_hdr := b\<rparr>)"
    "same_objects s (t\<lparr>srv_dfc := d\<rparr>) = same_objects s t"
    "same_objects s (t\<lparr>force_disable_hdr := b\<rparr>) = same_objects s t"
  by (simp_all add: same_objects_def)

lemma zoom_branch_live:
  assumes "vd_ok s" and "hs_live s = Some i"
  shows "\<exists>r t. zoom_branch e h d name ev s = Ret (r, t) \<and> same_objects s t"
  using assms by (simp add: zoom_branch_def Let_def hal_notify_def vd_ok_def)

lemma SetVideoDeviceDFC_live:
  assumes "vd_ok s" and "hs_live s = Some i"
  shows "\<exists>r t. SetVideoDeviceDFC e h z s = Ret (r, None, t) \<and> same_objects s t"
proof -
  have z: "\<exists>r t. zoom_branch e h d name ev s = Ret (r, t) \<and> same_objects s t" for d name ev
    using assms by (rule zoom_branch_live)
  show ?thesis
    using z [of DSZ_NONE "''None''" ZOOM_NONE] z [of DSZ_FULL "''Full''" ZOOM_FULL]
      z [of DSZ_16_9_ZOOM "''Full''" ZOOM_16_9_ZOOM]
    by (auto simp: SetVideoDeviceDFC_def Let_def)
qed

lemma SetDisplayFrameRate_live:
  assumes "vd_ok s" and "hs_live s = Some i"
  shows "\<exists>r t. SetDisplayFrameRate e h rate s = Ret (r, None, t) \<and> same_objects s t"
  using assms by (simp add: SetDisplayFrameRate_def Let_def hal_notify_def vd_ok_def)

lemma request_live:
  assumes "vd_ok s" and "hs_live s = Some i"
  shows "\<exists>r out t. vd_platform e req s = Ret (r, out, t) \<and> same_objects s t"
proof (cases req)
  case (RSetDFC h z)
  with SetVideoDeviceDFC_live [OF assms, of e h z] show ?thesis by auto
next
  case (RSetRate h r)
  with SetDisplayFrameRate_live [OF assms, of e h r] show ?thesis by auto
qed (simp_all add: GetVideoDeviceHandle_def GetVideoDeviceDFC_def GetHDRCapabilities_vd_def vd_fail_def
    GetSupportedVideoCodingFormats_def GetCodecInfo_def DisableHDR_def SetFRFMode_def GetFRFMode_def
    GetCurrentDisplayFrameRate_def Let_def)

subsection \<open>The listeners of the events\<close>

text \<open>Whether the HAL reports a change after an object was made and none is left.\<close>

fun late_event :: "bool \<Rightarrow> bool \<Rightarrow> vd_op list \<Rightarrow> bool" where
  "late_event made live [] = False"
| "late_event made live (VdCreate # cs) = late_event True True cs"
| "late_event made live (VdDestroy # cs) = late_event made False cs"
| "late_event made live (VdRequest req # cs) = late_event made live cs"
| "late_event made live (VdPre status # cs) = (made \<and> \<not> live \<or> late_event made live cs)"
| "late_event made live (VdPost status # cs) = (made \<and> \<not> live \<or> late_event made live cs)"

definition vd_history :: "bool \<Rightarrow> bool \<Rightarrow> vd_state \<Rightarrow> bool" where
  "vd_history made live s \<longleftrightarrow> vd_ok s \<and> (hs_live s \<noteq> None) = live \<and> (live \<longrightarrow> made)
     \<and> (VdRegisterPre \<in> set (hs_trace s)) = made \<and> (VdRegisterPost \<in> set (hs_trace s)) = made
     \<and> (made \<longrightarrow> vd_cb_pre s \<noteq> None \<and> vd_cb_post s \<noteq> None)"

lemma history_same:
  assumes "same_objects s t" and "vd_history made live s"
  shows "vd_history made live t"
  using assms vd_ok_same [OF assms(1)] by (simp add: vd_history_def same_objects_def)

lemma history_create:
  assumes init: "\<And>h. he_ret e h VdInit = DsERR_NONE"
    and sym: "he_symbol e ''dsRegisterFrameratePreChangeCB''" "he_symbol e ''dsRegisterFrameratePostChangeCB''"
    and h: "vd_history made False s"
  shows "vd_history True True (VideoDevice_create e i s)"
proof -
  have s: "vd_ok s" "hs_live s = None" using h by (simp_all add: vd_history_def)
  have "same_objects (setAllCallbacks_vd e i ((InitialiseHAL_vd e s)\<lparr>hs_live := Some i\<rparr>)) (VideoDevice_create e i s)"
    by (simp add: VideoDevice_create_def VideoDevice_Platform_init_def persistence_same)
  moreover have "hal_ok e VdInit s" using init by (simp add: hal_ok_def)
  ultimately show ?thesis
    using vd_ok_create [OF init s, of i] s persistence_same [of "hal_log VdInit s" e]
    by (simp add: vd_history_def same_objects_def setAllCallbacks_vd_def InitialiseHAL_vd_def vd_ok_def sym Let_def
        VideoDeviceRegisterFrameratePreChangeCB_def VideoDeviceRegisterFrameratePostChangeCB_def)
qed

lemma history_destroy: "vd_history made live s \<Longrightarrow> vd_history made False (VideoDevice_destroy s)"
  using vd_ok_destroy [of s]
  by (simp add: vd_history_def VideoDevice_destroy_def DeInitialiseHAL_vd_def)

lemma history_log:
  assumes "vd_history made live s" and "c \<noteq> VdRegisterPre" and "c \<noteq> VdRegisterPost"
  shows "vd_history made live (hal_log c s)"
  by (rule history_same [OF _ assms(1)]) (simp add: assms)

lemma history_event:
  assumes "vd_history made live s"
  shows "vd_do e i (VdPre x) s = (if made \<and> \<not> live then UB
           else Ret (if made then hal_log (EvPreChange (to_string x)) s else s))"
    and "vd_do e i (VdPost x) s = (if made \<and> \<not> live then UB
           else Ret (if made then hal_log (EvPostChange (to_string x)) s else s))"
  using assms
  by (auto simp: vd_history_def vd_ok_def hal_notify_def FramerateStatusPreChangeCB_def
      FramerateStatusPostChangeCB_def split: option.splits)

lemma history_run:
  assumes init: "\<And>h. he_ret e h VdInit = DsERR_NONE"
    and sym: "he_symbol e ''dsRegisterFrameratePreChangeCB''" "he_symbol e ''dsRegisterFrameratePostChangeCB''"
    and h: "vd_history made live s"
  shows "if late_event made live cs then vd_run e i cs s = UB else \<exists>t. vd_run e i cs s = Ret t \<and> vd_ok t"
  using h
proof (induction cs arbitrary: i made live s)
  case Nil
  then show ?case by (simp add: vd_history_def)
next
  case (Cons c cs)
  have live: "(hs_live s = None) = (\<not> live)" and lm: "live \<Longrightarrow> made" using Cons.prems by (auto simp: vd_history_def)
  show ?case
  proof (cases c)
    case VdCreate
    moreover have "vd_history True True (if live then s else VideoDevice_create e i s)"
      using Cons.prems history_create [OF init sym, of made s i] lm by (cases live) auto
    ultimately show ?thesis using Cons.IH [of True True _ "Suc i"] live by (auto split: if_splits)
  next
    case VdDestroy
    moreover have "vd_history made False (if live then VideoDevice_destroy s else s)"
      using Cons.prems history_destroy by (cases live) auto
    ultimately show ?thesis using Cons.IH [of made False _ "Suc i"] live by (auto split: if_splits)
  next
    case (VdRequest req)
    have "\<exists>t. vd_do e i c s = Ret t \<and> vd_history made live t"
    proof (cases "hs_live s")
      case None
      then show ?thesis using VdRequest Cons.prems by simp
    next
      case (Some j)
      then obtain r out t where t: "vd_platform e req s = Ret (r, out, t)" "same_objects s t"
        using request_live [of s j e req] Cons.prems by (auto simp: vd_history_def)
      then have "vd_do e i c s = Ret t"
        using VdRequest Some by (simp add: VideoDeviceImpl_call_def VideoDevice_call_def)
      with history_same [OF t(2) Cons.prems] show ?thesis by simp
    qed
    then show ?thesis using VdRequest Cons.IH [of made live _ "Suc i"] by auto
  next
    case (VdPre x)
    then show ?thesis
      using Cons.IH [of made live s "Suc i"] Cons.IH [OF history_log [OF Cons.prems], of "EvPreChange (to_string x)" "Suc i"]
        history_event(1) [OF Cons.prems, of e i x] Cons.prems by (auto split: if_splits)
  next
    case (VdPost x)
    then show ?thesis
      using Cons.IH [of made live s "Suc i"] Cons.IH [OF history_log [OF Cons.prems], of "EvPostChange (to_string x)" "Suc i"]
        history_event(2) [OF Cons.prems, of e i x] Cons.prems by (auto split: if_splits)
  qed
qed

text \<open>
  Without that assumption: the three callbacks are always of one object, the last whose HAL
  started. They are stale when that object is not the one that exists, and a stale one runs when
  the HAL reports a change it was asked to report, or when a request announces something: a frame
  rate, or a zoom mode the HAL has accepted.
\<close>

definition vd_cbs :: "vd_state \<Rightarrow> bool" where
  "vd_cbs s \<longleftrightarrow> vd_cb_zoom s = vd_cb_pre s \<and> vd_cb_post s = vd_cb_pre s"

definition vd_stale :: "vd_state \<Rightarrow> bool" where
  "vd_stale s \<longleftrightarrow> (\<exists>j. vd_cb_pre s = Some j \<and> hs_live s \<noteq> Some j)"

fun announces :: "vd_env \<Rightarrow> vd_request \<Rightarrow> vd_state \<Rightarrow> bool" where
  "announces e (RSetRate h rate) s \<longleftrightarrow> rate \<noteq> []"
| "announces e (RSetDFC h z) s \<longleftrightarrow> convertVideoDeviceZoom z \<in> {DSZ_NONE, DSZ_FULL, DSZ_16_9_ZOOM}
     \<and> hal_ok e (VdSetDFC h (convertVideoDeviceZoom z)) s"
| "announces e _ s \<longleftrightarrow> False"

fun vd_bad :: "vd_env \<Rightarrow> vd_op \<Rightarrow> vd_state \<Rightarrow> bool" where
  "vd_bad e (VdPre status) s \<longleftrightarrow> VdRegisterPre \<in> set (hs_trace s) \<and> vd_stale s"
| "vd_bad e (VdPost status) s \<longleftrightarrow> VdRegisterPost \<in> set (hs_trace s) \<and> vd_stale s"
| "vd_bad e (VdRequest req) s \<longleftrightarrow> hs_live s \<noteq> None \<and> vd_stale s \<and> announces e req s"
| "vd_bad e _ s \<longleftrightarrow> False"

lemma vd_cbs_same: "same_objects s t \<Longrightarrow> vd_cbs t = vd_cbs s"
  by (simp add: vd_cbs_def same_objects_def)

lemma vd_cbs_create: "vd_cbs s \<Longrightarrow> vd_cbs (VideoDevice_create e i s)"
proof -
  assume c: "vd_cbs s"
  have "vd_cbs (InitialiseHAL_vd e s)"
    using c persistence_same [of "hal_log VdInit s" e]
    by (simp add: InitialiseHAL_vd_def vd_cbs_def same_objects_def)
  then have "vd_cbs (setAllCallbacks_vd e i ((InitialiseHAL_vd e s)\<lparr>hs_live := Some i\<rparr>))"
    by (simp add: setAllCallbacks_vd_def vd_cbs_def Let_def
        VideoDeviceRegisterFrameratePreChangeCB_def VideoDeviceRegisterFrameratePostChangeCB_def)
  then show ?thesis
    unfolding VideoDevice_create_def VideoDevice_Platform_init_def by (simp add: vd_cbs_same [OF persistence_same])
qed

lemma notify_fresh:
  fixes s t :: vd_state
  assumes "\<not> vd_stale s" and "vd_cbs s" and "cb \<in> {vd_cb_zoom s, vd_cb_pre s, vd_cb_post s}" and "hs_live t = hs_live s"
  shows "hal_notify cb ev t = Ret (if vd_cb_pre s = None then t else hal_log ev t)"
  using assms by (cases "vd_cb_pre s") (auto simp: hal_notify_def vd_stale_def vd_cbs_def)

lemma notify_stale:
  fixes s t :: vd_state
  assumes "vd_stale s" and "vd_cbs s" and "cb \<in> {vd_cb_zoom s, vd_cb_pre s, vd_cb_post s}" and "hs_live t = hs_live s"
  shows "hal_notify cb ev t = UB"
  using assms by (auto simp: hal_notify_def vd_stale_def vd_cbs_def)

lemma zoom_branch_exact:
  assumes "vd_cbs s"
  shows "if vd_stale s \<and> hal_ok e (VdSetDFC h d) s then zoom_branch e h d name ev s = UB
         else \<exists>r t. zoom_branch e h d name ev s = Ret (r, t) \<and> same_objects s t"
  using assms notify_stale [of s "vd_cb_zoom s" _ "EvZoom ev"] notify_fresh [of s "vd_cb_zoom s" _ "EvZoom ev"]
  by (auto simp: zoom_branch_def Let_def)

lemma SetVideoDeviceDFC_exact:
  assumes "vd_cbs s"
  shows "if vd_stale s \<and> announces e (RSetDFC h z) s then SetVideoDeviceDFC e h z s = UB
         else \<exists>r t. SetVideoDeviceDFC e h z s = Ret (r, None, t) \<and> same_objects s t"
proof -
  note z = zoom_branch_exact [OF assms, of e h]
  show ?thesis
    using z [of DSZ_NONE "''None''" ZOOM_NONE] z [of DSZ_FULL "''Full''" ZOOM_FULL]
      z [of DSZ_16_9_ZOOM "''Full''" ZOOM_16_9_ZOOM]
    by (auto simp: SetVideoDeviceDFC_def Let_def split: if_splits)
qed

lemma SetDisplayFrameRate_exact:
  assumes "vd_cbs s"
  shows "if vd_stale s \<and> rate \<noteq> [] then SetDisplayFrameRate e h rate s = UB
         else \<exists>r t. SetDisplayFrameRate e h rate s = Ret (r, None, t) \<and> same_objects s t"
proof (cases "vd_stale s")
  case True
  then show ?thesis
    using assms notify_stale [of s "vd_cb_pre s" s] by (simp add: SetDisplayFrameRate_def)
next
  case False
  have p: "hal_notify (vd_cb_pre s) ev s = Ret (if vd_cb_pre s = None then s else hal_log ev s)" for ev
    using notify_fresh [OF False assms, of "vd_cb_pre s" s] by simp
  have q: "hal_notify (vd_cb_post s) ev t = Ret (if vd_cb_pre s = None then t else hal_log ev t)"
    if "hs_live t = hs_live s" for ev and t :: vd_state
    using notify_fresh [OF False assms, of "vd_cb_post s" t] that by simp
  show ?thesis using False by (simp add: SetDisplayFrameRate_def Let_def p q)
qed

lemma request_exact:
  assumes "vd_cbs s"
  shows "if vd_stale s \<and> announces e req s then vd_platform e req s = UB
         else \<exists>r out t. vd_platform e req s = Ret (r, out, t) \<and> same_objects s t"
proof (cases req)
  case (RSetDFC h z)
  with SetVideoDeviceDFC_exact [OF assms, of e h z] show ?thesis by (auto split: if_splits)
next
  case (RSetRate h r)
  with SetDisplayFrameRate_exact [OF assms, of r e h] show ?thesis by (auto split: if_splits)
qed (simp_all add: GetVideoDeviceHandle_def GetVideoDeviceDFC_def GetHDRCapabilities_vd_def vd_fail_def
    GetSupportedVideoCodingFormats_def GetCodecInfo_def DisableHDR_def SetFRFMode_def GetFRFMode_def
    GetCurrentDisplayFrameRate_def Let_def)

lemma vd_do_bad: "vd_cbs s \<Longrightarrow> vd_bad e c s \<Longrightarrow> vd_do e i c s = UB"
  using request_exact [of s e] notify_stale [of s _ s]
  by (cases c) (auto simp: FramerateStatusPreChangeCB_def FramerateStatusPostChangeCB_def
      VideoDeviceImpl_call_def VideoDevice_call_def)

lemma vd_do_good: "vd_cbs s \<Longrightarrow> \<not> vd_bad e c s \<Longrightarrow> \<exists>t. vd_do e i c s = Ret t \<and> vd_cbs t"
proof (cases c)
  case VdCreate
  then show "vd_cbs s \<Longrightarrow> ?thesis" using vd_cbs_create by simp
next
  case VdDestroy
  then show "vd_cbs s \<Longrightarrow> ?thesis" by (simp add: VideoDevice_destroy_def DeInitialiseHAL_vd_def vd_cbs_def)
next
  case (VdRequest req)
  assume s: "vd_cbs s" "\<not> vd_bad e c s"
  show ?thesis
  proof (cases "hs_live s = None")
    case False
    then obtain r out t where "vd_platform e req s = Ret (r, out, t)" "same_objects s t"
      using request_exact [OF s(1), of e req] s(2) VdRequest by auto
    then show ?thesis using VdRequest False s(1) vd_cbs_same
      by (auto simp: VideoDeviceImpl_call_def VideoDevice_call_def)
  qed (use VdRequest s in simp)
next
  case (VdPre x)
  assume s: "vd_cbs s" "\<not> vd_bad e c s"
  then show ?thesis
    using VdPre notify_fresh [of s "vd_cb_pre s" s] by (auto simp: FramerateStatusPreChangeCB_def vd_cbs_def)
next
  case (VdPost x)
  assume s: "vd_cbs s" "\<not> vd_bad e c s"
  then show ?thesis
    using VdPost notify_fresh [of s "vd_cb_post s" s] by (auto simp: FramerateStatusPostChangeCB_def vd_cbs_def)
qed

interpretation vd: guarded_run "vd_do e" "vd_run e" "vd_bad e" vd_cbs for e
  by unfold_locales (simp_all add: vd_do_bad vd_do_good)

text \<open>
  C35. When a listener of the video device runs into nothing, exactly. Over any history of
  creations, destructions, requests and HAL reports in one process, whatever the HAL answers, also
  when it fails to start for a later object, undefined behaviour happens precisely at a step that
  runs a callback of an object that is gone: a frame rate change the HAL reports, or a request that
  announces a frame rate or an accepted zoom mode, while the callbacks are those of another object
  than the one that exists; every other history returns. If the HAL always starts and has the two
  registration functions, that leaves one case: a report after the last object was destroyed.
\<close>

theorem video_device_listeners:
  "(vd_run e 0 cs (vd_static st) = UB \<longleftrightarrow>
      (\<exists>as c bs t. cs = as @ c # bs \<and> vd_run e 0 as (vd_static st) = Ret t \<and> vd_bad e c t))
   \<and> (vd_run e 0 cs (vd_static st) = UB \<or> (\<exists>t. vd_run e 0 cs (vd_static st) = Ret t))
   \<and> ((\<forall>h. he_ret e h VdInit = DsERR_NONE)
        \<and> he_symbol e ''dsRegisterFrameratePreChangeCB'' \<and> he_symbol e ''dsRegisterFrameratePostChangeCB''
      \<longrightarrow> (if late_event False False cs then vd_run e 0 cs (vd_static st) = UB
           else \<exists>t. vd_run e 0 cs (vd_static st) = Ret t \<and> vd_ok t))"
proof -
  have "vd_cbs (vd_static st)" by (simp add: vd_cbs_def vd_static_def)
  from vd.run_exact [OF this, of e 0 cs]
  have "(vd_run e 0 cs (vd_static st) = UB \<longleftrightarrow>
      (\<exists>as c bs t. cs = as @ c # bs \<and> vd_run e 0 as (vd_static st) = Ret t \<and> vd_bad e c t))
   \<and> (vd_run e 0 cs (vd_static st) = UB \<or> (\<exists>t. vd_run e 0 cs (vd_static st) = Ret t))" by blast
  moreover have "vd_history False False (vd_static st)"
    by (simp add: vd_history_def vd_ok_static) (simp add: vd_static_def)
  ultimately show ?thesis using history_run [of e False False "vd_static st" cs 0] by blast
qed

definition vd_sample :: vd_env where
  "vd_sample = \<lparr>he_ret = (\<lambda>_ _. DsERR_NONE), he_int = (\<lambda>_ _. 0), he_symbol = (\<lambda>_. True), he_io = io_full,
     he_tv = True, ve_text = (\<lambda>_ _. ''3840x2160px60''), ve_codec = (\<lambda>_ _. (0, [])), ve_HDR_NONE = 0\<rparr>"

theorem video_device_listeners_witness:
  "vd_run vd_sample 0 [VdCreate, VdRequest (RSetDFC 0 ZOOM_NONE), VdPre 60, VdDestroy, VdPost 60]
     (vd_static (hp_new ''f'' (\<lambda>_. None))) = UB"
  using video_device_listeners [of vd_sample
      "[VdCreate, VdRequest (RSetDFC 0 ZOOM_NONE), VdPre 60, VdDestroy, VdPost 60]"]
  by (simp add: vd_sample_def)

text \<open>An object whose HAL does not start gets no callbacks: its requests run those of the object before.\<close>

lemma failed_restart_is_stale:
  assumes "\<And>h. (he_ret e h VdInit = DsERR_NONE) = (VdTerm \<notin> set h)" and "rate \<noteq> []"
  shows "vd_run e 0 [VdCreate, VdDestroy, VdCreate, VdRequest (RSetRate handle rate)] (vd_static st) = UB"
proof -
  let ?s1 = "VideoDevice_create e 0 (vd_static st)"
  let ?s2 = "VideoDevice_destroy ?s1"
  let ?s3 = "VideoDevice_create e (Suc (Suc 0)) ?s2"
  note plat = persistence_same [of "setAllCallbacks_vd e 0 ((InitialiseHAL_vd e (vd_static st))\<lparr>hs_live := Some 0\<rparr>)" e]
    persistence_same [of "hal_log VdInit (vd_static st)" e]
  have "hal_ok e VdInit (vd_static st)" using assms(1) by (simp add: hal_ok_def vd_static_def)
  then have s1: "hs_live ?s1 = Some 0" "vd_cb_pre ?s1 = Some 0" "videoDevice_isPlatInitialized ?s1"
    using plat
    by (simp_all add: VideoDevice_create_def VideoDevice_Platform_init_def same_objects_def setAllCallbacks_vd_def
        Let_def VideoDeviceRegisterFrameratePreChangeCB_def VideoDeviceRegisterFrameratePostChangeCB_def
        InitialiseHAL_vd_def vd_static_def)
  then have s2: "hs_live ?s2 = None" "vd_cb_pre ?s2 = Some 0" "\<not> videoDevice_isPlatInitialized ?s2" "VdTerm \<in> set (hs_trace ?s2)"
    by (simp_all add: VideoDevice_destroy_def DeInitialiseHAL_vd_def)
  then have "InitialiseHAL_vd e ?s2 = hal_log VdInit ?s2"
    using assms(1) by (simp add: InitialiseHAL_vd_def hal_ok_def)
  then have "?s3 = getPersistenceValue_vd e ((hal_log VdInit ?s2)\<lparr>hs_live := Some (Suc (Suc 0))\<rparr>)"
    using s2(3) by (simp add: VideoDevice_create_def VideoDevice_Platform_init_def setAllCallbacks_vd_def)
  then have s3: "hs_live ?s3 = Some (Suc (Suc 0))" "vd_cb_pre ?s3 = Some 0"
    using persistence_same [of "(hal_log VdInit ?s2)\<lparr>hs_live := Some (Suc (Suc 0))\<rparr>" e] s2
    by (simp_all add: same_objects_def)
  then have "SetDisplayFrameRate e handle rate ?s3 = UB"
    using assms(2) by (simp add: SetDisplayFrameRate_def hal_notify_def)
  moreover have "hs_live (vd_static st) = None" by (simp add: vd_static_def)
  ultimately show ?thesis
    using s1(1) s2(1) s3(1) by (simp add: VideoDeviceImpl_call_def VideoDevice_call_def)
qed

subsection \<open>Settings after a restart\<close>

lemma persistence_stored:
  shows "srv_dfc (getPersistenceValue_vd e s)
       = (if hp_get (hs_store s) ''VideoDevice.DFC'' = Some ''None'' then DSZ_NONE else srv_dfc s)"
    and "force_disable_hdr (getPersistenceValue_vd e s)
       = (hp_get (hs_store s) ''VideoDevice.forceHDRDisabled'' \<notin> {None, Some ''false''})"
    and "hp_get (hs_store (getPersistenceValue_vd e s)) k = hp_get (hs_store s) k"
    and "set (hs_trace (getPersistenceValue_vd e s)) \<subseteq> set (hs_trace s) \<union> range VdHdmiInZoom"
  by (auto simp: getPersistenceValue_vd_def hal_read_eq Let_def split: option.splits)

lemma setAllCallbacks_stored:
  shows "srv_dfc (setAllCallbacks_vd e i s) = srv_dfc s" and "hs_store (setAllCallbacks_vd e i s) = hs_store s"
    and "set (hs_trace (setAllCallbacks_vd e i s)) \<subseteq> set (hs_trace s) \<union> {VdRegisterPre, VdRegisterPost}"
  by (auto simp: setAllCallbacks_vd_def Let_def VideoDeviceRegisterFrameratePreChangeCB_def
      VideoDeviceRegisterFrameratePostChangeCB_def)

lemma create_stored:
  fixes e :: vd_env and i :: nat and st :: host_store
  defines "t \<equiv> VideoDevice_create e i (vd_static st)"
  shows "srv_dfc t = (if hp_get st ''VideoDevice.DFC'' = Some ''None'' then DSZ_NONE else DSZ_FULL)"
    and "force_disable_hdr t = (hp_get st ''VideoDevice.forceHDRDisabled'' \<notin> {None, Some ''false''})"
    and "VdSetDFC h d \<notin> set (hs_trace t)"
proof -
  let ?s = "InitialiseHAL_vd e (vd_static st)"
  have s: "hp_get (hs_store ?s) k = hp_get st k" for k
    by (simp add: InitialiseHAL_vd_def persistence_stored) (simp add: vd_static_def)
  have z: "srv_dfc ?s = (if hp_get st ''VideoDevice.DFC'' = Some ''None'' \<and> hal_ok e VdInit (vd_static st) then DSZ_NONE else DSZ_FULL)"
    by (simp add: InitialiseHAL_vd_def persistence_stored) (simp add: vd_static_def)
  have t: "t = getPersistenceValue_vd e (setAllCallbacks_vd e i (?s\<lparr>hs_live := Some i\<rparr>))"
    by (simp add: t_def VideoDevice_create_def VideoDevice_Platform_init_def)
  show "srv_dfc t = (if hp_get st ''VideoDevice.DFC'' = Some ''None'' then DSZ_NONE else DSZ_FULL)"
    and "force_disable_hdr t = (hp_get st ''VideoDevice.forceHDRDisabled'' \<notin> {None, Some ''false''})"
    by (simp_all add: t persistence_stored setAllCallbacks_stored s z)
  have "set (hs_trace ?s) \<subseteq> {VdInit} \<union> range VdHdmiInZoom"
    using persistence_stored(4) [of e "hal_log VdInit (vd_static st)"]
    by (auto simp: InitialiseHAL_vd_def vd_static_def)
  then show "VdSetDFC h d \<notin> set (hs_trace t)"
    using persistence_stored(4) [of e "setAllCallbacks_vd e i (?s\<lparr>hs_live := Some i\<rparr>)"]
      setAllCallbacks_stored(3) [of e i "?s\<lparr>hs_live := Some i\<rparr>"] by (auto simp: t)
qed

lemma video_keys [simp]:
  "word_ok ''VideoDevice.DFC''" "word_ok ''VideoDevice.forceHDRDisabled''" "word_ok ''None''" "word_ok ''Full''"
  "word_ok ''true''" "word_ok ''false''"
  by (simp_all add: word_ok_def isspace_def)

text \<open>
  The zoom mode after a restart: an accepted mode comes back as it was, except the 16:9 zoom,
  which comes back as full (it is stored as \<open>"Full"\<close>), and a mode the code does not know, which
  is set as full at once. The restored mode is only reported to clients: the start-up never sets
  it on the video device.
\<close>

theorem zoom_after_restart:
  fixes e e2 :: vd_env and i :: nat
  assumes "hp_durable (hs_store s)" and "he_io e = io_full"
    and "SetVideoDeviceDFC e h z s = Ret (ERROR_NONE, out, s1)"
  defines "t \<equiv> VideoDevice_create e2 i (vd_static (hp_restart (hs_store s1)))"
  shows "GetVideoDeviceDFC t = Ret (ERROR_NONE, Some (VdZoom (if z = ZOOM_NONE then ZOOM_NONE else ZOOM_FULL)), t)
    \<and> VdSetDFC h2 d \<notin> set (hs_trace t)"
proof -
  have "hs_store s1 = hp_put io_full ''VideoDevice.DFC'' (if z = ZOOM_NONE then ''None'' else ''Full'') (hs_store s)"
    using assms(2,3)
    by (cases z) (auto simp: SetVideoDeviceDFC_def zoom_branch_def hal_notify_def Let_def hal_put_def hal_log_def hp_put_def
        obind_Ret_iff split: if_splits option.splits)
  then have "hp_get (hp_restart (hs_store s1)) ''VideoDevice.DFC'' = Some (if z = ZOOM_NONE then ''None'' else ''Full'')"
    using hpd.get_put_reload [OF assms(1)] by simp
  then show ?thesis
    by (simp add: GetVideoDeviceDFC_def t_def create_stored)
qed

text \<open>
  The switch that disables HDR survives a restart even if the HAL refused it: the request
  then fails, but the setting has been changed and stored. After the restart the capabilities are
  \<open>dsHDRSTANDARD_NONE\<close>, without a HAL call, if HDR was disabled, and the HAL's answer otherwise.
\<close>

theorem hdr_switch_after_restart:
  fixes e e2 :: vd_env and i :: nat
  assumes "hp_durable (hs_store s)" and "he_io e = io_full" and "he_symbol e2 ''dsGetHDRCapabilities''"
    and "DisableHDR e h disable s = Ret (r, out, s1)"
  defines "t \<equiv> VideoDevice_create e2 i (vd_static (hp_restart (hs_store s1)))"
  shows "GetHDRCapabilities_vd e2 h2 t =
     (if disable then Ret (ERROR_NONE, Some (VdInt (ve_HDR_NONE e2)), t)
      else if hal_ok e2 (VdGetHDR h2) t
      then Ret (ERROR_NONE, Some (VdInt (hal_int e2 (VdGetHDR h2) t)), hal_log (VdGetHDR h2) t)
      else Ret (ERROR_GENERAL, None, hal_log (VdGetHDR h2) t))"
proof -
  have "hs_store s1 = hp_put io_full ''VideoDevice.forceHDRDisabled'' (if disable then ''true'' else ''false'') (hs_store s)"
    using assms(2,4) by (auto simp: DisableHDR_def Let_def hal_put_def hal_log_def hp_put_def split: if_splits)
  then have "hp_get (hp_restart (hs_store s1)) ''VideoDevice.forceHDRDisabled'' = Some (if disable then ''true'' else ''false'')"
    using hpd.get_put_reload [OF assms(1)] by simp
  then show ?thesis
    using assms(3) by (simp add: GetHDRCapabilities_vd_def t_def create_stored vd_fail_def Let_def)
qed

definition vd_sample_state :: vd_state where
  "vd_sample_state = vd_static (hp_new ''f'' (\<lambda>_. None))"

lemma sample_durable: "hp_durable (hs_store vd_sample_state)"
  by (simp add: vd_sample_state_def vd_static_def hp_durable_new no_nul_file_def)

theorem zoom_after_restart_witness:
  "\<exists>t. GetVideoDeviceDFC t = Ret (ERROR_NONE, Some (VdZoom ZOOM_FULL), t)"
proof -
  obtain s1 where "SetVideoDeviceDFC vd_sample 0 ZOOM_16_9_ZOOM vd_sample_state = Ret (ERROR_NONE, None, s1)"
    by (simp add: SetVideoDeviceDFC_def zoom_branch_def hal_notify_def hal_ok_def vd_sample_def vd_sample_state_def vd_static_def)
  from zoom_after_restart [OF sample_durable _ this, of vd_sample 1]
  show ?thesis by (auto simp: vd_sample_def)
qed

theorem hdr_switch_after_restart_witness:
  "\<exists>t. GetHDRCapabilities_vd vd_sample 0 t = Ret (ERROR_NONE, Some (VdInt 0), t)"
proof -
  obtain r out s1 where "DisableHDR vd_sample 0 True vd_sample_state = Ret (r, out, s1)"
    by (simp add: DisableHDR_def Let_def case_prod_unfold)
  from hdr_switch_after_restart [OF sample_durable _ _ this, of vd_sample 0 1]
  show ?thesis by (auto simp: vd_sample_def)
qed

subsection \<open>The display frame rate\<close>

text \<open>
  A change of the display frame rate is announced before it is asked for, with the whole
  text; the HAL gets at most its first 31 characters; and it is announced again after it, even if
  it failed or the HAL has no such function. Only after a refusal with \<open>dsERR_INVALID_PARAM\<close> the
  second announcement is missing: the clients then hear of a change that never ends.
\<close>

theorem frame_rate_events:
  fixes e :: vd_env and handle :: int
  assumes "vd_ok s" and "hs_live s = Some i" and "rate \<noteq> []"
  defines "h1 \<equiv> hs_trace s @ [EvPreChange rate]"
    and "c \<equiv> VdSetRate handle (take 31 (c_str rate))" and "there \<equiv> he_symbol e ''dsSetDisplayframerate''"
  shows "SetDisplayFrameRate e handle rate s =
     Ret (if there \<and> he_ret e h1 c = DsERR_NONE then ERROR_NONE else ERROR_GENERAL, None,
          s\<lparr>hs_trace := h1 @ (if there then [c] else [])
             @ (if there \<and> he_ret e h1 c = DsERR_INVALID_PARAM then [] else [EvPostChange rate])\<rparr>)"
  using assms
  by (simp add: SetDisplayFrameRate_def Let_def hal_notify_def hal_log_def hal_ok_def vd_ok_def)

theorem frame_rate_events_witness:
  "\<exists>t. SetDisplayFrameRate vd_sample 0 ''60'' (VideoDevice_create vd_sample 1 vd_sample_state) = Ret (ERROR_NONE, None, t)"
proof -
  let ?s = "VideoDevice_create vd_sample 1 vd_sample_state"
  have ok: "vd_ok ?s"
    by (rule vd_ok_create) (simp_all add: vd_ok_static vd_sample_state_def, simp_all add: vd_static_def vd_sample_def)
  have live: "hs_live ?s = Some 1"
    by (simp add: VideoDevice_create_def VideoDevice_Platform_init_def getPersistenceValue_vd_def hal_read_eq Let_def
        setAllCallbacks_vd_def VideoDeviceRegisterFrameratePreChangeCB_def VideoDeviceRegisterFrameratePostChangeCB_def)
  show ?thesis
    using frame_rate_events [OF ok live, of "''60''" vd_sample 0] by (simp add: vd_sample_def)
qed

end
