(* ===== verification/Display.thy ===== *)
theory Display
  imports Video_Port HAL_Config "HOL-Library.Multiset"
begin

section \<open>The display (\<open>hal/dDisplayImpl.h\<close>, \<open>Display\<close>, \<open>DeviceSettingsDisplayImpl\<close>)\<close>

text \<open>
  The platform layer \<open>dDisplayImpl\<close> of the display behind a video port: the EDID and its two
  caches, the filter of its resolutions, the three picture settings, and the events of the HAL;
  the forwarding layer \<open>Display.cpp\<close> and the COM layer. A hot plug goes on to the video port
  platform (\<open>Video_Port\<close>), which reconciles the colour depth, and to the HDMI status file
  (\<open>Hdmi_Status\<close>), whose contents are part of the video port state here; the ports and the
  platform's resolutions are those of the HAL tables (\<open>HAL_Config\<close>). The log and telemetry
  dumps of an EDID are left out.
\<close>

subsection \<open>Types\<close>

record dsp_res =
  dr_name :: string
  dr_pixelResolution :: int
  dr_aspectRatio :: int
  dr_stereoScopicMode :: int
  dr_frameRate :: int
  dr_interlaced :: bool

text \<open>\<open>dsDisplayEDID_t\<close>; the array of resolutions is a list of its size.\<close>

record dsp_edid =
  ed_productCode :: int
  ed_serialNumber :: int
  ed_manufactureYear :: int
  ed_manufactureWeek :: int
  ed_hdmiDeviceType :: bool
  ed_isRepeater :: bool
  ed_physicalAddress :: "int \<times> int \<times> int \<times> int"
  ed_monitorName :: string
  ed_numOfSupportedResolution :: int
  ed_suppResolutionList :: "dsp_res list"

datatype dsp_call =
    DspInit
  | DspTerm
  | DspGetDisplay int int
  | DspRegister int
  | DspIsConnected int
  | DspSurround int
  | DspGetEDID int
  | DspGetBytes int int
  | DspAspect int
  | DspGet string int
  | DspSet string int int
  | EvRxSense bool
  | EvHdmiHotPlug bool

type_synonym dsp_hist = "dsp_call list"

datatype dsp_hal_event =
    RXSENSE_ON
  | RXSENSE_OFF
  | HDCPPROTOCOL_CHANGE "int option"
  | DISPLAY_CONNECTED
  | DISPLAY_DISCONNECTED
  | DISPLAY_other

text \<open>
  \<open>de_max\<close> is the size of the array of resolutions; \<open>de_HDMI\<close>, \<open>de_INTERNAL\<close>, \<open>de_TYPE_MAX\<close> are
  port types and \<open>de_4x3\<close> an aspect ratio of the HAL; \<open>de_vp\<close> is the environment of the video port.
\<close>

record dsp_env =
  de_ret :: "dsp_hist \<Rightarrow> dsp_call \<Rightarrow> dsError"
  de_int :: "dsp_hist \<Rightarrow> dsp_call \<Rightarrow> int"
  de_edid :: "dsp_hist \<Rightarrow> dsp_call \<Rightarrow> dsp_edid"
  de_bytes :: "dsp_hist \<Rightarrow> dsp_call \<Rightarrow> int list"
  de_symbol :: "string \<Rightarrow> bool"
  de_lib :: "hal_lib option"
  de_max :: nat
  de_HDMI :: int
  de_INTERNAL :: int
  de_TYPE_MAX :: int
  de_4x3 :: int
  de_vp :: vp_env

record dsp_state =
  display_isInitialized :: bool
  display_isPlatInitialized :: bool
  isEdidCached :: bool
  isEdidBytesCached :: bool
  s_edidStructCache :: "dsp_edid option"
  s_edidBytesCache :: "int list"
  dsp_instance :: bool
  dsp_cb :: "nat option"
  dsp_live :: "nat option"
  dsp_handles :: nat
  dsp_vp :: vp_state
  dsp_trace :: dsp_hist

datatype aspect = ASPECT_4X3 | ASPECT_16X9

datatype dsp_val =
    DInt int
  | DBool bool
  | DBytes "int list"
  | DAspect aspect
  | DEdid dsp_edid "dsp_res list option"

type_synonym dsp_result = "(coreErr \<times> dsp_val option \<times> dsp_state) outcome"

definition dsp_static :: "vp_state \<Rightarrow> dsp_state" where
  "dsp_static v = \<lparr>display_isInitialized = False, display_isPlatInitialized = False, isEdidCached = False,
     isEdidBytesCached = False, s_edidStructCache = None, s_edidBytesCache = [], dsp_instance = False, dsp_cb = None,
     dsp_live = None, dsp_handles = 0, dsp_vp = v, dsp_trace = []\<rparr>"

definition dsp_log :: "dsp_call \<Rightarrow> dsp_state \<Rightarrow> dsp_state" where
  "dsp_log c s = s\<lparr>dsp_trace := dsp_trace s @ [c]\<rparr>"

definition dsp_ok :: "dsp_env \<Rightarrow> dsp_call \<Rightarrow> dsp_state \<Rightarrow> bool" where
  "dsp_ok e c s \<longleftrightarrow> de_ret e (dsp_trace s) c = DsERR_NONE"

definition dsp_int :: "dsp_env \<Rightarrow> dsp_call \<Rightarrow> dsp_state \<Rightarrow> int" where
  "dsp_int e c s = de_int e (dsp_trace s) c"

definition dsp_fail :: "dsp_state \<Rightarrow> dsp_result" where "dsp_fail s = Ret (ERROR_GENERAL, None, s)"

subsection \<open>Start and end of a platform object\<close>

definition InitialiseHAL_dsp :: "dsp_env \<Rightarrow> dsp_state \<Rightarrow> dsp_state" where
  "InitialiseHAL_dsp e s =
     (if display_isPlatInitialized s then s
      else if dsp_ok e DspInit s then (dsp_log DspInit s)\<lparr>display_isPlatInitialized := True\<rparr> else dsp_log DspInit s)"

definition DeInitialiseHAL_dsp :: "dsp_state \<Rightarrow> dsp_state" where
  "DeInitialiseHAL_dsp s =
     (if display_isPlatInitialized s
      then (dsp_log DspTerm s)\<lparr>display_isPlatInitialized := False, display_isInitialized := False\<rparr>
      else s\<lparr>display_isInitialized := False\<rparr>)"

definition registerDisplayEventCallbacks :: "dsp_env \<Rightarrow> dsp_state \<Rightarrow> dsp_state" where
  "registerDisplayEventCallbacks e s =
     (let c = DspGetDisplay (de_HDMI e) 0; s1 = dsp_log c s
      in if dsp_ok e c s then dsp_log (DspRegister (dsp_int e c s)) s1
         else let d = DspGetDisplay (de_INTERNAL e) 0; s2 = dsp_log d s1
              in if dsp_ok e d s1 then dsp_log (DspRegister (dsp_int e d s1)) s2 else s2)"

definition setAllCallbacks_dsp :: "dsp_env \<Rightarrow> nat \<Rightarrow> dsp_state \<Rightarrow> dsp_state" where
  "setAllCallbacks_dsp e i s =
     (if display_isInitialized s then s
      else (registerDisplayEventCallbacks e (s\<lparr>dsp_cb := Some i\<rparr>))\<lparr>display_isInitialized := True\<rparr>)"

text \<open>
  The constructor of the platform object makes itself known to the event handlers; the callbacks
  follow with the constructor of \<open>Display\<close>. In the histories below the two are one step. An event of
  the HAL between them is the subject of \<open>event_before_callbacks\<close>.
\<close>

definition dDisplayImpl_create :: "dsp_env \<Rightarrow> dsp_state \<Rightarrow> dsp_state" where
  "dDisplayImpl_create e s = InitialiseHAL_dsp e (s\<lparr>dsp_instance := True\<rparr>)"

definition Display_create :: "dsp_env \<Rightarrow> nat \<Rightarrow> dsp_state \<Rightarrow> dsp_state" where
  "Display_create e i s = setAllCallbacks_dsp e i ((dDisplayImpl_create e s)\<lparr>dsp_live := Some i\<rparr>)"

definition Display_destroy :: "dsp_state \<Rightarrow> dsp_state" where
  "Display_destroy s = (DeInitialiseHAL_dsp s)\<lparr>dsp_instance := False, dsp_live := None\<rparr>"

subsection \<open>The EDID\<close>

text \<open>The bytes: the HAL writes into the buffer of the client before the length is looked at.\<close>

definition GetDisplayEdidBytes :: "dsp_env \<Rightarrow> int \<Rightarrow> nat \<Rightarrow> dsp_state \<Rightarrow> dsp_result" where
  "GetDisplayEdidBytes e handle edidLength s =
     (if edidLength = 0 then dsp_fail s
      else if isEdidBytesCached s \<and> 0 < length (s_edidBytesCache s) \<and> length (s_edidBytesCache s) \<le> edidLength
      then Ret (ERROR_NONE, Some (DBytes (s_edidBytesCache s)), s)
      else if \<not> de_symbol e ''dsGetEDIDBytes'' then dsp_fail s
      else let c = DspGetBytes handle 0; bytes = de_bytes e (dsp_trace s) c; s1 = dsp_log c s
           in if \<not> dsp_ok e c s then dsp_fail s1
              else if edidLength < length bytes then UB
              else if 0 < length bytes \<and> length bytes \<le> 1024
              then Ret (ERROR_NONE, Some (DBytes bytes), s1\<lparr>s_edidBytesCache := bytes, isEdidBytesCached := True\<rparr>)
              else dsp_fail s1)"

text \<open>An older request that passes the length on and does not cache.\<close>

definition GetDisplayEDID :: "dsp_env \<Rightarrow> int \<Rightarrow> nat \<Rightarrow> dsp_state \<Rightarrow> dsp_result" where
  "GetDisplayEDID e handle len s =
     (if len = 0 then Ret (ERROR_BAD_REQUEST, None, s)
      else if \<not> de_symbol e ''dsGetEDIDBytes'' then dsp_fail s
      else let c = DspGetBytes handle (int len); bytes = de_bytes e (dsp_trace s) c
           in if dsp_ok e c s \<and> length bytes \<le> len then Ret (ERROR_NONE, Some (DBytes bytes), dsp_log c s)
              else dsp_fail (dsp_log c s))"

fun display_port_loop :: "dsp_env \<Rightarrow> int \<Rightarrow> video_port_info list \<Rightarrow> dsp_state \<Rightarrow> int \<times> dsp_state" where
  "display_port_loop e handle [] s = (de_TYPE_MAX e, s)"
| "display_port_loop e handle (p # ps) s =
     (let c = DspGetDisplay (vp_type p) (vp_index p); s1 = dsp_log c s
      in if dsp_ok e c s \<and> dsp_int e c s = handle then (vp_type p, s1) else display_port_loop e handle ps s1)"

definition GetDisplayPortType :: "dsp_env \<Rightarrow> int \<Rightarrow> dsp_state \<Rightarrow> (int \<times> dsp_state) outcome" where
  "GetDisplayPortType e handle s =
     (let (r, n) = PopulateVideoPortConfig (de_lib e) (dsp_handles s)
      in obind r (\<lambda>(types, ports). Ret (display_port_loop e handle ports (s\<lparr>dsp_handles := n\<rparr>))))"

text \<open>The inner loop: the resolutions of the sink with one name, as long as there is room.\<close>

fun match_name :: "nat \<Rightarrow> string \<Rightarrow> dsp_res list \<Rightarrow> dsp_res list \<Rightarrow> dsp_res list" where
  "match_name room name [] acc = acc"
| "match_name room name (r # rs) acc =
     (if length acc < room then match_name room name rs (if c_str (dr_name r) = name then acc @ [r] else acc) else acc)"

text \<open>The list is overwritten from the front. A negative count is out of the range of the copy.\<close>

definition filterEDIDResolution :: "dsp_env \<Rightarrow> int \<Rightarrow> dsp_edid \<Rightarrow> dsp_state \<Rightarrow> (dsp_edid \<times> dsp_state) outcome" where
  "filterEDIDResolution e handle edid s =
     obind (GetDisplayPortType e handle s) (\<lambda>(type, s1).
       if type \<noteq> de_HDMI e then Ret (edid, s1)
       else let (r, n) = PopulateVideoPortResolutionConfig (de_HDMI e) (de_lib e) (dsp_handles s1); s2 = s1\<lparr>dsp_handles := n\<rparr>
         in obind r (\<lambda>platformResolutions.
              if ed_numOfSupportedResolution edid < 0 then UB
              else let original = take (min (nat (ed_numOfSupportedResolution edid)) (de_max e)) (ed_suppResolutionList edid);
                       new = fold (\<lambda>p. match_name (de_max e) (rs_name p) original) platformResolutions []
                   in Ret (edid\<lparr>ed_suppResolutionList := new @ drop (length new) (ed_suppResolutionList edid),
                                ed_numOfSupportedResolution := int (length new)\<rparr>, s2)))"

text \<open>What the client gets: the fields, and an iterator over the resolutions unless there are none.\<close>

definition buildSupportedResolutionIterator :: "dsp_env \<Rightarrow> dsp_edid \<Rightarrow> dsp_res list option" where
  "buildSupportedResolutionIterator e x =
     (if ed_numOfSupportedResolution x \<le> 0 then None
      else Some (map (\<lambda>r. r\<lparr>dr_name := c_str (dr_name r)\<rparr>)
             (take (min (nat (ed_numOfSupportedResolution x)) (de_max e)) (ed_suppResolutionList x))))"

definition edid_answer :: "dsp_env \<Rightarrow> dsp_edid \<Rightarrow> dsp_val" where
  "edid_answer e x = DEdid (x\<lparr>ed_monitorName := c_str (ed_monitorName x), ed_suppResolutionList := []\<rparr>)
     (buildSupportedResolutionIterator e x)"

definition GetDisplayEdid :: "dsp_env \<Rightarrow> int \<Rightarrow> dsp_state \<Rightarrow> dsp_result" where
  "GetDisplayEdid e handle s =
     (case if isEdidCached s then s_edidStructCache s else None of
        Some x \<Rightarrow> Ret (ERROR_NONE, Some (edid_answer e x), s)
      | None \<Rightarrow>
          let c = DspGetEDID handle; s1 = dsp_log c s
          in if \<not> dsp_ok e c s then dsp_fail s1
             else obind (filterEDIDResolution e handle (de_edid e (dsp_trace s) c) s1) (\<lambda>(x, s2).
               Ret (ERROR_NONE, Some (edid_answer e x), s2\<lparr>s_edidStructCache := Some x, isEdidCached := True\<rparr>)))"

subsection \<open>The other requests\<close>

definition GetConnectedVideoDisplay :: "dsp_env \<Rightarrow> int \<Rightarrow> dsp_state \<Rightarrow> dsp_result" where
  "GetConnectedVideoDisplay e handle s =
     (let c = DspIsConnected handle
      in if \<not> de_symbol e ''dsIsDisplayConnected'' then dsp_fail s
         else if dsp_ok e c s then Ret (ERROR_NONE, Some (DBool (dsp_int e c s \<noteq> 0)), dsp_log c s)
         else dsp_fail (dsp_log c s))"

definition GetDisplaySurroundMode :: "dsp_env \<Rightarrow> int \<Rightarrow> dsp_state \<Rightarrow> dsp_result" where
  "GetDisplaySurroundMode e handle s =
     (let c = DspSurround handle
      in if \<not> de_symbol e ''dsGetDisplaySurroundMode'' then dsp_fail s
         else if dsp_ok e c s then Ret (ERROR_NONE, Some (DInt (dsp_int e c s)), dsp_log c s)
         else dsp_fail (dsp_log c s))"

definition GetDisplay :: "dsp_env \<Rightarrow> int \<Rightarrow> int \<Rightarrow> dsp_state \<Rightarrow> dsp_result" where
  "GetDisplay e type index s =
     (if type < 0 \<or> index < 0 then Ret (ERROR_BAD_REQUEST, None, s)
      else let c = DspGetDisplay type index
           in if dsp_ok e c s
              then Ret (ERROR_NONE, Some (DInt (sint (word_of_int (dsp_int e c s) :: 32 word))), dsp_log c s)
              else Ret (ERROR_GENERAL, Some (DInt (-1)), dsp_log c s))"

definition GetDisplayAspectRatio :: "dsp_env \<Rightarrow> int \<Rightarrow> dsp_state \<Rightarrow> dsp_result" where
  "GetDisplayAspectRatio e handle s =
     (let c = DspAspect handle
      in if dsp_ok e c s
         then Ret (ERROR_NONE, Some (DAspect (if dsp_int e c s = de_4x3 e then ASPECT_4X3 else ASPECT_16X9)), dsp_log c s)
         else dsp_fail (dsp_log c s))"

text \<open>The shape of the three setters: read the value first, and set it only if it is another one.\<close>

definition set_if_other :: "dsp_env \<Rightarrow> string \<Rightarrow> string \<Rightarrow> int \<Rightarrow> int \<Rightarrow> dsp_state \<Rightarrow> dsp_result" where
  "set_if_other e getSym setSym handle wanted s =
     (if \<not> (de_symbol e getSym \<and> de_symbol e setSym) then dsp_fail s
      else let c = DspGet getSym handle; s1 = dsp_log c s
           in if \<not> dsp_ok e c s then dsp_fail s1
              else if dsp_int e c s = wanted then Ret (ERROR_NONE, None, s1)
              else let d = DspSet setSym handle wanted
                   in if dsp_ok e d s1 then Ret (ERROR_NONE, None, dsp_log d s1) else dsp_fail (dsp_log d s1))"

definition SetAllmEnabled :: "dsp_env \<Rightarrow> int \<Rightarrow> bool \<Rightarrow> dsp_state \<Rightarrow> dsp_result" where
  "SetAllmEnabled e handle enabled =
     set_if_other e ''dsGetAllmEnabled'' ''dsSetAllmEnabled'' handle (if enabled then 1 else 0)"

definition SetAVIContentType :: "dsp_env \<Rightarrow> int \<Rightarrow> int \<Rightarrow> dsp_state \<Rightarrow> dsp_result" where
  "SetAVIContentType e handle contentType =
     set_if_other e ''dsGetAVIContentType'' ''dsSetAVIContentType'' handle contentType"

definition SetAVIScanInformation :: "dsp_env \<Rightarrow> int \<Rightarrow> int \<Rightarrow> dsp_state \<Rightarrow> dsp_result" where
  "SetAVIScanInformation e handle scanInfo =
     set_if_other e ''dsGetAVIScanInformation'' ''dsSetAVIScanInformation'' handle scanInfo"

subsection \<open>Events\<close>

definition dsp_notify :: "dsp_call \<Rightarrow> dsp_state \<Rightarrow> dsp_state outcome" where
  "dsp_notify ev s = (case dsp_cb s of None \<Rightarrow> Ret s
     | Some owner \<Rightarrow> if dsp_live s = Some owner then Ret (dsp_log ev s) else UB)"

text \<open>A line of the HDMI status file; the file is the one of the video port state.\<close>

definition dsp_sync_status :: "dsp_env \<Rightarrow> string \<Rightarrow> int \<Rightarrow> dsp_state \<Rightarrow> dsp_state" where
  "dsp_sync_status e key val s = s\<lparr>dsp_vp := (dsp_vp s)\<lparr>vs_status :=
     dsSyncHdmiStatus (ve_hdmi (de_vp e)) (ve_writable (de_vp e)) key val (vs_status (dsp_vp s))\<rparr>\<rparr>"

definition forget_edid :: "dsp_state \<Rightarrow> dsp_state" where
  "forget_edid s = s\<lparr>isEdidCached := False, isEdidBytesCached := False, s_edidBytesCache := []\<rparr>"

definition dsDisplayEventCallback :: "dsp_env \<Rightarrow> dsp_hal_event \<Rightarrow> dsp_state \<Rightarrow> dsp_state outcome" where
  "dsDisplayEventCallback e ev s =
     (if \<not> dsp_instance s then Ret s
      else case ev of
         RXSENSE_ON \<Rightarrow> dsp_notify (EvRxSense True) s
       | RXSENSE_OFF \<Rightarrow> dsp_notify (EvRxSense False) s
       | HDCPPROTOCOL_CHANGE None \<Rightarrow> Ret s
       | HDCPPROTOCOL_CHANGE (Some version) \<Rightarrow> Ret (dsp_sync_status e DS_HDMI_TAG_HDCPVERSION version s)
       | DISPLAY_CONNECTED \<Rightarrow> dsp_notify (EvHdmiHotPlug True)
           (dsp_sync_status e DS_HDMI_TAG_HOTPLUP (EVENT_CONNECTED (ve_hdmi (de_vp e)))
             (s\<lparr>dsp_vp := ApplyPreferredColorDepthAfterHdmiReset (de_vp e) 0 (dsp_vp s)\<rparr>))
       | DISPLAY_DISCONNECTED \<Rightarrow> dsp_notify (EvHdmiHotPlug False)
           (dsp_sync_status e DS_HDMI_TAG_HOTPLUP (EVENT_DISCONNECTED (ve_hdmi (de_vp e))) (forget_edid s))
       | DISPLAY_other \<Rightarrow> Ret s)"

subsection \<open>The layers above, and histories\<close>

datatype dsp_request =
    DGetEdid int
  | DGetEdidBytes int nat
  | DGetDisplay int int
  | DGetAspect int
  | DSetAllm int bool
  | DSetContent int int
  | DSetScan int int

text \<open>\<open>Display\<close> and \<open>DeviceSettingsDisplayImpl\<close> hand requests and results through.\<close>

fun Display_call :: "dsp_env \<Rightarrow> dsp_request \<Rightarrow> dsp_state \<Rightarrow> dsp_result" where
  "Display_call e (DGetEdid h) s = GetDisplayEdid e h s"
| "Display_call e (DGetEdidBytes h n) s = GetDisplayEdidBytes e h n s"
| "Display_call e (DGetDisplay t i) s = GetDisplay e t i s"
| "Display_call e (DGetAspect h) s = GetDisplayAspectRatio e h s"
| "Display_call e (DSetAllm h b) s = SetAllmEnabled e h b s"
| "Display_call e (DSetContent h x) s = SetAVIContentType e h x s"
| "Display_call e (DSetScan h x) s = SetAVIScanInformation e h x s"

definition DisplayImpl_call :: "dsp_env \<Rightarrow> dsp_request \<Rightarrow> dsp_state \<Rightarrow> dsp_result" where
  "DisplayImpl_call e req s = Display_call e req s"

datatype dsp_op = DspCreate | DspDestroy | DspRequest dsp_request | DspReport dsp_hal_event

fun dsp_do :: "dsp_env \<Rightarrow> nat \<Rightarrow> dsp_op \<Rightarrow> dsp_state \<Rightarrow> dsp_state outcome" where
  "dsp_do e i DspCreate s = Ret (if dsp_live s = None then Display_create e i s else s)"
| "dsp_do e i DspDestroy s = Ret (if dsp_live s = None then s else Display_destroy s)"
| "dsp_do e i (DspRequest req) s = (if dsp_live s = None then Ret s
     else obind (DisplayImpl_call e req s) (\<lambda>(r, out, s1). Ret s1))"
| "dsp_do e i (DspReport ev) s = dsDisplayEventCallback e ev s"

fun dsp_run :: "dsp_env \<Rightarrow> nat \<Rightarrow> dsp_op list \<Rightarrow> dsp_state \<Rightarrow> dsp_state outcome" where
  "dsp_run e i [] s = Ret s"
| "dsp_run e i (c # cs) s = obind (dsp_do e i c s) (dsp_run e (Suc i) cs)"

subsection \<open>What the operations keep\<close>

text \<open>
  The object that exists is the one the callbacks belong to, and the flags agree with it. A cached
  EDID is there.
\<close>

definition dsp_inv :: "dsp_state \<Rightarrow> bool" where
  "dsp_inv s \<longleftrightarrow> dsp_instance s = (dsp_live s \<noteq> None) \<and> display_isInitialized s = (dsp_live s \<noteq> None)
     \<and> (dsp_live s \<noteq> None \<longrightarrow> dsp_cb s = dsp_live s) \<and> (isEdidCached s \<longrightarrow> s_edidStructCache s \<noteq> None)"

text \<open>The objects are left alone, and a cached EDID stays.\<close>

definition dsp_keeps :: "dsp_state \<Rightarrow> dsp_state \<Rightarrow> bool" where
  "dsp_keeps s t \<longleftrightarrow> dsp_instance t = dsp_instance s \<and> display_isInitialized t = display_isInitialized s
     \<and> dsp_live t = dsp_live s \<and> dsp_cb t = dsp_cb s \<and> dsp_vp t = dsp_vp s
     \<and> (isEdidCached s \<and> s_edidStructCache s \<noteq> None \<longrightarrow> isEdidCached t \<and> s_edidStructCache t = s_edidStructCache s)
     \<and> (isEdidCached t \<and> \<not> isEdidCached s \<longrightarrow> s_edidStructCache t \<noteq> None)"

lemma dsp_keeps_same [simp]: "dsp_keeps s s"
  by (simp add: dsp_keeps_def)

lemma dsp_keeps_log [simp]: "dsp_keeps s (dsp_log c t) = dsp_keeps s t"
  by (simp add: dsp_keeps_def dsp_log_def)

lemma dsp_keeps_handles [simp]: "dsp_keeps s (t\<lparr>dsp_handles := n\<rparr>) = dsp_keeps s t"
  by (simp add: dsp_keeps_def)

lemma dsp_keeps_bytes [simp]: "dsp_keeps s (t\<lparr>s_edidBytesCache := b, isEdidBytesCached := c\<rparr>) = dsp_keeps s t"
  by (simp add: dsp_keeps_def)

lemma dsp_inv_keeps: "dsp_inv s \<Longrightarrow> dsp_keeps s t \<Longrightarrow> dsp_inv t"
  by (auto simp: dsp_inv_def dsp_keeps_def)

lemma dsp_inv_log [simp]: "dsp_inv (dsp_log c s) = dsp_inv s"
  by (simp add: dsp_inv_def dsp_log_def)

lemma keeps_port_loop: "dsp_keeps s (snd (display_port_loop e h ps t)) = dsp_keeps s t"
  by (induction ps arbitrary: t) (simp_all add: Let_def)

lemma port_type_keeps: "GetDisplayPortType e h s = Ret (ty, t) \<Longrightarrow> dsp_keeps s t"
  using keeps_port_loop [of s e h _ "s\<lparr>dsp_handles := _\<rparr>"]
  by (auto simp: GetDisplayPortType_def obind_Ret_iff case_prod_unfold Let_def) (metis dsp_keeps_handles dsp_keeps_same snd_conv)

lemma filter_keeps: "filterEDIDResolution e h x s = Ret (y, t) \<Longrightarrow> dsp_keeps s t"
  by (auto simp: filterEDIDResolution_def obind_Ret_iff case_prod_unfold Let_def split: if_splits dest: port_type_keeps)

lemma set_if_other_keeps: "set_if_other e y z h v s = Ret (r, out, t) \<Longrightarrow> dsp_keeps s t"
  by (auto simp: set_if_other_def dsp_fail_def Let_def split: if_splits)

lemma edid_keeps:
  assumes "GetDisplayEdid e h s = Ret (r, out, t)"
  shows "dsp_keeps s t"
proof (cases "if isEdidCached s then s_edidStructCache s else None")
  case None
  then have n: "isEdidCached s \<Longrightarrow> s_edidStructCache s = None" by (auto split: if_splits)
  from assms None consider "t = dsp_log (DspGetEDID h) s"
    | x s2 where "filterEDIDResolution e h (de_edid e (dsp_trace s) (DspGetEDID h)) (dsp_log (DspGetEDID h) s) = Ret (x, s2)"
        "t = s2\<lparr>s_edidStructCache := Some x, isEdidCached := True\<rparr>"
    by (auto simp: GetDisplayEdid_def dsp_fail_def obind_Ret_iff Let_def split: if_splits)
  then show ?thesis
  proof cases
    case 1
    then show ?thesis by simp
  next
    case (2 x s2)
    from filter_keeps [OF 2(1)] show ?thesis using n by (auto simp: 2(2) dsp_keeps_def dsp_log_def)
  qed
qed (use assms in \<open>simp add: GetDisplayEdid_def\<close>)

lemma request_keeps:
  assumes "Display_call e req s = Ret (r, out, t)"
  shows "dsp_keeps s t"
proof (cases req)
  case (DGetEdid h)
  then show ?thesis using assms edid_keeps by simp
qed (use assms in \<open>auto simp: GetDisplayEdidBytes_def GetDisplay_def GetDisplayAspectRatio_def SetAllmEnabled_def
    SetAVIContentType_def SetAVIScanInformation_def dsp_fail_def Let_def set_if_other_keeps split: if_splits\<close>)

lemma event_before_callbacks:
  assumes "dsp_live s = None" and "dsp_cb s = Some owner" and "ev \<in> {RXSENSE_ON, RXSENSE_OFF, DISPLAY_CONNECTED, DISPLAY_DISCONNECTED}"
  shows "dsDisplayEventCallback e ev (dDisplayImpl_create e s) = UB"
  using assms by (auto simp: dsDisplayEventCallback_def dDisplayImpl_create_def InitialiseHAL_dsp_def dsp_notify_def
      dsp_sync_status_def forget_edid_def dsp_log_def)

lemma dsp_inv_create: "dsp_inv s \<Longrightarrow> dsp_live s = None \<Longrightarrow> dsp_inv (Display_create e i s)"
  by (auto simp: dsp_inv_def Display_create_def dDisplayImpl_create_def InitialiseHAL_dsp_def setAllCallbacks_dsp_def
      registerDisplayEventCallbacks_def dsp_log_def Let_def)

lemma dsp_inv_destroy: "dsp_inv s \<Longrightarrow> dsp_inv (Display_destroy s)"
  by (simp add: dsp_inv_def Display_destroy_def DeInitialiseHAL_dsp_def dsp_log_def)

lemma event_returns:
  assumes "dsp_inv s"
  shows "\<exists>t. dsDisplayEventCallback e ev s = Ret t \<and> dsp_inv t"
proof (cases "dsp_live s")
  case None
  then show ?thesis using assms by (simp add: dsDisplayEventCallback_def dsp_inv_def)
next
  case (Some i)
  then show ?thesis
    using assms
    by (cases ev) (auto simp: dsDisplayEventCallback_def dsp_notify_def dsp_sync_status_def forget_edid_def dsp_inv_def dsp_log_def
        split: option.splits)
qed

lemma dsp_inv_do:
  assumes "dsp_inv s" and "dsp_do e i c s = Ret t"
  shows "dsp_inv t"
proof (cases c)
  case (DspRequest req)
  then show ?thesis
    using assms request_keeps dsp_inv_keeps [OF assms(1)]
    by (fastforce simp: DisplayImpl_call_def obind_Ret_iff split: if_splits)
next
  case (DspReport ev)
  then show ?thesis using assms event_returns [OF assms(1), of e ev] by auto
qed (use assms dsp_inv_create dsp_inv_destroy in \<open>auto split: if_splits\<close>)

lemma dsp_inv_run: "dsp_inv s \<Longrightarrow> dsp_run e i cs s = Ret t \<Longrightarrow> dsp_inv t"
  by (induction cs arbitrary: i s) (auto simp: obind_Ret_iff dest: dsp_inv_do)

lemma dsp_inv_static: "dsp_inv (dsp_static v)"
  by (simp add: dsp_inv_def dsp_static_def)

text \<open>
  C33. The listeners of the display are sound whatever the HAL answers: after any history that
  returned (objects created and destroyed, requests, HAL events), every further event is handled
  and its callback belongs to the object that exists; without an object the event is dropped.
  The construction of an object is one step of a history. An event in the middle of it, when the
  new platform object is known and its callbacks are not yet set, runs those of the object before
  (\<open>event_before_callbacks\<close>).
\<close>

theorem display_events_safe:
  assumes "dsp_run e 0 cs (dsp_static v) = Ret s"
  shows "\<exists>t. dsDisplayEventCallback e ev s = Ret t
     \<and> (dsp_live s = None \<longrightarrow> t = s) \<and> (dsp_live s \<noteq> None \<longrightarrow> dsp_cb s = dsp_live s)"
proof -
  have "dsp_inv s" using dsp_inv_static assms by (rule dsp_inv_run)
  then obtain t where "dsDisplayEventCallback e ev s = Ret t" using event_returns by blast
  with \<open>dsp_inv s\<close> show ?thesis by (auto simp: dsp_inv_def dsDisplayEventCallback_def split: if_splits)
qed

subsection \<open>The EDID cache\<close>

text \<open>Whether the HAL reports a disconnection while an object exists.\<close>

fun unplugged :: "bool \<Rightarrow> dsp_op list \<Rightarrow> bool" where
  "unplugged live [] = False"
| "unplugged live (DspCreate # cs) = unplugged True cs"
| "unplugged live (DspDestroy # cs) = unplugged False cs"
| "unplugged live (DspRequest req # cs) = unplugged live cs"
| "unplugged live (DspReport ev # cs) = (live \<and> ev = DISPLAY_DISCONNECTED \<or> unplugged live cs)"

definition cached :: "dsp_edid \<Rightarrow> dsp_state \<Rightarrow> bool" where
  "cached x s \<longleftrightarrow> isEdidCached s \<and> s_edidStructCache s = Some x"

lemma cached_answer: "cached x s \<Longrightarrow> GetDisplayEdid e h s = Ret (ERROR_NONE, Some (edid_answer e x), s)"
  by (simp add: GetDisplayEdid_def cached_def)

lemma cached_run:
  "\<lbrakk>cached x s; dsp_inv s; \<not> unplugged (dsp_live s \<noteq> None) cs; dsp_run e i cs s = Ret t\<rbrakk> \<Longrightarrow> cached x t"
proof (induction cs arbitrary: i s)
  case (Cons c cs)
  from Cons.prems(4) obtain u where u: "dsp_do e i c s = Ret u" and rest: "dsp_run e (Suc i) cs u = Ret t"
    by (auto simp: obind_Ret_iff)
  have inv: "dsp_inv u" using Cons.prems(2) u by (rule dsp_inv_do)
  have "cached x u \<and> \<not> unplugged (dsp_live u \<noteq> None) cs"
  proof (cases c)
    case DspCreate
    then show ?thesis
      using u Cons.prems(1,3)
      by (auto simp: cached_def Display_create_def dDisplayImpl_create_def InitialiseHAL_dsp_def setAllCallbacks_dsp_def registerDisplayEventCallbacks_def
          dsp_log_def Let_def split: if_splits)
  next
    case DspDestroy
    then show ?thesis
      using u Cons.prems(1,3)
      by (auto simp: cached_def Display_destroy_def DeInitialiseHAL_dsp_def dsp_log_def split: if_splits)
  next
    case (DspRequest req)
    then have "dsp_keeps s u"
      using u by (auto simp: DisplayImpl_call_def obind_Ret_iff split: if_splits dest: request_keeps)
    then show ?thesis using DspRequest Cons.prems(1,3) by (auto simp: cached_def dsp_keeps_def)
  next
    case (DspReport ev)
    show ?thesis
    proof (cases "dsp_live s")
      case None
      then have "u = s" using u DspReport Cons.prems(2) by (simp add: dsDisplayEventCallback_def dsp_inv_def)
      then show ?thesis using DspReport Cons.prems(1,3) None by simp
    next
      case (Some j)
      then have "ev \<noteq> DISPLAY_DISCONNECTED" using DspReport Cons.prems(3) by simp
      then show ?thesis
        using u DspReport Cons.prems(1-3) Some
        by (cases ev) (auto simp: dsDisplayEventCallback_def dsp_notify_def dsp_sync_status_def cached_def dsp_inv_def dsp_log_def
            split: option.splits if_splits)
    qed
  qed
  with Cons.IH [OF _ inv _ rest] show ?case by blast
qed simp

text \<open>
  The EDID is read once: after a successful read every later read gives the same answer without
  a HAL call, whatever else happens (requests, events, the object destroyed and created again),
  until the HAL reports a disconnection to an existing object. The cache does not look at the
  handle: the EDID of one display is given for every other display too, and a display that is
  exchanged while no object exists keeps the EDID of the one before.
\<close>

theorem edid_read_once:
  assumes "dsp_inv s" and "GetDisplayEdid e h s = Ret (ERROR_NONE, out, s1)"
    and "dsp_run e i cs s1 = Ret t" and "\<not> unplugged (dsp_live s \<noteq> None) cs"
  shows "GetDisplayEdid e h2 t = Ret (ERROR_NONE, out, t)"
proof -
  have k: "dsp_keeps s s1" using assms(2) by (rule edid_keeps)
  obtain x where x: "cached x s1" "out = Some (edid_answer e x)"
    using assms(2) by (auto simp: GetDisplayEdid_def cached_def dsp_fail_def Let_def obind_Ret_iff split: if_splits option.splits)
  have "\<not> unplugged (dsp_live s1 \<noteq> None) cs" using assms(4) k by (simp add: dsp_keeps_def)
  then have "cached x t" using cached_run x(1) dsp_inv_keeps [OF assms(1) k] assms(3) by blast
  then show ?thesis by (simp add: cached_answer x(2))
qed

text \<open>
  When a request for the EDID bytes is safe: it overruns the buffer of the client exactly if it
  asks the HAL (the buffer is not empty, the cached bytes are missing or too long for it, the HAL
  has the function), the HAL answers, and its answer is longer than the buffer.
\<close>

theorem edid_bytes_overrun:
  "GetDisplayEdidBytes e h n s = UB \<longleftrightarrow>
     0 < n \<and> \<not> (isEdidBytesCached s \<and> s_edidBytesCache s \<noteq> [] \<and> length (s_edidBytesCache s) \<le> n)
     \<and> de_symbol e ''dsGetEDIDBytes'' \<and> dsp_ok e (DspGetBytes h 0) s
     \<and> n < length (de_bytes e (dsp_trace s) (DspGetBytes h 0))"
  by (auto simp: GetDisplayEdidBytes_def dsp_fail_def Let_def)

subsection \<open>The filter of the resolutions\<close>

lemma match_name_eq:
  "length acc \<le> room \<Longrightarrow> match_name room name rs acc = take room (acc @ filter (\<lambda>r. c_str (dr_name r) = name) rs)"
  by (induction rs arbitrary: acc) (auto simp: take_Cons')

definition common :: "resolution_cfg list \<Rightarrow> dsp_res list \<Rightarrow> dsp_res list" where
  "common ps rs = concat (map (\<lambda>p. filter (\<lambda>r. c_str (dr_name r) = rs_name p) rs) ps)"

lemma fold_match:
  "length acc \<le> room \<Longrightarrow> fold (\<lambda>p. match_name room (rs_name p) rs) ps acc = take room (acc @ common ps rs)"
proof (induction ps arbitrary: acc)
  case (Cons p ps)
  then show ?case
    by (cases "length (acc @ filter (\<lambda>r. c_str (dr_name r) = rs_name p) rs) \<le> room")
      (simp_all add: match_name_eq common_def)
qed (simp add: common_def)

lemma mset_common:
  "distinct (map rs_name ps) \<Longrightarrow> mset (common ps rs) = filter_mset (\<lambda>r. c_str (dr_name r) \<in> rs_name ` set ps) (mset rs)"
proof (induction ps)
  case (Cons p ps)
  then have "mset (common (p # ps) rs) = filter_mset (\<lambda>r. c_str (dr_name r) = rs_name p) (mset rs)
      + filter_mset (\<lambda>r. c_str (dr_name r) \<in> rs_name ` set ps) (mset rs)"
    by (simp add: common_def)
  also have "\<dots> = filter_mset (\<lambda>r. c_str (dr_name r) \<in> rs_name ` set (p # ps)) (mset rs)"
    using Cons.prems by (induction rs) auto
  finally show ?case .
qed (simp add: common_def)

text \<open>
  C37. What a client is offered for an HDMI display: the loops of the filter compute, in the order
  of the platform's table, the resolutions of the sink whose names the table has. If the names in
  the table are distinct nothing is lost and nothing is doubled.
\<close>

theorem edid_filter_offers_common:
  assumes "GetDisplayPortType e h s = Ret (de_HDMI e, s1)"
    and "fst (PopulateVideoPortResolutionConfig (de_HDMI e) (de_lib e) (dsp_handles s1)) = Ret ps"
    and "distinct (map rs_name ps)" and "length (ed_suppResolutionList edid) = de_max e"
    and "0 \<le> ed_numOfSupportedResolution edid"
  defines "sink \<equiv> take (nat (ed_numOfSupportedResolution edid)) (ed_suppResolutionList edid)"
  shows "\<exists>x t. filterEDIDResolution e h edid s = Ret (x, t) \<and> length (ed_suppResolutionList x) = de_max e
     \<and> take (nat (ed_numOfSupportedResolution x)) (ed_suppResolutionList x) = common ps sink
     \<and> mset (common ps sink) = filter_mset (\<lambda>r. c_str (dr_name r) \<in> rs_name ` set ps) (mset sink)"
proof -
  have common_sink: "mset (common ps sink) = filter_mset (\<lambda>r. c_str (dr_name r) \<in> rs_name ` set ps) (mset sink)"
    by (rule mset_common [OF assms(3)])
  then have "length (common ps sink) = size (filter_mset (\<lambda>r. c_str (dr_name r) \<in> rs_name ` set ps) (mset sink))"
    by (metis size_mset)
  also have "\<dots> \<le> size (mset sink)" by (rule size_filter_mset_lesseq)
  also have "\<dots> \<le> de_max e" using assms(4) by (simp add: sink_def)
  finally have room: "length (common ps sink) \<le> de_max e" .
  have original: "take (min (nat (ed_numOfSupportedResolution edid)) (de_max e)) (ed_suppResolutionList edid) = sink"
    using assms(4) by (simp add: sink_def min_def)
  have new: "fold (\<lambda>p. match_name (de_max e) (rs_name p) sink) ps [] = common ps sink"
    using room by (simp add: fold_match)
  obtain n where ps: "PopulateVideoPortResolutionConfig (de_HDMI e) (de_lib e) (dsp_handles s1) = (Ret ps, n)"
    using assms(2) by (metis prod.collapse)
  have "filterEDIDResolution e h edid s = Ret (edid\<lparr>ed_suppResolutionList :=
      common ps sink @ drop (length (common ps sink)) (ed_suppResolutionList edid),
      ed_numOfSupportedResolution := int (length (common ps sink))\<rparr>, s1\<lparr>dsp_handles := n\<rparr>)"
    using assms(5) by (simp only: filterEDIDResolution_def assms(1) obind.simps case_prod_conv ps Let_def original new) simp
  then show ?thesis using room assms(4) common_sink
    by (intro exI conjI) (assumption, simp_all)
qed

subsection \<open>Hot plug\<close>

text \<open>
  A hot plug reaches every part in order. On a connection the colour depth of the video port is
  reconciled with the new sink, the status file says \<open>CONNECTED\<close>, then the client hears of it,
  and the EDID caches are kept; on a disconnection the caches are dropped, the file says
  \<open>DISCONNECTED\<close>, the client hears of it, and no HAL call is made.
\<close>

theorem hot_plug_effects:
  fixes e :: dsp_env
  assumes "dsp_inv s" and "dsp_live s \<noteq> None" and "ve_writable (de_vp e)"
    and "EVENT_DISCONNECTED (ve_hdmi (de_vp e)) \<noteq> EVENT_CONNECTED (ve_hdmi (de_vp e))"
  defines "reconciled \<equiv> ApplyPreferredColorDepthAfterHdmiReset (de_vp e) 0 (dsp_vp s)"
  shows "(\<exists>t. dsDisplayEventCallback e DISPLAY_CONNECTED s = Ret t \<and> dsp_trace t = dsp_trace s @ [EvHdmiHotPlug True]
     \<and> vs_trace (dsp_vp t) = vs_trace reconciled \<and> vs_store (dsp_vp t) = vs_store reconciled
     \<and> hdmi_get (vs_status (dsp_vp t)) DS_HDMI_TAG_HOTPLUP = Some ''CONNECTED''
     \<and> isEdidCached t = isEdidCached s \<and> isEdidBytesCached t = isEdidBytesCached s)
   \<and> (\<exists>t. dsDisplayEventCallback e DISPLAY_DISCONNECTED s = Ret t \<and> dsp_trace t = dsp_trace s @ [EvHdmiHotPlug False]
     \<and> vs_trace (dsp_vp t) = vs_trace (dsp_vp s)
     \<and> hdmi_get (vs_status (dsp_vp t)) DS_HDMI_TAG_HOTPLUP = Some ''DISCONNECTED''
     \<and> \<not> isEdidCached t \<and> \<not> isEdidBytesCached t)"
proof -
  let ?c = "ve_hdmi (de_vp e)"
  have v: "hdmi_value ?c DS_HDMI_TAG_HOTPLUP (EVENT_CONNECTED ?c) = ''CONNECTED''"
      "hdmi_value ?c DS_HDMI_TAG_HOTPLUP (EVENT_DISCONNECTED ?c) = ''DISCONNECTED''"
    using assms(4) by (simp_all add: hdmi_value_def HdmiConnectionToStrMapping_def enum_name_def)
  have w: "hdmi_get (hdmi_write DS_HDMI_TAG_HOTPLUP x f) DS_HDMI_TAG_HOTPLUP = Some x" if "nl \<notin> set x" for x f
    using hdmi_get_write [OF hdmi_tags(1) that] by simp
  have n: "nl \<notin> set ''CONNECTED''" "nl \<notin> set ''DISCONNECTED''" by (simp_all add: nl_def)
  obtain i where i: "dsp_live s = Some i" "dsp_cb s = Some i" "dsp_instance s"
    using assms(1,2) by (auto simp: dsp_inv_def)
  show ?thesis
    using i assms(3) n
    by (simp add: dsDisplayEventCallback_def dsp_notify_def dsp_sync_status_def forget_edid_def dsp_log_def dsSyncHdmiStatus_def
        v w reconciled_def)
qed

subsection \<open>Witnesses\<close>

definition dsp_res_named :: "string \<Rightarrow> dsp_res" where
  "dsp_res_named n = \<lparr>dr_name = n, dr_pixelResolution = 0, dr_aspectRatio = 0, dr_stereoScopicMode = 0, dr_frameRate = 0,
     dr_interlaced = False\<rparr>"

definition dsp_edid_sample :: dsp_edid where
  "dsp_edid_sample = \<lparr>ed_productCode = 1, ed_serialNumber = 2, ed_manufactureYear = 2020, ed_manufactureWeek = 3,
     ed_hdmiDeviceType = True, ed_isRepeater = False, ed_physicalAddress = (1, 0, 0, 0), ed_monitorName = ''TV'',
     ed_numOfSupportedResolution = 2, ed_suppResolutionList = map dsp_res_named [''2160p'', ''720p'', [], []]\<rparr>"

definition dsp_sample :: dsp_env where
  "dsp_sample = \<lparr>de_ret = (\<lambda>_ _. DsERR_NONE), de_int = (\<lambda>_ _. 7), de_edid = (\<lambda>_ _. dsp_edid_sample), de_bytes = (\<lambda>_ _. [0, 255]),
     de_symbol = (\<lambda>_. True), de_lib = Some dsp_lib, de_max = 4, de_HDMI = 6, de_INTERNAL = 5, de_TYPE_MAX = 8, de_4x3 = 1,
     de_vp = ex_vp True\<rparr>"

definition dsp_start :: dsp_state where
  "dsp_start = Display_create dsp_sample 0 (dsp_static ex_vp_state)"

lemma dsp_start_ok: "dsp_inv dsp_start" "dsp_live dsp_start = Some 0"
proof -
  have n: "dsp_live (dsp_static ex_vp_state) = None" by (simp add: dsp_static_def)
  show "dsp_inv dsp_start" unfolding dsp_start_def by (rule dsp_inv_create [OF dsp_inv_static n])
  show "dsp_live dsp_start = Some 0"
    by (simp add: dsp_start_def Display_create_def dDisplayImpl_create_def setAllCallbacks_dsp_def registerDisplayEventCallbacks_def dsp_log_def Let_def)
qed

lemma dsp_sample_type: "\<exists>t. GetDisplayPortType dsp_sample 7 s = Ret (6, t) \<and> dsp_handles t = dsp_handles s"
proof -
  have "PopulateVideoPortConfig (Some dsp_lib) (dsp_handles s) = (copy_video_ports dsp_lib, dsp_handles s)"
    by (simp add: populate_tables populate_eq exports_def dsp_lib_def)
  then show ?thesis
    by (simp add: GetDisplayPortType_def dsp_sample_def copy_video_ports_def c_read_def dsp_lib_def video_type_def supported_names_def
        video_port_entry_def dsp_ok_def dsp_int_def dsp_log_def Let_def)
qed

theorem edid_filter_offers_common_witness:
  "\<exists>x t. filterEDIDResolution dsp_sample 7 dsp_edid_sample dsp_start = Ret (x, t)
     \<and> take (nat (ed_numOfSupportedResolution x)) (ed_suppResolutionList x) = [dsp_res_named ''720p'']"
proof -
  obtain t where t: "GetDisplayPortType dsp_sample 7 dsp_start = Ret (de_HDMI dsp_sample, t)"
    using dsp_sample_type [of dsp_start] by (auto simp: dsp_sample_def)
  have r: "fst (PopulateVideoPortResolutionConfig (de_HDMI dsp_sample) (de_lib dsp_sample) (dsp_handles t))
      = Ret [cfg_named ''720p'', cfg_named ''1080p'']"
    using sample_resolutions by (simp add: dsp_sample_def)
  show ?thesis
    using edid_filter_offers_common [OF t r, of dsp_edid_sample]
    by (auto simp: dsp_edid_sample_def dsp_sample_def cfg_named_def common_def dsp_res_named_def c_str_def)
qed

theorem display_events_safe_witness:
  "\<exists>t. dsDisplayEventCallback dsp_sample DISPLAY_CONNECTED (Display_destroy dsp_start) = Ret t"
  using display_events_safe [of dsp_sample "[DspCreate, DspDestroy]" ex_vp_state "Display_destroy dsp_start" DISPLAY_CONNECTED]
    dsp_start_ok(2)
  by (auto simp: dsp_start_def dsp_static_def)

theorem edid_read_once_witness:
  "\<exists>s1 out t. GetDisplayEdid dsp_sample 7 dsp_start = Ret (ERROR_NONE, out, s1)
     \<and> dsp_run dsp_sample 1 [DspDestroy, DspReport DISPLAY_DISCONNECTED, DspCreate] s1 = Ret t
     \<and> GetDisplayEdid dsp_sample 8 t = Ret (ERROR_NONE, out, t)"
proof -
  have c: "\<not> isEdidCached dsp_start"
    by (simp add: dsp_start_def Display_create_def dDisplayImpl_create_def setAllCallbacks_dsp_def registerDisplayEventCallbacks_def dsp_log_def Let_def
        InitialiseHAL_dsp_def dsp_static_def)
  let ?s = "dsp_log (DspGetEDID 7) dsp_start"
  obtain t where t: "GetDisplayPortType dsp_sample 7 ?s = Ret (6, t)" using dsp_sample_type [of ?s] by auto
  have "\<exists>x u. filterEDIDResolution dsp_sample 7 dsp_edid_sample ?s = Ret (x, u)"
    using t sample_resolutions [of "dsp_handles t"]
    by (simp add: filterEDIDResolution_def case_prod_unfold dsp_sample_def dsp_edid_sample_def Let_def)
  then obtain out s1 where g: "GetDisplayEdid dsp_sample 7 dsp_start = Ret (ERROR_NONE, out, s1)"
    using c by (auto simp: GetDisplayEdid_def Let_def dsp_ok_def) (auto simp: dsp_sample_def)
  have k: "dsp_inv s1" "dsp_live s1 = Some 0"
    using edid_keeps [OF g] dsp_inv_keeps [OF dsp_start_ok(1)] dsp_start_ok(2) by (auto simp: dsp_keeps_def)
  let ?cs = "[DspDestroy, DspReport DISPLAY_DISCONNECTED, DspCreate]"
  have "\<exists>t. dsp_run dsp_sample 1 ?cs s1 = Ret t"
    using k(2) by (simp add: dsDisplayEventCallback_def Display_destroy_def)
  then obtain t where r: "dsp_run dsp_sample 1 ?cs s1 = Ret t" ..
  then show ?thesis using g edid_read_once [OF dsp_start_ok(1) g r, of 8] by auto
qed

theorem hot_plug_effects_witness:
  "\<exists>t. dsDisplayEventCallback dsp_sample DISPLAY_CONNECTED dsp_start = Ret t
     \<and> hdmi_get (vs_status (dsp_vp t)) DS_HDMI_TAG_HOTPLUP = Some ''CONNECTED''"
  using hot_plug_effects [of dsp_start dsp_sample] dsp_start_ok by (auto simp: dsp_sample_def ex_vp_def ex_hdmi_def)

end
