(* ===== verification/Composite_In.thy ===== *)
theory Composite_In
  imports Hal_Base
begin

section \<open>The composite inputs (\<open>hal/dCompositeInImpl.h\<close>, \<open>CompositeIn\<close>, \<open>DeviceSettingsCompositeInImpl\<close>)\<close>

text \<open>
  The platform layer \<open>dCompositeInImpl\<close> of the composite video inputs of a TV: four requests that
  each make one HAL call, four events, and no settings; the forwarding layer \<open>CompositeIn.cpp\<close> and
  the COM layer; and the objects of one process, as a history of steps. A history has one object at
  a time, since the platform is a member of the plugin's implementation object; a step that creates
  another one while it lives does nothing here (how two plugin implementations can overlap is the
  subject of \<open>two_implementations\<close> in \<open>Plugin_Shell\<close>). The AIDL variant is
  not modelled here. The enumerations of the HAL and of the interface have the same numbers, so the
  casts between them are the identity on \<open>int\<close>.
\<close>

subsection \<open>Types\<close>

text \<open>A video mode; a stereoscopic mode nobody assigned is \<open>None\<close>.\<close>

record comp_mode =
  cm_name :: string
  cm_pixelResolution :: int
  cm_aspectRatio :: int
  cm_stereoScopicMode :: "int option"
  cm_frameRate :: int
  cm_interlaced :: bool

datatype comp_cb = CcHotPlug | CcSignal | CcStatus | CcVideoMode

datatype comp_event =
    CevHotPlug int bool
  | CevSignal int int
  | CevStatus int bool
  | CevVideoMode int comp_mode

fun comp_event_cb :: "comp_event \<Rightarrow> comp_cb" where
  "comp_event_cb (CevHotPlug p b) = CcHotPlug"
| "comp_event_cb (CevSignal p x) = CcSignal"
| "comp_event_cb (CevStatus p b) = CcStatus"
| "comp_event_cb (CevVideoMode p m) = CcVideoMode"

datatype comp_call =
    CiInit
  | CiTerm
  | CiRegister comp_cb
  | CiNumber
  | CiStatus
  | CiSelect int
  | CiScale int int int int
  | CiEvent comp_event

text \<open>\<open>ci_status\<close> is the active port and whether it is presented.\<close>

record comp_env = "comp_call hal_env" +
  ci_status :: "comp_call list \<Rightarrow> int \<times> bool"

record comp_state = "comp_call hal_state" +
  compositeIn_isInitialized :: bool
  compositeIn_isPlatInitialized :: bool
  comp_cbs :: "comp_cb \<Rightarrow> nat option"

datatype comp_val = CiInt int | CiState int bool

type_synonym comp_result = "coreErr \<times> comp_val option \<times> comp_state"

definition comp_static :: "host_store \<Rightarrow> comp_state" where
  "comp_static st = \<lparr>hs_trace = [], hs_store = st, hs_live = None, compositeIn_isInitialized = False,
     compositeIn_isPlatInitialized = False, comp_cbs = (\<lambda>_. None)\<rparr>"

subsection \<open>Start and end of a platform object\<close>

definition InitialiseHAL_comp :: "comp_env \<Rightarrow> comp_state \<Rightarrow> comp_state" where
  "InitialiseHAL_comp e s =
     (if \<not> he_tv e \<or> compositeIn_isPlatInitialized s \<or> \<not> he_symbol e ''dsCompositeInInit'' then s
      else if hal_ok e CiInit s then (hal_log CiInit s)\<lparr>compositeIn_isPlatInitialized := True\<rparr>
      else hal_log CiInit s)"

text \<open>On a box that is not a TV the destructor does nothing, not even to the flag.\<close>

definition DeInitialiseHAL_comp :: "comp_env \<Rightarrow> comp_state \<Rightarrow> comp_state" where
  "DeInitialiseHAL_comp e s =
     (if \<not> he_tv e then s
      else (if compositeIn_isPlatInitialized s
            then (if he_symbol e ''dsCompositeInTerm'' then hal_log CiTerm s else s)\<lparr>compositeIn_isPlatInitialized := False\<rparr>
            else s)\<lparr>compositeIn_isInitialized := False\<rparr>)"

fun comp_cb_symbol :: "comp_cb \<Rightarrow> string" where
  "comp_cb_symbol CcHotPlug = ''dsCompositeInRegisterConnectCB''"
| "comp_cb_symbol CcSignal = ''dsCompositeInRegisterSignalChangeCB''"
| "comp_cb_symbol CcStatus = ''dsCompositeInRegisterStatusChangeCB''"
| "comp_cb_symbol CcVideoMode = ''dsCompositeInRegisterVideoModeUpdateCB''"

definition registerCompositeInEventCallbacks :: "comp_env \<Rightarrow> comp_state \<Rightarrow> comp_state" where
  "registerCompositeInEventCallbacks e s =
     fold (\<lambda>k s. if he_symbol e (comp_cb_symbol k) then hal_log (CiRegister k) s else s)
       [CcHotPlug, CcSignal, CcStatus, CcVideoMode] s"

text \<open>The bundle of \<open>CompositeIn::Platform_init\<close> has all four callbacks, for the object \<open>i\<close>.\<close>

definition setAllCallbacks_comp :: "comp_env \<Rightarrow> nat \<Rightarrow> comp_state \<Rightarrow> comp_state" where
  "setAllCallbacks_comp e i s =
     (if compositeIn_isInitialized s then s
      else (registerCompositeInEventCallbacks e (s\<lparr>comp_cbs := (\<lambda>_. Some i)\<rparr>))\<lparr>compositeIn_isInitialized := True\<rparr>)"

definition CompositeIn_create :: "comp_env \<Rightarrow> nat \<Rightarrow> comp_state \<Rightarrow> comp_state" where
  "CompositeIn_create e i s = setAllCallbacks_comp e i ((InitialiseHAL_comp e s)\<lparr>hs_live := Some i\<rparr>)"

definition CompositeIn_destroy :: "comp_env \<Rightarrow> comp_state \<Rightarrow> comp_state" where
  "CompositeIn_destroy e s = (DeInitialiseHAL_comp e s)\<lparr>hs_live := None\<rparr>"

subsection \<open>The requests\<close>

text \<open>The shape of the four: the function is looked up, called, and its answer converted.\<close>

definition comp_query ::
  "comp_env \<Rightarrow> string \<Rightarrow> comp_call \<Rightarrow> (comp_call list \<Rightarrow> comp_val option) \<Rightarrow> comp_state \<Rightarrow> comp_result" where
  "comp_query e symbol c val s =
     (if \<not> he_symbol e symbol then (ERROR_GENERAL, None, s)
      else if hal_ok e c s then (ERROR_NONE, val (hs_trace s), hal_log c s)
      else (ERROR_GENERAL, None, hal_log c s))"

definition GetNrOfCompositeInputs :: "comp_env \<Rightarrow> comp_state \<Rightarrow> comp_result" where
  "GetNrOfCompositeInputs e = comp_query e ''dsCompositeInGetNumberOfInputs'' CiNumber
     (\<lambda>h. Some (CiInt (he_int e h CiNumber mod 256)))"

definition GetCompositeInStatus :: "comp_env \<Rightarrow> comp_state \<Rightarrow> comp_result" where
  "GetCompositeInStatus e = comp_query e ''dsCompositeInGetStatus'' CiStatus
     (\<lambda>h. Some (CiState (fst (ci_status e h)) (snd (ci_status e h))))"

definition SelectCompositeInPort :: "comp_env \<Rightarrow> int \<Rightarrow> comp_state \<Rightarrow> comp_result" where
  "SelectCompositeInPort e p = comp_query e ''dsCompositeInSelectPort'' (CiSelect p) (\<lambda>_. None)"

definition ScaleCompositeInVideo :: "comp_env \<Rightarrow> int \<Rightarrow> int \<Rightarrow> int \<Rightarrow> int \<Rightarrow> comp_state \<Rightarrow> comp_result" where
  "ScaleCompositeInVideo e x y w h = comp_query e ''dsCompositeInScaleVideo'' (CiScale x y w h) (\<lambda>_. None)"

subsection \<open>Events\<close>

text \<open>The conversion of a video mode copies every field but the stereoscopic mode.\<close>

definition convertToWPEDisplayVideoPortResolution :: "comp_mode \<Rightarrow> comp_mode" where
  "convertToWPEDisplayVideoPortResolution m = m\<lparr>cm_stereoScopicMode := None\<rparr>"

fun comp_converted :: "comp_event \<Rightarrow> comp_event" where
  "comp_converted (CevVideoMode p m) =
     CevVideoMode p (convertToWPEDisplayVideoPortResolution (m\<lparr>cm_name := c_str (cm_name m)\<rparr>))"
| "comp_converted ev = ev"

definition dsCompositeInCallback :: "comp_event \<Rightarrow> comp_state \<Rightarrow> comp_state outcome" where
  "dsCompositeInCallback ev s = hal_notify (comp_cbs s (comp_event_cb ev)) (CiEvent (comp_converted ev)) s"

subsection \<open>The layers above, and histories\<close>

datatype comp_request = CrNumber | CrStatus | CrSelect int | CrScale int int int int

fun comp_platform :: "comp_env \<Rightarrow> comp_request \<Rightarrow> comp_state \<Rightarrow> comp_result" where
  "comp_platform e CrNumber s = GetNrOfCompositeInputs e s"
| "comp_platform e CrStatus s = GetCompositeInStatus e s"
| "comp_platform e (CrSelect p) s = SelectCompositeInPort e p s"
| "comp_platform e (CrScale x y w h) s = ScaleCompositeInVideo e x y w h s"

definition CompositeIn_call :: "bool \<Rightarrow> comp_env \<Rightarrow> comp_request \<Rightarrow> comp_state \<Rightarrow> comp_result" where
  "CompositeIn_call platform e req s = (if platform then comp_platform e req s else (ERROR_GENERAL, None, s))"

text \<open>The COM methods hand the request and its result through.\<close>

definition CompositeInImpl_call :: "comp_env \<Rightarrow> comp_request \<Rightarrow> comp_state \<Rightarrow> comp_result" where
  "CompositeInImpl_call e req s = CompositeIn_call True e req s"

datatype comp_op = CiCreate | CiDestroy | CiRequest comp_request | CiReport comp_event

text \<open>The HAL reports the events it was asked to report. The \<open>i\<close>-th step creates object \<open>i\<close>.\<close>

fun comp_do :: "comp_env \<Rightarrow> nat \<Rightarrow> comp_op \<Rightarrow> comp_state \<Rightarrow> comp_state outcome" where
  "comp_do e i CiCreate s = Ret (if hs_live s = None then CompositeIn_create e i s else s)"
| "comp_do e i CiDestroy s = Ret (if hs_live s = None then s else CompositeIn_destroy e s)"
| "comp_do e i (CiRequest req) s =
     Ret (if hs_live s = None then s else snd (snd (CompositeInImpl_call e req s)))"
| "comp_do e i (CiReport ev) s =
     (if CiRegister (comp_event_cb ev) \<in> set (hs_trace s) then dsCompositeInCallback ev s else Ret s)"

fun comp_run :: "comp_env \<Rightarrow> nat \<Rightarrow> comp_op list \<Rightarrow> comp_state \<Rightarrow> comp_state outcome" where
  "comp_run e i [] s = Ret s"
| "comp_run e i (c # cs) s = obind (comp_do e i c s) (comp_run e (Suc i) cs)"

subsection \<open>Which requests reach the HAL\<close>

text \<open>The HAL call a request makes, and its function.\<close>

fun comp_hal_call :: "comp_request \<Rightarrow> string \<times> comp_call" where
  "comp_hal_call CrNumber = (''dsCompositeInGetNumberOfInputs'', CiNumber)"
| "comp_hal_call CrStatus = (''dsCompositeInGetStatus'', CiStatus)"
| "comp_hal_call (CrSelect p) = (''dsCompositeInSelectPort'', CiSelect p)"
| "comp_hal_call (CrScale x y w h) = (''dsCompositeInScaleVideo'', CiScale x y w h)"

lemma comp_request_effect:
  "CompositeInImpl_call e req s = (let (symbol, c) = comp_hal_call req; answered = he_symbol e symbol \<and> hal_ok e c s
     in (if answered then ERROR_NONE else ERROR_GENERAL, fst (snd (CompositeInImpl_call e req s)),
         if he_symbol e symbol then hal_log c s else s))"
  by (cases req) (simp_all add: CompositeInImpl_call_def CompositeIn_call_def comp_query_def
      GetNrOfCompositeInputs_def GetCompositeInStatus_def SelectCompositeInPort_def ScaleCompositeInVideo_def)

text \<open>
  What a request to the composite inputs does, in every state: if the HAL has the function it
  is called exactly once, nothing else changes, and the answer is success exactly if the HAL
  accepts. The state is not asked whether the HAL was ever initialised: also on a box that is not
  a TV, and after the HAL refused to start, the request reaches it.
\<close>

theorem composite_requests:
  "case comp_hal_call req of (symbol, c) \<Rightarrow>
     snd (snd (CompositeInImpl_call e req s)) = (if he_symbol e symbol then hal_log c s else s)
     \<and> fst (CompositeInImpl_call e req s)
         = (if he_symbol e symbol \<and> he_ret e (hs_trace s) c = DsERR_NONE then ERROR_NONE else ERROR_GENERAL)"
  using comp_request_effect [of e req s]
  by (simp add: hal_ok_def Let_def case_prod_unfold prod_eq_iff)

subsection \<open>The listeners\<close>

text \<open>
  The object whose callbacks the HAL has: the youngest on a TV, the first one on another box.
  A step is harmful if the HAL reports an event to an object that is gone.
\<close>

fun comp_harm :: "comp_env \<Rightarrow> nat option \<Rightarrow> nat option \<Rightarrow> nat \<Rightarrow> comp_op list \<Rightarrow> bool" where
  "comp_harm e owner live i [] = False"
| "comp_harm e owner live i (CiCreate # cs) =
     (if live = None then comp_harm e (if he_tv e \<or> owner = None then Some i else owner) (Some i) (Suc i) cs
      else comp_harm e owner live (Suc i) cs)"
| "comp_harm e owner live i (CiDestroy # cs) = comp_harm e owner None (Suc i) cs"
| "comp_harm e owner live i (CiRequest req # cs) = comp_harm e owner live (Suc i) cs"
| "comp_harm e owner live i (CiReport ev # cs) =
     (owner \<noteq> None \<and> he_symbol e (comp_cb_symbol (comp_event_cb ev)) \<and> owner \<noteq> live
      \<or> comp_harm e owner live (Suc i) cs)"

text \<open>What the state says about the owner and the living object.\<close>

definition comp_view :: "comp_env \<Rightarrow> nat option \<Rightarrow> nat option \<Rightarrow> comp_state \<Rightarrow> bool" where
  "comp_view e owner live s \<longleftrightarrow> hs_live s = live \<and> comp_cbs s = (\<lambda>_. owner)
     \<and> compositeIn_isInitialized s = (owner \<noteq> None \<and> (he_tv e \<longrightarrow> live \<noteq> None))
     \<and> (\<forall>k. CiRegister k \<in> set (hs_trace s) \<longleftrightarrow> owner \<noteq> None \<and> he_symbol e (comp_cb_symbol k))"

lemma register_comp:
  "hs_live (registerCompositeInEventCallbacks e s) = hs_live s"
  "comp_cbs (registerCompositeInEventCallbacks e s) = comp_cbs s"
  "CiRegister k \<in> set (hs_trace (registerCompositeInEventCallbacks e s))
     \<longleftrightarrow> he_symbol e (comp_cb_symbol k) \<or> CiRegister k \<in> set (hs_trace s)"
  by (cases k; simp add: registerCompositeInEventCallbacks_def hal_log_def)+

lemma comp_fields [simp]:
  "compositeIn_isInitialized (hal_log c s) = compositeIn_isInitialized s"
  "comp_cbs (hal_log c s) = comp_cbs s"
  by (simp_all add: hal_log_def)

lemma view_create:
  assumes "comp_view e owner None s"
  shows "comp_view e (if he_tv e \<or> owner = None then Some i else owner) (Some i) (CompositeIn_create e i s)"
proof -
  let ?s = "(InitialiseHAL_comp e s)\<lparr>hs_live := Some i\<rparr>"
  have s: "hs_live ?s = Some i" "comp_cbs ?s = (\<lambda>_. owner)"
      "compositeIn_isInitialized ?s = (owner \<noteq> None \<and> \<not> he_tv e)"
      "CiRegister k \<in> set (hs_trace ?s) \<longleftrightarrow> owner \<noteq> None \<and> he_symbol e (comp_cb_symbol k)" for k
    using assms by (auto simp: comp_view_def InitialiseHAL_comp_def)
  show ?thesis
    using s by (auto simp: comp_view_def CompositeIn_create_def setAllCallbacks_comp_def register_comp)
qed

lemma view_destroy:
  assumes "comp_view e owner (Some j) s"
  shows "comp_view e owner None (CompositeIn_destroy e s)"
  using assms by (auto simp: comp_view_def CompositeIn_destroy_def DeInitialiseHAL_comp_def)

lemma view_request:
  assumes "comp_view e owner live s"
  shows "comp_view e owner live (snd (snd (CompositeInImpl_call e req s)))"
proof -
  obtain symbol c where c: "comp_hal_call req = (symbol, c)" by (rule prod.exhaust)
  then have n: "c \<noteq> CiRegister k" for k by (cases req) auto
  have "snd (snd (CompositeInImpl_call e req s)) = (if he_symbol e symbol then hal_log c s else s)"
    using comp_request_effect [of e req s] by (simp add: c Let_def prod_eq_iff)
  then show ?thesis using assms n by (auto simp: comp_view_def)
qed

lemma view_report:
  assumes "comp_view e owner live s"
  shows "comp_do e i (CiReport ev) s =
     (if owner \<noteq> None \<and> he_symbol e (comp_cb_symbol (comp_event_cb ev))
      then if owner = live then Ret (hal_log (CiEvent (comp_converted ev)) s) else UB else Ret s)"
  using assms by (auto simp: comp_view_def dsCompositeInCallback_def hal_notify_def)

lemma comp_run_harm:
  "comp_view e owner live s \<Longrightarrow> (if comp_harm e owner live i cs then comp_run e i cs s = UB
     else \<exists>t. comp_run e i cs s = Ret t)"
proof (induction cs arbitrary: owner live i s)
  case (Cons c cs)
  show ?case
  proof (cases c)
    case CiCreate
    have live: "hs_live s = live" using Cons.prems by (simp add: comp_view_def)
    show ?thesis
    proof (cases live)
      case None
      with Cons.prems have "comp_view e owner None s" by simp
      from Cons.IH [OF view_create [OF this, of i], of "Suc i"] show ?thesis
        using CiCreate live None by simp
    next
      case (Some j)
      then show ?thesis using CiCreate live Cons.IH [OF Cons.prems, of "Suc i"] by simp
    qed
  next
    case CiDestroy
    have live: "hs_live s = live" using Cons.prems by (simp add: comp_view_def)
    show ?thesis
    proof (cases live)
      case None
      then show ?thesis using CiDestroy live Cons.IH [OF Cons.prems, of "Suc i"] by simp
    next
      case (Some j)
      with Cons.prems have "comp_view e owner (Some j) s" by simp
      from Cons.IH [OF view_destroy [OF this], of "Suc i"] show ?thesis
        using CiDestroy live Some by simp
    qed
  next
    case (CiRequest req)
    then show ?thesis
      using Cons.IH [OF view_request [OF Cons.prems]] Cons.IH [OF Cons.prems] by simp
  next
    case (CiReport ev)
    have v: "comp_view e owner live (hal_log (CiEvent (comp_converted ev)) s)"
      using Cons.prems by (auto simp: comp_view_def)
    show ?thesis
      using CiReport view_report [OF Cons.prems, of i ev] Cons.IH [OF v, of "Suc i"] Cons.IH [OF Cons.prems, of "Suc i"]
      by (simp split: if_splits)
  qed
qed simp

text \<open>
  C18. The listeners of the composite inputs, exactly: a history of one process is undefined
  precisely if the HAL reports an event it was asked for to an object that is gone, and returns
  otherwise. On a TV that is an event after the last object was destroyed; on another box the first
  object keeps the callbacks for good, so that an event is also harmful while a later object exists.
\<close>

theorem composite_listeners:
  "(comp_run e 0 cs (comp_static st) = UB \<longleftrightarrow> comp_harm e None None 0 cs)
   \<and> ((\<exists>t. comp_run e 0 cs (comp_static st) = Ret t) \<longleftrightarrow> \<not> comp_harm e None None 0 cs)"
proof -
  have "comp_view e None None (comp_static st)" by (simp add: comp_view_def comp_static_def)
  from comp_run_harm [OF this, of 0 cs] show ?thesis by (auto split: if_splits)
qed

text \<open>A second object on a box that is not a TV: the history is short.\<close>

lemma second_object_harmful:
  assumes "\<not> he_tv e" and "he_symbol e ''dsCompositeInRegisterConnectCB''"
  shows "comp_run e 0 [CiCreate, CiDestroy, CiCreate, CiReport (CevHotPlug 0 True)] (comp_static st) = UB"
proof -
  have harm: "comp_harm e None None 0 [CiCreate, CiDestroy, CiCreate, CiReport (CevHotPlug 0 True)]"
    using assms by simp
  have "comp_view e None None (comp_static st)" by (simp add: comp_view_def comp_static_def)
  from comp_run_harm [OF this, of 0 "[CiCreate, CiDestroy, CiCreate, CiReport (CevHotPlug 0 True)]"] harm
  show ?thesis by (simp only: if_True)
qed

end
