(* ===== verification/Host_Info.thy ===== *)
theory Host_Info
  imports Hal_Base
begin

section \<open>The host (\<open>hal/dHostImpl.h\<close>, \<open>Host\<close>, \<open>DeviceSettingsHostImpl\<close>)\<close>

text \<open>
  Two queries: the EDID of the host, which the HAL writes into a buffer of the platform object,
  and the MS12 configuration, a default property. The forwarding and COM layers hand results
  through. The platform object has no events and is never ended: only its flag is reset.
\<close>

subsection \<open>Types\<close>

datatype host_call = HostInit | HostGetEDID

text \<open>
  What the HAL writes and the length it reports are two answers, \<open>ho_bytes\<close> and \<open>he_int\<close>;
  \<open>ho_stack\<close> is what the buffer of 1024 bytes holds before.
\<close>

record host_env = "host_call hal_env" +
  ho_bytes :: "host_call list \<Rightarrow> int list"
  ho_stack :: "host_call list \<Rightarrow> int list"

record host_state = "host_call hal_state" +
  host_isInitialized :: bool
  host_isPlatInitialized :: bool

datatype host_val = HoBytes "int list" | HoText string

type_synonym host_result = "(coreErr \<times> host_val option \<times> host_state) outcome"

definition host_static :: "host_store \<Rightarrow> host_state" where
  "host_static st = \<lparr>hs_trace = [], hs_store = st, hs_live = None, host_isInitialized = False,
     host_isPlatInitialized = False\<rparr>"

definition EDID_MAX_DATA_SIZE :: nat where "EDID_MAX_DATA_SIZE = 1024"

subsection \<open>Start and end\<close>

definition InitialiseHAL_host :: "host_env \<Rightarrow> host_state \<Rightarrow> host_state" where
  "InitialiseHAL_host e s =
     (if host_isPlatInitialized s then s
      else if hal_ok e HostInit s then (hal_log HostInit s)\<lparr>host_isPlatInitialized := True\<rparr> else hal_log HostInit s)"

definition DeInitialiseHAL_host :: "host_state \<Rightarrow> host_state" where
  "DeInitialiseHAL_host s = s\<lparr>host_isPlatInitialized := False\<rparr>"

definition setAllCallbacks_host :: "host_state \<Rightarrow> host_state" where
  "setAllCallbacks_host s =
     (if host_isPlatInitialized s \<and> \<not> host_isInitialized s then s\<lparr>host_isInitialized := True\<rparr> else s)"

definition Host_create :: "host_env \<Rightarrow> nat \<Rightarrow> host_state \<Rightarrow> host_state" where
  "Host_create e i s = setAllCallbacks_host ((InitialiseHAL_host e s)\<lparr>hs_live := Some i\<rparr>)"

definition Host_destroy :: "host_state \<Rightarrow> host_state" where
  "Host_destroy s = (DeInitialiseHAL_host s)\<lparr>hs_live := None\<rparr>"

subsection \<open>The queries\<close>

text \<open>
  The HAL writes first; then the reported length is compared with the length of the client, both
  as \<open>int\<close>. A negative length passes the comparison and \<open>memcpy\<close> takes it as a size; a length above
  the size of the buffer makes \<open>memcpy\<close> read behind it.
\<close>

definition GetEDID_host :: "host_env \<Rightarrow> nat \<Rightarrow> host_state \<Rightarrow> host_result" where
  "GetEDID_host e edIdLength s =
     (if \<not> he_symbol e ''dsGetHostEDID'' then Ret (ERROR_UNAVAILABLE, None, s)
      else let bytes = ho_bytes e (hs_trace s); len = hal_int e HostGetEDID s; s1 = hal_log HostGetEDID s;
               edidBytes = bytes @ drop (length bytes) (ho_stack e (hs_trace s))
           in if EDID_MAX_DATA_SIZE < length bytes then UB
              else if \<not> hal_ok e HostGetEDID s then Ret (ERROR_GENERAL, None, s1)
              else if len \<le> int edIdLength
              then if len < 0 \<or> int EDID_MAX_DATA_SIZE < len then UB
                   else Ret (ERROR_NONE, Some (HoBytes (take (nat len) edidBytes)), s1)
              else Ret (ERROR_BAD_REQUEST, None, s1))"

definition GetMS12ConfigType :: "host_state \<Rightarrow> host_result" where
  "GetMS12ConfigType s =
     (case getDefaultProperty ''MS12.Config.Type'' (hs_store s) of
        (Ret v, st) \<Rightarrow> Ret (ERROR_NONE, Some (HoText v), s\<lparr>hs_store := st\<rparr>)
      | (_, st) \<Rightarrow> Ret (ERROR_NONE, Some (HoText ''CONFIG_NONE''), s\<lparr>hs_store := st\<rparr>))"

datatype host_request = HoGetEDID nat | HoGetMS12

fun host_platform :: "host_env \<Rightarrow> host_request \<Rightarrow> host_state \<Rightarrow> host_result" where
  "host_platform e (HoGetEDID n) s = GetEDID_host e n s"
| "host_platform e HoGetMS12 s = GetMS12ConfigType s"

definition Host_call :: "bool \<Rightarrow> host_env \<Rightarrow> host_request \<Rightarrow> host_state \<Rightarrow> host_result" where
  "Host_call platform e req s = (if platform then host_platform e req s else Ret (ERROR_GENERAL, None, s))"

definition HostImpl_call :: "host_env \<Rightarrow> host_request \<Rightarrow> host_state \<Rightarrow> host_result" where
  "HostImpl_call e req s = Host_call True e req s"

subsection \<open>Properties\<close>

text \<open>
  The EDID of the host, on every branch. Without the function the answer is
  \<open>ERROR_UNAVAILABLE\<close> and the HAL is not called. Otherwise the request is undefined exactly if the
  HAL writes past the buffer, or reports success with a length that is negative or passes the
  client's length but not the buffer's. For a HAL that reports what it wrote it is defined as soon
  as the HAL stays in the buffer: the client gets the bytes if they fit, else
  \<open>ERROR_BAD_REQUEST\<close> and no byte.
\<close>

theorem host_edid_answer:
  fixes e :: host_env and s :: host_state
  defines "bytes \<equiv> ho_bytes e (hs_trace s)"
    and "len \<equiv> he_int e (hs_trace s) HostGetEDID" and "ok \<equiv> he_ret e (hs_trace s) HostGetEDID = DsERR_NONE"
  shows "(HostImpl_call e (HoGetEDID n) s = UB \<longleftrightarrow> he_symbol e ''dsGetHostEDID''
       \<and> (1024 < length bytes \<or> ok \<and> len \<le> int n \<and> (len < 0 \<or> 1024 < len)))
     \<and> (\<not> he_symbol e ''dsGetHostEDID'' \<longrightarrow> HostImpl_call e (HoGetEDID n) s = Ret (ERROR_UNAVAILABLE, None, s))
     \<and> (he_symbol e ''dsGetHostEDID'' \<and> len = int (length bytes) \<and> length bytes \<le> 1024 \<longrightarrow>
          HostImpl_call e (HoGetEDID n) s = Ret (if \<not> ok then (ERROR_GENERAL, None, hal_log HostGetEDID s)
            else if length bytes \<le> n then (ERROR_NONE, Some (HoBytes bytes), hal_log HostGetEDID s)
            else (ERROR_BAD_REQUEST, None, hal_log HostGetEDID s)))"
  by (auto simp: HostImpl_call_def Host_call_def GetEDID_host_def EDID_MAX_DATA_SIZE_def Let_def hal_ok_def hal_int_def
      bytes_def len_def ok_def)

definition host_sample :: host_env where
  "host_sample = \<lparr>he_ret = (\<lambda>_ _. DsERR_NONE), he_int = (\<lambda>_ _. 3), he_symbol = (\<lambda>_. True), he_io = io_full, he_tv = True,
     ho_bytes = (\<lambda>_. [0, 255, 255]), ho_stack = (\<lambda>_. replicate 1024 0)\<rparr>"

definition host_sample_state :: host_state where
  "host_sample_state = host_static (hp_new ''f'' Map.empty)"

theorem host_edid_answer_witness:
  "HostImpl_call host_sample (HoGetEDID 2) host_sample_state
     = Ret (ERROR_BAD_REQUEST, None, hal_log HostGetEDID host_sample_state)
   \<and> HostImpl_call (host_sample\<lparr>he_symbol := (\<lambda>_. False)\<rparr>) (HoGetEDID 2) host_sample_state
     = Ret (ERROR_UNAVAILABLE, None, host_sample_state)"
  using host_edid_answer [of host_sample 2 host_sample_state]
    host_edid_answer [of "host_sample\<lparr>he_symbol := (\<lambda>_. False)\<rparr>" 2 host_sample_state]
  by (simp add: host_sample_def)

text \<open>The MS12 configuration is always answered; it is the default property or \<open>CONFIG_NONE\<close>.\<close>

lemma ms12_config_answer:
  "HostImpl_call e HoGetMS12 s = Ret (ERROR_NONE,
     Some (HoText (case map_of (hp_defaults (ensureInitialized (hs_store s))) ''MS12.Config.Type'' of
         Some v \<Rightarrow> v | None \<Rightarrow> ''CONFIG_NONE'')),
     s\<lparr>hs_store := ensureInitialized (hs_store s)\<rparr>)"
  by (simp add: HostImpl_call_def Host_call_def GetMS12ConfigType_def getDefaultProperty_def Let_def split: option.split)

text \<open>The HAL is initialised again for every object and never told of an end.\<close>

lemma host_reinitialised:
  assumes "\<not> host_isPlatInitialized s" and "hal_ok e HostInit s"
  shows "hs_trace (Host_create e j (Host_destroy (Host_create e i s))) = hs_trace s @ [HostInit, HostInit]"
  using assms
  by (simp add: Host_create_def Host_destroy_def InitialiseHAL_host_def DeInitialiseHAL_host_def setAllCallbacks_host_def)

end
