(* ===== verification/Resolution_Choice.thy ===== *)
theory Resolution_Choice
  imports DS_Prelude
begin

section \<open>Choosing the HDMI resolution (\<open>DSController\<close>, pure part)\<close>

text \<open>
  Models the string functions of \<open>DSController.cpp\<close> behind \<open>SetResolution\<close>: the region test
  on \<open>/etc/device.properties\<close>, the fallback list of the platform, the parsing of a resolution
  name and the search for a name the display supports. Buffers are 64 bytes (\<open>RES_MAX_LEN\<close>),
  the list has 6 entries; a string literal of the source is a list of characters here.
\<close>

subsection \<open>The platform\<close>

definition eu_line :: "string \<Rightarrow> bool" where
  "eu_line line \<longleftrightarrow> \<not> contains (c_str line) '' US''"

text \<open>
  \<open>isEUPlatform\<close>: the argument is the content of the file, \<open>None\<close> when it cannot be opened;
  \<open>fgets\<close> reads at most 255 characters at a time.
\<close>

definition isEUPlatform :: "string option \<Rightarrow> bool" where
  "isEUPlatform file = (case file of
       None \<Rightarrow> False
     | Some content \<Rightarrow>
         (case find (\<lambda>line. contains (c_str line) ''FRIENDLY_ID'') (fgets_lines 255 content) of
            None \<Rightarrow> False
          | Some line \<Rightarrow> eu_line line))"

definition resList :: "string list" where
  "resList = [''2160p'', ''1080p'', ''1080i'', ''720p'', ''576p'', ''480p'']"

definition RES_MAX_LEN :: nat where "RES_MAX_LEN = 64"

definition RES_MAX_COUNT :: nat where "RES_MAX_COUNT = 6"

fun setup_loop :: "bool \<Rightarrow> string list \<Rightarrow> nat \<Rightarrow> string list \<Rightarrow> string list" where
  "setup_loop eu [] count fbl = fbl"
| "setup_loop eu (r # rs) count fbl =
     (if contains r ''576p'' \<and> \<not> eu then setup_loop eu rs count fbl
      else if count < RES_MAX_COUNT
      then setup_loop eu rs (count + 1) (fbl[count := snprintf_s RES_MAX_LEN r])
      else fbl)"

definition setupPlatformConfig :: "string option \<Rightarrow> string list \<Rightarrow> bool \<times> string list" where
  "setupPlatformConfig file fbl = (let eu = isEUPlatform file in (eu, setup_loop eu resList 0 fbl))"

text \<open>The static array before the first call: six empty strings.\<close>

definition fallback_static :: "string list" where
  "fallback_static = replicate RES_MAX_COUNT []"

subsection \<open>Resolution names\<close>

definition getSecondaryResolution :: "string \<Rightarrow> string option" where
  "getSecondaryResolution res =
     (if contains res ''720p'' then Some (snprintf_s RES_MAX_LEN ''720p'')
      else if contains res ''1080p'' then Some (snprintf_s RES_MAX_LEN (''1080p'' @ ''60''))
      else if contains res ''1080i'' then Some (snprintf_s RES_MAX_LEN ''1080i'')
      else if contains res ''2160p'' then Some (snprintf_s RES_MAX_LEN (''2160p'' @ ''60''))
      else None)"

text \<open>\<open>strtok (s, d)\<close>, first call: the first token, \<open>None\<close> for a null pointer.\<close>

definition strtok1 :: "string \<Rightarrow> string \<Rightarrow> string option" where
  "strtok1 s d = (case dropWhile (\<lambda>c. c \<in> set d) s of
       [] \<Rightarrow> None
     | r \<Rightarrow> Some (takeWhile (\<lambda>c. c \<notin> set d) r))"

text \<open>
  \<open>snprintf (buf + len, 64 - len, "%s", t)\<close> where \<open>buf\<close> holds \<open>len\<close> characters.
\<close>

definition append_at :: "string \<Rightarrow> string \<Rightarrow> string" where
  "append_at b t = b @ snprintf_s (RES_MAX_LEN - length b) t"

text \<open>A null token is passed on to \<open>strncpy\<close>, which is undefined.\<close>

definition parseResolution :: "string \<Rightarrow> string outcome" where
  "parseResolution pResn =
     (let tmpResn = snprintf_s RES_MAX_LEN pResn in
      case strtok1 tmpResn ''ip'' of
        None \<Rightarrow> UB
      | Some token \<Rightarrow>
          (let bResn = take RES_MAX_LEN token in
           Ret (if CHR ''i'' \<in> set pResn then append_at bResn ''i''
                else if CHR ''p'' \<in> set pResn then append_at bResn ''p''
                else bResn)))"

definition getFallBackResolution :: "string \<Rightarrow> bool \<Rightarrow> string" where
  "getFallBackResolution resn flag =
     (let tmpResn = snprintf_s RES_MAX_LEN resn;
          tmp = (if flag then
                   (if resn = ''2160p'' \<or> resn = ''1080p'' \<or> resn = ''720p'' then append_at tmpResn ''50''
                    else if resn = ''1080i'' then append_at tmpResn ''25''
                    else tmpResn)
                 else if resn = ''2160p'' \<or> resn = ''1080p'' then append_at tmpResn ''60''
                 else tmpResn)
      in snprintf_s RES_MAX_LEN tmp)"

definition isResInEdid :: "string list \<Rightarrow> string \<Rightarrow> bool" where
  "isResInEdid names name \<longleftrightarrow> name \<noteq> [] \<and> name \<in> set names"

subsection \<open>The search\<close>

text \<open>The first loop: the position of the base name, \<open>0\<close> when it is not in the list.\<close>

fun base_index :: "nat \<Rightarrow> string list \<Rightarrow> string \<Rightarrow> nat" where
  "base_index i [] b = 0"
| "base_index i (r # rs) b = (if r = b then i else base_index (i + 1) rs b)"

text \<open>The second loop, over the entries after that position.\<close>

fun fallback_loop :: "bool \<Rightarrow> string list \<Rightarrow> string list \<Rightarrow> string option" where
  "fallback_loop eu names [] = None"
| "fallback_loop eu names (r # rs) =
     (if eu \<and> isResInEdid names (getFallBackResolution r True)
      then Some (getFallBackResolution r True)
      else if isResInEdid names (getFallBackResolution r False)
      then Some (getFallBackResolution r False)
      else fallback_loop eu names rs)"

text \<open>
  The block of \<open>SetResolution\<close> that fixes the name: as persisted, the 60 Hz variant (EU
  platforms), or the next best of the list. \<open>Ret None\<close> is \<open>isValidResolution == false\<close>.
\<close>

definition chooseResolution ::
  "bool \<Rightarrow> string list \<Rightarrow> string list \<Rightarrow> string \<Rightarrow> string option outcome" where
  "chooseResolution eu fbl names name =
     (if isResInEdid names (c_str name) then Ret (Some name)
      else case (if eu then getSecondaryResolution (c_str name) else None) of
        Some sec \<Rightarrow> if isResInEdid names sec then Ret (Some sec)
          else (case parseResolution (c_str name) of
                  Ret b \<Rightarrow> Ret (fallback_loop eu names (drop (base_index 0 fbl b + 1) fbl))
                | Throw x \<Rightarrow> Throw x | UB \<Rightarrow> UB)
      | None \<Rightarrow>
          (case parseResolution (c_str name) of
             Ret b \<Rightarrow> Ret (fallback_loop eu names (drop (base_index 0 fbl b + 1) fbl))
           | Throw x \<Rightarrow> Throw x | UB \<Rightarrow> UB))"

subsection \<open>The search as one \<open>find\<close>\<close>

definition candidates :: "bool \<Rightarrow> string list \<Rightarrow> string list" where
  "candidates eu rs = concat (map (\<lambda>r. if eu
     then [getFallBackResolution r True, getFallBackResolution r False]
     else [getFallBackResolution r False]) rs)"

lemma fallback_loop_find:
  "fallback_loop eu names rs = find (isResInEdid names) (candidates eu rs)"
  by (induction rs) (auto simp: candidates_def)

lemma base_index_notin: "b \<notin> set rs \<Longrightarrow> base_index i rs b = 0"
  by (induction rs arbitrary: i) auto

lemma base_index_in:
  "b \<in> set rs \<Longrightarrow> base_index i rs b = i + length (takeWhile (\<lambda>r. r \<noteq> b) rs)"
  by (induction rs arbitrary: i) auto

lemma platform_lists:
  "snd (setupPlatformConfig file fallback_static) = (if isEUPlatform file then resList
     else [''2160p'', ''1080p'', ''1080i'', ''720p'', ''480p'', []])"
  by (simp add: setupPlatformConfig_def Let_def resList_def fallback_static_def RES_MAX_COUNT_def
      RES_MAX_LEN_def numeral_eq_Suc)

text \<open>The name is neither supported itself nor in its 60 Hz variant.\<close>

definition needs_fallback :: "bool \<Rightarrow> string list \<Rightarrow> string \<Rightarrow> bool" where
  "needs_fallback eu names name \<longleftrightarrow> \<not> isResInEdid names (c_str name)
     \<and> (eu \<longrightarrow> (case getSecondaryResolution (c_str name) of None \<Rightarrow> True | Some n \<Rightarrow> \<not> isResInEdid names n))"

lemma choose_fallback:
  assumes "needs_fallback eu names name" and "parseResolution (c_str name) = Ret b"
  shows "chooseResolution eu fbl names name
       = Ret (find (isResInEdid names) (candidates eu (drop (base_index 0 fbl b + 1) fbl)))"
  using assms
  by (auto simp: chooseResolution_def needs_fallback_def fallback_loop_find split: option.split)

subsection \<open>Parsing\<close>

lemma dropWhile_in_Nil: "dropWhile P xs = [] \<longleftrightarrow> (\<forall>x \<in> set xs. P x)"
  by (induction xs) auto

lemma strtok1_None: "strtok1 s d = None \<longleftrightarrow> dropWhile (\<lambda>c. c \<in> set d) s = []"
  unfolding strtok1_def by (cases "dropWhile (\<lambda>c. c \<in> set d) s"; simp only: list.case) auto

lemma parse_UB: "parseResolution n = UB \<longleftrightarrow> set (take 63 n) \<subseteq> {CHR ''i'', CHR ''p''}"
proof -
  have "parseResolution n = UB \<longleftrightarrow> strtok1 (take 63 n) ''ip'' = None"
    by (simp add: parseResolution_def snprintf_s_def RES_MAX_LEN_def Let_def split: option.split)
  also have "\<dots> \<longleftrightarrow> dropWhile (\<lambda>c. c \<in> set ''ip'') (take 63 n) = []"
    by (rule strtok1_None)
  also have "\<dots> \<longleftrightarrow> set (take 63 n) \<subseteq> {CHR ''i'', CHR ''p''}"
    unfolding dropWhile_in_Nil by auto
  finally show ?thesis .
qed

lemma parse_base:
  assumes "d \<noteq> []" and "CHR ''i'' \<notin> set d" and "CHR ''p'' \<notin> set d" and "length d < 60"
  shows "parseResolution (d @ CHR ''p'' # r) = Ret (d @ (if CHR ''i'' \<in> set r then ''i'' else ''p''))"
    and "parseResolution (d @ CHR ''i'' # r) = Ret (d @ ''i'')"
proof -
  obtain c d' where d: "d = c # d'" using assms(1) by (cases d) auto
  have tok: "strtok1 (snprintf_s RES_MAX_LEN (d @ x # r)) ''ip'' = Some d" if "x \<in> {CHR ''i'', CHR ''p''}" for x
  proof -
    have *: "snprintf_s RES_MAX_LEN (d @ x # r) = d @ x # take (62 - length d) r"
      using assms(4) by (simp add: snprintf_s_def RES_MAX_LEN_def take_Cons' not_less)
    moreover have "takeWhile (\<lambda>c. c \<notin> set ''ip'') (d @ x # take (62 - length d) r) = d"
      using assms(2,3) that by (subst takeWhile_append2) auto
    moreover have "dropWhile (\<lambda>c. c \<in> set ''ip'') (d @ x # take (62 - length d) r) = d @ x # take (62 - length d) r"
      using assms(2,3) by (auto simp: d)
    ultimately show ?thesis by (simp add: strtok1_def d)
  qed
  have ap: "append_at d t = d @ t" if "length t = 1" for t
    using assms(4) that by (simp add: append_at_def RES_MAX_LEN_def)
  have tk: "take RES_MAX_LEN d = d" using assms(4) by (simp add: RES_MAX_LEN_def)
  show "parseResolution (d @ CHR ''p'' # r) = Ret (d @ (if CHR ''i'' \<in> set r then ''i'' else ''p''))"
    using tok [of "CHR ''p''"] assms(2) by (simp add: parseResolution_def tk ap Let_def)
  show "parseResolution (d @ CHR ''i'' # r) = Ret (d @ ''i'')"
    using tok [of "CHR ''i''"] assms(2) by (simp add: parseResolution_def tk ap Let_def)
qed

lemma choose_supported:
  assumes "chooseResolution eu fbl names name = Ret (Some r)"
  shows "(r = name \<and> isResInEdid names (c_str r)) \<or> isResInEdid names r"
proof -
  have "isResInEdid names r" if "find (isResInEdid names) cs = Some r" for cs
    using that by (auto simp: find_Some_iff)
  with assms show ?thesis
    by (auto simp: chooseResolution_def fallback_loop_find split: if_splits option.splits outcome.splits)
qed

subsection \<open>Properties\<close>

text \<open>
  C26. The fallback search is the first supported name below the persisted one: when neither
  the persisted name nor (EU) its 60 Hz variant is supported, the result is the first
  supported candidate after the position \<open>k\<close> of its base in the platform's list, each entry
  at 50 Hz (EU) before its default rate; an unknown base counts as position 0. The lists are in
  descending order, so for a base on the list only lower resolutions are tried.
\<close>

theorem fallback_is_next_best:
  fixes fbl :: "string list"
  assumes "needs_fallback eu names name" and "parseResolution (c_str name) = Ret b"
  defines "k \<equiv> (if b \<in> set fbl then length (takeWhile (\<lambda>r. r \<noteq> b) fbl) else 0)"
  shows "chooseResolution eu fbl names name
       = Ret (find (isResInEdid names) (candidates eu (drop (k + 1) fbl)))"
proof -
  have "base_index 0 fbl b = k"
    by (simp add: k_def base_index_notin base_index_in)
  then show ?thesis using choose_fallback [OF assms(1,2), of fbl] by simp
qed

theorem fallback_is_next_best_witness:
  "chooseResolution True resList [''720p'', ''480p''] ''1080p50'' = Ret (Some ''720p'')"
proof -
  have p: "parseResolution ''1080p50'' = Ret ''1080p''"
    using parse_base(1) [of "''1080''" "''50''"] by simp
  have c: "c_str ''1080p50'' = ''1080p50''" by (simp add: c_str_def)
  have n: "needs_fallback True [''720p'', ''480p''] ''1080p50''"
    by (simp add: needs_fallback_def c isResInEdid_def getSecondaryResolution_def RES_MAX_LEN_def)
  have k: "length (takeWhile (\<lambda>r. r \<noteq> ''1080p'') resList) = 1" by (simp add: resList_def)
  have m: "''1080p'' \<in> set resList" by (simp add: resList_def)
  have f: "find (isResInEdid [''720p'', ''480p'']) (candidates True (drop (1 + 1) resList)) = Some ''720p''"
    by (simp add: resList_def candidates_def getFallBackResolution_def append_at_def isResInEdid_def
        snprintf_s_def RES_MAX_LEN_def)
  from fallback_is_next_best [OF n, unfolded c, OF p, of resList] show ?thesis
    by (simp only: m if_True k f)
qed

text \<open>
  A base that is not on the platform's list can go up: on a platform outside the EU,
  where 576p is left out of the list, a persisted 576p resolution that the display does not
  support is replaced by 1080p60 whenever the display supports that.
\<close>

theorem unlisted_base_goes_up:
  assumes "\<not> isEUPlatform file" and "''1080p60'' \<in> set names"
    and "''576p'' @ r \<notin> set names" and "CHR 0x00 \<notin> set r" and "CHR ''i'' \<notin> set r"
  shows "chooseResolution (fst (setupPlatformConfig file fallback_static))
       (snd (setupPlatformConfig file fallback_static)) names (''576p'' @ r) = Ret (Some ''1080p60'')"
proof -
  let ?fbl = "snd (setupPlatformConfig file fallback_static)"
  have fbl: "?fbl = [''2160p'', ''1080p'', ''1080i'', ''720p'', ''480p'', []]"
    using assms(1) by (simp add: platform_lists)
  have eu: "fst (setupPlatformConfig file fallback_static) = False"
    using assms(1) by (simp add: setupPlatformConfig_def Let_def)
  have "\<forall>c \<in> set (''576p'' @ r). c \<noteq> CHR 0x00" using assms(4) by auto
  then have c: "c_str (''576p'' @ r) = ''576p'' @ r"
    unfolding c_str_def takeWhile_eq_all_conv .
  have n: "needs_fallback False names (''576p'' @ r)"
    unfolding needs_fallback_def c using assms(3) by (simp add: isResInEdid_def)
  have p: "parseResolution (c_str (''576p'' @ r)) = Ret ''576p''"
    using parse_base(1) [of "''576''" r] assms(5) c by simp
  have "find (isResInEdid names) (candidates False (drop (0 + 1) ?fbl)) = Some ''1080p60''"
    using assms(2) unfolding fbl by (simp add: candidates_def getFallBackResolution_def append_at_def
        isResInEdid_def snprintf_s_def RES_MAX_LEN_def)
  moreover have "base_index 0 ?fbl ''576p'' = 0" unfolding fbl by simp
  ultimately show ?thesis using choose_fallback [OF n p, of ?fbl] eu by simp
qed

theorem unlisted_base_goes_up_witness:
  "chooseResolution False (snd (setupPlatformConfig None fallback_static)) [''1080p60''] ''576p50''
     = Ret (Some ''1080p60'')"
proof -
  have "\<not> isEUPlatform None" by (simp add: isEUPlatform_def)
  moreover from this have "fst (setupPlatformConfig None fallback_static) = False"
    by (simp add: setupPlatformConfig_def Let_def)
  ultimately show ?thesis using unlisted_base_goes_up [of None "[''1080p60'']" "''50''"] by simp
qed

text \<open>
  Which names cannot be parsed: the search has undefined behaviour (a null pointer passed
  to \<open>strncpy\<close>) exactly for the persisted names whose first 63 characters are only the letters
  i and p, the empty name among them, when the display does not list them; every other name
  gives a result.
\<close>

theorem choose_undefined_iff:
  "chooseResolution eu fbl names name = UB
     \<longleftrightarrow> needs_fallback eu names name \<and> set (take 63 (c_str name)) \<subseteq> {CHR ''i'', CHR ''p''}"
proof (cases "needs_fallback eu names name")
  case False
  then show ?thesis
    by (auto simp: needs_fallback_def chooseResolution_def split: option.splits outcome.splits if_splits)
next
  case True
  show ?thesis
  proof (cases "parseResolution (c_str name)")
    case (Ret b)
    with True parse_UB [of "c_str name"] show ?thesis by (simp add: choose_fallback)
  next
    case (Throw x)
    then show ?thesis by (simp add: parseResolution_def Let_def split: option.splits)
  next
    case UB
    with True parse_UB [of "c_str name"] show ?thesis
      by (auto simp: needs_fallback_def chooseResolution_def split: option.splits)
  qed
qed

end
