(* ===== verification/DS_Controller.thy ===== *)
theory DS_Controller
  imports Resolution_Choice
begin

section \<open>The controller (\<open>DSController\<close>)\<close>

text \<open>
  Models \<open>DSController.cpp\<close>: the handlers for HDMI hot plug, HDCP status, the EAS system mode
  and the TuneReady event, the resolution and audio settings they apply through the
  DeviceSettings interfaces, and the resolution thread. The static and instance variables are
  one record; each call into another component is appended to \<open>ct_trace\<close> and answered by the
  environment, a record of functions of the calls made so far. \<open>SetResolution\<close> can have
  undefined behaviour (see \<open>Resolution_Choice\<close>), so handlers that reach it return an outcome.
  The macro \<open>_INIT_RESN_SETTINGS\<close> (a wait for the DDC line) is not defined by the build.
\<close>

subsection \<open>Calls, environment, state\<close>

datatype vp_type = VP_HDMI | VP_COMPONENT | VP_BB | VP_RF | VP_other int

datatype audio_port = AP_SPDIF | AP_HDMI | AP_SPEAKER

datatype stereo = STEREO_STEREO | STEREO_SURROUND | STEREO_PASSTHROUGH | STEREO_other int

datatype display_event = EV_CONNECTED | EV_DISCONNECTED | EV_MAX

datatype hdcp_status = HDCP_AUTHENTICATED | HDCP_AUTHENTICATIONFAILURE | HDCP_other int

datatype bg_color = BGCOLOR_NONE | BGCOLOR_BLUE

text \<open>A resolution: its name, and the fields that are passed through unchanged.\<close>

record vp_resolution =
  vr_name :: string
  vr_rest :: nat

datatype ctl_call =
    CGetVideoPort vp_type
  | CIsConnected int
  | CGetResolution int
  | CGetDisplay
  | CGetDisplayEdid int
  | CGetDisplayEdidBytes int
  | CSetResolution int vp_resolution
  | CGetAudioPort audio_port
  | CGetStereoMode int
  | CGetStereoAuto int
  | CSetStereoMode int stereo
  | CSetBackgroundColor int bg_color
  | CGetIgnoreEdid int
  | CBroadcastHdcp int
  | CSourceRemove nat
  | CTimeoutAdd nat string
  | CRegister string
  | CIarm string

type_synonym hist = "ctl_call list"

text \<open>The EDID fields read: the number of resolutions, the HDMI flag, the names listed.\<close>

record edid =
  ed_num :: int
  ed_hdmi :: bool
  ed_names :: "string list option"

record ctl_env =
  ce_GetVideoPort :: "hist \<Rightarrow> vp_type \<Rightarrow> coreErr \<times> int option"
  ce_IsConnected :: "hist \<Rightarrow> int \<Rightarrow> coreErr \<times> bool option"
  ce_GetResolution :: "hist \<Rightarrow> int \<Rightarrow> coreErr \<times> vp_resolution option"
  ce_GetDisplay :: "hist \<Rightarrow> coreErr \<times> int option"
  ce_GetEdid :: "hist \<Rightarrow> int \<Rightarrow> coreErr \<times> edid"
  ce_GetEdidBytes :: "hist \<Rightarrow> int \<Rightarrow> coreErr \<times> nat list \<times> nat"
  ce_GetAudioPort :: "hist \<Rightarrow> audio_port \<Rightarrow> coreErr \<times> int option"
  ce_GetStereoMode :: "hist \<Rightarrow> int \<Rightarrow> coreErr \<times> stereo"
  ce_GetStereoAuto :: "hist \<Rightarrow> int \<Rightarrow> coreErr \<times> int option"
  ce_GetIgnoreEdid :: "hist \<Rightarrow> int \<Rightarrow> bool option"
  ce_Timeout :: "hist \<Rightarrow> nat"
  ce_TuneReady :: "hist \<Rightarrow> int"
  ce_Properties :: "string option"

record ctl_state =
  ct_deviceSettings :: bool
  tuneReady :: int
  initResolutionFlag :: int
  hdcpAuthenticated :: bool
  ignoreEdid :: bool
  bootupFlagEnabled :: bool
  displayEventStatus :: display_event
  easMode :: int
  ct_IsEU :: bool
  fallBackResolutionList :: "string list"
  hotplugEventSrc :: nat
  exit_flag :: bool
  cached_EDID_checksum :: int
  ct_trace :: hist

definition ctl_initial :: "bool \<Rightarrow> ctl_state" where
  "ctl_initial ds = \<lparr>ct_deviceSettings = ds, tuneReady = 0, initResolutionFlag = 0,
     hdcpAuthenticated = False, ignoreEdid = False, bootupFlagEnabled = True,
     displayEventStatus = EV_MAX, easMode = 0, ct_IsEU = False,
     fallBackResolutionList = fallback_static, hotplugEventSrc = 0, exit_flag = False,
     cached_EDID_checksum = 0, ct_trace = []\<rparr>"

definition log_call :: "ctl_call \<Rightarrow> ctl_state \<Rightarrow> ctl_state" where
  "log_call c s = s\<lparr>ct_trace := ct_trace s @ [c]\<rparr>"

text \<open>An out parameter: the value written, or what the variable held.\<close>

definition out_or :: "'a option \<Rightarrow> 'a \<Rightarrow> 'a" where
  "out_or v d = (case v of Some x \<Rightarrow> x | None \<Rightarrow> d)"

subsection \<open>Ports\<close>

definition GetVideoPortHandle :: "ctl_env \<Rightarrow> vp_type \<Rightarrow> ctl_state \<Rightarrow> int \<times> ctl_state" where
  "GetVideoPortHandle e port s =
     (if ct_deviceSettings s
      then let r = ce_GetVideoPort e (ct_trace s) port
           in (if fst r \<noteq> ERROR_NONE then 0 else out_or (snd r) 0, log_call (CGetVideoPort port) s)
      else (0, s))"

definition IsVideoPortDisplayConnected ::
  "ctl_env \<Rightarrow> int \<Rightarrow> ctl_state \<Rightarrow> coreErr \<times> bool \<times> ctl_state" where
  "IsVideoPortDisplayConnected e handle s =
     (let r = ce_IsConnected e (ct_trace s) handle
      in (fst r, out_or (snd r) False, log_call (CIsConnected handle) s))"

definition IsHDMIConnected :: "ctl_env \<Rightarrow> ctl_state \<Rightarrow> bool \<times> ctl_state" where
  "IsHDMIConnected e s =
     (if ct_deviceSettings s then
        (let (handle, s1) = GetVideoPortHandle e VP_HDMI s in
         if handle \<noteq> 0
         then let (result, connected, s2) = IsVideoPortDisplayConnected e handle s1
              in (if result \<noteq> ERROR_NONE then False else connected, s2)
         else (False, s1))
      else (False, s))"

definition isComponentPortPresent :: "ctl_env \<Rightarrow> ctl_state \<Rightarrow> bool \<times> ctl_state" where
  "isComponentPortPresent e s =
     (let (compHandle, s1) = GetVideoPortHandle e VP_COMPONENT s in
      if compHandle \<noteq> 0 then (True, s1)
      else let (compositeHandle, s2) = GetVideoPortHandle e VP_BB s1 in (compositeHandle \<noteq> 0, s2))"

subsection \<open>Setting the resolution\<close>

text \<open>
  The EDID part of \<open>SetResolution\<close>: \<open>None\<close> is the early return, \<open>Some v\<close> the value of
  \<open>isValidResolution\<close> with the name to set.
\<close>

definition hdmi_resolution ::
  "ctl_env \<Rightarrow> vp_resolution \<Rightarrow> ctl_state \<Rightarrow> (vp_resolution option option \<times> ctl_state) outcome" where
  "hdmi_resolution e presolution s =
     (let d = ce_GetDisplay e (ct_trace s);
          s1 = log_call CGetDisplay s;
          displayHandle = out_or (snd d) 0
      in if fst d = ERROR_NONE \<and> displayHandle \<noteq> 0 then
           (let r = ce_GetEdid e (ct_trace s1) displayHandle;
                s2 = log_call (CGetDisplayEdid displayHandle) s1;
                edidData = snd r
            in if fst r = ERROR_NONE then
                 (if ed_num edidData = 0 \<or> \<not> ed_hdmi edidData then Ret (None, s2)
                  else obind (chooseResolution (ct_IsEU s2) (fallBackResolutionList s2)
                          (out_or (ed_names edidData) []) (vr_name presolution))
                        (\<lambda>c. Ret (Some (map_option (\<lambda>n. presolution\<lparr>vr_name := n\<rparr>) c), s2)))
               else Ret (Some None, s2))
         else Ret (Some None, s1))"

definition set_if_valid ::
  "int \<Rightarrow> vp_resolution option \<Rightarrow> ctl_state \<Rightarrow> ctl_state" where
  "set_if_valid handle v s = (case v of
       Some presolution \<Rightarrow> if ct_deviceSettings s then log_call (CSetResolution handle presolution) s else s
     | None \<Rightarrow> s)"

definition SetResolution :: "ctl_env \<Rightarrow> int \<Rightarrow> vp_type \<Rightarrow> ctl_state \<Rightarrow> ctl_state outcome" where
  "SetResolution e handle portType s =
     (if handle = 0 then Ret s
      else
        (let r = (if ct_deviceSettings s then ce_GetResolution e (ct_trace s) handle
                  else (ERROR_NONE, None));
             s1 = (if ct_deviceSettings s then log_call (CGetResolution handle) s else s);
             presolution = out_or (snd r) \<lparr>vr_name = [], vr_rest = 0\<rparr>
         in if fst r \<noteq> ERROR_NONE then Ret s1
            else if portType = VP_HDMI then
              (if ct_deviceSettings s1
               then obind (hdmi_resolution e presolution s1)
                      (\<lambda>(v, s2). case v of None \<Rightarrow> Ret s2 | Some w \<Rightarrow> Ret (set_if_valid handle w s2))
               else Ret s1)
            else if portType \<in> {VP_COMPONENT, VP_BB, VP_RF}
            then Ret (set_if_valid handle (Some presolution) s1)
            else Ret s1))"

definition SetVideoPortResolution :: "ctl_env \<Rightarrow> ctl_state \<Rightarrow> ctl_state outcome" where
  "SetVideoPortResolution e s =
     (let (hdmiHandle, s1) = GetVideoPortHandle e VP_HDMI s in
      if hdmiHandle \<noteq> 0 then
        (let (connected, s2) = IsHDMIConnected e s1 in
         if connected then SetResolution e hdmiHandle VP_HDMI s2
         else
           (let (compHandle, s3) = GetVideoPortHandle e VP_COMPONENT s2 in
            if compHandle \<noteq> 0 then SetResolution e compHandle VP_COMPONENT s3
            else
              (let (compositeHandle, s4) = GetVideoPortHandle e VP_BB s3 in
               if compositeHandle \<noteq> 0 then SetResolution e compositeHandle VP_BB s4
               else
                 (let (rfHandle, s5) = GetVideoPortHandle e VP_RF s4 in
                  if rfHandle \<noteq> 0 then SetResolution e rfHandle VP_RF s5 else Ret s5))))
      else Ret s1)"

subsection \<open>Audio\<close>

definition supportedPortTypes :: "audio_port list" where
  "supportedPortTypes = [AP_SPDIF, AP_HDMI, AP_SPEAKER]"

text \<open>The start of both loop bodies: \<open>None\<close> is a \<open>continue\<close>.\<close>

definition audio_port_mode ::
  "ctl_env \<Rightarrow> audio_port \<Rightarrow> ctl_state \<Rightarrow> (int \<times> stereo) option \<times> ctl_state" where
  "audio_port_mode e port s =
     (let r = ce_GetAudioPort e (ct_trace s) port;
          s1 = log_call (CGetAudioPort port) s;
          handle = out_or (snd r) 0
      in if fst r \<noteq> ERROR_NONE \<or> handle = 0 then (None, s1)
         else let m = ce_GetStereoMode e (ct_trace s1) handle;
                  s2 = log_call (CGetStereoMode handle) s1
              in if fst m \<noteq> ERROR_NONE then (None, s2) else (Some (handle, snd m), s2))"

text \<open>What a loop body of \<open>SetAudioMode\<close> is going to set: nothing, or a mode on a handle.\<close>

definition audio_decide ::
  "ctl_env \<Rightarrow> audio_port \<Rightarrow> ctl_state \<Rightarrow> (int \<times> stereo) option \<times> ctl_state" where
  "audio_decide e port s =
     (let (hm, s1) = audio_port_mode e port s in
      case hm of
        None \<Rightarrow> (None, s1)
      | Some (handle, currentMode) \<Rightarrow>
          (if port = AP_HDMI then
             (let (vHandle, s2) = GetVideoPortHandle e VP_HDMI s1;
                  (connected, s3) = (if vHandle \<noteq> 0
                     then (let (_, c, s') = IsVideoPortDisplayConnected e vHandle s2 in (c, s'))
                     else (False, s2))
              in if \<not> connected then (None, s3)
                 else let a = ce_GetStereoAuto e (ct_trace s3) handle;
                          s4 = log_call (CGetStereoAuto handle) s3;
                          mode = (if fst a = ERROR_NONE \<and> out_or (snd a) 0 \<noteq> 0
                                  then STEREO_SURROUND else currentMode)
                      in (Some (handle, mode), s4))
           else (Some (handle, currentMode), s1)))"

definition set_decided :: "(int \<times> stereo) option \<times> ctl_state \<Rightarrow> ctl_state" where
  "set_decided d = (case fst d of None \<Rightarrow> snd d
     | Some (handle, mode) \<Rightarrow> log_call (CSetStereoMode handle mode) (snd d))"

definition SetAudioMode_port :: "ctl_env \<Rightarrow> audio_port \<Rightarrow> ctl_state \<Rightarrow> ctl_state" where
  "SetAudioMode_port e port s = set_decided (audio_decide e port s)"

definition SetAudioMode :: "ctl_env \<Rightarrow> ctl_state \<Rightarrow> ctl_state" where
  "SetAudioMode e s =
     (if easMode s = 1 then s
      else if \<not> ct_deviceSettings s then s
      else fold (SetAudioMode_port e) supportedPortTypes s)"

definition eas_decide ::
  "ctl_env \<Rightarrow> audio_port \<Rightarrow> ctl_state \<Rightarrow> (int \<times> stereo) option \<times> ctl_state" where
  "eas_decide e port s =
     (let (hm, s1) = audio_port_mode e port s in
      case hm of
        None \<Rightarrow> (None, s1)
      | Some (handle, currentMode) \<Rightarrow>
          (Some (handle, if currentMode = STEREO_PASSTHROUGH then STEREO_STEREO else currentMode), s1))"

definition SetEASAudioMode_port :: "ctl_env \<Rightarrow> audio_port \<Rightarrow> ctl_state \<Rightarrow> ctl_state" where
  "SetEASAudioMode_port e port s = set_decided (eas_decide e port s)"

definition SetEASAudioMode :: "ctl_env \<Rightarrow> ctl_state \<Rightarrow> ctl_state" where
  "SetEASAudioMode e s =
     (if easMode s \<noteq> 1 then s
      else if \<not> ct_deviceSettings s then s
      else fold (SetEASAudioMode_port e) supportedPortTypes s)"

text \<open>The system modes (an external enumeration, with the values the code's own comments give).\<close>

definition SYS_MODE_NORMAL :: int where "SYS_MODE_NORMAL = 0"

definition SYS_MODE_EAS :: int where "SYS_MODE_EAS = 1"

definition SysModeChange :: "ctl_env \<Rightarrow> int \<Rightarrow> ctl_state \<Rightarrow> ctl_state" where
  "SysModeChange e newMode s =
     (if newMode = SYS_MODE_EAS \<or> newMode = SYS_MODE_NORMAL then
        (let isNextEAS = newMode in
         if easMode s = SYS_MODE_EAS \<and> isNextEAS = SYS_MODE_NORMAL
         then SetAudioMode e (s\<lparr>easMode := SYS_MODE_NORMAL\<rparr>)
         else if easMode s = SYS_MODE_NORMAL \<and> isNextEAS = SYS_MODE_EAS
         then SetEASAudioMode e (s\<lparr>easMode := SYS_MODE_EAS\<rparr>)
         else s)
      else s)"

subsection \<open>Display and system events\<close>

definition SetBackgroundColor :: "ctl_env \<Rightarrow> bg_color \<Rightarrow> ctl_state \<Rightarrow> ctl_state" where
  "SetBackgroundColor e color s =
     (let (hdmiHandle, s1) = GetVideoPortHandle e VP_HDMI s in
      if hdmiHandle \<noteq> 0 \<and> ct_deviceSettings s1
      then log_call (CSetBackgroundColor hdmiHandle color) s1 else s1)"

definition ScheduleEdidDump :: "ctl_state \<Rightarrow> ctl_state" where
  "ScheduleEdidDump s = log_call (CTimeoutAdd 1 ''DumpEdidOnChecksumDiff'') s"

definition clear_hotplug_source :: "ctl_state \<Rightarrow> ctl_state" where
  "clear_hotplug_source s =
     (if hotplugEventSrc s \<noteq> 0
      then (log_call (CSourceRemove (hotplugEventSrc s)) s)\<lparr>hotplugEventSrc := 0\<rparr> else s)"

definition HandleHDCPStatus :: "ctl_env \<Rightarrow> hdcp_status \<Rightarrow> ctl_state \<Rightarrow> ctl_state outcome" where
  "HandleHDCPStatus e hdcpStatus s =
     (case hdcpStatus of
        HDCP_AUTHENTICATED \<Rightarrow>
          (let s1 = clear_hotplug_source (s\<lparr>hdcpAuthenticated := True\<rparr>);
               s2 = SetBackgroundColor e BGCOLOR_NONE s1
           in obind (if \<not> ignoreEdid s2 \<or> bootupFlagEnabled s2
                     then obind (SetVideoPortResolution e s2)
                            (\<lambda>s3. Ret (if bootupFlagEnabled s3 then s3\<lparr>bootupFlagEnabled := False\<rparr> else s3))
                     else Ret s2)
                (\<lambda>s4. Ret (log_call (CBroadcastHdcp 1) (ScheduleEdidDump s4))))
      | HDCP_AUTHENTICATIONFAILURE \<Rightarrow>
          (let s1 = (SetBackgroundColor e BGCOLOR_BLUE s)\<lparr>hdcpAuthenticated := False\<rparr>
           in obind (if \<not> ignoreEdid s1 then SetVideoPortResolution e s1 else Ret s1)
                (\<lambda>s4. Ret (log_call (CBroadcastHdcp 0) (ScheduleEdidDump s4))))
      | HDCP_other n \<Rightarrow> Ret (log_call (CBroadcastHdcp 1) s))"

text \<open>The event as the interface delivers it: connected, or anything else.\<close>

definition OnDisplayHDMIHotPlug :: "ctl_env \<Rightarrow> bool \<Rightarrow> ctl_state \<Rightarrow> ctl_state" where
  "OnDisplayHDMIHotPlug e connected s =
     (SetBackgroundColor e BGCOLOR_NONE s)
       \<lparr>displayEventStatus := (if connected then EV_CONNECTED else EV_DISCONNECTED)\<rparr>"

text \<open>\<open>EventHandler\<close> for a system state of the system manager; only TuneReady matters.\<close>

definition EventHandler :: "ctl_env \<Rightarrow> bool \<Rightarrow> bool \<Rightarrow> bool \<Rightarrow> ctl_state \<Rightarrow> ctl_state" where
  "EventHandler e fromSysMgr isSystemState isTuneReady s =
     (if fromSysMgr then
        (if \<not> isSystemState then s
         else if isTuneReady then
           (if tuneReady s = 0 then SetAudioMode e (s\<lparr>tuneReady := 1\<rparr>) else s)
         else s)
      else s)"

definition SetResolutionHandler :: "ctl_env \<Rightarrow> ctl_state \<Rightarrow> ctl_state outcome" where
  "SetResolutionHandler e s =
     obind (SetVideoPortResolution e s) (\<lambda>s1. Ret (s1\<lparr>hotplugEventSrc := 0\<rparr>))"

definition edid_checksum :: "nat list \<Rightarrow> nat \<Rightarrow> int" where
  "edid_checksum edidBytes len =
     sum_list (map (\<lambda>i. int (edidBytes ! ((i + 1) * 128 - 1))) [0..<len div 128])"

definition DumpEdidOnChecksumDiff :: "ctl_env \<Rightarrow> ctl_state \<Rightarrow> ctl_state" where
  "DumpEdidOnChecksumDiff e s =
     (if ct_deviceSettings s then
        (let d = ce_GetDisplay e (ct_trace s);
             s1 = log_call CGetDisplay s;
             displayHandle = out_or (snd d) 0
         in if fst d = ERROR_NONE \<and> displayHandle \<noteq> 0 then
              (let r = ce_GetEdidBytes e (ct_trace s1) displayHandle;
                   s2 = log_call (CGetDisplayEdidBytes displayHandle) s1;
                   edidBytes = fst (snd r); len = snd (snd r)
               in if fst r = ERROR_NONE \<and> 0 < len \<and> len \<le> 512 then
                    (let current = edid_checksum edidBytes len in
                     if cached_EDID_checksum s2 = 0 \<or> current \<noteq> cached_EDID_checksum s2
                     then s2\<lparr>cached_EDID_checksum := current\<rparr> else s2)
                  else s2)
            else s1)
      else s)"

subsection \<open>Start, and the resolution thread\<close>

definition InitializeDeviceSettingsComponents :: "ctl_state \<Rightarrow> ctl_state" where
  "InitializeDeviceSettingsComponents s =
     (if ct_deviceSettings s
      then fold (\<lambda>i. log_call (CRegister i))
             [''IDisplayHDMIHotPlugNotification'', ''IDisplayNotification'', ''IDeviceSettingsVideoPort''] s
      else s)"

definition ctl_Start :: "ctl_env \<Rightarrow> ctl_state \<Rightarrow> ctl_state" where
  "ctl_Start e s0 =
     (let cfg = setupPlatformConfig (ce_Properties e) (fallBackResolutionList s0);
          s1 = InitializeDeviceSettingsComponents
                 (s0\<lparr>ct_IsEU := fst cfg, fallBackResolutionList := snd cfg\<rparr>);
          s2 = fold (\<lambda>c. log_call (CIarm c)) [''Init'', ''Connect'', ''RegisterEvent''] s1;
          s3 = s2\<lparr>initResolutionFlag := 1\<rparr>;
          (hdmiHandle, s4) = GetVideoPortHandle e VP_HDMI s3;
          s5 = (if hdmiHandle \<noteq> 0 \<and> ct_deviceSettings s4
                then (log_call (CGetIgnoreEdid hdmiHandle) s4)
                       \<lparr>ignoreEdid := out_or (ce_GetIgnoreEdid e (ct_trace s4) hdmiHandle) (ignoreEdid s4)\<rparr>
                else s4);
          s6 = fold (\<lambda>c. log_call (CIarm c)) [''RegisterEventHandler'', ''RegisterCall''] s5;
          s7 = log_call (CTimeoutAdd 300 ''HeartbeatMsg'') s6;
          s8 = log_call (CIarm ''GetSystemStates'') s7
      in if ce_TuneReady e (ct_trace s7) = 1
         then s8\<lparr>tuneReady := 1, displayEventStatus := EV_CONNECTED\<rparr> else s8)"

text \<open>
  What the thread does with the event it took, up to its call of \<open>SetAudioMode\<close>; the flag says
  whether it makes that call.
\<close>

definition resolution_event :: "ctl_env \<Rightarrow> display_event \<Rightarrow> ctl_state \<Rightarrow> (bool \<times> ctl_state) outcome" where
  "resolution_event e ev s =
     (let s1 = clear_hotplug_source s in
      if tuneReady s1 = 1 \<and> ev = EV_CONNECTED
      then obind (if hdcpAuthenticated s1 then SetVideoPortResolution e s1 else Ret s1)
             (\<lambda>s2. Ret (True, s2))
      else if tuneReady s1 = 1 \<and> ev = EV_DISCONNECTED
      then let (present, s2) = isComponentPortPresent e (s1\<lparr>hdcpAuthenticated := False\<rparr>)
           in Ret (False, if present
                   then (log_call (CTimeoutAdd 5 ''SetResolutionHandler'') s2)
                          \<lparr>hotplugEventSrc := ce_Timeout e (ct_trace s2)\<rparr>
                   else s2)
      else Ret (False, s1))"

text \<open>
  \<open>_easMode\<close> has no lock: \<open>SetAudioMode\<close> runs on the resolution thread, and on an IARM thread for
  TuneReady, while \<open>SysModeChange\<close> runs on another. So a call of one of them is not one step but a
  job that goes through its tests and settings one by one: before the tests of \<open>SysModeChange\<close>,
  past them and about to write the mode, before the tests of \<open>SetAudioMode\<close> (\<open>False\<close>) or
  \<open>SetEASAudioMode\<close> (\<open>True\<close>), before a turn of its loop, and about to set a stereo mode. The
  queries of a turn are one step with its decision.
\<close>

datatype audio_job =
    SysTest int
  | SysSet int
  | ModeTest bool
  | ModePort bool "audio_port list"
  | ModeSet bool int stereo "audio_port list"

fun audio_next :: "ctl_env \<Rightarrow> audio_job \<Rightarrow> ctl_state \<Rightarrow> audio_job option \<times> ctl_state" where
  "audio_next e (SysTest newMode) s =
     (if (newMode = SYS_MODE_EAS \<or> newMode = SYS_MODE_NORMAL)
         \<and> ((easMode s = SYS_MODE_EAS \<and> newMode = SYS_MODE_NORMAL)
            \<or> (easMode s = SYS_MODE_NORMAL \<and> newMode = SYS_MODE_EAS))
      then Some (SysSet newMode) else None, s)"
| "audio_next e (SysSet newMode) s = (Some (ModeTest (newMode = SYS_MODE_EAS)), s\<lparr>easMode := newMode\<rparr>)"
| "audio_next e (ModeTest eas) s =
     (if (if eas then easMode s \<noteq> 1 else easMode s = 1) then None
      else if \<not> ct_deviceSettings s then None else Some (ModePort eas supportedPortTypes), s)"
| "audio_next e (ModePort eas []) s = (None, s)"
| "audio_next e (ModePort eas (port # ports)) s =
     (let (d, s1) = (if eas then eas_decide e port s else audio_decide e port s)
      in (Some (case d of None \<Rightarrow> ModePort eas ports
            | Some (handle, mode) \<Rightarrow> ModeSet eas handle mode ports), s1))"
| "audio_next e (ModeSet eas handle mode ports) s = (Some (ModePort eas ports), log_call (CSetStereoMode handle mode) s)"

text \<open>
  The thread: at the loop test, waiting on the condition variable, holding a local copy of
  the event, in its call of \<open>SetAudioMode\<close>, about to reset the shared status, or finished. A
  configuration is the thread, the jobs of the other threads, and the shared state. The other
  handlers, which do not look at the EAS mode, are one step each.
\<close>

datatype ctl_pc = PcLoop | PcWait | PcTaken display_event | PcAudio audio_job | PcReset | PcExit

datatype ctl_label =
    LLoop | LTake | LHandle | LAudio | LReset
  | LHotPlug bool | LTuneReady | LHdcp hdcp_status | LSysMode int | LJob nat | LTimer | LStop

type_synonym ctl_conf = "ctl_pc \<times> audio_job list \<times> ctl_state"

inductive ctl_step :: "ctl_env \<Rightarrow> ctl_conf \<Rightarrow> ctl_label \<Rightarrow> ctl_conf \<Rightarrow> bool"
  for e :: ctl_env where
  loop_exit: "exit_flag s \<Longrightarrow> ctl_step e (PcLoop, js, s) LLoop (PcExit, js, s)"
| loop_enter: "\<not> exit_flag s \<Longrightarrow> ctl_step e (PcLoop, js, s) LLoop (PcWait, js, s)"
| take: "exit_flag s \<or> displayEventStatus s \<noteq> EV_MAX
    \<Longrightarrow> ctl_step e (PcWait, js, s) LTake (PcTaken (displayEventStatus s), js, s)"
| handle: "resolution_event e ev s = Ret (audio, s')
    \<Longrightarrow> ctl_step e (PcTaken ev, js, s) LHandle (if audio then PcAudio (ModeTest False) else PcReset, js, s')"
| audio: "audio_next e j s = (r, s')
    \<Longrightarrow> ctl_step e (PcAudio j, js, s) LAudio (case r of None \<Rightarrow> PcReset | Some j' \<Rightarrow> PcAudio j', js, s')"
| reset: "ctl_step e (PcReset, js, s) LReset (PcLoop, js, s\<lparr>displayEventStatus := EV_MAX\<rparr>)"
| hotplug: "ctl_step e (pc, js, s) (LHotPlug c) (pc, js, OnDisplayHDMIHotPlug e c s)"
| tune: "ctl_step e (pc, js, s) LTuneReady
    (pc, if tuneReady s = 0 then js @ [ModeTest False] else js, if tuneReady s = 0 then s\<lparr>tuneReady := 1\<rparr> else s)"
| hdcp: "HandleHDCPStatus e h s = Ret s' \<Longrightarrow> ctl_step e (pc, js, s) (LHdcp h) (pc, js, s')"
| sysmode: "ctl_step e (pc, js, s) (LSysMode m) (pc, js @ [SysTest m], s)"
| job: "i < length js \<Longrightarrow> audio_next e (js ! i) s = (r, s')
    \<Longrightarrow> ctl_step e (pc, js, s) (LJob i) (pc, take i js @ (case r of None \<Rightarrow> [] | Some j \<Rightarrow> [j]) @ drop (Suc i) js, s')"
| timer: "hotplugEventSrc s \<noteq> 0 \<Longrightarrow> SetResolutionHandler e s = Ret s' \<Longrightarrow> ctl_step e (pc, js, s) LTimer (pc, js, s')"
| stop: "ctl_step e (pc, js, s) LStop (pc, js, s\<lparr>exit_flag := True\<rparr>)"

inductive_cases ctl_loopE: "ctl_step e (pc, js, s) LLoop y"
inductive_cases ctl_takeE: "ctl_step e (pc, js, s) LTake y"
inductive_cases ctl_handleE: "ctl_step e (pc, js, s) LHandle y"
inductive_cases ctl_audioE: "ctl_step e (pc, js, s) LAudio y"
inductive_cases ctl_resetE: "ctl_step e (pc, js, s) LReset y"
inductive_cases ctl_hotplugE: "ctl_step e (pc, js, s) (LHotPlug c) y"
inductive_cases ctl_tuneE: "ctl_step e (pc, js, s) LTuneReady y"

inductive ctl_reach :: "ctl_env \<Rightarrow> ctl_conf \<Rightarrow> ctl_conf \<Rightarrow> bool"
  for e :: ctl_env and x :: ctl_conf where
  refl: "ctl_reach e x x"
| step: "ctl_reach e x y \<Longrightarrow> ctl_step e y l z \<Longrightarrow> ctl_reach e x z"

subsection \<open>Operations that only make calls\<close>

definition adds :: "(ctl_call \<Rightarrow> bool) \<Rightarrow> ctl_state \<Rightarrow> ctl_state \<Rightarrow> bool" where
  "adds P s s' \<longleftrightarrow> (\<exists>t. s' = s\<lparr>ct_trace := ct_trace s @ t\<rparr> \<and> (\<forall>c \<in> set t. P c))"

definition new_calls :: "ctl_state \<Rightarrow> ctl_state \<Rightarrow> hist" where
  "new_calls s s' = drop (length (ct_trace s)) (ct_trace s')"

lemma adds_refl [simp]: "adds P s s"
  unfolding adds_def by (intro exI [of _ "[]"]) simp

lemma adds_trans: "adds P s s1 \<Longrightarrow> adds P s1 s2 \<Longrightarrow> adds P s s2"
proof -
  assume "adds P s s1" "adds P s1 s2"
  then obtain t u where "s1 = s\<lparr>ct_trace := ct_trace s @ t\<rparr>" "s2 = s1\<lparr>ct_trace := ct_trace s1 @ u\<rparr>"
    "\<forall>c \<in> set t. P c" "\<forall>c \<in> set u. P c" by (auto simp: adds_def)
  then show ?thesis unfolding adds_def by (intro exI [of _ "t @ u"]) auto
qed

lemma adds_log: "P c \<Longrightarrow> adds P s (log_call c s)"
  unfolding adds_def log_call_def by (intro exI [of _ "[c]"]) simp

lemma adds_mono: "adds P s s' \<Longrightarrow> (\<And>c. P c \<Longrightarrow> Q c) \<Longrightarrow> adds Q s s'"
  by (auto simp: adds_def)

lemma adds_frame:
  assumes "adds P s s'"
  shows "ct_deviceSettings s' = ct_deviceSettings s" "tuneReady s' = tuneReady s"
    "hdcpAuthenticated s' = hdcpAuthenticated s" "ignoreEdid s' = ignoreEdid s"
    "bootupFlagEnabled s' = bootupFlagEnabled s" "displayEventStatus s' = displayEventStatus s"
    "easMode s' = easMode s" "hotplugEventSrc s' = hotplugEventSrc s" "exit_flag s' = exit_flag s"
    "ct_IsEU s' = ct_IsEU s" "fallBackResolutionList s' = fallBackResolutionList s"
  using assms by (auto simp: adds_def)

lemma adds_new: "adds P s s' \<Longrightarrow> c \<in> set (new_calls s s') \<Longrightarrow> P c"
  by (auto simp: adds_def new_calls_def)

lemma adds_trace: "adds P s s' \<Longrightarrow> ct_trace s' = ct_trace s @ new_calls s s'"
  by (auto simp: adds_def new_calls_def)

fun is_set_resolution :: "ctl_call \<Rightarrow> bool" where
  "is_set_resolution (CSetResolution h r) = True"
| "is_set_resolution _ = False"

fun is_set_stereo :: "ctl_call \<Rightarrow> bool" where
  "is_set_stereo (CSetStereoMode h m) = True"
| "is_set_stereo _ = False"

text \<open>A call that only asks.\<close>

fun is_query :: "ctl_call \<Rightarrow> bool" where
  "is_query (CSetResolution h r) = False"
| "is_query (CSetStereoMode h m) = False"
| "is_query (CSetBackgroundColor h c) = False"
| "is_query (CBroadcastHdcp n) = False"
| "is_query (CSourceRemove n) = False"
| "is_query (CTimeoutAdd n f) = False"
| "is_query (CRegister i) = False"
| "is_query (CIarm c) = False"
| "is_query _ = True"

lemma adds_port: "GetVideoPortHandle e p s = (h, s') \<Longrightarrow> adds is_query s s'"
  by (auto simp: GetVideoPortHandle_def Let_def intro: adds_log split: if_splits)

lemma adds_connected: "IsVideoPortDisplayConnected e h s = (r, c, s') \<Longrightarrow> adds is_query s s'"
  by (auto simp: IsVideoPortDisplayConnected_def Let_def intro: adds_log)

lemma adds_hdmi_connected: "IsHDMIConnected e s = (c, s') \<Longrightarrow> adds is_query s s'"
  by (auto simp: IsHDMIConnected_def Let_def split: if_splits prod.splits
      intro: adds_trans dest!: adds_port adds_connected)

lemma adds_component: "isComponentPortPresent e s = (c, s') \<Longrightarrow> adds is_query s s'"
  by (auto simp: isComponentPortPresent_def split: if_splits prod.splits
      intro: adds_trans dest!: adds_port)

lemma adds_audio_mode: "audio_port_mode e p s = (m, s') \<Longrightarrow> adds is_query s s'"
  by (auto simp: audio_port_mode_def Let_def split: if_splits
      intro: adds_trans [OF adds_log adds_log] adds_log)

text \<open>A query phase that ends, perhaps, with one resolution.\<close>

definition adds_one_resolution :: "ctl_state \<Rightarrow> ctl_state \<Rightarrow> bool" where
  "adds_one_resolution s s' \<longleftrightarrow> adds is_query s s' \<or>
     (\<exists>s1 h r. adds is_query s s1 \<and> h \<noteq> 0 \<and> s' = log_call (CSetResolution h r) s1)"

lemma one_resolution_trans:
  "adds is_query s s1 \<Longrightarrow> adds_one_resolution s1 s2 \<Longrightarrow> adds_one_resolution s s2"
  unfolding adds_one_resolution_def by (blast intro: adds_trans)

lemma one_resolution_set: "h \<noteq> 0 \<Longrightarrow> adds_one_resolution s (set_if_valid h v s)"
proof (cases "ct_deviceSettings s \<and> v \<noteq> None")
  case True
  then obtain r where "set_if_valid h v s = log_call (CSetResolution h r) s"
    by (auto simp: set_if_valid_def)
  moreover assume "h \<noteq> 0"
  ultimately show ?thesis unfolding adds_one_resolution_def using adds_refl by metis
next
  case False
  then show ?thesis by (auto simp: adds_one_resolution_def set_if_valid_def split: option.split)
qed

lemma adds_hdmi_resolution: "hdmi_resolution e p s = Ret (v, s') \<Longrightarrow> adds is_query s s'"
  by (auto simp: hdmi_resolution_def Let_def obind_Ret_iff split: if_splits
      intro: adds_trans [OF adds_log adds_log] adds_log)

lemma one_resolution_SetResolution:
  assumes "SetResolution e h p s = Ret s'"
  shows "adds_one_resolution s s'"
proof (cases "h = 0")
  case True
  with assms show ?thesis by (simp add: SetResolution_def adds_one_resolution_def)
next
  case False
  let ?s1 = "if ct_deviceSettings s then log_call (CGetResolution h) s else s"
  have q: "adds is_query s ?s1" by (simp add: adds_log)
  have "adds_one_resolution ?s1 s'"
  proof -
    have "s' = ?s1 \<or> (\<exists>v s2. adds is_query ?s1 s2 \<and> (s' = s2 \<or> s' = set_if_valid h v s2))"
      using assms False unfolding SetResolution_def Let_def
      by (auto simp: obind_Ret_iff split: if_splits option.splits prod.splits
          dest!: adds_hdmi_resolution intro: adds_refl)
    then show ?thesis
    proof (elim disjE exE conjE)
      assume "s' = ?s1"
      then show ?thesis by (simp add: adds_one_resolution_def)
    next
      fix v s2 assume "adds is_query ?s1 s2" "s' = s2"
      then show ?thesis by (simp add: adds_one_resolution_def)
    next
      fix v s2 assume "adds is_query ?s1 s2" "s' = set_if_valid h v s2"
      then show ?thesis using one_resolution_set [OF False] one_resolution_trans by blast
    qed
  qed
  with q show ?thesis by (rule one_resolution_trans)
qed

lemma port_one:
  "GetVideoPortHandle e p s = (h, s1) \<Longrightarrow> adds_one_resolution s1 s' \<Longrightarrow> adds_one_resolution s s'"
  by (blast intro: one_resolution_trans adds_port)

lemma connected_one:
  "IsHDMIConnected e s = (c, s1) \<Longrightarrow> adds_one_resolution s1 s' \<Longrightarrow> adds_one_resolution s s'"
  by (blast intro: one_resolution_trans adds_hdmi_connected)

lemma one_resolution_refl: "adds_one_resolution s s"
  by (simp add: adds_one_resolution_def)

lemma one_resolution_SetVideoPort:
  "SetVideoPortResolution e s = Ret s' \<Longrightarrow> adds_one_resolution s s'"
  by (auto simp: SetVideoPortResolution_def one_resolution_refl split: if_splits prod.splits
      elim!: port_one connected_one dest!: one_resolution_SetResolution)

subsection \<open>What each handler calls\<close>

definition grows :: "(ctl_call \<Rightarrow> bool) \<Rightarrow> ctl_state \<Rightarrow> ctl_state \<Rightarrow> bool" where
  "grows P s s' \<longleftrightarrow> (\<exists>t. ct_trace s' = ct_trace s @ t \<and> (\<forall>c \<in> set t. P c))"

lemma grows_trans: "grows P s s1 \<Longrightarrow> grows P s1 s2 \<Longrightarrow> grows P s s2"
  by (force simp: grows_def)

lemma grows_adds: "adds P s s' \<Longrightarrow> grows P s s'"
  by (auto simp: adds_def grows_def)

lemma grows_mono: "grows P s s' \<Longrightarrow> (\<And>c. P c \<Longrightarrow> Q c) \<Longrightarrow> grows Q s s'"
  by (auto simp: grows_def)

lemma grows_new: "grows P s s' \<Longrightarrow> c \<in> set (new_calls s s') \<Longrightarrow> P c"
  by (auto simp: grows_def new_calls_def)

lemma grows_trace: "grows P s s' \<Longrightarrow> ct_trace s' = ct_trace s @ new_calls s s'"
  by (auto simp: grows_def new_calls_def)

lemma grows_refl: "ct_trace s' = ct_trace s \<Longrightarrow> grows P s s'"
  by (simp add: grows_def)

lemma grows_log: "P c \<Longrightarrow> ct_trace s1 = ct_trace s \<Longrightarrow> grows P s (log_call c s1)"
  by (auto simp: grows_def log_call_def)

lemma one_resolution_adds:
  "adds_one_resolution s s' \<Longrightarrow> adds (\<lambda>c. is_query c \<or> is_set_resolution c) s s'"
proof -
  let ?P = "\<lambda>c. is_query c \<or> is_set_resolution c"
  have q: "adds ?P a b" if "adds is_query a b" for a b using that by (rule adds_mono) simp
  assume "adds_one_resolution s s'"
  then consider "adds is_query s s'"
    | s1 h r where "adds is_query s s1" "s' = log_call (CSetResolution h r) s1"
    unfolding adds_one_resolution_def by blast
  then show ?thesis
  proof cases
    case 1
    then show ?thesis by (rule q)
  next
    case 2
    have "adds ?P s1 s'" unfolding 2(2) by (rule adds_log) simp
    with q [OF 2(1)] show ?thesis by (rule adds_trans)
  qed
qed

lemma adds_background:
  "adds (\<lambda>c. is_query c \<or> (\<exists>h. c = CSetBackgroundColor h x)) s (SetBackgroundColor e x s)"
proof -
  obtain h s1 where "GetVideoPortHandle e VP_HDMI s = (h, s1)" by (cases "GetVideoPortHandle e VP_HDMI s")
  moreover from this have "adds (\<lambda>c. is_query c \<or> (\<exists>h. c = CSetBackgroundColor h x)) s s1"
    by (blast intro: adds_mono adds_port)
  ultimately show ?thesis by (auto simp: SetBackgroundColor_def intro: adds_trans adds_log)
qed

lemma adds_audio_decide: "audio_decide e p s = (d, s') \<Longrightarrow> adds is_query s s'"
proof -
  assume d: "audio_decide e p s = (d, s')"
  obtain m s1 where m: "audio_port_mode e p s = (m, s1)" by (cases "audio_port_mode e p s")
  then have 1: "adds is_query s s1" by (rule adds_audio_mode)
  obtain v s2 where v: "GetVideoPortHandle e VP_HDMI s1 = (v, s2)" by (cases "GetVideoPortHandle e VP_HDMI s1")
  then have 2: "adds is_query s s2" by (intro adds_trans [OF 1] adds_port)
  obtain r c s3 where c: "IsVideoPortDisplayConnected e v s2 = (r, c, s3)"
    by (cases "IsVideoPortDisplayConnected e v s2") auto
  then have 3: "adds is_query s s3" by (intro adds_trans [OF 2] adds_connected)
  have 4: "adds is_query s (log_call (CGetStereoAuto h) s3)" for h by (intro adds_trans [OF 3] adds_log) simp
  show ?thesis
    using d 1 2 3 4 by (auto simp: audio_decide_def m v c Let_def split: option.splits if_splits)
qed

lemma adds_eas_decide: "eas_decide e p s = (d, s') \<Longrightarrow> adds is_query s s'"
  by (cases "audio_port_mode e p s") (auto simp: eas_decide_def dest: adds_audio_mode split: option.splits)

lemma eas_decide_mode: "eas_decide e p s = (Some (h, m), s') \<Longrightarrow> m \<noteq> STEREO_PASSTHROUGH"
  by (cases "audio_port_mode e p s") (auto simp: eas_decide_def split: option.splits if_splits)

text \<open>The HDCP handler: the resolution part, then the dump timer and the broadcast.\<close>

lemma clear_source_simps [simp]:
  "hotplugEventSrc (clear_hotplug_source s) = 0"
  "tuneReady (clear_hotplug_source s) = tuneReady s"
  "hdcpAuthenticated (clear_hotplug_source s) = hdcpAuthenticated s"
  "ignoreEdid (clear_hotplug_source s) = ignoreEdid s"
  "bootupFlagEnabled (clear_hotplug_source s) = bootupFlagEnabled s"
  "displayEventStatus (clear_hotplug_source s) = displayEventStatus s"
  "easMode (clear_hotplug_source s) = easMode s"
  "exit_flag (clear_hotplug_source s) = exit_flag s"
  by (simp_all add: clear_hotplug_source_def log_call_def)

lemma grows_clear: "grows (\<lambda>c. \<exists>n. c = CSourceRemove n) s (clear_hotplug_source s)"
  by (auto simp: clear_hotplug_source_def grows_def log_call_def)

text \<open>Between two states: at most \<open>n\<close> resolutions set, and no broadcast.\<close>

definition quiet :: "nat \<Rightarrow> ctl_state \<Rightarrow> ctl_state \<Rightarrow> bool" where
  "quiet n s s' \<longleftrightarrow> (\<exists>t. ct_trace s' = ct_trace s @ t \<and> length (filter is_set_resolution t) \<le> n
     \<and> (\<forall>b. CBroadcastHdcp b \<notin> set t))"

lemma quiet_trans: "quiet m s s1 \<Longrightarrow> quiet n s1 s2 \<Longrightarrow> quiet (m + n) s s2"
  unfolding quiet_def by (elim exE conjE) (rule exI, auto)

lemma quiet_grows:
  assumes "grows P s s'" and "\<And>c. P c \<Longrightarrow> \<not> is_set_resolution c \<and> (\<forall>b. c \<noteq> CBroadcastHdcp b)"
  shows "quiet 0 s s'"
proof -
  from assms(1) obtain t where t: "ct_trace s' = ct_trace s @ t" "\<forall>c \<in> set t. P c"
    by (auto simp: grows_def)
  with assms(2) have "filter is_set_resolution t = []" and "\<forall>b. CBroadcastHdcp b \<notin> set t"
    by (auto simp: filter_empty_conv)
  with t(1) show ?thesis by (auto simp: quiet_def)
qed

lemma query_quiet: "is_query c \<Longrightarrow> \<not> is_set_resolution c \<and> (\<forall>b. c \<noteq> CBroadcastHdcp b)"
  by (cases c) auto

lemma quiet_background: "quiet 0 s (SetBackgroundColor e x s)"
  by (rule quiet_grows [OF grows_adds [OF adds_background]]) (auto dest: query_quiet)

lemma quiet_clear: "quiet 0 s (clear_hotplug_source s)"
  by (rule quiet_grows [OF grows_clear]) auto

lemma quiet_one: "adds_one_resolution s s' \<Longrightarrow> quiet 1 s s'"
proof -
  assume "adds_one_resolution s s'"
  then consider "adds is_query s s'"
    | s1 h r where "adds is_query s s1" "s' = log_call (CSetResolution h r) s1"
    unfolding adds_one_resolution_def by blast
  then show ?thesis
  proof cases
    case 1
    then have "quiet 0 s s'" by (intro quiet_grows [OF grows_adds] query_quiet)
    then show ?thesis by (auto simp: quiet_def)
  next
    case 2
    have "quiet 0 s s1" using 2(1) by (intro quiet_grows [OF grows_adds] query_quiet)
    moreover have "quiet 1 s1 s'" by (auto simp: 2(2) quiet_def log_call_def)
    ultimately show ?thesis using quiet_trans by fastforce
  qed
qed

lemma quiet_SetVideoPort: "SetVideoPortResolution e s = Ret s' \<Longrightarrow> quiet 1 s s'"
  by (rule quiet_one [OF one_resolution_SetVideoPort])

lemma svp_frame:
  assumes "SetVideoPortResolution e s = Ret s'"
  shows "hdcpAuthenticated s' = hdcpAuthenticated s" "ignoreEdid s' = ignoreEdid s"
    "bootupFlagEnabled s' = bootupFlagEnabled s" "hotplugEventSrc s' = hotplugEventSrc s"
    "displayEventStatus s' = displayEventStatus s" "easMode s' = easMode s"
    "tuneReady s' = tuneReady s" "exit_flag s' = exit_flag s"
  using adds_frame [OF one_resolution_adds [OF one_resolution_SetVideoPort [OF assms]]] by simp_all

lemma background_frame [simp]:
  "hdcpAuthenticated (SetBackgroundColor e x s) = hdcpAuthenticated s"
  "ignoreEdid (SetBackgroundColor e x s) = ignoreEdid s"
  "bootupFlagEnabled (SetBackgroundColor e x s) = bootupFlagEnabled s"
  "hotplugEventSrc (SetBackgroundColor e x s) = hotplugEventSrc s"
  "displayEventStatus (SetBackgroundColor e x s) = displayEventStatus s"
  "easMode (SetBackgroundColor e x s) = easMode s"
  "tuneReady (SetBackgroundColor e x s) = tuneReady s"
  "exit_flag (SetBackgroundColor e x s) = exit_flag s"
  using adds_frame [OF adds_background [where s = s and e = e and x = x]] by simp_all

lemma quiet_end:
  assumes "quiet n s s1"
  shows "\<exists>t. ct_trace (log_call (CBroadcastHdcp b) (ScheduleEdidDump s1)) = ct_trace s @ t @ [CBroadcastHdcp b]
     \<and> length (filter is_set_resolution t) \<le> n \<and> (\<forall>b. CBroadcastHdcp b \<notin> set t)"
proof -
  from assms obtain t where "ct_trace s1 = ct_trace s @ t" "length (filter is_set_resolution t) \<le> n"
    "\<forall>b. CBroadcastHdcp b \<notin> set t" by (auto simp: quiet_def)
  then show ?thesis
    by (intro exI [of _ "t @ [CTimeoutAdd 1 ''DumpEdidOnChecksumDiff'']"])
      (auto simp: log_call_def ScheduleEdidDump_def)
qed

definition hdcp_sets :: "hdcp_status \<Rightarrow> ctl_state \<Rightarrow> nat" where
  "hdcp_sets h s = (case h of
     HDCP_AUTHENTICATED \<Rightarrow> if \<not> ignoreEdid s \<or> bootupFlagEnabled s then 1 else 0
   | HDCP_AUTHENTICATIONFAILURE \<Rightarrow> if \<not> ignoreEdid s then 1 else 0
   | HDCP_other n \<Rightarrow> 0)"

lemma hdcp_authenticated:
  assumes "HandleHDCPStatus e HDCP_AUTHENTICATED s = Ret s'"
  shows "\<exists>s1. s' = log_call (CBroadcastHdcp 1) (ScheduleEdidDump s1) \<and> quiet (hdcp_sets HDCP_AUTHENTICATED s) s s1
     \<and> hdcpAuthenticated s1 \<and> \<not> bootupFlagEnabled s1 \<and> hotplugEventSrc s1 = 0"
proof -
  let ?s0 = "s\<lparr>hdcpAuthenticated := True\<rparr>"
  let ?s2 = "SetBackgroundColor e BGCOLOR_NONE (clear_hotplug_source ?s0)"
  have q: "quiet 0 s ?s2"
    using quiet_trans [OF quiet_clear quiet_background, of ?s0 e BGCOLOR_NONE] by (simp add: quiet_def)
  show ?thesis
  proof (cases "\<not> ignoreEdid s \<or> bootupFlagEnabled s")
    case True
    then obtain s3 where s3: "SetVideoPortResolution e ?s2 = Ret s3" and
      s': "s' = log_call (CBroadcastHdcp 1) (ScheduleEdidDump (if bootupFlagEnabled s3
        then s3\<lparr>bootupFlagEnabled := False\<rparr> else s3))"
      using assms by (auto simp: HandleHDCPStatus_def Let_def obind_Ret_iff)
    have "quiet 1 s s3" using quiet_trans [OF q quiet_SetVideoPort [OF s3]] by simp
    then have "quiet 1 s (if bootupFlagEnabled s3 then s3\<lparr>bootupFlagEnabled := False\<rparr> else s3)"
      by (simp add: quiet_def)
    with s' True show ?thesis
      by (intro exI [of _ "if bootupFlagEnabled s3 then s3\<lparr>bootupFlagEnabled := False\<rparr> else s3"])
        (simp add: hdcp_sets_def svp_frame [OF s3])
  next
    case False
    then have "s' = log_call (CBroadcastHdcp 1) (ScheduleEdidDump ?s2)"
      using assms by (simp add: HandleHDCPStatus_def Let_def)
    with q False show ?thesis by (intro exI [of _ ?s2]) (simp add: hdcp_sets_def)
  qed
qed

lemma hdcp_failure:
  assumes "HandleHDCPStatus e HDCP_AUTHENTICATIONFAILURE s = Ret s'"
  shows "\<exists>s1. s' = log_call (CBroadcastHdcp 0) (ScheduleEdidDump s1)
     \<and> quiet (hdcp_sets HDCP_AUTHENTICATIONFAILURE s) s s1 \<and> \<not> hdcpAuthenticated s1"
proof -
  let ?s1 = "(SetBackgroundColor e BGCOLOR_BLUE s)\<lparr>hdcpAuthenticated := False\<rparr>"
  have q: "quiet 0 s ?s1" using quiet_background [of s e BGCOLOR_BLUE] by (simp add: quiet_def)
  show ?thesis
  proof (cases "ignoreEdid s")
    case True
    then have "s' = log_call (CBroadcastHdcp 0) (ScheduleEdidDump ?s1)"
      using assms by (simp add: HandleHDCPStatus_def Let_def)
    with q True show ?thesis by (intro exI [of _ ?s1]) (simp add: hdcp_sets_def)
  next
    case False
    then obtain s3 where s3: "SetVideoPortResolution e ?s1 = Ret s3"
      and s': "s' = log_call (CBroadcastHdcp 0) (ScheduleEdidDump s3)"
      using assms by (auto simp: HandleHDCPStatus_def Let_def obind_Ret_iff)
    have "quiet 1 s s3" using quiet_trans [OF q quiet_SetVideoPort [OF s3]] by simp
    with s' False show ?thesis by (intro exI [of _ s3]) (simp add: hdcp_sets_def svp_frame [OF s3])
  qed
qed

lemma log_call_simps [simp]:
  "tuneReady (log_call c s) = tuneReady s" "hdcpAuthenticated (log_call c s) = hdcpAuthenticated s"
  "ignoreEdid (log_call c s) = ignoreEdid s" "bootupFlagEnabled (log_call c s) = bootupFlagEnabled s"
  "displayEventStatus (log_call c s) = displayEventStatus s" "easMode (log_call c s) = easMode s"
  "hotplugEventSrc (log_call c s) = hotplugEventSrc s" "exit_flag (log_call c s) = exit_flag s"
  "ct_trace (log_call c s) = ct_trace s @ [c]"
  by (simp_all add: log_call_def)

text \<open>What the thread does with one event.\<close>

lemma resolution_event_quiet:
  assumes "resolution_event e ev s = Ret (audio, s')"
  shows "quiet (if tuneReady s = 1 \<and> ev = EV_CONNECTED \<and> hdcpAuthenticated s then 1 else 0) s s'"
    and "displayEventStatus s' = displayEventStatus s" and "exit_flag s' = exit_flag s"
    and "easMode s' = easMode s" and "tuneReady s' = tuneReady s"
    and "audio = (tuneReady s = 1 \<and> ev = EV_CONNECTED)"
proof -
  let ?s1 = "clear_hotplug_source s"
  obtain b s2 where c: "isComponentPortPresent e (?s1\<lparr>hdcpAuthenticated := False\<rparr>) = (b, s2)"
    by (cases "isComponentPortPresent e (?s1\<lparr>hdcpAuthenticated := False\<rparr>)")
  note cc = adds_component [OF c]
  have "quiet 0 (?s1\<lparr>hdcpAuthenticated := False\<rparr>) s2"
    using cc by (intro quiet_grows [OF grows_adds] query_quiet)
  then have "quiet 0 ?s1 s2" by (simp add: quiet_def)
  from quiet_trans [OF quiet_clear this] have q2: "quiet 0 s s2" by simp
  have q3: "quiet 0 s ((log_call (CTimeoutAdd 5 h) s2)\<lparr>hotplugEventSrc := n\<rparr>)" for h n
    using q2 by (auto simp: quiet_def)
  have set: "quiet 1 s z" if "SetVideoPortResolution e ?s1 = Ret z" for z
    using quiet_trans [OF quiet_clear quiet_SetVideoPort [OF that]] by simp
  let ?timer = "(log_call (CTimeoutAdd 5 ''SetResolutionHandler'') s2)\<lparr>hotplugEventSrc := ce_Timeout e (ct_trace s2)\<rparr>"
  let ?conn = "tuneReady s = 1 \<and> ev = EV_CONNECTED"
  have cases: "(?conn \<and> hdcpAuthenticated s \<and> audio \<and> SetVideoPortResolution e ?s1 = Ret s')
      \<or> (?conn \<and> \<not> hdcpAuthenticated s \<and> audio \<and> s' = ?s1)
      \<or> (\<not> ?conn \<and> \<not> audio \<and> (s' = ?s1 \<or> s' = s2 \<or> s' = ?timer))"
    using assms by (simp add: resolution_event_def c Let_def obind_Ret_iff split: if_splits)
  then show "quiet (if tuneReady s = 1 \<and> ev = EV_CONNECTED \<and> hdcpAuthenticated s then 1 else 0) s s'"
    using q2 q3 set quiet_clear [of s] by (elim disjE conjE) auto
  note fr = adds_frame [OF cc]
  show "displayEventStatus s' = displayEventStatus s" "exit_flag s' = exit_flag s"
    "easMode s' = easMode s" "tuneReady s' = tuneReady s"
    using cases fr by (elim disjE conjE; simp add: svp_frame)+
  show "audio = (tuneReady s = 1 \<and> ev = EV_CONNECTED)"
    using cases by (elim disjE conjE) simp_all
qed

subsection \<open>Handlers that leave the audio alone\<close>

definition silent :: "ctl_state \<Rightarrow> ctl_state \<Rightarrow> bool" where
  "silent s s' \<longleftrightarrow> grows (\<lambda>c. \<not> is_set_stereo c) s s'"

lemma query_silent: "is_query c \<Longrightarrow> \<not> is_set_stereo c"
  by (cases c) auto

lemma silent_trans: "silent s s1 \<Longrightarrow> silent s1 s2 \<Longrightarrow> silent s s2"
  unfolding silent_def by (rule grows_trans)

lemma silent_trace: "silent s s1 \<Longrightarrow> ct_trace s' = ct_trace s \<Longrightarrow> ct_trace s2 = ct_trace s1 \<Longrightarrow> silent s' s2"
  by (simp add: silent_def grows_def)

lemma silent_refl: "ct_trace s' = ct_trace s \<Longrightarrow> silent s s'"
  by (simp add: silent_def grows_def)

lemma silent_svp: "SetVideoPortResolution e s = Ret s' \<Longrightarrow> silent s s'"
  unfolding silent_def
  by (rule grows_mono [OF grows_adds [OF one_resolution_adds [OF one_resolution_SetVideoPort]]])
    (auto dest: query_silent elim: is_set_resolution.elims)

lemma silent_background: "silent s (SetBackgroundColor e x s)"
  unfolding silent_def by (rule grows_mono [OF grows_adds [OF adds_background]]) (auto dest: query_silent)

lemma silent_clear: "silent s (clear_hotplug_source s)"
  unfolding silent_def by (rule grows_mono [OF grows_clear]) auto

lemma silent_end: "silent s s1 \<Longrightarrow> silent s (log_call (CBroadcastHdcp n) (ScheduleEdidDump s1))"
  by (auto simp: silent_def grows_def ScheduleEdidDump_def)

lemma silent_hdcp:
  assumes "HandleHDCPStatus e h s = Ret s'"
  shows "silent s s'"
proof (cases h)
  case HDCP_AUTHENTICATED
  let ?a = "SetBackgroundColor e BGCOLOR_NONE (clear_hotplug_source (s\<lparr>hdcpAuthenticated := True\<rparr>))"
  have a: "silent s ?a"
    by (rule silent_trace [OF silent_trans [OF silent_clear silent_background]]) simp_all
  have b: "silent s z'" if "SetVideoPortResolution e ?a = Ret z" "ct_trace z' = ct_trace z" for z z'
    using silent_trace [OF silent_trans [OF a silent_svp [OF that(1)]] HOL.refl that(2)] .
  show ?thesis
    using assms HDCP_AUTHENTICATED a b
    by (auto simp: HandleHDCPStatus_def Let_def obind_Ret_iff split: if_splits intro!: silent_end)
next
  case HDCP_AUTHENTICATIONFAILURE
  let ?a = "(SetBackgroundColor e BGCOLOR_BLUE s)\<lparr>hdcpAuthenticated := False\<rparr>"
  have a: "silent s ?a" by (rule silent_trace [OF silent_background]) simp_all
  have b: "silent s z" if "SetVideoPortResolution e ?a = Ret z" for z
    using silent_trans [OF a silent_svp [OF that]] .
  show ?thesis
    using assms HDCP_AUTHENTICATIONFAILURE a b
    by (auto simp: HandleHDCPStatus_def Let_def obind_Ret_iff split: if_splits intro!: silent_end)
next
  case (HDCP_other n)
  then show ?thesis using assms by (auto simp: HandleHDCPStatus_def silent_def grows_def)
qed

lemma silent_event:
  assumes "resolution_event e ev s = Ret (audio, s')"
  shows "silent s s'"
proof -
  let ?s1 = "clear_hotplug_source s"
  obtain b s2 where c: "isComponentPortPresent e (?s1\<lparr>hdcpAuthenticated := False\<rparr>) = (b, s2)"
    by (cases "isComponentPortPresent e (?s1\<lparr>hdcpAuthenticated := False\<rparr>)")
  have "silent (?s1\<lparr>hdcpAuthenticated := False\<rparr>) s2"
    unfolding silent_def by (rule grows_mono [OF grows_adds [OF adds_component [OF c]]]) (rule query_silent)
  then have "silent ?s1 s2" by (rule silent_trace) simp_all
  with silent_clear have 2: "silent s s2" by (rule silent_trans)
  then have 3: "silent s ((log_call (CTimeoutAdd 5 f) s2)\<lparr>hotplugEventSrc := n\<rparr>)" for f n
    by (auto simp: silent_def grows_def)
  have 4: "silent s z" if "SetVideoPortResolution e ?s1 = Ret z" for z
    using silent_trans [OF silent_clear silent_svp [OF that]] .
  show ?thesis
    using assms 2 3 4 silent_clear [of s]
    by (auto simp: resolution_event_def c Let_def obind_Ret_iff split: if_splits)
qed

subsection \<open>Jobs\<close>

text \<open>A job that runs alone to its end: then it is the function of its name.\<close>

inductive audio_alone :: "ctl_env \<Rightarrow> audio_job \<Rightarrow> ctl_state \<Rightarrow> ctl_state \<Rightarrow> bool" for e :: ctl_env where
  ends: "audio_next e j s = (None, s') \<Longrightarrow> audio_alone e j s s'"
| goes: "audio_next e j s = (Some j', s1) \<Longrightarrow> audio_alone e j' s1 s' \<Longrightarrow> audio_alone e j s s'"

lemma alone_ports:
  "audio_alone e (ModePort eas ps) s (fold (if eas then SetEASAudioMode_port e else SetAudioMode_port e) ps s)"
proof (induction ps arbitrary: s)
  case Nil
  then show ?case by (auto intro: ends)
next
  case (Cons p ps)
  obtain d s1 where d: "(if eas then eas_decide e p s else audio_decide e p s) = (d, s1)" by fastforce
  have one: "(if eas then SetEASAudioMode_port e else SetAudioMode_port e) p s = set_decided (d, s1)"
    using d by (auto simp: SetEASAudioMode_port_def SetAudioMode_port_def)
  show ?case
  proof (cases d)
    case None
    then show ?thesis using d Cons.IH [of s1] one by (intro goes [of e "ModePort eas (p # ps)"]) (simp_all add: set_decided_def)
  next
    case (Some hm)
    obtain h m where hm: "hm = (h, m)" by (cases hm)
    have "audio_alone e (ModeSet eas h m ps) s1
        (fold (if eas then SetEASAudioMode_port e else SetAudioMode_port e) ps (log_call (CSetStereoMode h m) s1))"
      using Cons.IH by (rule goes [rotated]) simp
    then show ?thesis using d one Some hm by (intro goes [of e "ModePort eas (p # ps)"]) (simp_all add: set_decided_def)
  qed
qed

theorem handlers_alone:
  "audio_alone e (ModeTest False) s (SetAudioMode e s)"
  "audio_alone e (ModeTest True) s (SetEASAudioMode e s)"
  "audio_alone e (SysTest m) s (SysModeChange e m s)"
proof -
  show 1: "audio_alone e (ModeTest False) s (SetAudioMode e s)" for s
    using alone_ports [of e False supportedPortTypes s]
    by (auto simp: SetAudioMode_def intro: ends goes)
  show 2: "audio_alone e (ModeTest True) s (SetEASAudioMode e s)" for s
    using alone_ports [of e True supportedPortTypes s]
    by (auto simp: SetEASAudioMode_def intro: ends goes)
  have w: "audio_alone e (SysSet m) s (if m = SYS_MODE_EAS then SetEASAudioMode e (s\<lparr>easMode := m\<rparr>)
      else SetAudioMode e (s\<lparr>easMode := m\<rparr>))"
    using 1 [of "s\<lparr>easMode := m\<rparr>"] 2 [of "s\<lparr>easMode := m\<rparr>"] by (auto intro: goes)
  let ?go = "easMode s = SYS_MODE_EAS \<and> m = SYS_MODE_NORMAL \<or> easMode s = SYS_MODE_NORMAL \<and> m = SYS_MODE_EAS"
  have d: "SYS_MODE_EAS \<noteq> SYS_MODE_NORMAL" by (simp add: SYS_MODE_EAS_def SYS_MODE_NORMAL_def)
  show "audio_alone e (SysTest m) s (SysModeChange e m s)"
  proof (cases ?go)
    case True
    then have eq: "SysModeChange e m s = (if m = SYS_MODE_EAS then SetEASAudioMode e (s\<lparr>easMode := m\<rparr>)
        else SetAudioMode e (s\<lparr>easMode := m\<rparr>))"
      using d d [symmetric] unfolding SysModeChange_def Let_def by (elim disjE conjE) (simp_all only: simp_thms if_True if_False HOL.refl)
    have "audio_next e (SysTest m) s = (Some (SysSet m), s)" using True by auto
    then show ?thesis unfolding eq by (rule goes [OF _ w])
  next
    case False
    then have "\<not> (easMode s = SYS_MODE_EAS \<and> m = SYS_MODE_NORMAL)" "\<not> (easMode s = SYS_MODE_NORMAL \<and> m = SYS_MODE_EAS)"
      by blast+
    then have eq: "SysModeChange e m s = s" by (simp only: SysModeChange_def Let_def if_False if_cancel)
    have "audio_next e (SysTest m) s = (None, s)" using False by (simp only: audio_next.simps) auto
    then show ?thesis unfolding eq by (rule ends)
  qed
qed

text \<open>
  The settings a \<open>SetAudioMode\<close> past its test has left; the settings a \<open>SetEASAudioMode\<close> is about
  to make are never pass-through.
\<close>

fun ports_left :: "audio_job \<Rightarrow> nat" where
  "ports_left (ModePort False ps) = length ps"
| "ports_left (ModeSet False h m ps) = Suc (length ps)"
| "ports_left _ = 0"

fun job_ok :: "audio_job \<Rightarrow> bool" where
  "job_ok (ModeSet True h m ps) \<longleftrightarrow> m \<noteq> STEREO_PASSTHROUGH"
| "job_ok _ \<longleftrightarrow> True"

fun pc_jobs :: "ctl_pc \<Rightarrow> audio_job list" where
  "pc_jobs (PcAudio j) = [j]"
| "pc_jobs _ = []"

definition jobs_of :: "ctl_conf \<Rightarrow> audio_job list" where
  "jobs_of x = pc_jobs (fst x) @ fst (snd x)"

definition late_settings :: "ctl_conf \<Rightarrow> nat" where
  "late_settings x = sum_list (map ports_left (jobs_of x))"

fun is_passthrough :: "ctl_call \<Rightarrow> bool" where
  "is_passthrough (CSetStereoMode h m) \<longleftrightarrow> m = STEREO_PASSTHROUGH"
| "is_passthrough _ \<longleftrightarrow> False"

abbreviation passthroughs :: "ctl_state \<Rightarrow> ctl_state \<Rightarrow> nat" where
  "passthroughs s s' \<equiv> length (filter is_passthrough (new_calls s s'))"

lemma silent_passthroughs: "silent s s' \<Longrightarrow> passthroughs s s' = 0"
  by (fastforce simp: silent_def grows_def new_calls_def filter_empty_conv elim!: is_passthrough.elims(2))

lemma queries_passthroughs: "adds is_query s s' \<Longrightarrow> passthroughs s s' = 0"
  by (rule silent_passthroughs) (simp add: silent_def grows_mono [OF grows_adds] query_silent)

lemma next_ok: "job_ok j \<Longrightarrow> audio_next e j s = (Some j', s') \<Longrightarrow> job_ok j'"
proof (induction e j s rule: audio_next.induct)
  case (5 e eas p ps s)
  then show ?case
    by (cases eas) (auto dest: eas_decide_mode split: prod.splits option.splits)
qed (auto split: if_splits)

text \<open>In the EAS mode a step uses up what it sets.\<close>

lemma next_passthroughs:
  assumes "job_ok j" and "audio_next e j s = (r, s')" and "easMode s = SYS_MODE_EAS"
  shows "passthroughs s s' + (case r of None \<Rightarrow> 0 | Some j' \<Rightarrow> ports_left j') \<le> ports_left j"
proof (cases "(e, j, s)" rule: audio_next.cases)
  case (5 e' eas p ps s'')
  obtain d s1 where d: "(if eas then eas_decide e p s else audio_decide e p s) = (d, s1)" by fastforce
  then have "adds is_query s s1" by (cases eas) (auto intro: adds_eas_decide adds_audio_decide)
  then have "passthroughs s s1 = 0" by (rule queries_passthroughs)
  moreover have "s' = s1" "r = Some (case d of None \<Rightarrow> ModePort eas ps | Some (handle, mode) \<Rightarrow> ModeSet eas handle mode ps)"
    using assms(2) 5 d by auto
  moreover have "ports_left (case d of None \<Rightarrow> ModePort eas ps | Some (handle, mode) \<Rightarrow> ModeSet eas handle mode ps)
      \<le> ports_left (ModePort eas (p # ps))"
    by (cases eas) (auto split: option.split)
  ultimately show ?thesis using 5 by simp
next
  case (6 e' eas h m ps s'')
  then show ?thesis
    using assms(1,2) by (cases eas) (auto simp: new_calls_def)
qed (use assms in \<open>auto simp: new_calls_def SYS_MODE_EAS_def split: if_splits\<close>)

lemma adds_eas_port:
  "adds (\<lambda>c. is_query c \<or> is_set_stereo c) s (SetEASAudioMode_port e p s)"
proof -
  obtain d s1 where d: "eas_decide e p s = (d, s1)" by fastforce
  have 1: "adds (\<lambda>c. is_query c \<or> is_set_stereo c) s s1" by (rule adds_mono [OF adds_eas_decide [OF d]]) simp
  have "adds (\<lambda>c. is_query c \<or> is_set_stereo c) s (log_call (CSetStereoMode h m) s1)" for h m
    by (rule adds_trans [OF 1 adds_log]) simp
  with 1 show ?thesis by (auto simp: SetEASAudioMode_port_def set_decided_def d split: option.split)
qed

lemma adds_SetEASAudioMode: "adds (\<lambda>c. is_query c \<or> is_set_stereo c) s (SetEASAudioMode e s)"
proof -
  have "adds P s (fold f xs s)" if "\<And>x s. adds P s (f x s)" for P xs and s :: ctl_state and f :: "audio_port \<Rightarrow> _"
    using that by (induction xs arbitrary: s) (auto intro: adds_trans)
  then show ?thesis by (simp add: SetEASAudioMode_def adds_eas_port)
qed

lemma sum_replace:
  fixes f :: "'a \<Rightarrow> nat"
  assumes "i < length js"
  shows "sum_list (map f (take i js @ xs @ drop (Suc i) js)) + f (js ! i) = sum_list (map f js) + sum_list (map f xs)"
proof -
  have "map f js = map f (take i js @ js ! i # drop (Suc i) js)" using id_take_nth_drop [OF assms] by simp
  then show ?thesis by simp
qed

lemma step_jobs:
  assumes "ctl_step e x l y" and "\<forall>j \<in> set (jobs_of x). P j"
    and next_P: "\<And>j s j' s'. P j \<Longrightarrow> audio_next e j s = (Some j', s') \<Longrightarrow> P j'"
    and new: "P (ModeTest False)" "\<And>m. P (SysTest m)"
  shows "\<forall>j \<in> set (jobs_of y). P j"
  using assms(1)
proof (cases rule: ctl_step.cases)
  case (audio j s r s' js)
  then show ?thesis using assms(2) next_P [of j s] by (auto simp: jobs_of_def split: option.splits)
next
  case (job i js s r s' pc)
  then have "P (js ! i)" using assms(2) by (auto simp: jobs_of_def)
  with job next_P [of "js ! i" s] assms(2) show ?thesis
    by (auto simp: jobs_of_def dest: in_set_takeD in_set_dropD split: option.splits)
qed (use assms(2) new in \<open>auto simp: jobs_of_def split: if_splits\<close>)

lemma step_jobs_ok: "ctl_step e x l y \<Longrightarrow> \<forall>j \<in> set (jobs_of x). job_ok j \<Longrightarrow> \<forall>j \<in> set (jobs_of y). job_ok j"
  by (erule step_jobs) (auto dest: next_ok)

lemma next_left: "ports_left j \<le> 3 \<Longrightarrow> audio_next e j s = (Some j', s') \<Longrightarrow> ports_left j' \<le> 3"
proof (induction e j s rule: audio_next.induct)
  case (3 e eas s)
  then show ?case by (cases eas) (auto simp: supportedPortTypes_def split: if_splits)
next
  case (5 e eas p ps s)
  then show ?case by (cases eas) (auto split: prod.splits option.splits)
next
  case (6 e eas h m ps s)
  then show ?case by (cases eas) auto
qed (auto split: if_splits)

lemma step_left: "ctl_step e x l y \<Longrightarrow> \<forall>j \<in> set (jobs_of x). ports_left j \<le> 3 \<Longrightarrow> \<forall>j \<in> set (jobs_of y). ports_left j \<le> 3"
  by (erule step_jobs) (auto dest: next_left)

lemma reach_jobs:
  "ctl_reach e (PcLoop, [], s0) y \<Longrightarrow> (\<forall>j \<in> set (jobs_of y). job_ok j) \<and> (\<forall>j \<in> set (jobs_of y). ports_left j \<le> 3)"
proof (induction rule: ctl_reach.induct)
  case refl
  then show ?case by (simp add: jobs_of_def)
next
  case (step y l z)
  then show ?case using step_jobs_ok [OF step.hyps(2)] step_left [OF step.hyps(2)] by blast
qed

lemma sum_left:
  fixes f :: "'a \<Rightarrow> nat"
  shows "\<forall>j \<in> set js. f j \<le> 3 \<Longrightarrow> sum_list (map f js) \<le> 3 * length (filter (\<lambda>j. f j \<noteq> 0) js)"
  by (induction js) (auto simp: add_mono)

lemma new_calls_trans:
  "ct_trace s1 = ct_trace s @ t \<Longrightarrow> ct_trace s2 = ct_trace s1 @ u \<Longrightarrow>
     new_calls s s2 = new_calls s s1 @ new_calls s1 s2"
  by (simp add: new_calls_def)

lemma silent_extends: "silent s s' \<Longrightarrow> \<exists>t. ct_trace s' = ct_trace s @ t"
  by (auto simp: silent_def grows_def)

lemma next_extends: "audio_next e j s = (r, s') \<Longrightarrow> \<exists>t. ct_trace s' = ct_trace s @ t"
proof (induction e j s rule: audio_next.induct)
  case (5 e eas p ps s)
  then show ?case
    by (cases eas) (auto simp: adds_def dest!: adds_eas_decide adds_audio_decide split: prod.splits)
qed auto

text \<open>The steps that are not of a job leave the audio alone.\<close>

lemma step_eas:
  assumes "ctl_step e x l y" and "\<forall>j \<in> set (jobs_of x). job_ok j" and "easMode (snd (snd x)) = SYS_MODE_EAS"
  shows "passthroughs (snd (snd x)) (snd (snd y)) + late_settings y \<le> late_settings x
     \<and> (\<exists>t. ct_trace (snd (snd y)) = ct_trace (snd (snd x)) @ t)"
  using assms(1)
proof (cases rule: ctl_step.cases)
  case (handle ev s audio s' js)
  then show ?thesis
    using silent_event [OF handle(4)] silent_passthroughs silent_extends
    by (auto simp: late_settings_def jobs_of_def)
next
  case (audio j s r s' js)
  have "job_ok j" using assms(2) audio by (auto simp: jobs_of_def)
  from next_passthroughs [OF this audio(4)] next_extends [OF audio(4)] assms(3) audio show ?thesis
    by (auto simp: late_settings_def jobs_of_def split: option.splits)
next
  case (hotplug pc js s c)
  have "silent s (OnDisplayHDMIHotPlug e c s)"
    by (auto simp: OnDisplayHDMIHotPlug_def intro!: silent_trace [OF silent_background])
  then show ?thesis
    using hotplug silent_passthroughs silent_extends by (auto simp: late_settings_def jobs_of_def)
next
  case (hdcp h s s' pc js)
  then show ?thesis
    using silent_hdcp [OF hdcp(4)] silent_passthroughs silent_extends
    by (auto simp: late_settings_def jobs_of_def)
next
  case (job i js s r s' pc)
  have "job_ok (js ! i)" using assms(2) job by (auto simp: jobs_of_def)
  from next_passthroughs [OF this job(5)] next_extends [OF job(5)] assms(3) job
    sum_replace [OF job(4), of ports_left "case r of None \<Rightarrow> [] | Some j \<Rightarrow> [j]"] show ?thesis
    by (auto simp: late_settings_def jobs_of_def split: option.splits)
next
  case (timer s s' pc js)
  then obtain z where "SetVideoPortResolution e s = Ret z" "s' = z\<lparr>hotplugEventSrc := 0\<rparr>"
    by (auto simp: SetResolutionHandler_def obind_Ret_iff)
  then have "silent s s'" by (intro silent_trace [OF silent_svp]) simp_all
  then show ?thesis
    using timer silent_passthroughs silent_extends by (auto simp: late_settings_def jobs_of_def)
qed (auto simp: late_settings_def jobs_of_def new_calls_def)

subsection \<open>Properties\<close>

text \<open>
  C4. The display only gets resolutions it lists: a resolution set on the HDMI port is either
  the persisted one or a replacement of its name, and that name is in the EDID list just read
  from the display, which reported an HDMI device and at least one resolution. It is the last
  of exactly four calls.
\<close>

theorem hdmi_resolution_supported:
  assumes "SetResolution e handle VP_HDMI s = Ret s'" and "CSetResolution h r \<in> set (new_calls s s')"
  defines "t \<equiv> ct_trace s @ [CGetResolution handle]"
  defines "d \<equiv> out_or (snd (ce_GetDisplay e t)) 0"
  defines "ed \<equiv> snd (ce_GetEdid e (t @ [CGetDisplay]) d)"
  defines "persisted \<equiv> out_or (snd (ce_GetResolution e (ct_trace s) handle)) \<lparr>vr_name = [], vr_rest = 0\<rparr>"
  shows "h = handle \<and> ct_trace s' = t @ [CGetDisplay, CGetDisplayEdid d, CSetResolution handle r]
     \<and> ed_num ed \<noteq> 0 \<and> ed_hdmi ed \<and> r = persisted\<lparr>vr_name := vr_name r\<rparr>
     \<and> (isResInEdid (out_or (ed_names ed) []) (vr_name r)
        \<or> (vr_name r = vr_name persisted \<and> isResInEdid (out_or (ed_names ed) []) (c_str (vr_name r))))"
proof -
  let ?s1 = "log_call (CGetResolution handle) s"
  have ds: "handle \<noteq> 0" "ct_deviceSettings s"
    using assms(1,2) by (auto simp: SetResolution_def new_calls_def split: if_splits)
  have ds1: "ct_deviceSettings ?s1" using ds by (simp add: log_call_def)
  have ok: "fst (ce_GetResolution e (ct_trace s) handle) = ERROR_NONE"
  proof (rule ccontr)
    assume "fst (ce_GetResolution e (ct_trace s) handle) \<noteq> ERROR_NONE"
    then have "s' = ?s1" using assms(1) ds by (simp add: SetResolution_def Let_def)
    with assms(2) show False by (simp add: new_calls_def)
  qed
  obtain v s2 where v: "hdmi_resolution e persisted ?s1 = Ret (v, s2)"
    and s': "s' = (case v of None \<Rightarrow> s2 | Some w \<Rightarrow> set_if_valid handle w s2)"
    using assms(1) ds ds1 ok
    by (auto simp: SetResolution_def Let_def obind_Ret_iff persisted_def split: option.splits)
  obtain u where u: "ct_trace s2 = ct_trace s @ CGetResolution handle # u" "\<forall>c \<in> set u. is_query c"
    using adds_hdmi_resolution [OF v] by (auto simp: adds_def)
  then have c: "CSetResolution h r \<notin> set (new_calls s s2)" for h r
    by (auto simp: new_calls_def)
  obtain r' where r': "v = Some (Some r')" "s' = log_call (CSetResolution handle r') s2"
    using s' c assms(2) by (auto simp: set_if_valid_def split: option.splits if_splits)
  have new: "r' = r \<and> h = handle"
    using assms(2) c [of h r] by (auto simp: r'(2) new_calls_def u(1))
  have s2: "s2 = log_call (CGetDisplayEdid d) (log_call CGetDisplay ?s1)"
    and ed: "ed_num ed \<noteq> 0" "ed_hdmi ed"
    and ch: "\<exists>n. chooseResolution (ct_IsEU s2) (fallBackResolutionList s2) (out_or (ed_names ed) [])
        (vr_name persisted) = Ret (Some n) \<and> r' = persisted\<lparr>vr_name := n\<rparr>"
    using v r'(1) by (auto simp: hdmi_resolution_def Let_def obind_Ret_iff ed_def d_def t_def split: if_splits)
  have tr: "ct_trace s' = t @ [CGetDisplay, CGetDisplayEdid d, CSetResolution handle r]"
    using new by (simp add: r'(2) s2 t_def)
  from ch obtain n where n: "chooseResolution (ct_IsEU s2) (fallBackResolutionList s2)
      (out_or (ed_names ed) []) (vr_name persisted) = Ret (Some n)" "r' = persisted\<lparr>vr_name := n\<rparr>" by blast
  from choose_supported [OF n(1)] n(2) new tr ed show ?thesis by auto
qed

text \<open>An environment for the examples: a connected HDMI display that lists 1080p60.\<close>

definition ex_ctl :: ctl_env where
  "ex_ctl = \<lparr>
     ce_GetVideoPort = (\<lambda>_ p. if p = VP_HDMI then (ERROR_NONE, Some 1) else (ERROR_GENERAL, None)),
     ce_IsConnected = (\<lambda>_ _. (ERROR_NONE, Some True)),
     ce_GetResolution = (\<lambda>_ _. (ERROR_NONE, Some \<lparr>vr_name = ''1080p60'', vr_rest = 0\<rparr>)),
     ce_GetDisplay = (\<lambda>_. (ERROR_NONE, Some 7)),
     ce_GetEdid = (\<lambda>_ _. (ERROR_NONE, \<lparr>ed_num = 2, ed_hdmi = True, ed_names = Some [''1080p60'']\<rparr>)),
     ce_GetEdidBytes = (\<lambda>_ _. (ERROR_NONE, replicate 512 1, 256)),
     ce_GetAudioPort = (\<lambda>_ _. (ERROR_NONE, Some 3)),
     ce_GetStereoMode = (\<lambda>_ _. (ERROR_NONE, STEREO_PASSTHROUGH)),
     ce_GetStereoAuto = (\<lambda>_ _. (ERROR_NONE, Some 0)),
     ce_GetIgnoreEdid = (\<lambda>_ _. Some False),
     ce_Timeout = (\<lambda>_. 9), ce_TuneReady = (\<lambda>_. 0), ce_Properties = None\<rparr>"

lemma ex_set_resolution:
  "SetResolution ex_ctl 1 VP_HDMI (ctl_initial True) = Ret ((ctl_initial True)
     \<lparr>ct_trace := [CGetResolution 1, CGetDisplay, CGetDisplayEdid 7,
        CSetResolution 1 \<lparr>vr_name = ''1080p60'', vr_rest = 0\<rparr>]\<rparr>)"
  by (simp add: SetResolution_def hdmi_resolution_def set_if_valid_def log_call_def ctl_initial_def
      ex_ctl_def out_or_def chooseResolution_def isResInEdid_def c_str_def Let_def)

theorem hdmi_resolution_supported_witness:
  "isResInEdid (out_or (ed_names (snd (ce_GetEdid ex_ctl [] 7))) []) ''1080p60''"
proof -
  let ?r = "\<lparr>vr_name = ''1080p60'', vr_rest = 0\<rparr>"
  have "CSetResolution 1 ?r \<in> set (new_calls (ctl_initial True) ((ctl_initial True)
     \<lparr>ct_trace := [CGetResolution 1, CGetDisplay, CGetDisplayEdid 7, CSetResolution 1 ?r]\<rparr>))"
    by (simp add: new_calls_def ctl_initial_def)
  from hdmi_resolution_supported [OF ex_set_resolution this] show ?thesis
    by (auto simp: ex_ctl_def c_str_def out_or_def)
qed

text \<open>
  One resolution at most: setting the video port resolution, whatever ports exist and
  whether or not the display is connected, makes at most one change of resolution, on a valid
  handle, as its last call; everything before it only asks, and no other state changes.
\<close>

theorem one_resolution_per_run:
  assumes "SetVideoPortResolution e s = Ret s'"
  shows "\<exists>t u. ct_trace s' = ct_trace s @ t @ u \<and> (\<forall>c \<in> set t. is_query c)
     \<and> (u = [] \<or> (\<exists>h r. u = [CSetResolution h r] \<and> h \<noteq> 0))
     \<and> s' = s\<lparr>ct_trace := ct_trace s'\<rparr>"
proof -
  from one_resolution_SetVideoPort [OF assms] consider "adds is_query s s'"
    | s1 h r where "adds is_query s s1" "h \<noteq> 0" "s' = log_call (CSetResolution h r) s1"
    unfolding adds_one_resolution_def by blast
  then show ?thesis
  proof cases
    case 1
    then obtain t where "s' = s\<lparr>ct_trace := ct_trace s @ t\<rparr>" "\<forall>c \<in> set t. is_query c"
      by (auto simp: adds_def)
    then show ?thesis by (intro exI [of _ t] exI [of _ "[]"]) simp
  next
    case 2
    then obtain t where "s1 = s\<lparr>ct_trace := ct_trace s @ t\<rparr>" "\<forall>c \<in> set t. is_query c"
      by (auto simp: adds_def)
    with 2 show ?thesis
      by (intro exI [of _ t] exI [of _ "[CSetResolution h r]"]) (simp add: log_call_def)
  qed
qed

theorem one_resolution_per_run_witness:
  "\<exists>s'. SetVideoPortResolution ex_ctl (ctl_initial True) = Ret s' \<and> s' = (ctl_initial True)\<lparr>ct_trace := ct_trace s'\<rparr>"
proof -
  have "\<exists>s'. SetVideoPortResolution ex_ctl (ctl_initial True) = Ret s'"
    by (simp add: SetVideoPortResolution_def GetVideoPortHandle_def IsHDMIConnected_def
      IsVideoPortDisplayConnected_def SetResolution_def hdmi_resolution_def set_if_valid_def
      log_call_def ctl_initial_def ex_ctl_def out_or_def chooseResolution_def isResInEdid_def c_str_def Let_def)
  with one_resolution_per_run [of ex_ctl "ctl_initial True"] show ?thesis by blast
qed

text \<open>
  What an HDCP notification does, when it returns: authentication sets the flag, a failure
  clears it, other statuses keep it; it broadcasts the HDCP state exactly once, at the end, as
  0 for a failure and as 1 for every other status, authenticated or not; it sets at most one
  resolution, and none when the EDID is ignored (the first authentication after start apart).
  After an authentication no delayed resolution is pending and the boot-up exception is used up.
\<close>

theorem hdcp_notification:
  assumes "HandleHDCPStatus e h s = Ret s'"
  shows "hdcpAuthenticated s' = (h = HDCP_AUTHENTICATED \<or> (h \<noteq> HDCP_AUTHENTICATIONFAILURE \<and> hdcpAuthenticated s))
     \<and> (\<exists>t. ct_trace s' = ct_trace s @ t @ [CBroadcastHdcp (if h = HDCP_AUTHENTICATIONFAILURE then 0 else 1)]
           \<and> length (filter is_set_resolution t) \<le> hdcp_sets h s \<and> (\<forall>b. CBroadcastHdcp b \<notin> set t))
     \<and> (h = HDCP_AUTHENTICATED \<longrightarrow> hotplugEventSrc s' = 0 \<and> \<not> bootupFlagEnabled s')"
proof (cases h)
  case HDCP_AUTHENTICATED
  with assms obtain s1 where s1: "s' = log_call (CBroadcastHdcp 1) (ScheduleEdidDump s1)"
    "quiet (hdcp_sets h s) s s1" "hdcpAuthenticated s1" "\<not> bootupFlagEnabled s1" "hotplugEventSrc s1 = 0"
    using hdcp_authenticated [of e s s'] by auto
  from quiet_end [OF s1(2), of 1] s1 HDCP_AUTHENTICATED show ?thesis
    by (simp add: ScheduleEdidDump_def)
next
  case HDCP_AUTHENTICATIONFAILURE
  with assms obtain s1 where s1: "s' = log_call (CBroadcastHdcp 0) (ScheduleEdidDump s1)"
    "quiet (hdcp_sets h s) s s1" "\<not> hdcpAuthenticated s1"
    using hdcp_failure [of e s s'] by auto
  from quiet_end [OF s1(2), of 0] s1 HDCP_AUTHENTICATIONFAILURE show ?thesis
    by (simp add: ScheduleEdidDump_def)
next
  case (HDCP_other n)
  with assms show ?thesis by (auto simp: HandleHDCPStatus_def)
qed

theorem hdcp_notification_witness:
  "\<exists>s'. HandleHDCPStatus ex_ctl (HDCP_other 4) (ctl_initial True) = Ret s'
     \<and> \<not> hdcpAuthenticated s' \<and> last (ct_trace s') = CBroadcastHdcp 1"
proof -
  have "HandleHDCPStatus ex_ctl (HDCP_other 4) (ctl_initial True)
      = Ret (log_call (CBroadcastHdcp 1) (ctl_initial True))"
    by (simp add: HandleHDCPStatus_def)
  with hdcp_notification [OF this] show ?thesis by (auto simp: ctl_initial_def)
qed

text \<open>
  The controller's steps as long as it stays in the EAS mode.
\<close>

definition eas_step :: "ctl_env \<Rightarrow> ctl_conf \<Rightarrow> ctl_conf \<Rightarrow> bool" where
  "eas_step e x y \<longleftrightarrow> (\<exists>l. ctl_step e x l y) \<and> easMode (snd (snd y)) = SYS_MODE_EAS"

text \<open>
  C24. Pass-through audio during an emergency alert comes only from a \<open>SetAudioMode\<close> that had
  passed its test before the alert. In any interleaving of the controller's threads, from a
  reachable configuration in the EAS mode and as long as that lasts, the number of times a port
  is set to pass-through is at most the number of settings those calls had left (three at most
  for each); so it is none if no such call is under way. New calls of \<open>SetAudioMode\<close> do
  nothing, and the switch into the mode replaces pass-through by stereo. That a call under way
  does break the alert is \<open>eas_race_sets_passthrough\<close>.
\<close>

theorem eas_no_passthrough:
  assumes "ctl_reach e (PcLoop, [], s0) x" and "easMode (snd (snd x)) = SYS_MODE_EAS" and "(eas_step e)\<^sup>*\<^sup>* x y"
  shows "length (filter is_passthrough (new_calls (snd (snd x)) (snd (snd y)))) + late_settings y \<le> late_settings x
     \<and> late_settings x \<le> 3 * length (filter (\<lambda>j. ports_left j \<noteq> 0) (jobs_of x))"
proof -
  have "passthroughs (snd (snd x)) (snd (snd y)) + late_settings y \<le> late_settings x
      \<and> (\<exists>t. ct_trace (snd (snd y)) = ct_trace (snd (snd x)) @ t)
      \<and> (\<forall>j \<in> set (jobs_of y). job_ok j) \<and> easMode (snd (snd y)) = SYS_MODE_EAS"
    using assms(3)
  proof (induction rule: rtranclp_induct)
    case base
    then show ?case using assms(2) reach_jobs [OF assms(1)] by (simp add: new_calls_def)
  next
    case (step y z)
    then obtain l where l: "ctl_step e y l z" "easMode (snd (snd z)) = SYS_MODE_EAS" by (auto simp: eas_step_def)
    from step_eas [OF l(1)] step_jobs_ok [OF l(1)] step.IH l(2)
      new_calls_trans [of "snd (snd y)" "snd (snd x)" _ "snd (snd z)"] show ?case by fastforce
  qed
  moreover have "late_settings x \<le> 3 * length (filter (\<lambda>j. ports_left j \<noteq> 0) (jobs_of x))"
    using reach_jobs [OF assms(1)] unfolding late_settings_def by (intro sum_left) simp
  ultimately show ?thesis by blast
qed

lemma alone_reach:
  "audio_alone e j s s' \<Longrightarrow> ctl_reach e x (pc, js @ [j], s) \<Longrightarrow> ctl_reach e x (pc, js, s')"
proof (induction rule: audio_alone.induct)
  case (ends j s s')
  have "ctl_step e (pc, js @ [j], s) (LJob (length js)) (pc, js, s')"
    using ctl_step.job [of "length js" "js @ [j]" e s None s' pc] ends(1) by simp
  with ends(2) show ?case by (rule ctl_reach.step)
next
  case (goes j s j' s1 s')
  have "ctl_step e (pc, js @ [j], s) (LJob (length js)) (pc, js @ [j'], s1)"
    using ctl_step.job [of "length js" "js @ [j]" e s "Some j'" s1 pc] goes(1) by simp
  with goes(4) have "ctl_reach e x (pc, js @ [j'], s1)" by (rule ctl_reach.step)
  then show ?case by (rule goes(3))
qed

text \<open>A job that does not change the mode, run alone in the EAS mode.\<close>

fun changes_mode :: "audio_job \<Rightarrow> bool" where
  "changes_mode (SysTest m) \<longleftrightarrow> True"
| "changes_mode (SysSet m) \<longleftrightarrow> True"
| "changes_mode _ \<longleftrightarrow> False"

lemma next_mode:
  "audio_next e j s = (r, s') \<Longrightarrow> \<not> changes_mode j \<Longrightarrow> easMode s' = easMode s \<and> (\<forall>j'. r = Some j' \<longrightarrow> \<not> changes_mode j')"
proof (induction e j s rule: audio_next.induct)
  case (5 e eas p ps s)
  then show ?case
    by (cases eas) (auto dest!: adds_eas_decide adds_audio_decide adds_frame(7) split: prod.splits option.splits)
qed (auto split: if_splits)

lemma alone_eas:
  "audio_alone e j s s' \<Longrightarrow> easMode s = SYS_MODE_EAS \<Longrightarrow> \<not> changes_mode j \<Longrightarrow>
     (eas_step e)\<^sup>*\<^sup>* (pc, js @ [j], s) (pc, js, s')"
proof (induction rule: audio_alone.induct)
  case (ends j s s')
  have "ctl_step e (pc, js @ [j], s) (LJob (length js)) (pc, js, s')"
    using ctl_step.job [of "length js" "js @ [j]" e s None s' pc] ends(1) by simp
  with next_mode [OF ends(1,3)] ends(2) show ?case by (auto simp: eas_step_def)
next
  case (goes j s j' s1 s')
  have "ctl_step e (pc, js @ [j], s) (LJob (length js)) (pc, js @ [j'], s1)"
    using ctl_step.job [of "length js" "js @ [j]" e s "Some j'" s1 pc] goes(1) by simp
  with next_mode [OF goes(1,5)] goes(4) have "eas_step e (pc, js @ [j], s) (pc, js @ [j'], s1)"
    by (auto simp: eas_step_def)
  with goes(3) next_mode [OF goes(1,5)] goes(4) show ?case by (simp add: converse_rtranclp_into_rtranclp)
qed

text \<open>
  The race: TuneReady makes the controller set the audio modes; between its reading a port in
  pass-through and its setting that mode the alert comes, and its own work, stereo for all ports,
  is done. The next step of the first call sets the port to pass-through, in the EAS mode, with no
  work of the alert left to correct it.
\<close>

theorem eas_race_sets_passthrough:
  assumes "tuneReady s = 0" and "easMode s = SYS_MODE_NORMAL" and "ct_deviceSettings s"
    and "\<And>t. ce_GetAudioPort e t AP_SPDIF = (ERROR_NONE, Some h)" and "h \<noteq> 0"
    and "\<And>t. ce_GetStereoMode e t h = (ERROR_NONE, STEREO_PASSTHROUGH)"
  shows "\<exists>y z s1. ctl_reach e (pc, [], s) y \<and> snd (snd y) = SetEASAudioMode e s1 \<and> easMode (snd (snd y)) = SYS_MODE_EAS
     \<and> ctl_step e y (LJob 0) z \<and> easMode (snd (snd z)) = SYS_MODE_EAS
     \<and> (\<exists>js. fst (snd z) = [ModePort False js])
     \<and> ct_trace (snd (snd z)) = ct_trace (snd (snd y)) @ [CSetStereoMode h STEREO_PASSTHROUGH]"
proof -
  let ?s1 = "s\<lparr>tuneReady := 1\<rparr>"
  let ?s2 = "log_call (CGetStereoMode h) (log_call (CGetAudioPort AP_SPDIF) ?s1)"
  let ?j = "ModeSet False h STEREO_PASSTHROUGH [AP_HDMI, AP_SPEAKER]"
  let ?s4 = "SetEASAudioMode e (?s2\<lparr>easMode := SYS_MODE_EAS\<rparr>)"
  have d: "audio_decide e AP_SPDIF ?s1 = (Some (h, STEREO_PASSTHROUGH), ?s2)"
    using assms(4-6) by (simp add: audio_decide_def audio_port_mode_def out_or_def Let_def)
  have "ctl_reach e (pc, [], s) (pc, [ModeTest False], ?s1)"
    using ctl_step.tune [of e pc "[]" s] assms(1) by (auto intro: ctl_reach.step [OF ctl_reach.refl])
  moreover have "ctl_step e (pc, [ModeTest False], ?s1) (LJob 0) (pc, [ModePort False supportedPortTypes], ?s1)"
    using ctl_step.job [of 0 "[ModeTest False]" e ?s1 "Some (ModePort False supportedPortTypes)" ?s1 pc] assms(2,3)
    by (simp add: SYS_MODE_NORMAL_def)
  ultimately have "ctl_reach e (pc, [], s) (pc, [ModePort False supportedPortTypes], ?s1)" by (rule ctl_reach.step)
  moreover have "ctl_step e (pc, [ModePort False supportedPortTypes], ?s1) (LJob 0) (pc, [?j], ?s2)"
    using ctl_step.job [of 0 "[ModePort False supportedPortTypes]" e ?s1 "Some ?j" ?s2 pc] d
    by (simp add: supportedPortTypes_def)
  ultimately have "ctl_reach e (pc, [], s) (pc, [?j], ?s2)" by (rule ctl_reach.step)
  then have "ctl_reach e (pc, [], s) (pc, [?j] @ [SysTest SYS_MODE_EAS], ?s2)"
    by (rule ctl_reach.step) (use ctl_step.sysmode [of e pc "[?j]" ?s2] in simp)
  then have r: "ctl_reach e (pc, [], s) (pc, [?j], SysModeChange e SYS_MODE_EAS ?s2)"
    by (rule alone_reach [OF handlers_alone(3)])
  have s4: "SysModeChange e SYS_MODE_EAS ?s2 = ?s4"
    using assms(2) by (simp add: SysModeChange_def SYS_MODE_EAS_def SYS_MODE_NORMAL_def)
  have eas: "easMode ?s4 = SYS_MODE_EAS"
    using adds_frame(7) [OF adds_SetEASAudioMode] by simp
  have "ctl_step e (pc, [?j], ?s4) (LJob 0) (pc, [ModePort False [AP_HDMI, AP_SPEAKER]],
      log_call (CSetStereoMode h STEREO_PASSTHROUGH) ?s4)"
    using ctl_step.job [of 0 "[?j]" e ?s4 "Some (ModePort False [AP_HDMI, AP_SPEAKER])"
        "log_call (CSetStereoMode h STEREO_PASSTHROUGH) ?s4" pc] by simp
  with r eas show ?thesis unfolding s4
    by (intro exI [of _ "(pc, [?j], ?s4)"] exI [of _ "(pc, [ModePort False [AP_HDMI, AP_SPEAKER]],
        log_call (CSetStereoMode h STEREO_PASSTHROUGH) ?s4)"] exI [of _ "?s2\<lparr>easMode := SYS_MODE_EAS\<rparr>"]) simp
qed

theorem eas_no_passthrough_witness:
  "passthroughs (ctl_initial True) (SysModeChange ex_ctl SYS_MODE_EAS (ctl_initial True)) = 0"
proof -
  let ?s = "(ctl_initial True)\<lparr>easMode := SYS_MODE_EAS\<rparr>"
  let ?a = "(PcLoop, [ModeTest True], ?s) :: ctl_conf"
  have "ctl_reach ex_ctl (PcLoop, [], ctl_initial True) (PcLoop, [SysTest SYS_MODE_EAS], ctl_initial True)"
    using ctl_step.sysmode [of ex_ctl PcLoop "[]" "ctl_initial True" SYS_MODE_EAS]
    by (auto intro: ctl_reach.step [OF ctl_reach.refl])
  moreover have "ctl_step ex_ctl (PcLoop, [SysTest SYS_MODE_EAS], ctl_initial True) (LJob 0)
      (PcLoop, [SysSet SYS_MODE_EAS], ctl_initial True)"
    using ctl_step.job [of 0 "[SysTest SYS_MODE_EAS]" ex_ctl "ctl_initial True" "Some (SysSet SYS_MODE_EAS)"
        "ctl_initial True" PcLoop] by (simp add: ctl_initial_def SYS_MODE_NORMAL_def SYS_MODE_EAS_def)
  ultimately have "ctl_reach ex_ctl (PcLoop, [], ctl_initial True) (PcLoop, [SysSet SYS_MODE_EAS], ctl_initial True)"
    by (rule ctl_reach.step)
  moreover have "ctl_step ex_ctl (PcLoop, [SysSet SYS_MODE_EAS], ctl_initial True) (LJob 0) ?a"
    using ctl_step.job [of 0 "[SysSet SYS_MODE_EAS]" ex_ctl "ctl_initial True" "Some (ModeTest True)" ?s PcLoop] by simp
  ultimately have "ctl_reach ex_ctl (PcLoop, [], ctl_initial True) ?a" by (rule ctl_reach.step)
  moreover have "(eas_step ex_ctl)\<^sup>*\<^sup>* ?a (PcLoop, [], SetEASAudioMode ex_ctl ?s)"
    using alone_eas [OF handlers_alone(2) [of ex_ctl ?s], of PcLoop "[]"] by simp
  ultimately have "passthroughs ?s (SetEASAudioMode ex_ctl ?s) + late_settings (PcLoop, [], SetEASAudioMode ex_ctl ?s)
      \<le> late_settings ?a"
    using eas_no_passthrough [of ex_ctl "ctl_initial True" ?a "(PcLoop, [], SetEASAudioMode ex_ctl ?s)"] by simp
  then have "passthroughs ?s (SetEASAudioMode ex_ctl ?s) = 0" by (simp add: late_settings_def jobs_of_def)
  moreover have "SysModeChange ex_ctl SYS_MODE_EAS (ctl_initial True) = SetEASAudioMode ex_ctl ?s"
    by (simp only: SysModeChange_def Let_def) (simp add: SYS_MODE_NORMAL_def SYS_MODE_EAS_def ctl_initial_def)
  moreover have "new_calls (ctl_initial True) y = new_calls ?s y" for y by (simp add: new_calls_def)
  ultimately show ?thesis by (simp only:)
qed

text \<open>
  The thread changes the resolution only when it should: its step that handles an event sets a
  resolution only for a connect event, after TuneReady, on an authenticated link, and then one; it
  goes on to \<open>SetAudioMode\<close>.
\<close>

theorem thread_sets_only_when_ready:
  assumes "ctl_step e (PcTaken ev, js, s) LHandle (pc', js', s')" and "CSetResolution h r \<in> set (new_calls s s')"
  shows "ev = EV_CONNECTED \<and> tuneReady s = 1 \<and> hdcpAuthenticated s
     \<and> length (filter is_set_resolution (new_calls s s')) = 1 \<and> pc' = PcAudio (ModeTest False)"
proof -
  from assms(1) obtain audio where ev: "resolution_event e ev s = Ret (audio, s')"
    "pc' = (if audio then PcAudio (ModeTest False) else PcReset)" by (auto elim: ctl_handleE)
  from resolution_event_quiet(1) [OF ev(1)] have
    le: "length (filter is_set_resolution (new_calls s s'))
       \<le> (if tuneReady s = 1 \<and> ev = EV_CONNECTED \<and> hdcpAuthenticated s then 1 else 0)"
    by (auto simp: quiet_def new_calls_def)
  moreover have "filter is_set_resolution (new_calls s s') \<noteq> []"
    using assms(2) by (auto simp: filter_empty_conv intro!: bexI [of _ "CSetResolution h r"])
  then have "1 \<le> length (filter is_set_resolution (new_calls s s'))"
    by (cases "filter is_set_resolution (new_calls s s')") auto
  ultimately show ?thesis using ev(2) resolution_event_quiet(6) [OF ev(1)] by (simp split: if_splits)
qed

definition ex_ready :: ctl_state where
  "ex_ready = (ctl_initial True)\<lparr>tuneReady := 1, hdcpAuthenticated := True\<rparr>"

lemma ex_ready_event:
  "\<exists>s'. resolution_event ex_ctl EV_CONNECTED ex_ready = Ret (True, s')
     \<and> CSetResolution 1 \<lparr>vr_name = ''1080p60'', vr_rest = 0\<rparr> \<in> set (new_calls ex_ready s')"
proof -
  have "\<exists>s2. SetVideoPortResolution ex_ctl ex_ready = Ret s2
      \<and> CSetResolution 1 \<lparr>vr_name = ''1080p60'', vr_rest = 0\<rparr> \<in> set (ct_trace s2)"
    by (simp add: SetVideoPortResolution_def GetVideoPortHandle_def IsHDMIConnected_def
      IsVideoPortDisplayConnected_def SetResolution_def hdmi_resolution_def set_if_valid_def
      log_call_def ctl_initial_def ex_ready_def ex_ctl_def out_or_def chooseResolution_def
      isResInEdid_def c_str_def Let_def)
  then obtain s2 where s2: "SetVideoPortResolution ex_ctl ex_ready = Ret s2"
    "CSetResolution 1 \<lparr>vr_name = ''1080p60'', vr_rest = 0\<rparr> \<in> set (ct_trace s2)" by blast
  have "resolution_event ex_ctl EV_CONNECTED ex_ready = Ret (True, s2)"
    using s2(1) by (simp add: resolution_event_def clear_hotplug_source_def ex_ready_def ctl_initial_def)
  moreover have "new_calls ex_ready x = ct_trace x" for x
    by (simp add: new_calls_def ex_ready_def ctl_initial_def)
  ultimately show ?thesis using s2(2) by simp
qed

theorem thread_sets_only_when_ready_witness:
  "\<exists>s'. resolution_event ex_ctl EV_CONNECTED ex_ready = Ret (True, s')
     \<and> length (filter is_set_resolution (new_calls ex_ready s')) = 1"
proof -
  from ex_ready_event obtain s' where s': "resolution_event ex_ctl EV_CONNECTED ex_ready = Ret (True, s')"
    "CSetResolution 1 \<lparr>vr_name = ''1080p60'', vr_rest = 0\<rparr> \<in> set (new_calls ex_ready s')" by blast
  from thread_sets_only_when_ready [OF ctl_step.handle [OF s'(1), of "[]"] s'(2)] s'(1) show ?thesis by blast
qed

text \<open>
  An event that arrives while the thread is still busy with the previous one is lost: if a
  hot plug (connect or disconnect) happens after the thread took its event and before it resets
  the status, then at the reset the status is empty again, and the thread, unless it is told
  to stop, waits for yet another event without having acted on this one.
\<close>

lemma handle_keeps_exit: "ctl_step e y LHandle z \<Longrightarrow> exit_flag (snd (snd z)) = exit_flag (snd (snd y))"
  by (cases y) (auto elim!: ctl_handleE dest: resolution_event_quiet(3) split: if_splits)

lemma next_keeps_exit: "audio_next e j s = (r, s') \<Longrightarrow> exit_flag s' = exit_flag s"
proof (induction e j s rule: audio_next.induct)
  case (5 e eas p ps s)
  then show ?case
    by (cases eas) (auto dest!: adds_eas_decide adds_audio_decide adds_frame(9) split: prod.splits)
qed auto

lemma audio_keeps_exit: "ctl_step e y LAudio z \<Longrightarrow> exit_flag (snd (snd z)) = exit_flag (snd (snd y))"
  by (cases y; cases "fst y") (auto elim!: ctl_audioE dest: next_keeps_exit)

theorem hotplug_while_busy_lost:
  assumes "ctl_step e (pc, js, s) (LHotPlug c) y"
    and "(\<lambda>y z. ctl_step e y LHandle z \<or> ctl_step e y LAudio z)\<^sup>*\<^sup>* y y'"
    and "ctl_step e y' LReset z" and "\<not> exit_flag s"
  shows "displayEventStatus (snd (snd z)) = EV_MAX \<and> \<not> exit_flag (snd (snd z))
     \<and> (\<forall>w. ctl_step e z LLoop w \<longrightarrow> (\<nexists>v. ctl_step e w LTake v))"
proof -
  have y: "y = (pc, js, OnDisplayHDMIHotPlug e c s)" using assms(1) by (auto elim: ctl_hotplugE)
  then have "\<not> exit_flag (snd (snd y))" using assms(4) by (simp add: OnDisplayHDMIHotPlug_def)
  moreover have "exit_flag (snd (snd y')) = exit_flag (snd (snd y))"
    using assms(2) by (induction rule: rtranclp_induct) (auto dest: handle_keeps_exit audio_keeps_exit)
  moreover have "\<exists>js'. z = (PcLoop, js', (snd (snd y'))\<lparr>displayEventStatus := EV_MAX\<rparr>)"
    using assms(3) by (cases y') (auto elim: ctl_resetE)
  ultimately show ?thesis by (auto elim!: ctl_loopE ctl_takeE)
qed

theorem hotplug_while_busy_lost_witness:
  "displayEventStatus ((OnDisplayHDMIHotPlug ex_ctl False ex_ready)\<lparr>displayEventStatus := EV_MAX\<rparr>) = EV_MAX
     \<and> (\<nexists>v. ctl_step ex_ctl (PcWait, [], (OnDisplayHDMIHotPlug ex_ctl False ex_ready)\<lparr>displayEventStatus := EV_MAX\<rparr>) LTake v)"
proof -
  let ?y = "(PcReset, [], OnDisplayHDMIHotPlug ex_ctl False ex_ready) :: ctl_conf"
  let ?z = "(PcLoop, [], (OnDisplayHDMIHotPlug ex_ctl False ex_ready)\<lparr>displayEventStatus := EV_MAX\<rparr>) :: ctl_conf"
  have x: "\<not> exit_flag ex_ready" by (simp add: ex_ready_def ctl_initial_def)
  have a: "ctl_step ex_ctl (PcReset, [], ex_ready) (LHotPlug False) ?y" by (rule ctl_step.hotplug)
  have b: "ctl_step ex_ctl ?y LReset ?z" by (rule ctl_step.reset)
  have "displayEventStatus (snd (snd ?z)) = EV_MAX \<and> \<not> exit_flag (snd (snd ?z))
     \<and> (\<forall>w. ctl_step ex_ctl ?z LLoop w \<longrightarrow> (\<nexists>v. ctl_step ex_ctl w LTake v))"
    by (rule hotplug_while_busy_lost [OF a _ b x]) simp
  moreover from this have "ctl_step ex_ctl ?z LLoop (PcWait, snd ?z)"
    by (auto intro: ctl_step.loop_enter)
  ultimately show ?thesis by auto
qed

text \<open>
  TuneReady does not release the thread: a display connected before TuneReady gets no
  resolution from it. From a waiting thread, the run connect, take, handle, reset, loop,
  TuneReady is possible over every environment; it sets no resolution, and at its end, with
  TuneReady set and the display still connected, the thread cannot proceed, because the
  TuneReady handler signals the condition variable but leaves the event status empty.
\<close>

theorem connect_before_tuneready_lost:
  assumes "tuneReady s = 0" and "\<not> exit_flag s"
  shows "\<exists>js s'. ctl_reach e (PcWait, [], s) (PcWait, js, s') \<and> tuneReady s' = 1 \<and> quiet 0 s s'
     \<and> (\<nexists>v. ctl_step e (PcWait, js, s') LTake v)"
proof -
  let ?s1 = "OnDisplayHDMIHotPlug e True s"
  let ?s2 = "clear_hotplug_source ?s1"
  let ?s3 = "?s2\<lparr>displayEventStatus := EV_MAX\<rparr>"
  have t: "tuneReady ?s1 = 0" "displayEventStatus ?s1 = EV_CONNECTED" "\<not> exit_flag ?s1"
    using assms by (simp_all add: OnDisplayHDMIHotPlug_def)
  then have h: "resolution_event e EV_CONNECTED ?s1 = Ret (False, ?s2)" by (simp add: resolution_event_def Let_def)
  have "ctl_reach e (PcWait, [], s) (PcWait, [], ?s1)" by (rule ctl_reach.step [OF ctl_reach.refl ctl_step.hotplug])
  moreover have "ctl_step e (PcWait, [], ?s1) LTake (PcTaken EV_CONNECTED, [], ?s1)"
    using ctl_step.take [of ?s1 e] t(2) by simp
  ultimately have "ctl_reach e (PcWait, [], s) (PcTaken EV_CONNECTED, [], ?s1)" by (rule ctl_reach.step)
  then have "ctl_reach e (PcWait, [], s) (PcReset, [], ?s2)"
    by (rule ctl_reach.step) (use ctl_step.handle [OF h] in simp)
  then have "ctl_reach e (PcWait, [], s) (PcLoop, [], ?s3)" by (rule ctl_reach.step) (rule ctl_step.reset)
  then have "ctl_reach e (PcWait, [], s) (PcWait, [], ?s3)"
    by (rule ctl_reach.step) (rule ctl_step.loop_enter, simp add: t(3))
  then have r: "ctl_reach e (PcWait, [], s) (PcWait, [ModeTest False], ?s3\<lparr>tuneReady := 1\<rparr>)"
    by (rule ctl_reach.step) (use ctl_step.tune [of e PcWait "[]" ?s3] t in simp)
  have q1: "quiet 0 s ?s1" using quiet_background [of s e BGCOLOR_NONE]
    by (simp add: quiet_def OnDisplayHDMIHotPlug_def)
  have "quiet 0 s ?s2" using quiet_trans [OF q1 quiet_clear] by simp
  then have "quiet 0 s (?s3\<lparr>tuneReady := 1\<rparr>)" by (simp add: quiet_def)
  moreover have "\<nexists>v. ctl_step e (PcWait, [ModeTest False], ?s3\<lparr>tuneReady := 1\<rparr>) LTake v"
    using t by (auto elim: ctl_takeE)
  ultimately show ?thesis using r by fastforce
qed

theorem connect_before_tuneready_lost_witness:
  "\<exists>js s'. ctl_reach ex_ctl (PcWait, [], ctl_initial True) (PcWait, js, s') \<and> tuneReady s' = 1
     \<and> (\<nexists>v. ctl_step ex_ctl (PcWait, js, s') LTake v)"
  using connect_before_tuneready_lost [of "ctl_initial True" ex_ctl] by (auto simp: ctl_initial_def)

end
