(* ===== verification/Av_Ports.thy ===== *)
theory Av_Ports
  imports DS_Prelude
begin

section \<open>Power states and the AV ports (\<open>DSPwrEventListener\<close>, port part)\<close>

text \<open>
  Models the part of \<open>DSPwrEventListener.cpp\<close> that drives the ports: the cached port
  configuration, the table of video ports that stay on in standby, \<open>SetAVPortsPowerState\<close>,
  \<open>SetLEDStatus\<close> and the IARM handlers over them. Calls into DeviceSettings, the manufacturer
  library and the reboot information files are recorded in \<open>av_trace\<close> and answered by \<open>av_env\<close>,
  functions of the calls made so far. The interface calls are taken not to throw, so the
  \<open>catch\<close> blocks around them are not reached.
\<close>

subsection \<open>Calls, environment, state\<close>

datatype PowerState =
    POWER_STATE_UNKNOWN
  | POWER_STATE_OFF
  | POWER_STATE_STANDBY
  | POWER_STATE_ON
  | POWER_STATE_STANDBY_LIGHT_SLEEP
  | POWER_STATE_STANDBY_DEEP_SLEEP

datatype bl_pattern = BL_NORMAL | BL_SILENT | BL_SILENT_LED_ON

datatype rdk_profile = PROFILE_NOT_FOUND | PROFILE_STB | PROFILE_TV

datatype av_call =
    AInstance
  | AGetConfigs
  | AGetVideoPort int int
  | AEnableVideoPort int bool
  | AGetAudioPort int int
  | AIsAudioPortEnabled int
  | AEnableAudioPort int bool
  | ASetFPDState bool
  | AGetEasMode
  | ASetEasAudioMode
  | ASetBLPattern bl_pattern
  | AAccess string
  | AReadFile string

type_synonym av_hist = "av_call list"

record raw_config =
  rc_videoPorts :: "(int \<times> int) list"
  rc_videoPortTypes :: "(int \<times> string) list"
  rc_audioPorts :: "(int \<times> int) list"

record VideoPortEntry =
  ve_type :: int
  ve_index :: int
  ve_typeName :: string
  ve_name :: string

record AudioPortEntry =
  ae_type :: int
  ae_index :: int
  ae_name :: string

record av_env =
  ev_instance :: "av_hist \<Rightarrow> bool"
  ev_configs :: "av_hist \<Rightarrow> coreErr \<times> raw_config"
  ev_videoName :: "int \<Rightarrow> int \<Rightarrow> string"
  ev_audioName :: "int \<Rightarrow> int \<Rightarrow> string"
  ev_videoPort :: "av_hist \<Rightarrow> int \<Rightarrow> int \<Rightarrow> coreErr \<times> int option"
  ev_enableVideo :: "av_hist \<Rightarrow> int \<Rightarrow> bool \<Rightarrow> coreErr"
  ev_audioPort :: "av_hist \<Rightarrow> int \<Rightarrow> int \<Rightarrow> coreErr \<times> int option"
  ev_audioEnabled :: "av_hist \<Rightarrow> int \<Rightarrow> coreErr \<times> bool option"
  ev_enableAudio :: "av_hist \<Rightarrow> int \<Rightarrow> bool \<Rightarrow> coreErr"
  ev_setFPDState :: "av_hist \<Rightarrow> bool \<Rightarrow> coreErr"
  ev_easMode :: "av_hist \<Rightarrow> bool"
  ev_setBLPattern :: "av_hist \<Rightarrow> bl_pattern \<Rightarrow> bool"
  ev_access :: "av_hist \<Rightarrow> string \<Rightarrow> bool"
  ev_readFile :: "av_hist \<Rightarrow> string \<Rightarrow> string option"
  ev_profile :: rdk_profile
  ev_nameLength :: nat

record standby_entry =
  sv_port :: string
  sv_isEnabled :: bool

record av_state =
  av_deviceSettings :: bool
  av_videoPorts :: "VideoPortEntry list"
  av_audioPorts :: "AudioPortEntry list"
  av_standby :: "standby_entry list"
  av_curState :: PowerState
  av_trace :: av_hist

definition MAX_NUM_VIDEO_PORTS :: nat where "MAX_NUM_VIDEO_PORTS = 5"

definition av_initial :: av_state where
  "av_initial = \<lparr>av_deviceSettings = False, av_videoPorts = [], av_audioPorts = [],
     av_standby = replicate MAX_NUM_VIDEO_PORTS \<lparr>sv_port = [], sv_isEnabled = False\<rparr>,
     av_curState = POWER_STATE_STANDBY, av_trace = []\<rparr>"

definition av_log :: "av_call \<Rightarrow> av_state \<Rightarrow> av_state" where
  "av_log c s = s\<lparr>av_trace := av_trace s @ [c]\<rparr>"

definition av_out :: "'a option \<Rightarrow> 'a \<Rightarrow> 'a" where
  "av_out v d = (case v of Some x \<Rightarrow> x | None \<Rightarrow> d)"

subsection \<open>The port configuration\<close>

definition type_name :: "(int \<times> string) list \<Rightarrow> int \<Rightarrow> string" where
  "type_name tcs t = (case find (\<lambda>tc. fst tc = t) tcs of Some tc \<Rightarrow> snd tc | None \<Rightarrow> [])"

definition RefreshPortConfigurationCache :: "av_env \<Rightarrow> av_state \<Rightarrow> av_state" where
  "RefreshPortConfigurationCache e s =
     (let r = ev_configs e (av_trace s);
          s1 = av_log AGetConfigs s;
          rawCfg = snd r
      in if fst r \<noteq> ERROR_NONE then s1
         else s1\<lparr>av_videoPorts := map (\<lambda>pc. \<lparr>ve_type = fst pc, ve_index = snd pc,
                    ve_typeName = type_name (rc_videoPortTypes rawCfg) (fst pc),
                    ve_name = ev_videoName e (fst pc) (snd pc)\<rparr>) (rc_videoPorts rawCfg),
                 av_audioPorts := map (\<lambda>pc. \<lparr>ae_type = fst pc, ae_index = snd pc,
                    ae_name = ev_audioName e (fst pc) (snd pc)\<rparr>) (rc_audioPorts rawCfg)\<rparr>)"

definition IsDeviceSettingsReady :: "av_env \<Rightarrow> bool \<Rightarrow> av_state \<Rightarrow> bool \<times> av_state" where
  "IsDeviceSettingsReady e refreshCacheIfEmpty s =
     (if \<not> av_deviceSettings s then
        (let found = ev_instance e (av_trace s);
             s1 = (av_log AInstance s)\<lparr>av_deviceSettings := found\<rparr>
         in if \<not> found then (False, s1) else (True, RefreshPortConfigurationCache e s1))
      else if refreshCacheIfEmpty \<and> av_videoPorts s = [] \<and> av_audioPorts s = []
      then (True, RefreshPortConfigurationCache e s)
      else (True, s))"

text \<open>\<open>BuildVideoPortEntries\<close> and \<open>BuildAudioPortEntries\<close>: the vector the caller goes on with.\<close>

definition BuildVideoPortEntries :: "av_env \<Rightarrow> av_state \<Rightarrow> VideoPortEntry list \<times> av_state" where
  "BuildVideoPortEntries e s =
     (let (ready, s1) = IsDeviceSettingsReady e True s
      in (if ready then av_videoPorts s1 else [], s1))"

definition BuildAudioPortEntries :: "av_env \<Rightarrow> av_state \<Rightarrow> AudioPortEntry list \<times> av_state" where
  "BuildAudioPortEntries e s =
     (let (ready, s1) = IsDeviceSettingsReady e True s
      in (if ready then av_audioPorts s1 else [], s1))"

definition ResolveVideoPortEntryByName ::
  "av_env \<Rightarrow> string \<Rightarrow> av_state \<Rightarrow> VideoPortEntry option \<times> av_state" where
  "ResolveVideoPortEntryByName e requestedPort s =
     (let (ready, s1) = IsDeviceSettingsReady e True s
      in (if ready then find (\<lambda>p. ve_name p = requestedPort) (av_videoPorts s1) else None, s1))"

subsection \<open>Switching one port\<close>

definition ConfigureVideoPort :: "av_env \<Rightarrow> int \<Rightarrow> int \<Rightarrow> bool \<Rightarrow> av_state \<Rightarrow> coreErr \<times> av_state" where
  "ConfigureVideoPort e portType index requestEnable s =
     (let (ready, s1) = IsDeviceSettingsReady e True s in
      if \<not> ready then (ERROR_GENERAL, s1)
      else
        (let r = ev_videoPort e (av_trace s1) portType index;
             s2 = av_log (AGetVideoPort portType index) s1;
             handle = av_out (snd r) 0
         in if fst r = ERROR_NONE \<and> handle \<noteq> 0
            then (ev_enableVideo e (av_trace s2) handle requestEnable,
                  av_log (AEnableVideoPort handle requestEnable) s2)
            else (fst r, s2)))"

text \<open>The result, \<open>isConfigurationSkipped\<close> and the state.\<close>

definition ConfigureAudioPort ::
  "av_env \<Rightarrow> int \<Rightarrow> int \<Rightarrow> bool \<Rightarrow> av_state \<Rightarrow> coreErr \<times> bool \<times> av_state" where
  "ConfigureAudioPort e portType index requestEnable s =
     (let (ready, s1) = IsDeviceSettingsReady e True s in
      if \<not> ready then (ERROR_GENERAL, False, s1)
      else
        (let r = ev_audioPort e (av_trace s1) portType index;
             s2 = av_log (AGetAudioPort portType index) s1;
             handle = av_out (snd r) 0
         in if fst r = ERROR_NONE \<and> handle \<noteq> 0 then
              (let p = ev_audioEnabled e (av_trace s2) handle;
                   persistEnabled = av_out (snd p) True;
                   s3 = (if requestEnable then av_log (AIsAudioPortEnabled handle) s2 else s2)
               in if requestEnable \<and> fst p = ERROR_NONE \<and> \<not> persistEnabled
                  then (ERROR_NONE, True, s3)
                  else (ev_enableAudio e (av_trace s3) handle requestEnable, False,
                        av_log (AEnableAudioPort handle requestEnable) s3))
            else (fst r, False, s2)))"

subsection \<open>The standby table\<close>

definition port_matches :: "nat \<Rightarrow> string \<Rightarrow> standby_entry \<Rightarrow> bool" where
  "port_matches n port x \<longleftrightarrow> strncasecmp0 port (sv_port x) n"

definition GetVideoPortStandbySetting :: "nat \<Rightarrow> standby_entry list \<Rightarrow> string \<Rightarrow> bool" where
  "GetVideoPortStandbySetting n tbl port =
     (case find (port_matches n port) tbl of Some x \<Rightarrow> sv_isEnabled x | None \<Rightarrow> False)"

fun update_first :: "('a \<Rightarrow> bool) \<Rightarrow> ('a \<Rightarrow> 'a) \<Rightarrow> 'a list \<Rightarrow> 'a list option" where
  "update_first P f [] = None"
| "update_first P f (x # xs) = (if P x then Some (f x # xs) else map_option ((#) x) (update_first P f xs))"

text \<open>
  The two loops of \<open>SetStandbyVideoState\<close>: the entry of that name, else the first free one,
  else nothing (the \<open>Out of room\<close> message).
\<close>

definition set_standby_entry :: "nat \<Rightarrow> string \<Rightarrow> bool \<Rightarrow> standby_entry list \<Rightarrow> standby_entry list" where
  "set_standby_entry n port enabled tbl =
     (case update_first (port_matches n port) (\<lambda>x. x\<lparr>sv_isEnabled := enabled\<rparr>) tbl of
        Some t \<Rightarrow> t
      | None \<Rightarrow>
          (case update_first (\<lambda>x. sv_port x = [])
                  (\<lambda>x. x\<lparr>sv_port := take (n - 1) port, sv_isEnabled := enabled\<rparr>) tbl of
             Some t \<Rightarrow> t | None \<Rightarrow> tbl))"

text \<open>The handler: \<open>param->isEnabled\<close> is an \<open>int\<close>; the returned value is \<open>param->result\<close>.\<close>

definition SetStandbyVideoState :: "av_env \<Rightarrow> string \<Rightarrow> int \<Rightarrow> av_state \<Rightarrow> int \<times> av_state" where
  "SetStandbyVideoState e port isEnabled s =
     (let s1 = s\<lparr>av_standby := set_standby_entry (ev_nameLength e) port (isEnabled \<noteq> 0) (av_standby s)\<rparr> in
      if av_curState s1 \<noteq> POWER_STATE_ON \<and> av_curState s1 \<noteq> POWER_STATE_OFF then
        (let (resolved, s2) = ResolveVideoPortEntryByName e port s1 in
         case resolved of
           Some p \<Rightarrow>
             (let (result, s3) = ConfigureVideoPort e (ve_type p) (ve_index p) (isEnabled = 1) s2
              in (if result \<noteq> ERROR_NONE then - 1 else 0, s3))
         | None \<Rightarrow> (- 1, s2))
      else (0, s1))"

definition GetStandbyVideoState :: "av_env \<Rightarrow> string \<Rightarrow> av_state \<Rightarrow> int" where
  "GetStandbyVideoState e port s =
     (if GetVideoPortStandbySetting (ev_nameLength e) (av_standby s) port then 1 else 0)"

subsection \<open>Power states\<close>

definition standby_video_port :: "av_env \<Rightarrow> PowerState \<Rightarrow> VideoPortEntry \<Rightarrow> av_state \<Rightarrow> av_state" where
  "standby_video_port e powerState vPort s =
     (let doEnable = GetVideoPortStandbySetting (ev_nameLength e) (av_standby s) (ve_name vPort)
      in if \<not> doEnable \<or> powerState = POWER_STATE_OFF
         then snd (ConfigureVideoPort e (ve_type vPort) (ve_index vPort) False s) else s)"

definition SetAVPortsPowerState :: "av_env \<Rightarrow> PowerState \<Rightarrow> av_state \<Rightarrow> av_state" where
  "SetAVPortsPowerState e powerState s =
     (if powerState \<noteq> POWER_STATE_ON then
        (let (videoPorts, s1) = BuildVideoPortEntries e s;
             s2 = fold (standby_video_port e powerState) videoPorts s1;
             (audioPorts, s3) = BuildAudioPortEntries e s2
         in fold (\<lambda>p s. snd (snd (ConfigureAudioPort e (ae_type p) (ae_index p) False s))) audioPorts s3)
      else
        (let (videoPorts, s1) = BuildVideoPortEntries e s;
             s2 = fold (\<lambda>p s. snd (ConfigureVideoPort e (ve_type p) (ve_index p) True s)) videoPorts s1;
             (audioPorts, s3) = BuildAudioPortEntries e s2;
             s4 = fold (\<lambda>p s. snd (snd (ConfigureAudioPort e (ae_type p) (ae_index p) True s))) audioPorts s3;
             s5 = av_log AGetEasMode s4
         in if ev_easMode e (av_trace s4) then av_log ASetEasAudioMode s5 else s5))"

definition SetLEDStatus :: "av_env \<Rightarrow> PowerState \<Rightarrow> av_state \<Rightarrow> int \<times> av_state" where
  "SetLEDStatus e powerState s =
     (let (ready, s1) = IsDeviceSettingsReady e True s in
      if \<not> ready then (- 1, s1)
      else
        (let on = (if powerState \<noteq> POWER_STATE_ON then ev_profile e = PROFILE_TV else True);
             result = ev_setFPDState e (av_trace s1) on;
             s2 = av_log (ASetFPDState on) s1
         in (if result \<noteq> ERROR_NONE then - 1 else 0, s2)))"

definition PwrMgrToPowerControllerPowerState :: "int \<Rightarrow> PowerState" where
  "PwrMgrToPowerControllerPowerState pwrMgrState =
     (if pwrMgrState = 0 then POWER_STATE_OFF
      else if pwrMgrState = 1 then POWER_STATE_STANDBY
      else if pwrMgrState = 2 then POWER_STATE_ON
      else if pwrMgrState = 3 then POWER_STATE_STANDBY_LIGHT_SLEEP
      else if pwrMgrState = 4 then POWER_STATE_STANDBY_DEEP_SLEEP
      else POWER_STATE_UNKNOWN)"

definition SetAvPortState :: "av_env \<Rightarrow> int \<Rightarrow> av_state \<Rightarrow> av_state" where
  "SetAvPortState e avPortPowerState s =
     (let powerState = PwrMgrToPowerControllerPowerState avPortPowerState
      in if powerState \<noteq> POWER_STATE_UNKNOWN then SetAVPortsPowerState e powerState s else s)"

definition SetLEDState :: "av_env \<Rightarrow> int \<Rightarrow> av_state \<Rightarrow> av_state" where
  "SetLEDState e ledState s =
     (let powerState = PwrMgrToPowerControllerPowerState ledState
      in if powerState \<noteq> POWER_STATE_UNKNOWN then snd (SetLEDStatus e powerState s) else s)"

subsection \<open>The calls a port operation can make\<close>

fun port_call :: "av_call \<Rightarrow> bool" where
  "port_call (ASetBLPattern p) = False"
| "port_call (AAccess f) = False"
| "port_call (AReadFile f) = False"
| "port_call (ASetFPDState b) = False"
| "port_call _ = True"

definition av_ext :: "av_state \<Rightarrow> av_state \<Rightarrow> bool" where
  "av_ext s s' \<longleftrightarrow> (\<exists>t. av_trace s' = av_trace s @ t \<and> (\<forall>c \<in> set t. port_call c))
     \<and> av_curState s' = av_curState s"

lemma av_ext_refl [simp]: "av_ext s s"
  by (simp add: av_ext_def)

lemma av_ext_trans: "av_ext s s1 \<Longrightarrow> av_ext s1 s2 \<Longrightarrow> av_ext s s2"
  by (force simp: av_ext_def)

lemma av_ext_log: "port_call c \<Longrightarrow> av_ext s s1 \<Longrightarrow> av_ext s (av_log c s1)"
  by (auto simp: av_ext_def av_log_def)

lemma av_ext_refresh: "av_ext s (RefreshPortConfigurationCache e s)"
  by (simp add: RefreshPortConfigurationCache_def Let_def av_ext_def av_log_def)

lemma av_ext_ready: "av_ext s (snd (IsDeviceSettingsReady e b s))"
proof -
  have 1: "av_ext s ((av_log AInstance s)\<lparr>av_deviceSettings := f\<rparr>)" for f
    by (simp add: av_ext_def av_log_def)
  have 2: "av_ext s (RefreshPortConfigurationCache e ((av_log AInstance s)\<lparr>av_deviceSettings := f\<rparr>))" for f
    using 1 av_ext_refresh by (rule av_ext_trans)
  show ?thesis
    using 1 2 av_ext_refresh by (simp add: IsDeviceSettingsReady_def Let_def)
qed

lemma av_ext_build:
  "av_ext s (snd (BuildVideoPortEntries e s))" "av_ext s (snd (BuildAudioPortEntries e s))"
  using av_ext_ready [of s e True]
  by (simp_all add: BuildVideoPortEntries_def BuildAudioPortEntries_def case_prod_unfold Let_def)

lemma av_ext_video: "av_ext s (snd (ConfigureVideoPort e ty i b s))"
  using av_ext_ready [of s e True]
  by (auto simp: ConfigureVideoPort_def Let_def case_prod_unfold intro!: av_ext_log)

lemma av_ext_audio: "av_ext s (snd (snd (ConfigureAudioPort e ty i b s)))"
  using av_ext_ready [of s e True]
  by (auto simp: ConfigureAudioPort_def Let_def case_prod_unfold intro!: av_ext_log)

lemma av_ext_fold: "(\<And>x s. av_ext s (f x s)) \<Longrightarrow> av_ext s (fold f xs s)"
  by (induction xs arbitrary: s) (auto intro: av_ext_trans)

lemma av_ext_standby_port: "av_ext s (standby_video_port e ps p s)"
  by (simp add: standby_video_port_def Let_def av_ext_video)

lemma av_ext_SetAVPorts: "av_ext s (SetAVPortsPowerState e ps s)"
proof -
  have f: "av_ext s (fold g xs s1)" if "av_ext s s1" "\<And>x s. av_ext s (g x s)" for g xs s1
    using that(1) av_ext_fold [of g, OF that(2)] by (rule av_ext_trans)
  have b: "av_ext s (snd (BuildAudioPortEntries e s1))" if "av_ext s s1" for s1
    using that av_ext_build(2) by (rule av_ext_trans)
  show ?thesis
    by (auto simp: SetAVPortsPowerState_def Let_def case_prod_unfold
        intro!: av_ext_log f b av_ext_build av_ext_video av_ext_audio av_ext_standby_port)
qed

subsection \<open>The hardware behind the calls\<close>

text \<open>Which ports are on after a sequence of calls, given which were on before.\<close>

fun video_hw :: "av_call \<Rightarrow> (int \<Rightarrow> bool) \<Rightarrow> int \<Rightarrow> bool" where
  "video_hw (AEnableVideoPort h b) m = m(h := b)"
| "video_hw _ m = m"

fun audio_hw :: "av_call \<Rightarrow> (int \<Rightarrow> bool) \<Rightarrow> int \<Rightarrow> bool" where
  "audio_hw (AEnableAudioPort h b) m = m(h := b)"
| "audio_hw _ m = m"

definition av_new :: "av_state \<Rightarrow> av_state \<Rightarrow> av_hist" where
  "av_new s s' = drop (length (av_trace s)) (av_trace s')"

text \<open>
  The platform: the ports are configured, every port has a handle, the audio library answers
  whether a port is enabled now (\<open>IsAudioPortEnabled\<close> of \<open>dAudioImpl.h\<close> asks the HAL): it was
  enabled at the start, where \<open>a0\<close> says so, and follows the commands since.
\<close>

definition av_platform ::
  "av_env \<Rightarrow> (int \<Rightarrow> int \<Rightarrow> int) \<Rightarrow> (int \<Rightarrow> int \<Rightarrow> int) \<Rightarrow> (int \<Rightarrow> bool) \<Rightarrow> bool" where
  "av_platform e gv ga a0 \<longleftrightarrow>
     (\<forall>t ty i. ev_videoPort e t ty i = (ERROR_NONE, Some (gv ty i)) \<and> gv ty i \<noteq> 0) \<and>
     (\<forall>t ty i. ev_audioPort e t ty i = (ERROR_NONE, Some (ga ty i)) \<and> ga ty i \<noteq> 0) \<and>
     (\<forall>t h. ev_audioEnabled e t h = (ERROR_NONE, Some (fold audio_hw t a0 h)))"

definition av_configured :: "av_state \<Rightarrow> bool" where
  "av_configured s \<longleftrightarrow> av_deviceSettings s \<and> (av_videoPorts s \<noteq> [] \<or> av_audioPorts s \<noteq> [])"

definition av_more :: "av_hist \<Rightarrow> av_state \<Rightarrow> av_state" where
  "av_more t s = s\<lparr>av_trace := av_trace s @ t\<rparr>"

lemma av_log_more: "av_log c s = av_more [c] s"
  by (simp add: av_log_def av_more_def)

lemma av_more_more [simp]: "av_more u (av_more t s) = av_more (t @ u) s"
  by (simp add: av_more_def)

lemma av_more_simps [simp]:
  "av_configured (av_more t s) = av_configured s" "av_deviceSettings (av_more t s) = av_deviceSettings s"
  "av_videoPorts (av_more t s) = av_videoPorts s" "av_audioPorts (av_more t s) = av_audioPorts s"
  "av_standby (av_more t s) = av_standby s" "av_curState (av_more t s) = av_curState s"
  "av_trace (av_more t s) = av_trace s @ t" "av_more [] s = s"
  by (simp_all add: av_configured_def av_more_def)

lemma av_ready: "av_configured s \<Longrightarrow> IsDeviceSettingsReady e True s = (True, s)"
  by (auto simp: IsDeviceSettingsReady_def av_configured_def)

lemma av_build:
  assumes "av_configured s"
  shows "BuildVideoPortEntries e s = (av_videoPorts s, s)" "BuildAudioPortEntries e s = (av_audioPorts s, s)"
  using av_ready [OF assms] by (simp_all add: BuildVideoPortEntries_def BuildAudioPortEntries_def)

lemma av_configure_video:
  "av_platform e gv ga a0 \<Longrightarrow> av_configured s \<Longrightarrow> snd (ConfigureVideoPort e ty i b s)
     = av_more [AGetVideoPort ty i, AEnableVideoPort (gv ty i) b] s"
  by (simp add: ConfigureVideoPort_def av_ready av_platform_def av_log_more av_out_def Let_def)

lemma av_configure_audio:
  "av_platform e gv ga a0 \<Longrightarrow> av_configured s \<Longrightarrow> snd (snd (ConfigureAudioPort e ty i b s))
     = av_more (AGetAudioPort ty i # (if b then [AIsAudioPortEnabled (ga ty i)] else [])
         @ (if b \<and> \<not> fold audio_hw (av_trace s) a0 (ga ty i) then [] else [AEnableAudioPort (ga ty i) b])) s"
  by (simp add: ConfigureAudioPort_def av_ready av_platform_def av_log_more av_out_def Let_def)

lemma fold_more:
  assumes "\<And>x s. I s \<Longrightarrow> f x s = av_more (g x) s" and "\<And>x s. I s \<Longrightarrow> I (av_more (g x) s)" and "I s"
  shows "fold f xs s = av_more (concat (map g xs)) s"
  using assms(3)
proof (induction xs arbitrary: s)
  case Nil
  then show ?case by simp
next
  case (Cons x xs)
  then show ?case using assms(1,2) by simp
qed

text \<open>
  The ports a power state touches, and the calls made for them: ON asks whether an audio port
  is enabled (\<open>am\<close> says which are when the state is applied) and leaves the others alone.
\<close>

definition video_touched :: "nat \<Rightarrow> PowerState \<Rightarrow> standby_entry list \<Rightarrow> VideoPortEntry \<Rightarrow> bool" where
  "video_touched n ps tbl p \<longleftrightarrow> ps \<in> {POWER_STATE_ON, POWER_STATE_OFF}
     \<or> \<not> GetVideoPortStandbySetting n tbl (ve_name p)"

definition video_calls ::
  "nat \<Rightarrow> (int \<Rightarrow> int \<Rightarrow> int) \<Rightarrow> PowerState \<Rightarrow> standby_entry list \<Rightarrow> VideoPortEntry \<Rightarrow> av_hist" where
  "video_calls n gv ps tbl p = (if video_touched n ps tbl p
     then [AGetVideoPort (ve_type p) (ve_index p),
           AEnableVideoPort (gv (ve_type p) (ve_index p)) (ps = POWER_STATE_ON)] else [])"

definition audio_calls ::
  "(int \<Rightarrow> int \<Rightarrow> int) \<Rightarrow> (int \<Rightarrow> bool) \<Rightarrow> PowerState \<Rightarrow> AudioPortEntry \<Rightarrow> av_hist" where
  "audio_calls ga am ps p = (let h = ga (ae_type p) (ae_index p); on = (ps = POWER_STATE_ON)
     in AGetAudioPort (ae_type p) (ae_index p) # (if on then [AIsAudioPortEnabled h] else [])
         @ (if on \<and> \<not> am h then [] else [AEnableAudioPort h on]))"

lemma hw_other:
  "\<forall>h b. c \<noteq> AEnableVideoPort h b \<Longrightarrow> video_hw c m = m"
  "\<forall>h b. c \<noteq> AEnableAudioPort h b \<Longrightarrow> audio_hw c m = m"
  by (cases c, auto)+

lemma fold_hw_other:
  "(\<And>c h b. c \<in> set t \<Longrightarrow> c \<noteq> AEnableVideoPort h b) \<Longrightarrow> fold video_hw t m = m"
  "(\<And>c h b. c \<in> set t \<Longrightarrow> c \<noteq> AEnableAudioPort h b) \<Longrightarrow> fold audio_hw t m = m"
proof -
  have "fold video_hw t m = m" if "\<forall>c \<in> set t. \<forall>h b. c \<noteq> AEnableVideoPort h b"
    using that by (induction t) (auto simp: hw_other(1))
  then show "(\<And>c h b. c \<in> set t \<Longrightarrow> c \<noteq> AEnableVideoPort h b) \<Longrightarrow> fold video_hw t m = m" by blast
  have "fold audio_hw t m = m" if "\<forall>c \<in> set t. \<forall>h b. c \<noteq> AEnableAudioPort h b"
    using that by (induction t) (auto simp: hw_other(2))
  then show "(\<And>c h b. c \<in> set t \<Longrightarrow> c \<noteq> AEnableAudioPort h b) \<Longrightarrow> fold audio_hw t m = m" by blast
qed

lemma video_calls_no_audio: "c \<in> set (concat (map (video_calls n gv ps tbl) xs)) \<Longrightarrow> c \<noteq> AEnableAudioPort h b"
  by (auto simp: video_calls_def split: if_splits)

lemma audio_calls_no_video: "c \<in> set (concat (map (audio_calls ga am ps) xs)) \<Longrightarrow> c \<noteq> AEnableVideoPort h b"
  by (auto simp: audio_calls_def Let_def split: if_splits)

lemma audio_calls_on: "fold audio_hw (audio_calls ga am POWER_STATE_ON p) am = am"
  by (auto simp: audio_calls_def Let_def fun_eq_iff)

lemma SetAVPorts_calls:
  assumes "av_platform e gv ga a0" and "av_configured s"
  defines "am \<equiv> fold audio_hw (av_trace s) a0"
  shows "\<exists>t. set t \<subseteq> {AGetEasMode, ASetEasAudioMode} \<and> SetAVPortsPowerState e ps s = av_more
     (concat (map (video_calls (ev_nameLength e) gv ps (av_standby s)) (av_videoPorts s))
      @ concat (map (audio_calls ga am ps) (av_audioPorts s)) @ t) s"
proof -
  let ?n = "ev_nameLength e" and ?V = "av_videoPorts s" and ?A = "av_audioPorts s"
  let ?inv = "\<lambda>x. av_configured x \<and> av_standby x = av_standby s"
  note cv = av_configure_video [OF assms(1)] and ca = av_configure_audio [OF assms(1)]
  have a: "fold (\<lambda>p s. snd (snd (ConfigureAudioPort e (ae_type p) (ae_index p) (ps = POWER_STATE_ON) s))) xs x
      = av_more (concat (map (audio_calls ga am ps) xs)) x"
    if "av_configured x" "ps = POWER_STATE_ON \<longrightarrow> fold audio_hw (av_trace x) a0 = am" for xs x
    by (rule fold_more [where I = "\<lambda>x. av_configured x \<and> (ps = POWER_STATE_ON \<longrightarrow> fold audio_hw (av_trace x) a0 = am)"])
      (use that in \<open>auto simp: ca audio_calls_on, simp_all add: audio_calls_def Let_def\<close>)
  have n: "fold audio_hw (concat (map (video_calls ?n gv ps (av_standby s)) ?V)) x = x" for x
    by (rule fold_hw_other(2)) (use video_calls_no_audio in blast)
  show ?thesis
  proof (cases "ps = POWER_STATE_ON")
    case True
    have v: "fold (\<lambda>p s. snd (ConfigureVideoPort e (ve_type p) (ve_index p) True s)) ?V s
        = av_more (concat (map (video_calls ?n gv ps (av_standby s)) ?V)) s"
      by (rule fold_more [where I = ?inv]) (simp_all add: assms True cv video_calls_def video_touched_def)
    have "SetAVPortsPowerState e ps s = (let s4 = av_more
        (concat (map (video_calls ?n gv ps (av_standby s)) ?V) @ concat (map (audio_calls ga am ps) ?A)) s;
        s5 = av_log AGetEasMode s4 in if ev_easMode e (av_trace s4) then av_log ASetEasAudioMode s5 else s5)"
      using assms(2) True v a [of "av_more _ s"] n
      by (simp add: SetAVPortsPowerState_def av_build am_def)
    then show ?thesis
      by (cases "ev_easMode e (av_trace s @ concat (map (video_calls ?n gv ps (av_standby s)) ?V)
          @ concat (map (audio_calls ga am ps) ?A))")
        (auto simp: Let_def av_log_more intro: exI [of _ "[AGetEasMode, ASetEasAudioMode]"] exI [of _ "[AGetEasMode]"])
  next
    case False
    have v: "fold (standby_video_port e ps) ?V s
        = av_more (concat (map (video_calls ?n gv ps (av_standby s)) ?V)) s"
      by (rule fold_more [where I = ?inv])
        (simp_all add: assms False cv standby_video_port_def video_calls_def video_touched_def Let_def)
    show ?thesis
      using assms(2) False v a [of "av_more _ s"]
      by (intro exI [of _ "[]"]) (simp add: SetAVPortsPowerState_def av_build)
  qed
qed

text \<open>The calls, read as commands to the hardware.\<close>

lemma fold_video_calls:
  "fold video_hw (concat (map (video_calls n gv ps tbl) xs)) m h =
     (if \<exists>p \<in> set xs. video_touched n ps tbl p \<and> gv (ve_type p) (ve_index p) = h
      then ps = POWER_STATE_ON else m h)"
  by (induction xs arbitrary: m) (auto simp: video_calls_def)

lemma fold_audio_calls:
  "fold audio_hw (concat (map (audio_calls ga am ps) xs)) m h =
     (if \<exists>p \<in> set xs. ga (ae_type p) (ae_index p) = h \<and> (ps = POWER_STATE_ON \<longrightarrow> am h)
      then ps = POWER_STATE_ON else m h)"
  by (induction xs arbitrary: m) (auto simp: audio_calls_def Let_def)

lemma SetAVPorts_hw:
  assumes "av_platform e gv ga a0" and "av_configured s"
  shows "fold video_hw (av_new s (SetAVPortsPowerState e ps s)) m
       = fold video_hw (concat (map (video_calls (ev_nameLength e) gv ps (av_standby s)) (av_videoPorts s))) m"
    and "fold audio_hw (av_new s (SetAVPortsPowerState e ps s)) m
       = fold audio_hw (concat (map (audio_calls ga (fold audio_hw (av_trace s) a0) ps) (av_audioPorts s))) m"
proof -
  let ?v = "concat (map (video_calls (ev_nameLength e) gv ps (av_standby s)) (av_videoPorts s))"
  let ?a = "concat (map (audio_calls ga (fold audio_hw (av_trace s) a0) ps) (av_audioPorts s))"
  obtain t where t: "set t \<subseteq> {AGetEasMode, ASetEasAudioMode}"
    "av_new s (SetAVPortsPowerState e ps s) = ?v @ ?a @ t"
    using SetAVPorts_calls [OF assms, of ps] by (auto simp: av_new_def)
  have "fold video_hw t m = m" and "fold audio_hw t m = m" for m
    by (rule fold_hw_other, use t(1) in blast)+
  moreover have "fold video_hw ?a x = x" for x
    by (rule fold_hw_other(1)) (use audio_calls_no_video in blast)
  moreover have "fold audio_hw ?v x = x" for x
    by (rule fold_hw_other(2)) (use video_calls_no_audio in blast)
  ultimately show "fold video_hw (av_new s (SetAVPortsPowerState e ps s)) m = fold video_hw ?v m"
    and "fold audio_hw (av_new s (SetAVPortsPowerState e ps s)) m = fold audio_hw ?a m"
    using t(2) by simp_all
qed

text \<open>The audio ports after a power state, in terms of those before it.\<close>

lemma SetAVPorts_audio:
  assumes "av_platform e gv ga a0" and "av_configured s" and "p \<in> set (av_audioPorts s)"
  shows "fold audio_hw (av_trace (SetAVPortsPowerState e ps s)) a0 (ga (ae_type p) (ae_index p)) =
     (ps = POWER_STATE_ON \<and> fold audio_hw (av_trace s) a0 (ga (ae_type p) (ae_index p)))"
proof -
  obtain u where "SetAVPortsPowerState e ps s = av_more u s"
    using SetAVPorts_calls [OF assms(1,2), of ps] by blast
  then have "av_trace (SetAVPortsPowerState e ps s) = av_trace s @ av_new s (SetAVPortsPowerState e ps s)"
    by (simp add: av_new_def)
  then show ?thesis
    using assms(3) by (auto simp: SetAVPorts_hw(2) [OF assms(1,2)] fold_audio_calls)
qed

subsection \<open>The standby table as a map\<close>

lemma find_update_other:
  assumes "\<And>x. P x \<Longrightarrow> \<not> Q x \<and> \<not> Q (f x)" and "update_first P f xs = Some ys"
  shows "find Q ys = find Q xs"
  using assms(2) by (induction xs arbitrary: ys) (auto simp: assms(1) split: if_splits)

lemma find_update_hit:
  assumes "\<And>x. x \<in> set xs \<Longrightarrow> \<not> P x \<Longrightarrow> \<not> Q x" and "\<And>x. P x \<Longrightarrow> Q (f x)"
    and "update_first P f xs = Some ys"
  shows "\<exists>x \<in> set xs. P x \<and> find Q ys = Some (f x)"
  using assms(1,3) by (induction xs arbitrary: ys) (auto simp: assms(2) split: if_splits)

lemma update_first_None: "update_first P f xs = None \<longleftrightarrow> (\<forall>x \<in> set xs. \<not> P x)"
  by (induction xs) auto

lemma update_first_set:
  "update_first P f xs = Some ys \<Longrightarrow>
     length ys = length xs \<and> (\<forall>y \<in> set ys. y \<in> set xs \<or> (\<exists>x \<in> set xs. P x \<and> y = f x))"
proof (induction xs arbitrary: ys)
  case Nil
  then show ?case by simp
next
  case (Cons x xs)
  show ?case
  proof (cases "P x")
    case True
    with Cons.prems show ?thesis by auto
  next
    case False
    then obtain zs where "update_first P f xs = Some zs" "ys = x # zs" using Cons.prems by auto
    with Cons.IH [of zs] show ?thesis by auto
  qed
qed

definition lower :: "string \<Rightarrow> string" where
  "lower s = map tolower_c s"

definition table_ok :: "nat \<Rightarrow> standby_entry list \<Rightarrow> bool" where
  "table_ok n tbl \<longleftrightarrow> length tbl = MAX_NUM_VIDEO_PORTS \<and> (\<forall>x \<in> set tbl. length (sv_port x) < n)"

text \<open>A port name the handlers can be given: not empty, and it fits the buffer.\<close>

definition name_ok :: "nat \<Rightarrow> string \<Rightarrow> bool" where
  "name_ok n port \<longleftrightarrow> port \<noteq> [] \<and> length port < n"

lemma port_matches_lower:
  "name_ok n port \<Longrightarrow> length (sv_port x) < n \<Longrightarrow> port_matches n port x \<longleftrightarrow> lower port = lower (sv_port x)"
  by (simp add: port_matches_def strncasecmp0_def name_ok_def lower_def)

lemma lower_Nil [simp]: "lower s = [] \<longleftrightarrow> s = []" "[] = lower s \<longleftrightarrow> s = []"
  by (auto simp: lower_def)

text \<open>There is an entry of that name, or a free one.\<close>

definition has_room :: "string \<Rightarrow> standby_entry list \<Rightarrow> bool" where
  "has_room port tbl \<longleftrightarrow> (\<exists>x \<in> set tbl. lower (sv_port x) = lower port \<or> sv_port x = [])"

lemma set_standby_ok:
  assumes "table_ok n tbl" and "name_ok n port"
  shows "table_ok n (set_standby_entry n port b tbl)"
proof -
  have "table_ok n ys" if "update_first P f tbl = Some ys" "\<And>x. length (sv_port x) < n \<Longrightarrow> length (sv_port (f x)) < n" for P f ys
    using update_first_set [OF that(1)] that(2) assms(1) by (auto simp: table_ok_def)
  with assms show ?thesis
    by (auto simp: set_standby_entry_def name_ok_def split: option.split)
qed

lemma get_set_standby:
  assumes t: "table_ok n tbl" and p: "name_ok n port" and q: "name_ok n port'" and r: "has_room port tbl"
  shows "GetVideoPortStandbySetting n (set_standby_entry n port b tbl) port'
       = (if lower port' = lower port then b else GetVideoPortStandbySetting n tbl port')"
proof -
  let ?P = "port_matches n port" and ?Q = "port_matches n port'"
  have len: "length (sv_port x) < n" if "x \<in> set tbl" for x using t that by (simp add: table_ok_def)
  have take: "take (n - 1) port = port" using p by (simp add: name_ok_def) linarith
  have mq: "?Q x = (lower port' = lower (sv_port x))" and mp: "?P x = (lower port = lower (sv_port x))"
    if "length (sv_port x) < n" for x using that p q by (simp_all add: port_matches_lower)
  have Qnew: "?Q (x\<lparr>sv_port := port, sv_isEnabled := b\<rparr>) = (lower port' = lower port)" for x
    using p by (subst mq) (auto simp: name_ok_def)
  have Qsame: "?Q (x\<lparr>sv_isEnabled := b\<rparr>) = ?Q x" for x by (simp add: port_matches_def)
  have empty: "\<not> ?Q x" if "sv_port x = []" for x
    using that q by (auto simp: port_matches_def strncasecmp0_def name_ok_def)
  show ?thesis
  proof (cases "update_first ?P (\<lambda>x. x\<lparr>sv_isEnabled := b\<rparr>) tbl")
    case (Some ys)
    then have new: "set_standby_entry n port b tbl = ys" by (simp add: set_standby_entry_def)
    show ?thesis
    proof (cases "lower port' = lower port")
      case True
      have PQ: "?P = ?Q" using True p q
        by (auto simp: port_matches_def strncasecmp0_def name_ok_def lower_def fun_eq_iff)
      from find_update_hit [OF _ _ Some, of ?Q] obtain x where "find ?Q ys = Some (x\<lparr>sv_isEnabled := b\<rparr>)"
        by (auto simp: PQ Qsame)
      with True show ?thesis by (simp add: new GetVideoPortStandbySetting_def)
    next
      case False
      have "\<not> ?Q x" if "?P x" for x
        using that False p q by (auto simp: port_matches_def strncasecmp0_def name_ok_def lower_def)
      then have "find ?Q ys = find ?Q tbl" by (intro find_update_other [OF _ Some]) (simp add: Qsame)
      with False show ?thesis by (simp add: new GetVideoPortStandbySetting_def)
    qed
  next
    case None
    then have none: "\<not> ?P x" if "x \<in> set tbl" for x using that by (simp add: update_first_None)
    have "\<exists>x \<in> set tbl. sv_port x = []"
      using r none mp [OF len] unfolding has_room_def by metis
    then obtain ys where ys: "update_first (\<lambda>x. sv_port x = []) (\<lambda>x. x\<lparr>sv_port := port, sv_isEnabled := b\<rparr>) tbl = Some ys"
      by (cases "update_first (\<lambda>x. sv_port x = []) (\<lambda>x. x\<lparr>sv_port := port, sv_isEnabled := b\<rparr>) tbl")
        (auto simp: update_first_None)
    then have new: "set_standby_entry n port b tbl = ys"
      by (simp only: set_standby_entry_def None take ys option.case)
    show ?thesis
    proof (cases "lower port' = lower port")
      case True
      have nq: "\<not> ?Q x" if "x \<in> set tbl" for x
        using none [OF that] mq [OF len [OF that]] mp [OF len [OF that]] True by simp
      from find_update_hit [OF _ _ ys, of ?Q] nq obtain x where
        "find ?Q ys = Some (x\<lparr>sv_port := port, sv_isEnabled := b\<rparr>)" by (auto simp: Qnew True)
      with True show ?thesis by (simp add: new GetVideoPortStandbySetting_def)
    next
      case False
      have "find ?Q ys = find ?Q tbl"
        by (rule find_update_other [OF _ ys]) (simp add: Qnew False empty)
      with False show ?thesis by (simp add: new GetVideoPortStandbySetting_def)
    qed
  qed
qed

lemma set_standby_full:
  assumes "table_ok n tbl" and "name_ok n port" and "\<not> has_room port tbl"
  shows "set_standby_entry n port b tbl = tbl"
proof -
  have "\<not> port_matches n port x" and "sv_port x \<noteq> []" if "x \<in> set tbl" for x
    using assms that port_matches_lower [OF assms(2), of x] by (auto simp: has_room_def table_ok_def)
  then have "update_first (port_matches n port) f tbl = None" "update_first (\<lambda>x. sv_port x = []) f tbl = None" for f
    by (auto simp: update_first_None)
  then show ?thesis by (simp add: set_standby_entry_def)
qed

lemma standby_unchanged:
  "av_standby (snd (IsDeviceSettingsReady e b s)) = av_standby s"
  "av_curState (snd (IsDeviceSettingsReady e b s)) = av_curState s"
  by (simp_all add: IsDeviceSettingsReady_def RefreshPortConfigurationCache_def Let_def av_log_def)

lemma standby_configure:
  "av_standby (snd (ConfigureVideoPort e ty i b s)) = av_standby s"
  "av_curState (snd (ConfigureVideoPort e ty i b s)) = av_curState s"
  using standby_unchanged [of e True s]
  by (simp_all add: ConfigureVideoPort_def Let_def case_prod_unfold av_log_def)

lemma SetStandby_table:
  "av_standby (snd (SetStandbyVideoState e port b s)) = set_standby_entry (ev_nameLength e) port (b \<noteq> 0) (av_standby s)"
  by (simp add: SetStandbyVideoState_def ResolveVideoPortEntryByName_def Let_def case_prod_unfold
      standby_unchanged standby_configure split: option.split)

subsection \<open>Properties\<close>

text \<open>
  C6. What a power state does to the ports, on a configured platform where ports of one handle
  have one name and the commands take effect. ON turns on every video port; OFF turns off
  every video port; any other state does too, except that a video port marked to stay on in
  standby keeps its state; handles of other ports are not touched. The audio ports only ever
  go off: every state but ON turns them all off, and ON leaves on those that are on at that
  moment and turns none on, because it asks the HAL for the current state where its comment
  speaks of the persisted one. So once a state other than ON has been applied, the ON after it
  leaves every audio port off.
\<close>

theorem av_ports_follow_power_state:
  fixes ps :: PowerState
  assumes "av_platform e gv ga a0" and "av_configured s"
    and "\<forall>p \<in> set (av_videoPorts s). \<forall>q \<in> set (av_videoPorts s).
           gv (ve_type p) (ve_index p) = gv (ve_type q) (ve_index q) \<longrightarrow> ve_name p = ve_name q"
  defines "t \<equiv> av_new s (SetAVPortsPowerState e ps s)"
    and "audio \<equiv> \<lambda>s. fold audio_hw (av_trace s) a0"
  shows "(\<forall>p \<in> set (av_videoPorts s). fold video_hw t vm (gv (ve_type p) (ve_index p)) =
            (ps = POWER_STATE_ON \<or> (ps \<noteq> POWER_STATE_OFF
               \<and> GetVideoPortStandbySetting (ev_nameLength e) (av_standby s) (ve_name p)
               \<and> vm (gv (ve_type p) (ve_index p)))))
     \<and> (\<forall>p \<in> set (av_audioPorts s).
            audio (SetAVPortsPowerState e ps s) (ga (ae_type p) (ae_index p)) =
              (ps = POWER_STATE_ON \<and> audio s (ga (ae_type p) (ae_index p)))
            \<and> (ps \<noteq> POWER_STATE_ON \<longrightarrow>
                 \<not> audio (SetAVPortsPowerState e POWER_STATE_ON (SetAVPortsPowerState e ps s))
                     (ga (ae_type p) (ae_index p))))
     \<and> (\<forall>h. (\<forall>p \<in> set (av_videoPorts s). gv (ve_type p) (ve_index p) \<noteq> h) \<longrightarrow> fold video_hw t vm h = vm h)"
proof -
  note hw = SetAVPorts_hw [OF assms(1,2), of ps, folded t_def] fold_video_calls fold_audio_calls
  have v: "fold video_hw t vm (gv (ve_type p) (ve_index p)) = (if video_touched (ev_nameLength e) ps (av_standby s) p
      then ps = POWER_STATE_ON else vm (gv (ve_type p) (ve_index p)))" if "p \<in> set (av_videoPorts s)" for p
  proof -
    have "(\<exists>q \<in> set (av_videoPorts s). video_touched (ev_nameLength e) ps (av_standby s) q
        \<and> gv (ve_type q) (ve_index q) = gv (ve_type p) (ve_index p))
        \<longleftrightarrow> video_touched (ev_nameLength e) ps (av_standby s) p"
      using assms(3) that unfolding video_touched_def by metis
    then show ?thesis by (simp only: hw)
  qed
  note audio = SetAVPorts_audio [OF assms(1)]
  obtain u where "SetAVPortsPowerState e ps s = av_more u s"
    using SetAVPorts_calls [OF assms(1,2), of ps] by blast
  then have "audio (SetAVPortsPowerState e ps s) (ga (ae_type p) (ae_index p)) =
        (ps = POWER_STATE_ON \<and> audio s (ga (ae_type p) (ae_index p)))
      \<and> (ps \<noteq> POWER_STATE_ON \<longrightarrow>
           \<not> audio (SetAVPortsPowerState e POWER_STATE_ON (SetAVPortsPowerState e ps s))
               (ga (ae_type p) (ae_index p)))"
    if "p \<in> set (av_audioPorts s)" for p
    using that assms(2) audio [of s p ps] audio [of "SetAVPortsPowerState e ps s" p POWER_STATE_ON]
    by (simp add: audio_def)
  moreover have "fold video_hw t vm h = vm h"
    if "\<forall>p \<in> set (av_videoPorts s). gv (ve_type p) (ve_index p) \<noteq> h" for h
    using that by (auto simp: hw)
  ultimately show ?thesis using v by (auto simp: video_touched_def)
qed

text \<open>A platform for the examples: one HDMI port (handle 1) and one speaker (handle 2).\<close>

definition ex_av :: av_env where
  "ex_av = \<lparr>ev_instance = (\<lambda>_. True), ev_configs = (\<lambda>_. (ERROR_NONE, \<lparr>rc_videoPorts = [(6, 0)],
       rc_videoPortTypes = [(6, ''HDMI'')], rc_audioPorts = [(3, 0)]\<rparr>)),
     ev_videoName = (\<lambda>_ _. ''HDMI0''), ev_audioName = (\<lambda>_ _. ''SPEAKER0''),
     ev_videoPort = (\<lambda>_ _ _. (ERROR_NONE, Some 1)), ev_enableVideo = (\<lambda>_ _ _. ERROR_NONE),
     ev_audioPort = (\<lambda>_ _ _. (ERROR_NONE, Some 2)),
     ev_audioEnabled = (\<lambda>t h. (ERROR_NONE, Some (fold audio_hw t (\<lambda>_. True) h))),
     ev_enableAudio = (\<lambda>_ _ _. ERROR_NONE), ev_setFPDState = (\<lambda>_ _. ERROR_NONE),
     ev_easMode = (\<lambda>_. False), ev_setBLPattern = (\<lambda>_ _. True), ev_access = (\<lambda>_ _. False),
     ev_readFile = (\<lambda>_ _. None), ev_profile = PROFILE_TV, ev_nameLength = 16\<rparr>"

definition ex_av_state :: av_state where
  "ex_av_state = snd (IsDeviceSettingsReady ex_av True av_initial)"

lemma ex_av_platform: "av_platform ex_av (\<lambda>_ _. 1) (\<lambda>_ _. 2) (\<lambda>_. True)"
  by (simp add: av_platform_def ex_av_def)

lemma ex_av_state_eq:
  "ex_av_state = av_initial\<lparr>av_deviceSettings := True, av_trace := [AInstance, AGetConfigs],
     av_videoPorts := [\<lparr>ve_type = 6, ve_index = 0, ve_typeName = ''HDMI'', ve_name = ''HDMI0''\<rparr>],
     av_audioPorts := [\<lparr>ae_type = 3, ae_index = 0, ae_name = ''SPEAKER0''\<rparr>]\<rparr>"
  by (simp add: ex_av_state_def IsDeviceSettingsReady_def RefreshPortConfigurationCache_def av_initial_def
      ex_av_def av_log_def type_name_def Let_def)

lemma ex_av_configured: "av_configured ex_av_state"
  by (simp add: ex_av_state_eq av_configured_def)

theorem av_ports_follow_power_state_witness:
  "\<not> fold video_hw (av_new ex_av_state (SetAVPortsPowerState ex_av POWER_STATE_STANDBY ex_av_state)) (\<lambda>_. True) 1
   \<and> fold audio_hw (av_trace (SetAVPortsPowerState ex_av POWER_STATE_ON ex_av_state)) (\<lambda>_. True) 2
   \<and> \<not> fold audio_hw (av_trace (SetAVPortsPowerState ex_av POWER_STATE_ON
         (SetAVPortsPowerState ex_av POWER_STATE_STANDBY ex_av_state))) (\<lambda>_. True) 2"
proof -
  have names: "\<forall>p \<in> set (av_videoPorts ex_av_state). \<forall>q \<in> set (av_videoPorts ex_av_state).
      (1 :: int) = 1 \<longrightarrow> ve_name p = ve_name q" by (simp add: ex_av_state_eq)
  have "\<not> GetVideoPortStandbySetting 16 (av_standby ex_av_state) ''HDMI0''"
    by (auto simp: ex_av_state_eq av_initial_def GetVideoPortStandbySetting_def find_Some_iff
        split: option.splits)
  then show ?thesis
    using av_ports_follow_power_state [OF ex_av_platform ex_av_configured names, of POWER_STATE_STANDBY "\<lambda>_. True"]
      av_ports_follow_power_state [OF ex_av_platform ex_av_configured names, of POWER_STATE_ON]
    by (simp add: ex_av_state_eq) (simp add: ex_av_def)
qed

text \<open>
  The standby table is a case-insensitive map: after a setting for a port that has an
  entry or for which one is free, asking for that name in any case gives the new setting and
  asking for any other name gives the old answer; the table keeps its shape.
\<close>

theorem standby_setting_read_back:
  fixes isEnabled :: int
  assumes "table_ok (ev_nameLength e) (av_standby s)" and "name_ok (ev_nameLength e) port"
    and "name_ok (ev_nameLength e) port'" and "has_room port (av_standby s)"
  defines "s' \<equiv> snd (SetStandbyVideoState e port isEnabled s)"
  shows "GetStandbyVideoState e port' s'
       = (if lower port' = lower port then (if isEnabled \<noteq> 0 then 1 else 0) else GetStandbyVideoState e port' s)
     \<and> table_ok (ev_nameLength e) (av_standby s')"
  using get_set_standby [OF assms(1-4)] set_standby_ok [OF assms(1,2)]
  by (simp add: GetStandbyVideoState_def s'_def SetStandby_table)

theorem standby_setting_read_back_witness:
  "GetStandbyVideoState ex_av ''hdmi0'' (snd (SetStandbyVideoState ex_av ''HDMI0'' 1 av_initial)) = 1"
proof -
  have t: "table_ok (ev_nameLength ex_av) (av_standby av_initial)"
    by (simp add: table_ok_def av_initial_def ex_av_def)
  have n: "name_ok (ev_nameLength ex_av) ''HDMI0''" "name_ok (ev_nameLength ex_av) ''hdmi0''"
    by (simp_all add: name_ok_def ex_av_def)
  have r: "has_room ''HDMI0'' (av_standby av_initial)"
    by (simp add: has_room_def av_initial_def MAX_NUM_VIDEO_PORTS_def)
  have "lower ''hdmi0'' = lower ''HDMI0''" by code_simp
  with standby_setting_read_back [OF t n r, of 1] show ?thesis by simp
qed

text \<open>
  A full table drops the setting and still reports success: when no entry has the name
  and none is free, the table is unchanged, so the port keeps its old standby behaviour, and
  while the device is on (or off) the handler answers 0.
\<close>

theorem standby_table_full_reports_success:
  assumes "table_ok (ev_nameLength e) (av_standby s)" and "name_ok (ev_nameLength e) port"
    and "\<not> has_room port (av_standby s)" and "av_curState s \<in> {POWER_STATE_ON, POWER_STATE_OFF}"
  shows "SetStandbyVideoState e port isEnabled s = (0, s)"
  using set_standby_full [OF assms(1-3)] assms(4)
  by (auto simp: SetStandbyVideoState_def Let_def)

theorem standby_table_full_reports_success_witness:
  "SetStandbyVideoState ex_av ''RF0'' 1 (av_initial\<lparr>av_curState := POWER_STATE_ON,
     av_standby := replicate 5 \<lparr>sv_port = ''HDMI0'', sv_isEnabled = False\<rparr>\<rparr>)
   = (0, av_initial\<lparr>av_curState := POWER_STATE_ON,
     av_standby := replicate 5 \<lparr>sv_port = ''HDMI0'', sv_isEnabled = False\<rparr>\<rparr>)"
  by (rule standby_table_full_reports_success)
    (simp_all add: table_ok_def name_ok_def has_room_def ex_av_def MAX_NUM_VIDEO_PORTS_def lower_def tolower_c_def)

end
