(* ===== verification/Product_Traits.thy ===== *)
theory Product_Traits
  imports Av_Ports "HOL-Library.Multiset"
begin

section \<open>The product profiles (\<open>DSProductTraits::UXController\<close>)\<close>

text \<open>
  Models \<open>DSProductTraitsHandler.cpp\<close>: the four profile classes (their virtual methods are
  dispatched on \<open>ux_class\<close>), the reboot reason, the boot-loader pattern of the manufacturer
  library, the power LED, and the work the class leaves to detached threads. Such a thread is
  a pending task, which goes on any time later (\<open>ux_run_task\<close>): one run of its loop body is
  one step, but for the reboot check, which reads the file and tests the flag in one step and
  switches the ports in another, since it holds the mutex for the test only. The option \<open>ENABLE_LED_SYNC_IN_BOOTUP\<close> is the argument \<open>led\<close>.
\<close>

subsection \<open>State\<close>

datatype ux_class = UxStb | UxTv | UxStbEu | UxTvEu

datatype device_type = DEVICE_TYPE_STB | DEVICE_TYPE_TV

datatype power_mode = POWER_MODE_ON | POWER_MODE_LIGHT_SLEEP | POWER_MODE_LAST_KNOWN | POWER_MODE_UNSPECIFIED

datatype reboot_type = HARD | SOFT | UNAVAILABLE

text \<open>The threads: a retry of the pattern, a check to come, a check past the test of the flag.\<close>

datatype ux_task = TaskPattern bl_pattern nat | TaskReboot nat | TaskPorts PowerState

record ux_state =
  ux_class :: ux_class
  invalidateAsyncBootloaderPattern :: bool
  firstPowerTransitionComplete :: bool
  ux_deviceSettings :: bool
  enableMultiColourLedSupport :: bool
  ledEnabledInStandby :: bool
  ledEnabledInOnState :: bool
  preferedPowerModeOnReboot :: power_mode
  enableSilentRebootSupport :: bool
  ux_listener :: bool
  ux_tasks :: "ux_task list"
  ux_av :: av_state

definition ux_log :: "av_call \<Rightarrow> ux_state \<Rightarrow> ux_state" where
  "ux_log c s = s\<lparr>ux_av := av_log c (ux_av s)\<rparr>"

definition ux_hist :: "ux_state \<Rightarrow> av_hist" where
  "ux_hist s = av_trace (ux_av s)"

definition InitializeSafeDefaults :: "device_type \<Rightarrow> ux_state \<Rightarrow> ux_state" where
  "InitializeSafeDefaults deviceType s =
     s\<lparr>enableMultiColourLedSupport := False, enableSilentRebootSupport := True,
       preferedPowerModeOnReboot := POWER_MODE_LAST_KNOWN,
       invalidateAsyncBootloaderPattern := False, firstPowerTransitionComplete := False,
       ledEnabledInStandby := (deviceType \<noteq> DEVICE_TYPE_STB),
       ledEnabledInOnState := (deviceType = DEVICE_TYPE_STB)\<rparr>"

definition ux_device :: "ux_class \<Rightarrow> device_type" where
  "ux_device c = (if c = UxTv \<or> c = UxTvEu then DEVICE_TYPE_TV else DEVICE_TYPE_STB)"

text \<open>The constructors: the base class, then what the profile changes.\<close>

definition UXController_new :: "av_env \<Rightarrow> ux_class \<Rightarrow> bool \<Rightarrow> av_state \<Rightarrow> ux_state" where
  "UXController_new e c listener av =
     (let base = InitializeSafeDefaults (ux_device c)
           \<lparr>ux_class = c, invalidateAsyncBootloaderPattern = False, firstPowerTransitionComplete = False,
            ux_deviceSettings = ev_instance e (av_trace av), enableMultiColourLedSupport = False,
            ledEnabledInStandby = False, ledEnabledInOnState = False,
            preferedPowerModeOnReboot = POWER_MODE_LAST_KNOWN, enableSilentRebootSupport = True,
            ux_listener = listener, ux_tasks = [], ux_av = av_log AInstance av\<rparr>
      in case c of
           UxStb \<Rightarrow> base\<lparr>preferedPowerModeOnReboot := POWER_MODE_LAST_KNOWN, enableSilentRebootSupport := False\<rparr>
         | _ \<Rightarrow> base\<lparr>preferedPowerModeOnReboot := POWER_MODE_LIGHT_SLEEP\<rparr>)"

text \<open>\<open>Initialize\<close>: the profile ids in the order of \<open>productProfileId_t\<close>.\<close>

definition UXController_Initialize :: "av_env \<Rightarrow> nat \<Rightarrow> bool \<Rightarrow> av_state \<Rightarrow> ux_state option" where
  "UXController_Initialize e profile_id listener av =
     (if profile_id = 0 then Some (UXController_new e UxStb listener av)
      else if profile_id = 1 then Some (UXController_new e UxTv listener av)
      else if profile_id = 2 then Some (UXController_new e UxStbEu listener av)
      else if profile_id = 3 then Some (UXController_new e UxTvEu listener av)
      else None)"

subsection \<open>Reboot reason\<close>

text \<open>The loop over the lines of the reboot file (\<open>None\<close>: it cannot be opened).\<close>

definition reboot_info_type :: "string option \<Rightarrow> reboot_type" where
  "reboot_info_type file = (case file of
       None \<Rightarrow> SOFT
     | Some content \<Rightarrow>
         if \<exists>line \<in> set (getlines content). contains line
              (CHR 0x22 # ''reason'' @ CHR 0x22 # CHR 0x3A # CHR 0x22 # ''POWER_ON_RESET'' @ [CHR 0x22])
         then HARD else SOFT)"

definition GetRebootType :: "av_env \<Rightarrow> ux_state \<Rightarrow> reboot_type \<times> ux_state" where
  "GetRebootType e s =
     (let s1 = ux_log (AAccess ''/tmp/Update_rebootInfo_invoked'') s in
      if \<not> ev_access e (ux_hist s) ''/tmp/Update_rebootInfo_invoked'' then (UNAVAILABLE, s1)
      else (reboot_info_type (ev_readFile e (ux_hist s1) ''/opt/secure/reboot/previousreboot.info''),
            ux_log (AReadFile ''/opt/secure/reboot/previousreboot.info'') s1))"

definition DoForceDisplayOnPostReboot :: "av_env \<Rightarrow> ux_state \<Rightarrow> bool \<times> ux_state" where
  "DoForceDisplayOnPostReboot e s =
     (ev_access e (ux_hist s) ''/opt/force_display_on_after_reboot'',
      ux_log (AAccess ''/opt/force_display_on_after_reboot'') s)"

subsection \<open>Boot-loader pattern, LED and display ports\<close>

definition SetBootloaderPattern :: "av_env \<Rightarrow> bl_pattern \<Rightarrow> ux_state \<Rightarrow> bool \<times> ux_state" where
  "SetBootloaderPattern e pattern s =
     (if \<not> enableSilentRebootSupport s then (True, s)
      else (ev_setBLPattern e (ux_hist s) pattern, ux_log (ASetBLPattern pattern) s))"

definition SetBootloaderPatternInternal :: "av_env \<Rightarrow> bl_pattern \<Rightarrow> ux_state \<Rightarrow> bool \<times> ux_state" where
  "SetBootloaderPatternInternal e pattern s =
     SetBootloaderPattern e pattern (s\<lparr>invalidateAsyncBootloaderPattern := True\<rparr>)"

text \<open>A failed attempt leaves the retries to a thread, with at most 12 attempts of its own.\<close>

definition SetBootloaderPatternFaultTolerant :: "av_env \<Rightarrow> bl_pattern \<Rightarrow> ux_state \<Rightarrow> bool \<times> ux_state" where
  "SetBootloaderPatternFaultTolerant e pattern s =
     (let (ret, s1) = SetBootloaderPattern e pattern s in
      if \<not> ret
      then (ret, s1\<lparr>invalidateAsyncBootloaderPattern := False,
                    ux_tasks := ux_tasks s1 @ [TaskPattern pattern 12]\<rparr>)
      else (ret, s1))"

definition SyncPowerLedWithPowerState :: "av_env \<Rightarrow> PowerState \<Rightarrow> ux_state \<Rightarrow> ux_state" where
  "SyncPowerLedWithPowerState e power_state s =
     (let led_state = (if power_state = POWER_STATE_ON then ledEnabledInOnState s else ledEnabledInStandby s)
      in if ux_deviceSettings s then ux_log (ASetFPDState led_state) s else s)"

definition SyncDisplayPortsWithPowerState :: "av_env \<Rightarrow> PowerState \<Rightarrow> ux_state \<Rightarrow> ux_state" where
  "SyncDisplayPortsWithPowerState e power_state s =
     (if ux_listener s then s\<lparr>ux_av := SetAVPortsPowerState e power_state (ux_av s)\<rparr> else s)"

text \<open>
  Virtual: only the TV profile acts, and only before the first power transition. The method
  looks at the flag under its mutex (\<open>reboot_reason_locked\<close>: the power state to apply, if
  any) and switches the ports after it has released the mutex.
\<close>

definition reboot_reason_locked :: "reboot_type \<Rightarrow> ux_state \<Rightarrow> PowerState option" where
  "reboot_reason_locked reboot_type s =
     (if ux_class s = UxTv \<and> \<not> firstPowerTransitionComplete s
      then Some (if reboot_type = HARD then POWER_STATE_STANDBY else POWER_STATE_ON) else None)"

definition SyncDisplayPortsWithRebootReason :: "av_env \<Rightarrow> reboot_type \<Rightarrow> ux_state \<Rightarrow> ux_state" where
  "SyncDisplayPortsWithRebootReason e reboot_type s = (case reboot_reason_locked reboot_type s of
       Some ps \<Rightarrow> SyncDisplayPortsWithPowerState e ps s
     | None \<Rightarrow> s)"

text \<open>\<open>ScheduleRebootReasonCheck\<close> as the boot calls it; the retry is a thread of its own.\<close>

definition REBOOT_REASON_MAX_COUNT :: nat where "REBOOT_REASON_MAX_COUNT = 120 div 2"

definition ScheduleRebootReasonCheck :: "av_env \<Rightarrow> nat \<Rightarrow> ux_state \<Rightarrow> ux_state" where
  "ScheduleRebootReasonCheck e retryCount s =
     (let (reboot_type, s1) = GetRebootType e s in
      if reboot_type = UNAVAILABLE then
        (if retryCount < REBOOT_REASON_MAX_COUNT
         then s1\<lparr>ux_tasks := ux_tasks s1 @ [TaskReboot (retryCount + 1)]\<rparr> else s1)
      else SyncDisplayPortsWithRebootReason e reboot_type s1)"

subsection \<open>The virtual methods\<close>

definition power_pattern :: "PowerState \<Rightarrow> bl_pattern" where
  "power_pattern newState = (if newState = POWER_STATE_ON then BL_NORMAL else BL_SILENT_LED_ON)"

definition TvEu_ApplyPowerStateChangeConfig :: "av_env \<Rightarrow> PowerState \<Rightarrow> ux_state \<Rightarrow> bool \<times> ux_state" where
  "TvEu_ApplyPowerStateChangeConfig e newState s =
     SetBootloaderPatternInternal e (power_pattern newState) (SyncDisplayPortsWithPowerState e newState s)"

definition Tv_ApplyPowerStateChangeConfig :: "av_env \<Rightarrow> PowerState \<Rightarrow> ux_state \<Rightarrow> bool \<times> ux_state" where
  "Tv_ApplyPowerStateChangeConfig e newState s =
     (let s1 = (if \<not> firstPowerTransitionComplete s then s\<lparr>firstPowerTransitionComplete := True\<rparr> else s)
      in SetBootloaderPatternInternal e (power_pattern newState) (SyncDisplayPortsWithPowerState e newState s1))"

definition Stb_ApplyPowerStateChangeConfig :: "av_env \<Rightarrow> PowerState \<Rightarrow> ux_state \<Rightarrow> bool \<times> ux_state" where
  "Stb_ApplyPowerStateChangeConfig e newState s =
     (True, SyncPowerLedWithPowerState e newState (SyncDisplayPortsWithPowerState e newState s))"

definition ApplyPowerStateChangeConfig :: "av_env \<Rightarrow> PowerState \<Rightarrow> PowerState \<Rightarrow> ux_state \<Rightarrow> bool \<times> ux_state" where
  "ApplyPowerStateChangeConfig e newState prevState s = (case ux_class s of
       UxTvEu \<Rightarrow> TvEu_ApplyPowerStateChangeConfig e newState s
     | UxTv \<Rightarrow> Tv_ApplyPowerStateChangeConfig e newState s
     | UxStbEu \<Rightarrow> Stb_ApplyPowerStateChangeConfig e newState s
     | UxStb \<Rightarrow> Stb_ApplyPowerStateChangeConfig e newState s)"

definition ApplyPreRebootConfig :: "PowerState \<Rightarrow> ux_state \<Rightarrow> bool \<times> ux_state" where
  "ApplyPreRebootConfig currentState s = (True, s)"

definition ApplyPreMaintenanceRebootConfig :: "av_env \<Rightarrow> PowerState \<Rightarrow> ux_state \<Rightarrow> bool \<times> ux_state" where
  "ApplyPreMaintenanceRebootConfig e currentState s = (case ux_class s of
       UxTvEu \<Rightarrow> if currentState \<noteq> POWER_STATE_ON then SetBootloaderPatternInternal e BL_SILENT s else (True, s)
     | UxStbEu \<Rightarrow> if currentState \<noteq> POWER_STATE_ON then SetBootloaderPatternInternal e BL_SILENT s else (True, s)
     | UxTv \<Rightarrow> if currentState \<noteq> POWER_STATE_ON then SetBootloaderPatternInternal e BL_SILENT_LED_ON s else (True, s)
     | UxStb \<Rightarrow> (True, s))"

text \<open>The \<open>switch\<close> on the target state; an unhandled one keeps the normal pattern.\<close>

definition target_pattern :: "PowerState \<Rightarrow> bl_pattern" where
  "target_pattern targetState =
     (if targetState \<in> {POWER_STATE_STANDBY, POWER_STATE_STANDBY_LIGHT_SLEEP, POWER_STATE_STANDBY_DEEP_SLEEP}
      then BL_SILENT_LED_ON else BL_NORMAL)"

definition TvEu_ApplyPostRebootConfig :: "av_env \<Rightarrow> PowerState \<Rightarrow> PowerState \<Rightarrow> ux_state \<Rightarrow> bool \<times> ux_state" where
  "TvEu_ApplyPostRebootConfig e targetState lastKnownState s =
     (let s1 = (if lastKnownState = POWER_STATE_ON \<and> targetState = POWER_STATE_STANDBY
                then SyncDisplayPortsWithPowerState e POWER_STATE_ON s
                else SyncDisplayPortsWithPowerState e targetState s)
      in SetBootloaderPatternFaultTolerant e (target_pattern targetState) s1)"

definition StbEu_ApplyPostRebootConfig ::
  "bool \<Rightarrow> av_env \<Rightarrow> PowerState \<Rightarrow> PowerState \<Rightarrow> ux_state \<Rightarrow> bool \<times> ux_state" where
  "StbEu_ApplyPostRebootConfig led e targetState lastKnownState s =
     (let ps = (if lastKnownState = POWER_STATE_ON \<and> targetState = POWER_STATE_STANDBY
                then POWER_STATE_ON else targetState);
          s1 = (if led then SyncPowerLedWithPowerState e ps s else s)
      in SetBootloaderPatternFaultTolerant e BL_NORMAL (SyncDisplayPortsWithPowerState e ps s1))"

text \<open>The display part of the TV profile after a reboot.\<close>

definition Tv_PostRebootDisplay :: "av_env \<Rightarrow> PowerState \<Rightarrow> PowerState \<Rightarrow> ux_state \<Rightarrow> ux_state" where
  "Tv_PostRebootDisplay e targetState lastKnownState s =
     (if lastKnownState = POWER_STATE_ON \<and> targetState = POWER_STATE_STANDBY then
        (let (force, s1) = DoForceDisplayOnPostReboot e s in
         if force then SyncDisplayPortsWithPowerState e POWER_STATE_ON s1
         else (let (isHardReboot, s2) = GetRebootType e s1 in
               case isHardReboot of
                 HARD \<Rightarrow> SyncDisplayPortsWithPowerState e POWER_STATE_STANDBY s2
               | SOFT \<Rightarrow> SyncDisplayPortsWithPowerState e POWER_STATE_ON s2
               | UNAVAILABLE \<Rightarrow> ScheduleRebootReasonCheck e 0 s2))
      else SyncDisplayPortsWithPowerState e targetState s)"

definition Tv_ApplyPostRebootConfig ::
  "bool \<Rightarrow> av_env \<Rightarrow> PowerState \<Rightarrow> PowerState \<Rightarrow> ux_state \<Rightarrow> bool \<times> ux_state" where
  "Tv_ApplyPostRebootConfig led e targetState lastKnownState s =
     (let s1 = (if led then SyncPowerLedWithPowerState e targetState s else s)
      in SetBootloaderPatternFaultTolerant e (target_pattern targetState)
           (Tv_PostRebootDisplay e targetState lastKnownState s1))"

definition Stb_ApplyPostRebootConfig :: "av_env \<Rightarrow> PowerState \<Rightarrow> ux_state \<Rightarrow> bool \<times> ux_state" where
  "Stb_ApplyPostRebootConfig e targetState s =
     (True, SyncDisplayPortsWithPowerState e targetState (SyncPowerLedWithPowerState e targetState s))"

definition ApplyPostRebootConfig ::
  "bool \<Rightarrow> av_env \<Rightarrow> PowerState \<Rightarrow> PowerState \<Rightarrow> ux_state \<Rightarrow> bool \<times> ux_state" where
  "ApplyPostRebootConfig led e targetState lastKnownState s = (case ux_class s of
       UxTvEu \<Rightarrow> TvEu_ApplyPostRebootConfig e targetState lastKnownState s
     | UxStbEu \<Rightarrow> StbEu_ApplyPostRebootConfig led e targetState lastKnownState s
     | UxTv \<Rightarrow> Tv_ApplyPostRebootConfig led e targetState lastKnownState s
     | UxStb \<Rightarrow> Stb_ApplyPostRebootConfig e targetState s)"

definition GetPreferredPostRebootPowerState :: "ux_class \<Rightarrow> PowerState \<Rightarrow> PowerState" where
  "GetPreferredPostRebootPowerState c prevState = (if c = UxStb then prevState else POWER_STATE_STANDBY)"

subsection \<open>The detached threads\<close>

text \<open>
  One round of \<open>SetBootloaderPatternAsync\<close> (after its sleep) or one retry of the reboot
  reason check; the task is removed and put back when its thread goes on.
\<close>

definition SetBootloaderPatternAsync :: "av_env \<Rightarrow> bl_pattern \<Rightarrow> nat \<Rightarrow> ux_state \<Rightarrow> ux_state" where
  "SetBootloaderPatternAsync e pattern remaining_retries s =
     (if \<not> invalidateAsyncBootloaderPattern s then
        (let (ret, s1) = SetBootloaderPattern e pattern s in
         if \<not> ret \<and> 0 < remaining_retries - 1
         then s1\<lparr>ux_tasks := ux_tasks s1 @ [TaskPattern pattern (remaining_retries - 1)]\<rparr> else s1)
      else s)"

text \<open>A retry of the check up to the point where it has released the mutex.\<close>

definition RebootReasonRetry :: "av_env \<Rightarrow> nat \<Rightarrow> ux_state \<Rightarrow> ux_state" where
  "RebootReasonRetry e retryCount s =
     (let (reboot_type, s1) = GetRebootType e s in
      if reboot_type = UNAVAILABLE then
        (if retryCount < REBOOT_REASON_MAX_COUNT
         then s1\<lparr>ux_tasks := ux_tasks s1 @ [TaskReboot (retryCount + 1)]\<rparr> else s1)
      else (case reboot_reason_locked reboot_type s1 of
              Some ps \<Rightarrow> s1\<lparr>ux_tasks := ux_tasks s1 @ [TaskPorts ps]\<rparr>
            | None \<Rightarrow> s1))"

definition ux_run_task :: "av_env \<Rightarrow> nat \<Rightarrow> ux_state \<Rightarrow> ux_state" where
  "ux_run_task e i s =
     (let s1 = s\<lparr>ux_tasks := take i (ux_tasks s) @ drop (Suc i) (ux_tasks s)\<rparr> in
      case ux_tasks s ! i of
        TaskPattern p n \<Rightarrow> SetBootloaderPatternAsync e p n s1
      | TaskReboot n \<Rightarrow> RebootReasonRetry e n s1
      | TaskPorts ps \<Rightarrow> SyncDisplayPortsWithPowerState e ps s1)"

inductive ux_task_step :: "av_env \<Rightarrow> ux_state \<Rightarrow> ux_state \<Rightarrow> bool" for e :: av_env where
  "i < length (ux_tasks s) \<Longrightarrow> ux_task_step e s (ux_run_task e i s)"

inductive_cases ux_task_stepE: "ux_task_step e s s'"

subsection \<open>Background work after a power transition\<close>

text \<open>Files looked at between two states, and nothing else done to ports, LED or pattern.\<close>

definition only_reads :: "ux_state \<Rightarrow> ux_state \<Rightarrow> bool" where
  "only_reads s s' \<longleftrightarrow> (\<exists>t. ux_av s' = av_more t (ux_av s)
     \<and> (\<forall>c \<in> set t. (\<exists>f. c = AAccess f) \<or> (\<exists>f. c = AReadFile f)))"

lemma only_reads_refl: "ux_av s' = ux_av s \<Longrightarrow> only_reads s s'"
  unfolding only_reads_def by (intro exI [of _ "[]"]) simp

lemma only_reads_trans: "only_reads s s1 \<Longrightarrow> only_reads s1 s2 \<Longrightarrow> only_reads s s2"
proof -
  assume "only_reads s s1" "only_reads s1 s2"
  then obtain t u where "ux_av s1 = av_more t (ux_av s)" "ux_av s2 = av_more u (ux_av s1)"
    "\<forall>c \<in> set t. (\<exists>f. c = AAccess f) \<or> (\<exists>f. c = AReadFile f)"
    "\<forall>c \<in> set u. (\<exists>f. c = AAccess f) \<or> (\<exists>f. c = AReadFile f)" by (auto simp: only_reads_def)
  then show ?thesis unfolding only_reads_def by (intro exI [of _ "t @ u"]) auto
qed

text \<open>The controller fields, without the ports and the tasks.\<close>

definition same_profile :: "ux_state \<Rightarrow> ux_state \<Rightarrow> bool" where
  "same_profile s s' \<longleftrightarrow> ux_class s' = ux_class s
     \<and> firstPowerTransitionComplete s' = firstPowerTransitionComplete s
     \<and> invalidateAsyncBootloaderPattern s' = invalidateAsyncBootloaderPattern s
     \<and> enableSilentRebootSupport s' = enableSilentRebootSupport s \<and> ux_listener s' = ux_listener s"

lemma GetRebootType_reads:
  "only_reads s (snd (GetRebootType e s))" "same_profile s (snd (GetRebootType e s))"
  "ux_tasks (snd (GetRebootType e s)) = ux_tasks s"
proof -
  let ?u = "AAccess ''/tmp/Update_rebootInfo_invoked''"
  let ?r = "AReadFile ''/opt/secure/reboot/previousreboot.info''"
  have "only_reads s (ux_log ?u s)" unfolding only_reads_def
    by (intro exI [of _ "[?u]"]) (simp add: ux_log_def av_log_more)
  moreover have "only_reads s (ux_log ?r (ux_log ?u s))" unfolding only_reads_def
    by (intro exI [of _ "[?u, ?r]"]) (simp add: ux_log_def av_log_more)
  ultimately show "only_reads s (snd (GetRebootType e s))" by (simp add: GetRebootType_def Let_def)
  show "same_profile s (snd (GetRebootType e s))" "ux_tasks (snd (GetRebootType e s)) = ux_tasks s"
    by (simp_all add: GetRebootType_def Let_def same_profile_def ux_log_def)
qed

text \<open>A TV profile after a power transition.\<close>

definition tv_settled :: "ux_state \<Rightarrow> bool" where
  "tv_settled s \<longleftrightarrow> invalidateAsyncBootloaderPattern s
     \<and> (ux_class s = UxTvEu \<or> (ux_class s = UxTv \<and> firstPowerTransitionComplete s))"

text \<open>The threads past the test of the flag: what they are about to apply.\<close>

fun late_port :: "ux_task \<Rightarrow> PowerState list" where
  "late_port (TaskPorts ps) = [ps]"
| "late_port _ = []"

definition late_ports :: "ux_state \<Rightarrow> PowerState list" where
  "late_ports s = concat (map late_port (ux_tasks s))"

text \<open>
  What the threads have done from \<open>s\<close> to \<open>s'\<close>: no LED or pattern command, port commands at
  most from threads that were past the test, each of them once.
\<close>

definition late_only :: "ux_state \<Rightarrow> ux_state \<Rightarrow> bool" where
  "late_only s s' \<longleftrightarrow> mset (late_ports s') \<subseteq># mset (late_ports s)
     \<and> (mset (late_ports s') = mset (late_ports s) \<longrightarrow> only_reads s s')
     \<and> (\<exists>t. av_trace (ux_av s') = av_trace (ux_av s) @ t
          \<and> (\<forall>c \<in> set t. port_call c \<or> (\<exists>f. c = AAccess f) \<or> (\<exists>f. c = AReadFile f)))"

lemma late_only_reads:
  "only_reads s s' \<Longrightarrow> mset (late_ports s') = mset (late_ports s) \<Longrightarrow> late_only s s'"
  by (auto simp: late_only_def only_reads_def)

lemma late_only_trans: "late_only s s1 \<Longrightarrow> late_only s1 s2 \<Longrightarrow> late_only s s2"
proof -
  assume 1: "late_only s s1" and 2: "late_only s1 s2"
  then have sub: "mset (late_ports s2) \<subseteq># mset (late_ports s1)" "mset (late_ports s1) \<subseteq># mset (late_ports s)"
    by (simp_all add: late_only_def)
  have "only_reads s s2" if eq: "mset (late_ports s2) = mset (late_ports s)"
  proof -
    have "mset (late_ports s1) = mset (late_ports s)" using sub eq by (simp add: subset_mset.antisym)
    with 1 2 eq show ?thesis by (auto simp: late_only_def intro: only_reads_trans)
  qed
  with 1 2 sub show ?thesis unfolding late_only_def by (auto simp: Un_iff intro: subset_mset.order_trans)
qed

lemma late_take_drop:
  assumes "i < length ts"
  shows "mset (concat (map late_port ts))
    = mset (late_port (ts ! i)) + mset (concat (map late_port (take i ts @ drop (Suc i) ts)))"
  by (subst (1) id_take_nth_drop [OF assms]) simp

lemma settled_reboot_check:
  assumes "tv_settled s"
  shows "only_reads s (RebootReasonRetry e n s) \<and> tv_settled (RebootReasonRetry e n s)
     \<and> late_ports (RebootReasonRetry e n s) = late_ports s"
proof -
  obtain rt s1 where r: "GetRebootType e s = (rt, s1)" by (cases "GetRebootType e s")
  from GetRebootType_reads [where s = s and e = e] r
  have "only_reads s s1" "same_profile s s1" "ux_tasks s1 = ux_tasks s" by simp_all
  moreover from this assms have "reboot_reason_locked rt s1 = None"
    by (auto simp: reboot_reason_locked_def tv_settled_def same_profile_def)
  ultimately show ?thesis
    using assms by (auto simp: RebootReasonRetry_def r Let_def only_reads_def
        tv_settled_def same_profile_def late_ports_def)
qed

lemma settled_task:
  assumes "tv_settled s" and "ux_task_step e s s'"
  shows "late_only s s' \<and> tv_settled s'"
proof -
  from assms(2) obtain i where i: "i < length (ux_tasks s)" "s' = ux_run_task e i s"
    by (auto elim: ux_task_stepE)
  let ?s1 = "s\<lparr>ux_tasks := take i (ux_tasks s) @ drop (Suc i) (ux_tasks s)\<rparr>"
  have 1: "tv_settled ?s1" using assms(1) by (simp add: tv_settled_def)
  have r: "only_reads s x" if "only_reads ?s1 x" for x using that by (simp add: only_reads_def)
  note m = late_take_drop [OF i(1)]
  show ?thesis
  proof (cases "ux_tasks s ! i")
    case (TaskPattern p n)
    with 1 m show ?thesis
      by (simp add: i(2) ux_run_task_def SetBootloaderPatternAsync_def tv_settled_def Let_def only_reads_refl
          late_only_reads late_ports_def)
  next
    case (TaskReboot n)
    with settled_reboot_check [OF 1, of e n] r m show ?thesis
      by (simp add: i(2) ux_run_task_def Let_def late_only_reads) (simp add: late_ports_def late_only_reads)
  next
    case (TaskPorts ps)
    then have s': "s' = SyncDisplayPortsWithPowerState e ps ?s1" by (simp add: i(2) ux_run_task_def)
    have "mset (late_ports s) = add_mset ps (mset (late_ports s'))"
      using m TaskPorts by (simp add: s' late_ports_def SyncDisplayPortsWithPowerState_def)
    moreover have "av_ext (ux_av s) (ux_av s')"
      using av_ext_SetAVPorts by (simp add: s' SyncDisplayPortsWithPowerState_def)
    moreover have "tv_settled s'" using 1 by (simp add: s' tv_settled_def SyncDisplayPortsWithPowerState_def)
    ultimately show ?thesis by (auto simp: late_only_def av_ext_def)
  qed
qed

lemma settled_tasks: "(ux_task_step e)\<^sup>*\<^sup>* s s' \<Longrightarrow> tv_settled s \<Longrightarrow> late_only s s' \<and> tv_settled s'"
  by (induction rule: rtranclp_induct)
    (auto simp: only_reads_refl late_only_reads intro: late_only_trans dest: settled_task)

lemma settled_after_transition:
  assumes "ux_class s \<in> {UxTv, UxTvEu}"
  shows "tv_settled (snd (ApplyPowerStateChangeConfig e new prev s))"
  using assms
  by (auto simp: ApplyPowerStateChangeConfig_def Tv_ApplyPowerStateChangeConfig_def
      TvEu_ApplyPowerStateChangeConfig_def SetBootloaderPatternInternal_def SetBootloaderPattern_def
      SyncDisplayPortsWithPowerState_def tv_settled_def Let_def ux_log_def split: if_splits)

lemma transition_tasks:
  "ux_class s \<in> {UxTv, UxTvEu} \<Longrightarrow> ux_tasks (snd (ApplyPowerStateChangeConfig e newState prevState s)) = ux_tasks s"
  by (auto simp: ApplyPowerStateChangeConfig_def Tv_ApplyPowerStateChangeConfig_def Let_def
      TvEu_ApplyPowerStateChangeConfig_def SetBootloaderPatternInternal_def SetBootloaderPattern_def
      SyncDisplayPortsWithPowerState_def ux_log_def)

subsection \<open>The background work ends\<close>

fun task_cost :: "ux_task \<Rightarrow> nat" where
  "task_cost (TaskPattern p n) = max 1 n"
| "task_cost (TaskReboot n) = 2 + (REBOOT_REASON_MAX_COUNT - n)"
| "task_cost (TaskPorts ps) = 1"

definition tasks_cost :: "ux_state \<Rightarrow> nat" where
  "tasks_cost s = sum_list (map task_cost (ux_tasks s))"

lemma cost_remove:
  "i < length ts \<Longrightarrow> sum_list (map task_cost (take i ts @ drop (Suc i) ts)) + task_cost (ts ! i)
     = sum_list (map task_cost ts)"
  by (subst (4) id_take_nth_drop [of i ts]) simp_all

lemma sync_tasks: "ux_tasks (SyncDisplayPortsWithRebootReason e rt s) = ux_tasks s"
  by (simp add: SyncDisplayPortsWithRebootReason_def SyncDisplayPortsWithPowerState_def split: option.split)

lemma reboot_check_cost:
  "tasks_cost (ScheduleRebootReasonCheck e n s) < tasks_cost s + task_cost (TaskReboot n)"
proof -
  obtain rt s1 where r: "GetRebootType e s = (rt, s1)" by (cases "GetRebootType e s")
  with GetRebootType_reads(3) [of e s] have "ux_tasks s1 = ux_tasks s" by simp
  then show ?thesis
    by (cases "n < REBOOT_REASON_MAX_COUNT")
      (auto simp: ScheduleRebootReasonCheck_def r tasks_cost_def sync_tasks)
qed

lemma reboot_retry_cost:
  "tasks_cost (RebootReasonRetry e n s) < tasks_cost s + task_cost (TaskReboot n)"
proof -
  obtain rt s1 where r: "GetRebootType e s = (rt, s1)" by (cases "GetRebootType e s")
  with GetRebootType_reads(3) [of e s] have "ux_tasks s1 = ux_tasks s" by simp
  then show ?thesis
    by (cases "n < REBOOT_REASON_MAX_COUNT")
      (auto simp: RebootReasonRetry_def r tasks_cost_def split: option.split)
qed

lemma pattern_cost:
  "tasks_cost (SetBootloaderPatternAsync e p n s) < tasks_cost s + task_cost (TaskPattern p n)"
  by (auto simp: SetBootloaderPatternAsync_def SetBootloaderPattern_def Let_def tasks_cost_def ux_log_def)

lemma task_step_cost: "ux_task_step e s s' \<Longrightarrow> tasks_cost s' < tasks_cost s"
proof (erule ux_task_stepE)
  fix i assume i: "i < length (ux_tasks s)" "s' = ux_run_task e i s"
  let ?s1 = "s\<lparr>ux_tasks := take i (ux_tasks s) @ drop (Suc i) (ux_tasks s)\<rparr>"
  have "tasks_cost ?s1 + task_cost (ux_tasks s ! i) = tasks_cost s"
    using cost_remove [OF i(1)] by (simp add: tasks_cost_def)
  moreover have "tasks_cost s' < tasks_cost ?s1 + task_cost (ux_tasks s ! i)"
    using reboot_retry_cost [of e _ ?s1] pattern_cost [of e _ _ ?s1]
    by (cases "ux_tasks s ! i")
      (simp_all add: i(2) ux_run_task_def Let_def tasks_cost_def SyncDisplayPortsWithPowerState_def)
  ultimately show ?thesis by simp
qed

lemma task_run_length: "(ux_task_step e ^^ n) s s' \<Longrightarrow> n + tasks_cost s' \<le> tasks_cost s"
proof (induction n arbitrary: s')
  case 0
  then show ?case by simp
next
  case (Suc n)
  then obtain s1 where "(ux_task_step e ^^ n) s s1" "ux_task_step e s1 s'" by auto
  with Suc.IH [of s1] task_step_cost [of e s1 s'] show ?case by simp
qed


lemma no_tasks:
  "ux_tasks (SyncDisplayPortsWithPowerState e ps s) = ux_tasks s"
  "ux_tasks (SyncPowerLedWithPowerState e ps s) = ux_tasks s"
  "ux_tasks (snd (DoForceDisplayOnPostReboot e s)) = ux_tasks s"
  by (simp_all add: SyncDisplayPortsWithPowerState_def SyncPowerLedWithPowerState_def Let_def ux_log_def
      DoForceDisplayOnPostReboot_def)

lemma tv_display_cost: "tasks_cost (Tv_PostRebootDisplay e target lastKnown s) \<le> tasks_cost s + 61"
proof -
  have check: "tasks_cost (ScheduleRebootReasonCheck e 0 x) \<le> tasks_cost s + 61" if "ux_tasks x = ux_tasks s" for x
    using reboot_check_cost [of e 0 x] that by (simp add: REBOOT_REASON_MAX_COUNT_def tasks_cost_def)
  have sync: "tasks_cost (SyncDisplayPortsWithPowerState e ps x) \<le> tasks_cost s + 61" if "ux_tasks x = ux_tasks s" for ps x
    using that by (simp add: tasks_cost_def no_tasks)
  show ?thesis
    by (auto simp: Tv_PostRebootDisplay_def Let_def case_prod_unfold no_tasks GetRebootType_reads(3)
        split: reboot_type.split intro!: check sync)
qed

lemma post_reboot_cost:
  "tasks_cost (snd (ApplyPostRebootConfig led e target lastKnown s)) \<le> tasks_cost s + 73"
proof -
  have fault: "tasks_cost (snd (SetBootloaderPatternFaultTolerant e p x)) \<le> tasks_cost x + 12" for p x
    by (simp add: SetBootloaderPatternFaultTolerant_def SetBootloaderPattern_def Let_def tasks_cost_def ux_log_def)
  have eq: "tasks_cost (SyncDisplayPortsWithPowerState e ps x) = tasks_cost x"
    "tasks_cost (SyncPowerLedWithPowerState e ps x) = tasks_cost x" for ps x
    by (simp_all add: tasks_cost_def no_tasks)
  have tv: "tasks_cost (snd (Tv_ApplyPostRebootConfig led e target lastKnown s)) \<le> tasks_cost s + 73"
    using fault [of "target_pattern target" "Tv_PostRebootDisplay e target lastKnown
        (if led then SyncPowerLedWithPowerState e target s else s)"]
      tv_display_cost [of e target lastKnown "if led then SyncPowerLedWithPowerState e target s else s"]
    by (simp add: Tv_ApplyPostRebootConfig_def Let_def eq split: if_splits)
  have le: "tasks_cost (snd (SetBootloaderPatternFaultTolerant e p x)) \<le> tasks_cost s + 73"
    if "tasks_cost x = tasks_cost s" for p x using fault [of p x] that by simp
  show ?thesis
    using tv by (cases "ux_class s")
      (auto simp: ApplyPostRebootConfig_def Stb_ApplyPostRebootConfig_def StbEu_ApplyPostRebootConfig_def
        TvEu_ApplyPostRebootConfig_def Let_def eq intro!: le)
qed

subsection \<open>Ports and commands after a call\<close>

text \<open>Which video port handles are on after all calls so far, from a given start.\<close>

definition ports_on :: "(int \<Rightarrow> bool) \<Rightarrow> ux_state \<Rightarrow> int \<Rightarrow> bool" where
  "ports_on vm s = fold video_hw (ux_hist s) vm"

lemma ports_on_log: "\<forall>h b. c \<noteq> AEnableVideoPort h b \<Longrightarrow> ports_on vm (ux_log c s) = ports_on vm s"
  by (simp add: ports_on_def ux_log_def av_log_def ux_hist_def hw_other)

lemma ports_on_hist: "ux_av s' = ux_av s \<Longrightarrow> ports_on vm s' = ports_on vm s"
  by (simp add: ports_on_def ux_hist_def)

text \<open>Ports that share a handle share their name, so they get the same command.\<close>

definition ports_named :: "(int \<Rightarrow> int \<Rightarrow> int) \<Rightarrow> av_state \<Rightarrow> bool" where
  "ports_named gv s \<longleftrightarrow> (\<forall>p \<in> set (av_videoPorts s). \<forall>q \<in> set (av_videoPorts s).
     gv (ve_type p) (ve_index p) = gv (ve_type q) (ve_index q) \<longrightarrow> ve_name p = ve_name q)"

lemma ports_named_more [simp]: "ports_named gv (av_more t s) = ports_named gv s"
  by (simp add: ports_named_def)

lemma sync_ports_on:
  assumes "ux_listener s" and "av_platform e gv ga a0" and "av_configured (ux_av s)"
    and "ports_named gv (ux_av s)" and "p \<in> set (av_videoPorts (ux_av s))"
  defines "h \<equiv> gv (ve_type p) (ve_index p)"
  shows "ports_on vm (SyncDisplayPortsWithPowerState e ps s) h =
     (ps = POWER_STATE_ON \<or> (ps \<noteq> POWER_STATE_OFF
        \<and> GetVideoPortStandbySetting (ev_nameLength e) (av_standby (ux_av s)) (ve_name p) \<and> ports_on vm s h))"
proof -
  let ?s = "SetAVPortsPowerState e ps (ux_av s)"
  have "\<exists>t. av_trace ?s = av_trace (ux_av s) @ t" using SetAVPorts_calls [OF assms(2,3), of ps] by auto
  then have "av_trace ?s = av_trace (ux_av s) @ av_new (ux_av s) ?s" by (auto simp: av_new_def)
  then have "ports_on vm (SyncDisplayPortsWithPowerState e ps s) h
      = fold video_hw (av_new (ux_av s) ?s) (ports_on vm s) h"
    using assms(1) by (simp add: ports_on_def ux_hist_def SyncDisplayPortsWithPowerState_def)
  also have "\<dots> = (if video_touched (ev_nameLength e) ps (av_standby (ux_av s)) p
      then ps = POWER_STATE_ON else ports_on vm s h)"
  proof -
    have "(\<exists>q \<in> set (av_videoPorts (ux_av s)). video_touched (ev_nameLength e) ps (av_standby (ux_av s)) q
        \<and> gv (ve_type q) (ve_index q) = h) \<longleftrightarrow> video_touched (ev_nameLength e) ps (av_standby (ux_av s)) p"
      using assms(4,5) unfolding video_touched_def ports_named_def h_def by metis
    then show ?thesis by (simp only: SetAVPorts_hw(1) [OF assms(2,3)] fold_video_calls)
  qed
  also have "\<dots> = (ps = POWER_STATE_ON \<or> (ps \<noteq> POWER_STATE_OFF
        \<and> GetVideoPortStandbySetting (ev_nameLength e) (av_standby (ux_av s)) (ve_name p) \<and> ports_on vm s h))"
    by (auto simp: video_touched_def)
  finally show ?thesis .
qed

lemma pattern_ports_on:
  "ports_on vm (snd (SetBootloaderPattern e p s)) = ports_on vm s"
  "ports_on vm (snd (SetBootloaderPatternInternal e p s)) = ports_on vm s"
  "ports_on vm (snd (SetBootloaderPatternFaultTolerant e p s)) = ports_on vm s"
  by (simp_all add: SetBootloaderPattern_def SetBootloaderPatternInternal_def Let_def
      SetBootloaderPatternFaultTolerant_def ports_on_def ux_hist_def ux_log_def av_log_def)

lemma led_ports_on: "ports_on vm (SyncPowerLedWithPowerState e ps s) = ports_on vm s"
  by (simp add: SyncPowerLedWithPowerState_def Let_def ports_on_def ux_hist_def ux_log_def av_log_def)


lemma fault_tasks: "set (ux_tasks s) \<subseteq> set (ux_tasks (snd (SetBootloaderPatternFaultTolerant e p s)))"
  by (auto simp: SetBootloaderPatternFaultTolerant_def SetBootloaderPattern_def Let_def ux_log_def)

lemma check_pending:
  assumes "\<forall>t. \<not> ev_access e t ''/tmp/Update_rebootInfo_invoked''"
    and "\<forall>t. \<not> ev_access e t ''/opt/force_display_on_after_reboot''"
  shows "TaskReboot 1 \<in> set (ux_tasks (Tv_PostRebootDisplay e POWER_STATE_STANDBY POWER_STATE_ON s))"
proof -
  have "fst (GetRebootType e x) = UNAVAILABLE" for x using assms(1) by (simp add: GetRebootType_def Let_def)
  moreover have "TaskReboot 1 \<in> set (ux_tasks (ScheduleRebootReasonCheck e 0 x))" for x
    using assms(1) by (simp add: ScheduleRebootReasonCheck_def GetRebootType_def Let_def REBOOT_REASON_MAX_COUNT_def)
  ultimately show ?thesis
    using assms(2) by (simp add: Tv_PostRebootDisplay_def DoForceDisplayOnPostReboot_def case_prod_unfold Let_def)
qed

lemma post_reboot_tv:
  "ux_class s = UxTv \<Longrightarrow> snd (ApplyPostRebootConfig led e target lastKnown s)
     = snd (SetBootloaderPatternFaultTolerant e (target_pattern target) (Tv_PostRebootDisplay e target lastKnown
          (if led then SyncPowerLedWithPowerState e target s else s)))"
  by (simp add: ApplyPostRebootConfig_def Tv_ApplyPostRebootConfig_def Let_def)

subsection \<open>Properties\<close>

text \<open>
  C8. A power transition is final, but for a reboot check caught between its test and its port
  switch: after a TV profile has applied a power state, the threads left over from the boot
  (retries of the boot-loader pattern, late checks of the reboot reason) may go on in any order
  and number. No LED or pattern command follows; no further thread passes the test of the
  flag; a thread that had passed it before the transition switches the ports at most once, and
  as long as none of those does, nothing follows but looks at the reboot files. That such a
  thread does undo the transition is \<open>reboot_reason_race_undoes_transition\<close>.
\<close>

theorem power_transition_is_final:
  assumes "ux_class s \<in> {UxTv, UxTvEu}"
    and "(ux_task_step e)\<^sup>*\<^sup>* (snd (ApplyPowerStateChangeConfig e newState prevState s)) s'"
  defines "s1 \<equiv> snd (ApplyPowerStateChangeConfig e newState prevState s)"
  shows "mset (late_ports s') \<subseteq># mset (late_ports s)
     \<and> (mset (late_ports s') = mset (late_ports s) \<longrightarrow> only_reads s1 s')
     \<and> (\<exists>t. av_trace (ux_av s') = av_trace (ux_av s1) @ t
          \<and> (\<forall>c \<in> set t. port_call c \<or> (\<exists>f. c = AAccess f) \<or> (\<exists>f. c = AReadFile f)))"
  using settled_tasks [OF assms(2) settled_after_transition [OF assms(1)]] transition_tasks [OF assms(1)]
  by (simp add: s1_def late_only_def late_ports_def)

text \<open>A TV on the example platform, with a pattern retry and a reboot check left by the boot.\<close>

definition ex_tv :: ux_state where
  "ex_tv = (UXController_new ex_av UxTv True ex_av_state)\<lparr>ux_tasks := [TaskReboot 1, TaskPattern BL_NORMAL 12]\<rparr>"

lemma ex_tv_fields: "ux_class ex_tv = UxTv" "ux_listener ex_tv" "\<not> firstPowerTransitionComplete ex_tv"
  "ux_av ex_tv = av_log AInstance ex_av_state" "ux_tasks ex_tv = [TaskReboot 1, TaskPattern BL_NORMAL 12]"
  by (simp_all add: ex_tv_def UXController_new_def InitializeSafeDefaults_def ux_device_def Let_def)

theorem power_transition_is_final_witness:
  "only_reads (snd (ApplyPowerStateChangeConfig ex_av POWER_STATE_STANDBY POWER_STATE_ON ex_tv))
     (ux_run_task ex_av 0 (snd (ApplyPowerStateChangeConfig ex_av POWER_STATE_STANDBY POWER_STATE_ON ex_tv)))"
proof -
  let ?s1 = "snd (ApplyPowerStateChangeConfig ex_av POWER_STATE_STANDBY POWER_STATE_ON ex_tv)"
  have tv: "ux_class ex_tv \<in> {UxTv, UxTvEu}" by (simp add: ex_tv_fields)
  then have t: "ux_tasks ?s1 = [TaskReboot 1, TaskPattern BL_NORMAL 12]"
    by (simp only: transition_tasks ex_tv_fields(5))
  then have "(ux_task_step ex_av)\<^sup>*\<^sup>* ?s1 (ux_run_task ex_av 0 ?s1)"
    by (intro r_into_rtranclp ux_task_step.intros) simp
  from power_transition_is_final [OF tv this] show ?thesis by (simp add: late_ports_def ex_tv_fields)
qed

text \<open>
  The race the final power state loses: a late reboot check tests the flag under the mutex but
  switches the ports after it. If it goes between the two while the device goes to standby, the
  port is off after the transition and on after the thread, with the device in standby (a soft
  reboot; the port is not marked to stay on).
\<close>

theorem reboot_reason_race_undoes_transition:
  fixes prevState :: PowerState
  assumes "ux_class s = UxTv" and "ux_listener s" and "\<not> firstPowerTransitionComplete s"
    and "av_platform e gv ga a0" and "av_configured (ux_av s)" and "ports_named gv (ux_av s)"
    and "p \<in> set (av_videoPorts (ux_av s))"
    and "\<not> GetVideoPortStandbySetting (ev_nameLength e) (av_standby (ux_av s)) (ve_name p)"
    and "ux_tasks s = TaskReboot n # ts"
    and "\<And>t. ev_access e t ''/tmp/Update_rebootInfo_invoked''"
    and "\<And>t. reboot_info_type (ev_readFile e t ''/opt/secure/reboot/previousreboot.info'') = SOFT"
  shows "\<exists>s1 s2. ux_task_step e s s1
     \<and> ux_task_step e (snd (ApplyPowerStateChangeConfig e POWER_STATE_STANDBY prevState s1)) s2
     \<and> \<not> ports_on vm (snd (ApplyPowerStateChangeConfig e POWER_STATE_STANDBY prevState s1)) (gv (ve_type p) (ve_index p))
     \<and> ports_on vm s2 (gv (ve_type p) (ve_index p))"
proof -
  let ?h = "gv (ve_type p) (ve_index p)"
  define s1 where "s1 = ux_run_task e 0 s"
  define x where "x = snd (ApplyPowerStateChangeConfig e POWER_STATE_STANDBY prevState s1)"
  define r where "r = s1\<lparr>firstPowerTransitionComplete := True\<rparr>"
  let ?y = "SyncDisplayPortsWithPowerState e POWER_STATE_STANDBY r"
  have s1: "ux_class s1 = UxTv" "ux_listener s1" "\<not> firstPowerTransitionComplete s1"
      "ux_tasks s1 = ts @ [TaskPorts POWER_STATE_ON]" "\<exists>t. ux_av s1 = av_more t (ux_av s)"
    using assms(1-3,9-11) by (simp_all add: s1_def ux_run_task_def RebootReasonRetry_def GetRebootType_def Let_def
        reboot_reason_locked_def ux_log_def av_log_more, blast)
  then obtain t where t: "ux_av s1 = av_more t (ux_av s)" by blast
  have x: "x = snd (SetBootloaderPatternInternal e BL_SILENT_LED_ON ?y)"
    using s1 by (simp add: x_def r_def ApplyPowerStateChangeConfig_def Tv_ApplyPowerStateChangeConfig_def power_pattern_def)
  have ports: "av_configured (ux_av r)" "ports_named gv (ux_av r)" "p \<in> set (av_videoPorts (ux_av r))"
    "av_standby (ux_av r) = av_standby (ux_av s)" "ux_listener r"
    using t assms(5-8) s1(2) by (simp_all add: r_def)
  obtain u where u: "ux_av ?y = av_more u (ux_av r)"
    using SetAVPorts_calls [OF assms(4) ports(1), of POWER_STATE_STANDBY] ports(5)
    by (auto simp: SyncDisplayPortsWithPowerState_def)
  have "\<not> ports_on vm ?y ?h"
    using sync_ports_on [of r e gv ga a0 p vm POWER_STATE_STANDBY] assms(4,8) ports by simp
  then have off: "\<not> ports_on vm x ?h" by (simp only: x pattern_ports_on simp_thms)
  have xt: "ux_tasks x = ts @ [TaskPorts POWER_STATE_ON]"
    using transition_tasks [of s1] s1 by (simp add: x_def)
  define z where "z = x\<lparr>ux_tasks := ts\<rparr>"
  have run: "ux_run_task e (length ts) x = SyncDisplayPortsWithPowerState e POWER_STATE_ON z"
    by (simp add: ux_run_task_def xt z_def)
  have "ux_listener z" using ports(5)
    by (simp add: z_def x SetBootloaderPatternInternal_def SetBootloaderPattern_def Let_def ux_log_def
        SyncDisplayPortsWithPowerState_def)
  moreover have "\<exists>w. ux_av z = av_more w (ux_av r)"
    using u by (cases "enableSilentRebootSupport ?y")
      (auto simp: z_def x SetBootloaderPatternInternal_def SetBootloaderPattern_def ux_log_def av_log_more)
  ultimately have "ports_on vm (SyncDisplayPortsWithPowerState e POWER_STATE_ON z) ?h"
    using sync_ports_on [of z e gv ga a0 p vm POWER_STATE_ON] assms(4) ports by auto
  moreover have "ux_task_step e s s1" using assms(9) by (simp add: s1_def ux_task_step.intros)
  moreover have "ux_task_step e x (ux_run_task e (length ts) x)" by (rule ux_task_step.intros) (simp add: xt)
  ultimately show ?thesis
    using off unfolding x_def [symmetric] run by (intro exI [of _ s1] exI, unfold x_def [symmetric]) blast
qed

lemma ex_tv_ports: "av_configured (ux_av ex_tv)" "ports_named (\<lambda>_ _. 1) (ux_av ex_tv)"
  "av_videoPorts (ux_av ex_tv) = [\<lparr>ve_type = 6, ve_index = 0, ve_typeName = ''HDMI'', ve_name = ''HDMI0''\<rparr>]"
  "\<not> GetVideoPortStandbySetting n (av_standby (ux_av ex_tv)) port"
  using ex_av_configured
  by (auto simp: ex_tv_fields av_log_more ports_named_def ex_av_state_eq av_initial_def
      GetVideoPortStandbySetting_def find_Some_iff split: option.splits)

text \<open>The same TV when the reboot file is there and says nothing of the power supply.\<close>

definition ex_soft :: av_env where
  "ex_soft = ex_av\<lparr>ev_access := \<lambda>_ _. True\<rparr>"

theorem reboot_reason_race_undoes_transition_witness:
  "\<exists>s1 s2. ux_task_step ex_soft ex_tv s1
     \<and> ux_task_step ex_soft (snd (ApplyPowerStateChangeConfig ex_soft POWER_STATE_STANDBY POWER_STATE_ON s1)) s2
     \<and> ports_on (\<lambda>_. False) s2 1"
proof -
  have p: "\<lparr>ve_type = 6, ve_index = 0, ve_typeName = ''HDMI'', ve_name = ''HDMI0''\<rparr> \<in> set (av_videoPorts (ux_av ex_tv))"
    by (simp add: ex_tv_ports)
  have plat: "av_platform ex_soft (\<lambda>_ _. 1) (\<lambda>_ _. 2) (\<lambda>_. True)"
    using ex_av_platform by (simp add: av_platform_def ex_soft_def)
  have env: "ev_access ex_soft t f" "reboot_info_type (ev_readFile ex_soft t g) = SOFT" for t f g
    by (simp_all add: ex_soft_def ex_av_def reboot_info_type_def)
  show ?thesis
    using reboot_reason_race_undoes_transition [OF ex_tv_fields(1-3) plat ex_tv_ports(1,2) p ex_tv_ports(4)
        ex_tv_fields(5) env] by blast
qed

text \<open>
  The background work of a boot ends: once the post-reboot configuration has been
  applied, with no thread before it, at most 73 steps of its threads follow (12 attempts at
  the boot-loader pattern, 60 checks of the reboot reason, one switch of the ports), and as long as a thread is
  left a round can follow.
\<close>

theorem post_reboot_work_ends:
  assumes "ux_tasks s = []"
    and "(ux_task_step e ^^ n) (snd (ApplyPostRebootConfig led e targetState lastKnownState s)) s'"
  shows "n \<le> 73 \<and> ((\<exists>s''. ux_task_step e s' s'') \<longleftrightarrow> ux_tasks s' \<noteq> [])"
proof -
  have "n + tasks_cost s' \<le> 73"
    using task_run_length [OF assms(2)] post_reboot_cost [of led e targetState lastKnownState s] assms(1)
    by (simp add: tasks_cost_def)
  moreover have "ux_tasks s' \<noteq> []" if "ux_task_step e s' s''" for s''
    using that by (auto elim: ux_task_stepE)
  moreover have "\<exists>s''. ux_task_step e s' s''" if "ux_tasks s' \<noteq> []"
    using that ux_task_step.intros [of 0 s' e] by auto
  ultimately show ?thesis by auto
qed

theorem post_reboot_work_ends_witness:
  "\<exists>s''. ux_task_step ex_av (snd (ApplyPostRebootConfig False ex_av POWER_STATE_STANDBY POWER_STATE_ON
     (UXController_new ex_av UxTv True ex_av_state))) s''"
proof -
  let ?s = "UXController_new ex_av UxTv True ex_av_state"
  let ?d = "Tv_PostRebootDisplay ex_av POWER_STATE_STANDBY POWER_STATE_ON ?s"
  have s: "ux_tasks ?s = []" "ux_class ?s = UxTv" by (simp_all add: UXController_new_def InitializeSafeDefaults_def Let_def)
  have "TaskReboot 1 \<in> set (ux_tasks ?d)" by (rule check_pending) (simp_all add: ex_av_def)
  then have "TaskReboot 1 \<in> set (ux_tasks (snd (ApplyPostRebootConfig False ex_av POWER_STATE_STANDBY POWER_STATE_ON ?s)))"
    using fault_tasks [of ?d ex_av "target_pattern POWER_STATE_STANDBY"] by (auto simp: post_reboot_tv [OF s(2)])
  with post_reboot_work_ends [OF s(1), of 0 ex_av False POWER_STATE_STANDBY POWER_STATE_ON] show ?thesis
    by force
qed

text \<open>
  A TV that was on and reboots into standby shows a picture again unless the power was
  cut: with the override file the port is on; with the reboot reason not yet written the
  port keeps its state and a check is left pending; after a power-on reset the port stays on
  only if it is marked to stay on in standby (and was on); after any other reboot it is on.
  The reboot files are taken not to change during the call.
\<close>

theorem tv_display_after_reboot:
  fixes led :: bool
  assumes "ux_class s = UxTv" and "ux_listener s" and "av_platform e gv ga a0"
    and "av_configured (ux_av s)" and "ports_named gv (ux_av s)" and "p \<in> set (av_videoPorts (ux_av s))"
    and "\<forall>t. ev_access e t = acc" and "\<forall>t. ev_readFile e t = rd"
  defines "s' \<equiv> snd (ApplyPostRebootConfig led e POWER_STATE_STANDBY POWER_STATE_ON s)"
    and "h \<equiv> gv (ve_type p) (ve_index p)"
  shows "ports_on vm s' h =
      (if acc ''/opt/force_display_on_after_reboot'' then True
       else if \<not> acc ''/tmp/Update_rebootInfo_invoked'' then ports_on vm s h
       else if reboot_info_type (rd ''/opt/secure/reboot/previousreboot.info'') = HARD
       then GetVideoPortStandbySetting (ev_nameLength e) (av_standby (ux_av s)) (ve_name p) \<and> ports_on vm s h
       else True)
    \<and> (\<not> acc ''/opt/force_display_on_after_reboot'' \<and> \<not> acc ''/tmp/Update_rebootInfo_invoked''
         \<longrightarrow> TaskReboot 1 \<in> set (ux_tasks s'))"
proof -
  define x where "x = (if led then SyncPowerLedWithPowerState e POWER_STATE_STANDBY s else s)"
  let ?d = "Tv_PostRebootDisplay e POWER_STATE_STANDBY POWER_STATE_ON x"
  have x: "ux_listener x" "ux_class x = UxTv" "ports_on vm x = ports_on vm s"
    using assms(1,2) led_ports_on [of vm e POWER_STATE_STANDBY s]
    by (auto simp: x_def SyncPowerLedWithPowerState_def Let_def ux_log_def)
  have "\<exists>t. ux_av x = av_more t (ux_av s)"
    by (cases "led \<and> ux_deviceSettings s")
      (auto simp: x_def SyncPowerLedWithPowerState_def Let_def ux_log_def av_log_more intro: exI [of _ "[]"])
  then obtain t where t: "ux_av x = av_more t (ux_av s)" ..
  have logs: "ports_on vm (ux_log (AAccess f) y) = ports_on vm y" "ports_on vm (ux_log (AReadFile f) y) = ports_on vm y" for f y
    by (simp_all add: ports_on_log)
  have sync: "ports_on vm (SyncDisplayPortsWithPowerState e ps y) h =
      (ps = POWER_STATE_ON \<or> (ps \<noteq> POWER_STATE_OFF
         \<and> GetVideoPortStandbySetting (ev_nameLength e) (av_standby (ux_av s)) (ve_name p) \<and> ports_on vm y h))"
    if "ux_listener y" "\<exists>u. ux_av y = av_more u (ux_av s)" for ps y
    using that assms(3-6) sync_ports_on [of y e gv ga a0 p vm ps] by (auto simp: h_def)
  have more: "\<exists>u. ux_av (ux_log c y) = av_more u (ux_av s)" if "\<exists>u. ux_av y = av_more u (ux_av s)" for c y
    using that by (auto simp: ux_log_def av_log_more)
  have base: "\<exists>u. ux_av x = av_more u (ux_av s)" using t by blast
  have l: "ux_listener (ux_log c y) = ux_listener y" for c y by (simp add: ux_log_def)
  have s': "s' = snd (SetBootloaderPatternFaultTolerant e (target_pattern POWER_STATE_STANDBY) ?d)"
    by (simp add: s'_def post_reboot_tv [OF assms(1)] x_def)
  have dst: "ports_on vm s' h = ports_on vm ?d h" by (simp only: s' pattern_ports_on)
  have tasks: "set (ux_tasks ?d) \<subseteq> set (ux_tasks s')" by (simp only: s' fault_tasks)
  let ?f = "''/opt/force_display_on_after_reboot''" and ?u = "''/tmp/Update_rebootInfo_invoked''"
    and ?r = "''/opt/secure/reboot/previousreboot.info''"
  let ?y = "ux_log (AAccess ?f) x"
  have "\<exists>w. snd (GetRebootType e ?y) = w \<and> ports_on vm w = ports_on vm s \<and> ux_listener w
      \<and> (\<exists>u. ux_av w = av_more u (ux_av s))"
    using x base more l by (simp add: GetRebootType_def Let_def logs)
  then obtain w where w: "snd (GetRebootType e ?y) = w" "ports_on vm w = ports_on vm s" "ux_listener w"
    "\<exists>u. ux_av w = av_more u (ux_av s)" by blast
  have rt: "fst (GetRebootType e z) = (if acc ?u then reboot_info_type (rd ?r) else UNAVAILABLE)" for z
    by (simp add: GetRebootType_def Let_def assms(7,8))
  have known: "reboot_info_type f = HARD \<or> reboot_info_type f = SOFT" for f
    by (simp add: reboot_info_type_def split: option.split)
  have disp: "?d = (if acc ?f then SyncDisplayPortsWithPowerState e POWER_STATE_ON ?y
      else if \<not> acc ?u then ScheduleRebootReasonCheck e 0 w
      else if reboot_info_type (rd ?r) = HARD then SyncDisplayPortsWithPowerState e POWER_STATE_STANDBY w
      else SyncDisplayPortsWithPowerState e POWER_STATE_ON w)"
    using known [of "rd ?r"] rt [of ?y] w(1)
    by (auto simp: Tv_PostRebootDisplay_def DoForceDisplayOnPostReboot_def assms(7) Let_def case_prod_unfold)
  have unavailable: "ports_on vm (ScheduleRebootReasonCheck e 0 w) = ports_on vm s" if "\<not> acc ?u"
  proof -
    have "ports_on vm (snd (GetRebootType e w)) = ports_on vm w" by (simp add: GetRebootType_def Let_def logs)
    with that rt [of w] w(2) show ?thesis
      by (simp add: ScheduleRebootReasonCheck_def case_prod_unfold Let_def ports_on_def ux_hist_def)
  qed
  have "ux_listener ?y" "\<exists>u. ux_av ?y = av_more u (ux_av s)" using x(1) base more l by simp_all
  with w unavailable sync have "ports_on vm ?d h = (if acc ?f then True else if \<not> acc ?u then ports_on vm s h
       else if reboot_info_type (rd ?r) = HARD
       then GetVideoPortStandbySetting (ev_nameLength e) (av_standby (ux_av s)) (ve_name p) \<and> ports_on vm s h
       else True)"
    by (simp add: disp)
  moreover have "TaskReboot 1 \<in> set (ux_tasks ?d)" if "\<not> acc ?f" "\<not> acc ?u"
    using that assms(7) by (intro check_pending) simp_all
  ultimately show ?thesis using dst tasks by auto
qed

theorem tv_display_after_reboot_witness:
  "\<not> ports_on (\<lambda>_. False) (snd (ApplyPostRebootConfig True ex_av POWER_STATE_STANDBY POWER_STATE_ON ex_tv)) 1"
proof -
  let ?p = "\<lparr>ve_type = 6, ve_index = 0, ve_typeName = ''HDMI'', ve_name = ''HDMI0''\<rparr>"
  have p: "?p \<in> set (av_videoPorts (ux_av ex_tv))" by (simp add: ex_tv_ports)
  have acc: "\<forall>t. ev_access ex_av t = (\<lambda>_. False)" "\<forall>t. ev_readFile ex_av t = (\<lambda>_. None)"
    by (simp_all add: ex_av_def)
  have "\<not> ports_on (\<lambda>_. False) ex_tv 1"
    by (simp add: ports_on_def ux_hist_def ex_tv_fields av_log_def ex_av_state_eq)
  with tv_display_after_reboot [OF ex_tv_fields(1,2) ex_av_platform ex_tv_ports(1,2) p acc, of "\<lambda>_. False" True]
  show ?thesis by simp
qed

text \<open>
  What a power state change asks of the board, per profile id: the TV profiles set the
  boot-loader pattern (normal for ON, silent with the LED on for everything else) and leave
  the LED alone; the STB profiles set the power LED, lit exactly in ON, when DeviceSettings
  is there, and leave the boot-loader pattern alone.
\<close>

theorem power_change_board_commands:
  assumes "UXController_Initialize e profile_id listener av = Some s"
  shows "filter (\<lambda>c. \<not> port_call c) (av_new (ux_av s) (ux_av (snd (ApplyPowerStateChangeConfig e newState prevState s)))) =
     (if profile_id = 1 \<or> profile_id = 3
      then [ASetBLPattern (if newState = POWER_STATE_ON then BL_NORMAL else BL_SILENT_LED_ON)]
      else if ev_instance e (av_trace av) then [ASetFPDState (newState = POWER_STATE_ON)] else [])"
proof -
  let ?d = "SyncDisplayPortsWithPowerState e newState s"
  obtain t where t: "ux_hist ?d = ux_hist s @ t" "\<forall>c \<in> set t. port_call c"
    using av_ext_SetAVPorts [of "ux_av s" e newState]
    by (cases "ux_listener s") (auto simp: SyncDisplayPortsWithPowerState_def ux_hist_def av_ext_def)
  have f: "filter (\<lambda>c. \<not> port_call c) t = []" using t(2) by (simp add: filter_empty_conv)
  have new: "av_new (ux_av s) (ux_av x) = drop (length (ux_hist s)) (ux_hist x)" for x
    by (simp add: av_new_def ux_hist_def)
  have d: "ux_deviceSettings (SyncDisplayPortsWithPowerState e ps s) = ux_deviceSettings s"
    "enableSilentRebootSupport (SyncDisplayPortsWithPowerState e ps s) = enableSilentRebootSupport s"
    "ledEnabledInOnState (SyncDisplayPortsWithPowerState e ps s) = ledEnabledInOnState s"
    "ledEnabledInStandby (SyncDisplayPortsWithPowerState e ps s) = ledEnabledInStandby s" for ps
    by (simp_all add: SyncDisplayPortsWithPowerState_def)
  have tr: "SyncDisplayPortsWithPowerState e newState (s\<lparr>firstPowerTransitionComplete := b\<rparr>)
      = ?d\<lparr>firstPowerTransitionComplete := b\<rparr>" for b
    by (simp add: SyncDisplayPortsWithPowerState_def)
  have p: "profile_id = 1 \<Longrightarrow> ux_class s = UxTv" "profile_id = 3 \<Longrightarrow> ux_class s = UxTvEu"
    "profile_id \<noteq> 1 \<Longrightarrow> profile_id \<noteq> 3 \<Longrightarrow> ux_class s \<in> {UxStb, UxStbEu}"
    "ux_class s \<in> {UxTv, UxTvEu} \<Longrightarrow> enableSilentRebootSupport s"
    "ux_class s \<in> {UxStb, UxStbEu} \<Longrightarrow> ledEnabledInOnState s \<and> \<not> ledEnabledInStandby s"
    "ux_deviceSettings s = ev_instance e (av_trace av)" "\<not> firstPowerTransitionComplete s"
    using assms by (auto simp: UXController_Initialize_def UXController_new_def InitializeSafeDefaults_def
        ux_device_def Let_def split: if_splits)
  have tv: "av_new (ux_av s) (ux_av (snd (SetBootloaderPatternInternal e q (?d\<lparr>firstPowerTransitionComplete := b\<rparr>))))
      = t @ [ASetBLPattern q]" if "ux_class s \<in> {UxTv, UxTvEu}" for q b
    using t(1) p(4) [OF that] d(2) unfolding new
    by (simp add: SetBootloaderPatternInternal_def SetBootloaderPattern_def ux_log_def ux_hist_def av_log_def)
  have stb: "av_new (ux_av s) (ux_av (SyncPowerLedWithPowerState e newState ?d))
      = t @ (if ev_instance e (av_trace av) then [ASetFPDState (newState = POWER_STATE_ON)] else [])"
    if "ux_class s \<in> {UxStb, UxStbEu}"
    using t(1) p(5) [OF that] p(6) d unfolding new
    by (simp add: SyncPowerLedWithPowerState_def ux_log_def ux_hist_def av_log_def Let_def)
  consider "profile_id = 1" | "profile_id = 3" | "profile_id \<noteq> 1" "profile_id \<noteq> 3" by blast
  then show ?thesis
  proof cases
    case 1
    with p tv [of _ True] f show ?thesis
      by (simp add: ApplyPowerStateChangeConfig_def Tv_ApplyPowerStateChangeConfig_def tr power_pattern_def)
  next
    case 2
    have "?d = ?d\<lparr>firstPowerTransitionComplete := firstPowerTransitionComplete ?d\<rparr>" by simp
    with 2 p tv [of _ "firstPowerTransitionComplete ?d"] f show ?thesis
      by (simp add: ApplyPowerStateChangeConfig_def TvEu_ApplyPowerStateChangeConfig_def power_pattern_def)
  next
    case 3
    with p(3) [OF 3] stb f show ?thesis
      by (auto simp: ApplyPowerStateChangeConfig_def Stb_ApplyPowerStateChangeConfig_def)
  qed
qed

theorem power_change_board_commands_witness:
  "filter (\<lambda>c. \<not> port_call c) (av_new (ux_av (UXController_new ex_av UxStb True ex_av_state))
     (ux_av (snd (ApplyPowerStateChangeConfig ex_av POWER_STATE_STANDBY POWER_STATE_ON
        (UXController_new ex_av UxStb True ex_av_state))))) = [ASetFPDState False]"
  using power_change_board_commands [of ex_av 0 True ex_av_state "UXController_new ex_av UxStb True ex_av_state"
      POWER_STATE_STANDBY POWER_STATE_ON]
  by (simp add: UXController_Initialize_def) (simp add: ex_av_def)

end
