(* ===== verification/Pwr_Listener.thy ===== *)
theory Pwr_Listener
  imports Product_Traits DS_Interfaces
begin

section \<open>The power event listener (\<open>DSPwrEventListener\<close>, life cycle and threads)\<close>

text \<open>
  Models the rest of \<open>DSPwrEventListener.cpp\<close>: the event queue, the thread that drains it, the
  thread that connects to the power manager, \<open>Init\<close> and \<open>Deinit\<close>. The threads are program
  counters of one state; one step is the code between two points where another thread can
  run. \<open>pm_env\<close> answers the power manager calls, by the number of the connection attempt.
  \<open>pw_posted\<close> and \<open>pw_handled\<close> record the events given to the listener and those handled;
  \<open>pw_av\<close> is the state of the port part, which the product profile shares.
\<close>

subsection \<open>State\<close>

record pm_env =
  pm_create :: "nat \<Rightarrow> bool"
  pm_state :: "nat \<Rightarrow> PowerState option"
  pm_before :: "PowerState option"

type_synonym pw_event = "PowerState \<times> PowerState"

text \<open>
  The event thread: before the test at the top of its loop, past a test (with \<open>queueEmpty\<close>,
  the event mutex held), in \<open>pthread_cond_wait\<close>, woken but without the mutex, in the inner
  loop, with an event in hand, and ended (or not created).
\<close>

datatype ev_pc = EvTop | EvChecked bool | EvBlocked | EvWoken | EvDrain | EvHandle PowerState PowerState | EvExit

datatype cn_pc = CnLoop | CnRead | CnApply | CnDone

record pw_state =
  pw_ux :: "ux_state option"
  pw_av :: av_state
  pw_queue :: "pw_event list"
  pw_registered :: bool
  pw_plugin :: bool
  pw_stop :: bool
  pw_sync :: bool
  pw_joining :: bool
  pw_attempts :: nat
  pw_evpc :: ev_pc
  pw_cnpc :: cn_pc
  pw_signals :: nat
  pw_posted :: "pw_event list"
  pw_handled :: "pw_event list"

definition pw_new :: pw_state where
  "pw_new = \<lparr>pw_ux = None, pw_av = av_initial, pw_queue = [], pw_registered = False, pw_plugin = False,
     pw_stop = False, pw_sync = False, pw_joining = False, pw_attempts = 0, pw_evpc = EvExit,
     pw_cnpc = CnDone, pw_signals = 0, pw_posted = [], pw_handled = []\<rparr>"

subsection \<open>Handling events\<close>

text \<open>A call of a profile method on the shared port state.\<close>

definition with_ux :: "(ux_state \<Rightarrow> bool \<times> ux_state) \<Rightarrow> ux_state \<Rightarrow> pw_state \<Rightarrow> pw_state" where
  "with_ux f u s = (let u' = snd (f (u\<lparr>ux_av := pw_av s\<rparr>)) in s\<lparr>pw_ux := Some u', pw_av := ux_av u'\<rparr>)"

definition HandlePwrEventData :: "bool \<Rightarrow> av_env \<Rightarrow> PowerState \<Rightarrow> PowerState \<Rightarrow> pw_state \<Rightarrow> pw_state" where
  "HandlePwrEventData led e currentState newState s = (case pw_ux s of
       Some u \<Rightarrow> with_ux (ApplyPowerStateChangeConfig e newState currentState) u s
     | None \<Rightarrow> s\<lparr>pw_av := SetAVPortsPowerState e newState
                   (if led then snd (SetLEDStatus e newState (pw_av s)) else pw_av s)\<rparr>)"

definition PwrControllerFetchNinitStateValues :: "bool \<Rightarrow> av_env \<Rightarrow> pm_env \<Rightarrow> pw_state \<Rightarrow> pw_state" where
  "PwrControllerFetchNinitStateValues led e m s =
     (let powerStateBeforeReboot =
            (if pw_plugin s then (case pm_before m of Some b \<Rightarrow> b | None \<Rightarrow> POWER_STATE_STANDBY)
             else POWER_STATE_STANDBY);
          cur = av_curState (pw_av s)
      in case pw_ux s of
           Some u \<Rightarrow> with_ux (ApplyPostRebootConfig led e cur powerStateBeforeReboot) u s
         | None \<Rightarrow> s\<lparr>pw_av := SetAVPortsPowerState e cur
                       (if led then snd (SetLEDStatus e cur (pw_av s)) else pw_av s)\<rparr>)"

text \<open>\<open>reboot_reason_custom\<close> has \<open>n\<close> bytes; its last one is set to zero before it is compared.\<close>

definition SetRebootConfig :: "nat \<Rightarrow> av_env \<Rightarrow> string \<Rightarrow> int \<Rightarrow> pw_state \<Rightarrow> int \<times> pw_state" where
  "SetRebootConfig n e reboot_reason_custom powerState s =
     (0, case pw_ux s of
           None \<Rightarrow> s
         | Some u \<Rightarrow>
             (let ps = PwrMgrToPowerControllerPowerState powerState in
              if ps = POWER_STATE_UNKNOWN then s
              else if take n ''MAINTENANCE_REBOOT'' = take (n - 1) reboot_reason_custom
              then with_ux (ApplyPreMaintenanceRebootConfig e ps) u s
              else with_ux (ApplyPreRebootConfig ps) u s))"

subsection \<open>Connecting to the power manager\<close>

definition registerPowerEventHandler :: "pw_state \<Rightarrow> pw_state" where
  "registerPowerEventHandler s =
     (if \<not> pw_registered s \<and> pw_plugin s then s\<lparr>pw_registered := True\<rparr> else s)"

text \<open>\<open>InitializePowerManager\<close> in its two halves: events can arrive once it has registered.\<close>

definition connect_power_manager :: "pm_env \<Rightarrow> pw_state \<Rightarrow> pw_state" where
  "connect_power_manager m s =
     registerPowerEventHandler (s\<lparr>pw_plugin := pm_create m (pw_attempts s), pw_attempts := pw_attempts s + 1\<rparr>)"

definition read_power_state :: "pm_env \<Rightarrow> pw_state \<Rightarrow> pw_state" where
  "read_power_state m s =
     (if pw_plugin s
      then (case pm_state m (pw_attempts s - 1) of
              Some st \<Rightarrow> s\<lparr>pw_av := (pw_av s)\<lparr>av_curState := st\<rparr>\<rparr> | None \<Rightarrow> s)
      else s)"

definition InitializePowerManager :: "pm_env \<Rightarrow> pw_state \<Rightarrow> pw_state" where
  "InitializePowerManager m s = read_power_state m (connect_power_manager m s)"

text \<open>The connection thread on its own; \<open>None\<close>: it never ends.\<close>

partial_function (option) PwrRetryEstablishConnThread ::
  "bool \<Rightarrow> av_env \<Rightarrow> pm_env \<Rightarrow> pw_state \<Rightarrow> pw_state option" where
  "PwrRetryEstablishConnThread led e m s =
     (if pw_plugin s \<and> pw_registered s then Some (PwrControllerFetchNinitStateValues led e m s)
      else PwrRetryEstablishConnThread led e m (InitializePowerManager m s))"

subsection \<open>Life cycle\<close>

definition Init :: "av_env \<Rightarrow> pw_state \<Rightarrow> pw_state" where
  "Init e s =
     (let (ready, av) = IsDeviceSettingsReady e True (pw_av s);
          ux = UXController_Initialize e (if ev_profile e = PROFILE_TV then 1 else 2) True av
      in s\<lparr>pw_ux := (case ux of Some u \<Rightarrow> Some u | None \<Rightarrow> pw_ux s),
           pw_av := (case ux of Some u \<Rightarrow> ux_av u | None \<Rightarrow> av),
           pw_sync := True, pw_stop := False, pw_evpc := EvTop, pw_cnpc := CnLoop\<rparr>)"

text \<open>
  \<open>Deinit\<close> up to the join, and after it. Locking a mutex that was destroyed is undefined
  behaviour: \<open>None\<close>. The lock of the event mutex is taken between tests of the event thread.
\<close>

definition Deinit_begin :: "pw_state \<Rightarrow> pw_state option" where
  "Deinit_begin s =
     (if \<not> pw_sync s then None
      else Some (s\<lparr>pw_plugin := False, pw_registered := False, pw_stop := True, pw_joining := True,
                   pw_evpc := (if pw_evpc s = EvBlocked then EvWoken else pw_evpc s)\<rparr>))"

definition Deinit_end :: "pw_state \<Rightarrow> pw_state" where
  "Deinit_end s = s\<lparr>pw_queue := [], pw_sync := False, pw_joining := False\<rparr>"

subsection \<open>The threads as a step relation\<close>

text \<open>
  \<open>onPowerModeChanged\<close> first queues the event, then signals (\<open>post\<close>, \<open>signal\<close>); the signal
  needs the event mutex, which the event thread holds from a test to its wait.
\<close>

definition holds_mutex :: "ev_pc \<Rightarrow> bool" where
  "holds_mutex pc \<longleftrightarrow> pc = EvChecked True \<or> pc = EvChecked False"

definition onPowerModeChanged :: "PowerState \<Rightarrow> PowerState \<Rightarrow> pw_state \<Rightarrow> pw_state" where
  "onPowerModeChanged currentState newState s =
     s\<lparr>pw_queue := pw_queue s @ [(currentState, newState)],
       pw_posted := pw_posted s @ [(currentState, newState)], pw_signals := pw_signals s + 1\<rparr>"

definition ev_signal :: "pw_state \<Rightarrow> pw_state" where
  "ev_signal s = s\<lparr>pw_signals := pw_signals s - 1,
                   pw_evpc := (if pw_evpc s = EvBlocked then EvWoken else pw_evpc s)\<rparr>"

text \<open>One step of \<open>PwrEventHandlingThreadFunc\<close> (a blocked thread has none).\<close>

definition ev_next :: "bool \<Rightarrow> av_env \<Rightarrow> pw_state \<Rightarrow> pw_state option" where
  "ev_next led e s = (case pw_evpc s of
       EvTop \<Rightarrow> Some (s\<lparr>pw_evpc := EvChecked (pw_queue s = [])\<rparr>)
     | EvWoken \<Rightarrow> Some (s\<lparr>pw_evpc := EvChecked (pw_queue s = [])\<rparr>)
     | EvChecked queueEmpty \<Rightarrow> Some (s\<lparr>pw_evpc :=
         (if \<not> pw_stop s \<and> queueEmpty then EvBlocked else if pw_stop s then EvExit else EvDrain)\<rparr>)
     | EvDrain \<Rightarrow> (case pw_queue s of
           [] \<Rightarrow> Some (s\<lparr>pw_evpc := EvTop\<rparr>)
         | (c, n) # q \<Rightarrow> Some (s\<lparr>pw_queue := q, pw_evpc := EvHandle c n\<rparr>))
     | EvHandle c n \<Rightarrow>
         Some ((HandlePwrEventData led e c n s)\<lparr>pw_evpc := EvDrain, pw_handled := pw_handled s @ [(c, n)]\<rparr>)
     | EvBlocked \<Rightarrow> None
     | EvExit \<Rightarrow> None)"

definition cn_next :: "bool \<Rightarrow> av_env \<Rightarrow> pm_env \<Rightarrow> pw_state \<Rightarrow> pw_state option" where
  "cn_next led e m s = (case pw_cnpc s of
       CnLoop \<Rightarrow> if pw_plugin s \<and> pw_registered s then Some (s\<lparr>pw_cnpc := CnApply\<rparr>)
                 else Some ((connect_power_manager m s)\<lparr>pw_cnpc := CnRead\<rparr>)
     | CnRead \<Rightarrow> Some ((read_power_state m s)\<lparr>pw_cnpc := CnLoop\<rparr>)
     | CnApply \<Rightarrow> Some ((PwrControllerFetchNinitStateValues led e m s)\<lparr>pw_cnpc := CnDone\<rparr>)
     | CnDone \<Rightarrow> None)"

inductive pw_step :: "bool \<Rightarrow> av_env \<Rightarrow> pm_env \<Rightarrow> pw_state \<Rightarrow> pw_state \<Rightarrow> bool"
  for led :: bool and e :: av_env and m :: pm_env where
  post: "pw_registered s \<Longrightarrow> pw_step led e m s (onPowerModeChanged c n s)"
| signal: "0 < pw_signals s \<Longrightarrow> \<not> holds_mutex (pw_evpc s) \<Longrightarrow> pw_step led e m s (ev_signal s)"
| spurious: "pw_evpc s = EvBlocked \<Longrightarrow> pw_step led e m s (s\<lparr>pw_evpc := EvWoken\<rparr>)"
| event: "ev_next led e s = Some s' \<Longrightarrow> pw_step led e m s s'"
| conn: "cn_next led e m s = Some s' \<Longrightarrow> pw_step led e m s s'"
| deinit_begin: "\<not> pw_joining s \<Longrightarrow> \<not> holds_mutex (pw_evpc s) \<Longrightarrow> Deinit_begin s = Some s'
    \<Longrightarrow> pw_step led e m s s'"
| deinit_end: "pw_joining s \<Longrightarrow> pw_evpc s = EvExit \<Longrightarrow> pw_step led e m s (Deinit_end s)"

text \<open>The work the listener does on its own: the event thread and the pending signals.\<close>

inductive pw_work :: "bool \<Rightarrow> av_env \<Rightarrow> pw_state \<Rightarrow> pw_state \<Rightarrow> bool" for led :: bool and e :: av_env where
  signal: "0 < pw_signals s \<Longrightarrow> \<not> holds_mutex (pw_evpc s) \<Longrightarrow> pw_work led e s (ev_signal s)"
| event: "ev_next led e s = Some s' \<Longrightarrow> pw_work led e s s'"

lemma work_step: "pw_work led e s s' \<Longrightarrow> pw_step led e m s s'"
  by (erule pw_work.cases) (auto intro: pw_step.signal pw_step.event)

lemma work_steps: "(pw_work led e)\<^sup>*\<^sup>* s s' \<Longrightarrow> (pw_step led e m)\<^sup>*\<^sup>* s s'"
  by (induction rule: rtranclp_induct) (auto dest: work_step intro: rtranclp.rtrancl_into_rtrancl)

subsection \<open>The invariant\<close>

definition ev_hand :: "ev_pc \<Rightarrow> pw_event list" where
  "ev_hand pc = (case pc of EvHandle c n \<Rightarrow> [(c, n)] | _ \<Rightarrow> [])"

definition pw_ok :: "pw_state \<Rightarrow> bool" where
  "pw_ok s \<longleftrightarrow> (\<exists>r. pw_posted s = pw_handled s @ r \<and> (pw_sync s \<longrightarrow> r = ev_hand (pw_evpc s) @ pw_queue s))
     \<and> (pw_sync s \<and> pw_queue s \<noteq> [] \<and> (pw_evpc s = EvBlocked \<or> pw_evpc s = EvChecked True) \<longrightarrow> 0 < pw_signals s)
     \<and> (pw_evpc s = EvBlocked \<longrightarrow> \<not> pw_stop s) \<and> (pw_sync s \<longrightarrow> pw_joining s = pw_stop s)
     \<and> (pw_evpc s = EvExit \<or> \<not> pw_sync s \<longrightarrow> pw_stop s) \<and> (\<not> pw_sync s \<longrightarrow> pw_evpc s = EvExit \<and> \<not> pw_joining s)"

lemma with_ux_simps [simp]:
  "pw_queue (with_ux f u s) = pw_queue s" "pw_posted (with_ux f u s) = pw_posted s"
  "pw_handled (with_ux f u s) = pw_handled s" "pw_sync (with_ux f u s) = pw_sync s"
  "pw_stop (with_ux f u s) = pw_stop s" "pw_joining (with_ux f u s) = pw_joining s"
  "pw_evpc (with_ux f u s) = pw_evpc s" "pw_signals (with_ux f u s) = pw_signals s"
  "pw_cnpc (with_ux f u s) = pw_cnpc s" "pw_plugin (with_ux f u s) = pw_plugin s"
  "pw_registered (with_ux f u s) = pw_registered s"
  by (simp_all add: with_ux_def Let_def)

lemma handle_simps [simp]:
  "pw_queue (HandlePwrEventData led e c n s) = pw_queue s" "pw_posted (HandlePwrEventData led e c n s) = pw_posted s"
  "pw_handled (HandlePwrEventData led e c n s) = pw_handled s" "pw_sync (HandlePwrEventData led e c n s) = pw_sync s"
  "pw_stop (HandlePwrEventData led e c n s) = pw_stop s" "pw_joining (HandlePwrEventData led e c n s) = pw_joining s"
  "pw_evpc (HandlePwrEventData led e c n s) = pw_evpc s" "pw_signals (HandlePwrEventData led e c n s) = pw_signals s"
  "pw_cnpc (HandlePwrEventData led e c n s) = pw_cnpc s"
  by (simp_all add: HandlePwrEventData_def split: option.split)

lemma cn_next_simps:
  assumes "cn_next led e m s = Some s'"
  shows "pw_queue s' = pw_queue s" "pw_posted s' = pw_posted s" "pw_handled s' = pw_handled s"
    "pw_sync s' = pw_sync s" "pw_stop s' = pw_stop s" "pw_joining s' = pw_joining s"
    "pw_evpc s' = pw_evpc s" "pw_signals s' = pw_signals s"
proof -
  have f: "pw_queue (PwrControllerFetchNinitStateValues led e m s) = pw_queue s"
    "pw_posted (PwrControllerFetchNinitStateValues led e m s) = pw_posted s"
    "pw_handled (PwrControllerFetchNinitStateValues led e m s) = pw_handled s"
    "pw_sync (PwrControllerFetchNinitStateValues led e m s) = pw_sync s"
    "pw_stop (PwrControllerFetchNinitStateValues led e m s) = pw_stop s"
    "pw_joining (PwrControllerFetchNinitStateValues led e m s) = pw_joining s"
    "pw_evpc (PwrControllerFetchNinitStateValues led e m s) = pw_evpc s"
    "pw_signals (PwrControllerFetchNinitStateValues led e m s) = pw_signals s"
    by (simp_all add: PwrControllerFetchNinitStateValues_def Let_def split: option.split)
  show "pw_queue s' = pw_queue s" "pw_posted s' = pw_posted s" "pw_handled s' = pw_handled s"
    "pw_sync s' = pw_sync s" "pw_stop s' = pw_stop s" "pw_joining s' = pw_joining s"
    "pw_evpc s' = pw_evpc s" "pw_signals s' = pw_signals s"
    using assms f by (auto simp: cn_next_def connect_power_manager_def registerPowerEventHandler_def
        read_power_state_def split: cn_pc.splits if_splits option.splits)
qed

lemma pw_ok_event:
  assumes "pw_ok s" and "ev_next led e s = Some s'"
  shows "pw_ok s'"
proof -
  have sy: "pw_sync s" using assms by (auto simp: pw_ok_def ev_next_def)
  show ?thesis
  proof (cases "pw_evpc s")
    case (EvHandle c n)
    with assms sy show ?thesis by (auto simp: ev_next_def pw_ok_def ev_hand_def)
  next
    case EvDrain
    with assms sy show ?thesis
      by (auto simp: ev_next_def pw_ok_def ev_hand_def split: list.splits)
  qed (use assms sy in \<open>auto simp: ev_next_def pw_ok_def ev_hand_def split: if_splits\<close>)
qed

lemma pw_ok_step:
  assumes "pw_ok s" and "pw_step led e m s s'"
  shows "pw_ok s'"
  using assms(2)
proof cases
  case (post c n)
  with assms(1) show ?thesis by (auto simp: pw_ok_def onPowerModeChanged_def)
next
  case signal
  with assms(1) show ?thesis by (auto simp: pw_ok_def ev_signal_def ev_hand_def holds_mutex_def)
next
  case spurious
  with assms(1) show ?thesis by (auto simp: pw_ok_def ev_hand_def)
next
  case event
  with assms(1) show ?thesis by (rule pw_ok_event)
next
  case conn
  from assms(1) cn_next_simps [OF conn] show ?thesis by (simp add: pw_ok_def)
next
  case deinit_begin
  with assms(1) show ?thesis
    by (auto simp: pw_ok_def Deinit_begin_def ev_hand_def holds_mutex_def split: if_splits)
next
  case deinit_end
  with assms(1) show ?thesis by (auto simp: pw_ok_def Deinit_end_def)
qed

interpretation pw: step_invariant "pw_step led e m" pw_ok for led e m
  by unfold_locales (rule pw_ok_step)

lemma pw_ok_Init: "pw_ok (Init e pw_new)"
  by (simp add: pw_ok_def Init_def pw_new_def Let_def case_prod_unfold ev_hand_def)

lemma pw_reached: "(pw_step led e m)\<^sup>*\<^sup>* (Init e pw_new) s \<Longrightarrow> pw_ok s"
  using pw.reached pw_ok_Init by blast

subsection \<open>Draining the queue, and ending the thread\<close>

text \<open>The running listener: the invariant, no stop, and the events given so far are fixed.\<close>

definition running :: "pw_event list \<Rightarrow> pw_state \<Rightarrow> bool" where
  "running evs s \<longleftrightarrow> pw_ok s \<and> pw_sync s \<and> \<not> pw_stop s \<and> pw_posted s = evs"

definition stopping :: "cn_pc \<Rightarrow> pw_state \<Rightarrow> bool" where
  "stopping c s \<longleftrightarrow> pw_ok s \<and> pw_sync s \<and> pw_joining s \<and> pw_cnpc s = c"

lemma work_keeps:
  assumes "pw_work led e s s'"
  shows "pw_sync s' = pw_sync s" "pw_stop s' = pw_stop s" "pw_posted s' = pw_posted s"
    "pw_joining s' = pw_joining s" "pw_cnpc s' = pw_cnpc s"
  using assms
  by (auto elim!: pw_work.cases simp: ev_signal_def ev_next_def split: ev_pc.splits list.splits)

lemma pw_ok_work: "pw_ok s \<Longrightarrow> pw_work led e s s' \<Longrightarrow> pw_ok s'"
  by (erule pw_ok_step) (erule work_step)

interpretation run: step_invariant "pw_work led e" "running evs" for led e evs
proof
  fix s s' assume "running evs s" "pw_work led e s s'"
  then show "running evs s'"
    using work_keeps [of led e s s'] pw_ok_work [of s led e s']
    by (simp add: running_def)
qed

interpretation stop: step_invariant "pw_work led e" "stopping c" for led e c
proof
  fix s s' assume "stopping c s" "pw_work led e s s'"
  then show "stopping c s'"
    using work_keeps [of led e s s'] pw_ok_work [of s led e s']
    by (simp add: stopping_def)
qed

fun pc_weight :: "ev_pc \<Rightarrow> nat" where
  "pc_weight (EvChecked b) = (if b then 6 else 4)"
| "pc_weight EvBlocked = 5"
| "pc_weight EvWoken = 7"
| "pc_weight EvTop = 7"
| "pc_weight EvDrain = 8"
| "pc_weight (EvHandle c n) = 9"
| "pc_weight EvExit = 0"

text \<open>Work left until the queue is empty, and until the thread has ended.\<close>

definition drain_work :: "pw_state \<Rightarrow> nat" where
  "drain_work s = 9 * length (pw_queue s) + (case pw_evpc s of
     EvHandle c n \<Rightarrow> 2 | EvDrain \<Rightarrow> 1 | EvChecked b \<Rightarrow> (if b then 6 else 2) | EvTop \<Rightarrow> 3 | EvWoken \<Rightarrow> 4
   | EvBlocked \<Rightarrow> 5 | EvExit \<Rightarrow> 0)"

definition exit_work :: "pw_state \<Rightarrow> nat" where
  "exit_work s = 2 * length (pw_queue s) + pc_weight (pw_evpc s)"

lemma ev_next_total:
  assumes "pw_evpc s \<noteq> EvBlocked" and "pw_evpc s \<noteq> EvExit"
  obtains s' where "ev_next led e s = Some s'"
  using assms by (cases "pw_evpc s"; cases "pw_queue s") (auto simp: ev_next_def case_prod_unfold)

lemma drain_step:
  assumes "running evs s" and "pw_handled s \<noteq> evs"
  shows "\<exists>s'. pw_work led e s s' \<and> drain_work s' < drain_work s"
proof (cases "pw_evpc s = EvBlocked")
  case True
  with assms have "pw_queue s \<noteq> []" "0 < pw_signals s" by (auto simp: running_def pw_ok_def ev_hand_def)
  with True pw_work.signal [of s led e] show ?thesis
    by (intro exI [of _ "ev_signal s"]) (simp add: ev_signal_def drain_work_def holds_mutex_def)
next
  case False
  have ex: "pw_evpc s \<noteq> EvExit" using assms(1) by (auto simp: running_def pw_ok_def)
  with False obtain s' where s': "ev_next led e s = Some s'" by (rule ev_next_total)
  have q: "pw_queue s \<noteq> []" if "ev_hand (pw_evpc s) = []"
    using that assms by (auto simp: running_def pw_ok_def)
  have "drain_work s' < drain_work s"
    using s' q False ex assms(1)
    by (cases "pw_evpc s")
      (auto simp: ev_next_def ev_hand_def drain_work_def running_def split: list.splits if_splits)
  with s' show ?thesis by (blast intro: pw_work.event)
qed

lemma exit_step:
  assumes "stopping c s" and "pw_evpc s \<noteq> EvExit"
  shows "\<exists>s'. pw_work led e s s' \<and> exit_work s' < exit_work s"
proof -
  have st: "pw_stop s" "pw_evpc s \<noteq> EvBlocked" using assms(1) by (auto simp: stopping_def pw_ok_def)
  from st(2) assms(2) obtain s' where s': "ev_next led e s = Some s'" by (rule ev_next_total)
  have "exit_work s' < exit_work s"
    using s' st assms(2)
    by (cases "pw_evpc s") (auto simp: ev_next_def exit_work_def split: list.splits if_splits)
  with s' show ?thesis by (blast intro: pw_work.event)
qed


subsection \<open>The power state the standby handler sees\<close>

lemma ux_curState:
  "av_curState (ux_av (snd (ApplyPowerStateChangeConfig e new prev u))) = av_curState (ux_av u)"
proof -
  have s: "av_curState (SetAVPortsPowerState e ps a) = av_curState a" for ps a
    using av_ext_SetAVPorts [of a e ps] by (simp add: av_ext_def)
  show ?thesis
    by (simp add: ApplyPowerStateChangeConfig_def Tv_ApplyPowerStateChangeConfig_def
        TvEu_ApplyPowerStateChangeConfig_def Stb_ApplyPowerStateChangeConfig_def
        SetBootloaderPatternInternal_def SetBootloaderPattern_def SyncPowerLedWithPowerState_def
        SyncDisplayPortsWithPowerState_def ux_log_def av_log_def Let_def s split: ux_class.split)
qed

lemma led_curState: "av_curState (snd (SetLEDStatus e ps a)) = av_curState a"
  using standby_unchanged(2) [of e True a]
  by (simp add: SetLEDStatus_def Let_def case_prod_unfold av_log_def)

lemma handle_curState: "av_curState (pw_av (HandlePwrEventData led e c n s)) = av_curState (pw_av s)"
proof -
  have s: "av_curState (SetAVPortsPowerState e ps a) = av_curState a" for ps a
    using av_ext_SetAVPorts [of a e ps] by (simp add: av_ext_def)
  show ?thesis
    by (simp add: HandlePwrEventData_def with_ux_def Let_def ux_curState s led_curState split: option.split)
qed

definition booted :: "PowerState \<Rightarrow> pw_state \<Rightarrow> bool" where
  "booted ps s \<longleftrightarrow> pw_cnpc s = CnDone \<and> av_curState (pw_av s) = ps"

interpretation booted: step_invariant "pw_step led e m" "booted ps" for led e m ps
proof
  fix s s' assume b: "booted ps s" and "pw_step led e m s s'"
  from this(2) show "booted ps s'"
  proof cases
    case event
    with b show ?thesis
      by (auto simp: booted_def ev_next_def handle_curState split: ev_pc.splits list.splits)
  qed (use b in \<open>auto simp: booted_def onPowerModeChanged_def ev_signal_def cn_next_def
        Deinit_begin_def Deinit_end_def split: if_splits\<close>)
qed

subsection \<open>The connection thread\<close>

lemma Init_power_manager:
  "pw_plugin (InitializePowerManager m s) = pm_create m (pw_attempts s)"
  "pw_attempts (InitializePowerManager m s) = Suc (pw_attempts s)"
  "pm_create m (pw_attempts s) \<Longrightarrow> pw_registered (InitializePowerManager m s)"
  by (auto simp: InitializePowerManager_def connect_power_manager_def registerPowerEventHandler_def
      read_power_state_def split: option.split)

lemma retry_returns:
  assumes "pm_create m k" and "pw_attempts s \<le> k"
  shows "\<exists>s'. PwrRetryEstablishConnThread led e m s = Some s'"
  using assms(2)
proof (induction "k - pw_attempts s" arbitrary: s)
  case 0
  let ?s = "InitializePowerManager m s"
  have k: "pm_create m (pw_attempts s)" using 0 assms(1) by simp
  then have "pw_plugin ?s" "pw_registered ?s" by (simp_all add: Init_power_manager)
  then have "PwrRetryEstablishConnThread led e m ?s = Some (PwrControllerFetchNinitStateValues led e m ?s)"
    by (subst PwrRetryEstablishConnThread.simps) simp
  then show ?case by (subst PwrRetryEstablishConnThread.simps) auto
next
  case (Suc d)
  then have "\<exists>s'. PwrRetryEstablishConnThread led e m (InitializePowerManager m s) = Some s'"
    by (intro Suc.hyps(1)) (simp_all add: Init_power_manager)
  then show ?case by (subst PwrRetryEstablishConnThread.simps) auto
qed

lemma retry_needs_plugin:
  assumes "PwrRetryEstablishConnThread led e m s = Some s'"
  shows "(pw_plugin s \<and> pw_registered s) \<or> (\<exists>k \<ge> pw_attempts s. pm_create m k)"
proof (rule PwrRetryEstablishConnThread.raw_induct [where P = "\<lambda>led e m s s'.
    (pw_plugin s \<and> pw_registered s) \<or> (\<exists>k \<ge> pw_attempts s. pm_create m k)", OF _ assms])
  fix retry and led :: bool and e :: av_env and m :: pm_env and s s' :: pw_state
  assume IH: "\<And>led e m s s'. retry led e m s = Some s' \<Longrightarrow>
      (pw_plugin s \<and> pw_registered s) \<or> (\<exists>k \<ge> pw_attempts s. pm_create m k)"
    and eq: "(if pw_plugin s \<and> pw_registered s then Some (PwrControllerFetchNinitStateValues led e m s)
      else retry led e m (InitializePowerManager m s)) = Some s'"
  show "(pw_plugin s \<and> pw_registered s) \<or> (\<exists>k \<ge> pw_attempts s. pm_create m k)"
  proof (cases "pw_plugin s \<and> pw_registered s")
    case False
    with eq have "retry led e m (InitializePowerManager m s) = Some s'" by (simp split: if_splits)
    from IH [OF this] have "pm_create m (pw_attempts s) \<or> (\<exists>k \<ge> Suc (pw_attempts s). pm_create m k)"
      by (simp add: Init_power_manager) blast
    then show ?thesis by (auto dest: Suc_leD)
  qed simp
qed

subsection \<open>Properties\<close>

text \<open>
  C9. The event queue is safe and fair to its events: in every state the threads can reach
  from \<open>Init\<close>, the events handled are the oldest ones given, in their order and none twice;
  while the listener is up the event in hand and the queue are exactly the rest; and no
  wake-up is lost: when events wait and the thread is blocked, a signal is on its way.
\<close>

theorem power_events_in_order:
  assumes "(pw_step led e m)\<^sup>*\<^sup>* (Init e pw_new) s"
  shows "(\<exists>rest. pw_posted s = pw_handled s @ rest \<and> (pw_sync s \<longrightarrow> rest = ev_hand (pw_evpc s) @ pw_queue s))
     \<and> (pw_sync s \<and> pw_queue s \<noteq> [] \<and> pw_evpc s = EvBlocked \<longrightarrow> 0 < pw_signals s)"
  using pw_reached [OF assms] unfolding pw_ok_def by blast

definition ex_pm :: pm_env where
  "ex_pm = \<lparr>pm_create = (\<lambda>k. 0 < k), pm_state = (\<lambda>_. Some POWER_STATE_STANDBY), pm_before = Some POWER_STATE_STANDBY\<rparr>"

theorem power_events_in_order_witness:
  "\<exists>rest. pw_posted (Init ex_av pw_new) = pw_handled (Init ex_av pw_new) @ rest"
  using power_events_in_order [of False ex_av ex_pm "Init ex_av pw_new"] by blast

text \<open>
  C23. Every event can be handled: from every reachable state in which the listener is up, the
  event thread and the pending signals alone, with no new event, take the listener to a
  state in which every event given has been handled.
\<close>

theorem power_events_all_handled:
  assumes "(pw_step led e m)\<^sup>*\<^sup>* (Init e pw_new) s" and "pw_sync s" and "\<not> pw_joining s"
  shows "\<exists>s'. (pw_work led e)\<^sup>*\<^sup>* s s' \<and> pw_posted s' = pw_posted s \<and> pw_handled s' = pw_posted s"
proof -
  have "running (pw_posted s) s"
    using pw_reached [OF assms(1)] assms(2,3) by (auto simp: running_def pw_ok_def)
  then have "\<exists>s'. (pw_work led e)\<^sup>*\<^sup>* s s' \<and> running (pw_posted s) s' \<and> pw_handled s' = pw_posted s"
    by (rule run.run_to_goal [where m = drain_work]) (rule drain_step)
  then show ?thesis by (auto simp: running_def)
qed

theorem power_events_all_handled_witness:
  "\<exists>s'. (pw_work False ex_av)\<^sup>*\<^sup>* (Init ex_av pw_new) s' \<and> pw_handled s' = pw_posted (Init ex_av pw_new)"
  using power_events_all_handled [of False ex_av ex_pm "Init ex_av pw_new"]
  by (auto simp: Init_def pw_new_def Let_def case_prod_unfold)

text \<open>
  Tearing the listener down: once \<open>Deinit\<close> has asked the event thread to stop, the thread
  can always end and \<open>Deinit\<close> complete. After that the destructor, which calls \<open>Deinit\<close> once
  more, locks a destroyed mutex, which is undefined behaviour; and if the connection thread
  had not ended before, it is still there to run on the dead listener.
\<close>

theorem listener_teardown:
  assumes "(pw_step led e m)\<^sup>*\<^sup>* (Init e pw_new) s" and "pw_joining s"
  shows "\<exists>s'. (pw_step led e m)\<^sup>*\<^sup>* s (Deinit_end s') \<and> pw_evpc s' = EvExit \<and> Deinit_begin (Deinit_end s') = None
     \<and> (pw_cnpc s \<noteq> CnDone \<longrightarrow> cn_next led e m (Deinit_end s') \<noteq> None)"
proof -
  have "stopping (pw_cnpc s) s" using pw_reached [OF assms(1)] assms(2) by (auto simp: stopping_def pw_ok_def)
  then have "\<exists>s'. (pw_work led e)\<^sup>*\<^sup>* s s' \<and> stopping (pw_cnpc s) s' \<and> pw_evpc s' = EvExit"
    by (rule stop.run_to_goal [where m = exit_work]) (rule exit_step)
  then obtain s' where s': "(pw_work led e)\<^sup>*\<^sup>* s s'" "stopping (pw_cnpc s) s'" "pw_evpc s' = EvExit" by blast
  then have "pw_step led e m s' (Deinit_end s')"
    by (intro pw_step.deinit_end) (simp_all add: stopping_def)
  with work_steps [OF s'(1)] have "(pw_step led e m)\<^sup>*\<^sup>* s (Deinit_end s')" by (rule rtranclp.rtrancl_into_rtrancl)
  moreover have "cn_next led e m (Deinit_end s') \<noteq> None" if "pw_cnpc s \<noteq> CnDone"
    using that s'(2) by (cases "pw_cnpc s") (auto simp: stopping_def Deinit_end_def cn_next_def)
  moreover have "Deinit_begin (Deinit_end s') = None" by (simp add: Deinit_begin_def Deinit_end_def)
  ultimately show ?thesis using s'(3) by blast
qed

theorem listener_teardown_witness:
  "\<exists>s'. pw_evpc s' = EvExit \<and> Deinit_begin (Deinit_end s') = None \<and> cn_next False ex_av ex_pm (Deinit_end s') \<noteq> None"
proof -
  let ?i = "Init ex_av pw_new"
  have i: "pw_sync ?i" "\<not> pw_joining ?i" "pw_evpc ?i = EvTop" "pw_cnpc ?i = CnLoop"
    by (simp_all add: Init_def pw_new_def Let_def case_prod_unfold)
  then obtain s where s: "Deinit_begin ?i = Some s" "pw_joining s" "pw_cnpc s = CnLoop" by (auto simp: Deinit_begin_def)
  with i have "pw_step False ex_av ex_pm ?i s" by (intro pw_step.deinit_begin) (simp_all add: holds_mutex_def)
  then have "(pw_step False ex_av ex_pm)\<^sup>*\<^sup>* ?i s" by blast
  from listener_teardown [OF this s(2)] s(3) show ?thesis by auto
qed

text \<open>
  The connection thread ends exactly when the power manager answers one of its attempts
  (or it was connected from the start): there is no bound on the attempts, so without a power
  manager it runs for ever.
\<close>

theorem connection_thread_ends_iff:
  "(\<exists>s'. PwrRetryEstablishConnThread led e m s = Some s') \<longleftrightarrow>
     (pw_plugin s \<and> pw_registered s) \<or> (\<exists>k \<ge> pw_attempts s. pm_create m k)"
proof -
  have "\<exists>s'. PwrRetryEstablishConnThread led e m s = Some s'" if "pw_plugin s \<and> pw_registered s"
    using that by (subst PwrRetryEstablishConnThread.simps) simp
  then show ?thesis using retry_returns [of m _ s led e] retry_needs_plugin [of led e m s] by blast
qed

text \<open>
  The standby handler works with the power state of the boot: once the connection thread
  has ended, whatever power events are handled afterwards, the state it tests is the one read
  at connection. So on a device that was on then, a new standby setting given while the
  device is in standby changes the table only, and no port follows it.
\<close>

theorem standby_setting_uses_boot_state:
  fixes isEnabled :: int
  assumes "(pw_step led e m)\<^sup>*\<^sup>* s s'" and "pw_cnpc s = CnDone" and "av_curState (pw_av s) = POWER_STATE_ON"
  shows "SetStandbyVideoState e port isEnabled (pw_av s')
     = (0, (pw_av s')\<lparr>av_standby := set_standby_entry (ev_nameLength e) port (isEnabled \<noteq> 0) (av_standby (pw_av s'))\<rparr>)"
  using booted.reached [OF assms(1), of POWER_STATE_ON] assms(2,3)
  by (simp add: booted_def SetStandbyVideoState_def Let_def)

theorem standby_setting_uses_boot_state_witness:
  "av_trace (snd (SetStandbyVideoState ex_av ''HDMI0'' 1 (pw_av (HandlePwrEventData False ex_av POWER_STATE_ON POWER_STATE_STANDBY
      ((Init ex_av pw_new)\<lparr>pw_cnpc := CnDone, pw_evpc := EvHandle POWER_STATE_ON POWER_STATE_STANDBY,
         pw_av := ex_av_state\<lparr>av_curState := POWER_STATE_ON\<rparr>\<rparr>)))))
   = av_trace (pw_av (HandlePwrEventData False ex_av POWER_STATE_ON POWER_STATE_STANDBY
      ((Init ex_av pw_new)\<lparr>pw_cnpc := CnDone, pw_evpc := EvHandle POWER_STATE_ON POWER_STATE_STANDBY,
         pw_av := ex_av_state\<lparr>av_curState := POWER_STATE_ON\<rparr>\<rparr>)))"
proof -
  let ?s = "(Init ex_av pw_new)\<lparr>pw_cnpc := CnDone, pw_evpc := EvHandle POWER_STATE_ON POWER_STATE_STANDBY,
     pw_av := ex_av_state\<lparr>av_curState := POWER_STATE_ON\<rparr>\<rparr>"
  let ?t = "(HandlePwrEventData False ex_av POWER_STATE_ON POWER_STATE_STANDBY ?s)
     \<lparr>pw_evpc := EvDrain, pw_handled := pw_handled ?s @ [(POWER_STATE_ON, POWER_STATE_STANDBY)]\<rparr>"
  have "pw_step False ex_av ex_pm ?s ?t" by (rule pw_step.event) (simp add: ev_next_def)
  then have "(pw_step False ex_av ex_pm)\<^sup>*\<^sup>* ?s ?t" by blast
  from standby_setting_uses_boot_state [OF this, of "''HDMI0''" 1] show ?thesis by simp
qed

text \<open>
  A race at the boot: the connection thread registers for power events before it has
  applied the boot state, and both threads switch the ports. If the device is turned on in
  between, the boot state is applied after the event: the newest event handled says ON, and
  the video port is off, with no thread left to correct it.
\<close>

theorem boot_state_overrides_event:
  assumes "pw_cnpc s = CnApply" and "pw_evpc s = EvHandle c POWER_STATE_ON" and "pw_plugin s"
    and "pw_ux s = Some u" and "ux_class u = UxStbEu" and "ux_listener u"
    and "av_curState (pw_av s) = POWER_STATE_STANDBY" and "pm_before m = Some b" and "b \<noteq> POWER_STATE_ON"
    and "av_platform e gv ga a0" and "av_configured (pw_av s)" and "ports_named gv (pw_av s)"
    and "p \<in> set (av_videoPorts (pw_av s))"
    and "\<not> GetVideoPortStandbySetting (ev_nameLength e) (av_standby (pw_av s)) (ve_name p)"
  shows "\<exists>s1 s2. pw_step False e m s s1 \<and> pw_step False e m s1 s2
     \<and> pw_cnpc s2 = CnDone \<and> last (pw_handled s2) = (c, POWER_STATE_ON)
     \<and> fold video_hw (av_trace (pw_av s1)) vm (gv (ve_type p) (ve_index p))
     \<and> \<not> fold video_hw (av_trace (pw_av s2)) vm (gv (ve_type p) (ve_index p))"
proof -
  let ?h = "gv (ve_type p) (ve_index p)" and ?u = "u\<lparr>ux_av := pw_av s\<rparr>"
  define s1 where "s1 = (HandlePwrEventData False e c POWER_STATE_ON s)
    \<lparr>pw_evpc := EvDrain, pw_handled := pw_handled s @ [(c, POWER_STATE_ON)]\<rparr>"
  define s2 where "s2 = (PwrControllerFetchNinitStateValues False e m s1)\<lparr>pw_cnpc := CnDone\<rparr>"
  define u1 where "u1 = SyncPowerLedWithPowerState e POWER_STATE_ON (SyncDisplayPortsWithPowerState e POWER_STATE_ON ?u)"
  define u2 where "u2 = snd (SetBootloaderPatternFaultTolerant e BL_NORMAL (SyncDisplayPortsWithPowerState e POWER_STATE_STANDBY u1))"
  have on: "fold video_hw (av_trace (ux_av x)) vm = ports_on vm x" for x by (simp add: ports_on_def ux_hist_def)
  have s1: "pw_av s1 = ux_av u1" "pw_ux s1 = Some u1" "pw_plugin s1" "pw_cnpc s1 = CnApply"
    using assms(1,3,4,5) by (simp_all add: s1_def HandlePwrEventData_def with_ux_def Let_def u1_def
        ApplyPowerStateChangeConfig_def Stb_ApplyPowerStateChangeConfig_def)
  obtain t where t: "ux_av (SyncDisplayPortsWithPowerState e POWER_STATE_ON ?u) = av_more t (pw_av s)"
    using SetAVPorts_calls [OF assms(10,11), of POWER_STATE_ON] assms(6) by (auto simp: SyncDisplayPortsWithPowerState_def)
  have "\<exists>t'. ux_av u1 = av_more t' (pw_av s)"
    using t by (cases "ux_deviceSettings (SyncDisplayPortsWithPowerState e POWER_STATE_ON ?u)")
      (auto simp: u1_def SyncPowerLedWithPowerState_def ux_log_def av_log_more Let_def)
  then obtain t' where t': "ux_av u1 = av_more t' (pw_av s)" ..
  have l: "ux_listener u1" "ux_class u1 = UxStbEu" "u1\<lparr>ux_av := ux_av u1\<rparr> = u1"
    using assms(5,6) by (simp_all add: u1_def SyncPowerLedWithPowerState_def SyncDisplayPortsWithPowerState_def Let_def ux_log_def)
  have "av_curState (ux_av u1) = POWER_STATE_STANDBY" using t' assms(7) by simp
  then have "pw_av s2 = ux_av u2"
    using s1 l assms(8,9) by (simp add: s2_def u2_def PwrControllerFetchNinitStateValues_def Let_def with_ux_def
        ApplyPostRebootConfig_def StbEu_ApplyPostRebootConfig_def)
  moreover have "\<not> ports_on vm u2 ?h"
    using sync_ports_on [of u1 e gv ga a0 p vm POWER_STATE_STANDBY] assms(10-14) l(1) t'
    by (simp add: u2_def pattern_ports_on)
  moreover have "ports_on vm u1 ?h"
    using sync_ports_on [of ?u e gv ga a0 p vm POWER_STATE_ON] assms(6,10-13) by (simp add: u1_def led_ports_on)
  moreover have "pw_step False e m s s1"
    by (rule pw_step.event) (simp add: ev_next_def assms(2) s1_def)
  moreover have "pw_step False e m s1 s2"
    by (rule pw_step.conn) (simp add: cn_next_def s1(4) s2_def)
  moreover have "pw_handled s2 = pw_handled s1"
    by (simp add: s2_def PwrControllerFetchNinitStateValues_def Let_def split: option.split)
  ultimately show ?thesis
    by (intro exI [of _ s1] exI [of _ s2]) (simp add: s1(1) on, simp add: s1_def s2_def)
qed

text \<open>An STB that connects at the first attempt, and the steps to the race on it.\<close>

definition ex_stb :: av_env where "ex_stb = ex_av\<lparr>ev_profile := PROFILE_STB\<rparr>"

definition ex_pm1 :: pm_env where "ex_pm1 = ex_pm\<lparr>pm_create := \<lambda>_. True\<rparr>"

definition conn_do :: "pw_state \<Rightarrow> pw_state" where
  "conn_do s = (case cn_next False ex_stb ex_pm1 s of Some x \<Rightarrow> x | None \<Rightarrow> s)"

definition event_do :: "pw_state \<Rightarrow> pw_state" where
  "event_do s = (case ev_next False ex_stb s of Some x \<Rightarrow> x | None \<Rightarrow> s)"

definition ex_boot :: pw_state where
  "ex_boot = event_do (event_do (event_do (onPowerModeChanged POWER_STATE_STANDBY POWER_STATE_ON
     (conn_do (conn_do (conn_do (Init ex_stb pw_new)))))))"

lemma do_step:
  "(pw_step False ex_stb ex_pm1)\<^sup>*\<^sup>* i s \<Longrightarrow> (pw_step False ex_stb ex_pm1)\<^sup>*\<^sup>* i (conn_do s)"
  "(pw_step False ex_stb ex_pm1)\<^sup>*\<^sup>* i s \<Longrightarrow> (pw_step False ex_stb ex_pm1)\<^sup>*\<^sup>* i (event_do s)"
  by (auto simp: conn_do_def event_do_def intro: rtranclp.rtrancl_into_rtrancl pw_step.conn pw_step.event
      split: option.split)

lemma ex_stb_env: "ev_instance ex_stb = (\<lambda>_. True)" "ev_profile ex_stb = PROFILE_STB"
  "IsDeviceSettingsReady ex_stb True av_initial = (True, ex_av_state)"
  "av_platform ex_stb (\<lambda>_ _. 1) (\<lambda>_ _. 2) (\<lambda>_. True)"
  using ex_av_platform
  by (simp_all add: ex_stb_def ex_av_def av_platform_def ex_av_state_def IsDeviceSettingsReady_def av_initial_def
      RefreshPortConfigurationCache_def Let_def)

lemma ex_stb_Init: "Init ex_stb pw_new = pw_new\<lparr>pw_ux := Some (UXController_new ex_stb UxStbEu True ex_av_state),
    pw_av := av_log AInstance ex_av_state, pw_sync := True, pw_evpc := EvTop, pw_cnpc := CnLoop\<rparr>"
  by (simp add: Init_def ex_stb_env UXController_Initialize_def pw_new_def)
    (simp add: UXController_new_def InitializeSafeDefaults_def Let_def)

lemma ex_stb_conn: "conn_do (conn_do (conn_do (Init ex_stb pw_new))) =
    pw_new\<lparr>pw_ux := Some (UXController_new ex_stb UxStbEu True ex_av_state),
      pw_av := (av_log AInstance ex_av_state)\<lparr>av_curState := POWER_STATE_STANDBY\<rparr>,
      pw_registered := True, pw_plugin := True, pw_attempts := 1, pw_sync := True, pw_evpc := EvTop,
      pw_cnpc := CnApply\<rparr>"
  unfolding ex_stb_Init
  by (simp add: conn_do_def cn_next_def pw_new_def connect_power_manager_def ex_pm1_def ex_pm_def
      registerPowerEventHandler_def read_power_state_def)

lemma ex_boot_run: "(pw_step False ex_stb ex_pm1)\<^sup>*\<^sup>* (Init ex_stb pw_new) ex_boot"
proof -
  let ?s = "conn_do (conn_do (conn_do (Init ex_stb pw_new)))"
  have "(pw_step False ex_stb ex_pm1)\<^sup>*\<^sup>* (Init ex_stb pw_new) ?s" by (intro do_step rtranclp.rtrancl_refl)
  moreover have "pw_registered ?s"
    by (simp only: ex_stb_conn) (simp add: pw_new_def)
  ultimately have "(pw_step False ex_stb ex_pm1)\<^sup>*\<^sup>* (Init ex_stb pw_new) (onPowerModeChanged POWER_STATE_STANDBY POWER_STATE_ON ?s)"
    by (blast intro: rtranclp.rtrancl_into_rtrancl pw_step.post)
  then show ?thesis unfolding ex_boot_def by (intro do_step)
qed

lemma ex_boot_fields: "pw_cnpc ex_boot = CnApply" "pw_evpc ex_boot = EvHandle POWER_STATE_STANDBY POWER_STATE_ON"
  "pw_plugin ex_boot" "pw_ux ex_boot = Some (UXController_new ex_stb UxStbEu True ex_av_state)"
  "pw_av ex_boot = (av_log AInstance ex_av_state)\<lparr>av_curState := POWER_STATE_STANDBY\<rparr>"
  unfolding ex_boot_def ex_stb_conn onPowerModeChanged_def
  by (simp_all add: event_do_def ev_next_def pw_new_def)

theorem boot_state_overrides_event_witness:
  "\<exists>s. (pw_step False ex_stb ex_pm1)\<^sup>*\<^sup>* (Init ex_stb pw_new) s \<and> pw_cnpc s = CnDone
     \<and> last (pw_handled s) = (POWER_STATE_STANDBY, POWER_STATE_ON) \<and> \<not> fold video_hw (av_trace (pw_av s)) (\<lambda>_. False) 1"
proof -
  let ?p = "\<lparr>ve_type = 6, ve_index = 0, ve_typeName = ''HDMI'', ve_name = ''HDMI0''\<rparr>"
  have u: "ux_class (UXController_new ex_stb UxStbEu True ex_av_state) = UxStbEu"
    "ux_listener (UXController_new ex_stb UxStbEu True ex_av_state)"
    by (simp_all add: UXController_new_def InitializeSafeDefaults_def Let_def)
  have av: "av_curState (pw_av ex_boot) = POWER_STATE_STANDBY" "av_configured (pw_av ex_boot)"
    "ports_named (\<lambda>_ _. 1) (pw_av ex_boot)" "?p \<in> set (av_videoPorts (pw_av ex_boot))"
    "\<not> GetVideoPortStandbySetting (ev_nameLength ex_stb) (av_standby (pw_av ex_boot)) (ve_name ?p)"
    using ex_av_configured
    by (auto simp: ex_boot_fields av_log_def ex_av_state_eq av_configured_def ports_named_def av_initial_def
        GetVideoPortStandbySetting_def find_Some_iff split: option.splits)
  have m: "pm_before ex_pm1 = Some POWER_STATE_STANDBY" "POWER_STATE_STANDBY \<noteq> POWER_STATE_ON"
    by (simp_all add: ex_pm1_def ex_pm_def)
  from boot_state_overrides_event [OF ex_boot_fields(1-4) u av(1) m ex_stb_env(4) av(2-5), of "\<lambda>_. False"]
  obtain s1 s2 where s: "pw_step False ex_stb ex_pm1 ex_boot s1" "pw_step False ex_stb ex_pm1 s1 s2"
    "pw_cnpc s2 = CnDone" "last (pw_handled s2) = (POWER_STATE_STANDBY, POWER_STATE_ON)"
    "\<not> fold video_hw (av_trace (pw_av s2)) (\<lambda>_. False) 1" by blast
  then have "(pw_step False ex_stb ex_pm1)\<^sup>*\<^sup>* (Init ex_stb pw_new) s2"
    using ex_boot_run by (blast intro: rtranclp.rtrancl_into_rtrancl)
  with s show ?thesis by blast
qed

end
