(* ===== verification/Device_Settings.thy ===== *)
theory Device_Settings
  imports Audio_Com Video_Port_Com Front_Panel Hdmi_In Video_Device Display Composite_In Host_Info
    DS_Controller Pwr_Listener
begin

section \<open>The aggregated object (\<open>DeviceSettingsImplementation.cpp\<close>)\<close>

text \<open>
  \<open>DeviceSettingsImp\<close> owns the controller and one object per interface, and hands each request to
  the object of its interface. Here the components meet: they share one store of settings (the
  \<open>HostPersistence\<close> singleton), and the display shares the state of the video port platform. Each
  component keeps its state in a record of its own, which holds a copy of what is shared; the copy
  is brought up to date before a request and taken back after it.

  The object is created and destroyed with the plugin. The static state of the components outlives
  it. Objects are numbered; \<open>im_instance\<close> is the static pointer to the last one created.
\<close>

subsection \<open>The loader of the HAL library\<close>

text \<open>
  \<open>DeviceSettingsHALLoader\<close>: one handle for all callers. \<open>opens\<close> and \<open>has\<close> are the dynamic linker;
  a symbol is named with the library it was found in.
\<close>

definition ResolveSymbol ::
  "(string \<Rightarrow> bool) \<Rightarrow> (string \<Rightarrow> string \<Rightarrow> bool) \<Rightarrow> string \<Rightarrow> string \<Rightarrow> string option
     \<Rightarrow> (string \<times> string) option \<times> string option" where
  "ResolveSymbol opens has libName symbolName gLibraryHandle =
     (let h = (if gLibraryHandle = None \<and> opens libName then Some libName else gLibraryHandle)
      in case h of None \<Rightarrow> (None, h)
         | Some l \<Rightarrow> (if has l symbolName then Some (l, symbolName) else None, h))"

definition ReleaseAllLibraries :: "string option \<Rightarrow> string option" where
  "ReleaseAllLibraries gLibraryHandle = None"

subsection \<open>The configurations\<close>

record ds_configs =
  dc_fpd :: fpd_config
  dc_audioTypes :: "audio_type_info list"
  dc_audioPorts :: "audio_port_info list"
  dc_videoConfigs :: "video_device_info list"
  dc_videoPortTypes :: "video_type_info list"
  dc_videoPorts :: "video_port_info list"
  dc_videoPortResolutions :: "resolution_cfg list"

definition configs_empty :: ds_configs where
  "configs_empty = \<lparr>dc_fpd = fpd_empty, dc_audioTypes = [], dc_audioPorts = [], dc_videoConfigs = [],
     dc_videoPortTypes = [], dc_videoPorts = [], dc_videoPortResolutions = []\<rparr>"

text \<open>
  The first call fills the structure of the client: the front panel tables and the audio types
  replace what is there, the others are appended. \<open>handles\<close> counts the open library.
\<close>

definition load_configs :: "hal_lib option \<Rightarrow> ds_configs \<Rightarrow> nat \<Rightarrow> (ds_configs \<times> nat) outcome" where
  "load_configs lib configs h0 =
     (let (fpd, h1) = PopulateFPDConfig lib h0 in obind fpd (\<lambda>f.
      let (audio, h2) = PopulateAudioConfig lib h1 in obind audio (\<lambda>(audioTypes, audioPorts).
      let (devices, h3) = PopulateVideoDeviceConfig lib h2 in obind devices (\<lambda>videoDeviceConfigs.
      let (ports, h4) = PopulateVideoPortConfig lib h3 in obind ports (\<lambda>(videoPortTypes, videoPorts).
      let (rows, h5) = (if videoPortTypes = [] then (Ret [], h4)
            else PopulateVideoPortResolutionConfig (vi_typeId (hd videoPortTypes)) lib h4) in obind rows (\<lambda>resolutions.
        Ret (configs\<lparr>dc_fpd := f, dc_audioTypes := audioTypes,
               dc_audioPorts := dc_audioPorts configs @ audioPorts,
               dc_videoConfigs := dc_videoConfigs configs @ videoDeviceConfigs,
               dc_videoPortTypes := dc_videoPortTypes configs @ videoPortTypes,
               dc_videoPorts := dc_videoPorts configs @ videoPorts,
               dc_videoPortResolutions := dc_videoPortResolutions configs @ resolutions\<rparr>, h5)))))))"

subsection \<open>The state\<close>

datatype ds_part =
    PController | PFPD | PHdmiIn | PAudio | PVideoPort | PVideoDevice | PHost | PDisplay | PCompositeIn

record ds_env =
  di_consts :: fpd_consts
  di_fpd :: fpd_env
  di_hin :: hin_env
  di_audio :: au_env
  di_port :: vpc_env
  di_device :: vd_env
  di_host :: host_env
  di_display :: dsp_env
  di_comp :: comp_env
  di_ctl :: ctl_env
  di_av :: av_env
  di_clients :: "ptr \<Rightarrow> auc_event \<Rightarrow> reg_op list"
  di_port_clients :: "ptr \<Rightarrow> vpc_event \<Rightarrow> reg_op list"

record ds_imp =
  im_store :: host_store
  im_has :: "ds_part \<Rightarrow> bool"
  im_fpd :: fpd_state
  im_hin :: hin_state
  im_audio :: auc_state
  im_port :: vpc_state
  im_device :: vd_state
  im_host :: host_state
  im_display :: dsp_state
  im_comp :: comp_state
  im_ctl :: ctl_state
  im_listener :: "pw_state option"
  im_loader :: "string option"
  im_instance :: "nat option"
  configLoaded :: bool
  cachedConfigs :: ds_configs
  im_handles :: nat

text \<open>A component with what it shares, and back.\<close>

definition enter_fpd :: "ds_imp \<Rightarrow> fpd_state" where "enter_fpd s = (im_fpd s)\<lparr>fp_store := im_store s\<rparr>"
definition leave_fpd :: "fpd_state \<Rightarrow> ds_imp \<Rightarrow> ds_imp" where "leave_fpd c s = s\<lparr>im_fpd := c, im_store := fp_store c\<rparr>"

definition enter_hin :: "ds_imp \<Rightarrow> hin_state" where "enter_hin s = (im_hin s)\<lparr>hs_store := im_store s\<rparr>"
definition leave_hin :: "hin_state \<Rightarrow> ds_imp \<Rightarrow> ds_imp" where "leave_hin c s = s\<lparr>im_hin := c, im_store := hs_store c\<rparr>"

definition enter_audio :: "ds_imp \<Rightarrow> auc_state" where
  "enter_audio s = (im_audio s)\<lparr>auc_audio := (auc_audio (im_audio s))\<lparr>au_store := im_store s\<rparr>\<rparr>"
definition leave_audio :: "auc_state \<Rightarrow> ds_imp \<Rightarrow> ds_imp" where
  "leave_audio c s = s\<lparr>im_audio := c, im_store := au_store (auc_audio c)\<rparr>"

definition enter_port :: "ds_imp \<Rightarrow> vpc_state" where
  "enter_port s = (im_port s)\<lparr>vpc_port := (vpc_port (im_port s))\<lparr>vs_store := im_store s\<rparr>\<rparr>"
definition leave_port :: "vpc_state \<Rightarrow> ds_imp \<Rightarrow> ds_imp" where
  "leave_port c s = s\<lparr>im_port := c, im_store := vs_store (vpc_port c)\<rparr>"

definition enter_device :: "ds_imp \<Rightarrow> vd_state" where "enter_device s = (im_device s)\<lparr>hs_store := im_store s\<rparr>"
definition leave_device :: "vd_state \<Rightarrow> ds_imp \<Rightarrow> ds_imp" where
  "leave_device c s = s\<lparr>im_device := c, im_store := hs_store c\<rparr>"

definition enter_host :: "ds_imp \<Rightarrow> host_state" where "enter_host s = (im_host s)\<lparr>hs_store := im_store s\<rparr>"
definition leave_host :: "host_state \<Rightarrow> ds_imp \<Rightarrow> ds_imp" where
  "leave_host c s = s\<lparr>im_host := c, im_store := hs_store c\<rparr>"

definition enter_comp :: "ds_imp \<Rightarrow> comp_state" where "enter_comp s = (im_comp s)\<lparr>hs_store := im_store s\<rparr>"
definition leave_comp :: "comp_state \<Rightarrow> ds_imp \<Rightarrow> ds_imp" where
  "leave_comp c s = s\<lparr>im_comp := c, im_store := hs_store c\<rparr>"

definition enter_display :: "ds_imp \<Rightarrow> dsp_state" where
  "enter_display s = (im_display s)\<lparr>dsp_vp := vpc_port (enter_port s)\<rparr>"
definition leave_display :: "dsp_state \<Rightarrow> ds_imp \<Rightarrow> ds_imp" where
  "leave_display c s = s\<lparr>im_display := c, im_port := (im_port s)\<lparr>vpc_port := dsp_vp c\<rparr>, im_store := vs_store (dsp_vp c)\<rparr>"

subsection \<open>The requests\<close>

datatype ds_val =
    DvFPD int | DvHdmiIn hin_val | DvAudio au_val | DvVideoPort vpc_val | DvVideoDevice vd_val | DvHost host_val
  | DvDisplay dsp_val | DvCompositeIn comp_val

type_synonym ds_result = "(coreErr \<times> ds_val option \<times> ds_imp) outcome"

text \<open>
  \<open>DELEGATE_TO_COMPONENT\<close>: the component is called if there is one, else the answer is \<open>err\<close>
  (\<open>ERROR_UNAVAILABLE\<close> in the macro, \<open>ERROR_GENERAL\<close> in the methods written out). That a call
  changes only the record of its component and the store is a matter of the model: \<open>enter\<close> and
  \<open>leave\<close> give it nothing else. It is how the state is divided here, not a fact shown of the code.
\<close>

definition delegate ::
  "ds_part \<Rightarrow> coreErr \<Rightarrow> ('v \<Rightarrow> ds_val) \<Rightarrow> (ds_imp \<Rightarrow> 'c) \<Rightarrow> ('c \<Rightarrow> ds_imp \<Rightarrow> ds_imp)
     \<Rightarrow> ('c \<Rightarrow> (coreErr \<times> 'v option \<times> 'c) outcome) \<Rightarrow> ds_imp \<Rightarrow> ds_result" where
  "delegate component err wrap enter leave call s =
     (if \<not> im_has s component then Ret (err, None, s)
      else obind (call (enter s)) (\<lambda>(result, out, c). Ret (result, map_option wrap out, leave c s)))"

text \<open>Through a local variable: the one of the client is written only on success.\<close>

definition ds_copied :: "ds_result \<Rightarrow> ds_result" where
  "ds_copied r = obind r (\<lambda>(result, out, t). Ret (result, if result = ERROR_NONE then out else None, t))"

definition ds_fpd_call :: "ds_env \<Rightarrow> fpd_request \<Rightarrow> ds_imp \<Rightarrow> ds_result" where
  "ds_fpd_call e q = delegate PFPD ERROR_UNAVAILABLE DvFPD enter_fpd leave_fpd (Impl_call True (di_consts e) (di_fpd e) q)"

definition ds_hdmiIn_call :: "ds_env \<Rightarrow> hin_request \<Rightarrow> ds_imp \<Rightarrow> ds_result" where
  "ds_hdmiIn_call e q = delegate PHdmiIn ERROR_UNAVAILABLE DvHdmiIn enter_hin leave_hin (HdmiInImp_call (di_hin e) q)"

text \<open>A request to the audio ports or the video ports, with the events it raises.\<close>

definition audio_with_events :: "ds_env \<Rightarrow> auc_request \<Rightarrow> auc_state \<Rightarrow> auc_result" where
  "audio_with_events e q s = obind (AudioImpl_call (di_audio e) q s) (\<lambda>(r, out, t).
     obind (auc_deliver (di_clients e) (audio_events (di_audio e) (auc_audio s) (auc_audio t)) t) (\<lambda>u. Ret (r, out, u)))"

definition port_with_events :: "ds_env \<Rightarrow> vpc_request \<Rightarrow> vpc_state \<Rightarrow> vpc_result" where
  "port_with_events e q s = obind (VideoPortImpl_call (di_port e) q s) (\<lambda>(r, out, t).
     obind (vpc_deliver (di_port_clients e) (new_events (vpc_port s) (vpc_port t)) t) (\<lambda>u. Ret (r, out, u)))"

text \<open>The audio interface, by the groups of methods of the component.\<close>

definition ds_audio_forward :: "ds_env \<Rightarrow> auc_request \<Rightarrow> ds_imp \<Rightarrow> ds_result" where
  "ds_audio_forward e q = delegate PAudio ERROR_UNAVAILABLE DvAudio enter_audio leave_audio (audio_with_events e q)"

definition ds_audio_port_call :: "ds_env \<Rightarrow> audio_port_request \<Rightarrow> ds_imp \<Rightarrow> ds_result" where
  "ds_audio_port_call e q = ds_audio_forward e (AcPort q)"

definition ds_audio_output_call :: "ds_env \<Rightarrow> audio_output_request \<Rightarrow> ds_imp \<Rightarrow> ds_result" where
  "ds_audio_output_call e q = ds_audio_forward e (AcOutput q)"

definition ds_audio_effect_call :: "ds_env \<Rightarrow> audio_effect_request \<Rightarrow> ds_imp \<Rightarrow> ds_result" where
  "ds_audio_effect_call e q = ds_audio_forward e (AcEffect q)"

definition ds_audio_profile_call :: "ds_env \<Rightarrow> audio_profile_request \<Rightarrow> ds_imp \<Rightarrow> ds_result" where
  "ds_audio_profile_call e q = ds_audio_forward e (AcProfile q)"

fun ds_audio_call :: "ds_env \<Rightarrow> auc_request \<Rightarrow> ds_imp \<Rightarrow> ds_result" where
  "ds_audio_call e (AcPort q) = ds_audio_port_call e q"
| "ds_audio_call e (AcOutput q) = ds_audio_output_call e q"
| "ds_audio_call e (AcEffect q) = ds_audio_effect_call e q"
| "ds_audio_call e (AcProfile q) = ds_audio_profile_call e q"

text \<open>The video port interface, in the order of the file.\<close>

definition ds_port_forward :: "ds_env \<Rightarrow> coreErr \<Rightarrow> vpc_request \<Rightarrow> ds_imp \<Rightarrow> ds_result" where
  "ds_port_forward e err q = delegate PVideoPort err DvVideoPort enter_port leave_port (port_with_events e q)"

definition ds_port_copied :: "ds_env \<Rightarrow> vpc_request \<Rightarrow> ds_imp \<Rightarrow> ds_result" where
  "ds_port_copied e q s = ds_copied (ds_port_forward e ERROR_GENERAL q s)"

datatype ds_port_request =
    I_GetVideoPort VideoPortType int
  | I_IsVideoPortEnabled int
  | I_GetVideoPortResolutionConfig int
  | I_EnableVideoPort int bool
  | I_IsVideoPortDisplayConnected int
  | I_IsVideoPortActive int
  | I_GetVideoPortResolution int
  | I_getIgnoreEDIDStatus int
  | I_GetColorDepth int
  | I_GetColorSpace int
  | I_GetQuantizationRange int
  | I_GetHDCPStatusOnVideoPort int
  | I_GetHDCPProtocolVersionOnVideoPort int
  | I_GetHDCPReceiverProtocolVersionOnVideoPort int
  | I_GetHDCPCurrentProtocolVersionOnVideoPort int
  | I_IsVideoPortDisplaySurround int
  | I_GetVideoPortDisplaySurroundMode int

datatype ds_output_request =
    I_SetVideoPortResolution int vp_res bool bool
  | I_EnableHDCPOnVideoPort int bool "int list"
  | I_IsHDCPEnabledOnVideoPort int
  | I_GetTVHDRCapabilities int
  | I_GetTVSupportedResolutions int
  | I_SetForceDisable4K int bool
  | I_GetForceDisable4K int
  | I_IsVideoPortOutputHDR int
  | I_ResetVideoPortOutputToSDR
  | I_GetHDMIPreference int
  | I_SetHDMIPreference int hdcp_version
  | I_GetVideoEOTF int
  | I_GetMatrixCoefficients int
  | I_GetCurrentOutputSettings int
  | I_SetBackgroundColor int int
  | I_SetForceHDRMode int int
  | I_GetColorDepthCapabilities int
  | I_GetPreferredColorDepth int bool
  | I_SetPreferredColorDepth int "32 word" bool

fun ds_port_call :: "ds_env \<Rightarrow> ds_port_request \<Rightarrow> ds_imp \<Rightarrow> ds_result" where
  "ds_port_call e (I_GetVideoPort t i) = ds_port_forward e ERROR_UNAVAILABLE (VcPort (P_GetVideoPort t i))"
| "ds_port_call e (I_IsVideoPortEnabled h) = ds_port_forward e ERROR_UNAVAILABLE (VcPort (P_IsVideoPortEnabled h))"
| "ds_port_call e (I_GetVideoPortResolutionConfig t) = ds_port_forward e ERROR_UNAVAILABLE (VcResolutionConfig t)"
| "ds_port_call e (I_EnableVideoPort h b) = ds_port_forward e ERROR_UNAVAILABLE (VcPort (P_EnableVideoPort h b))"
| "ds_port_call e (I_IsVideoPortDisplayConnected h) = ds_port_forward e ERROR_UNAVAILABLE (VcPort (P_IsVideoPortDisplayConnected h))"
| "ds_port_call e (I_IsVideoPortActive h) = ds_port_forward e ERROR_UNAVAILABLE (VcPort (P_IsVideoPortActive h))"
| "ds_port_call e (I_GetVideoPortResolution h) = ds_port_forward e ERROR_UNAVAILABLE (VcPort (P_GetVideoPortResolution h))"
| "ds_port_call e (I_getIgnoreEDIDStatus h) = ds_port_forward e ERROR_UNAVAILABLE (VcDepth (P_getIgnoreEDIDStatus h))"
| "ds_port_call e (I_GetColorDepth h) = ds_port_forward e ERROR_UNAVAILABLE (VcDepth (P_GetColorDepth h))"
| "ds_port_call e (I_GetColorSpace h) = ds_port_copied e (VcPicture (P_GetColorSpace h))"
| "ds_port_call e (I_GetQuantizationRange h) = ds_port_copied e (VcPicture (P_GetQuantizationRange h))"
| "ds_port_call e (I_GetHDCPStatusOnVideoPort h) = ds_port_copied e (VcPicture (P_GetVideoPortHDCPStatus h))"
| "ds_port_call e (I_GetHDCPProtocolVersionOnVideoPort h) = ds_port_copied e (VcPicture (P_GetHDCPProtocolVersion h))"
| "ds_port_call e (I_GetHDCPReceiverProtocolVersionOnVideoPort h) = ds_port_copied e (VcOutput (P_GetHDCPReceiverProtocolVersion h))"
| "ds_port_call e (I_GetHDCPCurrentProtocolVersionOnVideoPort h) = ds_port_copied e (VcOutput (P_GetHDCPCurrentProtocolVersion h))"
| "ds_port_call e (I_IsVideoPortDisplaySurround h) = ds_port_forward e ERROR_UNAVAILABLE (VcOutput (P_IsVideoPortDisplaySurround h))"
| "ds_port_call e (I_GetVideoPortDisplaySurroundMode h) = ds_port_copied e (VcOutput (P_GetVideoPortDisplaySurroundMode h))"

fun ds_output_call :: "ds_env \<Rightarrow> ds_output_request \<Rightarrow> ds_imp \<Rightarrow> ds_result" where
  "ds_output_call e (I_SetVideoPortResolution h r p f) = ds_port_forward e ERROR_UNAVAILABLE (VcSetResolution h r p f)"
| "ds_output_call e (I_EnableHDCPOnVideoPort h b k) = ds_port_forward e ERROR_UNAVAILABLE (VcDepth (P_EnableHDCP h b k))"
| "ds_output_call e (I_IsHDCPEnabledOnVideoPort h) = ds_port_forward e ERROR_UNAVAILABLE (VcDepth (P_IsHDCPEnabled h))"
| "ds_output_call e (I_GetTVHDRCapabilities h) = ds_port_forward e ERROR_UNAVAILABLE (VcDepth (P_GetTVHDRCapabilities h))"
| "ds_output_call e (I_GetTVSupportedResolutions h) = ds_port_forward e ERROR_UNAVAILABLE (VcDepth (P_GetTVSupportedResolutions h))"
| "ds_output_call e (I_SetForceDisable4K h b) = ds_port_forward e ERROR_UNAVAILABLE (VcOutput (P_SetForceDisable4K h b))"
| "ds_output_call e (I_GetForceDisable4K h) = ds_port_forward e ERROR_UNAVAILABLE (VcOutput (P_GetForceDisable4K h))"
| "ds_output_call e (I_IsVideoPortOutputHDR h) = ds_port_forward e ERROR_UNAVAILABLE (VcOutput (P_IsVideoPortOutputHDR h))"
| "ds_output_call e I_ResetVideoPortOutputToSDR = ds_port_forward e ERROR_GENERAL (VcOutput P_ResetVideoPortOutputToSDR)"
| "ds_output_call e (I_GetHDMIPreference h) = ds_port_copied e (VcOutput (P_GetHDMIPreference h))"
| "ds_output_call e (I_SetHDMIPreference h v) = ds_port_forward e ERROR_GENERAL (VcOutput (P_SetHDMIPreference h v))"
| "ds_output_call e (I_GetVideoEOTF h) = ds_port_copied e (VcOutput (P_GetVideoEOTF h))"
| "ds_output_call e (I_GetMatrixCoefficients h) = ds_port_copied e (VcPicture (P_GetMatrixCoefficients h))"
| "ds_output_call e (I_GetCurrentOutputSettings h) = ds_port_forward e ERROR_UNAVAILABLE (VcPicture (P_GetCurrentOutputSettings h))"
| "ds_output_call e (I_SetBackgroundColor h c) = ds_port_forward e ERROR_GENERAL (VcPicture (P_SetBackgroundColor h c))"
| "ds_output_call e (I_SetForceHDRMode h m) = ds_port_forward e ERROR_GENERAL (VcDepth (P_SetForceHDRMode h m))"
| "ds_output_call e (I_GetColorDepthCapabilities h) = ds_port_forward e ERROR_UNAVAILABLE (VcDepth (P_GetColorDepthCapabilities h))"
| "ds_output_call e (I_GetPreferredColorDepth h p) = ds_port_copied e (VcDepth (P_GetPreferredColorDepth h p))"
| "ds_output_call e (I_SetPreferredColorDepth h d p) = ds_port_forward e ERROR_GENERAL (VcDepth (P_SetPreferredColorDepth h d p))"

text \<open>The other interfaces; two methods of the video device are written out.\<close>

definition ds_device_forward :: "ds_env \<Rightarrow> coreErr \<Rightarrow> vd_request \<Rightarrow> ds_imp \<Rightarrow> ds_result" where
  "ds_device_forward e err q = delegate PVideoDevice err DvVideoDevice enter_device leave_device (VideoDeviceImpl_call (di_device e) q)"

definition ds_device_call :: "ds_env \<Rightarrow> vd_request \<Rightarrow> ds_imp \<Rightarrow> ds_result" where
  "ds_device_call e q s = (case q of
       RSetDFC h z \<Rightarrow> ds_device_forward e ERROR_GENERAL q s
     | RGetDFC h \<Rightarrow> ds_copied (ds_device_forward e ERROR_GENERAL q s)
     | _ \<Rightarrow> ds_device_forward e ERROR_UNAVAILABLE q s)"

definition ds_host_call :: "ds_env \<Rightarrow> host_request \<Rightarrow> ds_imp \<Rightarrow> ds_result" where
  "ds_host_call e q = delegate PHost ERROR_UNAVAILABLE DvHost enter_host leave_host (HostImpl_call (di_host e) q)"

definition ds_display_call :: "ds_env \<Rightarrow> dsp_request \<Rightarrow> ds_imp \<Rightarrow> ds_result" where
  "ds_display_call e q = delegate PDisplay ERROR_UNAVAILABLE DvDisplay enter_display leave_display (DisplayImpl_call (di_display e) q)"

definition ds_compositeIn_call :: "ds_env \<Rightarrow> comp_request \<Rightarrow> ds_imp \<Rightarrow> ds_result" where
  "ds_compositeIn_call e q = delegate PCompositeIn ERROR_UNAVAILABLE DvCompositeIn enter_comp leave_comp
     (\<lambda>c. Ret (CompositeInImpl_call (di_comp e) q c))"

datatype ds_request =
    RqFPD fpd_request
  | RqHdmiIn hin_request
  | RqAudio auc_request
  | RqPort ds_port_request
  | RqOutput ds_output_request
  | RqDevice vd_request
  | RqHost host_request
  | RqDisplay dsp_request
  | RqCompositeIn comp_request

fun ds_call :: "ds_env \<Rightarrow> ds_request \<Rightarrow> ds_imp \<Rightarrow> ds_result" where
  "ds_call e (RqFPD q) = ds_fpd_call e q"
| "ds_call e (RqHdmiIn q) = ds_hdmiIn_call e q"
| "ds_call e (RqAudio q) = ds_audio_call e q"
| "ds_call e (RqPort q) = ds_port_call e q"
| "ds_call e (RqOutput q) = ds_output_call e q"
| "ds_call e (RqDevice q) = ds_device_call e q"
| "ds_call e (RqHost q) = ds_host_call e q"
| "ds_call e (RqDisplay q) = ds_display_call e q"
| "ds_call e (RqCompositeIn q) = ds_compositeIn_call e q"

text \<open>Registering with an interface and leaving it, for each interface that has clients.\<close>

definition ds_Register :: "bool \<Rightarrow> string \<Rightarrow> ptr \<Rightarrow> 'e registry \<Rightarrow> coreErr \<times> 'e registry" where
  "ds_Register present clientName p g = (if present then Register clientName p g else (ERROR_UNAVAILABLE, g))"

definition ds_Unregister :: "bool \<Rightarrow> ptr \<Rightarrow> 'e registry \<Rightarrow> (coreErr \<times> 'e registry) outcome" where
  "ds_Unregister present p g = (if present then Unregister p g else Ret (ERROR_UNAVAILABLE, g))"

definition ds_client :: "bool \<Rightarrow> reg_op \<Rightarrow> 'e registry \<Rightarrow> 'e registry outcome" where
  "ds_client present a g = (case a of
       OpRegister clientName p \<Rightarrow> Ret (snd (ds_Register present clientName p g))
     | OpUnregister p \<Rightarrow> obind (ds_Unregister present p g) (\<lambda>(r, g'). Ret g'))"

text \<open>The consolidated configuration; the library is what the HAL loader finds at this moment.\<close>

definition GetDeviceSettingConfigs :: "hal_lib option \<Rightarrow> ds_configs \<Rightarrow> ds_imp \<Rightarrow> (coreErr \<times> ds_configs \<times> ds_imp) outcome" where
  "GetDeviceSettingConfigs lib configs s =
     (if configLoaded s then Ret (ERROR_NONE, cachedConfigs s, s)
      else obind (load_configs lib configs (im_handles s)) (\<lambda>(loaded, handles).
        Ret (ERROR_NONE, loaded, s\<lparr>cachedConfigs := loaded, configLoaded := True, im_handles := handles\<rparr>)))"

subsection \<open>The life of the object\<close>

text \<open>
  The constructor creates the components in this order. The controller keeps its static variables
  from an earlier object.
\<close>

definition construct_begin :: "ds_env \<Rightarrow> nat \<Rightarrow> ds_imp \<Rightarrow> ds_imp" where
  "construct_begin e i s =
     (let s1 = s\<lparr>im_instance := Some i, im_ctl := (im_ctl s)\<lparr>ct_deviceSettings := True, easMode := 0\<rparr>,
            im_listener := None, configLoaded := False, cachedConfigs := configs_empty\<rparr>;
          s2 = leave_host (Host_create (di_host e) i (enter_host s1)) s1
      in leave_display (Display_create (di_display e) i (enter_display s2)) s2)"

definition construct_end :: "ds_env \<Rightarrow> nat \<Rightarrow> ds_imp \<Rightarrow> ds_imp outcome" where
  "construct_end e i s4 =
     (let s5 = leave_port (VideoPort_create (di_port e) i (enter_port s4)) s4;
          s6 = leave_device (VideoDevice_create (di_device e) i (enter_device s5)) s5;
          s7 = leave_fpd (fpd_InitialiseHAL (di_consts e) (enter_fpd s6)) s6
      in obind (HdmiIn_create (di_hin e) i (enter_hin s7)) (\<lambda>hdmiInSettings.
        let s8 = leave_hin hdmiInSettings s7
        in Ret ((leave_comp (CompositeIn_create (di_comp e) i (enter_comp s8)) s8)\<lparr>im_has := (\<lambda>_. True)\<rparr>)))"

definition ds_construct :: "ds_env \<Rightarrow> nat \<Rightarrow> ds_imp \<Rightarrow> ds_imp outcome" where
  "ds_construct e i s =
     (let s3 = construct_begin e i s
      in obind (auc_create (di_audio e) (di_clients e) i (enter_audio s3)) (\<lambda>audioSettings.
        construct_end e i (leave_audio audioSettings s3)))"

text \<open>
  \<open>~DeviceSettingsImp\<close>: the components first, the controller last; its destructor ends the power
  event listener. \<open>im_instance\<close> is not reset.
\<close>

definition end_listener :: "pw_state option \<Rightarrow> pw_state option outcome" where
  "end_listener l = (case l of None \<Rightarrow> Ret None
     | Some p \<Rightarrow> (case Deinit_begin p of None \<Rightarrow> UB | Some p' \<Rightarrow> Ret None))"

definition ds_destroy :: "ds_env \<Rightarrow> ds_imp \<Rightarrow> ds_imp outcome" where
  "ds_destroy e s =
     (let s1 = leave_fpd (fpd_DeInitialiseHAL (di_fpd e) (enter_fpd s)) s;
          s2 = leave_hin (HdmiIn_destroy (di_hin e) (enter_hin s1)) s1;
          s3 = leave_audio (auc_destroy (di_audio e) (enter_audio s2)) s2
      in obind (VideoPort_destroy (di_port e) (enter_port s3)) (\<lambda>videoPortSettings.
        let s4 = leave_port videoPortSettings s3;
            s5 = leave_device (VideoDevice_destroy (enter_device s4)) s4;
            s6 = leave_host (Host_destroy (enter_host s5)) s5;
            s7 = leave_display (Display_destroy (enter_display s6)) s6;
            s8 = leave_comp (CompositeIn_destroy (di_comp e) (enter_comp s7)) s7
        in obind (end_listener (im_listener s8)) (\<lambda>listener.
          Ret (s8\<lparr>im_has := (\<lambda>_. False), im_listener := listener, im_ctl := (im_ctl s8)\<lparr>exit_flag := True\<rparr>,
                 im_loader := ReleaseAllLibraries (im_loader s8)\<rparr>))))"

definition ds_Configure :: "ds_env \<Rightarrow> bool \<Rightarrow> ds_imp \<Rightarrow> coreErr \<times> ds_imp" where
  "ds_Configure e service s =
     (if \<not> service then (ERROR_BAD_REQUEST, s)
      else if \<not> im_has s PController then (ERROR_GENERAL, s)
      else (ERROR_NONE, s\<lparr>im_ctl := ctl_Start (di_ctl e) (im_ctl s), im_listener := Some (Init (di_av e) pw_new)\<rparr>))"

text \<open>\<open>instance()\<close>, with the object a caller passes if it passes one.\<close>

definition ds_instance :: "nat option \<Rightarrow> ds_imp \<Rightarrow> nat option \<times> ds_imp" where
  "ds_instance DeviceSettingsImpl s =
     (let t = (if DeviceSettingsImpl \<noteq> None then s\<lparr>im_instance := DeviceSettingsImpl\<rparr> else s) in (im_instance t, t))"

lemma instance_survives:
  assumes "ds_destroy e s = Ret t"
  shows "fst (ds_instance None t) = im_instance s"
  using assms
  by (auto simp: ds_instance_def ds_destroy_def Let_def obind_Ret_iff leave_fpd_def leave_hin_def leave_audio_def
      leave_port_def leave_device_def leave_host_def leave_comp_def leave_display_def)

datatype ds_op =
    DsCreate | DsDestroy | DsConfigure bool | DsRequest ds_request | DsConfigs "hal_lib option" ds_configs
  | DsAudioClient reg_op | DsPortClient reg_op | DsAudioReport audio_report | DsAudioThread

text \<open>
  The \<open>i\<close>-th step creates object \<open>i\<close>. Without an object there are no requests and no clients, but
  the audio HAL may still report.
\<close>

fun ds_do :: "ds_env \<Rightarrow> nat \<Rightarrow> ds_op \<Rightarrow> ds_imp \<Rightarrow> ds_imp outcome" where
  "ds_do e i DsCreate s = (if im_has s PController then Ret s else ds_construct e i s)"
| "ds_do e i DsDestroy s = (if im_has s PController then ds_destroy e s else Ret s)"
| "ds_do e i (DsConfigure service) s = Ret (if im_has s PController then snd (ds_Configure e service s) else s)"
| "ds_do e i (DsRequest q) s =
     (if im_has s PController then obind (ds_call e q s) (\<lambda>(r, out, t). Ret t) else Ret s)"
| "ds_do e i (DsConfigs lib configs) s =
     (if im_has s PController then obind (GetDeviceSettingConfigs lib configs s) (\<lambda>(r, v, t). Ret t) else Ret s)"
| "ds_do e i (DsAudioClient a) s =
     (if im_has s PController
      then obind (ds_client (im_has s PAudio) a (AudioNotifications (im_audio s))) (\<lambda>g.
        Ret (s\<lparr>im_audio := (im_audio s)\<lparr>AudioNotifications := g\<rparr>\<rparr>)) else Ret s)"
| "ds_do e i (DsPortClient a) s =
     (if im_has s PController
      then obind (ds_client (im_has s PVideoPort) a (VideoPortNotifications (im_port s))) (\<lambda>g.
        Ret (s\<lparr>im_port := (im_port s)\<lparr>VideoPortNotifications := g\<rparr>\<rparr>)) else Ret s)"
| "ds_do e i (DsAudioReport rp) s =
     obind (auc_do (di_audio e) (di_clients e) i (AcReport rp) (enter_audio s)) (\<lambda>a. Ret (leave_audio a s))"
| "ds_do e i DsAudioThread s =
     obind (auc_do (di_audio e) (di_clients e) i AcThread (enter_audio s)) (\<lambda>a. Ret (leave_audio a s))"

fun ds_run :: "ds_env \<Rightarrow> nat \<Rightarrow> ds_op list \<Rightarrow> ds_imp \<Rightarrow> ds_imp outcome" where
  "ds_run e i [] s = Ret s"
| "ds_run e i (c # cs) s = obind (ds_do e i c s) (ds_run e (Suc i) cs)"

subsection \<open>The configurations are fixed by the first call\<close>

fun configs_run :: "(hal_lib option \<times> ds_configs) list \<Rightarrow> ds_imp \<Rightarrow> ((coreErr \<times> ds_configs) list \<times> ds_imp) outcome" where
  "configs_run [] s = Ret ([], s)"
| "configs_run ((lib, configs) # cs) s = obind (GetDeviceSettingConfigs lib configs s) (\<lambda>(r, v, t).
     obind (configs_run cs t) (\<lambda>(as, u). Ret ((r, v) # as, u)))"

lemma configs_cached:
  "configLoaded s \<Longrightarrow> configs_run cs s = Ret (map (\<lambda>_. (ERROR_NONE, cachedConfigs s)) cs, s)"
proof (induction cs)
  case (Cons c cs)
  then show ?case by (cases c) (simp add: GetDeviceSettingConfigs_def)
qed simp

text \<open>What the tables hold, if the library exports them.\<close>

definition table_of :: "string list \<Rightarrow> hal_lib option \<Rightarrow> 'a \<Rightarrow> (hal_lib \<Rightarrow> 'a outcome) \<Rightarrow> 'a outcome" where
  "table_of names lib nothing copy = (if exports names lib then copy (the lib) else Ret nothing)"

lemma Populate_tables:
  "PopulateFPDConfig lib h = (table_of fpd_symbols lib fpd_empty copy_fpd, h)"
  "PopulateAudioConfig lib h = (table_of audio_symbols lib ([], []) copy_audio, h)"
  "PopulateVideoDeviceConfig lib h = (table_of video_device_symbols lib [] copy_video_devices, h)"
  "PopulateVideoPortConfig lib h = (table_of video_port_symbols lib ([], []) copy_video_ports, h)"
  "PopulateVideoPortResolutionConfig t lib h = (table_of video_port_symbols lib [] (copy_resolutions t), h)"
proof -
  have "fpd_symbols \<noteq> []" "audio_symbols \<noteq> []" "video_device_symbols \<noteq> []" "video_port_symbols \<noteq> []"
    by (simp_all add: fpd_symbols_def audio_symbols_def video_device_symbols_def video_port_symbols_def)
  note eqs = this [THEN populate_eq]
  show "PopulateFPDConfig lib h = (table_of fpd_symbols lib fpd_empty copy_fpd, h)"
    by (simp only: PopulateFPDConfig_def LoadFrontPanelConfigFromHAL_def eqs(1) table_of_def)
  show "PopulateAudioConfig lib h = (table_of audio_symbols lib ([], []) copy_audio, h)"
    by (simp only: PopulateAudioConfig_def LoadAudioConfigFromHAL_def eqs(2) table_of_def)
  show "PopulateVideoDeviceConfig lib h = (table_of video_device_symbols lib [] copy_video_devices, h)"
    by (simp only: PopulateVideoDeviceConfig_def LoadVideoDeviceConfigFromHAL_def eqs(3) table_of_def)
  show "PopulateVideoPortConfig lib h = (table_of video_port_symbols lib ([], []) copy_video_ports, h)"
    by (simp only: PopulateVideoPortConfig_def LoadVideoPortConfigFromHAL_def eqs(4) table_of_def)
  show "PopulateVideoPortResolutionConfig t lib h = (table_of video_port_symbols lib [] (copy_resolutions t), h)"
    by (simp only: PopulateVideoPortResolutionConfig_def LoadVideoPortConfigFromHAL_def eqs(4) table_of_def)
qed

lemma load_configs_tables:
  assumes "load_configs lib configs h = Ret (v, h')"
  shows "h' = h"
    and "table_of fpd_symbols lib fpd_empty copy_fpd = Ret (dc_fpd v)"
    and "\<exists>ports. table_of audio_symbols lib ([], []) copy_audio = Ret (dc_audioTypes v, ports)
      \<and> dc_audioPorts v = dc_audioPorts configs @ ports"
    and "\<exists>devices. table_of video_device_symbols lib [] copy_video_devices = Ret devices
      \<and> dc_videoConfigs v = dc_videoConfigs configs @ devices"
    and "\<exists>types ports. table_of video_port_symbols lib ([], []) copy_video_ports = Ret (types, ports)
      \<and> dc_videoPortTypes v = dc_videoPortTypes configs @ types \<and> dc_videoPorts v = dc_videoPorts configs @ ports
      \<and> (\<exists>rs. (if types = [] then Ret [] else table_of video_port_symbols lib [] (copy_resolutions (vi_typeId (hd types)))) = Ret rs
           \<and> dc_videoPortResolutions v = dc_videoPortResolutions configs @ rs)"
  using assms
  by (auto simp: load_configs_def Populate_tables Let_def obind_Ret_iff split: if_splits)

text \<open>What a client finds in its structure when the tables are \<open>t\<close>.\<close>

definition configs_append :: "ds_configs \<Rightarrow> ds_configs \<Rightarrow> ds_configs" where
  "configs_append c t = t\<lparr>dc_audioPorts := dc_audioPorts c @ dc_audioPorts t,
     dc_videoConfigs := dc_videoConfigs c @ dc_videoConfigs t,
     dc_videoPortTypes := dc_videoPortTypes c @ dc_videoPortTypes t, dc_videoPorts := dc_videoPorts c @ dc_videoPorts t,
     dc_videoPortResolutions := dc_videoPortResolutions c @ dc_videoPortResolutions t\<rparr>"

lemma load_configs_append:
  assumes "load_configs lib configs h = Ret (v, h')"
  shows "\<exists>t. load_configs lib configs_empty 0 = Ret (t, 0) \<and> v = configs_append configs t"
proof -
  note l = load_configs_tables [OF assms]
  obtain aps where a: "table_of audio_symbols lib ([], []) copy_audio = Ret (dc_audioTypes v, aps)"
      "dc_audioPorts v = dc_audioPorts configs @ aps" using l(3) by blast
  obtain ds where d: "table_of video_device_symbols lib [] copy_video_devices = Ret ds"
      "dc_videoConfigs v = dc_videoConfigs configs @ ds" using l(4) by blast
  obtain types ports rs where p: "table_of video_port_symbols lib ([], []) copy_video_ports = Ret (types, ports)"
      "dc_videoPortTypes v = dc_videoPortTypes configs @ types" "dc_videoPorts v = dc_videoPorts configs @ ports"
      "(if types = [] then Ret [] else table_of video_port_symbols lib [] (copy_resolutions (vi_typeId (hd types)))) = Ret rs"
      "dc_videoPortResolutions v = dc_videoPortResolutions configs @ rs" using l(5) by blast
  let ?t = "\<lparr>dc_fpd = dc_fpd v, dc_audioTypes = dc_audioTypes v, dc_audioPorts = aps, dc_videoConfigs = ds,
    dc_videoPortTypes = types, dc_videoPorts = ports, dc_videoPortResolutions = rs\<rparr>"
  have "load_configs lib configs_empty 0 = Ret (?t, 0)"
    using a(1) d(1) p(1,4) l(2)
    by (cases "types = []") (simp_all add: load_configs_def Populate_tables configs_empty_def Let_def)
  moreover have "v = configs_append configs ?t"
    using a(2) d(2) p(2,3,5) by (simp add: configs_append_def)
  ultimately show ?thesis by blast
qed

subsection \<open>The audio component inside the object\<close>

lemma view_same_store: "auc_view live had (s\<lparr>auc_audio := (auc_audio s)\<lparr>au_store := st\<rparr>\<rparr>) = auc_view live had s"
  by (simp add: auc_view_def)

lemma view_enter: "auc_view live had (enter_audio s) = auc_view live had (im_audio s)"
  unfolding enter_audio_def by (rule view_same_store)

lemma leave_fields [simp]:
  "im_audio (leave_fpd f s) = im_audio s" "im_has (leave_fpd f s) = im_has s"
  "im_audio (leave_hin h s) = im_audio s" "im_has (leave_hin h s) = im_has s"
  "im_audio (leave_audio a s) = a" "im_has (leave_audio a s) = im_has s"
  "im_audio (leave_port p s) = im_audio s" "im_has (leave_port p s) = im_has s"
  "im_audio (leave_device d s) = im_audio s" "im_has (leave_device d s) = im_has s"
  "im_audio (leave_host ho s) = im_audio s" "im_has (leave_host ho s) = im_has s"
  "im_audio (leave_comp c s) = im_audio s" "im_has (leave_comp c s) = im_has s"
  "im_audio (leave_display dd s) = im_audio s" "im_has (leave_display dd s) = im_has s"
  by (simp_all add: leave_fpd_def leave_hin_def leave_audio_def leave_port_def leave_device_def leave_host_def
      leave_comp_def leave_display_def)

text \<open>A request leaves the audio component in a state it can have.\<close>

definition audio_alive :: "ds_imp \<Rightarrow> bool" where
  "audio_alive s \<longleftrightarrow> im_has s PController \<and> auc_view True True (im_audio s)"

lemma delegate_alive:
  assumes "delegate p err wrap enter leave call s = Ret (r, out, t)" and "audio_alive s"
    and "\<And>c u. im_audio (leave c u) = im_audio u" and "\<And>c u. im_has (leave c u) = im_has u"
  shows "audio_alive t"
  using assms by (auto simp: delegate_def audio_alive_def obind_Ret_iff split: if_splits)

lemma copied_state: "ds_copied x = Ret (r, out, t) \<Longrightarrow> \<exists>out'. x = Ret (r, out', t)"
  by (auto simp: ds_copied_def obind_Ret_iff)

lemma audio_with_events_view:
  assumes "audio_with_events e q a = Ret (r, out, b)" and "auc_view True True a"
  shows "auc_view True True b"
proof -
  have live: "auc_live a \<noteq> None" using assms(2) by (auto simp: auc_view_def)
  have "auc_do (di_audio e) (di_clients e) 0 (AcRequest q) a = Ret b"
    using assms(1) live by (auto simp: audio_with_events_def obind_Ret_iff)
  with auc_view_request [OF assms(2), of q "di_audio e" "di_clients e" 0] show ?thesis
    by (cases "unlinked q") auto
qed

lemma audio_forward_alive: "ds_audio_forward e q s = Ret (r, out, t) \<Longrightarrow> audio_alive s \<Longrightarrow> audio_alive t"
  by (auto simp: ds_audio_forward_def delegate_def audio_alive_def view_enter obind_Ret_iff split: if_splits
      dest!: audio_with_events_view)

lemma port_forward_alive: "ds_port_forward e err q s = Ret (r, out, t) \<Longrightarrow> audio_alive s \<Longrightarrow> audio_alive t"
  unfolding ds_port_forward_def by (erule delegate_alive) simp_all

lemma port_copied_alive: "ds_port_copied e q s = Ret (r, out, t) \<Longrightarrow> audio_alive s \<Longrightarrow> audio_alive t"
  by (auto simp: ds_port_copied_def dest!: copied_state dest: port_forward_alive)

lemma device_alive: "ds_device_forward e err q s = Ret (r, out, t) \<Longrightarrow> audio_alive s \<Longrightarrow> audio_alive t"
  unfolding ds_device_forward_def by (erule delegate_alive) simp_all

lemma others_alive:
  "ds_fpd_call e q1 s = Ret (r, out, t) \<Longrightarrow> audio_alive s \<Longrightarrow> audio_alive t"
  "ds_hdmiIn_call e q2 s = Ret (r, out, t) \<Longrightarrow> audio_alive s \<Longrightarrow> audio_alive t"
  "ds_host_call e q3 s = Ret (r, out, t) \<Longrightarrow> audio_alive s \<Longrightarrow> audio_alive t"
  "ds_display_call e q4 s = Ret (r, out, t) \<Longrightarrow> audio_alive s \<Longrightarrow> audio_alive t"
  "ds_compositeIn_call e q5 s = Ret (r, out, t) \<Longrightarrow> audio_alive s \<Longrightarrow> audio_alive t"
  unfolding ds_fpd_call_def ds_hdmiIn_call_def ds_host_call_def ds_display_call_def ds_compositeIn_call_def
  by (erule delegate_alive; simp)+

lemma request_alive:
  assumes "ds_call e q s = Ret (r, out, t)" and "audio_alive s"
  shows "audio_alive t"
proof (cases q)
  case (RqAudio x)
  with assms show ?thesis
    by (cases x) (auto simp: ds_audio_port_call_def ds_audio_output_call_def ds_audio_effect_call_def
        ds_audio_profile_call_def dest: audio_forward_alive)
next
  case (RqPort x)
  with assms show ?thesis by (cases x) (auto dest: port_forward_alive port_copied_alive)
next
  case (RqOutput x)
  with assms show ?thesis by (cases x) (auto dest: port_forward_alive port_copied_alive)
next
  case (RqDevice x)
  with assms show ?thesis
    by (cases x) (auto simp: ds_device_call_def dest: device_alive dest!: copied_state)
qed (use assms in \<open>auto dest: others_alive\<close>)

text \<open>Operations between the creation and the end of an object.\<close>

fun between :: "ds_op \<Rightarrow> bool" where
  "between DsCreate = False"
| "between DsDestroy = False"
| "between _ = True"

lemma ds_client_op: "ds_client present a g = (if present then do_op a g else Ret g)"
  by (cases a; cases present) (simp_all add: ds_client_def ds_Register_def ds_Unregister_def split: outcome.split)

lemma audio_client_alive:
  assumes "ds_client present a (AudioNotifications x) = Ret g" and "auc_view True True x"
  shows "auc_view True True (x\<lparr>AudioNotifications := g\<rparr>)"
proof (cases present)
  case True
  obtain base where base: "reg_inv base [] (AudioNotifications x)" using assms(2) by (auto simp: auc_view_def)
  from do_op_inv [OF this, of a] assms(1) True have "reg_inv base [] g" by (auto simp: ds_client_op)
  then show ?thesis using assms(2) by (auto simp: auc_view_def)
qed (use assms in \<open>auto simp: ds_client_op\<close>)

lemma audio_step_alive:
  assumes "\<exists>t. auc_do e client i c (enter_audio s) = Ret t \<and> auc_view True True t" and "audio_alive s"
    and "obind (auc_do e client i c (enter_audio s)) (\<lambda>a. Ret (leave_audio a s)) = Ret t"
  shows "audio_alive t"
  using assms by (auto simp: audio_alive_def)

lemma between_alive:
  assumes "between c" and "ds_do e i c s = Ret t" and "audio_alive s"
  shows "audio_alive t"
proof -
  have v: "auc_view True True (enter_audio s)" using assms(3) by (simp add: view_enter audio_alive_def)
  show ?thesis
  proof (cases c)
    case (DsRequest q)
    with assms show ?thesis by (auto simp: obind_Ret_iff split: if_splits dest: request_alive)
  next
    case (DsAudioClient a)
    with assms show ?thesis
      by (auto simp: obind_Ret_iff audio_alive_def split: if_splits dest: audio_client_alive)
  next
    case (DsAudioReport rp)
    with auc_view_report [OF v, of "di_audio e" "di_clients e" i rp] assms show ?thesis
      by (intro audio_step_alive [of "di_audio e" "di_clients e" i "AcReport rp" s t]) (simp_all del: auc_do.simps)
  next
    case DsAudioThread
    with auc_view_thread [OF v, of "di_audio e" "di_clients e" i] assms show ?thesis
      by (intro audio_step_alive [of "di_audio e" "di_clients e" i AcThread s t]) (simp_all del: auc_do.simps)
  qed (use assms in \<open>auto simp: audio_alive_def ds_Configure_def GetDeviceSettingConfigs_def obind_Ret_iff split: if_splits\<close>)
qed

lemma run_alive: "list_all between cs \<Longrightarrow> ds_run e i cs s = Ret t \<Longrightarrow> audio_alive s \<Longrightarrow> audio_alive t"
  by (induction cs arbitrary: i s) (auto simp: obind_Ret_iff dest: between_alive)

lemma ds_run_append: "ds_run e i (as @ bs) s = obind (ds_run e i as s) (ds_run e (i + length as) bs)"
proof (induction as arbitrary: i s)
  case (Cons a as)
  then show ?case by (cases "ds_do e i a s") simp_all
qed simp

lemma auc_create_view:
  assumes "auc_view False had a" and "\<forall>t. ae_ret e t AuInit = DsERR_NONE"
  shows "if had then auc_create e client i a = UB else \<exists>b. auc_create e client i a = Ret b \<and> auc_view True True b"
  using auc_view_create [OF assms, of client i] assms(1) by (auto simp: auc_view_def)

lemma construct_begin_audio: "im_audio (construct_begin e i s) = im_audio s"
  by (simp add: construct_begin_def Let_def)

lemma construct_end_audio: "construct_end e i s = Ret t \<Longrightarrow> im_audio t = im_audio s \<and> im_has t = (\<lambda>_. True)"
  by (auto simp: construct_end_def Let_def obind_Ret_iff)

lemma construct_first:
  assumes "\<forall>t. ae_ret (di_audio e) t AuInit = DsERR_NONE" and "auc_view False False (im_audio s)"
    and "ds_construct e i s = Ret t"
  shows "audio_alive t"
proof -
  have "auc_view False False (enter_audio (construct_begin e i s))"
    using assms(2) by (simp add: view_enter construct_begin_audio)
  from auc_create_view [OF this assms(1), of "di_clients e" i] show ?thesis
    using assms(3) by (auto simp: ds_construct_def Let_def audio_alive_def dest!: construct_end_audio)
qed

lemma construct_again:
  assumes "\<forall>t. ae_ret (di_audio e) t AuInit = DsERR_NONE" and "auc_view False True (im_audio s)"
  shows "ds_construct e i s = UB"
proof -
  have "auc_view False True (enter_audio (construct_begin e i s))"
    using assms(2) by (simp add: view_enter construct_begin_audio)
  from auc_create_view [OF this assms(1), of "di_clients e" i] show ?thesis by (simp add: ds_construct_def Let_def)
qed

lemma destroy_audio_view:
  assumes "ds_destroy e s = Ret t" and "audio_alive s"
  shows "auc_view False True (im_audio t)" and "im_has t = (\<lambda>_. False)"
proof -
  let ?u1 = "leave_fpd (fpd_DeInitialiseHAL (di_fpd e) (enter_fpd s)) s"
  let ?u = "leave_hin (HdmiIn_destroy (di_hin e) (enter_hin ?u1)) ?u1"
  have u: "im_audio t = auc_destroy (di_audio e) (enter_audio ?u)" "im_has t = (\<lambda>_. False)"
    using assms(1) by (auto simp: ds_destroy_def Let_def obind_Ret_iff)
  have "auc_view True True (enter_audio ?u)" using assms(2) by (simp add: view_enter audio_alive_def)
  then show "auc_view False True (im_audio t)" unfolding u(1) by (rule auc_view_destroy)
  show "im_has t = (\<lambda>_. False)" by (rule u(2))
qed

definition ds_static :: "ds_env \<Rightarrow> host_store \<Rightarrow> string option \<Rightarrow> (ptr \<Rightarrow> nat) \<Rightarrow> ds_imp" where
  "ds_static e st file base = (let v = vp_static (vc_vp (di_port e)) st file in
     \<lparr>im_store = st, im_has = (\<lambda>_. False), im_fpd = fpd_static (di_consts e) st, im_hin = hin_static st,
      im_audio = auc_static (au_static (di_audio e) st) base, im_port = vpc_static v base,
      im_device = vd_static st, im_host = host_static st, im_display = dsp_static v, im_comp = comp_static st,
      im_ctl = ctl_initial False, im_listener = None, im_loader = None, im_instance = None,
      configLoaded = False, cachedConfigs = configs_empty, im_handles = 0\<rparr>)"

lemma static_audio: "auc_view False False (im_audio (ds_static e st file base))"
  using reg_inv_empty [of base] by (auto simp: ds_static_def Let_def auc_view_def auc_static_def au_static_def)

text \<open>On a box without HDMI inputs the first object comes to life and ends.\<close>

lemma HdmiIn_create_box:
  assumes "\<not> he_tv e" and "m_hdmiInPlatInitialized s = 0"
  shows "\<exists>t. HdmiIn_create e i s = Ret t"
  using assms
  by (simp add: HdmiIn_create_def InitialiseHAL_hin_def getDynamicAutoLatencyConfig_def setAllCallbacks_hin_def
      getPersistenceValue_hin_def split: option.split)

lemma leave_hin_port [simp]:
  "im_hin (leave_fpd f s) = im_hin s" "im_hin (leave_audio a s) = im_hin s" "im_hin (leave_port p s) = im_hin s"
  "im_hin (leave_device d s) = im_hin s" "im_hin (leave_host ho s) = im_hin s" "im_hin (leave_display dd s) = im_hin s"
  "VideoPortNotifications (im_port (leave_fpd f s)) = VideoPortNotifications (im_port s)"
  "VideoPortNotifications (im_port (leave_hin h s)) = VideoPortNotifications (im_port s)"
  "VideoPortNotifications (im_port (leave_audio a s)) = VideoPortNotifications (im_port s)"
  "VideoPortNotifications (im_port (leave_device d s)) = VideoPortNotifications (im_port s)"
  "VideoPortNotifications (im_port (leave_host ho s)) = VideoPortNotifications (im_port s)"
  "VideoPortNotifications (im_port (leave_display dd s)) = VideoPortNotifications (im_port s)"
  "VideoPortNotifications (im_port (leave_comp c s)) = VideoPortNotifications (im_port s)"
  "VideoPortNotifications (im_port (leave_port p s)) = VideoPortNotifications p"
  "VideoPortNotifications (enter_port s) = VideoPortNotifications (im_port s)"
  "im_listener (leave_fpd f s) = im_listener s" "im_listener (leave_hin h s) = im_listener s"
  "im_listener (leave_audio a s) = im_listener s" "im_listener (leave_port p s) = im_listener s"
  "im_listener (leave_device d s) = im_listener s" "im_listener (leave_host ho s) = im_listener s"
  "im_listener (leave_comp c s) = im_listener s" "im_listener (leave_display dd s) = im_listener s"
  by (simp_all add: leave_fpd_def leave_hin_def leave_audio_def leave_port_def leave_device_def leave_host_def
      leave_comp_def leave_display_def enter_port_def)

lemma construct_box:
  assumes "\<forall>t. ae_ret (di_audio e) t AuInit = DsERR_NONE" and "\<not> he_tv (di_hin e)"
    and "auc_view False False (im_audio s)" and "m_hdmiInPlatInitialized (im_hin s) = 0"
  shows "\<exists>t. ds_construct e i s = Ret t \<and> VideoPortNotifications (im_port t) = VideoPortNotifications (im_port s)"
proof -
  let ?s3 = "construct_begin e i s"
  have s3: "im_hin ?s3 = im_hin s" "VideoPortNotifications (im_port ?s3) = VideoPortNotifications (im_port s)"
    by (simp_all add: construct_begin_def Let_def)
  have "auc_view False False (enter_audio ?s3)" using assms(3) by (simp add: view_enter construct_begin_audio)
  from auc_create_view [OF this assms(1), of "di_clients e" i] obtain a where
    a: "auc_create (di_audio e) (di_clients e) i (enter_audio ?s3) = Ret a" by auto
  have "m_hdmiInPlatInitialized (enter_hin u) = m_hdmiInPlatInitialized (im_hin u)" for u by (simp add: enter_hin_def)
  then have h: "im_hin u = im_hin s \<Longrightarrow> \<exists>t. HdmiIn_create (di_hin e) i (enter_hin u) = Ret t" for u
    using HdmiIn_create_box [OF assms(2), of "enter_hin u" i] assms(4) by simp
  have p: "VideoPortNotifications (VideoPort_create (di_port e) i v) = VideoPortNotifications v" for v
    by (simp add: VideoPort_create_def Let_def)
  let ?s4 = "leave_audio a ?s3"
  let ?s5 = "leave_port (VideoPort_create (di_port e) i (enter_port ?s4)) ?s4"
  let ?s6 = "leave_device (VideoDevice_create (di_device e) i (enter_device ?s5)) ?s5"
  let ?s7 = "leave_fpd (fpd_InitialiseHAL (di_consts e) (enter_fpd ?s6)) ?s6"
  from h [of ?s7] s3 obtain t where "HdmiIn_create (di_hin e) i (enter_hin ?s7) = Ret t" by auto
  then show ?thesis
    using s3 p by (simp add: ds_construct_def construct_end_def a Let_def)
qed

lemma first_life:
  assumes "\<forall>t. ae_ret (di_audio e) t AuInit = DsERR_NONE" and "\<not> he_tv (di_hin e)"
  shows "\<exists>t. ds_run e 0 [DsCreate, DsConfigure True, DsDestroy] (ds_static e st file base) = Ret t"
proof -
  have "m_hdmiInPlatInitialized (im_hin (ds_static e st file base)) = 0"
    by (simp add: ds_static_def Let_def hin_static_def)
  from construct_box [OF assms static_audio this] obtain s where
    s: "ds_construct e 0 (ds_static e st file base) = Ret s"
      "VideoPortNotifications (im_port s) = VideoPortNotifications (im_port (ds_static e st file base))" by blast
  have none: "\<not> im_has (ds_static e st file base) PController" by (simp add: ds_static_def Let_def)
  have has: "im_has s PController" using construct_first [OF assms(1) static_audio s(1)] by (simp add: audio_alive_def)
  have l: "rg_list (VideoPortNotifications (im_port s)) = []"
    by (simp add: s(2)) (simp add: ds_static_def Let_def vpc_static_def reg_empty_def)
  let ?c = "snd (ds_Configure e True s)"
  have c: "im_has ?c PController" "im_listener ?c = Some (Init (di_av e) pw_new)"
      "VideoPortNotifications (im_port ?c) = VideoPortNotifications (im_port s)"
    using has by (simp_all add: ds_Configure_def)
  have i: "pw_sync (Init (di_av e) pw_new)" by (simp add: Init_def Let_def case_prod_unfold)
  have "\<exists>t. ds_destroy e ?c = Ret t"
    using l c i by (simp add: ds_destroy_def VideoPort_destroy_def end_listener_def Deinit_begin_def Let_def)
  then obtain t where "ds_destroy e ?c = Ret t" ..
  then show ?thesis using s(1) none has c(1) by simp
qed

subsection \<open>Properties\<close>

text \<open>
  C16. The configurations a client gets are those of the first call, for the life of the object. The
  first call that returns answers success with the tables of the library as it is then, appended to
  what the client had in its structure (the front panel tables and the audio types replace it); it
  leaves no handle open, and every later call answers the same again, whatever the library has by
  then and whatever the later clients pass. If the library could not be opened at the first call,
  the tables stay empty for good.
\<close>

theorem configs_fixed_by_first_call:
  assumes "\<not> configLoaded s" and "GetDeviceSettingConfigs lib configs s = Ret (r, v, t)"
  shows "r = ERROR_NONE \<and> im_handles t = im_handles s
     \<and> (\<exists>tables. load_configs lib configs_empty 0 = Ret (tables, 0) \<and> v = configs_append configs tables)
     \<and> (lib = None \<longrightarrow> v = configs_append configs configs_empty)
     \<and> configs_run cs t = Ret (map (\<lambda>_. (ERROR_NONE, v)) cs, t)"
proof -
  obtain h where l: "load_configs lib configs (im_handles s) = Ret (v, h)"
    and t: "r = ERROR_NONE" "t = s\<lparr>cachedConfigs := v, configLoaded := True, im_handles := h\<rparr>"
    using assms by (auto simp: GetDeviceSettingConfigs_def obind_Ret_iff)
  from load_configs_append [OF l] obtain tables where
    tables: "load_configs lib configs_empty 0 = Ret (tables, 0)" "v = configs_append configs tables" by blast
  have "lib = None \<Longrightarrow> tables = configs_empty"
    using tables(1) by (simp add: load_configs_def Populate_tables table_of_def exports_def configs_empty_def Let_def)
  then show ?thesis
    using t tables load_configs_tables(1) [OF l] configs_cached [of t cs] by auto
qed

theorem configs_fixed_by_first_call_witness:
  "\<forall>e st file base. \<exists>t. GetDeviceSettingConfigs None configs_empty (ds_static e st file base) = Ret (ERROR_NONE, configs_empty, t)
     \<and> configs_run [(Some dsp_lib, configs_empty)] t = Ret ([(ERROR_NONE, configs_empty)], t)"
proof (intro allI)
  fix e st f base
  let ?s = "ds_static e st f base"
  have n: "\<not> configLoaded ?s" by (simp add: ds_static_def Let_def)
  obtain t where t: "GetDeviceSettingConfigs None configs_empty ?s = Ret (ERROR_NONE, configs_empty, t)"
    using n by (simp add: GetDeviceSettingConfigs_def load_configs_def Populate_tables table_of_def exports_def
        configs_empty_def Let_def)
  from configs_fixed_by_first_call [OF n t, of "[(Some dsp_lib, configs_empty)]"] t
  show "\<exists>t. GetDeviceSettingConfigs None configs_empty ?s = Ret (ERROR_NONE, configs_empty, t)
     \<and> configs_run [(Some dsp_lib, configs_empty)] t = Ret ([(ERROR_NONE, configs_empty)], t)" by auto
qed

text \<open>
  C3. The plugin can be started once in a process. If the audio HAL starts, then after an object
  was created, used in any way (requests, clients that come and go, reports of the audio HAL, steps
  of the level thread) and destroyed, the construction of a second one is undefined: its audio
  component reports its start through the callbacks of the first.
\<close>

theorem plugin_not_restartable:
  assumes "\<forall>t. ae_ret (di_audio e) t AuInit = DsERR_NONE" and "list_all between cs"
    and "ds_run e 0 (DsCreate # cs @ [DsDestroy]) (ds_static e st file base) = Ret s"
  shows "ds_run e 0 ((DsCreate # cs @ [DsDestroy]) @ [DsCreate]) (ds_static e st file base) = UB"
proof -
  have none: "\<not> im_has (ds_static e st file base) PController" by (simp add: ds_static_def Let_def)
  from assms(3) none obtain u v where u: "ds_construct e 0 (ds_static e st file base) = Ret u"
      "ds_run e (Suc 0) cs u = Ret v" "ds_do e (Suc 0 + length cs) DsDestroy v = Ret s"
    by (auto simp: ds_run_append obind_Ret_iff)
  have v: "audio_alive v" by (rule run_alive [OF assms(2) u(2) construct_first [OF assms(1) static_audio u(1)]])
  then have d: "ds_destroy e v = Ret s" using u(3) by (simp add: audio_alive_def)
  from destroy_audio_view [OF d v] have "ds_do e i DsCreate s = UB" for i
    using construct_again [OF assms(1), of s i] by simp
  then show ?thesis unfolding ds_run_append assms(3) by simp
qed

subsection \<open>A concrete board\<close>

text \<open>A box that is not a TV, with the examples of the components; the audio HAL starts.\<close>

definition ds_sample :: ds_env where
  "ds_sample = \<lparr>di_consts = ex_consts, di_fpd = ex_env, di_hin = hin_sample\<lparr>he_tv := False\<rparr>, di_audio = sample_hal False,
     di_port = vpc_sample, di_device = vd_sample, di_host = host_sample, di_display = dsp_sample,
     di_comp = \<lparr>he_ret = (\<lambda>_ _. DsERR_NONE), he_int = (\<lambda>_ _. 1), he_symbol = (\<lambda>_. True), he_io = io_full, he_tv = False,
       ci_status = (\<lambda>_. (0, True))\<rparr>,
     di_ctl = ex_ctl, di_av = ex_stb, di_clients = (\<lambda>_ _. []), di_port_clients = (\<lambda>_ _. [])\<rparr>"

definition ds_fresh :: ds_imp where
  "ds_fresh = ds_static ds_sample (hp_new ''f'' (\<lambda>_. None)) None (\<lambda>_. 1)"

theorem plugin_not_restartable_witness:
  "ds_run ds_sample 0 ([DsCreate, DsConfigure True, DsDestroy] @ [DsCreate]) ds_fresh = UB"
proof -
  have a: "\<forall>t. ae_ret (di_audio ds_sample) t AuInit = DsERR_NONE" and h: "\<not> he_tv (di_hin ds_sample)"
    by (simp_all add: ds_sample_def)
  from first_life [OF a h, of "hp_new ''f'' (\<lambda>_. None)" None "\<lambda>_. 1"] obtain t where
    "ds_run ds_sample 0 (DsCreate # [DsConfigure True] @ [DsDestroy]) ds_fresh = Ret t"
    by (auto simp: ds_fresh_def)
  from plugin_not_restartable [OF a _ this [unfolded ds_fresh_def]] show ?thesis by (simp add: ds_fresh_def)
qed

end
