(* ===== verification/Hdmi_Output.thy ===== *)
theory Hdmi_Output
  imports Hal_Base
begin

section \<open>HDMI outputs of the AIDL HAL (shared by \<open>hal/dVideoPortAIDLImpl\<close> and \<open>hal/dVideoDeviceAIDLImpl\<close>)\<close>

text \<open>
  On a board with the HDMI output service of the AIDL HAL, the platform layers of the video ports and
  of the video device work on the outputs of that service. Both files have the same code to open, find
  and close the outputs; it is modelled once here. The proxies of the service are generated outside
  the repository: their answers are parameters. A call on an output is logged with the id of the
  output. \<open>hal_ok\<close> is \<open>isOk()\<close> of the returned status, with the result that is tested beside it (a
  pointer that is not null, a property that was applied). \<open>open\<close> gives two answers: the status, and
  whether there is a controller (\<open>ao_object\<close>).
\<close>

subsection \<open>Calls and state\<close>

datatype ao_property = PR_VIC | PR_HDR_OUTPUT_MODE

datatype 'ev out_call =
    AoService
  | AoIds
  | AoGetOutput int
  | AoRegister int
  | AoUnregister int
  | AoOpen int
  | AoStart int
  | AoStop int
  | AoClose int
  | AoGetProperty int ao_property
  | AoSetProperty int ao_property int
  | AoCaps int
  | AoState int
  | AoHotPlug int
  | AoHdcpStatus int
  | AoHdcpReceiver int
  | AoHdcpCurrent int
  | AoEvent 'ev

text \<open>The enumerators the code uses; their numbers are parameters.\<close>

datatype vic =
    VIC3_720_480_P_60_16_9 | VIC18_720_576_P_50_16_9 | VIC4_1280_720_P_60_16_9 | VIC19_1280_720_P_50_16_9
  | VIC5_1920_1080_I_60_16_9 | VIC20_1920_1080_I_50_16_9 | VIC16_1920_1080_P_60_16_9 | VIC32_1920_1080_P_24_16_9
  | VIC33_1920_1080_P_25_16_9 | VIC34_1920_1080_P_30_16_9 | VIC31_1920_1080_P_50_16_9 | VIC93_3840_2160_P_24_16_9
  | VIC94_3840_2160_P_25_16_9 | VIC95_3840_2160_P_30_16_9 | VIC96_3840_2160_P_50_16_9 | VIC97_3840_2160_P_60_16_9

datatype hdr_mode = HM_AUTO | HM_HLG | HM_HDR10 | HM_HDR10_PLUS | HM_DOLBY_VISION | HM_other int

datatype ao_hdcp_version = AHV_1_X | AHV_2_X | AHV_other int

record ao_caps =
  cap_VICs :: "int list"
  cap_HDROutputModes :: "hdr_mode list"
  cap_HDCPVersions :: "ao_hdcp_version list"
  cap_ColorDepths :: "int list"

record 'ev ao_env = "'ev out_call hal_env" +
  ao_object :: "'ev out_call list \<Rightarrow> bool"
  ao_ids :: "'ev out_call list \<Rightarrow> int list"
  ao_property :: "'ev out_call list \<Rightarrow> int option"
  ao_caps :: "'ev out_call list \<Rightarrow> ao_caps"
  ao_vic :: "vic \<Rightarrow> int"
  ao_mode :: "hdr_mode \<Rightarrow> int"

text \<open>
  An output that is open (\<open>Device\<close>): the output, its controller and the two listeners are there as
  long as it is in the list. \<open>ao_callbacks\<close>: the callbacks have been set.
\<close>

record ao_device =
  ad_id :: int

record ('ev, 'd) ao_state = "'ev out_call hal_state" +
  ao_manager :: bool
  ao_devices :: "'d list"
  ao_opened :: bool
  ao_callbacks :: bool

subsection \<open>Opening, finding and closing\<close>

text \<open>\<open>CloseDevice\<close> on an output with its listener; \<open>controller\<close>: there is a controller.\<close>

definition CloseDevice :: "int \<Rightarrow> bool \<Rightarrow> ('ev out_call, 's) hal_state_scheme \<Rightarrow> ('ev out_call, 's) hal_state_scheme" where
  "CloseDevice i controller s =
     hal_log (AoUnregister i) (if controller then hal_log (AoClose i) (hal_log (AoStop i) s) else s)"

definition OpenDevice ::
  "('ev, 'e) ao_env_scheme \<Rightarrow> int \<Rightarrow> ('ev out_call, 's) hal_state_scheme \<Rightarrow> bool \<times> ('ev out_call, 's) hal_state_scheme" where
  "OpenDevice e i s =
     (let s1 = hal_log (AoGetOutput i) s
      in if \<not> hal_ok e (AoGetOutput i) s then (False, s1)
         else let s2 = hal_log (AoRegister i) s1;
                  s3 = hal_log (AoOpen i) s2;
                  controller = ao_object e (hs_trace s2)
              in if \<not> hal_ok e (AoOpen i) s2 \<or> \<not> controller then (False, CloseDevice i controller s3)
                 else let s4 = hal_log (AoStart i) s3
                      in if \<not> hal_ok e (AoStart i) s3 then (False, CloseDevice i True s4) else (True, s4))"

text \<open>The loop of \<open>InitialiseHAL\<close>; \<open>fresh\<close> is the \<open>Device\<close> of an id.\<close>

fun open_outputs ::
  "('ev, 'e) ao_env_scheme \<Rightarrow> (int \<Rightarrow> 'd) \<Rightarrow> int list \<Rightarrow> ('ev, 'd, 's) ao_state_scheme \<Rightarrow> ('ev, 'd, 's) ao_state_scheme" where
  "open_outputs e fresh [] s = s"
| "open_outputs e fresh (i # is) s =
     (let (opened, t) = OpenDevice e i s
      in open_outputs e fresh is (if opened then t\<lparr>ao_devices := ao_devices t @ [fresh i]\<rparr> else t))"

definition InitialiseHAL_ao ::
  "('ev, 'e) ao_env_scheme \<Rightarrow> (int \<Rightarrow> 'd) \<Rightarrow> (('ev, 'd, 's) ao_state_scheme \<Rightarrow> ('ev, 'd, 's) ao_state_scheme)
     \<Rightarrow> ('ev, 'd, 's) ao_state_scheme \<Rightarrow> ('ev, 'd, 's) ao_state_scheme" where
  "InitialiseHAL_ao e fresh getPersistenceValue s =
     (if ao_opened s then s
      else let available = hal_ok e AoService s;
               s1 = (hal_log AoService s)\<lparr>ao_manager := available\<rparr>
      in if \<not> available then s1
         else let ids = ao_ids e (hs_trace s1); s2 = hal_log AoIds s1
         in if \<not> hal_ok e AoIds s1 \<or> ids = [] then s2\<lparr>ao_manager := False\<rparr>
            else let s3 = open_outputs e fresh ids s2
            in if ao_devices s3 = [] then s3\<lparr>ao_manager := False\<rparr>
               else (getPersistenceValue s3)\<lparr>ao_opened := True\<rparr>)"

definition DeInitialiseHAL_ao :: "('ev, ('d) ao_device_scheme, 's) ao_state_scheme \<Rightarrow> ('ev, ('d) ao_device_scheme, 's) ao_state_scheme" where
  "DeInitialiseHAL_ao s =
     (fold (\<lambda>d. CloseDevice (ad_id d) True) (ao_devices s) (s\<lparr>ao_opened := False\<rparr>))\<lparr>ao_devices := [], ao_manager := False\<rparr>"

definition FindDevice :: "int \<Rightarrow> ('ev, ('d) ao_device_scheme, 's) ao_state_scheme \<Rightarrow> ('d) ao_device_scheme option" where
  "FindDevice handle s = (if ao_opened s then find (\<lambda>d. ad_id d = handle) (ao_devices s) else None)"

text \<open>\<open>ExtractIntProperty\<close>: the number, if the property has a value and it is a number.\<close>

definition ExtractIntProperty :: "int option \<Rightarrow> int \<Rightarrow> int" where
  "ExtractIntProperty v defaultValue = (case v of Some i \<Rightarrow> i | None \<Rightarrow> defaultValue)"

text \<open>The mask of the HDR modes of a sink.\<close>

fun hdr_bit :: "hdr_mode \<Rightarrow> 32 word" where
  "hdr_bit HM_HLG = 0x02"
| "hdr_bit HM_HDR10 = 0x01"
| "hdr_bit HM_HDR10_PLUS = 0x10"
| "hdr_bit HM_DOLBY_VISION = 0x04"
| "hdr_bit _ = 0"

definition hdr_mask :: "hdr_mode list \<Rightarrow> 32 word" where
  "hdr_mask ms = fold (\<lambda>m w. or w (hdr_bit m)) ms 0"

subsection \<open>Every output that is opened is closed\<close>

text \<open>The calls a request makes on an output, and all calls that need an open output.\<close>

fun asked_of :: "'ev out_call \<Rightarrow> int option" where
  "asked_of (AoGetProperty i p) = Some i"
| "asked_of (AoSetProperty i p v) = Some i"
| "asked_of (AoCaps i) = Some i"
| "asked_of (AoState i) = Some i"
| "asked_of (AoHotPlug i) = Some i"
| "asked_of (AoHdcpStatus i) = Some i"
| "asked_of (AoHdcpReceiver i) = Some i"
| "asked_of (AoHdcpCurrent i) = Some i"
| "asked_of _ = None"

fun uses :: "'ev out_call \<Rightarrow> int option" where
  "uses (AoStart i) = Some i"
| "uses (AoStop i) = Some i"
| "uses c = asked_of c"

text \<open>How often an output gave a controller, in a trace given from its end.\<close>

fun granted :: "('ev, 'e) ao_env_scheme \<Rightarrow> int \<Rightarrow> 'ev out_call list \<Rightarrow> nat" where
  "granted e i [] = 0"
| "granted e i (c # r) = (if c = AoOpen i \<and> ao_object e (rev r) then 1 else 0) + granted e i r"

definition controllers :: "('ev, 'e) ao_env_scheme \<Rightarrow> 'ev out_call list \<Rightarrow> int \<Rightarrow> nat" where
  "controllers e tr i = granted e i (rev tr)"

lemma controllers_simps [simp]:
  "controllers e [] i = 0"
  "controllers e (tr @ [c]) i = (if c = AoOpen i \<and> ao_object e tr then 1 else 0) + controllers e tr i"
  by (simp_all add: controllers_def)

fun used_rev :: "('ev, 'e) ao_env_scheme \<Rightarrow> 'ev out_call list \<Rightarrow> bool" where
  "used_rev e [] = True"
| "used_rev e (c # r) = ((case uses c of None \<Rightarrow> True | Some i \<Rightarrow> count_list r (AoClose i) < granted e i r) \<and> used_rev e r)"

text \<open>Whenever a call needs an open output, the output has been opened more often than closed.\<close>

definition used_while_open :: "('ev, 'e) ao_env_scheme \<Rightarrow> 'ev out_call list \<Rightarrow> bool" where
  "used_while_open e tr = used_rev e (rev tr)"

lemma used_while_open_simps [simp]:
  "used_while_open e []"
  "used_while_open e (tr @ [c]) \<longleftrightarrow>
     (case uses c of None \<Rightarrow> True | Some i \<Rightarrow> count_list tr (AoClose i) < controllers e tr i) \<and> used_while_open e tr"
  by (simp_all add: used_while_open_def controllers_def count_list_rev split: option.split)

text \<open>\<open>R\<close> listeners and \<open>C\<close> controllers of each output are in use.\<close>

definition balanced :: "('ev, 'e) ao_env_scheme \<Rightarrow> (int \<Rightarrow> nat) \<Rightarrow> (int \<Rightarrow> nat) \<Rightarrow> 'ev out_call list \<Rightarrow> bool" where
  "balanced e R C tr \<longleftrightarrow> used_while_open e tr
     \<and> (\<forall>i. count_list tr (AoRegister i) = count_list tr (AoUnregister i) + R i
          \<and> controllers e tr i = count_list tr (AoClose i) + C i
          \<and> count_list tr (AoStop i) = count_list tr (AoClose i))"

lemma balanced_use:
  assumes "balanced e R C tr" and "\<forall>i. uses c = Some i \<longrightarrow> 0 < C i"
    and "\<forall>i. c \<notin> {AoRegister i, AoUnregister i, AoOpen i, AoClose i, AoStop i}"
  shows "balanced e R C (tr @ [c])"
  using assms by (auto simp: balanced_def split: option.split)

lemma balanced_register: "balanced e R C tr \<Longrightarrow> balanced e (R(i := Suc (R i))) C (tr @ [AoRegister i])"
  by (auto simp: balanced_def)

lemma balanced_open:
  "balanced e R C tr \<Longrightarrow> balanced e R (C(i := C i + (if ao_object e tr then 1 else 0))) (tr @ [AoOpen i])"
  by (auto simp: balanced_def)

lemma balanced_unregister: "balanced e R C tr \<Longrightarrow> 0 < R i \<Longrightarrow> balanced e (R(i := R i - 1)) C (tr @ [AoUnregister i])"
  by (auto simp: balanced_def)

lemma balanced_stop_close:
  assumes "balanced e R C tr" and "0 < C i"
  shows "balanced e R (C(i := C i - 1)) ((tr @ [AoStop i]) @ [AoClose i])"
proof -
  have "controllers e ((tr @ [AoStop i]) @ [AoClose i]) j = controllers e tr j" for j
    by (simp del: append_assoc)
  moreover have "used_while_open e ((tr @ [AoStop i]) @ [AoClose i])"
    using assms by (auto simp: balanced_def simp del: append_assoc)
  ultimately show ?thesis using assms by (auto simp: balanced_def)
qed

lemma balanced_close:
  assumes "balanced e R C (hs_trace s)" and "0 < R i" and "controller \<longrightarrow> 0 < C i"
  shows "balanced e (R(i := R i - 1)) (C(i := C i - (if controller then 1 else 0))) (hs_trace (CloseDevice i controller s))"
proof (cases controller)
  case True
  with balanced_unregister [OF balanced_stop_close [OF assms(1)], of i i] assms show ?thesis
    by (simp add: CloseDevice_def)
next
  case False
  with balanced_unregister [OF assms(1), of i] assms(2) show ?thesis by (simp add: CloseDevice_def)
qed

lemma CloseDevice_fields [simp]:
  "hal_state.more (CloseDevice i c s) = hal_state.more s" "hs_store (CloseDevice i c s) = hs_store s"
  by (simp_all add: CloseDevice_def hal_log_def)

lemma OpenDevice_fields:
  "OpenDevice e i s = (b, t) \<Longrightarrow> hal_state.more t = hal_state.more s \<and> hs_store t = hs_store s"
  by (auto simp: OpenDevice_def Let_def hal_log_def split: if_splits)

lemma OpenDevice_balanced:
  assumes "OpenDevice e i s = (b, t)" and "balanced e R C (hs_trace s)"
  shows "balanced e (R(i := R i + (if b then 1 else 0))) (C(i := C i + (if b then 1 else 0))) (hs_trace t)"
proof -
  let ?tr = "hs_trace s @ [AoGetOutput i]"
  let ?tr2 = "?tr @ [AoRegister i]"
  let ?c = "ao_object e ?tr2"
  have 1: "balanced e R C ?tr" by (rule balanced_use [OF assms(2)]) simp_all
  have 3: "balanced e (R(i := Suc (R i))) (C(i := C i + (if ?c then 1 else 0))) (?tr2 @ [AoOpen i])"
    by (rule balanced_open [OF balanced_register [OF 1]])
  have 4: "balanced e (R(i := Suc (R i))) (C(i := Suc (C i))) ((?tr2 @ [AoOpen i]) @ [AoStart i])" if ?c
    using that balanced_use [OF 3, of "AoStart i"] by simp
  let ?s3 = "hal_log (AoOpen i) (hal_log (AoRegister i) (hal_log (AoGetOutput i) s))"
  have undo: "(C(i := C i + n))(i := C i) = C" "(C(i := Suc (C i)))(i := C i) = C" for C :: "int \<Rightarrow> nat" and n
    by auto
  have 5: "balanced e R C (hs_trace (CloseDevice i ?c ?s3))"
    using balanced_close [of e "R(i := Suc (R i))" "C(i := C i + (if ?c then 1 else 0))" ?s3 i ?c] 3
    by (cases ?c) (simp_all add: undo)
  have 6: "balanced e R C (hs_trace (CloseDevice i True (hal_log (AoStart i) ?s3)))" if ?c
    using that balanced_close [of e "R(i := Suc (R i))" "C(i := Suc (C i))" "hal_log (AoStart i) ?s3" i True] 4
    by (simp add: undo)
  show ?thesis
    using assms(1) 1 4 5 6 by (auto simp: OpenDevice_def Let_def split: if_splits)
qed

lemma count_list_none: "count_list [] = (\<lambda>_. 0)"
  by auto

text \<open>The outputs in the list are open, and no others.\<close>

definition open_ids :: "('ev, 'd ao_device_scheme, 's) ao_state_scheme \<Rightarrow> int list" where
  "open_ids s = map ad_id (ao_devices s)"

definition outputs_ok :: "('ev, 'e) ao_env_scheme \<Rightarrow> ('ev, 'd ao_device_scheme, 's) ao_state_scheme \<Rightarrow> bool" where
  "outputs_ok e s \<longleftrightarrow> (\<not> ao_opened s \<longrightarrow> ao_devices s = [])
     \<and> balanced e (count_list (open_ids s)) (count_list (open_ids s)) (hs_trace s)"

lemma ao_fields [simp]:
  "ao_devices (hal_log c s) = ao_devices s" "ao_opened (hal_log c s) = ao_opened s" "ao_callbacks (hal_log c s) = ao_callbacks s"
  "ao_devices (hal_put e k v s) = ao_devices s" "ao_opened (hal_put e k v s) = ao_opened s" "ao_callbacks (hal_put e k v s) = ao_callbacks s"
  "ao_devices (snd (hal_read k d s)) = ao_devices s" "ao_opened (snd (hal_read k d s)) = ao_opened s"
  "ao_callbacks (snd (hal_read k d s)) = ao_callbacks s"
  by (simp_all add: hal_log_def hal_put_def hal_read_def Let_def case_prod_unfold)

lemma CloseDevice_state [simp]:
  "ao_devices (CloseDevice i c s) = ao_devices s" "ao_opened (CloseDevice i c s) = ao_opened s"
  by (simp_all add: CloseDevice_def hal_log_def)

lemma OpenDevice_state:
  "OpenDevice e i s = (b, t) \<Longrightarrow> ao_devices t = ao_devices s \<and> ao_opened t = ao_opened s"
  by (auto simp: OpenDevice_def Let_def hal_log_def split: if_splits)

lemma open_outputs_both: "hs_store (open_outputs e fresh is s) = hs_store s \<and> ao_opened (open_outputs e fresh is s) = ao_opened s"
proof (induction "is" arbitrary: s)
  case (Cons i "is")
  obtain b t where t: "OpenDevice e i s = (b, t)" by (cases "OpenDevice e i s")
  show ?case using t OpenDevice_fields [OF t] OpenDevice_state [OF t] Cons.IH by simp
qed simp

lemmas open_outputs_same [simp] = open_outputs_both [THEN conjunct1] open_outputs_both [THEN conjunct2]

lemma find_SomeD: "find P xs = Some x \<Longrightarrow> x \<in> set xs \<and> P x"
  by (induction xs) (auto split: if_splits)

lemma open_outputs_balanced:
  assumes "\<And>i. ad_id (fresh i) = i"
    and "balanced e (count_list (open_ids s)) (count_list (open_ids s)) (hs_trace s)"
  shows "balanced e (count_list (open_ids (open_outputs e fresh is s))) (count_list (open_ids (open_outputs e fresh is s)))
      (hs_trace (open_outputs e fresh is s))
    \<and> ao_opened (open_outputs e fresh is s) = ao_opened s"
  using assms(2)
proof (induction "is" arbitrary: s)
  case (Cons i "is")
  obtain b t where t: "OpenDevice e i s = (b, t)" by (cases "OpenDevice e i s")
  let ?t = "if b then t\<lparr>ao_devices := ao_devices t @ [fresh i]\<rparr> else t"
  have "count_list (open_ids ?t) = (count_list (open_ids s))(i := count_list (open_ids s) i + (if b then 1 else 0))"
    using OpenDevice_state [OF t] by (auto simp: open_ids_def assms(1))
  moreover have "hs_trace ?t = hs_trace t" by simp
  ultimately have "balanced e (count_list (open_ids ?t)) (count_list (open_ids ?t)) (hs_trace ?t)"
    using OpenDevice_balanced [OF t Cons.prems] by metis
  from Cons.IH [OF this] show ?case using t OpenDevice_state [OF t] by simp
qed simp

lemma close_outputs_balanced:
  assumes "balanced e (count_list (map ad_id ds)) (count_list (map ad_id ds)) (hs_trace s)"
  shows "balanced e (\<lambda>_. 0) (\<lambda>_. 0) (hs_trace (fold (\<lambda>d. CloseDevice (ad_id d) True) ds s))"
  using assms
proof (induction ds arbitrary: s)
  case Nil
  then show ?case by (simp add: balanced_def)
next
  case (Cons d ds)
  let ?n = "count_list (map ad_id (d # ds))"
  have n: "?n(ad_id d := ?n (ad_id d) - 1) = count_list (map ad_id ds)" by auto
  have pos: "0 < ?n (ad_id d)" by simp
  have "balanced e (?n(ad_id d := ?n (ad_id d) - 1)) (?n(ad_id d := ?n (ad_id d) - 1))
      (hs_trace (CloseDevice (ad_id d) True s))"
    using balanced_close [OF Cons.prems pos, of True] pos by (simp only: if_True simp_thms)
  then show ?case using Cons.IH [of "CloseDevice (ad_id d) True s"] by (simp only: n fold_Cons o_apply)
qed

lemma open_ids_fields [simp]:
  "open_ids (hal_log c s) = open_ids s" "open_ids (hal_put e k v s) = open_ids s" "open_ids (snd (hal_read k d s)) = open_ids s"
  "open_ids (s\<lparr>ao_callbacks := b\<rparr>) = open_ids s"
  by (simp_all add: open_ids_def)

text \<open>What a request does: calls on open outputs and events; the list stays.\<close>

definition works :: "('ev, 'd ao_device_scheme, 's) ao_state_scheme \<Rightarrow> ('ev, 'd ao_device_scheme, 's) ao_state_scheme \<Rightarrow> bool" where
  "works s t \<longleftrightarrow> (\<exists>cs. hs_trace t = hs_trace s @ cs
       \<and> (\<forall>c \<in> set cs. (\<exists>ev. c = AoEvent ev) \<or> (\<exists>i \<in> set (open_ids s). asked_of c = Some i)))
     \<and> open_ids t = open_ids s \<and> ao_opened t = ao_opened s"

lemma works_refl [simp]: "works s s"
  by (simp add: works_def)

lemma works_trans: "works s t \<Longrightarrow> works t u \<Longrightarrow> works s u"
  unfolding works_def by (metis UnE append_assoc set_append)

lemma works_call: "asked_of c = Some i \<Longrightarrow> i \<in> set (open_ids s) \<Longrightarrow> works s (hal_log c s)"
  by (auto simp: works_def open_ids_def hal_log_def)

lemma works_event: "works s (hal_log (AoEvent ev) s)"
  by (auto simp: works_def open_ids_def hal_log_def)

lemma works_same:
  "hs_trace t = hs_trace s \<Longrightarrow> open_ids t = open_ids s \<Longrightarrow> ao_opened t = ao_opened s \<Longrightarrow> works s t"
  by (simp add: works_def)

lemma works_put: "works s (hal_put e k v s)"
  by (rule works_same) simp_all

lemma works_read: "works s (snd (hal_read k d s))"
  by (rule works_same) simp_all

lemma works_log2:
  assumes "asked_of c = Some i" and "asked_of c' = Some i" and "i \<in> set (open_ids s)"
  shows "works s (hal_log c' (hal_log c s))"
  using works_trans [OF works_call [OF assms(1,3)] works_call [OF assms(2)]] assms(3) by simp

lemma found_open: "FindDevice h s = Some d \<Longrightarrow> h \<in> set (open_ids s)"
  by (auto simp: FindDevice_def open_ids_def find_Some_iff split: if_splits)

lemma asked_not_start: "asked_of c = Some i \<Longrightarrow> uses c = Some i \<and> c \<notin> {AoRegister j, AoUnregister j, AoOpen j, AoClose j, AoStop j}"
  by (cases c) auto

lemma works_balanced:
  assumes "balanced e R C tr" and "\<forall>c \<in> set cs. (\<exists>ev. c = AoEvent ev) \<or> (\<exists>i. 0 < C i \<and> asked_of c = Some i)"
  shows "balanced e R C (tr @ cs)"
  using assms(2)
proof (induction cs rule: rev_induct)
  case (snoc c cs)
  then have b: "balanced e R C (tr @ cs)" by simp
  from snoc.prems consider ev where "c = AoEvent ev" | i where "0 < C i" "asked_of c = Some i" by auto
  then have "balanced e R C ((tr @ cs) @ [c])"
  proof cases
    case 1
    then show ?thesis by (intro balanced_use [OF b]) simp_all
  next
    case 2
    then show ?thesis using asked_not_start [OF 2(2)] by (intro balanced_use [OF b]) auto
  qed
  then show ?case by simp
qed (use assms(1) in simp)

lemma works_ok: "outputs_ok e s \<Longrightarrow> works s t \<Longrightarrow> outputs_ok e t"
proof -
  assume s: "outputs_ok e s" and w: "works s t"
  obtain cs where cs: "hs_trace t = hs_trace s @ cs"
      "\<forall>c \<in> set cs. (\<exists>ev. c = AoEvent ev) \<or> (\<exists>i \<in> set (open_ids s). asked_of c = Some i)"
      "open_ids t = open_ids s" "ao_opened t = ao_opened s" using w by (auto simp: works_def)
  have "balanced e (count_list (open_ids s)) (count_list (open_ids s)) (hs_trace s @ cs)"
    using s cs(2) by (intro works_balanced) (auto simp: outputs_ok_def count_list_0_iff)
  moreover have "ao_devices s = [] \<Longrightarrow> ao_devices t = []" using cs(3) by (simp add: open_ids_def)
  ultimately show ?thesis using s cs by (auto simp: outputs_ok_def)
qed

subsection \<open>The life of an object, for both platforms\<close>

datatype 'q ao_op = AoInit | AoDeinit | AoRequest 'q

text \<open>
  The contract of a platform over the outputs: the record of an output carries its id, reading the
  settings calls no output, and a request works on open outputs.
\<close>

locale output_platform =
  fixes e :: "('ev, 'e) ao_env_scheme" and fresh :: "int \<Rightarrow> 'd ao_device_scheme"
    and load :: "('ev, 'd ao_device_scheme, 's) ao_state_scheme \<Rightarrow> ('ev, 'd ao_device_scheme, 's) ao_state_scheme"
    and request :: "'q \<Rightarrow> ('ev, 'd ao_device_scheme, 's) ao_state_scheme \<Rightarrow> ('ev, 'd ao_device_scheme, 's) ao_state_scheme"
    and run :: "'q ao_op list \<Rightarrow> ('ev, 'd ao_device_scheme, 's) ao_state_scheme \<Rightarrow> ('ev, 'd ao_device_scheme, 's) ao_state_scheme"
  assumes fresh_id: "ad_id (fresh i) = i"
    and load_same: "hs_trace (load s) = hs_trace s" "open_ids (load s) = open_ids s" "ao_opened (load s) = ao_opened s"
    and request_works: "works s (request q s)"
    and run_Nil: "run [] s = s"
    and run_Cons: "run (c # cs) s = run cs (case c of AoInit \<Rightarrow> InitialiseHAL_ao e fresh load s
        | AoDeinit \<Rightarrow> DeInitialiseHAL_ao s | AoRequest q \<Rightarrow> request q s)"
begin

lemma init_ok:
  assumes "outputs_ok e s"
  shows "outputs_ok e (InitialiseHAL_ao e fresh load s)"
proof (cases "ao_opened s")
  case False
  then have empty: "open_ids s = []" and b: "balanced e (\<lambda>_. 0) (\<lambda>_. 0) (hs_trace s)"
    using assms by (auto simp: outputs_ok_def open_ids_def count_list_none)
  have b1: "balanced e (\<lambda>_. 0) (\<lambda>_. 0) (hs_trace s @ [AoService])" by (rule balanced_use [OF b]) simp_all
  have b2: "balanced e (\<lambda>_. 0) (\<lambda>_. 0) ((hs_trace s @ [AoService]) @ [AoIds])" by (rule balanced_use [OF b1]) simp_all
  let ?s2 = "hal_log AoIds ((hal_log AoService s)\<lparr>ao_manager := True\<rparr>)"
  have d: "ao_devices ?s2 = []" "\<not> ao_opened ?s2" using False empty by (simp_all add: hal_log_def open_ids_def)
  have "balanced e (count_list (open_ids ?s2)) (count_list (open_ids ?s2)) (hs_trace ?s2)"
    using b2 d(1) by (simp add: open_ids_def count_list_none)
  note o = open_outputs_balanced [where fresh = fresh, OF fresh_id this]
  have o2: "balanced e (\<lambda>_. 0) (\<lambda>_. 0) (hs_trace (open_outputs e fresh is ?s2))"
    if "ao_devices (open_outputs e fresh is ?s2) = []" for "is"
    using o [of "is"] that by (simp add: open_ids_def count_list_none)
  show ?thesis
    unfolding InitialiseHAL_ao_def Let_def
    using False empty b1 b2 o o2 d load_same
    by (auto simp: outputs_ok_def open_ids_def count_list_none)
qed (use assms in \<open>simp add: InitialiseHAL_ao_def\<close>)

lemma deinit_ok:
  assumes "outputs_ok e s"
  shows "outputs_ok e (DeInitialiseHAL_ao s)" and "open_ids (DeInitialiseHAL_ao s) = []"
proof -
  have "balanced e (\<lambda>_. 0) (\<lambda>_. 0) (hs_trace (fold (\<lambda>d. CloseDevice (ad_id d) True) (ao_devices s) (s\<lparr>ao_opened := False\<rparr>)))"
    by (rule close_outputs_balanced) (use assms in \<open>simp add: outputs_ok_def open_ids_def\<close>)
  then show "outputs_ok e (DeInitialiseHAL_ao s)" and "open_ids (DeInitialiseHAL_ao s) = []"
    by (simp_all add: DeInitialiseHAL_ao_def outputs_ok_def open_ids_def count_list_none)
qed

lemma run_ok: "outputs_ok e s \<Longrightarrow> outputs_ok e (run cs s)"
proof (induction cs arbitrary: s)
  case (Cons c cs)
  then show ?case
    by (cases c) (auto simp: run_Cons init_ok deinit_ok works_ok [OF _ request_works])
qed (simp add: run_Nil)

lemma run_append: "run (as @ bs) s = run bs (run as s)"
  by (induction as arbitrary: s) (simp_all add: run_Nil run_Cons)

text \<open>At the end every listener and controller is given back.\<close>

lemma run_ended:
  assumes "outputs_ok e s"
  shows "balanced e (\<lambda>_. 0) (\<lambda>_. 0) (hs_trace (run (cs @ [AoDeinit]) s))"
proof -
  have "outputs_ok e (run cs s)" by (rule run_ok [OF assms])
  from deinit_ok [OF this] show ?thesis
    by (simp add: run_append run_Cons run_Nil outputs_ok_def count_list_none)
qed

end

end
