(* ===== verification/Video_Port_Aidl.thy ===== *)
theory Video_Port_Aidl
  imports Hdmi_Output Video_Port
begin

section \<open>Video ports on the AIDL HAL (\<open>hal/dVideoPortAIDLImpl\<close>)\<close>

text \<open>
  The second platform layer of the video ports: the same forty requests, served by the HDMI outputs
  of the AIDL HAL. What the outputs do not have is answered without a call, as unavailable or as done.
  The state belongs to the object (the legacy platform keeps it in file-scope variables). Results
  are as in \<open>Video_Port\<close>: the error code, what is written to the client's variable, the state.
\<close>

subsection \<open>Types and tables\<close>

datatype vpa_event = VaPostChange int int | VaHdcpStatus hdcp_interface

datatype ao_hdcp_status =
    AH_UNKNOWN | AH_UNAUTHENTICATED | AH_AUTHENTICATION_IN_PROGRESS | AH_AUTHENTICATION_FAILURE
  | AH_AUTHENTICATED | AH_other int

type_synonym vpa_hist = "vpa_event out_call list"

text \<open>\<open>va_enum\<close> and \<open>va_pixel\<close>: the numbers of enumerators of the interface.\<close>

record vpa_env = "vpa_event ao_env" +
  va_connected :: "vpa_hist \<Rightarrow> bool"
  va_closed :: "vpa_hist \<Rightarrow> bool"
  va_hdcp :: "vpa_hist \<Rightarrow> ao_hdcp_status"
  va_version :: "vpa_hist \<Rightarrow> ao_hdcp_version"
  va_enum :: "string \<Rightarrow> int"
  va_pixel :: "pixel_res \<Rightarrow> nat"

record vpa_state = "(vpa_event, ao_device) ao_state" +
  persistedResolution :: string
  force4KDisabled :: bool

type_synonym vpa_result = "coreErr \<times> vp_val option \<times> vpa_state"

definition vpa_static :: "host_store \<Rightarrow> vpa_state" where
  "vpa_static st = \<lparr>hs_trace = [], hs_store = st, hs_live = None, ao_manager = False, ao_devices = [], ao_opened = False,
     ao_callbacks = False, persistedResolution = [], force4KDisabled = False\<rparr>"

definition vic_row :: "vic \<Rightarrow> string \<Rightarrow> pixel_res \<Rightarrow> frame_rate \<Rightarrow> bool \<Rightarrow> vic \<times> vp_res" where
  "vic_row w name px fr interlaced = (w, \<lparr>r_name = name, r_pixel = px, r_aspect = ASPECT_16x9, r_stereo = SSMODE_2D,
     r_frame = fr, r_interlaced = interlaced\<rparr>)"

definition kVicTable :: "(vic \<times> vp_res) list" where
  "kVicTable =
     [vic_row VIC3_720_480_P_60_16_9 ''480p'' PX_720x480 FR_60 False,
      vic_row VIC18_720_576_P_50_16_9 ''576p50'' PX_720x576 FR_50 False,
      vic_row VIC4_1280_720_P_60_16_9 ''720p'' PX_1280x720 FR_60 False,
      vic_row VIC19_1280_720_P_50_16_9 ''720p50'' PX_1280x720 FR_50 False,
      vic_row VIC5_1920_1080_I_60_16_9 ''1080i'' PX_1920x1080 FR_60 True,
      vic_row VIC20_1920_1080_I_50_16_9 ''1080i50'' PX_1920x1080 FR_50 True,
      vic_row VIC16_1920_1080_P_60_16_9 ''1080p'' PX_1920x1080 FR_60 False,
      vic_row VIC32_1920_1080_P_24_16_9 ''1080p24'' PX_1920x1080 FR_24 False,
      vic_row VIC33_1920_1080_P_25_16_9 ''1080p25'' PX_1920x1080 FR_25 False,
      vic_row VIC34_1920_1080_P_30_16_9 ''1080p30'' PX_1920x1080 FR_30 False,
      vic_row VIC31_1920_1080_P_50_16_9 ''1080p50'' PX_1920x1080 FR_50 False,
      vic_row VIC93_3840_2160_P_24_16_9 ''2160p24'' PX_3840x2160 FR_24 False,
      vic_row VIC94_3840_2160_P_25_16_9 ''2160p25'' PX_3840x2160 FR_25 False,
      vic_row VIC95_3840_2160_P_30_16_9 ''2160p30'' PX_3840x2160 FR_30 False,
      vic_row VIC96_3840_2160_P_50_16_9 ''2160p50'' PX_3840x2160 FR_50 False,
      vic_row VIC97_3840_2160_P_60_16_9 ''2160p'' PX_3840x2160 FR_60 False]"

definition VicToResolution :: "vpa_env \<Rightarrow> int \<Rightarrow> vp_res option" where
  "VicToResolution e v = map_option snd (find (\<lambda>row. ao_vic e (fst row) = v) kVicTable)"

definition ResolutionNameToVic :: "vpa_env \<Rightarrow> string \<Rightarrow> int option" where
  "ResolutionNameToVic e name = map_option (\<lambda>row. ao_vic e (fst row)) (find (\<lambda>row. r_name (snd row) = name) kVicTable)"

fun ConvertHdcpStatus :: "ao_hdcp_status \<Rightarrow> hdcp_interface" where
  "ConvertHdcpStatus AH_UNAUTHENTICATED = IH_UNAUTHENTICATED"
| "ConvertHdcpStatus AH_AUTHENTICATION_IN_PROGRESS = IH_INPROGRESS"
| "ConvertHdcpStatus AH_AUTHENTICATION_FAILURE = IH_AUTHENTICATIONFAILURE"
| "ConvertHdcpStatus AH_AUTHENTICATED = IH_AUTHENTICATED"
| "ConvertHdcpStatus _ = IH_UNPOWERED"

definition ConvertHdcpVersion :: "ao_hdcp_version \<Rightarrow> hdcp_version" where
  "ConvertHdcpVersion v = (if v = AHV_2_X then HV_2X else HV_1X)"

text \<open>HDR modes and HDR standards, by their numbers.\<close>

definition ConvertHdrOutputMode :: "vpa_env \<Rightarrow> int \<Rightarrow> int" where
  "ConvertHdrOutputMode e m =
     (if m = ao_mode e HM_HLG then va_enum e ''HDRSTANDARD-HLG''
      else if m = ao_mode e HM_HDR10 then va_enum e ''HDRSTANDARD-HDR10''
      else if m = ao_mode e HM_HDR10_PLUS then va_enum e ''HDRSTANDARD-HDR10PLUS''
      else if m = ao_mode e HM_DOLBY_VISION then va_enum e ''HDRSTANDARD-DOLBYVISION''
      else va_enum e ''HDRSTANDARD-SDR'')"

definition ConvertHdrStandard :: "vpa_env \<Rightarrow> int \<Rightarrow> hdr_mode" where
  "ConvertHdrStandard e h =
     (if h = va_enum e ''HDRSTANDARD-HLG'' then HM_HLG
      else if h = va_enum e ''HDRSTANDARD-HDR10'' then HM_HDR10
      else if h = va_enum e ''HDRSTANDARD-HDR10PLUS'' then HM_HDR10_PLUS
      else if h = va_enum e ''HDRSTANDARD-DOLBYVISION'' then HM_DOLBY_VISION
      else HM_AUTO)"

subsection \<open>The settings read at start-up\<close>

definition getPersistenceValue_vpa :: "vpa_env \<Rightarrow> vpa_state \<Rightarrow> vpa_state" where
  "getPersistenceValue_vpa e s =
     (let (name, s1) = hal_read ''HDMI0.resolution'' (if he_tv e then ''2160p'' else ''1080p'') s;
          (disabled, s2) = hal_read ''VideoDevice.force4KDisabled'' ''false'' s1
      in s2\<lparr>persistedResolution := name, force4KDisabled := (disabled = ''true'')\<rparr>)"

definition InitialiseHAL_vpa :: "vpa_env \<Rightarrow> vpa_state \<Rightarrow> vpa_state" where
  "InitialiseHAL_vpa e = InitialiseHAL_ao e (\<lambda>i. \<lparr>ad_id = i\<rparr>) (getPersistenceValue_vpa e)"

subsection \<open>The requests\<close>

text \<open>A query of an output: unavailable if it is not open, a general error if the HAL refuses.\<close>

definition vpa_query :: "vpa_env \<Rightarrow> int \<Rightarrow> vpa_event out_call \<Rightarrow> (vpa_hist \<Rightarrow> vp_val) \<Rightarrow> vpa_state \<Rightarrow> vpa_result" where
  "vpa_query e handle c answer s = (case FindDevice handle s of None \<Rightarrow> (ERROR_UNAVAILABLE, None, s)
     | Some device \<Rightarrow> if hal_ok e c s then (ERROR_NONE, Some (answer (hs_trace s)), hal_log c s)
         else (ERROR_GENERAL, None, hal_log c s))"

text \<open>An answer without a call, for an output that must be open.\<close>

definition vpa_open :: "int \<Rightarrow> coreErr \<Rightarrow> vp_val option \<Rightarrow> vpa_state \<Rightarrow> vpa_result" where
  "vpa_open handle r out s = (case FindDevice handle s of None \<Rightarrow> (ERROR_UNAVAILABLE, None, s) | Some device \<Rightarrow> (r, out, s))"

definition GetVideoPort_vpa :: "VideoPortType \<Rightarrow> int \<Rightarrow> vpa_state \<Rightarrow> vpa_result" where
  "GetVideoPort_vpa videoPort index s =
     (if \<not> ao_opened s \<or> index < 0 \<or> length (ao_devices s) \<le> nat index then (ERROR_UNAVAILABLE, None, s)
      else if videoPort \<noteq> VP_HDMI \<and> videoPort \<noteq> VP_INTERNAL then (ERROR_UNAVAILABLE, None, s)
      else (ERROR_NONE, Some (VInt (ad_id (ao_devices s ! nat index))), s))"

definition GetVideoPortResolution_vpa :: "vpa_env \<Rightarrow> int \<Rightarrow> vpa_state \<Rightarrow> vpa_result" where
  "GetVideoPortResolution_vpa e handle s = (case FindDevice handle s of None \<Rightarrow> (ERROR_UNAVAILABLE, None, s)
     | Some device \<Rightarrow>
       let unplugged = (hal_ok e (AoHotPlug handle) s \<and> \<not> va_connected e (hs_trace s));
           s1 = hal_log (AoHotPlug handle) s;
           persisted = (if unplugged
             then Option.bind (ResolutionNameToVic e (persistedResolution s1)) (VicToResolution e) else None)
       in case persisted of Some resolution \<Rightarrow> (ERROR_NONE, Some (VRes resolution), s1)
          | None \<Rightarrow>
            let s2 = hal_log (AoGetProperty handle PR_VIC) s1
            in if \<not> hal_ok e (AoGetProperty handle PR_VIC) s1 then (ERROR_GENERAL, None, s2)
               else let vic = ExtractIntProperty (ao_property e (hs_trace s1)) 0
                    in (ERROR_NONE, Some (VRes (case VicToResolution e vic of Some resolution \<Rightarrow> resolution
                          | None \<Rightarrow> the (VicToResolution e (ao_vic e VIC16_1920_1080_P_60_16_9)))), s2))"

definition SetVideoPortResolution_vpa :: "vpa_env \<Rightarrow> int \<Rightarrow> vp_res \<Rightarrow> bool \<Rightarrow> bool \<Rightarrow> vpa_state \<Rightarrow> vpa_result" where
  "SetVideoPortResolution_vpa e handle resolution persist forceCompatibility s =
     (case FindDevice handle s of None \<Rightarrow> (ERROR_UNAVAILABLE, None, s)
     | Some device \<Rightarrow> (case ResolutionNameToVic e (r_name resolution) of None \<Rightarrow> (ERROR_BAD_REQUEST, None, s)
       | Some vic \<Rightarrow>
         let s1 = hal_log (AoHotPlug handle) s
         in if hal_ok e (AoHotPlug handle) s \<and> \<not> va_connected e (hs_trace s) then (ERROR_GENERAL, None, s1)
            else if force4KDisabled s1 \<and> contains (r_name resolution) ''2160'' then (ERROR_GENERAL, None, s1)
            else let s2 = hal_log (AoSetProperty handle PR_VIC vic) s1
                 in if \<not> hal_ok e (AoSetProperty handle PR_VIC vic) s1 then (ERROR_GENERAL, None, s2)
                    else (ERROR_NONE, None, if persist
                      then (hal_put e ''HDMI0.resolution'' (r_name resolution) s2)\<lparr>persistedResolution := r_name resolution\<rparr>
                      else s2)))"

fun frame_rate_number :: "frame_rate \<Rightarrow> int" where
  "frame_rate_number FR_24 = 24"
| "frame_rate_number FR_25 = 25"
| "frame_rate_number FR_30 = 30"
| "frame_rate_number FR_50 = 50"
| "frame_rate_number _ = 60"

definition GetVideoPortFrameRate_vpa :: "vpa_env \<Rightarrow> int \<Rightarrow> vpa_state \<Rightarrow> vpa_result" where
  "GetVideoPortFrameRate_vpa e handle s = (case GetVideoPortResolution_vpa e handle s of
       (r, Some (VRes resolution), s1) \<Rightarrow> (if r = ERROR_NONE then (ERROR_NONE, Some (VInt (frame_rate_number (r_frame resolution))), s1)
         else (r, None, s1))
     | (r, _, s1) \<Rightarrow> (r, None, s1))"

definition GetHDCPProtocolVersion_vpa :: "vpa_env \<Rightarrow> int \<Rightarrow> vpa_state \<Rightarrow> vpa_result" where
  "GetHDCPProtocolVersion_vpa e handle =
     vpa_query e handle (AoCaps handle) (\<lambda>t. VVersion (if AHV_2_X \<in> set (cap_HDCPVersions (ao_caps e t)) then HV_2X else HV_1X))"

text \<open>The mask of the resolutions of a sink; a VIC without a row is left out.\<close>

definition resolution_mask :: "vpa_env \<Rightarrow> int list \<Rightarrow> 32 word" where
  "resolution_mask e vs = fold (\<lambda>v w. case VicToResolution e v of None \<Rightarrow> w
     | Some r \<Rightarrow> or w (push_bit (va_pixel e (r_pixel r)) 1)) vs 0"

definition GetTVSupportedResolutions_vpa :: "vpa_env \<Rightarrow> int \<Rightarrow> vpa_state \<Rightarrow> vpa_result" where
  "GetTVSupportedResolutions_vpa e handle =
     vpa_query e handle (AoCaps handle) (\<lambda>t. VInt (sint (resolution_mask e (cap_VICs (ao_caps e t)))))"

definition SetForceDisable4K_vpa :: "vpa_env \<Rightarrow> int \<Rightarrow> bool \<Rightarrow> vpa_state \<Rightarrow> vpa_result" where
  "SetForceDisable4K_vpa e handle disable s = (case FindDevice handle s of None \<Rightarrow> (ERROR_UNAVAILABLE, None, s)
     | Some device \<Rightarrow> (ERROR_NONE, None,
         hal_put e ''VideoDevice.force4KDisabled'' (if disable then ''true'' else ''false'') (s\<lparr>force4KDisabled := disable\<rparr>)))"

definition GetForceDisable4K_vpa :: "int \<Rightarrow> vpa_state \<Rightarrow> vpa_result" where
  "GetForceDisable4K_vpa handle s = (case FindDevice handle s of None \<Rightarrow> (ERROR_UNAVAILABLE, Some (VBool False), s)
     | Some device \<Rightarrow> (ERROR_NONE, Some (VBool (force4KDisabled s)), s))"

definition GetVideoEOTF_vpa :: "vpa_env \<Rightarrow> int \<Rightarrow> vpa_state \<Rightarrow> vpa_result" where
  "GetVideoEOTF_vpa e handle = vpa_query e handle (AoGetProperty handle PR_HDR_OUTPUT_MODE)
     (\<lambda>t. VInt (ConvertHdrOutputMode e (ExtractIntProperty (ao_property e t) (ao_mode e HM_AUTO))))"

definition IsVideoPortOutputHDR_vpa :: "vpa_env \<Rightarrow> int \<Rightarrow> vpa_state \<Rightarrow> vpa_result" where
  "IsVideoPortOutputHDR_vpa e handle s = (case GetVideoEOTF_vpa e handle s of
       (ERROR_NONE, Some (VInt h), s1) \<Rightarrow>
         (ERROR_NONE, Some (VBool (h \<noteq> va_enum e ''HDRSTANDARD-SDR'' \<and> h \<noteq> va_enum e ''HDRSTANDARD-NONE'')), s1)
     | (r, _, s1) \<Rightarrow> (r, None, s1))"

text \<open>All outputs are reset; one that refuses makes the result an error.\<close>

fun reset_outputs :: "vpa_env \<Rightarrow> ao_device list \<Rightarrow> coreErr \<Rightarrow> vpa_state \<Rightarrow> vpa_result" where
  "reset_outputs e [] result s = (result, None, s)"
| "reset_outputs e (d # ds) result s =
     (let c = AoSetProperty (ad_id d) PR_HDR_OUTPUT_MODE (ao_mode e HM_AUTO)
      in reset_outputs e ds (if hal_ok e c s then result else ERROR_GENERAL) (hal_log c s))"

definition ResetVideoPortOutputToSDR_vpa :: "vpa_env \<Rightarrow> vpa_state \<Rightarrow> vpa_result" where
  "ResetVideoPortOutputToSDR_vpa e s =
     (if \<not> ao_opened s then (ERROR_UNAVAILABLE, None, s) else reset_outputs e (ao_devices s) ERROR_NONE s)"

definition SetForceHDRMode_vpa :: "vpa_env \<Rightarrow> int \<Rightarrow> int \<Rightarrow> vpa_state \<Rightarrow> vpa_result" where
  "SetForceHDRMode_vpa e handle hdrMode s = (case FindDevice handle s of None \<Rightarrow> (ERROR_UNAVAILABLE, None, s)
     | Some device \<Rightarrow>
       let c = AoSetProperty handle PR_HDR_OUTPUT_MODE (ao_mode e (ConvertHdrStandard e hdrMode))
       in (if hal_ok e c s then ERROR_NONE else ERROR_GENERAL, None, hal_log c s))"

text \<open>The mask of the colour depths of a sink; the bit of \<open>AUTO\<close> is always set.\<close>

definition depth_bit :: "int \<Rightarrow> 32 word" where
  "depth_bit d = (if d = 8 then 0x01 else if d = 10 then 0x02 else if d = 12 then 0x04 else 0)"

definition depth_mask :: "int list \<Rightarrow> 32 word" where
  "depth_mask ds = fold (\<lambda>d w. or w (depth_bit d)) ds 0x08"

definition GetColorDepthCapabilities_vpa :: "vpa_env \<Rightarrow> int \<Rightarrow> vpa_state \<Rightarrow> vpa_result" where
  "GetColorDepthCapabilities_vpa e handle =
     vpa_query e handle (AoCaps handle) (\<lambda>t. VWord (depth_mask (cap_ColorDepths (ao_caps e t))))"

definition GetCurrentOutputSettings_vpa :: "vpa_env \<Rightarrow> int \<Rightarrow> vpa_state \<Rightarrow> vpa_result" where
  "GetCurrentOutputSettings_vpa e handle s = (case FindDevice handle s of None \<Rightarrow> (ERROR_UNAVAILABLE, None, s)
     | Some device \<Rightarrow>
       let (_, eotf, s1) = GetVideoEOTF_vpa e handle s;
           hdrStandard = (case eotf of Some (VInt h) \<Rightarrow> h | _ \<Rightarrow> va_enum e ''HDRSTANDARD-SDR'');
           (_, depths, s2) = GetColorDepthCapabilities_vpa e handle s1;
           caps = (case depths of Some (VWord w) \<Rightarrow> w | _ \<Rightarrow> 0)
       in (ERROR_NONE, Some (VSettings hdrStandard (va_enum e ''MATRIXCOEFFICIENT-UNKNOWN'')
             (if and caps 0x01 \<noteq> 0 then 8 else if and caps 0x02 \<noteq> 0 then 10 else 0)
             (va_enum e ''COLORSPACE-UNKNOWN'') (va_enum e ''QUANTIZATIONRANGE-UNKNOWN'')), s2))"

definition GetPreferredColorDepth_vpa :: "vpa_env \<Rightarrow> bool \<Rightarrow> vpa_state \<Rightarrow> vpa_result" where
  "GetPreferredColorDepth_vpa e persist s =
     (if \<not> persist then (ERROR_UNAVAILABLE, Some (VWord (of_int (va_enum e ''COLORDEPTH-UNKNOWN''))), s)
      else let auto = va_enum e ''COLORDEPTH-AUTO'';
               (stored, s1) = hal_read ''HDMI0.colorDepth'' (to_string auto) s
           in (ERROR_NONE, Some (VWord (of_int (case stoi stored of Some i \<Rightarrow> i | None \<Rightarrow> auto))), s1))"

definition SetPreferredColorDepth_vpa :: "vpa_env \<Rightarrow> 32 word \<Rightarrow> bool \<Rightarrow> vpa_state \<Rightarrow> vpa_result" where
  "SetPreferredColorDepth_vpa e colorDepth persist s =
     (if \<not> persist then (ERROR_UNAVAILABLE, None, s)
      else (ERROR_NONE, None, hal_put e ''HDMI0.colorDepth'' (to_string (sint colorDepth)) s))"


text \<open>All requests of the platform, by the constructors of \<open>Video_Port\<close>.\<close>

fun vpa_platform :: "vpa_env \<Rightarrow> vp_request \<Rightarrow> vpa_state \<Rightarrow> vpa_result" where
  "vpa_platform e (V_GetVideoPort t n) s = GetVideoPort_vpa t n s"
| "vpa_platform e (V_IsVideoPortEnabled h) s = vpa_query e h (AoState h) (\<lambda>t. VBool (\<not> va_closed e t)) s"
| "vpa_platform e (V_EnableVideoPort h b) s = vpa_open h (if b then ERROR_NONE else ERROR_UNAVAILABLE) None s"
| "vpa_platform e (V_IsVideoPortDisplayConnected h) s = vpa_query e h (AoHotPlug h) (\<lambda>t. VBool (va_connected e t)) s"
| "vpa_platform e (V_IsVideoPortActive h) s = vpa_query e h (AoHotPlug h) (\<lambda>t. VBool (va_connected e t)) s"
| "vpa_platform e (V_GetVideoPortResolution h) s = GetVideoPortResolution_vpa e h s"
| "vpa_platform e (V_SetVideoPortResolution h r p f) s = SetVideoPortResolution_vpa e h r p f s"
| "vpa_platform e (V_GetIgnoreEDIDStatus h) s = vpa_open h ERROR_NONE (Some (VBool False)) s"
| "vpa_platform e (V_GetColorDepth h) s = (ERROR_UNAVAILABLE, Some (VWord 0), s)"
| "vpa_platform e (V_SetVideoPortColorDepth h w) s = (ERROR_UNAVAILABLE, None, s)"
| "vpa_platform e (V_GetQuantizationRange h) s = (ERROR_UNAVAILABLE, Some (VInt (va_enum e ''QUANTIZATIONRANGE-UNKNOWN'')), s)"
| "vpa_platform e (V_SetVideoPortQuantizationRange h q) s = (ERROR_NONE, None, s)"
| "vpa_platform e (V_GetColorSpace h) s = (ERROR_UNAVAILABLE, Some (VInt (va_enum e ''COLORSPACE-UNKNOWN'')), s)"
| "vpa_platform e (V_SetColorSpace h n) s = (ERROR_NONE, None, s)"
| "vpa_platform e (V_GetVideoPortFrameRate h) s = GetVideoPortFrameRate_vpa e h s"
| "vpa_platform e (V_SetVideoPortFrameRate h n) s = (ERROR_UNAVAILABLE, None, s)"
| "vpa_platform e (V_GetVideoPortHDCPStatus h) s = vpa_query e h (AoHdcpStatus h) (\<lambda>t. VHdcp (ConvertHdcpStatus (va_hdcp e t))) s"
| "vpa_platform e (V_GetHDCPProtocolVersion h) s = GetHDCPProtocolVersion_vpa e h s"
| "vpa_platform e (V_GetHDCPReceiverProtocolVersion h) s =
     vpa_query e h (AoHdcpReceiver h) (\<lambda>t. VVersion (ConvertHdcpVersion (va_version e t))) s"
| "vpa_platform e (V_GetHDCPCurrentProtocolVersion h) s =
     vpa_query e h (AoHdcpCurrent h) (\<lambda>t. VVersion (ConvertHdcpVersion (va_version e t))) s"
| "vpa_platform e (V_EnableHDCP h b k) s = (ERROR_UNAVAILABLE, None, s)"
| "vpa_platform e (V_IsHDCPEnabled h) s = vpa_query e h (AoHdcpStatus h) (\<lambda>t. VBool (va_hdcp e t \<noteq> AH_UNKNOWN)) s"
| "vpa_platform e (V_GetTVHDRCapabilities h) s =
     vpa_query e h (AoCaps h) (\<lambda>t. VInt (sint (hdr_mask (cap_HDROutputModes (ao_caps e t))))) s"
| "vpa_platform e (V_GetTVSupportedResolutions h) s = GetTVSupportedResolutions_vpa e h s"
| "vpa_platform e (V_SetForceDisable4K h b) s = SetForceDisable4K_vpa e h b s"
| "vpa_platform e (V_GetForceDisable4K h) s = GetForceDisable4K_vpa h s"
| "vpa_platform e (V_IsVideoPortOutputHDR h) s = IsVideoPortOutputHDR_vpa e h s"
| "vpa_platform e V_ResetVideoPortOutputToSDR s = ResetVideoPortOutputToSDR_vpa e s"
| "vpa_platform e (V_GetHDMIPreference h) s = (ERROR_UNAVAILABLE, Some (VVersion HV_1X), s)"
| "vpa_platform e (V_SetHDMIPreference h v) s = (ERROR_UNAVAILABLE, None, s)"
| "vpa_platform e (V_GetVideoEOTF h) s = GetVideoEOTF_vpa e h s"
| "vpa_platform e (V_GetMatrixCoefficients h) s = (ERROR_UNAVAILABLE, Some (VInt (va_enum e ''MATRIXCOEFFICIENT-UNKNOWN'')), s)"
| "vpa_platform e (V_IsVideoPortDisplaySurround h) s = (ERROR_UNAVAILABLE, Some (VBool False), s)"
| "vpa_platform e (V_GetVideoPortDisplaySurroundMode h) s = (ERROR_UNAVAILABLE, Some (VInt (va_enum e ''SURROUNDMODE-NONE'')), s)"
| "vpa_platform e (V_GetCurrentOutputSettings h) s = GetCurrentOutputSettings_vpa e h s"
| "vpa_platform e (V_SetBackgroundColor h n) s = (ERROR_NONE, None, s)"
| "vpa_platform e (V_SetForceHDRMode h n) s = SetForceHDRMode_vpa e h n s"
| "vpa_platform e (V_GetColorDepthCapabilities h) s = GetColorDepthCapabilities_vpa e h s"
| "vpa_platform e (V_GetPreferredColorDepth h p) s = GetPreferredColorDepth_vpa e p s"
| "vpa_platform e (V_SetPreferredColorDepth h w p) s = SetPreferredColorDepth_vpa e w p s"

subsection \<open>Events of the HAL\<close>

text \<open>The size the clients are told; the callbacks, once set, have every slot.\<close>

fun change_size :: "pixel_res \<Rightarrow> int \<times> int" where
  "change_size PX_720x480 = (720, 480)"
| "change_size PX_720x576 = (720, 576)"
| "change_size PX_1280x720 = (1280, 720)"
| "change_size PX_1920x1080 = (1920, 1080)"
| "change_size PX_3840x2160 = (3840, 2160)"
| "change_size _ = (1920, 1080)"

definition OnFrameRateChanged_vpa :: "vpa_env \<Rightarrow> int \<Rightarrow> vpa_state \<Rightarrow> vpa_state" where
  "OnFrameRateChanged_vpa e handle s = (case GetVideoPortResolution_vpa e handle s of
       (ERROR_NONE, Some (VRes resolution), s1) \<Rightarrow>
         (if ao_callbacks s1 then hal_log (AoEvent (case change_size (r_pixel resolution) of (w, h) \<Rightarrow> VaPostChange w h)) s1 else s1)
     | (_, _, s1) \<Rightarrow> s1)"

definition OnHDCPStatusChanged_vpa :: "ao_hdcp_status \<Rightarrow> vpa_state \<Rightarrow> vpa_state" where
  "OnHDCPStatusChanged_vpa status s =
     (if ao_callbacks s then hal_log (AoEvent (VaHdcpStatus (ConvertHdcpStatus status))) s else s)"

text \<open>
  What happens to an object: requests, the callbacks being set, and the events of the HAL (a hot plug
  and a change of state are only written to the log).
\<close>

datatype vpa_step = VaRequest vp_request | VaCallbacks | VaFrameRateChanged int | VaHdcpStatusChanged int ao_hdcp_status

fun vpa_do :: "vpa_env \<Rightarrow> vpa_step \<Rightarrow> vpa_state \<Rightarrow> vpa_state" where
  "vpa_do e (VaRequest q) s = snd (snd (vpa_platform e q s))"
| "vpa_do e VaCallbacks s = s\<lparr>ao_callbacks := True\<rparr>"
| "vpa_do e (VaFrameRateChanged h) s = OnFrameRateChanged_vpa e h s"
| "vpa_do e (VaHdcpStatusChanged h st) s = OnHDCPStatusChanged_vpa st s"

fun vpa_run :: "vpa_env \<Rightarrow> vpa_step ao_op list \<Rightarrow> vpa_state \<Rightarrow> vpa_state" where
  "vpa_run e [] s = s"
| "vpa_run e (AoInit # cs) s = vpa_run e cs (InitialiseHAL_vpa e s)"
| "vpa_run e (AoDeinit # cs) s = vpa_run e cs (DeInitialiseHAL_ao s)"
| "vpa_run e (AoRequest q # cs) s = vpa_run e cs (vpa_do e q s)"

subsection \<open>Requests work on open outputs\<close>

lemma vpa_fields [simp]:
  "open_ids (s\<lparr>persistedResolution := n\<rparr>) = open_ids s" "open_ids (s\<lparr>force4KDisabled := b\<rparr>) = open_ids s"
  by (simp_all add: open_ids_def)

lemma works_query: "vpa_query e h c f s = (r, out, t) \<Longrightarrow> asked_of c = Some h \<Longrightarrow> works s t"
  by (auto simp: vpa_query_def split: option.splits if_splits intro!: works_call dest: found_open)

lemma works_resolution: "works s (snd (snd (GetVideoPortResolution_vpa e h s)))"
  by (auto simp: GetVideoPortResolution_vpa_def Let_def split: option.split intro!: works_call works_log2 dest: found_open)

lemma works_set_resolution: "works s (snd (snd (SetVideoPortResolution_vpa e h r p f s)))"
proof (cases "FindDevice h s")
  case (Some d)
  then have h: "h \<in> set (open_ids s)" by (rule found_open)
  have 1: "works s (hal_log (AoHotPlug h) s)" by (rule works_call [OF _ h]) simp
  have 2: "works s (hal_log (AoSetProperty h PR_VIC v) (hal_log (AoHotPlug h) s))" for v
    by (rule works_log2 [OF _ _ h]) simp_all
  have 3: "works s ((hal_put e k w t)\<lparr>persistedResolution := n\<rparr>)" if "works s t" for k w n and t :: vpa_state
    using that by (auto simp: works_def)
  show ?thesis using Some 1 2 3 by (auto simp: SetVideoPortResolution_vpa_def Let_def split: option.split)
qed (simp add: SetVideoPortResolution_vpa_def)

lemma works_reset:
  "set (map ad_id ds) \<subseteq> set (open_ids s) \<Longrightarrow> works s (snd (snd (reset_outputs e ds r s)))"
proof (induction ds arbitrary: r s)
  case (Cons d ds)
  let ?s = "hal_log (AoSetProperty (ad_id d) PR_HDR_OUTPUT_MODE (ao_mode e HM_AUTO)) s"
  have "works s ?s" by (rule works_call [of _ "ad_id d"]) (use Cons.prems in simp_all)
  then show ?case using Cons.IH [of ?s] Cons.prems by (auto simp: Let_def intro: works_trans)
qed simp

lemma works_settings: "works s (snd (snd (GetCurrentOutputSettings_vpa e h s)))"
proof (cases "FindDevice h s")
  case (Some d)
  obtain r1 o1 s1 where 1: "GetVideoEOTF_vpa e h s = (r1, o1, s1)" by (cases "GetVideoEOTF_vpa e h s")
  obtain r2 o2 s2 where 2: "GetColorDepthCapabilities_vpa e h s1 = (r2, o2, s2)"
    by (cases "GetColorDepthCapabilities_vpa e h s1")
  have "works s s1" "works s1 s2"
    using 1 2 by (auto simp: GetVideoEOTF_vpa_def GetColorDepthCapabilities_vpa_def dest: works_query)
  then show ?thesis using Some 1 2 by (auto simp: GetCurrentOutputSettings_vpa_def Let_def intro: works_trans)
qed (simp add: GetCurrentOutputSettings_vpa_def)

lemma works_asked: "asked_of c = Some h \<Longrightarrow> works s (snd (snd (vpa_query e h c f s)))"
  by (cases "vpa_query e h c f s") (auto dest: works_query)

lemma vpa_request_works: "works s (snd (snd (vpa_platform e q s)))"
proof (cases q)
  case (V_SetForceDisable4K h b)
  have "works s (hal_put e k v (s\<lparr>force4KDisabled := c\<rparr>))" for k v c by (rule works_same) simp_all
  then show ?thesis using V_SetForceDisable4K by (simp add: SetForceDisable4K_vpa_def split: option.split)
next
  case (V_GetVideoPortFrameRate h)
  obtain r out t where x: "GetVideoPortResolution_vpa e h s = (r, out, t)" by (cases "GetVideoPortResolution_vpa e h s")
  with works_resolution [of s e h] have "works s t" by simp
  then show ?thesis using V_GetVideoPortFrameRate x
    by (auto simp: GetVideoPortFrameRate_vpa_def split: option.split vp_val.split)
next
  case (V_IsVideoPortOutputHDR h)
  obtain r out t where x: "GetVideoEOTF_vpa e h s = (r, out, t)" by (cases "GetVideoEOTF_vpa e h s")
  then have "works s t" by (auto simp: GetVideoEOTF_vpa_def dest: works_query)
  then show ?thesis using V_IsVideoPortOutputHDR x
    by (auto simp: IsVideoPortOutputHDR_vpa_def split: coreErr.split option.split vp_val.split)
next
  case V_ResetVideoPortOutputToSDR
  then show ?thesis
    using works_reset [of "ao_devices s" s e ERROR_NONE] by (simp add: ResetVideoPortOutputToSDR_vpa_def open_ids_def)
next
  case (V_SetForceHDRMode h n)
  then show ?thesis
    by (auto simp: SetForceHDRMode_vpa_def Let_def split: option.split intro!: works_call dest: found_open)
next
  case (V_GetPreferredColorDepth h p)
  then show ?thesis
    using works_read [of s] by (auto simp: GetPreferredColorDepth_vpa_def Let_def case_prod_unfold)
qed (simp_all add: GetVideoPort_vpa_def vpa_open_def works_asked works_resolution works_set_resolution works_settings works_put
    GetHDCPProtocolVersion_vpa_def GetTVSupportedResolutions_vpa_def GetForceDisable4K_vpa_def GetVideoEOTF_vpa_def
    GetColorDepthCapabilities_vpa_def SetPreferredColorDepth_vpa_def split: option.split)

lemma vpa_do_works: "works s (vpa_do e q s)"
proof (cases q)
  case (VaFrameRateChanged h)
  obtain r out t where x: "GetVideoPortResolution_vpa e h s = (r, out, t)" by (cases "GetVideoPortResolution_vpa e h s")
  with works_resolution [of s e h] have "works s t" by simp
  then show ?thesis using VaFrameRateChanged x
    by (auto simp: OnFrameRateChanged_vpa_def split: coreErr.split option.split vp_val.split
        intro: works_trans [OF _ works_event])
next
  case VaCallbacks
  have "works s (s\<lparr>ao_callbacks := True\<rparr>)" by (rule works_same) simp_all
  with VaCallbacks show ?thesis by simp
qed (simp_all add: vpa_request_works OnHDCPStatusChanged_vpa_def works_event)

lemma load_vpa_same:
  "hs_trace (getPersistenceValue_vpa e s) = hs_trace s" "open_ids (getPersistenceValue_vpa e s) = open_ids s"
  "ao_opened (getPersistenceValue_vpa e s) = ao_opened s"
  by (simp_all add: getPersistenceValue_vpa_def Let_def case_prod_unfold)

interpretation vpa_outputs:
  output_platform e "\<lambda>i. \<lparr>ad_id = i\<rparr>" "getPersistenceValue_vpa e" "vpa_do e" "vpa_run e" for e
proof
  show "vpa_run e (c # cs) s = vpa_run e cs (case c of AoInit \<Rightarrow> InitialiseHAL_ao e (\<lambda>i. \<lparr>ad_id = i\<rparr>) (getPersistenceValue_vpa e) s
      | AoDeinit \<Rightarrow> DeInitialiseHAL_ao s | AoRequest q \<Rightarrow> vpa_do e q s)" for c cs s
    by (cases c) (simp_all add: InitialiseHAL_vpa_def)
qed (simp_all add: load_vpa_same vpa_do_works)


subsection \<open>Properties\<close>

lemma static_ok: "outputs_ok e (vpa_static st)"
  by (simp add: outputs_ok_def vpa_static_def open_ids_def balanced_def)

text \<open>
  C20. The outputs are used in balance. After any history of start, requests, events of the HAL and
  shutdown, whatever the HAL answers: every call that needs an open output was made while it was open,
  the outputs in the list are those that hold a listener and a controller, and after a shutdown every
  listener is taken back and every controller stopped and closed, as often as it was given.
\<close>

theorem aidl_outputs_balanced:
  "outputs_ok e (vpa_run e cs (vpa_static st))
   \<and> balanced e (\<lambda>_. 0) (\<lambda>_. 0) (hs_trace (vpa_run e (cs @ [AoDeinit]) (vpa_static st)))"
  using vpa_outputs.run_ok [OF static_ok] vpa_outputs.run_ended [OF static_ok] by blast

text \<open>
  The table of video modes describes its names as the legacy platform does, with three
  exceptions: for \<open>480p\<close> and \<open>576p50\<close> the table says 16:9 where the legacy platform builds 4:3, and for
  \<open>1080i50\<close> it says 50 Hz where the legacy platform builds 60 Hz.
\<close>

theorem aidl_table_against_legacy:
  "filter (\<lambda>(w, r). buildResolutionFromName (r_name r) \<noteq> r) kVicTable =
     [vic_row VIC3_720_480_P_60_16_9 ''480p'' PX_720x480 FR_60 False,
      vic_row VIC18_720_576_P_50_16_9 ''576p50'' PX_720x576 FR_50 False,
      vic_row VIC20_1920_1080_I_50_16_9 ''1080i50'' PX_1920x1080 FR_50 True]
   \<and> map (\<lambda>n. (r_aspect (buildResolutionFromName n), r_frame (buildResolutionFromName n))) [''480p'', ''576p50'', ''1080i50'']
     = [(ASPECT_4x3, FR_60), (ASPECT_4x3, FR_50), (ASPECT_16x9, FR_60)]"
  by code_simp

text \<open>A name that is accepted is in the table, and finds its row again by its number.\<close>

lemma name_round_trip:
  assumes "inj (ao_vic e)" and "ResolutionNameToVic e n = Some v"
  shows "\<exists>w r. (w, r) \<in> set kVicTable \<and> r_name r = n \<and> v = ao_vic e w \<and> VicToResolution e v = Some r"
proof -
  obtain w r where wr: "find (\<lambda>row. r_name (snd row) = n) kVicTable = Some (w, r)" "v = ao_vic e w"
    using assms(2) by (auto simp: ResolutionNameToVic_def)
  then have m: "(w, r) \<in> set kVicTable" "r_name r = n" using find_SomeD [OF wr(1)] by simp_all
  have d: "distinct (map fst kVicTable)" by (simp add: kVicTable_def vic_row_def)
  obtain row where row: "find (\<lambda>row. ao_vic e (fst row) = v) kVicTable = Some row"
    using m(1) wr(2) by (cases "find (\<lambda>row. ao_vic e (fst row) = v) kVicTable") (auto simp: find_None_iff)
  then have "row \<in> set kVicTable" "ao_vic e (fst row) = v" by (auto simp: find_Some_iff)
  then have "row = (w, r)" using m(1) wr(2) assms(1) d by (metis eq_key_imp_eq_value fst_conv injD prod.collapse)
  then show ?thesis using m wr(2) row by (auto simp: VicToResolution_def)
qed

lemma table_names: "(w, r) \<in> set kVicTable \<Longrightarrow> word_ok (r_name r)"
  by (auto simp: kVicTable_def vic_row_def word_ok_def isspace_def)

lemma init_reads:
  assumes "ao_opened (InitialiseHAL_vpa e s)" and "\<not> ao_opened s"
  shows "persistedResolution (InitialiseHAL_vpa e s) =
     (case hp_get (hs_store s) ''HDMI0.resolution'' of Some n \<Rightarrow> n | None \<Rightarrow> if he_tv e then ''2160p'' else ''1080p'')"
proof -
  have load: "persistedResolution (getPersistenceValue_vpa e t) =
      (case hp_get (hs_store t) ''HDMI0.resolution'' of Some n \<Rightarrow> n | None \<Rightarrow> if he_tv e then ''2160p'' else ''1080p'')" for t
    by (simp add: getPersistenceValue_vpa_def hal_read_eq Let_def split: option.split)
  show ?thesis
    using assms load by (auto simp: InitialiseHAL_vpa_def InitialiseHAL_ao_def Let_def split: if_splits)
qed

text \<open>
  C21. A resolution survives a restart. If a request with persist succeeds, then after a restart of the
  plugin on a disk that takes every write, an output without a display is reported with the row of
  the table for the name that was set. The numbers of the video modes are assumed to be different.
\<close>

theorem aidl_resolution_survives_restart:
  assumes "vpa_platform e (V_SetVideoPortResolution h r True force) s = (ERROR_NONE, out, s')"
    and "hp_durable (hs_store s)" and "he_io e = io_full" and "inj (ao_vic e')"
    and "t = InitialiseHAL_vpa e' (vpa_static (hp_restart (hs_store s')))"
    and "FindDevice h' t \<noteq> None" and "hal_ok e' (AoHotPlug h') t" and "\<not> va_connected e' (hs_trace t)"
  shows "\<exists>w row. (w, row) \<in> set kVicTable \<and> r_name row = r_name r
     \<and> vpa_platform e' (V_GetVideoPortResolution h') t = (ERROR_NONE, Some (VRes row), hal_log (AoHotPlug h') t)"
proof -
  let ?n = "r_name r"
  obtain v where v: "ResolutionNameToVic e ?n = Some v"
    and st: "hs_store s' = hp_put io_full ''HDMI0.resolution'' ?n (hs_store s)"
    using assms(1,3) by (auto simp: SetVideoPortResolution_vpa_def Let_def split: option.splits if_splits)
  then have some: "ResolutionNameToVic e' ?n \<noteq> None" by (auto simp: ResolutionNameToVic_def)
  then obtain v' where v': "ResolutionNameToVic e' ?n = Some v'" by auto
  from name_round_trip [OF assms(4) v'] obtain w row where
    row: "(w, row) \<in> set kVicTable" "r_name row = ?n" "VicToResolution e' v' = Some row" by auto
  then have ok: "word_ok ?n" "word_ok ''HDMI0.resolution''"
    using table_names [OF row(1)] by (simp_all add: word_ok_def isspace_def)
  from hpd.get_put_reload [OF assms(2) ok(2,1)]
  have "hp_get (hp_restart (hs_store s')) ''HDMI0.resolution'' = Some ?n" by (simp add: st)
  moreover have "ao_opened t" using assms(6) by (auto simp: FindDevice_def split: if_splits)
  ultimately have "persistedResolution t = ?n"
    using init_reads [of e' "vpa_static (hp_restart (hs_store s'))"] assms(5) by (simp add: vpa_static_def)
  then have "vpa_platform e' (V_GetVideoPortResolution h') t = (ERROR_NONE, Some (VRes row), hal_log (AoHotPlug h') t)"
    using assms(6-8) v' row(3) by (auto simp: GetVideoPortResolution_vpa_def hal_log_def)
  with row(1,2) show ?thesis by blast
qed


text \<open>A board with one output, with and without a display, and the numbers of the CTA table.\<close>

fun vic_number :: "vic \<Rightarrow> int" where
  "vic_number VIC3_720_480_P_60_16_9 = 3"
| "vic_number VIC18_720_576_P_50_16_9 = 18"
| "vic_number VIC4_1280_720_P_60_16_9 = 4"
| "vic_number VIC19_1280_720_P_50_16_9 = 19"
| "vic_number VIC5_1920_1080_I_60_16_9 = 5"
| "vic_number VIC20_1920_1080_I_50_16_9 = 20"
| "vic_number VIC16_1920_1080_P_60_16_9 = 16"
| "vic_number VIC32_1920_1080_P_24_16_9 = 32"
| "vic_number VIC33_1920_1080_P_25_16_9 = 33"
| "vic_number VIC34_1920_1080_P_30_16_9 = 34"
| "vic_number VIC31_1920_1080_P_50_16_9 = 31"
| "vic_number VIC93_3840_2160_P_24_16_9 = 93"
| "vic_number VIC94_3840_2160_P_25_16_9 = 94"
| "vic_number VIC95_3840_2160_P_30_16_9 = 95"
| "vic_number VIC96_3840_2160_P_50_16_9 = 96"
| "vic_number VIC97_3840_2160_P_60_16_9 = 97"

lemma inj_vic_number: "inj vic_number"
proof (rule injI)
  fix x y
  assume "vic_number x = vic_number y"
  then show "x = y" by (cases x; cases y) simp_all
qed

definition vpa_board :: "bool \<Rightarrow> vpa_env" where
  "vpa_board display = \<lparr>he_ret = (\<lambda>_ _. DsERR_NONE), he_int = (\<lambda>_ _. 0), he_symbol = (\<lambda>_. True), he_io = io_full,
     he_tv = False, ao_object = (\<lambda>_. True), ao_ids = (\<lambda>_. [7]), ao_property = (\<lambda>_. Some 16),
     ao_caps = (\<lambda>_. \<lparr>cap_VICs = [16, 97], cap_HDROutputModes = [HM_HDR10], cap_HDCPVersions = [AHV_2_X], cap_ColorDepths = [8]\<rparr>),
     ao_vic = vic_number, ao_mode = (\<lambda>m. case m of HM_AUTO \<Rightarrow> 0 | HM_HLG \<Rightarrow> 1 | HM_HDR10 \<Rightarrow> 2 | HM_HDR10_PLUS \<Rightarrow> 3
       | HM_DOLBY_VISION \<Rightarrow> 4 | HM_other i \<Rightarrow> i), va_connected = (\<lambda>_. display), va_closed = (\<lambda>_. False),
     va_hdcp = (\<lambda>_. AH_AUTHENTICATED), va_version = (\<lambda>_. AHV_2_X), va_enum = (\<lambda>_. 0), va_pixel = pixel_rank\<rparr>"

lemma board_simps [simp]:
  "hal_ok (vpa_board b) c s" "ao_object (vpa_board b) h" "ao_ids (vpa_board b) h = [7]" "he_io (vpa_board b) = io_full"
  "ao_vic (vpa_board b) = vic_number" "va_connected (vpa_board b) h = b"
  by (simp_all add: vpa_board_def hal_ok_def)

lemma board_starts:
  "FindDevice 7 (InitialiseHAL_vpa (vpa_board b) (vpa_static st)) \<noteq> None"
  by (simp add: InitialiseHAL_vpa_def InitialiseHAL_ao_def OpenDevice_def vpa_static_def FindDevice_def
      getPersistenceValue_vpa_def Let_def case_prod_unfold)

theorem aidl_resolution_survives_restart_witness:
  "\<exists>row store t. r_name row = ''2160p''
     \<and> t = InitialiseHAL_vpa (vpa_board False) (vpa_static (hp_restart store))
     \<and> vpa_platform (vpa_board False) (V_GetVideoPortResolution 7) t = (ERROR_NONE, Some (VRes row), hal_log (AoHotPlug 7) t)"
proof -
  let ?s = "InitialiseHAL_vpa (vpa_board True) (vpa_static (hp_new ''f'' (\<lambda>_. None)))"
  let ?r = "\<lparr>r_name = ''2160p'', r_pixel = PX_MAX, r_aspect = ASPECT_4x3, r_stereo = SSMODE_2D, r_frame = FR_24, r_interlaced = False\<rparr>"
  have d: "hp_durable (hp_new ''f'' (\<lambda>_. None))" by (rule hp_durable_new) (simp add: no_nul_file_def)
  have none: "hp_get (hp_new ''f'' (\<lambda>_. None)) k = None" for k
    by (simp add: hp_get_def hp_new_def ensureInitialized_def hp_load_def loadFromFile_def)
  have read: "hs_store ?s = ensureInitialized (hp_new ''f'' (\<lambda>_. None))" and off: "\<not> force4KDisabled ?s"
    by (simp_all add: InitialiseHAL_vpa_def InitialiseHAL_ao_def OpenDevice_def vpa_static_def getPersistenceValue_vpa_def
        hal_read_eq none Let_def)
  then have dur: "hp_durable (hs_store ?s)" using hp_durable_init [OF d] by simp
  have "ResolutionNameToVic (vpa_board True) ''2160p'' = Some 97"
    by (simp add: ResolutionNameToVic_def kVicTable_def vic_row_def)
  moreover obtain d where "FindDevice 7 ?s = Some d" using board_starts [of True "hp_new ''f'' (\<lambda>_. None)"] by auto
  moreover have "\<not> force4KDisabled (hal_log c ?s)" for c using off by (simp add: hal_log_def)
  ultimately obtain s' where s': "vpa_platform (vpa_board True) (V_SetVideoPortResolution 7 ?r True False) ?s = (ERROR_NONE, None, s')"
    by (simp add: SetVideoPortResolution_vpa_def Let_def)
  define t where "t = InitialiseHAL_vpa (vpa_board False) (vpa_static (hp_restart (hs_store s')))"
  have "FindDevice 7 t \<noteq> None" by (simp add: t_def board_starts del: not_None_eq)
  with aidl_resolution_survives_restart [OF s' dur _ _ t_def, of 7] inj_vic_number obtain row where
    "r_name row = ''2160p''"
    "vpa_platform (vpa_board False) (V_GetVideoPortResolution 7) t = (ERROR_NONE, Some (VRes row), hal_log (AoHotPlug 7) t)"
    by (auto simp del: not_None_eq)
  then show ?thesis by (intro exI [of _ row] exI [of _ "hs_store s'"] exI [of _ t] conjI t_def)
qed

end
