(* ===== verification/Spec2Isabelle.thy ===== *)
theory Spec2Isabelle
  imports Host_Persistence Notification_Registry Plugin_Shell Device_Settings Front_Panel DS_Controller
    Pwr_Listener Video_Port Video_Port_Aidl Audio_Requests Video_Device Hdmi_In Display
begin

text \<open>
  A verification library for the Thunder plugin DeviceSettings (\<open>src/plugin\<close>), which gives
  RDK applications access to the device-settings (ds) HAL of a set-top box or TV: video and
  audio ports, the front panel, power-dependent behaviour, and the settings that survive a
  reboot.

  Layers. For each function group the code has a COM layer
  (\<open>DeviceSettings<Group>Implementation.cpp\<close>), a forwarding class (\<open><Group>.cpp\<close>) and a platform
  layer (\<open>hal/d<Group>Impl.h\<close>) that calls the HAL. Beside them two active parts react to events:
  \<open>DSController\<close> (HDMI hot plug, HDCP, tune ready) and \<open>DSPwrEventListener\<close> (power states). All
  of them keep their settings in one property store, \<open>device::HostPersistence\<close>.

  Theories and the code they model (paths below \<open>src/plugin\<close>):

  \<^item> \<open>DS_Prelude\<close>: outcomes of C++ calls (value, exception, undefined behaviour), the error codes
    by name, C strings, \<open>fscanf\<close>, \<open>getline\<close>, \<open>atoi\<close>, \<open>stoi\<close>, \<open>std::map\<close> as a sorted list.
  \<^item> \<open>DS_Interfaces\<close>: the contracts as locales. \<open>kv_store\<close> (reading after an update) and
    \<open>durable_kv_store\<close> (also after a restart) are provided by the property store; \<open>kv_store\<close> also by
    the HDMI status file; \<open>subscription\<close> by the notification registry; \<open>step_invariant\<close> by the
    step relations of the power listener; \<open>guarded_run\<close> (runs that end early when a step is
    undefined, with what the steps keep) by the histories of the plugin object, of the video ports
    and of the video device. A locale for one platform stands in its own theory: \<open>output_platform\<close>
    (requests work on open outputs only) in \<open>Hdmi_Output\<close>.
  \<^item> \<open>Host_Persistence\<close>: \<open>DeviceSettingsTypes.h\<close>, class \<open>HostPersistence\<close>. State: two maps, two file
    names, the disk. Operations: \<open>load\<close>, \<open>getProperty\<close>, \<open>persistHostProperty\<close>, \<open>writeToFile\<close>.
  \<^item> \<open>Notification_Registry\<close>: \<open>Register\<close>, \<open>Unregister\<close> and the dispatch of events to the registered
    clients, with their reference counts.
  \<^item> \<open>Front_Panel\<close>: \<open>hal/dFPDImpl.h\<close>, \<open>fpd.cpp\<close>, \<open>DeviceSettingsFPDImplementation.cpp\<close>.
  \<^item> \<open>Resolution_Choice\<close> and \<open>DS_Controller\<close>: \<open>DSController.cpp\<close>, first the pure search for a
    resolution, then the handlers and the hot-plug thread as a step relation. The calls that test
    or set the EAS mode, which has no lock, are jobs of several steps (\<open>audio_next\<close>).
  \<^item> \<open>Av_Ports\<close>, \<open>Product_Traits\<close>, \<open>Pwr_Listener\<close>: \<open>DSPwrEventListener.cpp\<close> (port part; life cycle and
    threads) and \<open>DSProductTraitsHandler.cpp\<close>, whose detached threads are pending tasks; a late
    check of the reboot reason is one step up to the release of the mutex and another for the ports.
  \<^item> \<open>Hdmi_Status\<close>: \<open>DeviceSettingsHdmiStatus.cpp\<close>, the status file other processes read.
  \<^item> \<open>HAL_Config\<close>: \<open>DeviceSettingsHALConfig.cpp\<close>, the tables taken from the HAL library.
  \<^item> \<open>Video_Port\<close>: \<open>hal/dVideoPortImpl.h\<close> and \<open>VideoPort.cpp\<close>. The file-scope variables, the store
    and the status file are the record \<open>vp_state\<close>; the forty requests are \<open>platform\<close>; the HAL
    callbacks and the initialisation are functions of the state.
  \<^item> \<open>Hdmi_Output\<close> and \<open>Video_Port_Aidl\<close>: \<open>hal/dVideoPortAIDLImpl.cpp\<close>, the same forty requests on the
    HDMI outputs of the AIDL HAL. \<open>Hdmi_Output\<close> has the part that opens, finds and closes outputs.
  \<^item> \<open>C_Float\<close> and the seven audio theories: \<open>hal/dAudioImpl.h\<close> and \<open>Audio.cpp\<close>. \<open>Audio_Base\<close> has the
    state \<open>au_state\<close> (file-scope variables and members), the HAL calls and the contract \<open>au_keeps\<close>;
    \<open>Audio_Level\<close> the levels, ducking, delays and the thread that writes levels;
    \<open>Audio_Stereo\<close> the stereo modes; \<open>Audio_Settings\<close> the other requests and the MS12 profiles
    (\<open>Audio_Profile\<close>: their properties); \<open>Audio_Init\<close> start-up and shutdown (\<open>Audio_Start\<close>: what is
    restored); \<open>Audio_Requests\<close> the methods of \<open>Audio.cpp\<close> and whole histories. Floats are binary32
    numbers with the rounding written out.
  \<^item> \<open>Hal_Base\<close>: the HAL, the store and the living object that \<open>Video_Device\<close> and \<open>Hdmi_In\<close> share.
  \<^item> \<open>Video_Device\<close>, \<open>Hdmi_In\<close>, \<open>Display\<close>: \<open>hal/dVideoDeviceImpl.h\<close>, \<open>hal/dHdmiInImpl.h\<close>,
    \<open>hal/dDisplayImpl.h\<close>, each with its forwarding class and COM layer, and the history of one process
    in which objects are created and destroyed, clients make requests and the HAL reports events.
    \<open>Display\<close> hands a hot plug to \<open>Video_Port\<close> and \<open>Hdmi_Status\<close>, and asks \<open>HAL_Config\<close>.
  \<^item> \<open>Composite_In\<close>, \<open>Host_Info\<close>: \<open>hal/dCompositeInImpl.h\<close> and \<open>hal/dHostImpl.h\<close>, in the same way.
  \<^item> \<open>Video_Port_Com\<close>, \<open>Audio_Com\<close>: \<open>DeviceSettingsVideoPortImplementation.cpp\<close> (with the jobs it leaves
    to the worker pool) and \<open>DeviceSettingsAudioImplementation.cpp\<close>, each over its platform and a
    notification registry.
  \<^item> \<open>Device_Settings\<close>: \<open>DeviceSettingsImplementation.cpp\<close>. The record \<open>ds_imp\<close> holds the state of every
    component; a request enters its component with the shared store of settings and takes it back
    (\<open>enter_fpd\<close>, \<open>leave_fpd\<close> and so on). Construction, destruction, \<open>Configure\<close>, the delegation of each
    interface and the consolidated configuration; \<open>ds_run\<close> is the history of one process.
  \<^item> \<open>Plugin_Shell\<close>: \<open>DeviceSettings.cpp\<close>, the plugin object: \<open>Initialize\<close>, \<open>Deinitialize\<close> and
    \<open>Deactivated\<close> with the references on every interface and the subscriptions.
  \<^item> this theory: the power listener over the video port platform.

  How the outside is modelled. The HAL, the file system, the other plugins and the scheduler are
  parameters. A HAL call is appended to a trace and answered by a function of the calls made
  before, so a theorem over all such functions is a theorem over every HAL; nothing is assumed
  of the HAL except where a theorem says so. A failing HAL call leaves its out parameter as it
  was. Enumerators of headers outside the repository are constructors or named parameters. What
  C++ leaves undefined (an index out of an array, a throw out of a thread) is the outcome \<open>UB\<close>.

  What the groups of lemmas show. For the store: its maps stay sorted, an update is read back,
  survives a restart when the disk takes every write, and is lost, with every other setting,
  when the rewrite fails. For the registry: dispatch calls exactly the living subscribers and
  the reference counts balance. For the front panel: the HAL is never used before its
  initialisation succeeded, but for the panel mode; settings come back after a restart. For the
  controller: it only sets a resolution both sides support; in emergency mode it sets audio
  pass-through only for calls that were under way before, and one schedule in which it does; two
  schedules in which an event is lost. For the power part: ports follow the power state (audio
  ports only into off), transitions are handled in order and all of them and are final but for a
  check caught between its test and its switch, the threads end on shutdown. For the video ports: when a
  resolution or a colour depth reaches the HAL and which one, that requests that read change
  nothing, that a resolution survives a restart, that the remembered HDMI and component
  resolutions stay compatible; on the AIDL HAL, that every output opened is closed, and that a
  resolution survives a restart. For audio: what reaches the HAL during ducking, which levels are
  written and restored, how the level thread ends, which settings follow a profile and which are
  lost at a restart, that queries only read. For the video device, HDMI input and display: over which
  histories events run only callbacks of living objects, what a restart restores, how long a read
  EDID is kept, which resolutions a client is offered, which requests leave an array or a buffer.
  For composite input and host: which histories run a callback of an object that is gone, and when
  the answer of the host stays in bounds. For the COM layers: that a resolution by name reaches the
  platform with its row of the tables, who is told of a change and when, which histories use an
  object that is gone, which references on clients are left. For the plugin object: every reference
  taken is given back. Across components: the consolidated configuration is that of the first call;
  the plugin can be created once in a process; the baseband port that switches HDMI off.

  Bounds. Loops with a limit in the code are recursions over that limit: 20 attempts to
  initialise the front panel, 12 retries of the boot-loader pattern and 60 checks of the reboot
  reason (together with one port switch at most 73 rounds of the threads a start-up leaves). Property words are at most 1023 characters, as in the
  \<open>fscanf\<close> format. There is no other fuel: the remaining loops end by structural recursion
  or a proved measure, and the threads are step relations.

  Not modelled: the AIDL back ends of the video device and the composite inputs (one proxy call for
  almost every method; the video device opens its outputs with the code of \<open>Hdmi_Output\<close>), the
  service manager check, logging, telemetry, the registration macros of Thunder.
  Within the modelled parts: log output, the \<open>Dump\<close> functions, conversions no method calls, and the
  cached configurations of the COM layers, which are never filled and never asked for. In
  \<open>Device_Settings\<close> a request can change only the record of its component and the store, which is how
  the state is divided, and the threads of the components are interleaved at whole requests; the worker jobs of
  the video ports and the threads of the controller and the power listener are steps only of
  \<open>Video_Port_Com\<close>, \<open>DS_Controller\<close> and \<open>Pwr_Listener\<close>. The construction and destruction of an object
  are single steps of a history; where the source lets an event in between (the display), a lemma
  says what it does (\<open>event_before_callbacks\<close>).
\<close>

section \<open>Across components: the power listener and the video ports\<close>

text \<open>
  The power listener asks the plugin for a port's handle by type and index; the request ends in
  the video port platform.
\<close>

definition port_answer :: "vp_env \<Rightarrow> vp_state \<Rightarrow> VideoPortType \<Rightarrow> int \<Rightarrow> coreErr \<times> int option" where
  "port_answer ve vs t i = (let (r, out, vs') = VideoPort_call ve True (V_GetVideoPort t i) vs
     in (r, case out of Some (VInt h) \<Rightarrow> Some h | _ \<Rightarrow> None))"

lemma port_answer_handle:
  assumes "port_answer ve vs t i = (ERROR_NONE, Some h)"
  shows "h = to32 (ve_out ve (vs_trace vs) (CGetPort (to_ds_port t) i))"
  using assms
  by (auto simp: port_answer_def VideoPort_call_def GetVideoPort_vp_def vp_query_def vp_hal_def split: if_splits)

text \<open>
  C38. A baseband port switches HDMI off in standby. The platform has no handle of its own for
  baseband and RF ports: asked for one, it answers with the HDMI port of the same index. So
  when a standby state is entered on a board that has an HDMI port marked to stay on and a
  baseband or RF port that is not marked, the HDMI port is switched off all the same.
\<close>

theorem standby_baseband_turns_hdmi_off:
  fixes ps :: PowerState
  assumes "av_platform e gv ga a0" and "av_configured s"
    and "\<forall>t ty i. ev_videoPort e t ty i = port_answer ve (vs t) (dec ty) i"
    and "\<forall>t q i. ve_out ve t (CGetPort q i) = hal q i"
    and "p \<in> set (av_videoPorts s)" and "dec (ve_type p) = VideoPortType.VP_HDMI"
    and "q \<in> set (av_videoPorts s)" and "dec (ve_type q) \<in> {VideoPortType.VP_BB, VideoPortType.VP_RF}" and "ve_index q = ve_index p"
    and "GetVideoPortStandbySetting (ev_nameLength e) (av_standby s) (ve_name p)"
    and "\<not> GetVideoPortStandbySetting (ev_nameLength e) (av_standby s) (ve_name q)"
    and "ps \<notin> {POWER_STATE_ON, POWER_STATE_OFF}"
  shows "\<not> fold video_hw (av_new s (SetAVPortsPowerState e ps s)) vm (to32 (hal DSVP_HDMI (ve_index p)))"
proof -
  have gv: "gv ty i = to32 (hal (to_ds_port (dec ty)) i)" for ty i
  proof -
    have "port_answer ve (vs []) (dec ty) i = (ERROR_NONE, Some (gv ty i))"
      using assms(1,3) by (simp add: av_platform_def)
    then show ?thesis using port_answer_handle assms(4) by fastforce
  qed
  then have "gv (ve_type q) (ve_index q) = to32 (hal DSVP_HDMI (ve_index p))"
    using assms(8,9) by auto
  moreover have "video_touched (ev_nameLength e) ps (av_standby s) q"
    using assms(11) by (simp add: video_touched_def)
  ultimately have "\<exists>q \<in> set (av_videoPorts s). video_touched (ev_nameLength e) ps (av_standby s) q
      \<and> gv (ve_type q) (ve_index q) = to32 (hal DSVP_HDMI (ve_index p))" using assms(7) by blast
  then show ?thesis
    using assms(12) by (simp add: SetAVPorts_hw [OF assms(1,2)] fold_video_calls)
qed

text \<open>The example platform: HDMI0 (type 6) stays on in standby, BB0 (type 7) does not.\<close>

definition ex_dec :: "int \<Rightarrow> VideoPortType" where
  "ex_dec ty = (if ty = 6 then VideoPortType.VP_HDMI else if ty = 7 then VideoPortType.VP_BB else VideoPortType.VP_other ty)"

definition ex_board :: av_env where
  "ex_board = ex_av\<lparr>ev_videoPort := \<lambda>_ ty i. port_answer (ex_vp True) ex_vp_state (ex_dec ty) i\<rparr>"

definition ex_board_state :: av_state where
  "ex_board_state = av_initial\<lparr>av_deviceSettings := True,
     av_videoPorts := [\<lparr>ve_type = 6, ve_index = 0, ve_typeName = ''HDMI'', ve_name = ''HDMI0''\<rparr>,
                       \<lparr>ve_type = 7, ve_index = 0, ve_typeName = ''BB'', ve_name = ''BB0''\<rparr>],
     av_standby := [\<lparr>sv_port = ''HDMI0'', sv_isEnabled = True\<rparr>]\<rparr>"

theorem standby_baseband_turns_hdmi_off_witness:
  "\<not> fold video_hw (av_new ex_board_state (SetAVPortsPowerState ex_board POWER_STATE_STANDBY ex_board_state))
     (\<lambda>_. True) (to32 7)"
proof -
  let ?gv = "\<lambda>ty i. to32 (ve_out (ex_vp True) [] (CGetPort (to_ds_port (ex_dec ty)) i))"
  have "to32 7 = 7" "to32 9 = 9" by (simp_all add: to32_id)
  then have 1: "av_platform ex_board ?gv (\<lambda>_ _. 2) (\<lambda>_. True)"
    by (auto simp: av_platform_def ex_board_def ex_av_def port_answer_def VideoPort_call_def GetVideoPort_vp_def
        vp_query_def vp_hal_def ex_vp_def)
  have 2: "av_configured ex_board_state" by (simp add: av_configured_def ex_board_state_def)
  have 3: "\<forall>t ty i. ev_videoPort ex_board t ty i = port_answer (ex_vp True) ex_vp_state (ex_dec ty) i"
    by (simp add: ex_board_def)
  have 4: "\<forall>t q i. ve_out (ex_vp True) t (CGetPort q i) = (if q = DSVP_HDMI then 7 else 9)" by (simp add: ex_vp_def)
  have n: "GetVideoPortStandbySetting 16 (av_standby ex_board_state) ''HDMI0''"
    "\<not> GetVideoPortStandbySetting 16 (av_standby ex_board_state) ''BB0''"
    by (simp_all add: GetVideoPortStandbySetting_def ex_board_state_def port_matches_def strncasecmp0_def tolower_c_def)
  have len: "ev_nameLength ex_board = 16" by (simp add: ex_board_def ex_av_def)
  show ?thesis
    using standby_baseband_turns_hdmi_off [OF 1 2 3 4, of "av_videoPorts ex_board_state ! 0"
        "av_videoPorts ex_board_state ! 1" POWER_STATE_STANDBY "\<lambda>_. True"] n
    by (simp add: len) (simp add: ex_board_state_def ex_dec_def)
qed

end
